(* ===== verification/Base.thy ===== *)
theory Base
  imports Main "HOL-Library.Monad_Syntax" "HOL-Library.Char_ord" "HOL-Library.List_Lexorder"
begin

text \<open>
  Prelude of the development: results of fallible code as sums, the JavaScript string
  operations the sources use, and the list lemmas the components share.

  JavaScript strings are modelled as \<^typ>\<open>string\<close>: a list of code units, each below 256.
  \<open>length\<close> is then the JavaScript \<open>length\<close>, and the order on strings is the order of
  code units that \<open><\<close> and \<open>>\<close> use. Strings with code units from 256 on are outside the
  model.
\<close>

named_theorems run_simps \<open>equations that run a fallible computation\<close>
named_theorems rx_simps \<open>unfoldings of the character classes and patterns\<close>

section \<open>Results of fallible code\<close>

text \<open>A call that throws returns \<open>Inl\<close> of what it throws, else \<open>Inr\<close> of its value.\<close>

fun ebind :: "'e + 'a \<Rightarrow> ('a \<Rightarrow> 'e + 'b) \<Rightarrow> 'e + 'b" where
  "ebind (Inl e) f = Inl e"
| "ebind (Inr x) f = f x"

definition ensure :: "bool \<Rightarrow> 'e \<Rightarrow> 'e + unit" where
  "ensure b e = (if b then Inr () else Inl e)"

definition of_option :: "'e \<Rightarrow> 'a option \<Rightarrow> 'e + 'a" where
  "of_option e x = (case x of None \<Rightarrow> Inl e | Some y \<Rightarrow> Inr y)"

lemma ensure_eq_Inr [simp, run_simps]: "ensure b e = Inr u \<longleftrightarrow> b"
  by (simp add: ensure_def)

lemma ensure_eq_Inl [simp, run_simps]: "ensure b e = Inl e' \<longleftrightarrow> \<not> b \<and> e' = e"
  by (auto simp: ensure_def)

lemma ensure_True [simp]: "ensure True e = Inr ()"
  by (simp add: ensure_def)

lemma ensure_False [simp]: "ensure False e = Inl e"
  by (simp add: ensure_def)

lemma of_option_eq_Inr [simp, run_simps]: "of_option e x = Inr y \<longleftrightarrow> x = Some y"
  by (simp add: of_option_def split: option.split)

lemma of_option_eq_Inl [simp, run_simps]: "of_option e x = Inl e' \<longleftrightarrow> x = None \<and> e' = e"
  by (auto simp: of_option_def split: option.split)

lemma of_option_simps [simp]: "of_option e None = Inl e" "of_option e (Some y) = Inr y"
  by (simp_all add: of_option_def)

lemma ebind_eq_Inr [run_simps]: "ebind m f = Inr y \<longleftrightarrow> (\<exists>x. m = Inr x \<and> f x = Inr y)"
  by (cases m) auto

lemma ebind_eq_Inl [run_simps]:
  "ebind m f = Inl e \<longleftrightarrow> m = Inl e \<or> (\<exists>x. m = Inr x \<and> f x = Inl e)"
  by (cases m) auto

lemma ebind_assoc: "ebind (ebind m f) g = ebind m (\<lambda>x. ebind (f x) g)"
  by (cases m) auto

lemma ebind_cong [fundef_cong]:
  "m = m' \<Longrightarrow> (\<And>x. m' = Inr x \<Longrightarrow> f x = f' x) \<Longrightarrow> ebind m f = ebind m' f'"
  by (cases m') auto

section \<open>Sets built from arrays\<close>

text \<open>\<open>new Set(xs).size\<close>.\<close>

definition js_set_size :: "'a list \<Rightarrow> nat" where
  "js_set_size xs = length (remdups xs)"

lemma js_set_size_eq [simp]: "js_set_size xs = length xs \<longleftrightarrow> distinct xs"
  by (simp add: js_set_size_def)

lemma js_set_size_eq' [simp]: "length xs = js_set_size xs \<longleftrightarrow> distinct xs"
  using js_set_size_eq [of xs] by argo

section \<open>Character classes and patterns\<close>

definition is_digit :: "char \<Rightarrow> bool" where
  "is_digit c \<longleftrightarrow> CHR ''0'' \<le> c \<and> c \<le> CHR ''9''"

definition is_lower :: "char \<Rightarrow> bool" where
  "is_lower c \<longleftrightarrow> CHR ''a'' \<le> c \<and> c \<le> CHR ''z''"

definition is_upper :: "char \<Rightarrow> bool" where
  "is_upper c \<longleftrightarrow> CHR ''A'' \<le> c \<and> c \<le> CHR ''Z''"

definition is_lower_hex :: "char \<Rightarrow> bool" where
  "is_lower_hex c \<longleftrightarrow> is_digit c \<or> (CHR ''a'' \<le> c \<and> c \<le> CHR ''f'')"

definition is_one_of :: "string \<Rightarrow> char \<Rightarrow> bool" where
  "is_one_of cs c \<longleftrightarrow> c \<in> set cs"

text \<open>
  Char order comparisons are decided by the code of the character, so a class test on a
  literal evaluates by \<open>simp\<close> with \<open>rx_simps\<close>.
\<close>

lemmas char_class_defs [rx_simps] =
  is_digit_def is_lower_def is_upper_def is_lower_hex_def is_one_of_def

text \<open>An anchored pattern of single-character classes, as in \<open>/^[0-9a-f]{8}-...$/\<close>.\<close>

fun match_seq :: "(char \<Rightarrow> bool) list \<Rightarrow> string \<Rightarrow> bool" where
  "match_seq [] s \<longleftrightarrow> s = []"
| "match_seq (p # ps) [] \<longleftrightarrow> False"
| "match_seq (p # ps) (c # cs) \<longleftrightarrow> p c \<and> match_seq ps cs"

text \<open>An anchored pattern \<open>/^p[q]{lo,hi}$/\<close>: one leading class and a bounded repetition.\<close>

fun match_lead :: "(char \<Rightarrow> bool) \<Rightarrow> (char \<Rightarrow> bool) \<Rightarrow> nat \<Rightarrow> nat \<Rightarrow> string \<Rightarrow> bool" where
  "match_lead p q lo hi [] \<longleftrightarrow> False"
| "match_lead p q lo hi (c # cs) \<longleftrightarrow> p c \<and> lo \<le> length cs \<and> length cs \<le> hi \<and> list_all q cs"

text \<open>\<open>/^[0-9a-f]{n}$/\<close>.\<close>

definition is_hex_string :: "nat \<Rightarrow> string \<Rightarrow> bool" where
  "is_hex_string n s \<longleftrightarrow> length s = n \<and> list_all is_lower_hex s"

lemma match_seq_length: "match_seq ps s \<Longrightarrow> length s = length ps"
  by (induction ps s rule: match_seq.induct) auto

lemma match_seq_append:
  "match_seq (ps @ qs) s \<longleftrightarrow>
     match_seq ps (take (length ps) s) \<and> match_seq qs (drop (length ps) s)"
proof (induction ps arbitrary: s)
  case Nil
  then show ?case by simp
next
  case (Cons p ps)
  then show ?case by (cases s) auto
qed

lemma match_seq_nth: "match_seq ps s \<Longrightarrow> i < length ps \<Longrightarrow> (ps ! i) (s ! i)"
proof (induction ps s arbitrary: i rule: match_seq.induct)
  case (3 p ps c cs)
  then show ?case by (cases i) auto
qed auto

lemma match_seq_list_all:
  assumes "match_seq ps s" and "\<And>p c. p \<in> set ps \<Longrightarrow> p c \<Longrightarrow> q c"
  shows "list_all q s"
  using assms by (induction ps s rule: match_seq.induct) auto

lemma list_all_butlast_last:
  "xs \<noteq> [] \<Longrightarrow> list_all P (butlast xs) \<Longrightarrow> P (last xs) \<Longrightarrow> list_all P xs"
  by (cases xs rule: rev_cases) auto

text \<open>The last separator splits a list in one way.\<close>

lemma append_sep_inj:
  assumes "xs @ c # ys = xs' @ c # ys'" and "c \<notin> set ys" and "c \<notin> set ys'"
  shows "xs = xs' \<and> ys = ys'"
  using assms by (auto simp: append_eq_append_conv2 append_eq_Cons_conv Cons_eq_append_conv)

section \<open>String operations\<close>

text \<open>\<open>s.split(d)\<close> for a one-character separator.\<close>

fun js_split :: "char \<Rightarrow> string \<Rightarrow> string list" where
  "js_split d [] = [[]]"
| "js_split d (c # cs) =
     (if c = d then [] # js_split d cs
      else case js_split d cs of [] \<Rightarrow> [[c]] | w # ws \<Rightarrow> (c # w) # ws)"

text \<open>\<open>Buffer.byteLength(s, 'utf8')\<close>: code units from 128 on take two bytes.\<close>

fun utf8_length :: "string \<Rightarrow> nat" where
  "utf8_length [] = 0"
| "utf8_length (c # cs) = (if (of_char c :: nat) < 128 then 1 else 2) + utf8_length cs"

text \<open>\<open>value.slice(i, j)\<close> for \<open>0 \<le> i \<le> j\<close>.\<close>

definition js_slice :: "nat \<Rightarrow> nat \<Rightarrow> string \<Rightarrow> string" where
  "js_slice i j s = drop i (take j s)"

text \<open>\<open>String(n)\<close> for a natural number.\<close>

fun nat_text :: "nat \<Rightarrow> string" where
  "nat_text n =
     (if n < 10 then [char_of (48 + n)] else nat_text (n div 10) @ [char_of (48 + n mod 10)])"

declare nat_text.simps [simp del]

lemma js_split_not_Nil [simp]: "js_split d s \<noteq> []"
  by (induction s) (auto split: list.splits)

lemma js_split_no_sep: "w \<in> set (js_split d s) \<Longrightarrow> d \<notin> set w"
proof (induction s arbitrary: w)
  case Nil
  then show ?case by simp
next
  case (Cons c cs)
  then show ?case by (fastforce split: if_splits list.splits)
qed

lemma js_split_chars: "c \<in> set s \<Longrightarrow> c \<noteq> d \<Longrightarrow> \<exists>w \<in> set (js_split d s). c \<in> set w"
proof (induction s)
  case Nil
  then show ?case by simp
next
  case (Cons a cs)
  then show ?case by (fastforce split: list.splits)
qed

lemma js_split_length:
  "sum_list (map length (js_split d s)) + length (js_split d s) = length s + 1"
proof (induction s)
  case Nil
  then show ?case by simp
next
  case (Cons c cs)
  then show ?case by (cases "js_split d cs") auto
qed

lemma utf8_length_bounds: "length s \<le> utf8_length s \<and> utf8_length s \<le> 2 * length s"
  by (induction s) auto

lemma utf8_length_append [simp]: "utf8_length (s @ t) = utf8_length s + utf8_length t"
  by (induction s) auto

section \<open>Safe integers\<close>

definition is_safe_integer :: "int \<Rightarrow> bool" where
  "is_safe_integer n \<longleftrightarrow> \<bar>n\<bar> \<le> 2 ^ 53 - 1"

end
