(* ===== verification/Errors.thy ===== *)
theory Errors
  imports Base
begin

text \<open>
  The exceptions of the modelled packages. Each package throws its own error class with a
  stable code; callers distinguish the classes with \<open>instanceof\<close> and read \<open>code\<close>, and
  never read the message, so a class with its code is the whole value. \<open>ApiError\<close> is an HTTP
  exception of the API: its status and the code of its body; \<open>ConfigurationError\<close> is the
  configuration error of a worker, its class and the field that was refused.
\<close>

datatype gateway_code =
    invalid_authorization | invalid_event | invalid_operation | invalid_signature
  | idempotency_conflict | idempotency_unavailable | non_canonical_payload
  | payload_too_large | policy_denied | signer_unavailable | signer_mismatch
  | transaction_mismatch

datatype projector_code =
    cursor_conflict | database_unavailable | invalid_source_response | irreversible_fork
  | reorg_too_deep | source_divergence | source_unavailable

datatype publisher_code =
    configuration_invalid | publisher_database_unavailable | invalid_candidate
  | publisher_payload_too_large | publication_failed

datatype exn =
    HiveGatewayError gateway_code
  | HafProjectorError projector_code
  | MatchPublisherError publisher_code
  | ApiError nat string
  | RetryableProvisioningError string
  | ConfigurationError string string
  | OtherError string

text \<open>The string each code is, as the log lines and the journals store it.\<close>

fun gateway_code_name :: "gateway_code \<Rightarrow> string" where
  "gateway_code_name invalid_authorization = ''invalid_authorization''"
| "gateway_code_name invalid_event = ''invalid_event''"
| "gateway_code_name invalid_operation = ''invalid_operation''"
| "gateway_code_name invalid_signature = ''invalid_signature''"
| "gateway_code_name idempotency_conflict = ''idempotency_conflict''"
| "gateway_code_name idempotency_unavailable = ''idempotency_unavailable''"
| "gateway_code_name non_canonical_payload = ''non_canonical_payload''"
| "gateway_code_name payload_too_large = ''payload_too_large''"
| "gateway_code_name policy_denied = ''policy_denied''"
| "gateway_code_name signer_unavailable = ''signer_unavailable''"
| "gateway_code_name signer_mismatch = ''signer_mismatch''"
| "gateway_code_name transaction_mismatch = ''transaction_mismatch''"

fun publisher_code_name :: "publisher_code \<Rightarrow> string" where
  "publisher_code_name configuration_invalid = ''configuration_invalid''"
| "publisher_code_name publisher_database_unavailable = ''database_unavailable''"
| "publisher_code_name invalid_candidate = ''invalid_candidate''"
| "publisher_code_name publisher_payload_too_large = ''payload_too_large''"
| "publisher_code_name publication_failed = ''publication_failed''"

lemma gateway_code_name_inj: "gateway_code_name c = gateway_code_name d \<Longrightarrow> c = d"
  by (cases c; cases d) simp_all

end
