(* ===== verification/Host.thy ===== *)
theory Host
  imports Errors "HOL-Library.Finite_Map"
begin

text \<open>
  JSON values and the functions the code takes from outside the repository: the
  \<open>canonicalize\<close> package, zod's built-in format checks, and the host's \<open>JSON.parse\<close>,
  \<open>Date.parse\<close>, \<open>Date.prototype.toISOString\<close>, \<open>URL\<close> and SHA-256. They are the fields of
  a record that every definition using one takes as its argument; what a theorem needs of
  them is a hypothesis of that theorem.
\<close>

section \<open>JSON values\<close>

text \<open>
  An object is an unordered map from property names to values: schema validation and
  canonical serialization do not depend on property order. \<open>JFloat\<close> is a number for
  which \<open>Number.isInteger\<close> is false.
\<close>

datatype json =
    JNull
  | JBool bool
  | JNum int
  | JFloat string
  | JStr string
  | JArr "json list"
  | JObj "(string, json) fmap"

text \<open>The object literal \<open>{k1: v1, ..., kn: vn}\<close>.\<close>

definition props :: "(string \<times> json) list \<Rightarrow> (string, json) fmap" where
  "props kvs = fmap_of_list kvs"

definition jobj :: "(string \<times> json) list \<Rightarrow> json" where
  "jobj kvs = JObj (props kvs)"

fun jstrings :: "string list \<Rightarrow> json" where
  "jstrings ss = JArr (map JStr ss)"

section \<open>Functions from outside the repository\<close>

record url =
  url_protocol :: string
  url_username :: string
  url_password :: string
  url_hostname :: string
  url_pathname :: string
  url_search :: string
  url_hash :: string
  url_href :: string

record host =
  canonicalize :: "json \<Rightarrow> string option"
  json_parse :: "string \<Rightarrow> json option"
  sha256_hex :: "string \<Rightarrow> string"
  date_parse :: "string \<Rightarrow> int option"
  to_iso_string :: "int \<Rightarrow> string"
  zod_datetime :: "string \<Rightarrow> bool"
  zod_url :: "string \<Rightarrow> bool"
  parse_url :: "string \<Rightarrow> url option"

text \<open>
  Fields: \<open>canonicalize\<close> (the package's default export, \<open>None\<close> for \<open>undefined\<close>),
  \<open>json_parse\<close> (\<open>JSON.parse\<close>, \<open>None\<close> when it throws), \<open>sha256_hex\<close>
  (\<open>createHash('sha256').update(v).digest('hex')\<close>), \<open>date_parse\<close> (\<open>Date.parse\<close> in
  milliseconds, \<open>None\<close> for \<open>NaN\<close>), \<open>to_iso_string\<close> (\<open>toISOString\<close> of a valid date),
  \<open>zod_datetime\<close> (\<open>z.string().datetime({offset: true})\<close>), \<open>zod_url\<close>
  (\<open>z.string().url()\<close>), \<open>parse_url\<close> (\<open>new URL(v)\<close>, \<open>None\<close> when it throws).
\<close>

section \<open>Comparisons of dates\<close>

text \<open>Every comparison with \<open>NaN\<close> is false.\<close>

fun nan_less :: "int option \<Rightarrow> int option \<Rightarrow> bool" where
  "nan_less (Some a) (Some b) = (a < b)"
| "nan_less _ _ = False"

fun nan_le :: "int option \<Rightarrow> int option \<Rightarrow> bool" where
  "nan_le (Some a) (Some b) = (a \<le> b)"
| "nan_le _ _ = False"

fun nan_eq :: "int option \<Rightarrow> int option \<Rightarrow> bool" where
  "nan_eq (Some a) (Some b) = (a = b)"
| "nan_eq _ _ = False"

lemma nan_less_Some [simp]: "nan_less x y \<longleftrightarrow> (\<exists>a b. x = Some a \<and> y = Some b \<and> a < b)"
  by (cases x; cases y) auto

lemma nan_le_Some [simp]: "nan_le x y \<longleftrightarrow> (\<exists>a b. x = Some a \<and> y = Some b \<and> a \<le> b)"
  by (cases x; cases y) auto

lemma nan_eq_Some [simp]: "nan_eq x y \<longleftrightarrow> (\<exists>a. x = Some a \<and> y = Some a)"
  by (cases x; cases y) auto

text \<open>\<open>date.toISOString()\<close>, which throws beyond 100 million days from the epoch.\<close>

definition toISOString :: "host \<Rightarrow> int \<Rightarrow> exn + string" where
  "toISOString H t =
     ebind (ensure (\<bar>t\<bar> \<le> 8640000000000000) (OtherError ''RangeError'')) (\<lambda>_.
     Inr (to_iso_string H t))"

section \<open>Canonical JSON\<close>

text \<open>\<open>canonicalJson\<close> and \<open>parseJson\<close> of the gateway package.\<close>

definition canonicalJson :: "host \<Rightarrow> json \<Rightarrow> exn + string" where
  "canonicalJson H v = of_option (HiveGatewayError invalid_operation) (canonicalize H v)"

definition parseJson :: "host \<Rightarrow> string \<Rightarrow> exn + json" where
  "parseJson H t = of_option (HiveGatewayError invalid_event) (json_parse H t)"

text \<open>
  What RFC 8785 promises of one value: it is serialized, and parsing the text gives the
  value back. Theorems that need it state it for the value they are about.
\<close>

definition codec_ok :: "host \<Rightarrow> json \<Rightarrow> bool" where
  "codec_ok H v \<longleftrightarrow>
     (case canonicalize H v of None \<Rightarrow> False | Some t \<Rightarrow> json_parse H t = Some v)"

lemma codec_okE:
  assumes "codec_ok H v"
  obtains t where "canonicalize H v = Some t" and "json_parse H t = Some v"
  using assms by (auto simp: codec_ok_def split: option.splits)

section \<open>Reading objects\<close>

text \<open>
  \<open>z.strictObject({...})\<close>: an object with every required key and no key outside the
  required and optional ones.
\<close>

definition strict_object :: "string list \<Rightarrow> string list \<Rightarrow> json \<Rightarrow> (string, json) fmap option" where
  "strict_object req opt v =
     (case v of
        JObj m \<Rightarrow>
          (if list_all (\<lambda>k. fmlookup m k \<noteq> None) req \<and>
              fBall (fmdom m) (\<lambda>k. k \<in> set (req @ opt))
           then Some m else None)
      | _ \<Rightarrow> None)"

text \<open>A property of a given primitive type.\<close>

fun as_string :: "json \<Rightarrow> string option" where
  "as_string (JStr s) = Some s"
| "as_string _ = None"

fun as_int :: "json \<Rightarrow> int option" where
  "as_int (JNum n) = Some n"
| "as_int _ = None"

fun as_bool :: "json \<Rightarrow> bool option" where
  "as_bool (JBool b) = Some b"
| "as_bool _ = None"

fun as_array :: "json \<Rightarrow> json list option" where
  "as_array (JArr vs) = Some vs"
| "as_array _ = None"

definition get_prop :: "(json \<Rightarrow> 'a option) \<Rightarrow> (string, json) fmap \<Rightarrow> string \<Rightarrow> 'a option" where
  "get_prop f m k = Option.bind (fmlookup m k) f"

text \<open>An optional property: absent is \<open>Some None\<close>, present and ill-typed is \<open>None\<close>.\<close>

definition get_optional ::
  "(json \<Rightarrow> 'a option) \<Rightarrow> (string, json) fmap \<Rightarrow> string \<Rightarrow> 'a option option" where
  "get_optional f m k =
     (case fmlookup m k of None \<Rightarrow> Some None | Some v \<Rightarrow> map_option Some (f v))"

text \<open>An array whose every element reads.\<close>

fun read_all :: "(json \<Rightarrow> 'a option) \<Rightarrow> json list \<Rightarrow> 'a list option" where
  "read_all f [] = Some []"
| "read_all f (v # vs) =
     (case f v of None \<Rightarrow> None | Some x \<Rightarrow> map_option (Cons x) (read_all f vs))"

definition as_array_of :: "(json \<Rightarrow> 'a option) \<Rightarrow> json \<Rightarrow> 'a list option" where
  "as_array_of f v = Option.bind (as_array v) (read_all f)"

lemma read_all_map: "(\<And>x. x \<in> set xs \<Longrightarrow> f (g x) = Some x) \<Longrightarrow> read_all f (map g xs) = Some xs"
  by (induction xs) auto

lemma as_array_of_map [simp]:
  "(\<And>x. x \<in> set xs \<Longrightarrow> f (g x) = Some x) \<Longrightarrow> as_array_of f (JArr (map g xs)) = Some xs"
  by (simp add: as_array_of_def read_all_map)

lemma as_array_of_strings [simp]: "as_array_of as_string (jstrings ss) = Some ss"
  by simp

lemma strict_object_jobj:
  "strict_object req opt (jobj kvs) =
     (if list_all (\<lambda>k. k \<in> set (map fst kvs)) req \<and>
         list_all (\<lambda>k. k \<in> set (req @ opt)) (map fst kvs)
      then Some (props kvs) else None)"
  by (auto simp: strict_object_def jobj_def props_def list_all_iff fmlookup_of_list map_of_eq_None_iff
        fmdom_fmap_of_list fset_of_list.rep_eq)

lemma get_prop_of_list [simp]:
  "get_prop f (props kvs) k = Option.bind (map_of kvs k) f"
  by (simp add: get_prop_def props_def fmlookup_of_list)

lemma get_optional_of_list [simp]:
  "get_optional f (props kvs) k =
     (case map_of kvs k of None \<Rightarrow> Some None | Some v \<Rightarrow> map_option Some (f v))"
  by (simp add: get_optional_def props_def fmlookup_of_list)

end
