(* ===== verification/Protocol_Common.thy ===== *)
theory Protocol_Common
  imports Host
begin

text \<open>
  The string formats of \<open>protocol/common.ts\<close>: UUIDv7, SHA-256, Hive account names, fixed
  scores, controlled codes and HTTPS URLs, and what a string that passes one looks like.
\<close>

definition HIVE_CHAMELEON_APPLICATION_ID :: string where
  "HIVE_CHAMELEON_APPLICATION_ID = ''hive.chameleon''"

definition HIVE_CHAMELEON_MAX_PAYLOAD_BYTES :: nat where
  "HIVE_CHAMELEON_MAX_PAYLOAD_BYTES = 6 * 1024"

section \<open>UUIDv7 and hashes\<close>

text \<open>\<open>/^[0-9a-f]{8}-[0-9a-f]{4}-7[0-9a-f]{3}-[89ab][0-9a-f]{3}-[0-9a-f]{12}$/\<close>\<close>

definition uuid_v7_pattern :: "(char \<Rightarrow> bool) list" where
  "uuid_v7_pattern =
     replicate 8 is_lower_hex @ [is_one_of ''-''] @ replicate 4 is_lower_hex @
     [is_one_of ''-'', is_one_of ''7''] @ replicate 3 is_lower_hex @
     [is_one_of ''-'', is_one_of ''89ab''] @ replicate 3 is_lower_hex @
     [is_one_of ''-''] @ replicate 12 is_lower_hex"

definition uuidV7Schema :: "string \<Rightarrow> bool" where
  "uuidV7Schema s \<longleftrightarrow> match_seq uuid_v7_pattern s"

definition sha256Schema :: "string \<Rightarrow> bool" where
  "sha256Schema s \<longleftrightarrow> is_hex_string 64 s"

lemma uuid_v7_pattern_length: "length uuid_v7_pattern = 36"
  by (simp add: uuid_v7_pattern_def)

lemma uuidV7_length: "uuidV7Schema s \<Longrightarrow> length s = 36"
  by (auto simp: uuidV7Schema_def uuid_v7_pattern_length dest: match_seq_length)

text \<open>A UUIDv7 is made of lowercase hexadecimal digits and hyphens.\<close>

lemma uuidV7_chars: "uuidV7Schema s \<Longrightarrow> list_all (\<lambda>c. is_lower_hex c \<or> c = CHR ''-'') s"
  unfolding uuidV7Schema_def
  by (erule match_seq_list_all)
    (auto simp: uuid_v7_pattern_def is_one_of_def is_lower_hex_def is_digit_def)

text \<open>Every UUIDv7 has its hyphens at the same four places.\<close>

lemma uuidV7_hyphen:
  assumes "uuidV7Schema s" and "i \<in> {8, 13, 18, 23}"
  shows "s ! i = CHR ''-''"
proof -
  have "(uuid_v7_pattern ! i) (s ! i)"
    using assms by (intro match_seq_nth) (auto simp: uuidV7Schema_def uuid_v7_pattern_length)
  then show ?thesis
    using assms(2) by (auto simp: uuid_v7_pattern_def is_one_of_def nth_append nth_Cons')
qed

section \<open>Hive account names\<close>

text \<open>
  \<open>toLowerCase\<close> on code units below 256: the ASCII capitals and the Latin-1 capitals.
\<close>

definition js_lower_char :: "char \<Rightarrow> char" where
  "js_lower_char c =
     (let n = (of_char c :: nat) in
      if (65 \<le> n \<and> n \<le> 90) \<or> (192 \<le> n \<and> n \<le> 222 \<and> n \<noteq> 215) then char_of (n + 32) else c)"

definition toLowerCase :: "string \<Rightarrow> string" where
  "toLowerCase s = map js_lower_char s"

text \<open>\<open>/^[a-z][a-z0-9-]*[a-z0-9]$/\<close>\<close>

definition segment_pattern :: "string \<Rightarrow> bool" where
  "segment_pattern w \<longleftrightarrow>
     (case w of
        [] \<Rightarrow> False
      | c # cs \<Rightarrow>
          is_lower c \<and> cs \<noteq> [] \<and>
          list_all (\<lambda>x. is_lower x \<or> is_digit x \<or> x = CHR ''-'') (butlast cs) \<and>
          (is_lower (last cs) \<or> is_digit (last cs)))"

text \<open>\<open>segment.includes('--')\<close>\<close>

fun includes_double_hyphen :: "string \<Rightarrow> bool" where
  "includes_double_hyphen (a # b # cs) \<longleftrightarrow>
     (a = CHR ''-'' \<and> b = CHR ''-'') \<or> includes_double_hyphen (b # cs)"
| "includes_double_hyphen _ \<longleftrightarrow> False"

definition account_segment :: "string \<Rightarrow> bool" where
  "account_segment w \<longleftrightarrow> 3 \<le> length w \<and> segment_pattern w \<and> \<not> includes_double_hyphen w"

definition hiveAccountSchema :: "string \<Rightarrow> bool" where
  "hiveAccountSchema s \<longleftrightarrow>
     3 \<le> length s \<and> length s \<le> 16 \<and>
     (if s \<noteq> toLowerCase s then False
      else list_all account_segment (js_split (CHR ''.'') s))"

definition account_char :: "char \<Rightarrow> bool" where
  "account_char c \<longleftrightarrow> is_lower c \<or> is_digit c \<or> c = CHR ''-'' \<or> c = CHR ''.''"

lemma segment_pattern_chars:
  "segment_pattern w \<Longrightarrow> list_all (\<lambda>x. is_lower x \<or> is_digit x \<or> x = CHR ''-'') w"
proof (cases w)
  case (Cons c cs)
  assume "segment_pattern w"
  with Cons have "cs \<noteq> []" and c: "is_lower c"
    and "list_all (\<lambda>x. is_lower x \<or> is_digit x \<or> x = CHR ''-'') (butlast cs)"
    and "is_lower (last cs) \<or> is_digit (last cs)"
    by (auto simp: segment_pattern_def)
  then have "list_all (\<lambda>x. is_lower x \<or> is_digit x \<or> x = CHR ''-'') cs"
    by - (rule list_all_butlast_last, blast+)
  with Cons c show ?thesis by simp
qed simp

lemma hiveAccount_chars:
  assumes "hiveAccountSchema s"
  shows "list_all account_char s"
proof -
  have seg: "list_all account_segment (js_split (CHR ''.'') s)"
    using assms by (auto simp: hiveAccountSchema_def split: if_splits)
  have "account_char c" if "c \<in> set s" for c
  proof (cases "c = CHR ''.''")
    case True
    then show ?thesis by (simp add: account_char_def)
  next
    case False
    with that obtain w where "w \<in> set (js_split (CHR ''.'') s)" and c: "c \<in> set w"
      using js_split_chars by blast
    with seg have "segment_pattern w"
      by (auto simp: list_all_iff account_segment_def)
    with c show ?thesis
      by (auto dest!: segment_pattern_chars simp: list_all_iff account_char_def)
  qed
  then show ?thesis by (simp add: list_all_iff)
qed

text \<open>Sixteen characters leave room for at most four dotted segments.\<close>

lemma sum_length_ge: "list_all (\<lambda>w. n \<le> length w) ws \<Longrightarrow> n * length ws \<le> sum_list (map length ws)"
  by (induction ws) auto

lemma hiveAccount_segments:
  assumes "hiveAccountSchema s"
  shows "length (js_split (CHR ''.'') s) \<le> 4"
proof -
  let ?ws = "js_split (CHR ''.'') s"
  have "list_all account_segment ?ws" and len: "length s \<le> 16"
    using assms by (auto simp: hiveAccountSchema_def split: if_splits)
  then have "3 * length ?ws \<le> sum_list (map length ?ws)"
    by (intro sum_length_ge) (auto simp: list_all_iff account_segment_def)
  with js_split_length [of "CHR ''.''" s] len show ?thesis by arith
qed

section \<open>Scores, codes, URLs\<close>

text \<open>\<open>/^(0|[1-9][0-9]*)\.[0-9]{4}$/\<close>\<close>

definition fixedScoreSchema :: "string \<Rightarrow> bool" where
  "fixedScoreSchema s \<longleftrightarrow>
     6 \<le> length s \<and>
     (let whole = take (length s - 5) s; frac = drop (length s - 5) s in
      (whole = ''0'' \<or>
       (hd whole \<noteq> CHR ''0'' \<and> list_all is_digit whole)) \<and>
      match_seq ([is_one_of ''.''] @ replicate 4 is_digit) frac)"

text \<open>\<open>/^[a-z][a-z0-9_-]{1,63}$/\<close>\<close>

definition controlledCodeSchema :: "string \<Rightarrow> bool" where
  "controlledCodeSchema s \<longleftrightarrow>
     match_lead is_lower (\<lambda>c. is_lower c \<or> is_digit c \<or> is_one_of ''_-'' c) 1 63 s"

definition httpsUrlSchema :: "host \<Rightarrow> string \<Rightarrow> bool" where
  "httpsUrlSchema H s \<longleftrightarrow>
     zod_url H s \<and>
     (case parse_url H s of
        None \<Rightarrow> False
      | Some u \<Rightarrow> url_protocol u = ''https:'' \<and> url_username u = '''' \<and> url_password u = '''')"

definition isoTimestampSchema :: "host \<Rightarrow> string \<Rightarrow> bool" where
  "isoTimestampSchema H s \<longleftrightarrow> zod_datetime H s"

definition string_between :: "nat \<Rightarrow> nat \<Rightarrow> string \<Rightarrow> bool" where
  "string_between lo hi s \<longleftrightarrow> lo \<le> length s \<and> length s \<le> hi"

lemma controlledCode_length: "controlledCodeSchema s \<Longrightarrow> 2 \<le> length s \<and> length s \<le> 64"
  by (cases s) (auto simp: controlledCodeSchema_def)

lemma fixedScore_tail:
  assumes "fixedScoreSchema s"
  shows "s ! (length s - 5) = CHR ''.''"
proof -
  let ?frac = "drop (length s - 5) s"
  have "match_seq ([is_one_of ''.''] @ replicate 4 is_digit) ?frac" and len: "6 \<le> length s"
    using assms by (auto simp: fixedScoreSchema_def Let_def)
  then have "(([is_one_of ''.''] @ replicate 4 is_digit) ! 0) (?frac ! 0)"
    by (intro match_seq_nth) auto
  with len show ?thesis by (simp add: is_one_of_def)
qed

end
