(* ===== verification/Protocol_Events.thy ===== *)
theory Protocol_Events
  imports Protocol_Common
begin

text \<open>
  The event contract of \<open>protocol/match.ts\<close>, \<open>protocol/collectible.ts\<close> and
  \<open>protocol/events.ts\<close>: the events as records, their zod schemas (the shape as a reader
  from JSON, the refinements as predicates), and canonical serialization and parsing.
\<close>

section \<open>Enumerations\<close>

datatype player_role = Hider | Hunter
datatype outcome = Survived | Found | Converted | Hunter_Win | Hunter_Loss
datatype match_context = Normal | Tournament
datatype match_mode = Casual | Infection
datatype winning_side = Hiders | Hunters | No_Side
datatype collectible_kind =
  Badge | Weapon_Skin | Character_Material | Lobby_Emote | Profile_Frame | Victory_Effect

fun role_name :: "player_role \<Rightarrow> string" where
  "role_name Hider = ''hider''"
| "role_name Hunter = ''hunter''"

fun outcome_name :: "outcome \<Rightarrow> string" where
  "outcome_name Survived = ''survived''"
| "outcome_name Found = ''found''"
| "outcome_name Converted = ''converted''"
| "outcome_name Hunter_Win = ''hunter_win''"
| "outcome_name Hunter_Loss = ''hunter_loss''"

fun context_name :: "match_context \<Rightarrow> string" where
  "context_name Normal = ''normal''"
| "context_name Tournament = ''tournament''"

fun mode_name :: "match_mode \<Rightarrow> string" where
  "mode_name Casual = ''casual''"
| "mode_name Infection = ''infection''"

fun side_name :: "winning_side \<Rightarrow> string" where
  "side_name Hiders = ''hiders''"
| "side_name Hunters = ''hunters''"
| "side_name No_Side = ''none''"

fun kind_name :: "collectible_kind \<Rightarrow> string" where
  "kind_name Badge = ''badge''"
| "kind_name Weapon_Skin = ''weapon_skin''"
| "kind_name Character_Material = ''character_material''"
| "kind_name Lobby_Emote = ''lobby_emote''"
| "kind_name Profile_Frame = ''profile_frame''"
| "kind_name Victory_Effect = ''victory_effect''"

text \<open>\<open>z.enum([...])\<close>: the value whose name the string is.\<close>

definition enum_of :: "('a \<Rightarrow> string) \<Rightarrow> 'a list \<Rightarrow> json \<Rightarrow> 'a option" where
  "enum_of nm vs v = Option.bind (as_string v) (\<lambda>s. List.find (\<lambda>x. nm x = s) vs)"

definition as_role :: "json \<Rightarrow> player_role option" where
  "as_role = enum_of role_name [Hider, Hunter]"
definition as_outcome :: "json \<Rightarrow> outcome option" where
  "as_outcome = enum_of outcome_name [Survived, Found, Converted, Hunter_Win, Hunter_Loss]"
definition as_context :: "json \<Rightarrow> match_context option" where
  "as_context = enum_of context_name [Normal, Tournament]"
definition as_mode :: "json \<Rightarrow> match_mode option" where
  "as_mode = enum_of mode_name [Casual, Infection]"
definition as_side :: "json \<Rightarrow> winning_side option" where
  "as_side = enum_of side_name [Hiders, Hunters, No_Side]"
definition as_kind :: "json \<Rightarrow> collectible_kind option" where
  "as_kind = enum_of kind_name
     [Badge, Weapon_Skin, Character_Material, Lobby_Emote, Profile_Frame, Victory_Effect]"

lemma role_roundtrip [simp]: "as_role (JStr (role_name r)) = Some r"
  by (cases r) (simp_all add: as_role_def enum_of_def)

lemma outcome_roundtrip [simp]: "as_outcome (JStr (outcome_name oc)) = Some oc"
  by (cases oc) (simp_all add: as_outcome_def enum_of_def)

lemma context_roundtrip [simp]: "as_context (JStr (context_name cx)) = Some cx"
  by (cases cx) (simp_all add: as_context_def enum_of_def)

lemma mode_roundtrip [simp]: "as_mode (JStr (mode_name m)) = Some m"
  by (cases m) (simp_all add: as_mode_def enum_of_def)

lemma side_roundtrip [simp]: "as_side (JStr (side_name sd)) = Some sd"
  by (cases sd) (simp_all add: as_side_def enum_of_def)

lemma kind_roundtrip [simp]: "as_kind (JStr (kind_name k)) = Some k"
  by (cases k) (simp_all add: as_kind_def enum_of_def)

text \<open>\<open>z.literal(n)\<close> and \<open>z.literal(s)\<close>.\<close>

definition literal_int :: "int \<Rightarrow> json \<Rightarrow> unit option" where
  "literal_int n v = (if v = JNum n then Some () else None)"

definition literal_string :: "string \<Rightarrow> json \<Rightarrow> unit option" where
  "literal_string s v = (if v = JStr s then Some () else None)"

section \<open>Match results\<close>

record participant =
  pt_account :: string
  pt_initial_role :: player_role
  pt_final_role :: player_role
  pt_outcome :: outcome
  pt_score :: string

record discovery =
  ds_hunter :: string
  ds_hider :: string

record like_aggregate =
  lk_account :: string
  lk_received :: int

record match_result =
  mr_round_id :: string
  mr_completed_at :: string
  mr_context :: match_context
  mr_tournament_id :: "string option"
  mr_mode :: match_mode
  mr_result_schema :: string
  mr_scoring_rules :: string
  mr_map_id :: string
  mr_map_version_id :: string
  mr_map_version :: string
  mr_map_content_sha256 :: string
  mr_server_build :: string
  mr_server_protocol :: string
  mr_winning_side :: winning_side
  mr_winner_accounts :: "string list"
  mr_participants :: "participant list"
  mr_discoveries :: "discovery list"
  mr_survivors :: "string list"
  mr_likes :: "like_aggregate list"
  mr_result_sha256 :: string

definition read_participant :: "json \<Rightarrow> participant option" where
  "read_participant v = do {
     m \<leftarrow> strict_object [''account'', ''initial_role'', ''final_role'', ''outcome'', ''score''] [] v;
     account \<leftarrow> get_prop as_string m ''account'';
     initial_role \<leftarrow> get_prop as_role m ''initial_role'';
     final_role \<leftarrow> get_prop as_role m ''final_role'';
     oc \<leftarrow> get_prop as_outcome m ''outcome'';
     score \<leftarrow> get_prop as_string m ''score'';
     Some \<lparr>pt_account = account, pt_initial_role = initial_role, pt_final_role = final_role,
       pt_outcome = oc, pt_score = score\<rparr> }"

definition participant_json :: "participant \<Rightarrow> json" where
  "participant_json p = jobj
     [(''account'', JStr (pt_account p)), (''initial_role'', JStr (role_name (pt_initial_role p))),
      (''final_role'', JStr (role_name (pt_final_role p))),
      (''outcome'', JStr (outcome_name (pt_outcome p))), (''score'', JStr (pt_score p))]"

definition valid_participant :: "participant \<Rightarrow> bool" where
  "valid_participant p \<longleftrightarrow> hiveAccountSchema (pt_account p) \<and> fixedScoreSchema (pt_score p)"

definition read_discovery :: "json \<Rightarrow> discovery option" where
  "read_discovery v = do {
     m \<leftarrow> strict_object [''hunter'', ''hider''] [] v;
     hunter \<leftarrow> get_prop as_string m ''hunter'';
     hider \<leftarrow> get_prop as_string m ''hider'';
     Some \<lparr>ds_hunter = hunter, ds_hider = hider\<rparr> }"

definition discovery_json :: "discovery \<Rightarrow> json" where
  "discovery_json d = jobj [(''hunter'', JStr (ds_hunter d)), (''hider'', JStr (ds_hider d))]"

definition valid_discovery :: "discovery \<Rightarrow> bool" where
  "valid_discovery d \<longleftrightarrow> hiveAccountSchema (ds_hunter d) \<and> hiveAccountSchema (ds_hider d)"

definition read_like :: "json \<Rightarrow> like_aggregate option" where
  "read_like v = do {
     m \<leftarrow> strict_object [''account'', ''received''] [] v;
     account \<leftarrow> get_prop as_string m ''account'';
     received \<leftarrow> get_prop as_int m ''received'';
     Some \<lparr>lk_account = account, lk_received = received\<rparr> }"

definition like_json :: "like_aggregate \<Rightarrow> json" where
  "like_json l = jobj [(''account'', JStr (lk_account l)), (''received'', JNum (lk_received l))]"

definition valid_like :: "like_aggregate \<Rightarrow> bool" where
  "valid_like l \<longleftrightarrow> hiveAccountSchema (lk_account l) \<and> 0 \<le> lk_received l \<and> lk_received l \<le> 9"

lemma participant_roundtrip [simp]: "read_participant (participant_json p) = Some p"
  by (simp add: read_participant_def participant_json_def strict_object_jobj)

lemma discovery_roundtrip [simp]: "read_discovery (discovery_json d) = Some d"
  by (simp add: read_discovery_def discovery_json_def strict_object_jobj)

lemma like_roundtrip [simp]: "read_like (like_json l) = Some l"
  by (simp add: read_like_def like_json_def strict_object_jobj)

text \<open>The shape of \<open>matchResultSchema\<close>.\<close>

definition read_match_result :: "json \<Rightarrow> match_result option" where
  "read_match_result v = do {
     m \<leftarrow> strict_object
       [''round_id'', ''completed_at'', ''context'', ''mode'', ''result_schema'', ''scoring_rules'',
        ''map'', ''server'', ''winning_side'', ''winner_accounts'', ''participants'',
        ''discoveries'', ''survivors'', ''likes'', ''result_sha256''] [''tournament_id''] v;
     round_id \<leftarrow> get_prop as_string m ''round_id'';
     completed_at \<leftarrow> get_prop as_string m ''completed_at'';
     cx \<leftarrow> get_prop as_context m ''context'';
     tournament_id \<leftarrow> get_optional as_string m ''tournament_id'';
     mode \<leftarrow> get_prop as_mode m ''mode'';
     result_schema \<leftarrow> get_prop as_string m ''result_schema'';
     scoring_rules \<leftarrow> get_prop as_string m ''scoring_rules'';
     mm \<leftarrow> get_prop (strict_object
       [''map_id'', ''version_id'', ''version'', ''content_sha256''] []) m ''map'';
     map_id \<leftarrow> get_prop as_string mm ''map_id'';
     version_id \<leftarrow> get_prop as_string mm ''version_id'';
     version \<leftarrow> get_prop as_string mm ''version'';
     content_sha256 \<leftarrow> get_prop as_string mm ''content_sha256'';
     sm \<leftarrow> get_prop (strict_object [''build'', ''protocol''] []) m ''server'';
     build \<leftarrow> get_prop as_string sm ''build'';
     protocol \<leftarrow> get_prop as_string sm ''protocol'';
     side \<leftarrow> get_prop as_side m ''winning_side'';
     winners \<leftarrow> get_prop (as_array_of as_string) m ''winner_accounts'';
     participants \<leftarrow> get_prop (as_array_of read_participant) m ''participants'';
     discoveries \<leftarrow> get_prop (as_array_of read_discovery) m ''discoveries'';
     survivors \<leftarrow> get_prop (as_array_of as_string) m ''survivors'';
     likes \<leftarrow> get_prop (as_array_of read_like) m ''likes'';
     result_sha256 \<leftarrow> get_prop as_string m ''result_sha256'';
     Some \<lparr>mr_round_id = round_id, mr_completed_at = completed_at, mr_context = cx,
       mr_tournament_id = tournament_id, mr_mode = mode, mr_result_schema = result_schema,
       mr_scoring_rules = scoring_rules, mr_map_id = map_id, mr_map_version_id = version_id,
       mr_map_version = version, mr_map_content_sha256 = content_sha256,
       mr_server_build = build, mr_server_protocol = protocol, mr_winning_side = side,
       mr_winner_accounts = winners, mr_participants = participants,
       mr_discoveries = discoveries, mr_survivors = survivors, mr_likes = likes,
       mr_result_sha256 = result_sha256\<rparr> }"

definition match_result_json :: "match_result \<Rightarrow> json" where
  "match_result_json r = jobj
     ([(''round_id'', JStr (mr_round_id r)), (''completed_at'', JStr (mr_completed_at r)),
       (''context'', JStr (context_name (mr_context r))),
       (''mode'', JStr (mode_name (mr_mode r))),
       (''result_schema'', JStr (mr_result_schema r)),
       (''scoring_rules'', JStr (mr_scoring_rules r)),
       (''map'', jobj [(''map_id'', JStr (mr_map_id r)), (''version_id'', JStr (mr_map_version_id r)),
          (''version'', JStr (mr_map_version r)),
          (''content_sha256'', JStr (mr_map_content_sha256 r))]),
       (''server'', jobj [(''build'', JStr (mr_server_build r)),
          (''protocol'', JStr (mr_server_protocol r))]),
       (''winning_side'', JStr (side_name (mr_winning_side r))),
       (''winner_accounts'', jstrings (mr_winner_accounts r)),
       (''participants'', JArr (map participant_json (mr_participants r))),
       (''discoveries'', JArr (map discovery_json (mr_discoveries r))),
       (''survivors'', jstrings (mr_survivors r)),
       (''likes'', JArr (map like_json (mr_likes r))),
       (''result_sha256'', JStr (mr_result_sha256 r))] @
      (case mr_tournament_id r of None \<Rightarrow> [] | Some t \<Rightarrow> [(''tournament_id'', JStr t)]))"

lemma match_result_roundtrip [simp]: "read_match_result (match_result_json r) = Some r"
  by (cases "mr_tournament_id r")
    (simp_all add: read_match_result_def match_result_json_def strict_object_jobj)

text \<open>The field formats of \<open>matchResultSchema\<close>, and the checks of its \<open>superRefine\<close>.\<close>

definition match_result_formats :: "host \<Rightarrow> match_result \<Rightarrow> bool" where
  "match_result_formats H r \<longleftrightarrow>
     uuidV7Schema (mr_round_id r) \<and> isoTimestampSchema H (mr_completed_at r) \<and>
     (case mr_tournament_id r of None \<Rightarrow> True | Some t \<Rightarrow> uuidV7Schema t) \<and>
     controlledCodeSchema (mr_result_schema r) \<and> controlledCodeSchema (mr_scoring_rules r) \<and>
     uuidV7Schema (mr_map_id r) \<and> uuidV7Schema (mr_map_version_id r) \<and>
     string_between 1 32 (mr_map_version r) \<and> sha256Schema (mr_map_content_sha256 r) \<and>
     string_between 1 64 (mr_server_build r) \<and> controlledCodeSchema (mr_server_protocol r) \<and>
     list_all hiveAccountSchema (mr_winner_accounts r) \<and> length (mr_winner_accounts r) \<le> 10 \<and>
     list_all valid_participant (mr_participants r) \<and>
     1 \<le> length (mr_participants r) \<and> length (mr_participants r) \<le> 10 \<and>
     list_all valid_discovery (mr_discoveries r) \<and> length (mr_discoveries r) \<le> 45 \<and>
     list_all hiveAccountSchema (mr_survivors r) \<and> length (mr_survivors r) \<le> 10 \<and>
     list_all valid_like (mr_likes r) \<and> length (mr_likes r) \<le> 10 \<and>
     sha256Schema (mr_result_sha256 r)"

definition unique_accounts :: "string list \<Rightarrow> bool" where
  "unique_accounts accounts \<longleftrightarrow> js_set_size accounts = length accounts"

definition match_result_refined :: "match_result \<Rightarrow> bool" where
  "match_result_refined r \<longleftrightarrow>
     \<not> (mr_context r = Tournament \<and> mr_tournament_id r = None) \<and>
     \<not> (mr_context r = Normal \<and> mr_tournament_id r \<noteq> None) \<and>
     (let accounts = map pt_account (mr_participants r); among = (\<lambda>a. a \<in> set accounts) in
      js_set_size accounts = length accounts \<and>
      unique_accounts (mr_winner_accounts r) \<and> unique_accounts (mr_survivors r) \<and>
      unique_accounts (map lk_account (mr_likes r)) \<and>
      list_all among (mr_winner_accounts r) \<and> list_all among (mr_survivors r) \<and>
      list_all (\<lambda>l. among (lk_account l)) (mr_likes r) \<and>
      list_all (\<lambda>d. among (ds_hunter d) \<and> among (ds_hider d)) (mr_discoveries r)) \<and>
     \<not> (mr_winning_side r = No_Side \<and> length (mr_winner_accounts r) \<noteq> 0)"

definition valid_match_result :: "host \<Rightarrow> match_result \<Rightarrow> bool" where
  "valid_match_result H r \<longleftrightarrow> match_result_formats H r \<and> match_result_refined r"

section \<open>Match events\<close>

record match_batch =
  mb_event_id :: string
  mb_occurred_at :: string
  mb_batch_id :: string
  mb_period_start :: string
  mb_period_end :: string
  mb_publisher :: string
  mb_result_count :: int
  mb_results :: "match_result list"

record match_correction =
  mc_event_id :: string
  mc_occurred_at :: string
  mc_round_id :: string
  mc_original_batch_id :: string
  mc_original_event_id :: string
  mc_supersedes_event_id :: string
  mc_publisher :: string
  mc_reason_code :: string
  mc_replacement_result :: match_result

record match_invalidation =
  mi_event_id :: string
  mi_occurred_at :: string
  mi_round_id :: string
  mi_original_batch_id :: string
  mi_original_event_id :: string
  mi_supersedes_event_id :: string
  mi_publisher :: string
  mi_reason_code :: string

record collectible_issued =
  ci_event_id :: string
  ci_occurred_at :: string
  ci_collectible_id :: string
  ci_definition_id :: string
  ci_kind :: collectible_kind
  ci_owner :: string
  ci_issuer :: string
  ci_reason :: string
  ci_metadata_uri :: string
  ci_metadata_sha256 :: string
  ci_payment_tx_id :: "string option"

record collectible_revoked =
  cr_event_id :: string
  cr_occurred_at :: string
  cr_collectible_id :: string
  cr_issued_event_id :: string
  cr_reason_code :: string

datatype event =
    Match_Results_Batch match_batch
  | Match_Result_Corrected match_correction
  | Match_Result_Invalidated match_invalidation
  | Collectible_Issued collectible_issued
  | Collectible_Revoked collectible_revoked

fun event_type :: "event \<Rightarrow> string" where
  "event_type (Match_Results_Batch _) = ''match_results_batch''"
| "event_type (Match_Result_Corrected _) = ''match_result_corrected''"
| "event_type (Match_Result_Invalidated _) = ''match_result_invalidated''"
| "event_type (Collectible_Issued _) = ''collectible_issued''"
| "event_type (Collectible_Revoked _) = ''collectible_revoked''"

fun event_id :: "event \<Rightarrow> string" where
  "event_id (Match_Results_Batch b) = mb_event_id b"
| "event_id (Match_Result_Corrected c) = mc_event_id c"
| "event_id (Match_Result_Invalidated i) = mi_event_id i"
| "event_id (Collectible_Issued c) = ci_event_id c"
| "event_id (Collectible_Revoked c) = cr_event_id c"

fun occurred_at :: "event \<Rightarrow> string" where
  "occurred_at (Match_Results_Batch b) = mb_occurred_at b"
| "occurred_at (Match_Result_Corrected c) = mc_occurred_at c"
| "occurred_at (Match_Result_Invalidated i) = mi_occurred_at i"
| "occurred_at (Collectible_Issued c) = ci_occurred_at c"
| "occurred_at (Collectible_Revoked c) = cr_occurred_at c"

text \<open>The batch's \<open>superRefine\<close>: count, period, membership in it, order, unique rounds.\<close>

definition results_in_order :: "host \<Rightarrow> match_result \<Rightarrow> match_result \<Rightarrow> bool" where
  "results_in_order H previous current \<longleftrightarrow>
     \<not> (nan_less (date_parse H (mr_completed_at current)) (date_parse H (mr_completed_at previous)) \<or>
        (nan_eq (date_parse H (mr_completed_at previous)) (date_parse H (mr_completed_at current)) \<and>
         mr_round_id previous > mr_round_id current))"

fun adjacent_all :: "('a \<Rightarrow> 'a \<Rightarrow> bool) \<Rightarrow> 'a list \<Rightarrow> bool" where
  "adjacent_all P (x # y # ys) \<longleftrightarrow> P x y \<and> adjacent_all P (y # ys)"
| "adjacent_all P _ \<longleftrightarrow> True"

definition match_batch_refined :: "host \<Rightarrow> match_batch \<Rightarrow> bool" where
  "match_batch_refined H b \<longleftrightarrow>
     mb_result_count b = int (length (mb_results b)) \<and>
     (let period_start = date_parse H (mb_period_start b);
          period_end = date_parse H (mb_period_end b) in
      \<not> nan_le period_end period_start \<and>
      list_all (\<lambda>r. let completed_at = date_parse H (mr_completed_at r) in
        \<not> (nan_less completed_at period_start \<or> nan_le period_end completed_at)) (mb_results b)) \<and>
     adjacent_all (results_in_order H) (mb_results b) \<and>
     js_set_size (map mr_round_id (mb_results b)) = length (map mr_round_id (mb_results b))"

definition valid_match_batch :: "host \<Rightarrow> match_batch \<Rightarrow> bool" where
  "valid_match_batch H b \<longleftrightarrow>
     uuidV7Schema (mb_event_id b) \<and> isoTimestampSchema H (mb_occurred_at b) \<and>
     uuidV7Schema (mb_batch_id b) \<and> isoTimestampSchema H (mb_period_start b) \<and>
     isoTimestampSchema H (mb_period_end b) \<and> hiveAccountSchema (mb_publisher b) \<and>
     1 \<le> mb_result_count b \<and> mb_result_count b \<le> 20 \<and>
     list_all (valid_match_result H) (mb_results b) \<and>
     1 \<le> length (mb_results b) \<and> length (mb_results b) \<le> 20 \<and>
     match_batch_refined H b"

definition valid_match_correction :: "host \<Rightarrow> match_correction \<Rightarrow> bool" where
  "valid_match_correction H c \<longleftrightarrow>
     uuidV7Schema (mc_event_id c) \<and> isoTimestampSchema H (mc_occurred_at c) \<and>
     uuidV7Schema (mc_round_id c) \<and> uuidV7Schema (mc_original_batch_id c) \<and>
     uuidV7Schema (mc_original_event_id c) \<and> uuidV7Schema (mc_supersedes_event_id c) \<and>
     hiveAccountSchema (mc_publisher c) \<and> controlledCodeSchema (mc_reason_code c) \<and>
     valid_match_result H (mc_replacement_result c) \<and>
     mr_round_id (mc_replacement_result c) = mc_round_id c"

definition valid_match_invalidation :: "host \<Rightarrow> match_invalidation \<Rightarrow> bool" where
  "valid_match_invalidation H i \<longleftrightarrow>
     uuidV7Schema (mi_event_id i) \<and> isoTimestampSchema H (mi_occurred_at i) \<and>
     uuidV7Schema (mi_round_id i) \<and> uuidV7Schema (mi_original_batch_id i) \<and>
     uuidV7Schema (mi_original_event_id i) \<and> uuidV7Schema (mi_supersedes_event_id i) \<and>
     hiveAccountSchema (mi_publisher i) \<and> controlledCodeSchema (mi_reason_code i)"

text \<open>\<open>/^[a-z0-9][a-z0-9._-]{2,127}$/\<close>\<close>

definition definitionIdSchema :: "string \<Rightarrow> bool" where
  "definitionIdSchema s \<longleftrightarrow>
     match_lead (\<lambda>c. is_lower c \<or> is_digit c)
       (\<lambda>c. is_lower c \<or> is_digit c \<or> is_one_of ''._-'' c) 2 127 s"

definition valid_collectible_issued :: "host \<Rightarrow> collectible_issued \<Rightarrow> bool" where
  "valid_collectible_issued H c \<longleftrightarrow>
     uuidV7Schema (ci_event_id c) \<and> isoTimestampSchema H (ci_occurred_at c) \<and>
     uuidV7Schema (ci_collectible_id c) \<and> definitionIdSchema (ci_definition_id c) \<and>
     hiveAccountSchema (ci_owner c) \<and> hiveAccountSchema (ci_issuer c) \<and>
     controlledCodeSchema (ci_reason c) \<and> httpsUrlSchema H (ci_metadata_uri c) \<and>
     sha256Schema (ci_metadata_sha256 c) \<and>
     (case ci_payment_tx_id c of None \<Rightarrow> True | Some t \<Rightarrow> string_between 1 128 t)"

definition valid_collectible_revoked :: "host \<Rightarrow> collectible_revoked \<Rightarrow> bool" where
  "valid_collectible_revoked H c \<longleftrightarrow>
     uuidV7Schema (cr_event_id c) \<and> isoTimestampSchema H (cr_occurred_at c) \<and>
     uuidV7Schema (cr_collectible_id c) \<and> uuidV7Schema (cr_issued_event_id c) \<and>
     controlledCodeSchema (cr_reason_code c)"

fun valid_event :: "host \<Rightarrow> event \<Rightarrow> bool" where
  "valid_event H (Match_Results_Batch b) = valid_match_batch H b"
| "valid_event H (Match_Result_Corrected c) = valid_match_correction H c"
| "valid_event H (Match_Result_Invalidated i) = valid_match_invalidation H i"
| "valid_event H (Collectible_Issued c) = valid_collectible_issued H c"
| "valid_event H (Collectible_Revoked c) = valid_collectible_revoked H c"

end
