(* ===== verification/Protocol_Codec.thy ===== *)
theory Protocol_Codec
  imports Protocol_Events
begin

text \<open>
  Events as JSON, the discriminated union that reads them, and the canonical payload of
  \<open>protocol/events.ts\<close>: \<open>serializeHiveChameleonEvent\<close> and \<open>parseHiveChameleonEvent\<close>.
\<close>

section \<open>The shape of each event\<close>

text \<open>The envelope \<open>{v, type, event_version?, event_id, occurred_at, data}\<close>.\<close>

definition match_envelope :: "string \<Rightarrow> string \<Rightarrow> string \<Rightarrow> json \<Rightarrow> json" where
  "match_envelope ty eid at dat = jobj
     [(''v'', JNum 1), (''type'', JStr ty), (''event_version'', JNum 1),
      (''event_id'', JStr eid), (''occurred_at'', JStr at), (''data'', dat)]"

definition collectible_envelope :: "string \<Rightarrow> string \<Rightarrow> string \<Rightarrow> json \<Rightarrow> json" where
  "collectible_envelope ty eid at dat = jobj
     [(''v'', JNum 1), (''type'', JStr ty), (''event_id'', JStr eid),
      (''occurred_at'', JStr at), (''data'', dat)]"

definition read_match_envelope :: "string \<Rightarrow> json \<Rightarrow> (string \<times> string \<times> json) option" where
  "read_match_envelope ty v = do {
     m \<leftarrow> strict_object
       [''v'', ''type'', ''event_version'', ''event_id'', ''occurred_at'', ''data''] [] v;
     _ \<leftarrow> get_prop (literal_int 1) m ''v'';
     _ \<leftarrow> get_prop (literal_string ty) m ''type'';
     _ \<leftarrow> get_prop (literal_int 1) m ''event_version'';
     eid \<leftarrow> get_prop as_string m ''event_id'';
     at \<leftarrow> get_prop as_string m ''occurred_at'';
     dat \<leftarrow> get_prop Some m ''data'';
     Some (eid, at, dat) }"

definition read_collectible_envelope :: "string \<Rightarrow> json \<Rightarrow> (string \<times> string \<times> json) option" where
  "read_collectible_envelope ty v = do {
     m \<leftarrow> strict_object [''v'', ''type'', ''event_id'', ''occurred_at'', ''data''] [] v;
     _ \<leftarrow> get_prop (literal_int 1) m ''v'';
     _ \<leftarrow> get_prop (literal_string ty) m ''type'';
     eid \<leftarrow> get_prop as_string m ''event_id'';
     at \<leftarrow> get_prop as_string m ''occurred_at'';
     dat \<leftarrow> get_prop Some m ''data'';
     Some (eid, at, dat) }"

lemma match_envelope_roundtrip [simp]:
  "read_match_envelope ty (match_envelope ty eid at dat) = Some (eid, at, dat)"
  by (simp add: read_match_envelope_def match_envelope_def strict_object_jobj literal_int_def
      literal_string_def)

lemma collectible_envelope_roundtrip [simp]:
  "read_collectible_envelope ty (collectible_envelope ty eid at dat) = Some (eid, at, dat)"
  by (simp add: read_collectible_envelope_def collectible_envelope_def strict_object_jobj
      literal_int_def literal_string_def)

definition read_match_batch :: "json \<Rightarrow> match_batch option" where
  "read_match_batch v = do {
     (eid, at, dat) \<leftarrow> read_match_envelope ''match_results_batch'' v;
     m \<leftarrow> strict_object
       [''batch_id'', ''period_start'', ''period_end'', ''publisher'', ''result_count'',
        ''results''] [] dat;
     batch_id \<leftarrow> get_prop as_string m ''batch_id'';
     period_start \<leftarrow> get_prop as_string m ''period_start'';
     period_end \<leftarrow> get_prop as_string m ''period_end'';
     publisher \<leftarrow> get_prop as_string m ''publisher'';
     count \<leftarrow> get_prop as_int m ''result_count'';
     results \<leftarrow> get_prop (as_array_of read_match_result) m ''results'';
     Some \<lparr>mb_event_id = eid, mb_occurred_at = at, mb_batch_id = batch_id,
       mb_period_start = period_start, mb_period_end = period_end, mb_publisher = publisher,
       mb_result_count = count, mb_results = results\<rparr> }"

definition match_batch_json :: "match_batch \<Rightarrow> json" where
  "match_batch_json b = match_envelope ''match_results_batch'' (mb_event_id b) (mb_occurred_at b)
     (jobj [(''batch_id'', JStr (mb_batch_id b)), (''period_start'', JStr (mb_period_start b)),
        (''period_end'', JStr (mb_period_end b)), (''publisher'', JStr (mb_publisher b)),
        (''result_count'', JNum (mb_result_count b)),
        (''results'', JArr (map match_result_json (mb_results b)))])"

definition read_match_correction :: "json \<Rightarrow> match_correction option" where
  "read_match_correction v = do {
     (eid, at, dat) \<leftarrow> read_match_envelope ''match_result_corrected'' v;
     m \<leftarrow> strict_object
       [''round_id'', ''original_batch_id'', ''original_event_id'', ''supersedes_event_id'',
        ''publisher'', ''reason_code'', ''replacement_result''] [] dat;
     round_id \<leftarrow> get_prop as_string m ''round_id'';
     original_batch_id \<leftarrow> get_prop as_string m ''original_batch_id'';
     original_event_id \<leftarrow> get_prop as_string m ''original_event_id'';
     supersedes_event_id \<leftarrow> get_prop as_string m ''supersedes_event_id'';
     publisher \<leftarrow> get_prop as_string m ''publisher'';
     reason_code \<leftarrow> get_prop as_string m ''reason_code'';
     replacement \<leftarrow> get_prop read_match_result m ''replacement_result'';
     Some \<lparr>mc_event_id = eid, mc_occurred_at = at, mc_round_id = round_id,
       mc_original_batch_id = original_batch_id, mc_original_event_id = original_event_id,
       mc_supersedes_event_id = supersedes_event_id, mc_publisher = publisher,
       mc_reason_code = reason_code, mc_replacement_result = replacement\<rparr> }"

definition match_correction_json :: "match_correction \<Rightarrow> json" where
  "match_correction_json c =
     match_envelope ''match_result_corrected'' (mc_event_id c) (mc_occurred_at c)
       (jobj [(''round_id'', JStr (mc_round_id c)),
          (''original_batch_id'', JStr (mc_original_batch_id c)),
          (''original_event_id'', JStr (mc_original_event_id c)),
          (''supersedes_event_id'', JStr (mc_supersedes_event_id c)),
          (''publisher'', JStr (mc_publisher c)), (''reason_code'', JStr (mc_reason_code c)),
          (''replacement_result'', match_result_json (mc_replacement_result c))])"

definition read_match_invalidation :: "json \<Rightarrow> match_invalidation option" where
  "read_match_invalidation v = do {
     (eid, at, dat) \<leftarrow> read_match_envelope ''match_result_invalidated'' v;
     m \<leftarrow> strict_object
       [''round_id'', ''original_batch_id'', ''original_event_id'', ''supersedes_event_id'',
        ''publisher'', ''reason_code''] [] dat;
     round_id \<leftarrow> get_prop as_string m ''round_id'';
     original_batch_id \<leftarrow> get_prop as_string m ''original_batch_id'';
     original_event_id \<leftarrow> get_prop as_string m ''original_event_id'';
     supersedes_event_id \<leftarrow> get_prop as_string m ''supersedes_event_id'';
     publisher \<leftarrow> get_prop as_string m ''publisher'';
     reason_code \<leftarrow> get_prop as_string m ''reason_code'';
     Some \<lparr>mi_event_id = eid, mi_occurred_at = at, mi_round_id = round_id,
       mi_original_batch_id = original_batch_id, mi_original_event_id = original_event_id,
       mi_supersedes_event_id = supersedes_event_id, mi_publisher = publisher,
       mi_reason_code = reason_code\<rparr> }"

definition match_invalidation_json :: "match_invalidation \<Rightarrow> json" where
  "match_invalidation_json i =
     match_envelope ''match_result_invalidated'' (mi_event_id i) (mi_occurred_at i)
       (jobj [(''round_id'', JStr (mi_round_id i)),
          (''original_batch_id'', JStr (mi_original_batch_id i)),
          (''original_event_id'', JStr (mi_original_event_id i)),
          (''supersedes_event_id'', JStr (mi_supersedes_event_id i)),
          (''publisher'', JStr (mi_publisher i)), (''reason_code'', JStr (mi_reason_code i))])"

definition read_collectible_issued :: "json \<Rightarrow> collectible_issued option" where
  "read_collectible_issued v = do {
     (eid, at, dat) \<leftarrow> read_collectible_envelope ''collectible_issued'' v;
     m \<leftarrow> strict_object
       [''collectible_id'', ''definition_id'', ''kind'', ''owner'', ''issuer'', ''reason'',
        ''metadata_uri'', ''metadata_sha256''] [''payment_tx_id''] dat;
     collectible_id \<leftarrow> get_prop as_string m ''collectible_id'';
     definition_id \<leftarrow> get_prop as_string m ''definition_id'';
     kind \<leftarrow> get_prop as_kind m ''kind'';
     owner \<leftarrow> get_prop as_string m ''owner'';
     issuer \<leftarrow> get_prop as_string m ''issuer'';
     reason \<leftarrow> get_prop as_string m ''reason'';
     metadata_uri \<leftarrow> get_prop as_string m ''metadata_uri'';
     metadata_sha256 \<leftarrow> get_prop as_string m ''metadata_sha256'';
     payment \<leftarrow> get_optional as_string m ''payment_tx_id'';
     Some \<lparr>ci_event_id = eid, ci_occurred_at = at, ci_collectible_id = collectible_id,
       ci_definition_id = definition_id, ci_kind = kind, ci_owner = owner, ci_issuer = issuer,
       ci_reason = reason, ci_metadata_uri = metadata_uri, ci_metadata_sha256 = metadata_sha256,
       ci_payment_tx_id = payment\<rparr> }"

definition collectible_issued_json :: "collectible_issued \<Rightarrow> json" where
  "collectible_issued_json c =
     collectible_envelope ''collectible_issued'' (ci_event_id c) (ci_occurred_at c)
       (jobj ([(''collectible_id'', JStr (ci_collectible_id c)),
           (''definition_id'', JStr (ci_definition_id c)), (''kind'', JStr (kind_name (ci_kind c))),
           (''owner'', JStr (ci_owner c)), (''issuer'', JStr (ci_issuer c)),
           (''reason'', JStr (ci_reason c)), (''metadata_uri'', JStr (ci_metadata_uri c)),
           (''metadata_sha256'', JStr (ci_metadata_sha256 c))] @
          (case ci_payment_tx_id c of None \<Rightarrow> [] | Some t \<Rightarrow> [(''payment_tx_id'', JStr t)])))"

definition read_collectible_revoked :: "json \<Rightarrow> collectible_revoked option" where
  "read_collectible_revoked v = do {
     (eid, at, dat) \<leftarrow> read_collectible_envelope ''collectible_revoked'' v;
     m \<leftarrow> strict_object [''collectible_id'', ''issued_event_id'', ''reason_code''] [] dat;
     collectible_id \<leftarrow> get_prop as_string m ''collectible_id'';
     issued_event_id \<leftarrow> get_prop as_string m ''issued_event_id'';
     reason_code \<leftarrow> get_prop as_string m ''reason_code'';
     Some \<lparr>cr_event_id = eid, cr_occurred_at = at, cr_collectible_id = collectible_id,
       cr_issued_event_id = issued_event_id, cr_reason_code = reason_code\<rparr> }"

definition collectible_revoked_json :: "collectible_revoked \<Rightarrow> json" where
  "collectible_revoked_json c =
     collectible_envelope ''collectible_revoked'' (cr_event_id c) (cr_occurred_at c)
       (jobj [(''collectible_id'', JStr (cr_collectible_id c)),
          (''issued_event_id'', JStr (cr_issued_event_id c)),
          (''reason_code'', JStr (cr_reason_code c))])"

section \<open>The union of the events\<close>

text \<open>\<open>z.discriminatedUnion('type', [...])\<close>: the \<open>type\<close> property selects the schema.\<close>

definition discriminator :: "json \<Rightarrow> string option" where
  "discriminator v = (case v of JObj m \<Rightarrow> get_prop as_string m ''type'' | _ \<Rightarrow> None)"

definition read_event :: "json \<Rightarrow> event option" where
  "read_event v =
     (case discriminator v of
        None \<Rightarrow> None
      | Some t \<Rightarrow>
          (if t = ''match_results_batch'' then map_option Match_Results_Batch (read_match_batch v)
           else if t = ''match_result_corrected''
             then map_option Match_Result_Corrected (read_match_correction v)
           else if t = ''match_result_invalidated''
             then map_option Match_Result_Invalidated (read_match_invalidation v)
           else if t = ''collectible_issued''
             then map_option Collectible_Issued (read_collectible_issued v)
           else if t = ''collectible_revoked''
             then map_option Collectible_Revoked (read_collectible_revoked v)
           else None))"

fun event_json :: "event \<Rightarrow> json" where
  "event_json (Match_Results_Batch b) = match_batch_json b"
| "event_json (Match_Result_Corrected c) = match_correction_json c"
| "event_json (Match_Result_Invalidated i) = match_invalidation_json i"
| "event_json (Collectible_Issued c) = collectible_issued_json c"
| "event_json (Collectible_Revoked c) = collectible_revoked_json c"

text \<open>\<open>hiveChameleonEventSchema.safeParse(value)\<close>.\<close>

definition hiveChameleonEventSchema :: "host \<Rightarrow> json \<Rightarrow> event option" where
  "hiveChameleonEventSchema H v =
     (case read_event v of None \<Rightarrow> None | Some e \<Rightarrow> if valid_event H e then Some e else None)"

lemma discriminator_envelope [simp]:
  "discriminator (match_envelope ty eid at dat) = Some ty"
  "discriminator (collectible_envelope ty eid at dat) = Some ty"
  by (simp_all add: discriminator_def match_envelope_def collectible_envelope_def jobj_def)

lemma match_batch_roundtrip [simp]: "read_match_batch (match_batch_json b) = Some b"
  by (simp add: read_match_batch_def match_batch_json_def strict_object_jobj)

lemma match_correction_roundtrip [simp]:
  "read_match_correction (match_correction_json c) = Some c"
  by (simp add: read_match_correction_def match_correction_json_def strict_object_jobj)

lemma match_invalidation_roundtrip [simp]:
  "read_match_invalidation (match_invalidation_json i) = Some i"
  by (simp add: read_match_invalidation_def match_invalidation_json_def strict_object_jobj)

lemma collectible_issued_roundtrip [simp]:
  "read_collectible_issued (collectible_issued_json c) = Some c"
  by (cases "ci_payment_tx_id c")
    (simp_all add: read_collectible_issued_def collectible_issued_json_def strict_object_jobj)

lemma collectible_revoked_roundtrip [simp]:
  "read_collectible_revoked (collectible_revoked_json c) = Some c"
  by (simp add: read_collectible_revoked_def collectible_revoked_json_def strict_object_jobj)

lemma discriminator_event [simp]: "discriminator (event_json e) = Some (event_type e)"
  by (cases e) (simp_all add: match_batch_json_def match_correction_json_def
      match_invalidation_json_def collectible_issued_json_def collectible_revoked_json_def)

lemma read_event_roundtrip [simp]: "read_event (event_json e) = Some e"
  unfolding read_event_def discriminator_event by (cases e) simp_all

lemma event_json_inj: "event_json e = event_json e' \<Longrightarrow> e = e'"
  using read_event_roundtrip by (metis option.inject)

lemma hiveChameleonEventSchema_event [simp]:
  "hiveChameleonEventSchema H (event_json e) = (if valid_event H e then Some e else None)"
  by (simp add: hiveChameleonEventSchema_def)

lemma hiveChameleonEventSchema_valid:
  "hiveChameleonEventSchema H v = Some e \<Longrightarrow> valid_event H e"
  by (auto simp: hiveChameleonEventSchema_def split: option.splits if_splits)

section \<open>Canonical payloads\<close>

datatype event_family = Match_Family | Collectible_Family

text \<open>\<open>event.type.startsWith('match_') ? 'match' : 'collectible'\<close>.\<close>

definition starts_with :: "string \<Rightarrow> string \<Rightarrow> bool" where
  "starts_with p s \<longleftrightarrow> take (length p) s = p"

definition eventFamily :: "event \<Rightarrow> event_family" where
  "eventFamily e = (if starts_with ''match_'' (event_type e) then Match_Family else Collectible_Family)"

lemma eventFamily_simps [simp]:
  "eventFamily (Match_Results_Batch b) = Match_Family"
  "eventFamily (Match_Result_Corrected c) = Match_Family"
  "eventFamily (Match_Result_Invalidated i) = Match_Family"
  "eventFamily (Collectible_Issued ci) = Collectible_Family"
  "eventFamily (Collectible_Revoked cr) = Collectible_Family"
  by (simp_all add: eventFamily_def starts_with_def)

definition assertPayloadSize :: "string \<Rightarrow> exn + unit" where
  "assertPayloadSize payload =
     (if utf8_length payload > HIVE_CHAMELEON_MAX_PAYLOAD_BYTES
      then Inl (HiveGatewayError payload_too_large) else Inr ())"

definition serializeHiveChameleonEvent :: "host \<Rightarrow> json \<Rightarrow> exn + string" where
  "serializeHiveChameleonEvent H value =
     (case hiveChameleonEventSchema H value of
        None \<Rightarrow> Inl (HiveGatewayError invalid_event)
      | Some e \<Rightarrow>
          ebind (canonicalJson H (event_json e)) (\<lambda>payload.
          ebind (assertPayloadSize payload) (\<lambda>_. Inr payload)))"

definition parseHiveChameleonEvent :: "host \<Rightarrow> string \<Rightarrow> exn + event" where
  "parseHiveChameleonEvent H payload =
     ebind (assertPayloadSize payload) (\<lambda>_.
     ebind (parseJson H payload) (\<lambda>value.
     case hiveChameleonEventSchema H value of
       None \<Rightarrow> Inl (HiveGatewayError invalid_event)
     | Some e \<Rightarrow>
         ebind (canonicalJson H (event_json e)) (\<lambda>canonical.
         if canonical \<noteq> payload then Inl (HiveGatewayError non_canonical_payload) else Inr e)))"

lemma assertPayloadSize_Inr [simp]:
  "assertPayloadSize p = Inr u \<longleftrightarrow> utf8_length p \<le> HIVE_CHAMELEON_MAX_PAYLOAD_BYTES"
  by (auto simp: assertPayloadSize_def)

lemma assertPayloadSize_Inl [simp]:
  "assertPayloadSize p = Inl x \<longleftrightarrow>
     HIVE_CHAMELEON_MAX_PAYLOAD_BYTES < utf8_length p \<and> x = HiveGatewayError payload_too_large"
  by (auto simp: assertPayloadSize_def)

lemma serialize_event_Inr:
  "serializeHiveChameleonEvent H (event_json e) = Inr p \<longleftrightarrow>
     valid_event H e \<and> canonicalize H (event_json e) = Some p \<and>
     utf8_length p \<le> HIVE_CHAMELEON_MAX_PAYLOAD_BYTES"
  by (auto simp: serializeHiveChameleonEvent_def canonicalJson_def run_simps)

lemma parse_event_Inr:
  "parseHiveChameleonEvent H p = Inr e \<longleftrightarrow>
     utf8_length p \<le> HIVE_CHAMELEON_MAX_PAYLOAD_BYTES \<and>
     (\<exists>v. json_parse H p = Some v \<and> hiveChameleonEventSchema H v = Some e) \<and>
     canonicalize H (event_json e) = Some p"
  by (auto simp: parseHiveChameleonEvent_def parseJson_def canonicalJson_def run_simps
      split: option.splits if_splits)

lemma parse_event_valid: "parseHiveChameleonEvent H p = Inr e \<Longrightarrow> valid_event H e"
  by (auto simp: parse_event_Inr dest: hiveChameleonEventSchema_valid)

text \<open>A parsed payload serializes to itself.\<close>

lemma parse_serialize:
  assumes "parseHiveChameleonEvent H p = Inr e"
  shows "serializeHiveChameleonEvent H (event_json e) = Inr p"
  using assms parse_event_valid [OF assms] by (simp add: serialize_event_Inr parse_event_Inr)

text \<open>A serialized event parses back, when the codec round-trips its JSON.\<close>

lemma serialize_parse:
  assumes "serializeHiveChameleonEvent H (event_json e) = Inr p" and "codec_ok H (event_json e)"
  shows "parseHiveChameleonEvent H p = Inr e"
  using assms by (auto simp: serialize_event_Inr parse_event_Inr elim!: codec_okE)

end
