(* ===== verification/Effects.thy ===== *)
theory Effects
  imports Errors
begin

text \<open>
  Code with effects: an action takes a state, and ends with a value or an exception and the
  state it leaves. Every effect made before an exception stays made, as in the sources; a
  roll-back is written out where the code has one. The lemmas are Hoare-style rules: the
  collection \<open>act_rules\<close> takes a composed action apart.
\<close>

named_theorems act_simps \<open>equations that run an action\<close>
named_theorems act_rules \<open>rules that split a specification along an action\<close>

type_synonym ('s, 'a) action = "'s \<Rightarrow> (exn + 'a) \<times> 's"

definition act_ok :: "'a \<Rightarrow> ('s, 'a) action" where
  "act_ok x = (\<lambda>s. (Inr x, s))"

definition act_fail :: "exn \<Rightarrow> ('s, 'a) action" where
  "act_fail e = (\<lambda>s. (Inl e, s))"

definition act_lift :: "exn + 'a \<Rightarrow> ('s, 'a) action" where
  "act_lift r = (\<lambda>s. (r, s))"

definition act_bind :: "('s, 'a) action \<Rightarrow> ('a \<Rightarrow> ('s, 'b) action) \<Rightarrow> ('s, 'b) action" where
  "act_bind m f = (\<lambda>s. case m s of (Inl e, s') \<Rightarrow> (Inl e, s') | (Inr x, s') \<Rightarrow> f x s')"

text \<open>\<open>try { m } catch (error) { h(error) }\<close>\<close>

definition act_catch :: "('s, 'a) action \<Rightarrow> (exn \<Rightarrow> ('s, 'a) action) \<Rightarrow> ('s, 'a) action" where
  "act_catch m h = (\<lambda>s. case m s of (Inl e, s') \<Rightarrow> h e s' | (Inr x, s') \<Rightarrow> (Inr x, s'))"

text \<open>\<open>if (!b) throw e\<close>\<close>

definition act_ensure :: "bool \<Rightarrow> exn \<Rightarrow> ('s, unit) action" where
  "act_ensure b e = (if b then act_ok () else act_fail e)"

text \<open>A read that cannot fail, and an update that cannot fail.\<close>

definition act_get :: "('s \<Rightarrow> 'a) \<Rightarrow> ('s, 'a) action" where
  "act_get f = (\<lambda>s. (Inr (f s), s))"

definition act_modify :: "('s \<Rightarrow> 's) \<Rightarrow> ('s, unit) action" where
  "act_modify f = (\<lambda>s. (Inr (), f s))"

text \<open>\<open>for (const x of xs) await f(x)\<close>\<close>

fun act_each :: "('a \<Rightarrow> ('s, unit) action) \<Rightarrow> 'a list \<Rightarrow> ('s, unit) action" where
  "act_each f [] = act_ok ()"
| "act_each f (x # xs) = act_bind (f x) (\<lambda>_. act_each f xs)"

text \<open>An action of one part of the state.\<close>

definition act_on ::
  "('s \<Rightarrow> 't) \<Rightarrow> ('t \<Rightarrow> 's \<Rightarrow> 's) \<Rightarrow> ('t, 'a) action \<Rightarrow> ('s, 'a) action" where
  "act_on get put m = (\<lambda>s. case m (get s) of (r, t) \<Rightarrow> (r, put t s))"

text \<open>The two halves of a pair of states.\<close>

definition act_fst :: "('s, 'a) action \<Rightarrow> ('s \<times> 't, 'a) action" where
  "act_fst m = act_on fst (\<lambda>s p. (s, snd p)) m"

definition act_snd :: "('t, 'a) action \<Rightarrow> ('s \<times> 't, 'a) action" where
  "act_snd m = act_on snd (\<lambda>t p. (fst p, t)) m"

lemma act_run [act_simps]:
  "act_ok x s = (Inr x, s)"
  "act_fail e s = (Inl e, s)"
  "act_lift r s = (r, s)"
  "act_get f s = (Inr (f s), s)"
  "act_modify g s = (Inr (), g s)"
  "act_ensure b e s = (if b then Inr () else Inl e, s)"
  by (simp_all add: act_ok_def act_fail_def act_lift_def act_get_def act_modify_def act_ensure_def)

lemma act_bind_Inr [act_simps]: "m s = (Inr x, s') \<Longrightarrow> act_bind m f s = f x s'"
  by (simp add: act_bind_def)

lemma act_bind_Inl [act_simps]: "m s = (Inl e, s') \<Longrightarrow> act_bind m f s = (Inl e, s')"
  by (simp add: act_bind_def)

lemma act_bind_basic [act_simps]:
  "act_bind (act_ok x) f = f x"
  "act_bind (act_fail e) f = act_fail e"
  "act_bind (act_lift (Inr x)) f = f x"
  "act_bind (act_lift (Inl e)) f = act_fail e"
  "act_bind (act_get g) f = (\<lambda>s. f (g s) s)"
  "act_bind (act_ensure True e) h = h ()"
  "act_bind (act_ensure False e) h = act_fail e"
  by (auto simp: act_bind_def act_ok_def act_fail_def act_lift_def act_get_def act_ensure_def)

lemma act_bindE:
  assumes "act_bind m f s = (r, s'')"
  obtains (fails) e where "m s = (Inl e, s'')" and "r = Inl e"
    | (goes) x s' where "m s = (Inr x, s')" and "f x s' = (r, s'')"
  using assms by (auto simp: act_bind_def split: prod.splits sum.splits)

lemma act_bind_InrE:
  assumes "act_bind m f s = (Inr y, s'')"
  obtains x s' where "m s = (Inr x, s')" and "f x s' = (Inr y, s'')"
  using assms by (auto elim: act_bindE)

lemma act_bind_ensureE:
  assumes "act_bind (act_ensure b e) f s = (Inr y, s'')"
  obtains "b" and "f () s = (Inr y, s'')"
  using assms by (cases b) (auto simp: act_bind_basic act_run)

lemma act_catchE:
  assumes "act_catch m h s = (r, s'')"
  obtains (ok) x where "m s = (Inr x, s'')" and "r = Inr x"
    | (caught) e s' where "m s = (Inl e, s')" and "h e s' = (r, s'')"
  using assms by (auto simp: act_catch_def split: prod.splits sum.splits)

lemma act_onE:
  assumes "act_on get put m s = (r, s')"
  obtains t where "m (get s) = (r, t)" and "s' = put t s"
  using assms by (auto simp: act_on_def split: prod.splits)

lemma act_fst_eq [act_simps]: "act_fst m (s, t) = (let (r, s') = m s in (r, (s', t)))"
  by (simp add: act_fst_def act_on_def split: prod.split)

lemma act_snd_eq [act_simps]: "act_snd m (s, t) = (let (r, t') = m t in (r, (s, t')))"
  by (simp add: act_snd_def act_on_def split: prod.split)

lemma act_fstE:
  assumes "act_fst m (s, t) = (r, w')"
  obtains s' where "m s = (r, s')" and "w' = (s', t)"
  using assms by (auto simp: act_fst_eq Let_def split: prod.splits)

lemma act_sndE:
  assumes "act_snd m (s, t) = (r, w')"
  obtains t' where "m t = (r, t')" and "w' = (s, t')"
  using assms by (auto simp: act_snd_eq Let_def split: prod.splits)

lemma act_ensureE:
  assumes "act_ensure b e s = (r, s')"
  obtains (holds) "b" and "r = Inr ()" and "s' = s" | (fails) "\<not> b" and "r = Inl e" and "s' = s"
  using assms by (auto simp: act_run split: if_splits)

lemma act_bind_cong [fundef_cong]:
  assumes "m = m'" and "\<And>x. f x = f' x"
  shows "act_bind m f = act_bind m' f'"
proof -
  have "f = f'" using assms(2) by blast
  with assms(1) show ?thesis by simp
qed

section \<open>Specifications\<close>

text \<open>
  \<open>spec P m Q E\<close>: from a state in \<open>P\<close>, the action ends with a value in \<open>Q\<close> or with an
  exception in \<open>E\<close>.
\<close>

definition spec ::
  "('s \<Rightarrow> bool) \<Rightarrow> ('s, 'a) action \<Rightarrow> ('a \<Rightarrow> 's \<Rightarrow> bool) \<Rightarrow> (exn \<Rightarrow> 's \<Rightarrow> bool) \<Rightarrow> bool" where
  "spec P m Q E \<longleftrightarrow>
     (\<forall>s. P s \<longrightarrow> (case m s of (Inr x, s') \<Rightarrow> Q x s' | (Inl e, s') \<Rightarrow> E e s'))"

lemma specI:
  assumes "\<And>s x s'. P s \<Longrightarrow> m s = (Inr x, s') \<Longrightarrow> Q x s'"
    and "\<And>s e s'. P s \<Longrightarrow> m s = (Inl e, s') \<Longrightarrow> E e s'"
  shows "spec P m Q E"
  using assms by (auto simp: spec_def split: prod.splits sum.splits)

lemma specD_Inr: "spec P m Q E \<Longrightarrow> P s \<Longrightarrow> m s = (Inr x, s') \<Longrightarrow> Q x s'"
  by (auto simp: spec_def)

lemma specD_Inl: "spec P m Q E \<Longrightarrow> P s \<Longrightarrow> m s = (Inl e, s') \<Longrightarrow> E e s'"
  by (auto simp: spec_def)

lemma spec_bind [act_rules]:
  assumes "spec P m R E" and "\<And>x. spec (R x) (f x) Q E"
  shows "spec P (act_bind m f) Q E"
  by (rule specI) (auto elim!: act_bindE dest: specD_Inr [OF assms(1)] specD_Inl [OF assms(1)]
      specD_Inr [OF assms(2)] specD_Inl [OF assms(2)])

lemma spec_basic:
  "spec P (act_ok x) Q E \<longleftrightarrow> (\<forall>s. P s \<longrightarrow> Q x s)"
  "spec P (act_fail e) Q E \<longleftrightarrow> (\<forall>s. P s \<longrightarrow> E e s)"
  "spec P (act_get g) Q E \<longleftrightarrow> (\<forall>s. P s \<longrightarrow> Q (g s) s)"
  "spec P (act_ensure b e) Q' E \<longleftrightarrow> (\<forall>s. P s \<longrightarrow> (if b then Q' () s else E e s))"
  "spec P (act_lift r) Q E \<longleftrightarrow> (\<forall>s. P s \<longrightarrow> (case r of Inr x \<Rightarrow> Q x s | Inl e \<Rightarrow> E e s))"
  by (auto simp: spec_def act_simps)

lemma spec_weaken:
  assumes "spec P' m Q' E'" and "\<And>s. P s \<Longrightarrow> P' s" and "\<And>x s. Q' x s \<Longrightarrow> Q x s"
    and "\<And>e s. E' e s \<Longrightarrow> E e s"
  shows "spec P m Q E"
  using assms by (fastforce simp: spec_def split: prod.splits sum.splits)

text \<open>The value an action returns, when it returns one.\<close>

definition returns :: "('s, 'a) action \<Rightarrow> ('a \<Rightarrow> bool) \<Rightarrow> bool" where
  "returns m Q \<longleftrightarrow> (\<forall>s x s'. m s = (Inr x, s') \<longrightarrow> Q x)"

text \<open>Every ending, the exceptional ones included, keeps \<open>P\<close>.\<close>

definition preserves :: "('s \<Rightarrow> bool) \<Rightarrow> ('s, 'a) action \<Rightarrow> bool" where
  "preserves P m \<longleftrightarrow> (\<forall>s. P s \<longrightarrow> P (snd (m s)))"

lemma preservesI: "(\<And>s r s'. P s \<Longrightarrow> m s = (r, s') \<Longrightarrow> P s') \<Longrightarrow> preserves P m"
  unfolding preserves_def by (metis prod.collapse)

lemma preservesD: "preserves P m \<Longrightarrow> P s \<Longrightarrow> m s = (r, s') \<Longrightarrow> P s'"
  by (fastforce simp: preserves_def)

lemma preserves_basic [act_rules, simp]:
  "preserves P (act_ok x)" "preserves P (act_fail e)" "preserves P (act_lift r)"
  "preserves P (act_get g)" "preserves P (act_ensure b e)"
  by (simp_all add: preserves_def act_simps)

lemma preserves_bind [act_rules]:
  "preserves P m \<Longrightarrow> (\<And>x. preserves P (f x)) \<Longrightarrow> preserves P (act_bind m f)"
  by (fastforce simp: preserves_def act_bind_def split: prod.splits sum.splits)

lemma preserves_catch [act_rules]:
  "preserves P m \<Longrightarrow> (\<And>e. preserves P (h e)) \<Longrightarrow> preserves P (act_catch m h)"
  by (fastforce simp: preserves_def act_catch_def split: prod.splits sum.splits)

lemma preserves_if [act_rules]:
  "(b \<Longrightarrow> preserves P m) \<Longrightarrow> (\<not> b \<Longrightarrow> preserves P m') \<Longrightarrow> preserves P (if b then m else m')"
  by simp

lemma preserves_option [act_rules]:
  "(x = None \<Longrightarrow> preserves P m) \<Longrightarrow> (\<And>y. x = Some y \<Longrightarrow> preserves P (f y)) \<Longrightarrow>
    preserves P (case x of None \<Rightarrow> m | Some y \<Rightarrow> f y)"
  by (cases x) simp_all

lemma preserves_prod [act_rules]:
  "(\<And>a b. x = (a, b) \<Longrightarrow> preserves P (f a b)) \<Longrightarrow> preserves P (case x of (a, b) \<Rightarrow> f a b)"
  by (cases x) simp_all

lemma preserves_each [act_rules]:
  "(\<And>x. x \<in> set xs \<Longrightarrow> preserves P (f x)) \<Longrightarrow> preserves P (act_each f xs)"
  by (induction xs) (auto intro: act_rules)

end
