(* ===== verification/Gateway_Contracts.thy ===== *)
theory Gateway_Contracts
  imports Protocol_Codec Effects
begin

text \<open>
  The data and the ports of \<open>contracts.ts\<close>: authorizations, intents, operations and
  transactions as records; the chain adapter, the signer, the ledger and the policy as
  records of actions on a state of their own.
\<close>

section \<open>Authorizations and intents\<close>

datatype authority = Active | Owner | Posting
datatype service_role = Collectible_Issuer | Match_Publisher | Rc_Support | Treasury
datatype authorization_mode = Official_Service | Custodial_Player | External_Player

fun service_role_name :: "service_role \<Rightarrow> string" where
  "service_role_name Collectible_Issuer = ''collectible_issuer''"
| "service_role_name Match_Publisher = ''match_publisher''"
| "service_role_name Rc_Support = ''rc_support''"
| "service_role_name Treasury = ''treasury''"

text \<open>
  \<open>OfficialServiceAuthorization\<close>. The type fixes \<open>mode\<close> to \<open>official_service\<close>, the code
  tests it all the same; so the field is kept at the type of all three modes.
\<close>

record authorization =
  au_mode :: authorization_mode
  au_role :: service_role
  au_account :: string
  au_authority :: authority
  au_expectedPublicKey :: string
  au_signerKeyReference :: string
  au_policyVersion :: string

record intent =
  in_idempotencyKey :: string
  in_policyVersion :: string
  in_event :: event
  in_expirationSeconds :: "int option"

record custom_json =
  cj_required_auths :: "string list"
  cj_required_posting_auths :: "string list"
  cj_id :: string
  cj_json :: string

section \<open>Transactions\<close>

record prepared_tx =
  tx_unsignedTransactionJson :: string
  tx_signatureDigest :: string
  tx_transactionId :: string
  tx_canonicalOperationJson :: string

record inspected_tx = prepared_tx +
  tx_operation :: custom_json
  tx_isSigned :: bool

record prepared_event = prepared_tx +
  pe_idempotencyKey :: string
  pe_policyVersion :: string
  pe_eventFamily :: event_family
  pe_eventType :: string
  pe_canonicalPayload :: string
  pe_canonicalOperationHash :: string
  pe_authorization :: authorization

section \<open>Ports\<close>

record 'c chain_port =
  prepareCustomJson :: "custom_json \<Rightarrow> int \<Rightarrow> ('c, prepared_tx) action"
  inspectTransaction :: "string \<Rightarrow> ('c, inspected_tx) action"
  recoverPublicKey :: "string \<Rightarrow> string \<Rightarrow> ('c, string) action"
  attachSignature :: "string \<Rightarrow> string \<Rightarrow> ('c, string) action"
  broadcast :: "string \<Rightarrow> ('c, unit) action"

record signer_request =
  rq_idempotencyKey :: string
  rq_policyVersion :: string
  rq_role :: service_role
  rq_account :: string
  rq_authority :: authority
  rq_expectedPublicKey :: string
  rq_signerKeyReference :: string
  rq_eventFamily :: event_family
  rq_eventType :: string
  rq_canonicalPayload :: string
  rq_canonicalOperationJson :: string
  rq_canonicalOperationHash :: string
  rq_unsignedTransactionJson :: string
  rq_signatureDigest :: string
  rq_transactionId :: string

record signer_response =
  rs_signature :: string
  rs_publicKey :: string

record binding =
  bd_idempotencyKey :: string
  bd_policyVersion :: string
  bd_role :: service_role
  bd_account :: string
  bd_authority :: authority
  bd_expectedPublicKey :: string
  bd_signerKeyReference :: string
  bd_canonicalOperationJson :: string
  bd_canonicalOperationHash :: string
  bd_signatureDigest :: string
  bd_transactionId :: string

datatype acquisition = Acquired string | Conflict | Replay signer_response

record 'l ledger_port =
  acquire :: "binding \<Rightarrow> ('l, acquisition) action"
  complete :: "binding \<Rightarrow> string \<Rightarrow> signer_response \<Rightarrow> ('l, unit) action"
  abort :: "binding \<Rightarrow> string \<Rightarrow> ('l, unit) action"

record digest_request =
  dr_idempotencyKey :: string
  dr_signerKeyReference :: string
  dr_signatureDigest :: string
  dr_expectedPublicKey :: string

text \<open>\<open>DigestSignatureProvider\<close>, \<open>IsolatedSignerClient\<close> and \<open>OfficialSignerPolicy\<close>.\<close>

type_synonym 'p digest_provider = "digest_request \<Rightarrow> ('p, string) action"
type_synonym 'w signer_client = "signer_request \<Rightarrow> ('w, signer_response) action"
type_synonym signer_policy = "string \<Rightarrow> service_role \<Rightarrow> authorization option"

record broadcast_result =
  br_transactionId :: string
  br_eventType :: string

lemma service_role_name_inj: "service_role_name r = service_role_name q \<Longrightarrow> r = q"
  by (cases r; cases q) simp_all

end
