(* ===== verification/Fixtures.thy ===== *)
theory Fixtures
  imports Gateway_Contracts
begin

text \<open>
  The fixtures of \<open>testing/fixtures.ts\<close> and a concrete host for them, on which the
  witnesses evaluate. The canonical text of a JSON value is, in this host, its \<open>type\<close>
  property; the text of the fixture's type parses to the fixture.
\<close>

definition fixture_result :: match_result where
  "fixture_result = \<lparr>
     mr_round_id = ''0190f6d2-7c00-7000-8000-000000000003'',
     mr_completed_at = ''2026-07-11T12:03:42.000Z'',
     mr_context = Normal, mr_tournament_id = None, mr_mode = Infection,
     mr_result_schema = ''match-result-1'', mr_scoring_rules = ''scoring-1'',
     mr_map_id = ''0190f6d2-7c00-7000-8000-000000000004'',
     mr_map_version_id = ''0190f6d2-7c00-7000-8000-000000000005'',
     mr_map_version = ''1.0.0'', mr_map_content_sha256 = replicate 64 (CHR ''a''),
     mr_server_build = ''game-server-0.1.0'', mr_server_protocol = ''match-1'',
     mr_winning_side = Hiders, mr_winner_accounts = [''alice''],
     mr_participants =
       [\<lparr>pt_account = ''alice'', pt_initial_role = Hider, pt_final_role = Hider,
          pt_outcome = Survived, pt_score = ''1250.0000''\<rparr>,
        \<lparr>pt_account = ''bobby'', pt_initial_role = Hunter, pt_final_role = Hunter,
          pt_outcome = Hunter_Loss, pt_score = ''900.0000''\<rparr>],
     mr_discoveries = [], mr_survivors = [''alice''],
     mr_likes = [\<lparr>lk_account = ''alice'', lk_received = 1\<rparr>],
     mr_result_sha256 = replicate 64 (CHR ''b'')\<rparr>"

definition fixture_batch :: match_batch where
  "fixture_batch = \<lparr>
     mb_event_id = ''0190f6d2-7c00-7000-8000-000000000001'',
     mb_occurred_at = ''2026-07-11T12:05:00.000Z'',
     mb_batch_id = ''0190f6d2-7c00-7000-8000-000000000002'',
     mb_period_start = ''2026-07-11T12:00:00.000Z'',
     mb_period_end = ''2026-07-11T12:05:00.000Z'',
     mb_publisher = ''match-pub'', mb_result_count = 1, mb_results = [fixture_result]\<rparr>"

definition fixture_event :: event where
  "fixture_event = Match_Results_Batch fixture_batch"

definition fixture_authorization :: authorization where
  "fixture_authorization = \<lparr>
     au_mode = Official_Service, au_role = Match_Publisher, au_account = ''match-pub'',
     au_authority = Posting,
     au_expectedPublicKey = ''STM7u41yX66A2r6JNBrgawxT51sPxRMTJAW1QaEwdxQfFePGvCDET'',
     au_signerKeyReference = ''fixture/match-publisher/posting'',
     au_policyVersion = ''match-policy-1''\<rparr>"

definition fixture_intent :: intent where
  "fixture_intent = \<lparr>
     in_idempotencyKey = ''match-batch:0190f6d2-7c00-7000-8000-000000000002'',
     in_policyVersion = ''match-policy-1'', in_event = fixture_event,
     in_expirationSeconds = None\<rparr>"

section \<open>A host for the fixtures\<close>

text \<open>A timestamp is read as the number its digits spell, which orders those of one format.\<close>

fun digits_from :: "int \<Rightarrow> string \<Rightarrow> int" where
  "digits_from a [] = a"
| "digits_from a (c # cs) =
     digits_from (if is_digit c then 10 * a + (of_char c - 48) else a) cs"

fun write_digits :: "string \<Rightarrow> int \<Rightarrow> string" where
  "write_digits [] n = []"
| "write_digits (c # cs) n =
     (if is_digit c
      then char_of (nat (n div 10 ^ length (filter is_digit cs) mod 10) + 48)
      else c) # write_digits cs n"

definition fixture_url :: "string \<Rightarrow> url option" where
  "fixture_url s =
     (if starts_with ''https://'' s
      then Some \<lparr>url_protocol = ''https:'', url_username = [], url_password = [],
        url_hostname = js_slice 8 100 s, url_pathname = ''/'', url_search = [], url_hash = [],
        url_href = s\<rparr>
      else None)"

definition fixture_host :: host where
  "fixture_host = \<lparr>
     canonicalize = discriminator,
     json_parse = (\<lambda>t. if t = ''match_results_batch'' then Some (event_json fixture_event) else None),
     sha256_hex = (\<lambda>s. replicate 64 (CHR ''c'')),
     date_parse = (\<lambda>s. if length s = 24 then Some (digits_from 0 s) else None),
     to_iso_string = write_digits ''2026-07-11T12:05:00.000Z'',
     zod_datetime = (\<lambda>s. length s = 24),
     zod_url = (\<lambda>s. fixture_url s \<noteq> None),
     parse_url = fixture_url\<rparr>"

lemma fixture_event_valid: "valid_event fixture_host fixture_event"
  by code_simp

lemma fixture_event_type [simp]: "event_type fixture_event = ''match_results_batch''"
  by (simp add: fixture_event_def)

lemma fixture_codec_ok: "codec_ok fixture_host (event_json fixture_event)"
  by (simp add: codec_ok_def fixture_host_def)

lemma fixture_serialize:
  "serializeHiveChameleonEvent fixture_host (event_json fixture_event) =
     Inr ''match_results_batch''"
  using fixture_event_valid
  by (simp add: serialize_event_Inr HIVE_CHAMELEON_MAX_PAYLOAD_BYTES_def)
    (simp add: fixture_host_def)

end
