(* ===== verification/Protocol_Properties.thy ===== *)
theory Protocol_Properties
  imports Fixtures
begin

text \<open>
  What the event protocol promises: canonical payloads are unique and round-trip, and an
  accepted batch is a strictly ordered list of results inside its period.
\<close>

lemma adjacent_sorted_wrt:
  assumes "adjacent_all P xs" and "\<And>x y. x \<in> set xs \<Longrightarrow> y \<in> set xs \<Longrightarrow> P x y \<longleftrightarrow> R x y"
    and "transp_on (set xs) R"
  shows "sorted_wrt R xs"
  using assms
proof (induction P xs rule: adjacent_all.induct)
  case (1 P x y ys)
  have adj: "adjacent_all P (y # ys)" and pxy: "P x y"
    using 1(2) by simp_all
  have tr: "transp_on (set (y # ys)) R"
    using 1(4) by (rule transp_on_subset) auto
  have rest: "sorted_wrt R (y # ys)"
    using adj 1(3) tr by (intro 1(1)) simp_all
  have xy: "R x y"
    using pxy 1(3) by simp
  have "R x z" if "z \<in> set ys" for z
    using xy rest that transp_onD [OF 1(4), of x y z] by simp
  with rest xy show ?case by simp
qed simp_all

text \<open>The order of results: completion time, then round id.\<close>

definition result_key :: "host \<Rightarrow> match_result \<Rightarrow> int \<times> string" where
  "result_key H r = (the (date_parse H (mr_completed_at r)), mr_round_id r)"

definition result_le :: "host \<Rightarrow> match_result \<Rightarrow> match_result \<Rightarrow> bool" where
  "result_le H r r' \<longleftrightarrow>
     fst (result_key H r) < fst (result_key H r') \<or>
     (fst (result_key H r) = fst (result_key H r') \<and> mr_round_id r \<le> mr_round_id r')"

lemma result_le_trans: "transp_on A (result_le H)"
  by (auto simp: transp_on_def result_le_def)

text \<open>
  A canonical payload has at most one text: two payloads that parse to the same event are
  the same string, and serializing the event gives it back.
\<close>

theorem canonical_payload_unique:
  assumes "parseHiveChameleonEvent H p = Inr e"
  shows "valid_event H e \<and> utf8_length p \<le> 6144 \<and>
    serializeHiveChameleonEvent H (event_json e) = Inr p \<and>
    (parseHiveChameleonEvent H p' = Inr e \<longrightarrow> p' = p)"
  using assms parse_event_valid [OF assms] parse_serialize [OF assms]
  by (auto simp: parse_event_Inr HIVE_CHAMELEON_MAX_PAYLOAD_BYTES_def)

lemma fixture_payload_parses:
  "parseHiveChameleonEvent fixture_host ''match_results_batch'' = Inr fixture_event"
  using fixture_serialize fixture_codec_ok by (rule serialize_parse)

lemma canonical_payload_unique_witness:
  "serializeHiveChameleonEvent fixture_host (event_json fixture_event) = Inr ''match_results_batch''"
  using canonical_payload_unique [OF fixture_payload_parses] by simp

text \<open>
  C40. Every event that serializes parses back to itself, for a codec that round-trips its
  JSON; so no two events share a payload.
\<close>

theorem event_payload_roundtrip:
  assumes "serializeHiveChameleonEvent H (event_json e) = Inr p" and "codec_ok H (event_json e)"
    and "serializeHiveChameleonEvent H (event_json e') = Inr p" and "codec_ok H (event_json e')"
  shows "parseHiveChameleonEvent H p = Inr e \<and> e' = e"
  using serialize_parse [OF assms(1,2)] serialize_parse [OF assms(3,4)] by simp

lemma event_payload_roundtrip_witness:
  "parseHiveChameleonEvent fixture_host ''match_results_batch'' = Inr fixture_event"
  using event_payload_roundtrip [OF fixture_serialize fixture_codec_ok fixture_serialize
      fixture_codec_ok] by simp

text \<open>
  An accepted batch has from 1 to 20 results, as many as it announces, each completed in
  the half-open period, strictly increasing in completion time and round id, for a host that
  can read every timestamp the schema lets through.
\<close>

theorem valid_batch_ordered:
  assumes "valid_match_batch H b" and "\<And>s. zod_datetime H s \<Longrightarrow> date_parse H s \<noteq> None"
  shows "1 \<le> length (mb_results b) \<and> length (mb_results b) \<le> 20 \<and>
    mb_result_count b = int (length (mb_results b)) \<and>
    sorted_wrt (\<lambda>r r'. result_le H r r' \<and> mr_round_id r \<noteq> mr_round_id r') (mb_results b) \<and>
    (\<forall>r \<in> set (mb_results b).
       the (date_parse H (mb_period_start b)) \<le> fst (result_key H r) \<and>
       fst (result_key H r) < the (date_parse H (mb_period_end b)))"
proof -
  have refined: "match_batch_refined H b"
    and read: "date_parse H (mb_period_start b) \<noteq> None" "date_parse H (mb_period_end b) \<noteq> None"
    and completed: "\<And>r. r \<in> set (mb_results b) \<Longrightarrow> date_parse H (mr_completed_at r) \<noteq> None"
    using assms by (auto simp: valid_match_batch_def isoTimestampSchema_def list_all_iff
        valid_match_result_def match_result_formats_def)
  have order: "results_in_order H r r' \<longleftrightarrow> result_le H r r'"
    if "r \<in> set (mb_results b)" and "r' \<in> set (mb_results b)" for r r'
    using completed [OF that(1)] completed [OF that(2)]
    by (auto simp: results_in_order_def result_le_def result_key_def)
  have "adjacent_all (results_in_order H) (mb_results b)"
    and d: "distinct (map mr_round_id (mb_results b))"
    using refined js_set_size_eq [of "map mr_round_id (mb_results b)"]
    by (simp_all add: match_batch_refined_def)
  from adjacent_sorted_wrt [OF this(1) order result_le_trans]
  have "sorted_wrt (result_le H) (mb_results b)" .
  with d have "sorted_wrt (\<lambda>r r'. result_le H r r' \<and> mr_round_id r \<noteq> mr_round_id r') (mb_results b)"
    by (auto simp: sorted_wrt_iff_nth_less distinct_conv_nth)
  moreover have "\<forall>r \<in> set (mb_results b).
       the (date_parse H (mb_period_start b)) \<le> fst (result_key H r) \<and>
       fst (result_key H r) < the (date_parse H (mb_period_end b))"
    using refined read completed
    by (fastforce simp: match_batch_refined_def list_all_iff result_key_def Let_def)
  ultimately show ?thesis
    using assms(1) refined by (simp add: valid_match_batch_def match_batch_refined_def)
qed

lemma valid_batch_ordered_witness:
  "sorted_wrt (\<lambda>r r'. result_le fixture_host r r' \<and> mr_round_id r \<noteq> mr_round_id r')
     (mb_results fixture_batch)"
proof -
  have "valid_match_batch fixture_host fixture_batch"
    using fixture_event_valid by (simp add: fixture_event_def)
  from valid_batch_ordered [OF this] show ?thesis by (simp add: fixture_host_def)
qed

text \<open>
  An accepted account name has 3 to 16 characters, all lowercase letters, digits, hyphens
  or dots, in at most four dotted segments.
\<close>

theorem hive_account_shape:
  assumes "hiveAccountSchema s"
  shows "3 \<le> length s \<and> length s \<le> 16 \<and> list_all account_char s \<and>
    length (js_split (CHR ''.'') s) \<le> 4"
  using assms hiveAccount_chars [OF assms] hiveAccount_segments [OF assms]
  by (simp add: hiveAccountSchema_def)

lemma hive_account_shape_witness: "length (js_split (CHR ''.'') ''ab1.cd2.ef3'') \<le> 4"
proof -
  have "hiveAccountSchema ''ab1.cd2.ef3''" by code_simp
  from hive_account_shape [OF this] show ?thesis by simp
qed

end
