(* ===== verification/Gateway_Policy.thy ===== *)
theory Gateway_Policy
  imports Fixtures
begin

text \<open>
  What an official service account may publish (\<open>policy.ts\<close>), the canonical operation of a
  transaction, and the static signer policy (\<open>official-signer-policy.ts\<close>).
\<close>

section \<open>Formats\<close>

text \<open>\<open>/^[a-z0-9][a-z0-9._-]{0,31}$/\<close>\<close>

definition policyVersionSchema :: "string \<Rightarrow> bool" where
  "policyVersionSchema s \<longleftrightarrow>
     match_lead (\<lambda>c. is_lower c \<or> is_digit c)
       (\<lambda>c. is_lower c \<or> is_digit c \<or> is_one_of ''._-'' c) 0 31 s"

text \<open>\<open>/^[A-Za-z0-9._:-]+$/\<close>, 8 to 128 characters\<close>

definition idempotencyKeySchema :: "string \<Rightarrow> bool" where
  "idempotencyKeySchema s \<longleftrightarrow>
     string_between 8 128 s \<and>
     list_all (\<lambda>c. is_upper c \<or> is_lower c \<or> is_digit c \<or> is_one_of ''._:-'' c) s"

definition keyReferenceSchema :: "string \<Rightarrow> bool" where
  "keyReferenceSchema s \<longleftrightarrow> string_between 1 256 s"

definition publicKeySchema :: "string \<Rightarrow> bool" where
  "publicKeySchema s \<longleftrightarrow> string_between 16 128 s"

section \<open>Authorizing an event\<close>

definition assertAuthorizationShape :: "intent \<Rightarrow> authorization \<Rightarrow> exn + unit" where
  "assertAuthorizationShape i a =
     ebind (ensure
       (idempotencyKeySchema (in_idempotencyKey i) \<and> policyVersionSchema (in_policyVersion i) \<and>
        policyVersionSchema (au_policyVersion a) \<and> hiveAccountSchema (au_account a) \<and>
        publicKeySchema (au_expectedPublicKey a) \<and> keyReferenceSchema (au_signerKeyReference a))
       (HiveGatewayError invalid_authorization)) (\<lambda>_.
     ensure (in_policyVersion i = au_policyVersion a) (HiveGatewayError policy_denied))"

fun assertPayloadAccount :: "event \<Rightarrow> string \<Rightarrow> exn + unit" where
  "assertPayloadAccount (Match_Results_Batch b) account =
     ensure (mb_publisher b = account) (HiveGatewayError policy_denied)"
| "assertPayloadAccount (Match_Result_Corrected c) account =
     ensure (mc_publisher c = account) (HiveGatewayError policy_denied)"
| "assertPayloadAccount (Match_Result_Invalidated v) account =
     ensure (mi_publisher v = account) (HiveGatewayError policy_denied)"
| "assertPayloadAccount (Collectible_Issued c) account =
     ensure (ci_issuer c = account) (HiveGatewayError policy_denied)"
| "assertPayloadAccount (Collectible_Revoked c) account = Inr ()"

text \<open>\<open>family === 'match' ? 'match_publisher' : 'collectible_issuer'\<close>\<close>

definition expectedRole :: "event_family \<Rightarrow> service_role" where
  "expectedRole f = (if f = Match_Family then Match_Publisher else Collectible_Issuer)"

definition authorizeOfficialEvent ::
  "host \<Rightarrow> intent \<Rightarrow> authorization \<Rightarrow> exn + (custom_json \<times> string)" where
  "authorizeOfficialEvent H i a =
     ebind (assertAuthorizationShape i a) (\<lambda>_.
     ebind (ensure (au_mode a = Official_Service \<and> au_authority a = Posting)
       (HiveGatewayError invalid_authorization)) (\<lambda>_.
     let family = eventFamily (in_event i) in
     ebind (ensure (au_role a = expectedRole family) (HiveGatewayError policy_denied)) (\<lambda>_.
     ebind (assertPayloadAccount (in_event i) (au_account a)) (\<lambda>_.
     ebind (serializeHiveChameleonEvent H (event_json (in_event i))) (\<lambda>canonicalPayload.
     Inr (\<lparr>cj_required_auths = [], cj_required_posting_auths = [au_account a],
            cj_id = HIVE_CHAMELEON_APPLICATION_ID, cj_json = canonicalPayload\<rparr>,
          canonicalPayload))))))"

text \<open>The operation as JSON, \<open>{type: 'custom_json_operation', value: operation}\<close>.\<close>

definition custom_json_json :: "custom_json \<Rightarrow> json" where
  "custom_json_json cj = jobj
     [(''required_auths'', jstrings (cj_required_auths cj)),
      (''required_posting_auths'', jstrings (cj_required_posting_auths cj)),
      (''id'', JStr (cj_id cj)), (''json'', JStr (cj_json cj))]"

definition operation_json :: "custom_json \<Rightarrow> json" where
  "operation_json cj =
     jobj [(''type'', JStr ''custom_json_operation''), (''value'', custom_json_json cj)]"

definition canonicalCustomJsonOperation :: "host \<Rightarrow> custom_json \<Rightarrow> exn + string" where
  "canonicalCustomJsonOperation H cj = canonicalJson H (operation_json cj)"

section \<open>The static policy\<close>

definition policyKey :: "string \<Rightarrow> service_role \<Rightarrow> string" where
  "policyKey policyVersion role = policyVersion @ [CHR 0x00] @ service_role_name role"

text \<open>The constructor: it fills the map of entries in order.\<close>

fun static_policy_entries ::
  "(string \<rightharpoonup> authorization) \<Rightarrow> authorization list \<Rightarrow> exn + (string \<rightharpoonup> authorization)" where
  "static_policy_entries entries [] = Inr entries"
| "static_policy_entries entries (a # as) =
     (let key = policyKey (au_policyVersion a) (au_role a) in
      if entries key \<noteq> None then Inl (HiveGatewayError invalid_authorization)
      else static_policy_entries (entries(key \<mapsto> a)) as)"

definition static_policy_new :: "authorization list \<Rightarrow> exn + (string \<rightharpoonup> authorization)" where
  "static_policy_new as =
     (if length as = 0 then Inl (HiveGatewayError invalid_authorization)
      else static_policy_entries Map.empty as)"

definition static_policy_resolve :: "(string \<rightharpoonup> authorization) \<Rightarrow> signer_policy" where
  "static_policy_resolve entries policyVersion role = entries (policyKey policyVersion role)"

section \<open>Lemmas\<close>

definition payload_account :: "event \<Rightarrow> string option" where
  "payload_account e =
     (case e of
        Match_Results_Batch b \<Rightarrow> Some (mb_publisher b)
      | Match_Result_Corrected c \<Rightarrow> Some (mc_publisher c)
      | Match_Result_Invalidated v \<Rightarrow> Some (mi_publisher v)
      | Collectible_Issued c \<Rightarrow> Some (ci_issuer c)
      | Collectible_Revoked c \<Rightarrow> None)"

lemma assertPayloadAccount_Inr:
  "assertPayloadAccount e acc = Inr u \<longleftrightarrow> payload_account e \<in> {None, Some acc}"
  by (cases e) (auto simp: payload_account_def)

lemma authorize_Inr:
  "authorizeOfficialEvent H i a = Inr (cj, p) \<longleftrightarrow>
     assertAuthorizationShape i a = Inr () \<and>
     au_mode a = Official_Service \<and> au_authority a = Posting \<and>
     au_role a = expectedRole (eventFamily (in_event i)) \<and>
     payload_account (in_event i) \<in> {None, Some (au_account a)} \<and>
     serializeHiveChameleonEvent H (event_json (in_event i)) = Inr p \<and>
     cj = \<lparr>cj_required_auths = [], cj_required_posting_auths = [au_account a],
            cj_id = HIVE_CHAMELEON_APPLICATION_ID, cj_json = p\<rparr>"
  by (auto simp: authorizeOfficialEvent_def run_simps assertPayloadAccount_Inr Let_def)

lemma assertAuthorizationShape_Inr:
  "assertAuthorizationShape i a = Inr u \<longleftrightarrow>
     idempotencyKeySchema (in_idempotencyKey i) \<and> policyVersionSchema (in_policyVersion i) \<and>
     hiveAccountSchema (au_account a) \<and> publicKeySchema (au_expectedPublicKey a) \<and>
     keyReferenceSchema (au_signerKeyReference a) \<and> in_policyVersion i = au_policyVersion a"
  by (auto simp: assertAuthorizationShape_def run_simps)

text \<open>The last NUL of a key ends the version: no role name contains one.\<close>

lemma service_role_name_no_nul: "CHR 0x00 \<notin> set (service_role_name r)"
  by (cases r) simp_all

lemma policyKey_inj: "policyKey v r = policyKey v' r' \<longleftrightarrow> v = v' \<and> r = r'"
  by (auto simp: policyKey_def dest!: append_sep_inj
      dest: service_role_name_inj simp: service_role_name_no_nul)

definition policy_entry :: "authorization \<Rightarrow> string \<times> authorization" where
  "policy_entry a = (policyKey (au_policyVersion a) (au_role a), a)"

lemma static_policy_entries_Inr:
  "static_policy_entries m as = Inr m' \<longleftrightarrow>
     distinct (map (fst \<circ> policy_entry) as) \<and> (\<forall>a \<in> set as. m (fst (policy_entry a)) = None) \<and>
     m' = m ++ map_of (map policy_entry as)"
proof (induction as arbitrary: m)
  case Nil
  then show ?case by auto
next
  case (Cons a as)
  let ?key = "\<lambda>a. fst (policy_entry a)"
  have e: "policy_entry a = (?key a, a)"
    by (simp add: policy_entry_def)
  have step: "static_policy_entries m (a # as) = Inr m' \<longleftrightarrow>
      m (?key a) = None \<and> static_policy_entries (m(?key a \<mapsto> a)) as = Inr m'"
    by (simp add: Let_def policy_entry_def)
  show ?case
  proof (cases "?key a \<in> ?key ` set as")
    case True
    then obtain b where "b \<in> set as" and "?key a = ?key b" by blast
    then have "\<not> (\<forall>b \<in> set as. (m(?key a \<mapsto> a)) (?key b) = None)" by auto
    moreover have "\<not> distinct (map (fst \<circ> policy_entry) (a # as))"
      using True by (simp add: comp_def)
    ultimately show ?thesis unfolding step Cons.IH by blast
  next
    case False
    have ne: "(m(?key a \<mapsto> a)) (?key b) = m (?key b)" if "b \<in> set as" for b
    proof -
      have "?key b \<in> ?key ` set as"
        using that by (rule imageI)
      with False show ?thesis by (cases "?key b = ?key a") simp_all
    qed
    have "m(?key a \<mapsto> a) ++ map_of (map policy_entry as) = m ++ map_of (map policy_entry (a # as))"
      using False by (subst list.map, subst e, subst map_of.simps)
        (simp add: map_add_upd_left dom_map_of_conv_image_fst image_image)
    moreover have "(\<forall>b \<in> set as. (m(?key a \<mapsto> a)) (?key b) = None) \<longleftrightarrow>
        (\<forall>b \<in> set as. m (?key b) = None)"
      using ne by (intro ball_cong refl) simp
    moreover have "distinct (map (fst \<circ> policy_entry) (a # as)) \<longleftrightarrow>
        distinct (map (fst \<circ> policy_entry) as)"
      using False by (simp add: comp_def)
    moreover have "(\<forall>b \<in> set (a # as). m (?key b) = None) \<longleftrightarrow>
        m (?key a) = None \<and> (\<forall>b \<in> set as. m (?key b) = None)"
      by simp
    ultimately show ?thesis unfolding step Cons.IH by (simp only:) argo
  qed
qed

lemma fixture_authorized:
  "authorizeOfficialEvent fixture_host fixture_intent fixture_authorization =
     Inr (\<lparr>cj_required_auths = [], cj_required_posting_auths = [''match-pub''],
            cj_id = ''hive.chameleon'', cj_json = ''match_results_batch''\<rparr>,
          ''match_results_batch'')"
proof -
  have "assertAuthorizationShape fixture_intent fixture_authorization = Inr ()"
    by code_simp
  then show ?thesis
    unfolding authorize_Inr
    by (simp add: fixture_intent_def fixture_serialize HIVE_CHAMELEON_APPLICATION_ID_def)
      (simp add: fixture_authorization_def fixture_event_def fixture_batch_def expectedRole_def
        payload_account_def)
qed

section \<open>Properties\<close>

text \<open>
  What is authorized is one posting-authority operation of the signing account and of no
  other: the account holds the role of the event's family, it is the publisher or issuer the
  payload names, and the payload is the canonical text of the event.
\<close>

theorem authorized_operation:
  assumes "authorizeOfficialEvent H i a = Inr (cj, p)"
    and "codec_ok H (event_json (in_event i))"
  shows "cj_required_auths cj = [] \<and> cj_required_posting_auths cj = [au_account a] \<and>
    cj_id cj = ''hive.chameleon'' \<and> cj_json cj = p \<and>
    parseHiveChameleonEvent H p = Inr (in_event i) \<and>
    au_authority a = Posting \<and> au_role a = expectedRole (eventFamily (in_event i)) \<and>
    payload_account (in_event i) \<in> {None, Some (au_account a)} \<and>
    in_policyVersion i = au_policyVersion a"
  using assms
  by (auto simp: authorize_Inr assertAuthorizationShape_Inr HIVE_CHAMELEON_APPLICATION_ID_def
      intro: serialize_parse)

lemma authorized_operation_witness:
  "authorizeOfficialEvent fixture_host fixture_intent fixture_authorization =
     Inr (\<lparr>cj_required_auths = [], cj_required_posting_auths = [''match-pub''],
            cj_id = ''hive.chameleon'', cj_json = ''match_results_batch''\<rparr>,
          ''match_results_batch'') \<and>
   parseHiveChameleonEvent fixture_host ''match_results_batch'' = Inr fixture_event"
proof -
  show ?thesis
    using authorized_operation [OF fixture_authorized] fixture_authorized
    by (simp add: fixture_intent_def fixture_codec_ok)
qed

text \<open>
  The duties are separate: an authorization under which some match event is accepted
  accepts no collectible event.
\<close>

theorem authorization_families_disjoint:
  assumes "authorizeOfficialEvent H i a = Inr x" and "eventFamily (in_event i) = Match_Family"
    and "eventFamily (in_event j) = Collectible_Family"
  shows "\<exists>e. authorizeOfficialEvent H j a = Inl e"
proof (cases "authorizeOfficialEvent H j a")
  case (Inr y)
  obtain cj p cj' p' where "x = (cj, p)" "y = (cj', p')" by (metis surj_pair)
  with assms Inr show ?thesis by (auto simp: authorize_Inr expectedRole_def)
qed simp

lemma authorization_families_disjoint_witness:
  "\<exists>e. authorizeOfficialEvent fixture_host
     (fixture_intent\<lparr>in_event := Collectible_Revoked \<lparr>cr_event_id = ''e'', cr_occurred_at = ''t'',
        cr_collectible_id = ''c'', cr_issued_event_id = ''i'', cr_reason_code = ''r''\<rparr>\<rparr>)
     fixture_authorization = Inl e"
proof -
  show ?thesis
    by (rule authorization_families_disjoint [OF fixture_authorized])
      (simp_all add: fixture_intent_def fixture_event_def)
qed

text \<open>
  The static policy is the finite function its authorizations spell out: the constructor
  accepts a non-empty list without two entries of one version and role, and then looks up
  exactly the authorization given for a version and a role.
\<close>

theorem static_policy_resolves:
  assumes "static_policy_new as = Inr entries"
  shows "as \<noteq> [] \<and> distinct (map (\<lambda>a. (au_policyVersion a, au_role a)) as) \<and>
    (static_policy_resolve entries v r = Some a \<longleftrightarrow>
       a \<in> set as \<and> au_policyVersion a = v \<and> au_role a = r)"
proof -
  have ne: "as \<noteq> []" and d: "distinct (map (fst \<circ> policy_entry) as)"
    and e: "entries = map_of (map policy_entry as)"
    using assms by (auto simp: static_policy_new_def static_policy_entries_Inr split: if_splits)
  have "entries (policyKey v r) = Some a \<longleftrightarrow> (policyKey v r, a) \<in> set (map policy_entry as)"
    unfolding e by (rule map_of_eq_Some_iff) (use d in \<open>simp add: comp_def\<close>)
  moreover have "distinct (map (\<lambda>a. (au_policyVersion a, au_role a)) as)"
    using d by (auto simp: distinct_map inj_on_def policy_entry_def policyKey_inj)
  ultimately show ?thesis
    using ne by (auto simp: static_policy_resolve_def policy_entry_def policyKey_inj)
qed

lemma static_policy_resolves_witness:
  "static_policy_resolve
     (Map.empty(policyKey ''match-policy-1'' Match_Publisher \<mapsto> fixture_authorization))
     ''match-policy-1'' Match_Publisher = Some fixture_authorization"
proof -
  have "static_policy_new [fixture_authorization] =
    Inr (Map.empty(policyKey ''match-policy-1'' Match_Publisher \<mapsto> fixture_authorization))"
    by (simp add: static_policy_new_def fixture_authorization_def)
  from static_policy_resolves [OF this, of "''match-policy-1''" Match_Publisher
      fixture_authorization]
  show ?thesis by (simp add: fixture_authorization_def)
qed

end
