(* ===== verification/Signature.thy ===== *)
theory Signature
  imports Gateway_Contracts "HOL-Library.Word"
begin

text \<open>
  Compact signatures (\<open>signature.ts\<close>): the 65-byte format, the scalars Graphene accepts, and
  the low-S rule. Numbers read from hexadecimal text are \<^typ>\<open>int\<close>; the bitwise tests of
  JavaScript are on \<^typ>\<open>32 word\<close>.
\<close>

unbundle bit_operations_syntax

section \<open>Reading hexadecimal text\<close>

definition hex_digit :: "char \<Rightarrow> int" where
  "hex_digit c = (if is_digit c then of_char c - 48 else of_char c - 87)"

text \<open>\<open>Number.parseInt(s, 16)\<close> and \<open>BigInt('0x' + s)\<close> on lowercase hexadecimal digits.\<close>

fun parse_hex_from :: "int \<Rightarrow> string \<Rightarrow> int" where
  "parse_hex_from a [] = a"
| "parse_hex_from a (c # cs) = parse_hex_from (16 * a + hex_digit c) cs"

definition parse_hex :: "string \<Rightarrow> int" where
  "parse_hex s = parse_hex_from 0 s"

lemma hex_digit_range:
  assumes "is_lower_hex c"
  shows "0 \<le> hex_digit c \<and> hex_digit c < 16"
proof -
  define n where "n = (of_char c :: nat)"
  have "(of_char c :: int) = int n"
    by (simp add: n_def of_nat_of_char)
  moreover have "(48 \<le> n \<and> n \<le> 57) \<or> (97 \<le> n \<and> n \<le> 102)"
    and "is_digit c \<longleftrightarrow> 48 \<le> n \<and> n \<le> 57"
    using assms by (auto simp: is_lower_hex_def is_digit_def less_eq_char_def n_def)
  ultimately show ?thesis by (auto simp: hex_digit_def)
qed

lemma parse_hex_from_eq: "parse_hex_from a s = a * 16 ^ length s + parse_hex_from 0 s"
proof (induction s arbitrary: a)
  case Nil
  then show ?case by simp
next
  case (Cons c cs)
  show ?case
    using Cons.IH [of "16 * a + hex_digit c"] Cons.IH [of "hex_digit c"]
    by (simp add: algebra_simps)
qed

lemma parse_hex_Nil [simp]: "parse_hex [] = 0"
  by (simp add: parse_hex_def)

lemma parse_hex_Cons: "parse_hex (c # cs) = hex_digit c * 16 ^ length cs + parse_hex cs"
  using parse_hex_from_eq [of "hex_digit c" cs] by (simp add: parse_hex_def)

lemma parse_hex_append: "parse_hex (s @ t) = parse_hex s * 16 ^ length t + parse_hex t"
  by (induction s) (simp_all add: parse_hex_Cons algebra_simps power_add)

lemma parse_hex_range:
  "list_all is_lower_hex s \<Longrightarrow> 0 \<le> parse_hex s \<and> parse_hex s < 16 ^ length s"
proof (induction s)
  case Nil
  then show ?case by simp
next
  case (Cons c cs)
  then have d: "0 \<le> hex_digit c" "hex_digit c + 1 \<le> 16"
    and s: "0 \<le> parse_hex cs" "parse_hex cs < 16 ^ length cs"
    using hex_digit_range [of c] by auto
  from d(2) have "(hex_digit c + 1) * 16 ^ length cs \<le> 16 * 16 ^ length cs"
    by (rule mult_right_mono) simp
  then have "hex_digit c * 16 ^ length cs + 16 ^ length cs \<le> 16 ^ length (c # cs)"
    by (simp add: distrib_right)
  moreover have "0 \<le> hex_digit c * 16 ^ length cs"
    using d(1) by simp
  ultimately show ?case using s by (simp only: parse_hex_Cons) linarith
qed

section \<open>The compact format\<close>

definition SECP256K1_ORDER :: int where
  "SECP256K1_ORDER = 0xFFFFFFFFFFFFFFFFFFFFFFFFFFFFFFFEBAAEDCE6AF48A03BBFD25E8CD0364141"

definition SECP256K1_HALF_ORDER :: int where
  "SECP256K1_HALF_ORDER = SECP256K1_ORDER div 2"

record compact_signature =
  cs_recovery_id :: int
  cs_r :: string
  cs_s :: string

text \<open>\<open>(n & 0x80) === 0\<close>\<close>

definition high_bit_clear :: "int \<Rightarrow> bool" where
  "high_bit_clear n \<longleftrightarrow> (word_of_int n :: 32 word) AND 0x80 = 0"

definition isGrapheneCanonicalScalar :: "string \<Rightarrow> bool" where
  "isGrapheneCanonicalScalar hex \<longleftrightarrow>
     (let first = parse_hex (js_slice 0 2 hex); second = parse_hex (js_slice 2 4 hex) in
      high_bit_clear first \<and> \<not> (first = 0 \<and> high_bit_clear second))"

definition validateHiveCompactSignature :: "string \<Rightarrow> exn + compact_signature" where
  "validateHiveCompactSignature signature =
     (if \<not> is_hex_string 130 signature then Inl (HiveGatewayError invalid_signature)
      else let header = parse_hex (js_slice 0 2 signature) in
        if header < 31 \<or> header > 34 then Inl (HiveGatewayError invalid_signature)
        else let r = js_slice 2 66 signature; s = js_slice 66 130 signature in
          if \<not> isGrapheneCanonicalScalar r \<or> \<not> isGrapheneCanonicalScalar s
          then Inl (HiveGatewayError invalid_signature)
          else let sValue = parse_hex s in
            if sValue < 1 \<or> sValue > SECP256K1_HALF_ORDER
            then Inl (HiveGatewayError invalid_signature)
            else Inr \<lparr>cs_recovery_id = header - 31, cs_r = r, cs_s = s\<rparr>)"

lemma high_bit_clear_byte:
  assumes "0 \<le> n" and "n < 256"
  shows "high_bit_clear n \<longleftrightarrow> n < 128"
proof -
  have "high_bit_clear n \<longleftrightarrow> \<not> bit (word_of_int n :: 32 word) 7"
    using and_exp_eq_0_iff_not_bit [of "word_of_int n :: 32 word" 7] by (simp add: high_bit_clear_def)
  also have "\<dots> \<longleftrightarrow> \<not> odd (n div 128)"
    by (simp add: bit_word_of_int_iff bit_iff_odd [of n])
  also have "\<dots> \<longleftrightarrow> n < 128"
  proof (cases "n < 128")
    case True
    with assms show ?thesis by simp
  next
    case False
    with assms have "n div 128 = 1" by linarith
    with False show ?thesis by simp
  qed
  finally show ?thesis .
qed

lemma js_slice_hex: "list_all is_lower_hex s \<Longrightarrow> list_all is_lower_hex (js_slice i j s)"
  by (auto simp: js_slice_def list_all_iff dest: in_set_takeD in_set_dropD)

lemma js_slice_length: "j \<le> length s \<Longrightarrow> length (js_slice i j s) = j - i"
  by (simp add: js_slice_def)


text \<open>A canonical scalar of 32 bytes lies between two powers of two.\<close>

lemma canonical_scalar_range:
  assumes "length s = 64" and "list_all is_lower_hex s" and "isGrapheneCanonicalScalar s"
  shows "2 ^ 247 \<le> parse_hex s \<and> parse_hex s < 2 ^ 255"
proof -
  let ?a = "take 2 s" and ?b = "take 2 (drop 2 s)" and ?c = "drop 4 s"
  have s: "s = ?a @ ?b @ ?c"
    by (metis append_take_drop_id drop_drop numeral_Bit0)
  have hex: "list_all is_lower_hex ?a" "list_all is_lower_hex ?b" "list_all is_lower_hex ?c"
    using assms(2) by (auto simp: list_all_iff dest: in_set_takeD in_set_dropD)
  have a: "0 \<le> parse_hex ?a" "parse_hex ?a < 256" and b: "0 \<le> parse_hex ?b" "parse_hex ?b < 256"
    and c: "0 \<le> parse_hex ?c" "parse_hex ?c < 16 ^ 60"
    using parse_hex_range [OF hex(1)] parse_hex_range [OF hex(2)] parse_hex_range [OF hex(3)]
      assms(1) by auto
  have slices: "js_slice 0 2 s = ?a" "js_slice 2 4 s = ?b"
    by (simp_all add: js_slice_def drop_take)
  have can: "parse_hex ?a < 128" "parse_hex ?a = 0 \<Longrightarrow> 128 \<le> parse_hex ?b"
    using assms(3) a b by (auto simp: isGrapheneCanonicalScalar_def slices high_bit_clear_byte Let_def)
  have v: "parse_hex s = parse_hex ?a * 16 ^ 62 + parse_hex ?b * 16 ^ 60 + parse_hex ?c"
    by (subst s, simp only: parse_hex_append) (simp add: assms(1) algebra_simps)
  show ?thesis
    using a b c can unfolding v by (cases "parse_hex ?a = 0") (auto simp: power_numeral)
qed

lemma validate_signature_Inr:
  "validateHiveCompactSignature g = Inr i \<longleftrightarrow>
     is_hex_string 130 g \<and>
     31 \<le> parse_hex (js_slice 0 2 g) \<and> parse_hex (js_slice 0 2 g) \<le> 34 \<and>
     isGrapheneCanonicalScalar (js_slice 2 66 g) \<and> isGrapheneCanonicalScalar (js_slice 66 130 g) \<and>
     1 \<le> parse_hex (js_slice 66 130 g) \<and> parse_hex (js_slice 66 130 g) \<le> SECP256K1_HALF_ORDER \<and>
     i = \<lparr>cs_recovery_id = parse_hex (js_slice 0 2 g) - 31, cs_r = js_slice 2 66 g,
       cs_s = js_slice 66 130 g\<rparr>"
  by (auto simp: validateHiveCompactSignature_def Let_def)

lemma validate_signature_Inl:
  "validateHiveCompactSignature g = Inl e \<Longrightarrow> e = HiveGatewayError invalid_signature"
  by (auto simp: validateHiveCompactSignature_def Let_def split: if_splits)


section \<open>Recovery\<close>

definition assertSignatureMatchesPublicKey ::
  "'c chain_port \<Rightarrow> string \<Rightarrow> string \<Rightarrow> string \<Rightarrow> ('c, unit) action" where
  "assertSignatureMatchesPublicKey chain signatureDigest signature expectedPublicKey =
     act_bind (act_ensure (is_hex_string 64 signatureDigest) (HiveGatewayError invalid_signature)) (\<lambda>_.
     act_bind (act_lift (validateHiveCompactSignature signature)) (\<lambda>_.
     act_bind (recoverPublicKey chain signatureDigest signature) (\<lambda>recovered.
     act_ensure (recovered = expectedPublicKey) (HiveGatewayError signer_mismatch))))"

lemma assertSignature_Inr:
  assumes "assertSignatureMatchesPublicKey chain d g k s = (Inr u, s')"
  shows "is_hex_string 64 d" and "\<exists>i. validateHiveCompactSignature g = Inr i"
    and "recoverPublicKey chain d g s = (Inr k, s')"
  using assms
  by (auto simp: assertSignatureMatchesPublicKey_def act_simps elim!: act_bind_InrE split: if_splits)

section \<open>Properties\<close>

text \<open>
  An accepted compact signature has 65 bytes, a recovery id from 0 to 3, an R below
  \<open>2^255\<close>, and an S in the lower half of the group order; both scalars have their full
  width, so the explicit test that S is at least 1 can never be the one that rejects.
\<close>

theorem compact_signature_bounds:
  assumes "validateHiveCompactSignature g = Inr i"
  shows "length g = 130 \<and> cs_recovery_id i \<in> {0..3} \<and>
    2 ^ 247 \<le> parse_hex (cs_r i) \<and> parse_hex (cs_r i) < 2 ^ 255 \<and>
    2 ^ 247 \<le> parse_hex (cs_s i) \<and> 2 * parse_hex (cs_s i) < SECP256K1_ORDER"
proof -
  have g: "length g = 130" "list_all is_lower_hex g"
    using assms by (auto simp: validate_signature_Inr is_hex_string_def)
  have r: "2 ^ 247 \<le> parse_hex (js_slice 2 66 g) \<and> parse_hex (js_slice 2 66 g) < 2 ^ 255"
    and s: "2 ^ 247 \<le> parse_hex (js_slice 66 130 g) \<and> parse_hex (js_slice 66 130 g) < 2 ^ 255"
    by (intro canonical_scalar_range; use assms g in
        \<open>simp add: validate_signature_Inr js_slice_hex js_slice_length\<close>)+
  have "2 * SECP256K1_HALF_ORDER < SECP256K1_ORDER"
    by (simp add: SECP256K1_HALF_ORDER_def SECP256K1_ORDER_def)
  with assms g r s show ?thesis by (auto simp: validate_signature_Inr)
qed

text \<open>
  Signatures are not malleable: of a signature and its twin with S replaced by the group
  order minus S, at most one is accepted.
\<close>

theorem signature_not_malleable:
  assumes "validateHiveCompactSignature g = Inr i"
    and "parse_hex (js_slice 66 130 g') = SECP256K1_ORDER - parse_hex (cs_s i)"
  shows "validateHiveCompactSignature g' = Inl (HiveGatewayError invalid_signature)"
proof (cases "validateHiveCompactSignature g'")
  case (Inl e)
  then show ?thesis by (auto dest: validate_signature_Inl)
next
  case (Inr j)
  have "2 * SECP256K1_HALF_ORDER < SECP256K1_ORDER"
    by (simp add: SECP256K1_HALF_ORDER_def SECP256K1_ORDER_def)
  with Inr assms show ?thesis by (auto simp: validate_signature_Inr)
qed


text \<open>The signature of \<open>testing/fixtures.ts\<close> and its twin with the other S.\<close>

definition fixture_signature :: string where
  "fixture_signature =
     ''204486a65bbc34a4d7cacf14ca4fb255ba31a0620ffa9cbd1d1546c8ea839b9abe'' @
     ''0f4949c525dbd7105f61d7176348a8a7df68dff90b49b7e58a5660906620f856''"

definition fixture_signature_twin :: string where
  "fixture_signature_twin =
     ''204486a65bbc34a4d7cacf14ca4fb255ba31a0620ffa9cbd1d1546c8ea839b9abe'' @
     ''f0b6b63ada2428efa09e28e89cb75756db45fceda3fee856357bfdfc6a1548eb''"

lemma fixture_signature_accepted:
  "validateHiveCompactSignature fixture_signature =
     Inr \<lparr>cs_recovery_id = 1,
       cs_r = ''4486a65bbc34a4d7cacf14ca4fb255ba31a0620ffa9cbd1d1546c8ea839b9abe'',
       cs_s = ''0f4949c525dbd7105f61d7176348a8a7df68dff90b49b7e58a5660906620f856''\<rparr>"
  by code_simp

lemma compact_signature_bounds_witness:
  "length fixture_signature = 130 \<and> (1::int) \<in> {0..3}"
  using compact_signature_bounds [OF fixture_signature_accepted] by simp

lemma signature_not_malleable_witness:
  "validateHiveCompactSignature fixture_signature_twin = Inl (HiveGatewayError invalid_signature)"
  by (rule signature_not_malleable [OF fixture_signature_accepted]) code_simp

end
