(* ===== verification/Gateway.thy ===== *)
theory Gateway
  imports Gateway_Policy Signature
begin

text \<open>
  \<open>HiveGateway\<close> (\<open>gateway.ts\<close>): an authorized event becomes an unsigned transaction, and a
  prepared event becomes a broadcast once its signature is known to recover the expected
  key. The state of a run is the chain's and the signer client's.
\<close>

definition default_expiration :: "int option \<Rightarrow> int" where
  "default_expiration e = (case e of None \<Rightarrow> 300 | Some n \<Rightarrow> n)"

definition prepareOfficialEvent ::
  "host \<Rightarrow> 'c chain_port \<Rightarrow> intent \<Rightarrow> authorization \<Rightarrow> ('c, prepared_event) action" where
  "prepareOfficialEvent H chain i a =
     act_bind (act_lift (authorizeOfficialEvent H i a)) (\<lambda>(operation, canonicalPayload).
     act_bind (act_lift (canonicalCustomJsonOperation H operation)) (\<lambda>canonicalOperationJson.
     act_bind (prepareCustomJson chain operation (default_expiration (in_expirationSeconds i))) (\<lambda>prepared.
     act_bind (act_ensure (tx_canonicalOperationJson prepared = canonicalOperationJson)
       (HiveGatewayError transaction_mismatch)) (\<lambda>_.
     act_ok (prepared_tx.extend prepared
       \<lparr>pe_idempotencyKey = in_idempotencyKey i, pe_policyVersion = in_policyVersion i,
         pe_eventFamily = eventFamily (in_event i), pe_eventType = event_type (in_event i),
         pe_canonicalPayload = canonicalPayload,
         pe_canonicalOperationHash = sha256_hex H canonicalOperationJson,
         pe_authorization = a\<rparr>)))))"

definition signer_request_of :: "prepared_event \<Rightarrow> signer_request" where
  "signer_request_of p = \<lparr>
     rq_idempotencyKey = pe_idempotencyKey p, rq_policyVersion = pe_policyVersion p,
     rq_role = au_role (pe_authorization p), rq_account = au_account (pe_authorization p),
     rq_authority = au_authority (pe_authorization p),
     rq_expectedPublicKey = au_expectedPublicKey (pe_authorization p),
     rq_signerKeyReference = au_signerKeyReference (pe_authorization p),
     rq_eventFamily = pe_eventFamily p, rq_eventType = pe_eventType p,
     rq_canonicalPayload = pe_canonicalPayload p,
     rq_canonicalOperationJson = tx_canonicalOperationJson p,
     rq_canonicalOperationHash = pe_canonicalOperationHash p,
     rq_unsignedTransactionJson = tx_unsignedTransactionJson p,
     rq_signatureDigest = tx_signatureDigest p, rq_transactionId = tx_transactionId p\<rparr>"

definition broadcastOfficialEvent ::
  "'c chain_port \<Rightarrow> prepared_event \<Rightarrow> 'w signer_client \<Rightarrow> ('c \<times> 'w, broadcast_result) action" where
  "broadcastOfficialEvent chain prepared signer =
     (let expected = au_expectedPublicKey (pe_authorization prepared) in
      act_bind (act_snd (signer (signer_request_of prepared))) (\<lambda>response.
      act_bind (act_ensure (rs_publicKey response = expected) (HiveGatewayError signer_mismatch)) (\<lambda>_.
      act_bind (act_fst (assertSignatureMatchesPublicKey chain (tx_signatureDigest prepared)
        (rs_signature response) expected)) (\<lambda>_.
      act_bind (act_fst (attachSignature chain (tx_unsignedTransactionJson prepared)
        (rs_signature response))) (\<lambda>signed.
      act_bind (act_fst (broadcast chain signed)) (\<lambda>_.
      act_ok \<lparr>br_transactionId = tx_transactionId prepared,
        br_eventType = pe_eventType prepared\<rparr>))))))"

section \<open>Observing the chain\<close>

text \<open>
  A chain adapter that records what is asked of it: key recoveries and attached signatures
  with their results, and every broadcast that is attempted.
\<close>

datatype chain_call =
    Recovered string string string
  | Attached string string string
  | Broadcasting string

definition record_result ::
  "('a \<Rightarrow> chain_call) \<Rightarrow> ('c, 'a) action \<Rightarrow> ('c \<times> chain_call list, 'a) action" where
  "record_result f m = (\<lambda>(c, calls).
     case m c of (Inl e, c') \<Rightarrow> (Inl e, (c', calls)) | (Inr x, c') \<Rightarrow> (Inr x, (c', calls @ [f x])))"

definition recording_chain :: "'c chain_port \<Rightarrow> ('c \<times> chain_call list) chain_port" where
  "recording_chain C = \<lparr>
     prepareCustomJson = (\<lambda>cj n. act_fst (prepareCustomJson C cj n)),
     inspectTransaction = (\<lambda>t. act_fst (inspectTransaction C t)),
     recoverPublicKey = (\<lambda>d g. record_result (Recovered d g) (recoverPublicKey C d g)),
     attachSignature = (\<lambda>u g. record_result (Attached u g) (attachSignature C u g)),
     broadcast = (\<lambda>t (c, calls). act_fst (broadcast C t) (c, calls @ [Broadcasting t]))\<rparr>"

lemma recording_chain_simps [simp]:
  "recoverPublicKey (recording_chain C) d g = record_result (Recovered d g) (recoverPublicKey C d g)"
  "attachSignature (recording_chain C) u g = record_result (Attached u g) (attachSignature C u g)"
  "broadcast (recording_chain C) t (c, calls) = act_fst (broadcast C t) (c, calls @ [Broadcasting t])"
  by (simp_all add: recording_chain_def)

lemma record_resultE:
  assumes "record_result f m (c, calls) = (r, w)"
  obtains (fails) e c' where "r = Inl e" and "w = (c', calls)"
    | (returns) x c' where "r = Inr x" and "w = (c', calls @ [f x])"
  using assms by (auto simp: record_result_def split: prod.splits sum.splits)

text \<open>The signature check asks for one recovery, and passes only when it gives the key.\<close>

lemma assertSignature_recording:
  assumes "assertSignatureMatchesPublicKey (recording_chain C) d g k (c, calls) = (r, (c', calls'))"
  shows "(\<exists>e. r = Inl e \<and> (calls' = calls \<or> (\<exists>k'. k' \<noteq> k \<and> calls' = calls @ [Recovered d g k']))) \<or>
    (r = Inr () \<and> calls' = calls @ [Recovered d g k] \<and>
     (\<exists>i. validateHiveCompactSignature g = Inr i))"
  using assms unfolding assertSignatureMatchesPublicKey_def
  by (auto simp: act_run elim!: act_bindE record_resultE split: if_splits)

section \<open>Properties\<close>

text \<open>
  C5. Nothing reaches the network before its signature is checked: a run of
  \<open>broadcastOfficialEvent\<close> attempts at most one broadcast, and it does so only after a
  well-formed signature recovered exactly the expected public key from the prepared digest,
  and of exactly the prepared transaction with that signature attached. A run that succeeds
  has broadcast.
\<close>

theorem broadcast_after_recovery:
  assumes "broadcastOfficialEvent (recording_chain C) p signer ((c, []), w) = (r, ((c', calls), w'))"
  shows "(\<exists>g i t. validateHiveCompactSignature g = Inr i \<and> calls =
      [Recovered (tx_signatureDigest p) g (au_expectedPublicKey (pe_authorization p)),
       Attached (tx_unsignedTransactionJson p) g t, Broadcasting t]) \<or>
    ((\<forall>t. Broadcasting t \<notin> set calls) \<and> (\<exists>e. r = Inl e))"
  using assms unfolding broadcastOfficialEvent_def Let_def
  by (elim act_bindE act_fstE act_sndE record_resultE act_ensureE)
    (auto simp: act_run elim!: record_resultE act_fstE dest!: assertSignature_recording, metis+)

section \<open>The fixture chain\<close>

text \<open>
  The chain of \<open>testing/fakes.ts\<close>, which recovers one fixed key and gives every transaction
  one fixed digest; its text of a transaction is the canonical operation after a mark.
\<close>

record fixture_chain_state =
  fx_prepared :: "inspected_tx option"
  fx_broadcasts :: "string list"

definition fixture_chain :: "host \<Rightarrow> string \<Rightarrow> string \<Rightarrow> fixture_chain_state chain_port" where
  "fixture_chain H recoveredPublicKey fixedDigest = \<lparr>
     prepareCustomJson = (\<lambda>operation n s.
       case canonicalCustomJsonOperation H operation of
         Inl e \<Rightarrow> (Inl e, s)
       | Inr canonical \<Rightarrow>
           (let unsigned = ''tx:'' @ canonical;
                tx = \<lparr>tx_unsignedTransactionJson = unsigned, tx_signatureDigest = fixedDigest,
                  tx_transactionId = js_slice 0 40 (sha256_hex H unsigned),
                  tx_canonicalOperationJson = canonical, tx_operation = operation,
                  tx_isSigned = False\<rparr> in
            (Inr (prepared_tx.truncate tx), s\<lparr>fx_prepared := Some tx\<rparr>))),
     inspectTransaction = (\<lambda>t s.
       case fx_prepared s of
         None \<Rightarrow> (Inl (OtherError ''Unknown fixture transaction''), s)
       | Some tx \<Rightarrow>
           if t \<noteq> tx_unsignedTransactionJson tx
           then (Inl (OtherError ''Unknown fixture transaction''), s) else (Inr tx, s)),
     recoverPublicKey = (\<lambda>d g. act_ok recoveredPublicKey),
     attachSignature = (\<lambda>u g. act_ok (u @ [CHR 0x0A] @ g)),
     broadcast = (\<lambda>t s. (Inr (), s\<lparr>fx_broadcasts := fx_broadcasts s @ [t]\<rparr>))\<rparr>"

definition fixture_digest :: string where
  "fixture_digest = ''23b62f08f440d24db93bbd61e1a902b9807ce6d4d3a63be80569575651699234''"

definition fixture_key :: string where
  "fixture_key = ''STM7u41yX66A2r6JNBrgawxT51sPxRMTJAW1QaEwdxQfFePGvCDET''"

definition fixture_prepared :: prepared_event where
  "fixture_prepared = \<lparr>
     tx_unsignedTransactionJson = ''tx:custom_json_operation'',
     tx_signatureDigest = fixture_digest, tx_transactionId = replicate 40 (CHR ''c''),
     tx_canonicalOperationJson = ''custom_json_operation'',
     pe_idempotencyKey = ''match-batch:0190f6d2-7c00-7000-8000-000000000002'',
     pe_policyVersion = ''match-policy-1'', pe_eventFamily = Match_Family,
     pe_eventType = ''match_results_batch'', pe_canonicalPayload = ''match_results_batch'',
     pe_canonicalOperationHash = replicate 64 (CHR ''c''),
     pe_authorization = fixture_authorization\<rparr>"

lemma fixture_signature_checked:
  "assertSignatureMatchesPublicKey (fixture_chain H fixture_key fixture_digest) fixture_digest
     fixture_signature fixture_key s = (Inr (), s)"
proof -
  have "is_hex_string 64 fixture_digest"
    by code_simp
  then show ?thesis
    by (simp add: assertSignatureMatchesPublicKey_def fixture_signature_accepted act_simps
        fixture_chain_def)
qed

lemma fixture_canonical_operation:
  "canonicalCustomJsonOperation fixture_host cj = Inr ''custom_json_operation''"
  by (simp add: canonicalCustomJsonOperation_def canonicalJson_def operation_json_def
      fixture_host_def discriminator_def jobj_def)

lemma fixture_sha256: "sha256_hex fixture_host t = replicate 64 (CHR ''c'')"
  by (simp add: fixture_host_def)

text \<open>The fixtures through \<open>prepareOfficialEvent\<close>.\<close>

lemma fixture_prepare:
  "prepareOfficialEvent fixture_host (fixture_chain fixture_host fixture_key fixture_digest)
     fixture_intent fixture_authorization s =
   (Inr fixture_prepared,
    s\<lparr>fx_prepared := Some \<lparr>tx_unsignedTransactionJson = ''tx:custom_json_operation'',
       tx_signatureDigest = fixture_digest, tx_transactionId = replicate 40 (CHR ''c''),
       tx_canonicalOperationJson = ''custom_json_operation'',
       tx_operation = \<lparr>cj_required_auths = [], cj_required_posting_auths = [''match-pub''],
            cj_id = ''hive.chameleon'', cj_json = ''match_results_batch''\<rparr>,
       tx_isSigned = False\<rparr>\<rparr>)"
  unfolding prepareOfficialEvent_def fixture_authorized
  by (simp add: act_simps fixture_chain_def fixture_canonical_operation fixture_sha256
      fixture_prepared_def js_slice_def prepared_tx.defs act_bind_def)
    (simp add: Let_def act_ok_def fixture_intent_def fixture_event_def)

lemma fixture_broadcast:
  "broadcastOfficialEvent (recording_chain (fixture_chain H fixture_key fixture_digest))
     fixture_prepared
     (\<lambda>q. act_ok \<lparr>rs_signature = fixture_signature, rs_publicKey = fixture_key\<rparr>) ((s, []), ()) =
   (Inr \<lparr>br_transactionId = replicate 40 (CHR ''c''), br_eventType = ''match_results_batch''\<rparr>,
    ((s\<lparr>fx_broadcasts := fx_broadcasts s @ [''tx:custom_json_operation'' @ [CHR 0x0A] @ fixture_signature]\<rparr>,
      [Recovered fixture_digest fixture_signature fixture_key,
       Attached ''tx:custom_json_operation'' fixture_signature
         (''tx:custom_json_operation'' @ [CHR 0x0A] @ fixture_signature),
       Broadcasting (''tx:custom_json_operation'' @ [CHR 0x0A] @ fixture_signature)]), ()))"
proof -
  have "is_hex_string 64 fixture_digest"
    by code_simp
  then show ?thesis
    by (simp add: broadcastOfficialEvent_def assertSignatureMatchesPublicKey_def act_simps
        fixture_signature_accepted fixture_chain_def record_result_def fixture_prepared_def
        fixture_authorization_def fixture_key_def act_bind_def Let_def)
qed

lemma broadcast_after_recovery_witness:
  "\<exists>g i t. validateHiveCompactSignature g = Inr i \<and>
     [Recovered fixture_digest fixture_signature fixture_key,
      Attached ''tx:custom_json_operation'' fixture_signature
        (''tx:custom_json_operation'' @ [CHR 0x0A] @ fixture_signature),
      Broadcasting (''tx:custom_json_operation'' @ [CHR 0x0A] @ fixture_signature)] =
     [Recovered fixture_digest g fixture_key, Attached ''tx:custom_json_operation'' g t,
      Broadcasting t]"
  using broadcast_after_recovery [OF fixture_broadcast
      [where H = fixture_host and s = "\<lparr>fx_prepared = None, fx_broadcasts = []\<rparr>"]]
  by (auto simp: fixture_prepared_def fixture_authorization_def fixture_key_def)

end
