(* ===== verification/Signer_Boundary.thy ===== *)
theory Signer_Boundary
  imports Gateway
begin

text \<open>
  \<open>PolicyEnforcingSignerBoundary\<close> (\<open>signer-boundary.ts\<close>), the process that holds access to
  the signing keys. Its \<open>sign\<close> is modelled twice from the same pieces: as one action, and as
  a step relation in which any number of \<open>sign\<close> calls interleave at their awaits and may
  crash. The contract of the ledger (the comments of \<open>contracts.ts\<close>) is a locale; the ledger
  of \<open>testing/fakes.ts\<close> is an instance of it.
\<close>

section \<open>The boundary\<close>

record ('c, 'p) signer_deps_base =
  sd_host :: host
  sd_chain :: "'c chain_port"
  sd_provider :: "'p digest_provider"
  sd_policy :: signer_policy

record ('c, 'p, 'l) signer_deps = "('c, 'p) signer_deps_base" +
  sd_ledger :: "'l ledger_port"

record ('c, 'p, 'l) signer_world =
  sw_chain :: 'c
  sw_provider :: 'p
  sw_ledger :: 'l

definition on_chain :: "('c, 'a) action \<Rightarrow> (('c, 'p, 'l) signer_world, 'a) action" where
  "on_chain m = act_on sw_chain (\<lambda>c. sw_chain_update (\<lambda>_. c)) m"

definition on_provider :: "('p, 'a) action \<Rightarrow> (('c, 'p, 'l) signer_world, 'a) action" where
  "on_provider m = act_on sw_provider (\<lambda>p. sw_provider_update (\<lambda>_. p)) m"

definition on_ledger :: "('l, 'a) action \<Rightarrow> (('c, 'p, 'l) signer_world, 'a) action" where
  "on_ledger m = act_on sw_ledger (\<lambda>l. sw_ledger_update (\<lambda>_. l)) m"

definition matchesTrustedAuthorization :: "signer_request \<Rightarrow> authorization \<Rightarrow> bool" where
  "matchesTrustedAuthorization q a \<longleftrightarrow>
     au_mode a = Official_Service \<and> au_role a = rq_role q \<and> au_account a = rq_account q \<and>
     au_authority a = rq_authority q \<and> au_expectedPublicKey a = rq_expectedPublicKey q \<and>
     au_signerKeyReference a = rq_signerKeyReference q \<and> au_policyVersion a = rq_policyVersion q"

definition idempotencyBinding :: "signer_request \<Rightarrow> binding" where
  "idempotencyBinding q = \<lparr>
     bd_idempotencyKey = rq_idempotencyKey q, bd_policyVersion = rq_policyVersion q,
     bd_role = rq_role q, bd_account = rq_account q, bd_authority = rq_authority q,
     bd_expectedPublicKey = rq_expectedPublicKey q,
     bd_signerKeyReference = rq_signerKeyReference q,
     bd_canonicalOperationJson = rq_canonicalOperationJson q,
     bd_canonicalOperationHash = rq_canonicalOperationHash q,
     bd_signatureDigest = rq_signatureDigest q, bd_transactionId = rq_transactionId q\<rparr>"

text \<open>\<open>sign\<close> up to the reconstruction of the operation: nothing is reserved yet.\<close>

definition check_request ::
  "host \<Rightarrow> 'c chain_port \<Rightarrow> signer_policy \<Rightarrow> signer_request \<Rightarrow> ('c, unit) action" where
  "check_request H chain policy q =
     act_bind (inspectTransaction chain (rq_unsignedTransactionJson q)) (\<lambda>inspected.
     act_bind (act_ensure (\<not> tx_isSigned inspected) (HiveGatewayError transaction_mismatch)) (\<lambda>_.
     act_bind (act_ensure
       (\<not> (tx_signatureDigest inspected \<noteq> rq_signatureDigest q \<or>
            tx_transactionId inspected \<noteq> rq_transactionId q \<or>
            tx_canonicalOperationJson inspected \<noteq> rq_canonicalOperationJson q \<or>
            sha256_hex H (tx_canonicalOperationJson inspected) \<noteq> rq_canonicalOperationHash q))
       (HiveGatewayError transaction_mismatch)) (\<lambda>_.
     act_bind (act_lift (parseHiveChameleonEvent H (rq_canonicalPayload q))) (\<lambda>event.
     act_bind (act_ensure (event_type event = rq_eventType q)
       (HiveGatewayError transaction_mismatch)) (\<lambda>_.
     act_bind (act_ensure (eventFamily event = rq_eventFamily q)
       (HiveGatewayError transaction_mismatch)) (\<lambda>_.
     case policy (rq_policyVersion q) (rq_role q) of
       None \<Rightarrow> act_fail (HiveGatewayError policy_denied)
     | Some a \<Rightarrow>
         if \<not> matchesTrustedAuthorization q a then act_fail (HiveGatewayError policy_denied)
         else
           act_bind (act_lift (authorizeOfficialEvent H
             \<lparr>in_idempotencyKey = rq_idempotencyKey q, in_policyVersion = rq_policyVersion q,
               in_event = event, in_expirationSeconds = None\<rparr> a)) (\<lambda>(operation, payload).
           act_bind (act_lift (canonicalCustomJsonOperation H operation)) (\<lambda>expectedOperation.
           act_ensure
             (\<not> (expectedOperation \<noteq> rq_canonicalOperationJson q \<or> payload \<noteq> rq_canonicalPayload q))
             (HiveGatewayError policy_denied)))))))))"

definition acquireIdempotency :: "'l ledger_port \<Rightarrow> binding \<Rightarrow> ('l, acquisition) action" where
  "acquireIdempotency ledger b =
     act_catch (acquire ledger b) (\<lambda>_. act_fail (HiveGatewayError idempotency_unavailable))"

definition assertSignerResponse ::
  "'c chain_port \<Rightarrow> signer_request \<Rightarrow> signer_response \<Rightarrow> ('c, unit) action" where
  "assertSignerResponse chain q response =
     act_bind (act_ensure (rs_publicKey response = rq_expectedPublicKey q)
       (HiveGatewayError signer_mismatch)) (\<lambda>_.
     assertSignatureMatchesPublicKey chain (rq_signatureDigest q) (rs_signature response)
       (rq_expectedPublicKey q))"

text \<open>The call of the provider; whatever it throws leaves the reservation in place.\<close>

definition digest_request_of :: "signer_request \<Rightarrow> digest_request" where
  "digest_request_of q = \<lparr>
     dr_idempotencyKey = rq_idempotencyKey q, dr_signerKeyReference = rq_signerKeyReference q,
     dr_signatureDigest = rq_signatureDigest q, dr_expectedPublicKey = rq_expectedPublicKey q\<rparr>"

definition invoke_provider :: "'p digest_provider \<Rightarrow> signer_request \<Rightarrow> ('p, signer_response) action" where
  "invoke_provider provider q =
     act_bind (act_catch (provider (digest_request_of q))
       (\<lambda>_. act_fail (HiveGatewayError idempotency_unavailable))) (\<lambda>signature.
     act_ok \<lparr>rs_signature = signature, rs_publicKey = rq_expectedPublicKey q\<rparr>)"

definition complete_idempotency ::
  "'l ledger_port \<Rightarrow> binding \<Rightarrow> string \<Rightarrow> signer_response \<Rightarrow> ('l, signer_response) action" where
  "complete_idempotency ledger b lease response =
     act_bind (act_catch (complete ledger b lease response)
       (\<lambda>_. act_fail (HiveGatewayError idempotency_unavailable))) (\<lambda>_.
     act_ok response)"

definition sign ::
  "('c, 'p, 'l) signer_deps \<Rightarrow> signer_request \<Rightarrow> (('c, 'p, 'l) signer_world, signer_response) action" where
  "sign D q =
     act_bind (on_chain (check_request (sd_host D) (sd_chain D) (sd_policy D) q)) (\<lambda>_.
     act_bind (on_ledger (acquireIdempotency (sd_ledger D) (idempotencyBinding q))) (\<lambda>acquisition.
     case acquisition of
       Conflict \<Rightarrow> act_fail (HiveGatewayError idempotency_conflict)
     | Replay response \<Rightarrow>
         act_bind (on_chain (assertSignerResponse (sd_chain D) q response)) (\<lambda>_. act_ok response)
     | Acquired lease \<Rightarrow>
         act_bind (on_provider (invoke_provider (sd_provider D) q)) (\<lambda>response.
         act_bind (on_chain (assertSignerResponse (sd_chain D) q response)) (\<lambda>_.
         on_ledger (complete_idempotency (sd_ledger D) (idempotencyBinding q) lease response)))))"

section \<open>Interleaved calls\<close>

text \<open>
  Where a call of \<open>sign\<close> stands: submitted, past its checks, holding a lease, with the
  provider's response in hand, with that response checked, with a replay to check, or over.
\<close>

datatype call =
    Submitted signer_request
  | Checked signer_request
  | Holding signer_request string
  | Signed signer_request string signer_response
  | Verified signer_request string signer_response
  | Replaying signer_request signer_response
  | Over signer_request "exn + signer_response"

text \<open>What a call does next, in one uninterrupted piece; \<open>None\<close> once it is over.\<close>

definition after :: "signer_request \<Rightarrow> ('a \<Rightarrow> call) \<Rightarrow> ('w, 'a) action \<Rightarrow> 'w \<Rightarrow> call \<times> 'w" where
  "after q k m w = (case m w of (Inl e, w') \<Rightarrow> (Over q (Inl e), w') | (Inr x, w') \<Rightarrow> (k x, w'))"

definition acquired :: "signer_request \<Rightarrow> acquisition \<Rightarrow> call" where
  "acquired q acquisition =
     (case acquisition of
        Conflict \<Rightarrow> Over q (Inl (HiveGatewayError idempotency_conflict))
      | Replay response \<Rightarrow> Replaying q response
      | Acquired lease \<Rightarrow> Holding q lease)"

fun advance ::
  "('c, 'p, 'l) signer_deps \<Rightarrow> call \<Rightarrow> ('c, 'p, 'l) signer_world \<Rightarrow> (call \<times> ('c, 'p, 'l) signer_world) option"
where
  "advance D (Submitted q) w = Some (after q (\<lambda>_. Checked q)
     (on_chain (check_request (sd_host D) (sd_chain D) (sd_policy D) q)) w)"
| "advance D (Checked q) w = Some (after q (acquired q)
     (on_ledger (acquireIdempotency (sd_ledger D) (idempotencyBinding q))) w)"
| "advance D (Holding q lease) w = Some (after q (Signed q lease)
     (on_provider (invoke_provider (sd_provider D) q)) w)"
| "advance D (Signed q lease response) w = Some (after q (\<lambda>_. Verified q lease response)
     (on_chain (assertSignerResponse (sd_chain D) q response)) w)"
| "advance D (Verified q lease response) w = Some (after q (\<lambda>x. Over q (Inr x))
     (on_ledger (complete_idempotency (sd_ledger D) (idempotencyBinding q) lease response)) w)"
| "advance D (Replaying q response) w = Some (after q (\<lambda>_. Over q (Inr response))
     (on_chain (assertSignerResponse (sd_chain D) q response)) w)"
| "advance D (Over q r) w = None"

text \<open>
  A step of the system: a new call, the next piece of some call, the loss of some call at
  any point (the process dies, its caller times out), or the chain moving on.
\<close>

inductive boundary_step ::
  "('c, 'p, 'l) signer_deps \<Rightarrow> ('c, 'p, 'l) signer_world \<times> call list \<Rightarrow>
   ('c, 'p, 'l) signer_world \<times> call list \<Rightarrow> bool" for D
where
  submit: "boundary_step D (w, cs) (w, cs @ [Submitted q])"
| advance: "i < length cs \<Longrightarrow> advance D (cs ! i) w = Some (c, w') \<Longrightarrow>
    boundary_step D (w, cs) (w', cs[i := c])"
| lose: "i < length cs \<Longrightarrow> boundary_step D (w, cs) (w, take i cs @ drop (Suc i) cs)"
| chain_moves: "boundary_step D (w, cs) (w\<lparr>sw_chain := c\<rparr>, cs)"

inductive boundary_reachable ::
  "('c, 'p, 'l) signer_deps \<Rightarrow> ('c, 'p, 'l) signer_world \<Rightarrow>
   ('c, 'p, 'l) signer_world \<times> call list \<Rightarrow> bool" for D w0
where
  start: "boundary_reachable D w0 (w0, [])"
| step: "boundary_reachable D w0 s \<Longrightarrow> boundary_step D s s' \<Longrightarrow> boundary_reachable D w0 s'"

inductive_cases boundary_stepE [elim]: "boundary_step D s s'"

section \<open>Observing the provider\<close>

text \<open>A provider that records every request that reaches it, answered or not.\<close>

definition recording_provider :: "'p digest_provider \<Rightarrow> ('p \<times> digest_request list) digest_provider" where
  "recording_provider P d = (\<lambda>(p, calls). act_fst (P d) (p, calls @ [d]))"

definition provider_calls :: "('c, 'p \<times> digest_request list, 'l) signer_world \<Rightarrow> digest_request list" where
  "provider_calls w = snd (sw_provider w)"

definition passed :: "('c, 'p, 'l) signer_deps \<Rightarrow> signer_request \<Rightarrow> bool" where
  "passed D q \<longleftrightarrow> (\<exists>c c'. check_request (sd_host D) (sd_chain D) (sd_policy D) q c = (Inr (), c'))"

definition response_ok :: "('c, 'p, 'l) signer_deps \<Rightarrow> signer_request \<Rightarrow> signer_response \<Rightarrow> bool" where
  "response_ok D q r \<longleftrightarrow>
     rs_publicKey r = rq_expectedPublicKey q \<and>
     (\<exists>i. validateHiveCompactSignature (rs_signature r) = Inr i) \<and>
     (\<exists>c c'. recoverPublicKey (sd_chain D) (rq_signatureDigest q) (rs_signature r) c =
       (Inr (rq_expectedPublicKey q), c'))"

lemma assertSignerResponse_ok:
  "assertSignerResponse (sd_chain D) q r c = (Inr u, c') \<Longrightarrow> response_ok D q r"
  by (auto simp: assertSignerResponse_def response_ok_def act_run elim!: act_bind_InrE
      split: if_splits dest: assertSignature_Inr)

lemma afterE:
  assumes "after q k m w = (c, w')"
  obtains (fails) e where "m w = (Inl e, w')" and "c = Over q (Inl e)"
    | (goes) x where "m w = (Inr x, w')" and "c = k x"
  using assms by (auto simp: after_def split: prod.splits sum.splits)

lemma on_chainE:
  assumes "on_chain m w = (r, w')"
  obtains c where "m (sw_chain w) = (r, c)" and "w' = w\<lparr>sw_chain := c\<rparr>"
  using assms unfolding on_chain_def by (auto elim: act_onE)

lemma on_providerE:
  assumes "on_provider m w = (r, w')"
  obtains p where "m (sw_provider w) = (r, p)" and "w' = w\<lparr>sw_provider := p\<rparr>"
  using assms unfolding on_provider_def by (auto elim: act_onE)

lemma on_ledgerE:
  assumes "on_ledger m w = (r, w')"
  obtains l where "m (sw_ledger w) = (r, l)" and "w' = w\<lparr>sw_ledger := l\<rparr>"
  using assms unfolding on_ledger_def by (auto elim: act_onE)

text \<open>However an invocation ends, exactly one request reached the provider.\<close>

lemma invoke_provider_records:
  assumes "invoke_provider (recording_provider P) q (p, calls) = (r, (p', calls'))"
  shows "calls' = calls @ [digest_request_of q]"
  using assms by (auto simp: invoke_provider_def recording_provider_def act_run
      elim!: act_bindE act_catchE act_fstE)

section \<open>The contract of the ledger\<close>

fun holding_key :: "call \<Rightarrow> string list" where
  "holding_key (Holding q lease) = [rq_idempotencyKey q]"
| "holding_key _ = []"

definition spent_keys ::
  "('c, 'p \<times> digest_request list, 'l) signer_world \<Rightarrow> call list \<Rightarrow> string list" where
  "spent_keys w cs =
     map dr_idempotencyKey (provider_calls w) @ concat (map holding_key cs)"

fun call_ok ::
  "('c, 'p, 'l) signer_deps \<Rightarrow> (string \<rightharpoonup> binding \<times> signer_response) \<Rightarrow> call \<Rightarrow> bool" where
  "call_ok D cm (Submitted q) = True"
| "call_ok D cm (Checked q) = passed D q"
| "call_ok D cm (Holding q lease) = passed D q"
| "call_ok D cm (Signed q lease r) = passed D q"
| "call_ok D cm (Verified q lease r) = (passed D q \<and> response_ok D q r)"
| "call_ok D cm (Replaying q r) =
     (passed D q \<and> cm (rq_idempotencyKey q) = Some (idempotencyBinding q, r))"
| "call_ok D cm (Over q (Inr r)) =
     (passed D q \<and> response_ok D q r \<and>
      cm (rq_idempotencyKey q) = Some (idempotencyBinding q, r))"
| "call_ok D cm (Over q (Inl e)) = True"

lemma call_ok_mono: "call_ok D cm c \<Longrightarrow> cm \<subseteq>\<^sub>m cm' \<Longrightarrow> call_ok D cm' c"
  by (induction D cm c rule: call_ok.induct) (auto simp: map_le_def dom_def)

locale signer_ledger =
  fixes L :: "'l ledger_port"
    and bound :: "'l \<Rightarrow> string \<Rightarrow> bool"
    and completed :: "'l \<Rightarrow> string \<Rightarrow> (binding \<times> signer_response) option"
  assumes acquired_fresh:
      "acquire L b l = (Inr (Acquired lease), l') \<Longrightarrow> \<not> bound l (bd_idempotencyKey b)"
    and acquired_binds:
      "acquire L b l = (Inr (Acquired lease), l') \<Longrightarrow> bound l' (bd_idempotencyKey b)"
    and acquire_keeps: "acquire L b l = (r, l') \<Longrightarrow> bound l k \<Longrightarrow> bound l' k"
    and acquire_immutable: "acquire L b l = (r, l') \<Longrightarrow> completed l \<subseteq>\<^sub>m completed l'"
    and replayed:
      "acquire L b l = (Inr (Replay p), l') \<Longrightarrow> completed l' (bd_idempotencyKey b) = Some (b, p)"
    and complete_keeps: "complete L b lease p l = (u, l') \<Longrightarrow> bound l k \<Longrightarrow> bound l' k"
    and complete_immutable: "complete L b lease p l = (u, l') \<Longrightarrow> completed l \<subseteq>\<^sub>m completed l'"
    and complete_stores:
      "complete L b lease p l = (Inr (), l') \<Longrightarrow> completed l' (bd_idempotencyKey b) = Some (b, p)"
    and abort_immutable: "abort L b lease l = (u, l') \<Longrightarrow> completed l \<subseteq>\<^sub>m completed l'"
begin

definition boundary_inv ::
  "('c, 'p \<times> digest_request list, 'l) signer_deps \<Rightarrow>
   ('c, 'p \<times> digest_request list, 'l) signer_world \<Rightarrow> call list \<Rightarrow> bool" where
  "boundary_inv D w cs \<longleftrightarrow>
     distinct (spent_keys w cs) \<and>
     (\<forall>k \<in> set (spent_keys w cs). bound (sw_ledger w) k) \<and>
     (\<forall>d \<in> set (provider_calls w). \<exists>q. passed D q \<and> d = digest_request_of q) \<and>
     (\<forall>c \<in> set cs. call_ok D (completed (sw_ledger w)) c)"

lemma acquireIdempotency_keeps:
  assumes "acquireIdempotency L b l = (r, l')"
  shows "bound l k \<Longrightarrow> bound l' k" and "completed l \<subseteq>\<^sub>m completed l'"
  using assms by (auto simp: acquireIdempotency_def act_run elim!: act_catchE
      dest: acquire_keeps acquire_immutable)

lemma acquireIdempotency_Inr:
  "acquireIdempotency L b l = (Inr x, l') \<Longrightarrow> acquire L b l = (Inr x, l')"
  by (auto simp: acquireIdempotency_def act_run elim!: act_catchE)

lemma complete_idempotency_keeps:
  assumes "complete_idempotency L b lease p l = (r, l')"
  shows "bound l k \<Longrightarrow> bound l' k" and "completed l \<subseteq>\<^sub>m completed l'"
    and "r = Inr x \<Longrightarrow> x = p \<and> completed l' (bd_idempotencyKey b) = Some (b, p)"
  using assms by (auto simp: complete_idempotency_def act_run elim!: act_catchE act_bindE
      dest: complete_keeps complete_immutable complete_stores)

text \<open>
  A piece of a call that leaves the ledger and the provider alone, or makes them grow, keeps
  the invariant when the call it leads to is in order and holds no new key.
\<close>

lemma boundary_inv_replace:
  assumes inv: "boundary_inv D w (xs @ c # ys)"
    and calls: "provider_calls w' = provider_calls w"
    and keeps: "\<And>k. bound (sw_ledger w) k \<Longrightarrow> bound (sw_ledger w') k"
    and mono: "completed (sw_ledger w) \<subseteq>\<^sub>m completed (sw_ledger w')"
    and ok: "call_ok D (completed (sw_ledger w')) c'"
    and holds: "holding_key c' = []"
  shows "boundary_inv D w' (xs @ c' # ys)"
proof -
  have "set (spent_keys w' (xs @ c' # ys)) \<subseteq> set (spent_keys w (xs @ c # ys))"
    by (auto simp: spent_keys_def calls holds)
  with inv keeps have "\<forall>k \<in> set (spent_keys w' (xs @ c' # ys)). bound (sw_ledger w') k"
    by (auto simp: boundary_inv_def)
  moreover have "distinct (spent_keys w' (xs @ c' # ys))"
    using inv by (auto simp: boundary_inv_def spent_keys_def calls holds)
  moreover have "\<forall>x \<in> set (xs @ c # ys). call_ok D (completed (sw_ledger w')) x"
    using inv call_ok_mono [OF _ mono] unfolding boundary_inv_def by blast
  then have "\<forall>x \<in> set (xs @ c' # ys). call_ok D (completed (sw_ledger w')) x"
    using ok by auto
  ultimately show ?thesis
    using inv by (simp add: boundary_inv_def calls)
qed

lemma boundary_inv_chain:
  assumes inv: "boundary_inv D w (xs @ c # ys)"
    and run: "after q k (on_chain m) w = (c', w')"
    and k: "\<And>x ch. m (sw_chain w) = (Inr x, ch) \<Longrightarrow>
      call_ok D (completed (sw_ledger w)) (k x) \<and> holding_key (k x) = []"
  shows "boundary_inv D w' (xs @ c' # ys)"
proof -
  from run obtain r ch where m: "m (sw_chain w) = (r, ch)" and w': "w' = w\<lparr>sw_chain := ch\<rparr>"
    and c': "c' = (case r of Inl e \<Rightarrow> Over q (Inl e) | Inr x \<Rightarrow> k x)"
    by (auto elim!: afterE on_chainE)
  show ?thesis
    by (rule boundary_inv_replace [OF inv])
      (use k m in \<open>auto simp: w' c' provider_calls_def split: sum.split\<close>)
qed

lemma passedI: "check_request (sd_host D) (sd_chain D) (sd_policy D) q c = (Inr (), c') \<Longrightarrow> passed D q"
  by (auto simp: passed_def)

lemma bd_key [simp]: "bd_idempotencyKey (idempotencyBinding q) = rq_idempotencyKey q"
  by (simp add: idempotencyBinding_def)

lemma dr_key [simp]: "dr_idempotencyKey (digest_request_of q) = rq_idempotencyKey q"
  by (simp add: digest_request_of_def)

lemma advance_inv:
  assumes inv: "boundary_inv D w (xs @ c # ys)"
    and D: "sd_ledger D = L" "sd_provider D = recording_provider P"
    and adv: "advance D c w = Some (c', w')"
  shows "boundary_inv D w' (xs @ c' # ys)"
proof (cases c)
  case (Submitted q)
  with adv D show ?thesis
    by (auto intro!: boundary_inv_chain [OF inv] dest: passedI)
next
  case (Checked q)
  have pass: "passed D q" using inv Checked by (auto simp: boundary_inv_def)
  from adv Checked D obtain r l where run: "acquireIdempotency L (idempotencyBinding q) (sw_ledger w) = (r, l)"
    and w': "w' = w\<lparr>sw_ledger := l\<rparr>"
    and c': "c' = (case r of Inl e \<Rightarrow> Over q (Inl e) | Inr x \<Rightarrow> acquired q x)"
    by (auto elim!: afterE on_ledgerE)
  note keeps = acquireIdempotency_keeps [OF run]
  show ?thesis
  proof (cases "\<exists>lease. r = Inr (Acquired lease)")
    case True
    then obtain lease where r: "r = Inr (Acquired lease)" by blast
    with run have acq: "acquire L (idempotencyBinding q) (sw_ledger w) = (Inr (Acquired lease), l)"
      by (auto dest: acquireIdempotency_Inr)
    show ?thesis
      using inv keeps acquired_fresh [OF acq] acquired_binds [OF acq] pass Checked
      by (auto simp: boundary_inv_def spent_keys_def provider_calls_def w' c' r acquired_def
          intro: call_ok_mono)
  next
    case False
    show ?thesis
    proof (rule boundary_inv_replace [OF inv])
      show "call_ok D (completed (sw_ledger w')) c'"
        using False run pass by (cases r)
          (auto simp: c' w' acquired_def dest!: acquireIdempotency_Inr replayed split: acquisition.split)
    qed (use False keeps in \<open>auto simp: w' c' provider_calls_def acquired_def
        split: sum.split acquisition.split\<close>)
  qed
next
  case (Holding q lease)
  have pass: "passed D q" using inv Holding by (auto simp: boundary_inv_def)
  from adv Holding D obtain r p where
    run: "invoke_provider (recording_provider P) q (sw_provider w) = (r, p)"
    and w': "w' = w\<lparr>sw_provider := p\<rparr>"
    and c': "c' = (case r of Inl e \<Rightarrow> Over q (Inl e) | Inr x \<Rightarrow> Signed q lease x)"
    by (auto elim!: afterE on_providerE)
  from run have "snd p = snd (sw_provider w) @ [digest_request_of q]"
    by (cases p; cases "sw_provider w") (auto dest: invoke_provider_records)
  with inv pass Holding show ?thesis
    by (auto simp: boundary_inv_def spent_keys_def provider_calls_def w' c' split: sum.split)
next
  case (Signed q lease response)
  have pass: "passed D q" using inv Signed by (auto simp: boundary_inv_def)
  with adv D Signed show ?thesis
    by (auto intro!: boundary_inv_chain [OF inv] dest: assertSignerResponse_ok)
next
  case (Verified q lease response)
  have pass: "passed D q \<and> response_ok D q response" using inv Verified by (auto simp: boundary_inv_def)
  from adv Verified D obtain r l where
    run: "complete_idempotency L (idempotencyBinding q) lease response (sw_ledger w) = (r, l)"
    and w': "w' = w\<lparr>sw_ledger := l\<rparr>"
    and c': "c' = (case r of Inl e \<Rightarrow> Over q (Inl e) | Inr x \<Rightarrow> Over q (Inr x))"
    by (auto elim!: afterE on_ledgerE)
  show ?thesis
    by (rule boundary_inv_replace [OF inv])
      (use complete_idempotency_keeps [OF run] pass in
        \<open>auto simp: w' c' provider_calls_def split: sum.split\<close>)
next
  case (Replaying q response)
  have "passed D q" "completed (sw_ledger w) (rq_idempotencyKey q) = Some (idempotencyBinding q, response)"
    using inv Replaying by (auto simp: boundary_inv_def)
  with adv D Replaying show ?thesis
    by (auto intro!: boundary_inv_chain [OF inv] dest: assertSignerResponse_ok)
next
  case (Over q r)
  with adv show ?thesis by simp
qed

lemma step_inv:
  assumes "boundary_step D s s'" and "boundary_inv D (fst s) (snd s)"
    and "sd_ledger D = L" "sd_provider D = recording_provider P"
  shows "boundary_inv D (fst s') (snd s')"
  using assms(1)
proof cases
  case (submit w cs q)
  with assms(2) show ?thesis by (auto simp: boundary_inv_def spent_keys_def)
next
  case (advance i cs w c w')
  have "boundary_inv D w (take i cs @ cs ! i # drop (Suc i) cs)"
    using assms(2) unfolding advance(1) fst_conv snd_conv by (subst (asm) id_take_nth_drop [OF advance(3)])
  from advance_inv [OF this assms(3,4) advance(4)]
  have "boundary_inv D w' (take i cs @ c # drop (Suc i) cs)" .
  with advance show ?thesis by (simp add: upd_conv_take_nth_drop)
next
  case (lose i cs w)
  have "boundary_inv D w (take i cs @ cs ! i # drop (Suc i) cs)"
    using assms(2) unfolding lose(1) fst_conv snd_conv by (subst (asm) id_take_nth_drop [OF lose(3)])
  then show ?thesis unfolding lose(2) by (auto simp: boundary_inv_def spent_keys_def)
next
  case (chain_moves w cs c)
  with assms(2) show ?thesis by (simp add: boundary_inv_def spent_keys_def provider_calls_def)
qed

lemma reachable_inv:
  assumes "boundary_reachable D w0 s"
    and "sd_ledger D = L" "sd_provider D = recording_provider P" "provider_calls w0 = []"
  shows "boundary_inv D (fst s) (snd s)"
  using assms(1)
proof induction
  case start
  show ?case by (simp add: boundary_inv_def spent_keys_def assms(4))
next
  case (step s s')
  then show ?case using step_inv [OF _ _ assms(2,3)] by blast
qed

end

section \<open>One call as a run of steps\<close>

abbreviation boundary_steps ::
  "('c, 'p, 'l) signer_deps \<Rightarrow> ('c, 'p, 'l) signer_world \<times> call list \<Rightarrow>
   ('c, 'p, 'l) signer_world \<times> call list \<Rightarrow> bool" where
  "boundary_steps D \<equiv> (boundary_step D)\<^sup>*\<^sup>*"

lemma last_step:
  assumes "advance D c w = Some (c', w')" and "boundary_steps D (w', cs @ [c']) s"
  shows "boundary_steps D (w, cs @ [c]) s"
proof -
  have "boundary_step D (w, cs @ [c]) (w', (cs @ [c])[length cs := c'])"
    using assms(1) by (intro boundary_step.advance) simp_all
  with assms(2) show ?thesis by (simp add: converse_rtranclp_into_rtranclp)
qed

lemma reachable_steps:
  "boundary_steps D s s' \<Longrightarrow> boundary_reachable D w0 s \<Longrightarrow> boundary_reachable D w0 s'"
  by (induction rule: rtranclp_induct) (auto intro: boundary_reachable.step)

lemma steps_bind:
  assumes "act_bind m f w = (r, w'')" and "advance D c w = Some (after q k m w)"
    and "\<And>x w'. f x w' = (r, w'') \<Longrightarrow> boundary_steps D (w', cs @ [k x]) (w'', cs @ [Over q r])"
  shows "boundary_steps D (w, cs @ [c]) (w'', cs @ [Over q r])"
  using assms(1)
proof (cases rule: act_bindE)
  case (fails e)
  with assms(2) have "advance D c w = Some (Over q r, w'')" by (simp add: after_def)
  then show ?thesis by (rule last_step) simp
next
  case (goes x w')
  with assms(2) have "advance D c w = Some (k x, w')" by (simp add: after_def)
  then show ?thesis by (rule last_step) (rule assms(3) [OF goes(2)])
qed

lemma steps_last:
  assumes "m w = (r, w'')" and "advance D c w = Some (after q (\<lambda>x. Over q (Inr x)) m w)"
  shows "boundary_steps D (w, cs @ [c]) (w'', cs @ [Over q r])"
proof (rule last_step)
  show "advance D c w = Some (Over q r, w'')"
    using assms by (simp add: after_def split: sum.split)
qed simp

lemma steps_acquired:
  assumes "(case acquisition of
       Conflict \<Rightarrow> act_fail (HiveGatewayError idempotency_conflict)
     | Replay response \<Rightarrow>
         act_bind (on_chain (assertSignerResponse (sd_chain D) q response)) (\<lambda>_. act_ok response)
     | Acquired lease \<Rightarrow>
         act_bind (on_provider (invoke_provider (sd_provider D) q)) (\<lambda>response.
         act_bind (on_chain (assertSignerResponse (sd_chain D) q response)) (\<lambda>_.
         on_ledger (complete_idempotency (sd_ledger D) (idempotencyBinding q) lease response)))) w
       = (r, w'')"
  shows "boundary_steps D (w, cs @ [acquired q acquisition]) (w'', cs @ [Over q r])"
proof (cases acquisition)
  case (Acquired lease)
  with assms have "act_bind (on_provider (invoke_provider (sd_provider D) q)) (\<lambda>response.
      act_bind (on_chain (assertSignerResponse (sd_chain D) q response)) (\<lambda>_.
      on_ledger (complete_idempotency (sd_ledger D) (idempotencyBinding q) lease response))) w
      = (r, w'')" by simp
  then show ?thesis unfolding Acquired acquired_def acquisition.case
    by (elim steps_bind [OF _ advance.simps(3)] steps_bind [OF _ advance.simps(4)]
        steps_last [OF _ advance.simps(5)])
next
  case Conflict
  with assms show ?thesis by (simp add: acquired_def act_run)
next
  case (Replay response)
  with assms have "act_bind (on_chain (assertSignerResponse (sd_chain D) q response))
      (\<lambda>_. act_ok response) w = (r, w'')" by simp
  then show ?thesis unfolding Replay acquired_def acquisition.case
    by (rule steps_bind [OF _ advance.simps(6)]) (simp add: act_run)
qed

lemma sign_steps:
  assumes "sign D q w = (r, w'')"
  shows "boundary_steps D (w, cs @ [Submitted q]) (w'', cs @ [Over q r])"
  using assms unfolding sign_def
  by (elim steps_bind [OF _ advance.simps(1)] steps_bind [OF _ advance.simps(2)] steps_acquired)

section \<open>The fixture ledger\<close>

record fixture_record =
  fr_binding :: binding
  fr_leaseId :: string
  fr_response :: "signer_response option"

record fixture_ledger =
  fl_records :: "string \<rightharpoonup> fixture_record"
  fl_leaseSequence :: nat

text \<open>
  The ledger compares \<open>JSON.stringify\<close> of bindings; all bindings are built by
  \<open>idempotencyBinding\<close> with the same properties in the same order, so that is equality.
\<close>

definition fixture_acquire :: "binding \<Rightarrow> (fixture_ledger, acquisition) action" where
  "fixture_acquire b l =
     (case fl_records l (bd_idempotencyKey b) of
        None \<Rightarrow>
          (let n = fl_leaseSequence l + 1; leaseId = ''fixture-lease-'' @ nat_text n in
           (Inr (Acquired leaseId),
            \<lparr>fl_records = (fl_records l)(bd_idempotencyKey b \<mapsto>
                \<lparr>fr_binding = b, fr_leaseId = leaseId, fr_response = None\<rparr>),
              fl_leaseSequence = n\<rparr>))
      | Some existing \<Rightarrow>
          (if fr_binding existing \<noteq> b then (Inr Conflict, l)
           else case fr_response existing of
             None \<Rightarrow> (Inl (OtherError ''Fixture ledger does not simulate waiting''), l)
           | Some response \<Rightarrow> (Inr (Replay response), l)))"

definition active_lease :: "fixture_ledger \<Rightarrow> binding \<Rightarrow> string \<Rightarrow> bool" where
  "active_lease l b leaseId \<longleftrightarrow>
     (case fl_records l (bd_idempotencyKey b) of
        None \<Rightarrow> False
      | Some existing \<Rightarrow>
          fr_response existing = None \<and> fr_leaseId existing = leaseId \<and> fr_binding existing = b)"

definition fixture_complete ::
  "binding \<Rightarrow> string \<Rightarrow> signer_response \<Rightarrow> (fixture_ledger, unit) action" where
  "fixture_complete b leaseId response l =
     (if \<not> active_lease l b leaseId
      then (Inl (OtherError ''Fixture idempotency lease does not match''), l)
      else (Inr (), l\<lparr>fl_records := (fl_records l)(bd_idempotencyKey b \<mapsto>
        \<lparr>fr_binding = b, fr_leaseId = leaseId, fr_response = Some response\<rparr>)\<rparr>))"

definition fixture_abort :: "binding \<Rightarrow> string \<Rightarrow> (fixture_ledger, unit) action" where
  "fixture_abort b leaseId l =
     (if active_lease l b leaseId
      then (Inr (), l\<lparr>fl_records := (fl_records l)(bd_idempotencyKey b := None)\<rparr>)
      else (Inr (), l))"

definition fixture_ledger_port :: "fixture_ledger ledger_port" where
  "fixture_ledger_port =
     \<lparr>acquire = fixture_acquire, complete = fixture_complete, abort = fixture_abort\<rparr>"

definition fixture_bound :: "fixture_ledger \<Rightarrow> string \<Rightarrow> bool" where
  "fixture_bound l k \<longleftrightarrow> fl_records l k \<noteq> None"

definition fixture_completed :: "fixture_ledger \<Rightarrow> string \<Rightarrow> (binding \<times> signer_response) option" where
  "fixture_completed l k =
     (case fl_records l k of
        None \<Rightarrow> None
      | Some r \<Rightarrow> map_option (Pair (fr_binding r)) (fr_response r))"

lemmas fixture_ledger_defs =
  fixture_ledger_port_def fixture_acquire_def fixture_complete_def fixture_abort_def
  fixture_bound_def fixture_completed_def active_lease_def

interpretation fixture_ledger: signer_ledger fixture_ledger_port fixture_bound fixture_completed
  by unfold_locales
    (auto simp: fixture_ledger_defs Let_def map_le_def split: option.splits if_splits)

section \<open>What a checked request is\<close>

lemma check_request_Inr:
  "check_request H chain policy q c = (Inr u, c') \<longleftrightarrow>
     (\<exists>tx event a operation.
        inspectTransaction chain (rq_unsignedTransactionJson q) c = (Inr tx, c') \<and>
        \<not> tx_isSigned tx \<and> tx_signatureDigest tx = rq_signatureDigest q \<and>
        tx_transactionId tx = rq_transactionId q \<and>
        tx_canonicalOperationJson tx = rq_canonicalOperationJson q \<and>
        sha256_hex H (tx_canonicalOperationJson tx) = rq_canonicalOperationHash q \<and>
        parseHiveChameleonEvent H (rq_canonicalPayload q) = Inr event \<and>
        event_type event = rq_eventType q \<and> eventFamily event = rq_eventFamily q \<and>
        policy (rq_policyVersion q) (rq_role q) = Some a \<and> matchesTrustedAuthorization q a \<and>
        authorizeOfficialEvent H
          \<lparr>in_idempotencyKey = rq_idempotencyKey q, in_policyVersion = rq_policyVersion q,
            in_event = event, in_expirationSeconds = None\<rparr> a =
          Inr (operation, rq_canonicalPayload q) \<and>
        canonicalCustomJsonOperation H operation = Inr (rq_canonicalOperationJson q))"
  (is "?L \<longleftrightarrow> ?R")
proof
  assume ?L
  then show ?R
    unfolding check_request_def
    by (elim act_bind_InrE) (auto simp: act_run split: if_splits option.splits elim!: act_bind_InrE)
next
  assume ?R
  then show ?L
    by (auto simp: check_request_def act_bind_def act_run)
qed


section \<open>The fixtures through the boundary\<close>

definition fixture_tx :: inspected_tx where
  "fixture_tx = \<lparr>tx_unsignedTransactionJson = ''tx:custom_json_operation'',
     tx_signatureDigest = fixture_digest, tx_transactionId = replicate 40 (CHR ''c''),
     tx_canonicalOperationJson = ''custom_json_operation'',
     tx_operation = \<lparr>cj_required_auths = [], cj_required_posting_auths = [''match-pub''],
       cj_id = ''hive.chameleon'', cj_json = ''match_results_batch''\<rparr>,
     tx_isSigned = False\<rparr>"

definition fixture_policy :: signer_policy where
  "fixture_policy v r =
     (if v = ''match-policy-1'' \<and> r = Match_Publisher then Some fixture_authorization else None)"

definition fixture_deps ::
  "(fixture_chain_state, unit \<times> digest_request list, fixture_ledger) signer_deps" where
  "fixture_deps = \<lparr>sd_host = fixture_host,
     sd_chain = fixture_chain fixture_host fixture_key fixture_digest,
     sd_provider = recording_provider (\<lambda>d. act_ok fixture_signature),
     sd_policy = fixture_policy, sd_ledger = fixture_ledger_port\<rparr>"

definition fixture_world ::
  "(fixture_chain_state, unit \<times> digest_request list, fixture_ledger) signer_world" where
  "fixture_world = \<lparr>sw_chain = \<lparr>fx_prepared = Some fixture_tx, fx_broadcasts = []\<rparr>,
     sw_provider = ((), []), sw_ledger = \<lparr>fl_records = Map.empty, fl_leaseSequence = 0\<rparr>\<rparr>"

definition fixture_request :: signer_request where
  "fixture_request = signer_request_of fixture_prepared"

definition fixture_response :: signer_response where
  "fixture_response = \<lparr>rs_signature = fixture_signature, rs_publicKey = fixture_key\<rparr>"

definition fixture_lease :: string where
  "fixture_lease = ''fixture-lease-'' @ nat_text 1"

definition fixture_signed_world ::
  "(fixture_chain_state, unit \<times> digest_request list, fixture_ledger) signer_world" where
  "fixture_signed_world = \<lparr>sw_chain = \<lparr>fx_prepared = Some fixture_tx, fx_broadcasts = []\<rparr>,
     sw_provider = ((), [digest_request_of fixture_request]),
     sw_ledger = \<lparr>fl_records =
         Map.empty(rq_idempotencyKey fixture_request \<mapsto>
           \<lparr>fr_binding = idempotencyBinding fixture_request,
             fr_leaseId = fixture_lease, fr_response = Some fixture_response\<rparr>),
       fl_leaseSequence = 1\<rparr>\<rparr>"

lemma fixture_parse: "parseHiveChameleonEvent fixture_host ''match_results_batch'' = Inr fixture_event"
  using fixture_serialize fixture_codec_ok by (rule serialize_parse)

lemma fixture_checked:
  assumes "fx_prepared c = Some fixture_tx"
  shows "check_request fixture_host (fixture_chain fixture_host fixture_key fixture_digest)
    fixture_policy fixture_request c = (Inr (), c)"
proof -
  have "inspectTransaction (fixture_chain fixture_host fixture_key fixture_digest)
      (rq_unsignedTransactionJson fixture_request) c = (Inr fixture_tx, c)"
    using assms by (simp add: fixture_chain_def fixture_request_def fixture_prepared_def
        signer_request_of_def fixture_tx_def)
  then show ?thesis
    unfolding check_request_Inr
    by (intro exI [of _ fixture_tx] exI [of _ fixture_event] exI [of _ fixture_authorization]
        exI [of _ "tx_operation fixture_tx"])
      (use fixture_authorized [unfolded fixture_intent_def] in
        \<open>simp add: fixture_request_def fixture_prepared_def signer_request_of_def fixture_tx_def
          fixture_parse fixture_canonical_operation fixture_sha256 fixture_policy_def
          matchesTrustedAuthorization_def; simp add: fixture_authorization_def fixture_event_def\<close>)
qed

lemma fixture_response_checked:
  "assertSignerResponse (fixture_chain fixture_host fixture_key fixture_digest) fixture_request
     fixture_response c = (Inr (), c)"
  using fixture_signature_checked
  by (simp add: assertSignerResponse_def fixture_request_def fixture_prepared_def act_run act_bind_def
      signer_request_of_def fixture_authorization_def fixture_response_def fixture_key_def)

text \<open>A first call signs; a retry of the same request is answered from the ledger.\<close>

lemma fixture_chain_steps:
  assumes "fx_prepared (sw_chain w) = Some fixture_tx"
  shows "on_chain (check_request (sd_host fixture_deps) (sd_chain fixture_deps)
      (sd_policy fixture_deps) fixture_request) w = (Inr (), w)"
    and "on_chain (assertSignerResponse (sd_chain fixture_deps) fixture_request fixture_response) w =
      (Inr (), w)"
  using assms by (simp_all add: on_chain_def act_on_def fixture_deps_def fixture_checked
      fixture_response_checked)

definition fixture_leased_world ::
  "(fixture_chain_state, unit \<times> digest_request list, fixture_ledger) signer_world" where
  "fixture_leased_world = fixture_signed_world\<lparr>sw_provider := ((), []),
     sw_ledger := \<lparr>fl_records =
         Map.empty(rq_idempotencyKey fixture_request \<mapsto>
           \<lparr>fr_binding = idempotencyBinding fixture_request,
             fr_leaseId = fixture_lease, fr_response = None\<rparr>),
       fl_leaseSequence = 1\<rparr>\<rparr>"

lemma fixture_acquired:
  "on_ledger (acquireIdempotency (sd_ledger fixture_deps) (idempotencyBinding fixture_request))
     fixture_world = (Inr (Acquired fixture_lease), fixture_leased_world)"
  by (simp add: on_ledger_def act_on_def acquireIdempotency_def act_catch_def fixture_deps_def
      fixture_ledger_defs fixture_world_def fixture_leased_world_def fixture_signed_world_def
      fixture_ledger.bd_key fixture_lease_def Let_def)

lemma fixture_invoked:
  "on_provider (invoke_provider (sd_provider fixture_deps) fixture_request) fixture_leased_world =
     (Inr fixture_response,
      fixture_leased_world\<lparr>sw_provider := ((), [digest_request_of fixture_request])\<rparr>)"
  by (simp add: on_provider_def act_on_def invoke_provider_def act_catch_def act_bind_def act_run
      fixture_deps_def recording_provider_def act_fst_eq fixture_leased_world_def
      fixture_signed_world_def fixture_response_def)
    (simp add: fixture_request_def signer_request_of_def fixture_prepared_def
      fixture_authorization_def fixture_key_def)

lemma fixture_completed_step:
  "on_ledger (complete_idempotency (sd_ledger fixture_deps) (idempotencyBinding fixture_request)
       fixture_lease fixture_response)
     (fixture_leased_world\<lparr>sw_provider := ((), [digest_request_of fixture_request])\<rparr>) =
   (Inr fixture_response, fixture_signed_world)"
  by (simp add: on_ledger_def act_on_def complete_idempotency_def act_catch_def act_bind_def act_run
      fixture_deps_def fixture_ledger_defs fixture_leased_world_def fixture_signed_world_def
      fixture_ledger.bd_key)

lemma fixture_replayed:
  "on_ledger (acquireIdempotency (sd_ledger fixture_deps) (idempotencyBinding fixture_request))
     fixture_signed_world = (Inr (Replay fixture_response), fixture_signed_world)"
  by (simp add: on_ledger_def act_on_def acquireIdempotency_def act_catch_def fixture_deps_def
      fixture_ledger_defs fixture_signed_world_def fixture_ledger.bd_key)

lemma fixture_worlds_prepared:
  "fx_prepared (sw_chain fixture_world) = Some fixture_tx"
  "fx_prepared (sw_chain fixture_signed_world) = Some fixture_tx"
  "fx_prepared (sw_chain fixture_leased_world) = Some fixture_tx"
  by (simp_all add: fixture_world_def fixture_signed_world_def fixture_leased_world_def)

lemma fixture_sign:
  "sign fixture_deps fixture_request fixture_world = (Inr fixture_response, fixture_signed_world)"
  "sign fixture_deps fixture_request fixture_signed_world =
     (Inr fixture_response, fixture_signed_world)"
  unfolding sign_def
  by (simp_all add: act_bind_Inr fixture_chain_steps fixture_worlds_prepared fixture_acquired
      fixture_invoked fixture_completed_step fixture_replayed act_run)

lemma fixture_reachable:
  "boundary_reachable fixture_deps fixture_world (fixture_signed_world,
     [Over fixture_request (Inr fixture_response), Over fixture_request (Inr fixture_response)])"
proof -
  have "boundary_reachable fixture_deps fixture_world (fixture_world, [Submitted fixture_request])"
    using boundary_reachable.start [of fixture_deps fixture_world]
      boundary_step.submit [of fixture_deps fixture_world "[]" fixture_request]
    by (auto intro: boundary_reachable.step)
  with sign_steps [OF fixture_sign(1), of "[]"]
  have "boundary_reachable fixture_deps fixture_world
      (fixture_signed_world, [Over fixture_request (Inr fixture_response)])"
    by (auto intro: reachable_steps)
  then have "boundary_reachable fixture_deps fixture_world (fixture_signed_world,
      [Over fixture_request (Inr fixture_response)] @ [Submitted fixture_request])"
    by (rule boundary_reachable.step) (rule boundary_step.submit)
  with sign_steps [OF fixture_sign(2), of "[Over fixture_request (Inr fixture_response)]"]
  show ?thesis by (auto intro: reachable_steps)
qed

section \<open>Properties\<close>

text \<open>
  C3. Whatever calls interleave, are lost or are retried, no idempotency key reaches the
  signature provider twice, for any ledger that keeps its contract.
\<close>

theorem signer_at_most_once:
  assumes "signer_ledger (sd_ledger D) bound completed"
    and "sd_provider D = recording_provider P" and "provider_calls w0 = []"
    and "boundary_reachable D w0 (w, cs)"
  shows "distinct (map dr_idempotencyKey (provider_calls w))"
  using signer_ledger.reachable_inv [OF assms(1,4) refl assms(2,3)]
  by (simp add: signer_ledger.boundary_inv_def [OF assms(1)] spent_keys_def)

lemma fixture_contract:
  "signer_ledger (sd_ledger fixture_deps) fixture_bound fixture_completed"
  using fixture_ledger.signer_ledger_axioms by (simp add: fixture_deps_def)

lemma fixture_recording:
  "sd_provider fixture_deps = recording_provider (\<lambda>d. act_ok fixture_signature)"
  "provider_calls fixture_world = []"
  by (simp_all add: fixture_deps_def provider_calls_def fixture_world_def)

lemma signer_at_most_once_witness:
  "provider_calls fixture_signed_world = [digest_request_of fixture_request] \<and>
   distinct (map dr_idempotencyKey (provider_calls fixture_signed_world))"
  using signer_at_most_once [OF fixture_contract fixture_recording fixture_reachable]
  by (simp add: provider_calls_def fixture_signed_world_def)

text \<open>
  C4. The provider signs only what the policy allows: every request that reaches it is for
  the key of an authorization the policy resolves, and for the digest of an unsigned
  transaction whose only operation is the one that authorization permits for an event that
  parses from the request's canonical payload.
\<close>

theorem signer_signs_authorized_only:
  assumes "signer_ledger (sd_ledger D) bound completed"
    and "sd_provider D = recording_provider P" and "provider_calls w0 = []"
    and "boundary_reachable D w0 (w, cs)" and "d \<in> set (provider_calls w)"
  shows "\<exists>q a tx event operation c c'.
    d = digest_request_of q \<and> sd_policy D (rq_policyVersion q) (rq_role q) = Some a \<and>
    au_signerKeyReference a = dr_signerKeyReference d \<and>
    au_expectedPublicKey a = dr_expectedPublicKey d \<and>
    inspectTransaction (sd_chain D) (rq_unsignedTransactionJson q) c = (Inr tx, c') \<and>
    \<not> tx_isSigned tx \<and> tx_signatureDigest tx = dr_signatureDigest d \<and>
    parseHiveChameleonEvent (sd_host D) (rq_canonicalPayload q) = Inr event \<and>
    operation = \<lparr>cj_required_auths = [], cj_required_posting_auths = [au_account a],
      cj_id = HIVE_CHAMELEON_APPLICATION_ID, cj_json = rq_canonicalPayload q\<rparr> \<and>
    canonicalCustomJsonOperation (sd_host D) operation = Inr (tx_canonicalOperationJson tx) \<and>
    au_role a = expectedRole (eventFamily event) \<and>
    payload_account event \<in> {None, Some (au_account a)}"
proof -
  from signer_ledger.reachable_inv [OF assms(1,4) refl assms(2,3)] assms(5)
  obtain q where "passed D q" and d: "d = digest_request_of q"
    by (auto simp: signer_ledger.boundary_inv_def [OF assms(1)])
  then obtain c c' where
    "check_request (sd_host D) (sd_chain D) (sd_policy D) q c = (Inr (), c')"
    by (auto simp: passed_def)
  then show ?thesis
    unfolding check_request_Inr authorize_Inr
  proof (elim exE conjE)
    fix tx event a operation
    assume "inspectTransaction (sd_chain D) (rq_unsignedTransactionJson q) c = (Inr tx, c')"
      and "\<not> tx_isSigned tx" and "tx_signatureDigest tx = rq_signatureDigest q"
      and "parseHiveChameleonEvent (sd_host D) (rq_canonicalPayload q) = Inr event"
      and "sd_policy D (rq_policyVersion q) (rq_role q) = Some a"
      and "matchesTrustedAuthorization q a"
      and "canonicalCustomJsonOperation (sd_host D) operation = Inr (rq_canonicalOperationJson q)"
      and "tx_canonicalOperationJson tx = rq_canonicalOperationJson q"
      and "au_role a = expectedRole (eventFamily (in_event
        \<lparr>in_idempotencyKey = rq_idempotencyKey q, in_policyVersion = rq_policyVersion q,
          in_event = event, in_expirationSeconds = None\<rparr>))"
      and "payload_account (in_event
        \<lparr>in_idempotencyKey = rq_idempotencyKey q, in_policyVersion = rq_policyVersion q,
          in_event = event, in_expirationSeconds = None\<rparr>) \<in> {None, Some (au_account a)}"
      and "operation = \<lparr>cj_required_auths = [], cj_required_posting_auths = [au_account a],
        cj_id = HIVE_CHAMELEON_APPLICATION_ID, cj_json = rq_canonicalPayload q\<rparr>"
    then show ?thesis
      by (intro exI [of _ q] exI [of _ a] exI [of _ tx] exI [of _ event] exI [of _ operation]
          exI [of _ c] exI [of _ c'])
        (simp add: d digest_request_of_def matchesTrustedAuthorization_def)
  qed
qed

lemma signer_signs_authorized_only_witness:
  "\<exists>a. fixture_policy ''match-policy-1'' Match_Publisher = Some a \<and>
     au_signerKeyReference a = ''fixture/match-publisher/posting''"
proof -
  have "digest_request_of fixture_request \<in> set (provider_calls fixture_signed_world)"
    by (simp add: provider_calls_def fixture_signed_world_def)
  from signer_signs_authorized_only [OF fixture_contract fixture_recording fixture_reachable this]
  show ?thesis
  proof (elim exE conjE)
    fix q a
    assume "sd_policy fixture_deps (rq_policyVersion q) (rq_role q) = Some a"
    then show ?thesis
      by (auto simp: fixture_deps_def fixture_policy_def fixture_authorization_def split: if_splits)
  qed
qed

text \<open>
  One key has one response: two calls that return for the same idempotency key were
  bound to the same signing request and return the same signature, whose key recovery gave
  the expected public key.
\<close>

theorem signer_one_response_per_key:
  assumes "signer_ledger (sd_ledger D) bound completed"
    and "sd_provider D = recording_provider P" and "provider_calls w0 = []"
    and "boundary_reachable D w0 (w, cs)"
    and "Over q (Inr r) \<in> set cs" and "Over q' (Inr r') \<in> set cs"
    and "rq_idempotencyKey q = rq_idempotencyKey q'"
  shows "idempotencyBinding q = idempotencyBinding q' \<and> r = r' \<and> response_ok D q r"
proof -
  from signer_ledger.reachable_inv [OF assms(1,4) refl assms(2,3)]
  have "\<forall>c \<in> set cs. call_ok D (completed (sw_ledger w)) c"
    by (simp add: signer_ledger.boundary_inv_def [OF assms(1)])
  with assms(5,6) have "call_ok D (completed (sw_ledger w)) (Over q (Inr r))"
    and "call_ok D (completed (sw_ledger w)) (Over q' (Inr r'))" by blast+
  with assms(7) show ?thesis by simp
qed

lemma signer_one_response_per_key_witness:
  "response_ok fixture_deps fixture_request fixture_response"
  using signer_one_response_per_key [OF fixture_contract fixture_recording fixture_reachable,
      of fixture_request fixture_response fixture_request fixture_response] by simp

text \<open>
  A call of \<open>sign\<close> from start to end is a run of the step relation, so what holds of every
  interleaving holds of it.
\<close>

theorem sign_is_a_run:
  assumes "boundary_reachable D w0 (w, cs)" and "sign D q w = (r, w')"
  shows "boundary_reachable D w0 (w', cs @ [Over q r])"
proof -
  have "boundary_reachable D w0 (w, cs @ [Submitted q])"
    using assms(1) by (rule boundary_reachable.step) (rule boundary_step.submit)
  with sign_steps [OF assms(2)] show ?thesis by (rule reachable_steps)
qed

lemma sign_is_a_run_witness:
  "boundary_reachable fixture_deps fixture_world
     (fixture_signed_world, [Over fixture_request (Inr fixture_response)])"
  using sign_is_a_run [OF boundary_reachable.start fixture_sign(1)] by simp

text \<open>
  C6. What the gateway prepares the boundary admits: if the boundary's chain reads the
  prepared transaction back unsigned and unchanged, and its policy holds the authorization
  the gateway used, then the request passes every check.
\<close>

theorem prepared_event_admitted:
  assumes "prepareOfficialEvent H C i a c = (Inr p, c1)"
    and "codec_ok H (event_json (in_event i))"
    and "policy (in_policyVersion i) (au_role a) = Some a"
    and "inspectTransaction C' (tx_unsignedTransactionJson p) c2 = (Inr tx, c3)"
    and "prepared_tx.truncate tx = prepared_tx.truncate p" and "\<not> tx_isSigned tx"
  shows "check_request H C' policy (signer_request_of p) c2 = (Inr (), c3)"
proof -
  from assms(1) obtain operation payload prepared where
    auth: "authorizeOfficialEvent H i a = Inr (operation, payload)"
    and op: "canonicalCustomJsonOperation H operation = Inr (tx_canonicalOperationJson prepared)"
    and p: "p = prepared_tx.extend prepared
       \<lparr>pe_idempotencyKey = in_idempotencyKey i, pe_policyVersion = in_policyVersion i,
         pe_eventFamily = eventFamily (in_event i), pe_eventType = event_type (in_event i),
         pe_canonicalPayload = payload,
         pe_canonicalOperationHash = sha256_hex H (tx_canonicalOperationJson prepared),
         pe_authorization = a\<rparr>"
    unfolding prepareOfficialEvent_def
    by (elim act_bind_InrE) (auto simp: act_run split: if_splits elim!: act_bind_InrE)
  have parse: "parseHiveChameleonEvent H payload = Inr (in_event i)"
    using auth assms(2) by (auto simp: authorize_Inr intro: serialize_parse)
  show ?thesis
    unfolding check_request_Inr
    using assms(3-6) auth op parse
    by (auto simp: p signer_request_of_def prepared_tx.defs matchesTrustedAuthorization_def
        authorize_Inr assertAuthorizationShape_Inr)
qed

lemma prepared_event_admitted_witness:
  "check_request fixture_host (fixture_chain fixture_host fixture_key fixture_digest)
     fixture_policy (signer_request_of fixture_prepared)
     \<lparr>fx_prepared = Some fixture_tx, fx_broadcasts = []\<rparr> =
   (Inr (), \<lparr>fx_prepared = Some fixture_tx, fx_broadcasts = []\<rparr>)"
proof (rule prepared_event_admitted [OF fixture_prepare])
  show "codec_ok fixture_host (event_json (in_event fixture_intent))"
    by (simp add: fixture_intent_def fixture_codec_ok)
  show "fixture_policy (in_policyVersion fixture_intent) (au_role fixture_authorization) =
      Some fixture_authorization"
    by (simp add: fixture_policy_def fixture_intent_def) (simp add: fixture_authorization_def)
  show "inspectTransaction (fixture_chain fixture_host fixture_key fixture_digest)
      (tx_unsignedTransactionJson fixture_prepared) \<lparr>fx_prepared = Some fixture_tx, fx_broadcasts = []\<rparr> =
      (Inr fixture_tx, \<lparr>fx_prepared = Some fixture_tx, fx_broadcasts = []\<rparr>)"
    by (simp add: fixture_chain_def fixture_prepared_def fixture_tx_def)
qed (simp_all add: fixture_tx_def fixture_prepared_def prepared_tx.defs)

end
