(* ===== verification/Haf_Model.thy ===== *)
theory Haf_Model
  imports Protocol_Codec Effects
begin

text \<open>
  The data of the chain projector (\<open>haf-projector/src/model.ts\<close>), and its two ports: the
  source it reads blocks from (\<open>source/haf-source.ts\<close>) and the store it projects into
  (\<open>store/projection-store.ts\<close>). A port is a record of actions on a state of its own, so a
  source may answer the same question differently the second time.
\<close>

section \<open>Data\<close>

datatype projection_state = Included | Irreversible | Reverted
datatype validation_state = Accepted | Rejected

record haf_block =
  hb_number :: nat
  hb_id :: string
  hb_previousId :: string
  hb_timestamp :: string

record irreversible_block =
  ib_number :: nat
  ib_id :: "string option"

record haf_operation =
  ho_sourceOperationId :: string
  ho_transactionId :: "string option"
  ho_operationIndex :: nat
  ho_isVirtual :: bool
  ho_blockNumber :: nat
  ho_timestamp :: string
  ho_operationType :: string
  ho_value :: json

record cursor =
  cu_source :: string
  cu_lastProcessedBlock :: nat
  cu_lastProcessedBlockId :: "string option"
  cu_lastIrreversibleBlock :: nat

record checkpoint = haf_block +
  cp_source :: string
  cp_state :: projection_state
  cp_includedAt :: string
  cp_irreversibleAt :: "string option"
  cp_revertedAt :: "string option"

datatype evidence_authority = Active_Authority | Owner_Authority | Posting_Authority

record evidence =
  ev_sourceOperationId :: string
  ev_transactionId :: "string option"
  ev_operationIndex :: nat
  ev_isVirtual :: bool
  ev_blockNumber :: nat
  ev_blockId :: string
  ev_blockTimestamp :: string
  ev_operationType :: string
  ev_primaryAccount :: string
  ev_requiredAuthority :: "evidence_authority option"
  ev_applicationId :: "string option"
  ev_payload :: json

record decision =
  dc_evidence :: evidence
  dc_validationState :: validation_state
  dc_rejectionReason :: "string option"
  dc_event :: "event option"

section \<open>Ports\<close>

record 's haf_source =
  sourceName :: string
  getHeadBlockNumber :: "('s, nat) action"
  getLastIrreversibleBlock :: "('s, irreversible_block) action"
  getBlock :: "nat \<Rightarrow> ('s, haf_block) action"
  getOperations :: "nat \<Rightarrow> nat \<Rightarrow> ('s, haf_operation list) action"

record 'd projection_store =
  getCursor :: "string \<Rightarrow> ('d, cursor) action"
  getCurrentCheckpoint :: "string \<Rightarrow> nat \<Rightarrow> ('d, checkpoint option) action"
  applyBlock :: "string \<Rightarrow> haf_block \<Rightarrow> decision list \<Rightarrow> string \<Rightarrow> ('d, unit) action"
  revertAfter :: "string \<Rightarrow> nat \<Rightarrow> string \<Rightarrow> ('d, unit) action"
  finalizeThrough :: "string \<Rightarrow> nat \<Rightarrow> string \<Rightarrow> ('d, unit) action"

section \<open>The contract of a store\<close>

text \<open>
  What a store holds for a source is a chain of blocks, numbered from 1 and linked by parent
  ids, and how much of it is irreversible. The locale states what each operation promises of
  it. An operation that throws has changed neither, or it has done its work and only its
  reply is lost, as when a connection breaks while a transaction commits.
\<close>

fun linked :: "haf_block list \<Rightarrow> bool" where
  "linked (b # c # bs) \<longleftrightarrow> hb_previousId c = hb_id b \<and> linked (c # bs)"
| "linked _ \<longleftrightarrow> True"

definition numbered :: "haf_block list \<Rightarrow> bool" where
  "numbered bs \<longleftrightarrow> (\<forall>i < length bs. hb_number (bs ! i) = Suc i)"

definition tip_id :: "haf_block list \<Rightarrow> string option" where
  "tip_id bs = (if bs = [] then None else Some (hb_id (last bs)))"

lemma linked_append:
  "linked (bs @ [b]) \<longleftrightarrow> linked bs \<and> (bs = [] \<or> hb_previousId b = hb_id (last bs))"
  by (induction bs rule: linked.induct) auto

lemma linked_take: "linked bs \<Longrightarrow> linked (take n bs)"
proof (induction bs arbitrary: n rule: linked.induct)
  case (1 b c bs)
  show ?case
  proof (cases n)
    case (Suc m)
    from 1 have "linked (take m (c # bs))" by simp
    with 1(2) Suc show ?thesis by (cases m) auto
  qed simp
qed (auto simp: take_Cons' split: if_splits)

lemma numbered_append: "numbered (bs @ [b]) \<longleftrightarrow> numbered bs \<and> hb_number b = Suc (length bs)"
  by (auto simp: numbered_def nth_append less_Suc_eq all_conj_distrib)

lemma numbered_take: "numbered bs \<Longrightarrow> numbered (take n bs)"
  by (simp add: numbered_def)

lemma tip_id_append [simp]: "tip_id (bs @ [b]) = Some (hb_id b)"
  by (simp add: tip_id_def)

locale store_contract =
  fixes S :: "'d projection_store"
    and inv :: "'d \<Rightarrow> bool"
    and chain :: "'d \<Rightarrow> string \<Rightarrow> haf_block list"
    and irreversible :: "'d \<Rightarrow> string \<Rightarrow> nat"
  assumes inv_chain: "inv d \<Longrightarrow> linked (chain d src) \<and> numbered (chain d src) \<and>
      irreversible d src \<le> length (chain d src)"
    and cursor_read: "inv d \<Longrightarrow> getCursor S src d = (r, d') \<Longrightarrow> d' = d \<and>
      (\<forall>c. r = Inr c \<longrightarrow> c = \<lparr>cu_source = src, cu_lastProcessedBlock = length (chain d src),
         cu_lastProcessedBlockId = tip_id (chain d src),
         cu_lastIrreversibleBlock = irreversible d src\<rparr>)"
    and checkpoint_read: "inv d \<Longrightarrow> getCurrentCheckpoint S src n d = (p, d') \<Longrightarrow> d' = d \<and>
      (\<forall>c. p = Inr (Some c) \<longrightarrow> 1 \<le> n \<and> n \<le> length (chain d src) \<and>
         hb_number c = n \<and> hb_id c = hb_id (chain d src ! (n - 1)) \<and>
         hb_previousId c = hb_previousId (chain d src ! (n - 1))) \<and>
      (p = Inr None \<longrightarrow> n = 0 \<or> length (chain d src) < n)"
    and applies: "inv d \<Longrightarrow> applyBlock S src b ds at d = (u, d') \<Longrightarrow>
      inv d' \<and> irreversible d' = irreversible d \<and>
      (chain d' = (chain d)(src := chain d src @ [b]) \<or> (u \<noteq> Inr () \<and> chain d' = chain d))"
    and reverts: "inv d \<Longrightarrow> n \<le> length (chain d src) \<Longrightarrow> revertAfter S src n at d = (u, d') \<Longrightarrow>
      inv d' \<and> irreversible d' = irreversible d \<and>
      ((irreversible d src \<le> n \<and> chain d' = (chain d)(src := take n (chain d src))) \<or>
       (u \<noteq> Inr () \<and> chain d' = chain d))"
    and finalizes: "inv d \<Longrightarrow> finalizeThrough S src n at d = (u, d') \<Longrightarrow>
      inv d' \<and> chain d' = chain d \<and>
      ((n \<le> length (chain d src) \<and>
        irreversible d' = (irreversible d)(src := max (irreversible d src) n)) \<or>
       (u \<noteq> Inr () \<and> irreversible d' = irreversible d))"
begin

text \<open>What no operation ever changes: the irreversible part of the chain.\<close>

definition extends :: "'d \<Rightarrow> 'd \<Rightarrow> bool" where
  "extends d d' \<longleftrightarrow>
     (\<forall>src. irreversible d src \<le> irreversible d' src \<and>
        take (irreversible d src) (chain d' src) = take (irreversible d src) (chain d src))"

lemma extends_refl [simp]: "extends d d"
  by (simp add: extends_def)

lemma extends_trans: "extends d d' \<Longrightarrow> extends d' d'' \<Longrightarrow> extends d d''"
  unfolding extends_def by (metis min.absorb1 order_trans take_take)

lemma irreversible_le: "inv d \<Longrightarrow> irreversible d src \<le> length (chain d src)"
  using inv_chain by blast

lemma apply_extends:
  assumes "inv d" and "applyBlock S src b ds at d = (u, d')"
  shows "inv d' \<and> extends d d'"
  using applies [OF assms] irreversible_le [OF assms(1)] by (auto simp: extends_def)

lemma revert_extends:
  assumes "inv d" and "n \<le> length (chain d src)" and "revertAfter S src n at d = (u, d')"
  shows "inv d' \<and> extends d d'"
  using reverts [OF assms] by (auto simp: extends_def min_absorb1)

lemma finalize_extends:
  assumes "inv d" and "finalizeThrough S src n at d = (u, d')"
  shows "inv d' \<and> extends d d'"
  using finalizes [OF assms] by (auto simp: extends_def)

end

end
