(* ===== verification/Haf_Fixtures.thy ===== *)
theory Haf_Fixtures
  imports Haf_Model
begin

text \<open>
  \<open>FixtureHafSource\<close> (\<open>haf-projector/src/testing/fixture-source.ts\<close>): a source that answers
  from a chain it was given, and never changes it by itself. The witnesses run on it.
\<close>

record fixture_chain =
  fx_lastIrreversibleBlock :: nat
  fx_irreversibleBlockIdOverride :: "string option option"
  fx_blocks :: "haf_block list"
  fx_operations :: "haf_operation list"

text \<open>\<open>replaceChain\<close>; the list is the argument of the \<open>Map\<close>, whose later entries win.\<close>

definition replaceChain :: "haf_block list \<Rightarrow> haf_operation list \<Rightarrow> (fixture_chain, unit) action" where
  "replaceChain blocks operations =
     act_modify (\<lambda>s. s\<lparr>fx_blocks := blocks, fx_operations := operations\<rparr>)"

definition fixture_block_at :: "haf_block list \<Rightarrow> nat \<Rightarrow> haf_block option" where
  "fixture_block_at blocks n = List.find (\<lambda>b. hb_number b = n) (rev blocks)"

definition FixtureHafSource :: "string \<Rightarrow> fixture_chain haf_source" where
  "FixtureHafSource name = \<lparr>
     sourceName = name,
     getHeadBlockNumber = act_get (\<lambda>s. foldr max (map hb_number (fx_blocks s)) 0),
     getLastIrreversibleBlock = act_get (\<lambda>s. \<lparr>ib_number = fx_lastIrreversibleBlock s,
       ib_id = (case fx_irreversibleBlockIdOverride s of
          Some override \<Rightarrow> override
        | None \<Rightarrow>
            if fx_lastIrreversibleBlock s = 0 then None
            else map_option hb_id (fixture_block_at (fx_blocks s) (fx_lastIrreversibleBlock s)))\<rparr>),
     getBlock = (\<lambda>n s. case fixture_block_at (fx_blocks s) n of
         None \<Rightarrow> (Inl (HafProjectorError invalid_source_response), s)
       | Some b \<Rightarrow> (Inr b, s)),
     getOperations = (\<lambda>a b. act_get (\<lambda>s.
       filter (\<lambda>op. a \<le> ho_blockNumber op \<and> ho_blockNumber op \<le> b) (fx_operations s)))\<rparr>"

end
