(* ===== verification/Pg_Tables.thy ===== *)
theory Pg_Tables
  imports Haf_Model
begin

text \<open>
  The tables of the projection database that the projector writes
  (\<open>infra/postgres/migrations\<close>), with the constraints and triggers its statements meet, and
  the tables of other services it only reads. Rows are kept in the order of insertion. A
  \<open>timestamptz\<close> column holds the text it was written from, and is compared by its instant.
  An unlucky transaction is a fault of a schedule: refused, or committed with its reply lost.
\<close>

section \<open>Rows\<close>

record checkpoint_row =
  kr_id :: string
  kr_source :: string
  kr_number :: nat
  kr_block_id :: string
  kr_previous_block_id :: "string option"
  kr_timestamp :: string
  kr_state :: projection_state
  kr_observed_at :: string
  kr_irreversible_at :: "string option"
  kr_reverted_at :: "string option"

record operation_row =
  or_id :: string
  or_checkpoint_id :: string
  or_evidence :: evidence
  or_state :: projection_state
  or_observed_at :: string
  or_validation_state :: validation_state
  or_rejection_reason :: "string option"
  or_irreversible_at :: "string option"
  or_reverted_at :: "string option"

record match_event_row =
  me_event_uuid :: string
  me_batch_uuid :: "string option"
  me_operation_id :: string
  me_event_type :: string
  me_period_start :: "string option"
  me_period_end :: "string option"
  me_publisher :: string
  me_result_count :: int
  me_operation_state :: projection_state
  me_included_at :: string
  me_irreversible_at :: "string option"
  me_reverted_at :: "string option"

record cursor_row =
  cr_source :: string
  cr_endpoint_url :: string
  cr_last_processed_block :: nat
  cr_last_irreversible_block :: nat
  cr_last_successful_sync_at :: "string option"

datatype result_state = Current_Result | Corrected_Result | Invalidated_Result

record match_result_row =
  rs_id :: string
  rs_initial_event_uuid :: string
  rs_result_position :: nat
  rs_round_id :: string
  rs_result_schema :: string
  rs_scoring_rules :: string
  rs_map_version_id :: string
  rs_map_content_sha256 :: string
  rs_server_build :: string
  rs_server_protocol :: string
  rs_public_result_sha256 :: string
  rs_current_state :: result_state
  rs_current_event_uuid :: string
  rs_matched_revision_id :: "string option"
  rs_reconciled_at :: "string option"

datatype change_type = Correction | Invalidation

record match_change_row =
  ch_event_uuid :: string
  ch_projected_result_id :: string
  ch_round_id :: string
  ch_original_batch_uuid :: string
  ch_original_event_uuid :: string
  ch_supersedes_event_uuid :: string
  ch_change_type :: change_type
  ch_reason_code :: string
  ch_replacement :: "(string \<times> match_result) option"

datatype collectible_event_type = Issued | Revoked

record collectible_event_row =
  ce_event_id :: string
  ce_operation_id :: string
  ce_event_type :: collectible_event_type
  ce_collectible_id :: string
  ce_definition_id :: string
  ce_owner :: string
  ce_issuer :: string
  ce_metadata_uri :: string
  ce_metadata_sha256 :: string
  ce_issuance_reason :: string
  ce_payment_id :: "string option"
  ce_occurred_at :: string

datatype instance_state = Finalized_Instance | Revoked_Instance

record collectible_instance_row =
  in_id :: string
  in_definition_id :: string
  in_owner_player_id :: string
  in_issuer_account :: string
  in_state :: instance_state
  in_issued_event_id :: string
  in_issued_transaction_id :: string
  in_issued_block_number :: nat
  in_irreversible_at :: string
  in_payment_id :: "string option"
  in_revoked_event_id :: "string option"
  in_revoked_at :: "string option"

record db =
  db_checkpoints :: "checkpoint_row list"
  db_operations :: "operation_row list"
  db_match_events :: "match_event_row list"
  db_cursors :: "cursor_row list"
  db_results :: "match_result_row list"
  db_changes :: "match_change_row list"
  db_collectible_events :: "collectible_event_row list"
  db_instances :: "collectible_instance_row list"

section \<open>Tables of other services\<close>

record round_row =
  rd_id :: string
  rd_map_version_id :: string

record revision_row =
  rv_id :: string
  rv_round_id :: string
  rv_number :: nat
  rv_is_correction :: bool
  rv_reason_code :: "string option"
  rv_result_schema :: string
  rv_scoring_rules :: string
  rv_sha256 :: string

record map_version_row =
  mv_id :: string
  mv_map_id :: string
  mv_package_sha256s :: "string list"

record definition_row =
  df_id :: string
  df_code :: string
  df_kind :: string
  df_metadata_uri :: string
  df_metadata_sha256 :: string

record player_row =
  pl_id :: string
  pl_hive_username :: string

record payment_row =
  pm_id :: string
  pm_external_transaction_id :: string

record ref_tables =
  rt_rounds :: "round_row list"
  rt_revisions :: "revision_row list"
  rt_map_versions :: "map_version_row list"
  rt_definitions :: "definition_row list"
  rt_players :: "player_row list"
  rt_payments :: "payment_row list"

section \<open>The state of a store\<close>

datatype fault = No_Fault | Refused | Reply_Lost

record 'u pg =
  pg_db :: db
  pg_ids :: 'u
  pg_faults :: "fault list"

record 'u pg_options =
  po_host :: host
  po_ref :: ref_tables
  po_endpointIdentity :: string
  po_nextUuidV7 :: "'u \<Rightarrow> string \<times> 'u"

definition database_error :: exn where
  "database_error = OtherError ''database''"

definition cursor_conflict_error :: exn where
  "cursor_conflict_error = HafProjectorError cursor_conflict"

text \<open>A change of the database, or the error a constraint or trigger raises.\<close>

definition sql :: "(db \<Rightarrow> db option) \<Rightarrow> ('u pg, unit) action" where
  "sql f = (\<lambda>w. case f (pg_db w) of
     None \<Rightarrow> (Inl database_error, w) | Some db \<Rightarrow> (Inr (), w\<lparr>pg_db := db\<rparr>))"

definition read_db :: "(db \<Rightarrow> 'a) \<Rightarrow> ('u pg, 'a) action" where
  "read_db f = act_get (\<lambda>w. f (pg_db w))"

section \<open>Constraints and triggers\<close>

text \<open>
  A new checkpoint: a fresh primary key, a block never seen for the source
  (\<open>uq_block_checkpoint_source_id\<close>), and the only one at its height that is not reverted
  (\<open>uq_block_checkpoint_current_height\<close>).
\<close>

definition checkpoint_insertable :: "db \<Rightarrow> checkpoint_row \<Rightarrow> bool" where
  "checkpoint_insertable db k \<longleftrightarrow>
     list_all (\<lambda>j. kr_id j \<noteq> kr_id k \<and>
       \<not> (kr_source j = kr_source k \<and> kr_block_id j = kr_block_id k) \<and>
       \<not> (kr_source j = kr_source k \<and> kr_number j = kr_number k \<and>
          kr_state j \<noteq> Reverted \<and> kr_state k \<noteq> Reverted)) (db_checkpoints db)"

text \<open>
  A new operation: a fresh primary key, a transaction id unless it is virtual, the identity of
  no operation that is not reverted, and a checkpoint that is not reverted and is its block
  (\<open>hc_validate_operation_evidence\<close>).
\<close>

definition same_instant :: "host \<Rightarrow> string \<Rightarrow> string \<Rightarrow> bool" where
  "same_instant H s t \<longleftrightarrow> nan_eq (date_parse H s) (date_parse H t)"

definition operation_insertable :: "host \<Rightarrow> db \<Rightarrow> operation_row \<Rightarrow> bool" where
  "operation_insertable H db row \<longleftrightarrow>
     (let ev = or_evidence row in
      (ev_isVirtual ev \<or> ev_transactionId ev \<noteq> None) \<and>
      list_all (\<lambda>j. or_id j \<noteq> or_id row \<and>
        (or_state j \<noteq> Reverted \<longrightarrow>
           ev_sourceOperationId (or_evidence j) \<noteq> ev_sourceOperationId ev \<and>
           \<not> (ev_transactionId ev \<noteq> None \<and>
              ev_transactionId (or_evidence j) = ev_transactionId ev \<and>
              ev_operationIndex (or_evidence j) = ev_operationIndex ev))) (db_operations db) \<and>
      list_ex (\<lambda>k. kr_id k = or_checkpoint_id row \<and> kr_state k \<noteq> Reverted \<and>
        kr_number k = ev_blockNumber ev \<and> kr_block_id k = ev_blockId ev \<and>
        same_instant H (kr_timestamp k) (ev_blockTimestamp ev)) (db_checkpoints db))"

text \<open>The text of the event an operation carries, \<open>payload ->> 'json'\<close>.\<close>

definition payload_text :: "json \<Rightarrow> string option" where
  "payload_text v = (case v of JObj m \<Rightarrow> get_prop as_string m ''json'' | _ \<Rightarrow> None)"

text \<open>
  The columns of a match event agree with an accepted operation of its publisher
  (\<open>hc_validate_match_event\<close>).
\<close>

definition match_event_backed :: "host \<Rightarrow> db \<Rightarrow> match_event_row \<Rightarrow> bool" where
  "match_event_backed H db e \<longleftrightarrow>
     list_ex (\<lambda>row. or_id row = me_operation_id e \<and>
       ev_operationType (or_evidence row) \<in> {''custom_json'', ''custom_json_operation''} \<and>
       ev_requiredAuthority (or_evidence row) = Some Posting_Authority \<and>
       ev_applicationId (or_evidence row) = Some ''hive.chameleon'' \<and>
       ev_primaryAccount (or_evidence row) = me_publisher e \<and>
       or_validation_state row = Accepted \<and>
       same_instant H (ev_blockTimestamp (or_evidence row)) (me_included_at e)) (db_operations db)"

text \<open>A replay binds a reverted event to another included operation with the same text.\<close>

definition replay_allowed :: "db \<Rightarrow> match_event_row \<Rightarrow> string \<Rightarrow> bool" where
  "replay_allowed db e operation_id \<longleftrightarrow>
     operation_id \<noteq> me_operation_id e \<and>
     list_ex (\<lambda>old. or_id old = me_operation_id e \<and> or_state old = Reverted \<and>
       list_ex (\<lambda>new. or_id new = operation_id \<and> or_state new = Included \<and>
         payload_text (ev_payload (or_evidence new)) = payload_text (ev_payload (or_evidence old)))
         (db_operations db)) (db_operations db)"

text \<open>
  The constraint triggers deferred to the end of a transaction: an operation has the state of
  its checkpoint, and a match event the state of its operation.
\<close>

definition states_agree :: "db \<Rightarrow> bool" where
  "states_agree db \<longleftrightarrow>
     list_all (\<lambda>row. list_all (\<lambda>k. kr_id k = or_checkpoint_id row \<longrightarrow> or_state row = kr_state k)
       (db_checkpoints db)) (db_operations db) \<and>
     list_all (\<lambda>e. list_all (\<lambda>row. or_id row = me_operation_id e \<longrightarrow>
         me_operation_state e = or_state row \<and> or_validation_state row = Accepted)
       (db_operations db)) (db_match_events db)"

end
