(* ===== verification/Pg_Store.thy ===== *)
theory Pg_Store
  imports Pg_Tables
begin

text \<open>
  \<open>PostgresProjectionStore\<close> (\<open>store/postgres-projection-store.ts\<close>) over the tables: the two
  reads, and the three transactions that apply a block, revert a fork and finalize.
\<close>

section \<open>Rows as values\<close>

text \<open>\<open>parseDatabaseInteger\<close> and \<open>toIsoString\<close>.\<close>

definition parseDatabaseInteger :: "nat \<Rightarrow> exn + nat" where
  "parseDatabaseInteger n = (if is_safe_integer (int n) then Inr n else Inl cursor_conflict_error)"

definition toIsoString :: "host \<Rightarrow> string \<Rightarrow> exn + string" where
  "toIsoString H s =
     (case date_parse H s of None \<Rightarrow> Inl cursor_conflict_error | Some t \<Rightarrow> Inr (to_iso_string H t))"

definition optional_iso :: "host \<Rightarrow> string option \<Rightarrow> exn + string option" where
  "optional_iso H s =
     (case s of None \<Rightarrow> Inr None | Some x \<Rightarrow> ebind (toIsoString H x) (\<lambda>t. Inr (Some t)))"

definition initialCursor :: "string \<Rightarrow> cursor" where
  "initialCursor source = \<lparr>cu_source = source, cu_lastProcessedBlock = 0,
     cu_lastProcessedBlockId = None, cu_lastIrreversibleBlock = 0\<rparr>"

text \<open>The checkpoint at a height that is not reverted.\<close>

definition current_checkpoint :: "db \<Rightarrow> string \<Rightarrow> nat \<Rightarrow> checkpoint_row option" where
  "current_checkpoint db src n =
     List.find (\<lambda>k. kr_source k = src \<and> kr_number k = n \<and> kr_state k \<noteq> Reverted) (db_checkpoints db)"

definition cursor_row_of :: "db \<Rightarrow> string \<Rightarrow> cursor_row option" where
  "cursor_row_of db src = List.find (\<lambda>c. cr_source c = src) (db_cursors db)"

definition cursorFromRow :: "db \<Rightarrow> cursor_row \<Rightarrow> exn + cursor" where
  "cursorFromRow db row =
     ebind (parseDatabaseInteger (cr_last_processed_block row)) (\<lambda>processed.
     ebind (parseDatabaseInteger (cr_last_irreversible_block row)) (\<lambda>irreversible.
     Inr \<lparr>cu_source = cr_source row, cu_lastProcessedBlock = processed,
       cu_lastProcessedBlockId =
         map_option kr_block_id (current_checkpoint db (cr_source row) (cr_last_processed_block row)),
       cu_lastIrreversibleBlock = irreversible\<rparr>))"

definition checkpointFromRow :: "host \<Rightarrow> checkpoint_row \<Rightarrow> exn + checkpoint" where
  "checkpointFromRow H row =
     ebind (parseDatabaseInteger (kr_number row)) (\<lambda>number.
     ebind (toIsoString H (kr_timestamp row)) (\<lambda>timestamp.
     ebind (toIsoString H (kr_observed_at row)) (\<lambda>includedAt.
     ebind (optional_iso H (kr_irreversible_at row)) (\<lambda>irreversibleAt.
     ebind (optional_iso H (kr_reverted_at row)) (\<lambda>revertedAt.
     Inr \<lparr>hb_number = number, hb_id = kr_block_id row,
       hb_previousId = (case kr_previous_block_id row of None \<Rightarrow> [] | Some p \<Rightarrow> p),
       hb_timestamp = timestamp, cp_source = kr_source row, cp_state = kr_state row,
       cp_includedAt = includedAt, cp_irreversibleAt = irreversibleAt,
       cp_revertedAt = revertedAt\<rparr>)))))"

section \<open>Reads\<close>

definition pg_getCursor :: "'u pg_options \<Rightarrow> string \<Rightarrow> ('u pg, cursor) action" where
  "pg_getCursor P source =
     act_bind (read_db (\<lambda>db. (db, cursor_row_of db source))) (\<lambda>(db, row).
     case row of
       None \<Rightarrow> act_ok (initialCursor source)
     | Some r \<Rightarrow> act_lift (cursorFromRow db r))"

definition pg_getCurrentCheckpoint ::
  "'u pg_options \<Rightarrow> string \<Rightarrow> nat \<Rightarrow> ('u pg, checkpoint option) action" where
  "pg_getCurrentCheckpoint P source n =
     act_bind (read_db (\<lambda>db. current_checkpoint db source n)) (\<lambda>row.
     case row of
       None \<Rightarrow> act_ok None
     | Some r \<Rightarrow> act_lift (ebind (checkpointFromRow (po_host P) r) (\<lambda>c. Inr (Some c))))"

section \<open>Transactions\<close>

text \<open>
  \<open>inTransaction\<close>: the work between \<open>BEGIN\<close> and \<open>COMMIT\<close>. The commit checks the deferred
  constraints; any failure rolls the tables back, but not the ids drawn meanwhile. The next
  fault of the schedule refuses the transaction, or loses the reply of its commit.
\<close>

definition inTransaction :: "('u pg, unit) action \<Rightarrow> ('u pg, unit) action" where
  "inTransaction work = (\<lambda>w.
     let next_fault = (case pg_faults w of [] \<Rightarrow> No_Fault | f # fs \<Rightarrow> f);
         w0 = w\<lparr>pg_faults := tl (pg_faults w)\<rparr>
     in case work w0 of
          (Inl e, w1) \<Rightarrow> (Inl e, w1\<lparr>pg_db := pg_db w\<rparr>)
        | (Inr u, w1) \<Rightarrow>
            if next_fault = Refused \<or> \<not> states_agree (pg_db w1)
            then (Inl database_error, w1\<lparr>pg_db := pg_db w\<rparr>)
            else if next_fault = Reply_Lost then (Inl database_error, w1)
            else (Inr u, w1))"

definition nextUuidV7 :: "'u pg_options \<Rightarrow> ('u pg, string) action" where
  "nextUuidV7 P = (\<lambda>w.
     let (value, ids) = po_nextUuidV7 P (pg_ids w) in
     (if uuidV7Schema value then Inr value else Inl cursor_conflict_error, w\<lparr>pg_ids := ids\<rparr>))"

definition insert_cursor :: "string \<Rightarrow> string \<Rightarrow> db \<Rightarrow> db option" where
  "insert_cursor endpoint source db =
     (case cursor_row_of db source of
        Some r \<Rightarrow> Some db
      | None \<Rightarrow> Some (db\<lparr>db_cursors := db_cursors db @
          [\<lparr>cr_source = source, cr_endpoint_url = endpoint,
             cr_last_processed_block = 0, cr_last_irreversible_block = 0,
             cr_last_successful_sync_at = None\<rparr>]\<rparr>))"

definition lockCursor :: "'u pg_options \<Rightarrow> string \<Rightarrow> ('u pg, cursor) action" where
  "lockCursor P source =
     act_bind (sql (insert_cursor (po_endpointIdentity P) source)) (\<lambda>_.
     act_bind (read_db (\<lambda>db. (db, cursor_row_of db source))) (\<lambda>(db, row).
     case row of
       None \<Rightarrow> act_fail cursor_conflict_error
     | Some r \<Rightarrow> act_lift (cursorFromRow db r)))"

definition update_cursor :: "string \<Rightarrow> (cursor_row \<Rightarrow> cursor_row) \<Rightarrow> db \<Rightarrow> db option" where
  "update_cursor source f db =
     Some (db\<lparr>db_cursors := map (\<lambda>c. if cr_source c = source then f c else c) (db_cursors db)\<rparr>)"

subsection \<open>Applying a block\<close>

definition insert_checkpoint :: "host \<Rightarrow> checkpoint_row \<Rightarrow> db \<Rightarrow> db option" where
  "insert_checkpoint H k db =
     (if checkpoint_insertable db k \<and> date_parse H (kr_timestamp k) \<noteq> None \<and>
         date_parse H (kr_observed_at k) \<noteq> None
      then Some (db\<lparr>db_checkpoints := db_checkpoints db @ [k]\<rparr>) else None)"

definition insert_operation :: "host \<Rightarrow> operation_row \<Rightarrow> db \<Rightarrow> db option" where
  "insert_operation H row db =
     (if operation_insertable H db row
      then Some (db\<lparr>db_operations := db_operations db @ [row]\<rparr>) else None)"

definition insertOperation ::
  "'u pg_options \<Rightarrow> string \<Rightarrow> decision \<Rightarrow> string \<Rightarrow> ('u pg, string) action" where
  "insertOperation P checkpointId d observedAt =
     act_bind (nextUuidV7 P) (\<lambda>operationId.
     act_bind (sql (insert_operation (po_host P)
       \<lparr>or_id = operationId, or_checkpoint_id = checkpointId, or_evidence = dc_evidence d,
         or_state = Included, or_observed_at = observedAt,
         or_validation_state = dc_validationState d,
         or_rejection_reason = dc_rejectionReason d,
         or_irreversible_at = None, or_reverted_at = None\<rparr>)) (\<lambda>_.
     act_ok operationId))"

fun isMatchEvent :: "event \<Rightarrow> bool" where
  "isMatchEvent (Match_Results_Batch b) = True"
| "isMatchEvent (Match_Result_Corrected c) = True"
| "isMatchEvent (Match_Result_Invalidated i) = True"
| "isMatchEvent _ = False"

fun matchEventRow :: "event \<Rightarrow> string \<Rightarrow> string \<Rightarrow> match_event_row option" where
  "matchEventRow (Match_Results_Batch b) operationId includedAt = Some
     \<lparr>me_event_uuid = mb_event_id b, me_batch_uuid = Some (mb_batch_id b),
       me_operation_id = operationId, me_event_type = ''match_results_batch'',
       me_period_start = Some (mb_period_start b), me_period_end = Some (mb_period_end b),
       me_publisher = mb_publisher b, me_result_count = mb_result_count b,
       me_operation_state = Included, me_included_at = includedAt,
       me_irreversible_at = None, me_reverted_at = None\<rparr>"
| "matchEventRow (Match_Result_Corrected c) operationId includedAt = Some
     \<lparr>me_event_uuid = mc_event_id c, me_batch_uuid = None,
       me_operation_id = operationId, me_event_type = ''match_result_corrected'',
       me_period_start = None, me_period_end = None,
       me_publisher = mc_publisher c, me_result_count = 1,
       me_operation_state = Included, me_included_at = includedAt,
       me_irreversible_at = None, me_reverted_at = None\<rparr>"
| "matchEventRow (Match_Result_Invalidated i) operationId includedAt = Some
     \<lparr>me_event_uuid = mi_event_id i, me_batch_uuid = None,
       me_operation_id = operationId, me_event_type = ''match_result_invalidated'',
       me_period_start = None, me_period_end = None,
       me_publisher = mi_publisher i, me_result_count = 1,
       me_operation_state = Included, me_included_at = includedAt,
       me_irreversible_at = None, me_reverted_at = None\<rparr>"
| "matchEventRow _ operationId includedAt = None"

text \<open>The update of a reverted event of the same id: the rows it touches must be replays.\<close>

definition replay_event :: "host \<Rightarrow> match_event_row \<Rightarrow> db \<Rightarrow> db option" where
  "replay_event H e db =
     (let rebound = (\<lambda>old. old\<lparr>me_operation_id := me_operation_id e, me_operation_state := Included,
            me_included_at := me_included_at e, me_irreversible_at := None, me_reverted_at := None\<rparr>);
          hit = (\<lambda>old. me_event_uuid old = me_event_uuid e \<and> me_operation_state old = Reverted) in
      if list_all (\<lambda>old. hit old \<longrightarrow>
           replay_allowed db old (me_operation_id e) \<and> match_event_backed H db (rebound old) \<and>
           \<not> list_ex (\<lambda>j. j \<noteq> old \<and> me_operation_id j = me_operation_id e) (db_match_events db))
         (db_match_events db)
      then Some (db\<lparr>db_match_events := map (\<lambda>old. if hit old then rebound old else old)
        (db_match_events db)\<rparr>)
      else None)"

text \<open>\<open>INSERT ... ON CONFLICT DO NOTHING\<close>; the trigger runs first.\<close>

definition insert_match_event :: "host \<Rightarrow> match_event_row \<Rightarrow> db \<Rightarrow> db option" where
  "insert_match_event H e db =
     (if \<not> match_event_backed H db e then None
      else if list_ex (\<lambda>j. me_event_uuid j = me_event_uuid e \<or>
          (me_batch_uuid e \<noteq> None \<and> me_batch_uuid j = me_batch_uuid e) \<or>
          me_operation_id j = me_operation_id e) (db_match_events db)
      then Some db
      else Some (db\<lparr>db_match_events := db_match_events db @ [e]\<rparr>))"

definition upsertIncludedMatchEvent ::
  "'u pg_options \<Rightarrow> string \<Rightarrow> decision \<Rightarrow> ('u pg, unit) action" where
  "upsertIncludedMatchEvent P operationId d =
     (case dc_event d of
        None \<Rightarrow> act_ok ()
      | Some ev \<Rightarrow>
          (case matchEventRow ev operationId (ev_blockTimestamp (dc_evidence d)) of
             None \<Rightarrow> act_ok ()
           | Some e \<Rightarrow>
               act_bind (read_db (\<lambda>db. list_ex (\<lambda>old. me_event_uuid old = me_event_uuid e \<and>
                 me_operation_state old = Reverted) (db_match_events db))) (\<lambda>replayed.
               act_bind (sql (replay_event (po_host P) e)) (\<lambda>_.
               if replayed then act_ok () else sql (insert_match_event (po_host P) e)))))"

definition apply_decision ::
  "'u pg_options \<Rightarrow> string \<Rightarrow> string \<Rightarrow> decision \<Rightarrow> ('u pg, unit) action" where
  "apply_decision P checkpointId observedAt d =
     act_bind (insertOperation P checkpointId d observedAt) (\<lambda>operationId.
     if dc_validationState d = Accepted \<and> (case dc_event d of None \<Rightarrow> False | Some e \<Rightarrow> isMatchEvent e)
     then upsertIncludedMatchEvent P operationId d else act_ok ())"

definition included_row :: "string \<Rightarrow> string \<Rightarrow> haf_block \<Rightarrow> string \<Rightarrow> checkpoint_row" where
  "included_row checkpointId source block observedAt =
     \<lparr>kr_id = checkpointId, kr_source = source, kr_number = hb_number block,
       kr_block_id = hb_id block, kr_previous_block_id = Some (hb_previousId block),
       kr_timestamp = hb_timestamp block, kr_state = Included, kr_observed_at = observedAt,
       kr_irreversible_at = None, kr_reverted_at = None\<rparr>"

definition processed_cursor ::
  "'u pg_options \<Rightarrow> haf_block \<Rightarrow> string \<Rightarrow> cursor_row \<Rightarrow> cursor_row" where
  "processed_cursor P block observedAt c =
     c\<lparr>cr_endpoint_url := po_endpointIdentity P, cr_last_processed_block := hb_number block,
       cr_last_successful_sync_at := Some observedAt\<rparr>"

definition apply_block_work ::
  "'u pg_options \<Rightarrow> string \<Rightarrow> haf_block \<Rightarrow> decision list \<Rightarrow> string \<Rightarrow> ('u pg, unit) action" where
  "apply_block_work P source block decisions observedAt =
     act_bind (lockCursor P source) (\<lambda>c.
     act_bind (act_ensure (hb_number block = cu_lastProcessedBlock c + 1) cursor_conflict_error) (\<lambda>_.
     act_bind (act_ensure
       (\<not> (cu_lastProcessedBlockId c \<noteq> None \<and>
            cu_lastProcessedBlockId c \<noteq> Some (hb_previousId block))) cursor_conflict_error) (\<lambda>_.
     act_bind (nextUuidV7 P) (\<lambda>checkpointId.
     act_bind (sql (insert_checkpoint (po_host P)
       (included_row checkpointId source block observedAt))) (\<lambda>_.
     act_bind (act_each (apply_decision P checkpointId observedAt) decisions) (\<lambda>_.
     sql (update_cursor source (processed_cursor P block observedAt))))))))"

definition pg_applyBlock ::
  "'u pg_options \<Rightarrow> string \<Rightarrow> haf_block \<Rightarrow> decision list \<Rightarrow> string \<Rightarrow> ('u pg, unit) action" where
  "pg_applyBlock P source block decisions observedAt =
     inTransaction (apply_block_work P source block decisions observedAt)"

subsection \<open>Reverting\<close>

text \<open>The checkpoints of a source on one side of a height, as the joins select them.\<close>

definition selected :: "db \<Rightarrow> string \<Rightarrow> (nat \<Rightarrow> bool) \<Rightarrow> string \<Rightarrow> bool" where
  "selected db source p checkpoint_id \<longleftrightarrow>
     list_ex (\<lambda>k. kr_id k = checkpoint_id \<and> kr_source k = source \<and> p (kr_number k)) (db_checkpoints db)"

definition event_selected :: "db \<Rightarrow> string \<Rightarrow> (nat \<Rightarrow> bool) \<Rightarrow> match_event_row \<Rightarrow> bool" where
  "event_selected db source p e \<longleftrightarrow>
     list_ex (\<lambda>row. or_id row = me_operation_id e \<and> selected db source p (or_checkpoint_id row))
       (db_operations db)"

definition revert_events :: "string \<Rightarrow> nat \<Rightarrow> string \<Rightarrow> db \<Rightarrow> db option" where
  "revert_events source n at db = Some (db\<lparr>db_match_events := map (\<lambda>e.
     if event_selected db source (\<lambda>h. h > n) e \<and> me_operation_state e = Included
     then e\<lparr>me_operation_state := Reverted, me_irreversible_at := None, me_reverted_at := Some at\<rparr>
     else e) (db_match_events db)\<rparr>)"

text \<open>A row that is irreversible cannot be reverted: the triggers refuse the statement.\<close>

definition revert_operations :: "string \<Rightarrow> nat \<Rightarrow> string \<Rightarrow> db \<Rightarrow> db option" where
  "revert_operations source n at db =
     (let hit = (\<lambda>row. selected db source (\<lambda>h. h > n) (or_checkpoint_id row) \<and> or_state row \<noteq> Reverted) in
      if list_ex (\<lambda>row. hit row \<and> or_state row = Irreversible) (db_operations db) then None
      else Some (db\<lparr>db_operations := map (\<lambda>row.
        if hit row then row\<lparr>or_state := Reverted, or_reverted_at := Some at\<rparr> else row)
        (db_operations db)\<rparr>))"

definition revert_checkpoints :: "string \<Rightarrow> nat \<Rightarrow> string \<Rightarrow> db \<Rightarrow> db option" where
  "revert_checkpoints source n at db =
     (let hit = (\<lambda>k. kr_source k = source \<and> kr_number k > n \<and> kr_state k \<noteq> Reverted) in
      if list_ex (\<lambda>k. hit k \<and> kr_state k = Irreversible) (db_checkpoints db) then None
      else Some (db\<lparr>db_checkpoints := map (\<lambda>k.
        if hit k then k\<lparr>kr_state := Reverted, kr_reverted_at := Some at\<rparr> else k)
        (db_checkpoints db)\<rparr>))"

definition revert_work :: "'u pg_options \<Rightarrow> string \<Rightarrow> nat \<Rightarrow> string \<Rightarrow> ('u pg, unit) action" where
  "revert_work P source ancestorBlock revertedAt =
     act_bind (lockCursor P source) (\<lambda>c.
     act_bind (act_ensure (\<not> ancestorBlock < cu_lastIrreversibleBlock c)
       (HafProjectorError irreversible_fork)) (\<lambda>_.
     act_bind (sql (revert_events source ancestorBlock revertedAt)) (\<lambda>_.
     act_bind (sql (revert_operations source ancestorBlock revertedAt)) (\<lambda>_.
     act_bind (sql (revert_checkpoints source ancestorBlock revertedAt)) (\<lambda>_.
     sql (update_cursor source (\<lambda>c. c\<lparr>cr_last_processed_block := ancestorBlock\<rparr>)))))))"

definition pg_revertAfter :: "'u pg_options \<Rightarrow> string \<Rightarrow> nat \<Rightarrow> string \<Rightarrow> ('u pg, unit) action" where
  "pg_revertAfter P source ancestorBlock revertedAt =
     inTransaction (revert_work P source ancestorBlock revertedAt)"

end
