(* ===== verification/Pg_Finalize.thy ===== *)
theory Pg_Finalize
  imports Pg_Store
begin

text \<open>
  \<open>finalizeThrough\<close> of \<open>PostgresProjectionStore\<close>, and what it derives from the events that
  become irreversible: the match results with their corrections and invalidations, and the
  collectibles. Each statement is a function of the database, with the number of rows it
  writes where the code reads it.
\<close>

section \<open>Finality\<close>

definition finalize_events :: "string \<Rightarrow> nat \<Rightarrow> string \<Rightarrow> db \<Rightarrow> db option" where
  "finalize_events source n at db = Some (db\<lparr>db_match_events := map (\<lambda>e.
     if event_selected db source (\<lambda>h. h \<le> n) e \<and> me_operation_state e = Included
     then e\<lparr>me_operation_state := Irreversible, me_irreversible_at := Some at, me_reverted_at := None\<rparr>
     else e) (db_match_events db)\<rparr>)"

definition finalize_operations :: "string \<Rightarrow> nat \<Rightarrow> string \<Rightarrow> db \<Rightarrow> db option" where
  "finalize_operations source n at db = Some (db\<lparr>db_operations := map (\<lambda>row.
     if selected db source (\<lambda>h. h \<le> n) (or_checkpoint_id row) \<and> or_state row = Included
     then row\<lparr>or_state := Irreversible, or_irreversible_at := Some at\<rparr> else row) (db_operations db)\<rparr>)"

definition finalize_checkpoints :: "string \<Rightarrow> nat \<Rightarrow> string \<Rightarrow> db \<Rightarrow> db option" where
  "finalize_checkpoints source n at db = Some (db\<lparr>db_checkpoints := map (\<lambda>k.
     if kr_source k = source \<and> kr_number k \<le> n \<and> kr_state k = Included
     then k\<lparr>kr_state := Irreversible, kr_irreversible_at := Some at\<rparr> else k) (db_checkpoints db)\<rparr>)"

section \<open>Statements of the materialization\<close>

definition sql_count :: "(db \<Rightarrow> (db \<times> nat) option) \<Rightarrow> ('u pg, nat) action" where
  "sql_count f = (\<lambda>w. case f (pg_db w) of
     None \<Rightarrow> (Inl database_error, w) | Some (db, n) \<Rightarrow> (Inr n, w\<lparr>pg_db := db\<rparr>))"

text \<open>
  The server determines the type of each parameter from the places that use it. A statement
  whose numbers run to \<open>n\<close> and leave one of \<open>1..n\<close> unused is refused
  (\<open>could not determine data type of parameter\<close>).
\<close>

definition parameters_typed :: "nat list \<Rightarrow> bool" where
  "parameters_typed used \<longleftrightarrow> list_all (\<lambda>i. i \<in> set used) [1..<Suc (Max (set (0 # used)))]"

definition initial_event_accepted :: "db \<Rightarrow> string \<Rightarrow> bool" where
  "initial_event_accepted db uuid \<longleftrightarrow>
     list_ex (\<lambda>e. me_event_uuid e = uuid \<and> me_event_type e = ''match_results_batch'' \<and>
       me_operation_state e \<noteq> Reverted) (db_match_events db)"

text \<open>\<open>varchar(n)\<close>\<close>

definition fits :: "nat \<Rightarrow> string \<Rightarrow> bool" where
  "fits n s \<longleftrightarrow> length s \<le> n"

section \<open>Match results\<close>

definition latest_revision :: "revision_row list \<Rightarrow> revision_row option" where
  "latest_revision rs = (case rs of [] \<Rightarrow> None | _ \<Rightarrow> Some (last (sort_key rv_number rs)))"

definition map_version_published :: "ref_tables \<Rightarrow> string \<Rightarrow> string \<Rightarrow> string \<Rightarrow> bool" where
  "map_version_published R version_id map_id sha256 \<longleftrightarrow>
     list_ex (\<lambda>v. mv_id v = version_id \<and> mv_map_id v = map_id \<and> sha256 \<in> set (mv_package_sha256s v))
       (rt_map_versions R)"

text \<open>\<open>local_result\<close>: the round the result is of, with the newest local revision that agrees.\<close>

definition local_result :: "ref_tables \<Rightarrow> match_result \<Rightarrow> (string \<times> string option) option" where
  "local_result R r =
     (case List.find (\<lambda>d. rd_id d = mr_round_id r \<and> rd_map_version_id d = mr_map_version_id r)
        (rt_rounds R) of
        None \<Rightarrow> None
      | Some d \<Rightarrow>
          if map_version_published R (mr_map_version_id r) (mr_map_id r) (mr_map_content_sha256 r)
          then Some (rd_id d, map_option rv_id (latest_revision (filter (\<lambda>v.
            rv_round_id v = rd_id d \<and> rv_result_schema v = mr_result_schema r \<and>
            rv_scoring_rules v = mr_scoring_rules r \<and> rv_sha256 v = mr_result_sha256 r)
            (rt_revisions R))))
          else None)"

definition initial_result_row ::
  "string \<Rightarrow> string \<Rightarrow> nat \<Rightarrow> match_result \<Rightarrow> string \<times> string option \<Rightarrow> string \<Rightarrow> match_result_row" where
  "initial_result_row uuid event_uuid position r local at =
     \<lparr>rs_id = uuid, rs_initial_event_uuid = event_uuid, rs_result_position = position,
       rs_round_id = fst local, rs_result_schema = mr_result_schema r,
       rs_scoring_rules = mr_scoring_rules r, rs_map_version_id = mr_map_version_id r,
       rs_map_content_sha256 = mr_map_content_sha256 r, rs_server_build = mr_server_build r,
       rs_server_protocol = mr_server_protocol r, rs_public_result_sha256 = mr_result_sha256 r,
       rs_current_state = Current_Result, rs_current_event_uuid = event_uuid,
       rs_matched_revision_id = snd local,
       rs_reconciled_at = (case snd local of None \<Rightarrow> None | Some _ \<Rightarrow> Some at)\<rparr>"

text \<open>\<open>INSERT ... ON CONFLICT (round_id) DO NOTHING\<close>; columns and trigger are checked first.\<close>

definition insert_result :: "match_result_row \<Rightarrow> db \<Rightarrow> db option" where
  "insert_result row db =
     (if \<not> (fits 32 (rs_result_schema row) \<and> fits 32 (rs_scoring_rules row) \<and>
           fits 64 (rs_server_build row) \<and> fits 32 (rs_server_protocol row) \<and>
           initial_event_accepted db (rs_initial_event_uuid row)) then None
      else if list_ex (\<lambda>j. rs_round_id j = rs_round_id row) (db_results db) then Some db
      else if list_ex (\<lambda>j. rs_id j = rs_id row \<or>
          (rs_initial_event_uuid j = rs_initial_event_uuid row \<and>
           rs_result_position j = rs_result_position row)) (db_results db) then None
      else Some (db\<lparr>db_results := db_results db @ [row]\<rparr>))"

definition materialize_one ::
  "'u pg_options \<Rightarrow> string \<Rightarrow> string \<Rightarrow> nat \<times> match_result \<Rightarrow> ('u pg, unit) action" where
  "materialize_one P event_uuid at pr =
     act_bind (nextUuidV7 P) (\<lambda>uuid.
     sql (\<lambda>db. case local_result (po_ref P) (snd pr) of
       None \<Rightarrow> Some db
     | Some local \<Rightarrow> insert_result (initial_result_row uuid event_uuid (fst pr) (snd pr) local at) db))"

definition materializeInitialMatchResults ::
  "'u pg_options \<Rightarrow> match_batch \<Rightarrow> string \<Rightarrow> ('u pg, unit) action" where
  "materializeInitialMatchResults P b at =
     act_each (materialize_one P (mb_event_id b) at) (enumerate 0 (mb_results b))"

section \<open>Corrections and invalidations\<close>

text \<open>The result an event changes, when it extends that result's newest event.\<close>

definition head_result :: "db \<Rightarrow> string \<Rightarrow> string \<Rightarrow> string \<Rightarrow> match_result_row option" where
  "head_result db round_id original_event_id supersedes_event_id =
     List.find (\<lambda>r. rs_round_id r = round_id \<and> rs_initial_event_uuid r = original_event_id \<and>
       rs_current_event_uuid r = supersedes_event_id) (db_results db)"

definition change_allowed :: "db \<Rightarrow> match_change_row \<Rightarrow> bool" where
  "change_allowed db c \<longleftrightarrow>
     list_ex (\<lambda>r. rs_id r = ch_projected_result_id c \<and> rs_round_id r = ch_round_id c \<and>
       rs_initial_event_uuid r = ch_original_event_uuid c \<and>
       rs_current_event_uuid r = ch_supersedes_event_uuid c) (db_results db) \<and>
     list_ex (\<lambda>e. me_event_uuid e = ch_original_event_uuid c \<and>
       me_event_type e = ''match_results_batch'' \<and> me_batch_uuid e = Some (ch_original_batch_uuid c) \<and>
       me_operation_state e \<noteq> Reverted) (db_match_events db) \<and>
     list_ex (\<lambda>e. me_event_uuid e = ch_supersedes_event_uuid c \<and> me_operation_state e \<noteq> Reverted)
       (db_match_events db) \<and>
     list_ex (\<lambda>e. me_event_uuid e = ch_event_uuid c \<and> me_operation_state e \<noteq> Reverted \<and>
       me_event_type e = (case ch_change_type c of Correction \<Rightarrow> ''match_result_corrected''
         | Invalidation \<Rightarrow> ''match_result_invalidated'')) (db_match_events db) \<and>
     ch_event_uuid c \<noteq> ch_supersedes_event_uuid c"

text \<open>
  \<open>INSERT ... ON CONFLICT (event_uuid) DO NOTHING\<close>; the trigger
  \<open>hc_validate_match_result_change\<close> runs first, and an event of a round is superseded once.
\<close>

definition insert_change :: "match_change_row \<Rightarrow> db \<Rightarrow> (db \<times> nat) option" where
  "insert_change c db =
     (if \<not> change_allowed db c then None
      else if list_ex (\<lambda>j. ch_event_uuid j = ch_event_uuid c) (db_changes db) then Some (db, 0)
      else if list_ex (\<lambda>j. ch_round_id j = ch_round_id c \<and>
          ch_supersedes_event_uuid j = ch_supersedes_event_uuid c) (db_changes db) then None
      else Some (db\<lparr>db_changes := db_changes db @ [c]\<rparr>, 1))"

definition advance_result ::
  "string \<Rightarrow> string \<Rightarrow> (match_result_row \<Rightarrow> match_result_row) \<Rightarrow> db \<Rightarrow> db option" where
  "advance_result result_id supersedes_event_id f db = Some (db\<lparr>db_results := map (\<lambda>r.
     if rs_id r = result_id \<and> rs_current_event_uuid r = supersedes_event_id then f r else r)
     (db_results db)\<rparr>)"

text \<open>The parameters the lookup of a correction uses, in the order of its text.\<close>

definition correction_lookup_parameters :: "nat list" where
  "correction_lookup_parameters = [5, 6, 7, 12, 1, 2, 3, 8, 9, 10]"

definition correction_lookup ::
  "ref_tables \<Rightarrow> match_correction \<Rightarrow> db \<Rightarrow> (string \<times> string) option" where
  "correction_lookup R c db =
     (let r = mc_replacement_result c in
      case head_result db (mc_round_id c) (mc_original_event_id c) (mc_supersedes_event_id c) of
        None \<Rightarrow> None
      | Some row \<Rightarrow>
          if map_version_published R (mr_map_version_id r) (mr_map_id r) (mr_map_content_sha256 r)
          then map_option (\<lambda>v. (rs_id row, rv_id v)) (latest_revision (filter (\<lambda>v.
            rv_round_id v = rs_round_id row \<and> rv_is_correction v \<and>
            rv_reason_code v = Some (mc_reason_code c) \<and>
            rv_result_schema v = mr_result_schema r \<and> rv_scoring_rules v = mr_scoring_rules r \<and>
            rv_sha256 v = mr_result_sha256 r) (rt_revisions R)))
          else None)"

definition materializeMatchCorrection ::
  "'u pg_options \<Rightarrow> match_correction \<Rightarrow> string \<Rightarrow> ('u pg, unit) action" where
  "materializeMatchCorrection P c at =
     act_bind (act_ensure (parameters_typed correction_lookup_parameters) database_error) (\<lambda>_.
     act_bind (read_db (correction_lookup (po_ref P) c)) (\<lambda>projected.
     case projected of
       None \<Rightarrow> act_ok ()
     | Some (result_id, revision_id) \<Rightarrow>
         act_bind (sql_count (insert_change
           \<lparr>ch_event_uuid = mc_event_id c, ch_projected_result_id = result_id,
             ch_round_id = mc_round_id c, ch_original_batch_uuid = mc_original_batch_id c,
             ch_original_event_uuid = mc_original_event_id c,
             ch_supersedes_event_uuid = mc_supersedes_event_id c, ch_change_type = Correction,
             ch_reason_code = mc_reason_code c,
             ch_replacement = Some (revision_id, mc_replacement_result c)\<rparr>)) (\<lambda>rowCount.
         if rowCount = 0 then act_ok ()
         else sql (advance_result result_id (mc_supersedes_event_id c) (\<lambda>r.
           r\<lparr>rs_current_event_uuid := mc_event_id c, rs_current_state := Corrected_Result,
             rs_matched_revision_id := Some revision_id, rs_reconciled_at := Some at\<rparr>)))))"

definition materializeMatchInvalidation ::
  "'u pg_options \<Rightarrow> match_invalidation \<Rightarrow> ('u pg, unit) action" where
  "materializeMatchInvalidation P i =
     act_bind (read_db (\<lambda>db. head_result db (mi_round_id i) (mi_original_event_id i)
       (mi_supersedes_event_id i))) (\<lambda>projected.
     case projected of
       None \<Rightarrow> act_ok ()
     | Some row \<Rightarrow>
         act_bind (sql_count (insert_change
           \<lparr>ch_event_uuid = mi_event_id i, ch_projected_result_id = rs_id row,
             ch_round_id = mi_round_id i, ch_original_batch_uuid = mi_original_batch_id i,
             ch_original_event_uuid = mi_original_event_id i,
             ch_supersedes_event_uuid = mi_supersedes_event_id i, ch_change_type = Invalidation,
             ch_reason_code = mi_reason_code i, ch_replacement = None\<rparr>)) (\<lambda>rowCount.
         if rowCount = 0 then act_ok ()
         else sql (advance_result (rs_id row) (mi_supersedes_event_id i) (\<lambda>r.
           r\<lparr>rs_current_event_uuid := mi_event_id i, rs_current_state := Invalidated_Result\<rparr>))))"

section \<open>Collectibles\<close>

definition issue_payment :: "ref_tables \<Rightarrow> string option \<Rightarrow> string option option" where
  "issue_payment R tx =
     (case tx of
        None \<Rightarrow> Some None
      | Some t \<Rightarrow> map_option (\<lambda>p. Some (pm_id p))
          (List.find (\<lambda>p. pm_external_transaction_id p = t) (rt_payments R)))"

text \<open>
  \<open>INSERT ... SELECT ... ON CONFLICT (event_id) DO NOTHING\<close> into the collectible events: the
  row selected, if there is one, with a second event of the same operation refused.
\<close>

definition insert_collectible_event ::
  "collectible_event_row option \<Rightarrow> db \<Rightarrow> (db \<times> nat) option" where
  "insert_collectible_event row db =
     (case row of
        None \<Rightarrow> Some (db, 0)
      | Some e \<Rightarrow>
          if list_ex (\<lambda>j. ce_event_id j = ce_event_id e) (db_collectible_events db) then Some (db, 0)
          else if list_ex (\<lambda>j. ce_operation_id j = ce_operation_id e) (db_collectible_events db)
          then None
          else Some (db\<lparr>db_collectible_events := db_collectible_events db @ [e]\<rparr>, 1))"

definition issued_event_row ::
  "ref_tables \<Rightarrow> string \<Rightarrow> collectible_issued \<Rightarrow> collectible_event_row option" where
  "issued_event_row R operation_id c =
     (case (List.find (\<lambda>f. df_code f = ci_definition_id c \<and> df_kind f = kind_name (ci_kind c) \<and>
              df_metadata_uri f = ci_metadata_uri c \<and> df_metadata_sha256 f = ci_metadata_sha256 c)
              (rt_definitions R),
            List.find (\<lambda>p. pl_hive_username p = ci_owner c) (rt_players R),
            issue_payment R (ci_payment_tx_id c)) of
        (Some f, Some p, Some payment) \<Rightarrow> Some
          \<lparr>ce_event_id = ci_event_id c, ce_operation_id = operation_id, ce_event_type = Issued,
            ce_collectible_id = ci_collectible_id c, ce_definition_id = df_id f,
            ce_owner = pl_hive_username p, ce_issuer = ci_issuer c,
            ce_metadata_uri = ci_metadata_uri c, ce_metadata_sha256 = ci_metadata_sha256 c,
            ce_issuance_reason = ci_reason c, ce_payment_id = payment,
            ce_occurred_at = ci_occurred_at c\<rparr>
      | _ \<Rightarrow> None)"

text \<open>\<open>INSERT ... ON CONFLICT (id) DO NOTHING\<close> into the instances.\<close>

definition insert_instance ::
  "ref_tables \<Rightarrow> string \<Rightarrow> string \<Rightarrow> nat \<Rightarrow> string \<Rightarrow> db \<Rightarrow> db option" where
  "insert_instance R issued_id transaction_id block_number at db =
     (case List.find (\<lambda>e. ce_event_id e = issued_id) (db_collectible_events db) of
        None \<Rightarrow> Some db
      | Some e \<Rightarrow>
          (case List.find (\<lambda>p. pl_hive_username p = ce_owner e) (rt_players R) of
             None \<Rightarrow> Some db
           | Some p \<Rightarrow>
               if list_ex (\<lambda>j. in_id j = ce_collectible_id e) (db_instances db) then Some db
               else if list_ex (\<lambda>j. in_issued_event_id j = ce_event_id e \<or>
                   (ce_payment_id e \<noteq> None \<and> in_payment_id j = ce_payment_id e)) (db_instances db)
               then None
               else Some (db\<lparr>db_instances := db_instances db @
                 [\<lparr>in_id = ce_collectible_id e, in_definition_id = ce_definition_id e,
                   in_owner_player_id = pl_id p, in_issuer_account = ce_issuer e,
                   in_state = Finalized_Instance, in_issued_event_id = ce_event_id e,
                   in_issued_transaction_id = transaction_id,
                   in_issued_block_number = block_number, in_irreversible_at = at,
                   in_payment_id = ce_payment_id e, in_revoked_event_id = None,
                   in_revoked_at = None\<rparr>]\<rparr>)))"

definition materializeCollectibleIssue ::
  "'u pg_options \<Rightarrow> operation_row \<Rightarrow> collectible_issued \<Rightarrow> string \<Rightarrow> ('u pg, unit) action" where
  "materializeCollectibleIssue P row c at =
     (case ev_transactionId (or_evidence row) of
        None \<Rightarrow> act_ok ()
      | Some transaction_id \<Rightarrow>
          act_bind (sql_count (insert_collectible_event
            (issued_event_row (po_ref P) (or_id row) c))) (\<lambda>rowCount.
          if rowCount = 0 then act_ok ()
          else
            act_bind (act_lift (parseDatabaseInteger (ev_blockNumber (or_evidence row)))) (\<lambda>number.
            sql (insert_instance (po_ref P) (ci_event_id c) transaction_id number at))))"

definition revoked_event_row ::
  "operation_row \<Rightarrow> collectible_revoked \<Rightarrow> db \<Rightarrow> collectible_event_row option" where
  "revoked_event_row row c db =
     map_option (\<lambda>issued. issued
         \<lparr>ce_event_id := collectible_revoked.cr_event_id c, ce_operation_id := or_id row,
           ce_event_type := Revoked, ce_issuer := ev_primaryAccount (or_evidence row),
           ce_occurred_at := collectible_revoked.cr_occurred_at c\<rparr>)
       (List.find (\<lambda>issued. ce_event_id issued = collectible_revoked.cr_issued_event_id c \<and>
           ce_event_type issued = Issued \<and>
           ce_collectible_id issued = collectible_revoked.cr_collectible_id c \<and>
           list_ex (\<lambda>j. in_id j = ce_collectible_id issued \<and>
             in_issued_event_id j = ce_event_id issued \<and> in_state j = Finalized_Instance)
             (db_instances db)) (db_collectible_events db))"

definition revoke_instance :: "collectible_revoked \<Rightarrow> db \<Rightarrow> db option" where
  "revoke_instance c db = Some (db\<lparr>db_instances := map (\<lambda>j.
     if in_id j = collectible_revoked.cr_collectible_id c \<and>
        in_issued_event_id j = collectible_revoked.cr_issued_event_id c \<and>
        in_state j = Finalized_Instance
     then j\<lparr>in_state := Revoked_Instance,
       in_revoked_event_id := Some (collectible_revoked.cr_event_id c),
       in_revoked_at := Some (collectible_revoked.cr_occurred_at c)\<rparr>
     else j) (db_instances db)\<rparr>)"

definition materializeCollectibleRevocation ::
  "'u pg_options \<Rightarrow> operation_row \<Rightarrow> collectible_revoked \<Rightarrow> ('u pg, unit) action" where
  "materializeCollectibleRevocation P row c =
     act_bind (sql_count (\<lambda>db. insert_collectible_event (revoked_event_row row c db) db)) (\<lambda>rowCount.
     if rowCount = 0 then act_ok () else sql (revoke_instance c))"

section \<open>Materialization\<close>

definition eventFromOperationPayload :: "host \<Rightarrow> json \<Rightarrow> exn + event" where
  "eventFromOperationPayload H payload =
     (case payload_text payload of
        None \<Rightarrow> Inl cursor_conflict_error
      | Some serialized \<Rightarrow> parseHiveChameleonEvent H serialized)"

text \<open>
  The operations finalized at this instant, in the order of the chain, each with the match
  event bound to it.
\<close>

definition irreversible_operations ::
  "host \<Rightarrow> string \<Rightarrow> nat \<Rightarrow> string \<Rightarrow> db \<Rightarrow> (operation_row \<times> string option) list" where
  "irreversible_operations H source n at db =
     map (\<lambda>row. (row, map_option me_event_uuid
       (List.find (\<lambda>e. me_operation_id e = or_id row) (db_match_events db))))
     (sort_key (\<lambda>row. ev_blockNumber (or_evidence row))
       (sort_key (\<lambda>row. ev_operationIndex (or_evidence row))
         (sort_key or_id
           (filter (\<lambda>row. selected db source (\<lambda>h. h \<le> n) (or_checkpoint_id row) \<and>
              or_state row = Irreversible \<and>
              (case or_irreversible_at row of None \<Rightarrow> False | Some t \<Rightarrow> same_instant H t at) \<and>
              or_validation_state row = Accepted \<and>
              ev_applicationId (or_evidence row) = Some ''hive.chameleon'') (db_operations db)))))"

definition materialize_row ::
  "'u pg_options \<Rightarrow> string \<Rightarrow> operation_row \<times> string option \<Rightarrow> ('u pg, unit) action" where
  "materialize_row P at rm =
     act_bind (act_lift (eventFromOperationPayload (po_host P) (ev_payload (or_evidence (fst rm))))) (\<lambda>ev.
     case ev of
       Match_Results_Batch b \<Rightarrow>
         if snd rm \<noteq> Some (mb_event_id b) then act_ok ()
         else materializeInitialMatchResults P b at
     | Match_Result_Corrected c \<Rightarrow>
         if snd rm \<noteq> Some (mc_event_id c) then act_ok ()
         else materializeMatchCorrection P c at
     | Match_Result_Invalidated i \<Rightarrow>
         if snd rm \<noteq> Some (mi_event_id i) then act_ok ()
         else materializeMatchInvalidation P i
     | Collectible_Issued c \<Rightarrow> materializeCollectibleIssue P (fst rm) c at
     | Collectible_Revoked c \<Rightarrow> materializeCollectibleRevocation P (fst rm) c)"

definition materializeIrreversibleEvents ::
  "'u pg_options \<Rightarrow> string \<Rightarrow> nat \<Rightarrow> string \<Rightarrow> ('u pg, unit) action" where
  "materializeIrreversibleEvents P source n at =
     act_bind (read_db (irreversible_operations (po_host P) source n at)) (\<lambda>rows.
     act_each (materialize_row P at) rows)"

section \<open>\<open>finalizeThrough\<close>\<close>

definition finalize_work :: "'u pg_options \<Rightarrow> string \<Rightarrow> nat \<Rightarrow> string \<Rightarrow> ('u pg, unit) action" where
  "finalize_work P source n at =
     act_bind (lockCursor P source) (\<lambda>c.
     act_bind (act_ensure (\<not> n > cu_lastProcessedBlock c) cursor_conflict_error) (\<lambda>_.
     act_bind (sql (finalize_events source n at)) (\<lambda>_.
     act_bind (sql (finalize_operations source n at)) (\<lambda>_.
     act_bind (sql (finalize_checkpoints source n at)) (\<lambda>_.
     act_bind (sql (update_cursor source (\<lambda>c. c
       \<lparr>cr_last_irreversible_block := max (cr_last_irreversible_block c) n,
         cr_last_successful_sync_at := Some at\<rparr>))) (\<lambda>_.
     materializeIrreversibleEvents P source n at))))))"

definition pg_finalizeThrough ::
  "'u pg_options \<Rightarrow> string \<Rightarrow> nat \<Rightarrow> string \<Rightarrow> ('u pg, unit) action" where
  "pg_finalizeThrough P source n at = inTransaction (finalize_work P source n at)"

section \<open>The store as the port of the projector\<close>

definition pg_store :: "'u pg_options \<Rightarrow> 'u pg projection_store" where
  "pg_store P =
     \<lparr>getCursor = pg_getCursor P, getCurrentCheckpoint = pg_getCurrentCheckpoint P,
       applyBlock = pg_applyBlock P, revertAfter = pg_revertAfter P,
       finalizeThrough = pg_finalizeThrough P\<rparr>"

end
