(* ===== verification/Operation_Validator.thy ===== *)
theory Operation_Validator
  imports Haf_Model Gateway_Policy
begin

text \<open>
  Which operations of a block count (\<open>validation/operation-validator.ts\<close>): operations of
  another type or application are ignored, the others are accepted or rejected with a reason.
\<close>

record validation_policy =
  vp_matchPublishers :: "string list"
  vp_collectibleIssuers :: "string list"
  vp_maximumFutureClockSkewMs :: "int option"

definition maximumFutureClockSkewMs :: "validation_policy \<Rightarrow> int" where
  "maximumFutureClockSkewMs policy =
     (case vp_maximumFutureClockSkewMs policy of None \<Rightarrow> 5 * 60 * 1000 | Some n \<Rightarrow> n)"

text \<open>\<open>customJsonNamespaceSchema\<close>: an object, whose \<open>id\<close> may be anything or missing.\<close>

definition customJsonNamespace :: "json \<Rightarrow> json option option" where
  "customJsonNamespace v = (case v of JObj m \<Rightarrow> Some (fmlookup m ''id'') | _ \<Rightarrow> None)"

definition account_of :: "json \<Rightarrow> string option" where
  "account_of v = Option.bind (as_string v) (\<lambda>s. if hiveAccountSchema s then Some s else None)"

definition customJsonSchema :: "json \<Rightarrow> custom_json option" where
  "customJsonSchema v = do {
     m \<leftarrow> strict_object [''required_auths'', ''required_posting_auths'', ''id'', ''json''] [] v;
     auths \<leftarrow> get_prop (as_array_of account_of) m ''required_auths'';
     posting \<leftarrow> get_prop (as_array_of account_of) m ''required_posting_auths'';
     id \<leftarrow> get_prop as_string m ''id'';
     txt \<leftarrow> get_prop as_string m ''json'';
     Some \<lparr>cj_required_auths = auths, cj_required_posting_auths = posting, cj_id = id,
       cj_json = txt\<rparr> }"

definition buildMalformedEvidence :: "haf_operation \<Rightarrow> haf_block \<Rightarrow> evidence" where
  "buildMalformedEvidence op block = \<lparr>
     ev_sourceOperationId = ho_sourceOperationId op, ev_transactionId = ho_transactionId op,
     ev_operationIndex = ho_operationIndex op, ev_isVirtual = ho_isVirtual op,
     ev_blockNumber = ho_blockNumber op, ev_blockId = hb_id block,
     ev_blockTimestamp = hb_timestamp block, ev_operationType = ho_operationType op,
     ev_primaryAccount = ''unknown'', ev_requiredAuthority = None,
     ev_applicationId = Some HIVE_CHAMELEON_APPLICATION_ID, ev_payload = ho_value op\<rparr>"

text \<open>\<open>xs[0]\<close>, \<open>undefined\<close> when there is none.\<close>

fun first :: "'a list \<Rightarrow> 'a option" where
  "first [] = None"
| "first (x # xs) = Some x"

definition operation_evidence :: "haf_operation \<Rightarrow> haf_block \<Rightarrow> custom_json \<Rightarrow> evidence" where
  "operation_evidence op block cj = \<lparr>
     ev_sourceOperationId = ho_sourceOperationId op, ev_transactionId = ho_transactionId op,
     ev_operationIndex = ho_operationIndex op, ev_isVirtual = ho_isVirtual op,
     ev_blockNumber = ho_blockNumber op, ev_blockId = hb_id block,
     ev_blockTimestamp = hb_timestamp block, ev_operationType = ho_operationType op,
     ev_primaryAccount =
       (case first (cj_required_posting_auths cj) of
          Some a \<Rightarrow> a
        | None \<Rightarrow> (case first (cj_required_auths cj) of Some a \<Rightarrow> a | None \<Rightarrow> ''unknown'')),
     ev_requiredAuthority =
       (if length (cj_required_posting_auths cj) > 0 then Some Posting_Authority
        else if length (cj_required_auths cj) > 0 then Some Active_Authority else None),
     ev_applicationId = Some (cj_id cj), ev_payload = ho_value op\<rparr>"

fun isSignerAllowed :: "validation_policy \<Rightarrow> event \<Rightarrow> string \<Rightarrow> bool" where
  "isSignerAllowed policy (Match_Results_Batch b) signer \<longleftrightarrow>
     signer \<in> set (vp_matchPublishers policy) \<and> mb_publisher b = signer"
| "isSignerAllowed policy (Match_Result_Corrected c) signer \<longleftrightarrow>
     signer \<in> set (vp_matchPublishers policy) \<and> mc_publisher c = signer"
| "isSignerAllowed policy (Match_Result_Invalidated i) signer \<longleftrightarrow>
     signer \<in> set (vp_matchPublishers policy) \<and> mi_publisher i = signer"
| "isSignerAllowed policy (Collectible_Issued c) signer \<longleftrightarrow>
     signer \<in> set (vp_collectibleIssuers policy) \<and> ci_issuer c = signer"
| "isSignerAllowed policy (Collectible_Revoked c) signer \<longleftrightarrow>
     signer \<in> set (vp_collectibleIssuers policy)"

definition rejected :: "evidence \<Rightarrow> string \<Rightarrow> decision" where
  "rejected ev reason = \<lparr>dc_evidence = ev, dc_validationState = Rejected,
     dc_rejectionReason = Some reason, dc_event = None\<rparr>"

definition accepted :: "evidence \<Rightarrow> event \<Rightarrow> decision" where
  "accepted ev e = \<lparr>dc_evidence = ev, dc_validationState = Accepted,
     dc_rejectionReason = None, dc_event = Some e\<rparr>"

text \<open>\<open>error instanceof HiveGatewayError ? error.code : 'invalid_event'\<close>\<close>

definition rejection_code :: "exn \<Rightarrow> string" where
  "rejection_code e = (case e of HiveGatewayError c \<Rightarrow> gateway_code_name c | _ \<Rightarrow> ''invalid_event'')"

text \<open>\<open>Date.parse(event.occurred_at) > Date.parse(block.timestamp) + maximumFutureClockSkewMs\<close>\<close>

definition too_far_ahead :: "host \<Rightarrow> validation_policy \<Rightarrow> event \<Rightarrow> haf_block \<Rightarrow> bool" where
  "too_far_ahead H policy e block \<longleftrightarrow>
     nan_less
       (map_option (\<lambda>t. t + maximumFutureClockSkewMs policy) (date_parse H (hb_timestamp block)))
       (date_parse H (occurred_at e))"

definition validate ::
  "host \<Rightarrow> validation_policy \<Rightarrow> haf_operation \<Rightarrow> haf_block \<Rightarrow> decision option" where
  "validate H policy op block =
     (if ho_operationType op \<noteq> ''custom_json_operation'' then None
      else if customJsonNamespace (ho_value op) \<noteq> Some (Some (JStr HIVE_CHAMELEON_APPLICATION_ID))
      then None
      else case customJsonSchema (ho_value op) of
        None \<Rightarrow> Some (rejected (buildMalformedEvidence op block) ''invalid_operation'')
      | Some cj \<Rightarrow>
          (let ev = operation_evidence op block cj in
           if ho_isVirtual op \<or> length (cj_required_auths cj) \<noteq> 0 \<or>
              length (cj_required_posting_auths cj) \<noteq> 1
           then Some (rejected ev ''unexpected_authority'')
           else case parseHiveChameleonEvent H (cj_json cj) of
             Inl err \<Rightarrow> Some (rejected ev (rejection_code err))
           | Inr event \<Rightarrow>
               (case first (cj_required_posting_auths cj) of
                  None \<Rightarrow> Some (rejected ev ''unexpected_authority'')
                | Some signer \<Rightarrow>
                    if \<not> isSignerAllowed policy event signer
                    then Some (rejected ev ''signer_not_allowed'')
                    else if too_far_ahead H policy event block
                    then Some (rejected ev ''future_event_timestamp'')
                    else Some (accepted ev event))))"

section \<open>Lemmas\<close>

lemma too_far_ahead_iff:
  "too_far_ahead H policy e block \<longleftrightarrow>
     (\<exists>b t. date_parse H (hb_timestamp block) = Some b \<and> date_parse H (occurred_at e) = Some t \<and>
       b + maximumFutureClockSkewMs policy < t)"
  by (auto simp: too_far_ahead_def)

lemma customJsonSchema_custom_json:
  assumes "list_all hiveAccountSchema (cj_required_auths cj)"
    and "list_all hiveAccountSchema (cj_required_posting_auths cj)"
  shows "customJsonSchema (custom_json_json cj) = Some cj"
proof -
  have "as_array_of account_of (jstrings ss) = Some ss" if "list_all hiveAccountSchema ss" for ss
    using that by (simp add: account_of_def list_all_iff)
  with assms show ?thesis
    by (simp add: customJsonSchema_def custom_json_json_def strict_object_jobj del: jstrings.simps)
qed

lemma customJsonNamespace_custom_json [simp]:
  "customJsonNamespace (custom_json_json cj) = Some (Some (JStr (cj_id cj)))"
  by (simp add: customJsonNamespace_def custom_json_json_def jobj_def props_def fmlookup_of_list)

lemma list_one: "length xs = Suc 0 \<longleftrightarrow> (\<exists>x. xs = [x])"
  by (cases xs) auto

lemma as_string_Some: "as_string v = Some s \<longleftrightarrow> v = JStr s"
  by (cases v) auto

lemma strict_object_Some: "strict_object req opt v = Some m \<Longrightarrow> v = JObj m"
  by (cases v) (simp_all add: strict_object_def split: if_splits)

lemma customJsonSchema_id:
  assumes "customJsonSchema v = Some cj"
  shows "customJsonNamespace v = Some (Some (JStr (cj_id cj)))"
proof -
  from assms obtain m where m: "strict_object
      [''required_auths'', ''required_posting_auths'', ''id'', ''json''] [] v = Some m"
    by (cases "strict_object [''required_auths'', ''required_posting_auths'', ''id'', ''json''] [] v")
      (simp_all add: customJsonSchema_def)
  with assms have "get_prop as_string m ''id'' = Some (cj_id cj)"
    by (auto simp: customJsonSchema_def bind_eq_Some_conv simp del: get_prop_of_list)
  with strict_object_Some [OF m] show ?thesis
    by (auto simp: customJsonNamespace_def get_prop_def bind_eq_Some_conv as_string_Some)
qed

lemma validate_accepted_iff:
  "validate H policy op block = Some d \<and> dc_validationState d = Accepted \<longleftrightarrow>
     ho_operationType op = ''custom_json_operation'' \<and> \<not> ho_isVirtual op \<and>
     (\<exists>cj signer event.
        customJsonSchema (ho_value op) = Some cj \<and> cj_id cj = HIVE_CHAMELEON_APPLICATION_ID \<and>
        cj_required_auths cj = [] \<and> cj_required_posting_auths cj = [signer] \<and>
        parseHiveChameleonEvent H (cj_json cj) = Inr event \<and>
        isSignerAllowed policy event signer \<and> \<not> too_far_ahead H policy event block \<and>
        d = accepted (operation_evidence op block cj) event)"
  (is "?L \<longleftrightarrow> ?R")
proof
  assume L: ?L
  then have op: "ho_operationType op = ''custom_json_operation''"
    and ns: "customJsonNamespace (ho_value op) = Some (Some (JStr HIVE_CHAMELEON_APPLICATION_ID))"
    by (auto simp: validate_def split: if_splits)
  from L op ns obtain cj where cj: "customJsonSchema (ho_value op) = Some cj"
    by (cases "customJsonSchema (ho_value op)") (auto simp: validate_def rejected_def)
  then have id: "cj_id cj = HIVE_CHAMELEON_APPLICATION_ID"
    using ns by (auto dest: customJsonSchema_id)
  from L op ns cj have shape: "\<not> ho_isVirtual op" "cj_required_auths cj = []"
      "length (cj_required_posting_auths cj) = 1"
    by (auto simp: validate_def rejected_def Let_def split: if_splits)
  then obtain signer where signer: "cj_required_posting_auths cj = [signer]"
    by (auto simp: list_one)
  from L op ns cj shape obtain event where event: "parseHiveChameleonEvent H (cj_json cj) = Inr event"
    by (cases "parseHiveChameleonEvent H (cj_json cj)") (auto simp: validate_def rejected_def)
  from L op ns cj shape signer event
  have "isSignerAllowed policy event signer" "\<not> too_far_ahead H policy event block"
      "d = accepted (operation_evidence op block cj) event"
    by (auto simp: validate_def rejected_def Let_def split: if_splits)
  with op cj id shape signer event show ?R by blast
next
  assume ?R
  then obtain cj signer event where
    "customJsonSchema (ho_value op) = Some cj" "cj_id cj = HIVE_CHAMELEON_APPLICATION_ID"
    "cj_required_auths cj = []" "cj_required_posting_auths cj = [signer]"
    "parseHiveChameleonEvent H (cj_json cj) = Inr event"
    "isSignerAllowed policy event signer" "\<not> too_far_ahead H policy event block"
    "d = accepted (operation_evidence op block cj) event"
    "ho_operationType op = ''custom_json_operation''" "\<not> ho_isVirtual op"
    by blast
  then show ?L
    by (auto simp: validate_def Let_def accepted_def dest: customJsonSchema_id)
qed

section \<open>Properties\<close>

text \<open>
  C12. An accepted operation is a real (not virtual) custom JSON operation of this application,
  authorized by the posting key of exactly one account and by nothing else, whose payload is the
  canonical text of a valid event that this account may publish, dated at most the tolerated skew
  after its block.
\<close>

theorem validator_accepts_only:
  assumes "validate H policy op block = Some d" and "dc_validationState d = Accepted"
  shows "ho_operationType op = ''custom_json_operation'' \<and> \<not> ho_isVirtual op \<and>
    (\<exists>cj signer event.
      customJsonSchema (ho_value op) = Some cj \<and> cj_id cj = ''hive.chameleon'' \<and>
      cj_required_auths cj = [] \<and> cj_required_posting_auths cj = [signer] \<and>
      dc_event d = Some event \<and> valid_event H event \<and>
      serializeHiveChameleonEvent H (event_json event) = Inr (cj_json cj) \<and>
      payload_account event \<in> {None, Some signer} \<and>
      signer \<in> set (if eventFamily event = Match_Family then vp_matchPublishers policy
        else vp_collectibleIssuers policy) \<and>
      (\<forall>b t. date_parse H (hb_timestamp block) = Some b \<and> date_parse H (occurred_at event) = Some t \<longrightarrow>
        t \<le> b + maximumFutureClockSkewMs policy) \<and>
      ev_primaryAccount (dc_evidence d) = signer)"
proof -
  from assms obtain cj signer event where
    op: "ho_operationType op = ''custom_json_operation''" "\<not> ho_isVirtual op"
    and cj: "customJsonSchema (ho_value op) = Some cj" "cj_id cj = HIVE_CHAMELEON_APPLICATION_ID"
      "cj_required_auths cj = []" "cj_required_posting_auths cj = [signer]"
    and event: "parseHiveChameleonEvent H (cj_json cj) = Inr event"
    and allowed: "isSignerAllowed policy event signer" and now: "\<not> too_far_ahead H policy event block"
    and d: "d = accepted (operation_evidence op block cj) event"
    using validate_accepted_iff by blast
  have "payload_account event \<in> {None, Some signer} \<and>
    signer \<in> set (if eventFamily event = Match_Family then vp_matchPublishers policy
      else vp_collectibleIssuers policy)"
    using allowed by (cases event) (auto simp: payload_account_def)
  moreover have "\<forall>b t. date_parse H (hb_timestamp block) = Some b \<and>
      date_parse H (occurred_at event) = Some t \<longrightarrow> t \<le> b + maximumFutureClockSkewMs policy"
    using now by (auto simp: too_far_ahead_iff)
  ultimately show ?thesis
    using op cj event d
    by (auto simp: accepted_def operation_evidence_def HIVE_CHAMELEON_APPLICATION_ID_def
        intro: parse_event_valid parse_serialize)
qed

text \<open>
  C13. What the projector makes of an operation the gateway authorized, found in a block as the
  gateway built it, whose event's canonical text reads back: it accepts it, with that very event
  and as posted by that account, when the operation is not virtual, the policy lists the account
  for the event's family, and the event is not too far ahead of the block; otherwise it rejects it
  with the reason of the first of these that fails.
\<close>

theorem authorized_operation_accepted:
  assumes "authorizeOfficialEvent H i a = Inr (cj, p)" and "codec_ok H (event_json (in_event i))"
    and "ho_operationType op = ''custom_json_operation''" and "ho_value op = custom_json_json cj"
  shows "\<exists>ev. validate H policy op block = Some
      (if ho_isVirtual op then rejected ev ''unexpected_authority''
       else if au_account a \<notin> set (if eventFamily (in_event i) = Match_Family
         then vp_matchPublishers policy else vp_collectibleIssuers policy)
       then rejected ev ''signer_not_allowed''
       else if \<exists>b t. date_parse H (hb_timestamp block) = Some b \<and>
         date_parse H (occurred_at (in_event i)) = Some t \<and> b + maximumFutureClockSkewMs policy < t
       then rejected ev ''future_event_timestamp''
       else accepted ev (in_event i)) \<and>
    ev_primaryAccount ev = au_account a \<and> ev_requiredAuthority ev = Some Posting_Authority"
proof -
  have cj: "cj = \<lparr>cj_required_auths = [], cj_required_posting_auths = [au_account a],
      cj_id = HIVE_CHAMELEON_APPLICATION_ID, cj_json = p\<rparr>"
    and acc: "hiveAccountSchema (au_account a)"
    and pa: "payload_account (in_event i) \<in> {None, Some (au_account a)}"
    and parse: "parseHiveChameleonEvent H p = Inr (in_event i)"
    using assms(1,2) by (auto simp: authorize_Inr assertAuthorizationShape_Inr intro: serialize_parse)
  have schema: "customJsonSchema (ho_value op) = Some cj"
    using assms(4) acc by (simp add: cj customJsonSchema_custom_json)
  have listed: "isSignerAllowed policy (in_event i) (au_account a) \<longleftrightarrow>
      au_account a \<in> set (if eventFamily (in_event i) = Match_Family
        then vp_matchPublishers policy else vp_collectibleIssuers policy)"
    using pa by (cases "in_event i") (auto simp: payload_account_def)
  let ?ev = "operation_evidence op block cj"
  have "ev_primaryAccount ?ev = au_account a" "ev_requiredAuthority ?ev = Some Posting_Authority"
    by (simp_all add: operation_evidence_def cj)
  moreover have "validate H policy op block = Some
      (if ho_isVirtual op then rejected ?ev ''unexpected_authority''
       else if \<not> isSignerAllowed policy (in_event i) (au_account a) then rejected ?ev ''signer_not_allowed''
       else if too_far_ahead H policy (in_event i) block then rejected ?ev ''future_event_timestamp''
       else accepted ?ev (in_event i))"
    using assms(3) schema parse
    by (simp add: validate_def customJsonNamespace_custom_json assms(4) cj)
  ultimately show ?thesis
    unfolding listed too_far_ahead_iff by blast
qed

definition fixture_block :: haf_block where
  "fixture_block = \<lparr>hb_number = 100, hb_id = ''block-100'', hb_previousId = ''block-99'',
     hb_timestamp = ''2026-07-11T12:05:03.000Z''\<rparr>"

definition fixture_policy_events :: validation_policy where
  "fixture_policy_events = \<lparr>vp_matchPublishers = [''match-pub''], vp_collectibleIssuers = [],
     vp_maximumFutureClockSkewMs = None\<rparr>"

definition fixture_operation :: haf_operation where
  "fixture_operation = \<lparr>ho_sourceOperationId = ''op-1'', ho_transactionId = Some ''tx-1'',
     ho_operationIndex = 0, ho_isVirtual = False, ho_blockNumber = 100,
     ho_timestamp = ''2026-07-11T12:05:03.000Z'', ho_operationType = ''custom_json_operation'',
     ho_value = custom_json_json \<lparr>cj_required_auths = [], cj_required_posting_auths = [''match-pub''],
       cj_id = ''hive.chameleon'', cj_json = ''match_results_batch''\<rparr>\<rparr>"

lemma fixture_not_ahead:
  "\<not> too_far_ahead fixture_host fixture_policy_events fixture_event fixture_block"
proof -
  have "\<not> nan_less
       (map_option (\<lambda>t. t + 300000) (date_parse fixture_host ''2026-07-11T12:05:03.000Z''))
       (date_parse fixture_host ''2026-07-11T12:05:00.000Z'')"
    by code_simp
  then show ?thesis
    by (simp add: too_far_ahead_def fixture_policy_events_def fixture_event_def fixture_batch_def
        fixture_block_def maximumFutureClockSkewMs_def del: nan_less_Some)
qed

lemma authorized_operation_accepted_witness:
  "\<exists>ev. validate fixture_host fixture_policy_events fixture_operation fixture_block =
     Some (accepted ev fixture_event)"
proof -
  have codec: "codec_ok fixture_host (event_json (in_event fixture_intent))"
    by (simp add: fixture_intent_def fixture_codec_ok)
  have listed: "au_account fixture_authorization \<in> set
      (if eventFamily (in_event fixture_intent) = Match_Family
       then vp_matchPublishers fixture_policy_events else vp_collectibleIssuers fixture_policy_events)"
    by (simp add: fixture_intent_def fixture_event_def fixture_authorization_def
        fixture_policy_events_def)
  have event: "in_event fixture_intent = fixture_event"
    by (simp add: fixture_intent_def)
  from authorized_operation_accepted [OF fixture_authorized codec,
      where op = fixture_operation and policy = fixture_policy_events and block = fixture_block]
    listed fixture_not_ahead show ?thesis
    unfolding event too_far_ahead_iff by (auto simp: fixture_operation_def)
qed

lemma fixture_accepted:
  "validate fixture_host fixture_policy_events fixture_operation fixture_block =
     Some (accepted (operation_evidence fixture_operation fixture_block
       \<lparr>cj_required_auths = [], cj_required_posting_auths = [''match-pub''],
         cj_id = ''hive.chameleon'', cj_json = ''match_results_batch''\<rparr>) fixture_event)"
proof -
  have acc: "hiveAccountSchema ''match-pub''"
    by code_simp
  have "parseHiveChameleonEvent fixture_host ''match_results_batch'' = Inr fixture_event"
    using fixture_serialize fixture_codec_ok by (rule serialize_parse)
  moreover have "isSignerAllowed fixture_policy_events fixture_event ''match-pub''"
    by (simp add: fixture_policy_events_def fixture_event_def fixture_batch_def)
  ultimately show ?thesis
    using fixture_not_ahead acc
    by (simp add: validate_def fixture_operation_def customJsonSchema_custom_json
        HIVE_CHAMELEON_APPLICATION_ID_def)
qed

lemma validator_accepts_only_witness:
  "\<exists>signer event. valid_event fixture_host event \<and> payload_account event \<in> {None, Some signer} \<and>
     signer \<in> set (vp_matchPublishers fixture_policy_events @ vp_collectibleIssuers fixture_policy_events)"
  using validator_accepts_only [OF fixture_accepted]
  by (auto simp: accepted_def split: if_splits)

end
