(* ===== verification/Haf_Projector.thy ===== *)
theory Haf_Projector
  imports Operation_Validator
begin

text \<open>
  \<open>ForkAwareHafProjector\<close> (\<open>sync/haf-projector.ts\<close>): one cycle reads the source, reverts what
  a fork has replaced, applies new blocks and finalizes what the network calls irreversible.
  The world of a cycle is the source, the store and the clock.
\<close>

section \<open>The projector\<close>

record ('s, 'd, 't) projector =
  pj_source :: "'s haf_source"
  pj_store :: "'d projection_store"
  pj_validate :: "haf_operation \<Rightarrow> haf_block \<Rightarrow> decision option"
  pj_maxBlocksPerRun :: nat
  pj_maxReorgDepth :: nat
  pj_now :: "'t \<Rightarrow> string \<times> 't"

record ('s, 'd, 't) projector_world =
  pw_source :: 's
  pw_store :: 'd
  pw_clock :: 't

record run_result =
  rr_appliedBlocks :: nat
  rr_finalizedThrough :: nat
  rr_revertedTo :: "nat option"
  rr_sourceHead :: nat

text \<open>\<open>options.maxBlocksPerRun ?? 50\<close> and \<open>options.maxReorgDepth ?? 200\<close>.\<close>

definition projector_new ::
  "'s haf_source \<Rightarrow> 'd projection_store \<Rightarrow> (haf_operation \<Rightarrow> haf_block \<Rightarrow> decision option) \<Rightarrow>
   nat option \<Rightarrow> nat option \<Rightarrow> ('t \<Rightarrow> string \<times> 't) \<Rightarrow> ('s, 'd, 't) projector" where
  "projector_new source store v maxBlocks maxReorg now = \<lparr>
     pj_source = source, pj_store = store, pj_validate = v,
     pj_maxBlocksPerRun = (case maxBlocks of None \<Rightarrow> 50 | Some n \<Rightarrow> n),
     pj_maxReorgDepth = (case maxReorg of None \<Rightarrow> 200 | Some n \<Rightarrow> n), pj_now = now\<rparr>"

definition on_source :: "('s, 'a) action \<Rightarrow> (('s, 'd, 't) projector_world, 'a) action" where
  "on_source m = act_on pw_source (\<lambda>s. pw_source_update (\<lambda>_. s)) m"

definition on_store :: "('d, 'a) action \<Rightarrow> (('s, 'd, 't) projector_world, 'a) action" where
  "on_store m = act_on pw_store (\<lambda>d. pw_store_update (\<lambda>_. d)) m"

text \<open>\<open>this.now().toISOString()\<close>\<close>

definition now_iso :: "('s, 'd, 't) projector \<Rightarrow> (('s, 'd, 't) projector_world, string) action" where
  "now_iso P = (\<lambda>w. let (text, t) = pj_now P (pw_clock w) in (Inr text, w\<lparr>pw_clock := t\<rparr>))"

definition source_divergence_error :: exn where
  "source_divergence_error = HafProjectorError source_divergence"

section \<open>Reading the source\<close>

text \<open>The loop of \<open>readBlockSnapshot\<close> from one height on, \<open>n\<close> blocks still to read.\<close>

fun read_blocks :: "'s haf_source \<Rightarrow> nat \<Rightarrow> nat \<Rightarrow> haf_block list \<Rightarrow> ('s, haf_block list) action" where
  "read_blocks src h 0 blocks = act_ok blocks"
| "read_blocks src h (Suc n) blocks =
     act_bind (getBlock src h) (\<lambda>block.
       if hb_number block \<noteq> h \<or> (blocks \<noteq> [] \<and> hb_previousId block \<noteq> hb_id (last blocks))
       then act_fail source_divergence_error
       else read_blocks src (Suc h) n (blocks @ [block]))"

definition readBlockSnapshot :: "'s haf_source \<Rightarrow> nat \<Rightarrow> nat \<Rightarrow> ('s, haf_block list) action" where
  "readBlockSnapshot src fromBlock toBlock = read_blocks src fromBlock (Suc toBlock - fromBlock) []"

definition sameBlock :: "haf_block \<Rightarrow> haf_block \<Rightarrow> bool" where
  "sameBlock l r \<longleftrightarrow>
     hb_number l = hb_number r \<and> hb_id l = hb_id r \<and> hb_previousId l = hb_previousId r \<and>
     hb_timestamp l = hb_timestamp r"

definition assertStableSnapshot :: "haf_block list \<Rightarrow> haf_block list \<Rightarrow> exn + unit" where
  "assertStableSnapshot before after =
     ensure (\<not> (length before \<noteq> length after \<or>
         list_ex (\<lambda>i. \<not> sameBlock (before ! i) (after ! i)) [0..<length before]))
       source_divergence_error"

text \<open>\<open>groupOperationsByBlock\<close>: the operations of each height, in their order.\<close>

fun group_operations ::
  "string list \<Rightarrow> (nat \<Rightarrow> haf_operation list) \<Rightarrow> haf_operation list \<Rightarrow>
   exn + (nat \<Rightarrow> haf_operation list)" where
  "group_operations seen grouped [] = Inr grouped"
| "group_operations seen grouped (op # ops) =
     (if ho_sourceOperationId op \<in> set seen
      then Inl (HafProjectorError invalid_source_response)
      else group_operations (ho_sourceOperationId op # seen)
        (grouped(ho_blockNumber op := grouped (ho_blockNumber op) @ [op])) ops)"

definition groupOperationsByBlock :: "haf_operation list \<Rightarrow> exn + (nat \<Rightarrow> haf_operation list)" where
  "groupOperationsByBlock ops = group_operations [] (\<lambda>_. []) ops"

fun validate_operations ::
  "(haf_operation \<Rightarrow> haf_block \<Rightarrow> decision option) \<Rightarrow> haf_block \<Rightarrow> string list \<Rightarrow> decision list \<Rightarrow>
   haf_operation list \<Rightarrow> exn + decision list" where
  "validate_operations v block seen decisions [] = Inr decisions"
| "validate_operations v block seen decisions (op # ops) =
     (if ho_blockNumber op \<noteq> hb_number block \<or> ho_timestamp op \<noteq> hb_timestamp block
      then Inl (HafProjectorError invalid_source_response)
      else if ho_sourceOperationId op \<in> set seen
      then Inl (HafProjectorError invalid_source_response)
      else validate_operations v block (ho_sourceOperationId op # seen)
        (case v op block of None \<Rightarrow> decisions | Some d \<Rightarrow> decisions @ [d]) ops)"

definition validateBlockOperations ::
  "(haf_operation \<Rightarrow> haf_block \<Rightarrow> decision option) \<Rightarrow> haf_block \<Rightarrow> haf_operation list \<Rightarrow>
   exn + decision list" where
  "validateBlockOperations v block ops = validate_operations v block [] [] ops"

section \<open>Forks\<close>

definition revert_to ::
  "('s, 'd, 't) projector \<Rightarrow> nat \<Rightarrow> (('s, 'd, 't) projector_world, nat) action" where
  "revert_to P n =
     act_bind (now_iso P) (\<lambda>now.
     act_bind (on_store (revertAfter (pj_store P) (sourceName (pj_source P)) n now)) (\<lambda>_.
     act_ok n))"

text \<open>The loop of \<open>reconcileFork\<close>, downwards from a height to the lower bound.\<close>

fun reconcile_from ::
  "('s, 'd, 't) projector \<Rightarrow> cursor \<Rightarrow> nat \<Rightarrow> nat \<Rightarrow> (('s, 'd, 't) projector_world, nat) action" where
  "reconcile_from P c lower 0 =
     (if 0 < lower then act_fail (HafProjectorError reorg_too_deep)
      else if cu_lastIrreversibleBlock c > 0 then act_fail (HafProjectorError irreversible_fork)
      else revert_to P 0)"
| "reconcile_from P c lower (Suc n) =
     (if Suc n < lower then act_fail (HafProjectorError reorg_too_deep)
      else
        act_bind (on_store (getCurrentCheckpoint (pj_store P) (sourceName (pj_source P)) (Suc n)))
          (\<lambda>stored.
        act_bind (on_source (getBlock (pj_source P) (Suc n))) (\<lambda>current.
          if (case stored of None \<Rightarrow> False | Some s \<Rightarrow> hb_id s = hb_id current)
          then
            if Suc n < cu_lastIrreversibleBlock c
            then act_fail (HafProjectorError irreversible_fork)
            else revert_to P (Suc n)
          else
            if Suc n \<le> cu_lastIrreversibleBlock c
            then act_fail (HafProjectorError irreversible_fork)
            else reconcile_from P c lower n)))"

definition reconcileFork ::
  "('s, 'd, 't) projector \<Rightarrow> cursor \<Rightarrow> nat \<Rightarrow> (('s, 'd, 't) projector_world, nat) action" where
  "reconcileFork P c startHeight =
     reconcile_from P c (startHeight - pj_maxReorgDepth P) startHeight"

definition verifyCurrentTip ::
  "('s, 'd, 't) projector \<Rightarrow> cursor \<Rightarrow> (('s, 'd, 't) projector_world, nat option) action" where
  "verifyCurrentTip P c =
     (case cu_lastProcessedBlockId c of
        None \<Rightarrow> act_ok None
      | Some tip \<Rightarrow>
          if cu_lastProcessedBlock c = 0 then act_ok None
          else
            act_bind (on_source (getBlock (pj_source P) (cu_lastProcessedBlock c))) (\<lambda>current.
              if hb_id current = tip then act_ok None
              else act_bind (reconcileFork P c (cu_lastProcessedBlock c)) (\<lambda>a. act_ok (Some a))))"

section \<open>A cycle\<close>

text \<open>
  The loop over the blocks of the range: the cursor it has reached, the blocks applied, and
  the ancestor when it ended in a revert.
\<close>

fun apply_blocks ::
  "('s, 'd, 't) projector \<Rightarrow> (nat \<Rightarrow> haf_operation list) \<Rightarrow> cursor \<Rightarrow> nat \<Rightarrow> haf_block list \<Rightarrow>
   (('s, 'd, 't) projector_world, cursor \<times> nat \<times> nat option) action" where
  "apply_blocks P ops c applied [] = act_ok (c, applied, None)"
| "apply_blocks P ops c applied (b # bs) =
     (if (case cu_lastProcessedBlockId c of None \<Rightarrow> False | Some tip \<Rightarrow> hb_previousId b \<noteq> tip)
      then act_bind (reconcileFork P c (hb_number b - 1)) (\<lambda>ancestor.
        act_ok (c, applied, Some ancestor))
      else
        act_bind (act_lift (validateBlockOperations (pj_validate P) b (ops (hb_number b)))) (\<lambda>decisions.
        act_bind (now_iso P) (\<lambda>now.
        act_bind (on_store (applyBlock (pj_store P) (sourceName (pj_source P)) b decisions now)) (\<lambda>_.
        apply_blocks P ops
          (c\<lparr>cu_lastProcessedBlock := hb_number b, cu_lastProcessedBlockId := Some (hb_id b)\<rparr>)
          (Suc applied) bs))))"

definition apply_range ::
  "('s, 'd, 't) projector \<Rightarrow> cursor \<Rightarrow> nat \<Rightarrow>
   (('s, 'd, 't) projector_world, cursor \<times> nat \<times> nat option) action" where
  "apply_range P c target =
     (if target > cu_lastProcessedBlock c
      then
        let firstBlock = cu_lastProcessedBlock c + 1 in
        act_bind (on_source (readBlockSnapshot (pj_source P) firstBlock target)) (\<lambda>before.
        act_bind (on_source (getOperations (pj_source P) firstBlock target)) (\<lambda>operations.
        act_bind (on_source (readBlockSnapshot (pj_source P) firstBlock target)) (\<lambda>after.
        act_bind (act_lift (assertStableSnapshot before after)) (\<lambda>_.
        act_bind (act_lift (groupOperationsByBlock operations)) (\<lambda>ops.
        apply_blocks P ops c 0 after)))))
      else act_ok (c, 0, None))"

definition assertFinalityAgreement ::
  "('s, 'd, 't) projector \<Rightarrow> irreversible_block \<Rightarrow> nat \<Rightarrow> nat \<Rightarrow>
   (('s, 'd, 't) projector_world, unit) action" where
  "assertFinalityAgreement P irr finalizable sourceHead =
     (case ib_id irr of
        None \<Rightarrow> act_fail source_divergence_error
      | Some irr_id \<Rightarrow>
          if ib_number irr = 0 \<or> ib_number irr > sourceHead then act_fail source_divergence_error
          else
            act_bind (on_source (getBlock (pj_source P) (ib_number irr))) (\<lambda>hafahIrreversible.
            if hb_id hafahIrreversible \<noteq> irr_id then act_fail source_divergence_error
            else
              act_bind (on_store (getCurrentCheckpoint (pj_store P) (sourceName (pj_source P)) finalizable))
                (\<lambda>stored.
              act_bind (if finalizable = ib_number irr then act_ok hafahIrreversible
                else on_source (getBlock (pj_source P) finalizable)) (\<lambda>current.
              act_ensure
                (case stored of None \<Rightarrow> False | Some s \<Rightarrow> sameBlock (haf_block.truncate s) current)
                source_divergence_error))))"

definition finalize_cycle ::
  "('s, 'd, 't) projector \<Rightarrow> cursor \<Rightarrow> irreversible_block \<Rightarrow> nat \<Rightarrow>
   (('s, 'd, 't) projector_world, unit) action" where
  "finalize_cycle P c irr sourceHead =
     (let finalizable = min (ib_number irr) (cu_lastProcessedBlock c) in
      if finalizable > cu_lastIrreversibleBlock c
      then
        act_bind (assertFinalityAgreement P irr finalizable sourceHead) (\<lambda>_.
        act_bind (now_iso P) (\<lambda>now.
        on_store (finalizeThrough (pj_store P) (sourceName (pj_source P)) finalizable now)))
      else act_ok ())"

text \<open>The cycle once the cursor, the head and the irreversible block are read.\<close>

definition run_from ::
  "('s, 'd, 't) projector \<Rightarrow> cursor \<Rightarrow> nat \<Rightarrow> irreversible_block \<Rightarrow>
   (('s, 'd, 't) projector_world, run_result) action" where
  "run_from P c sourceHead irr =
     (if sourceHead < cu_lastProcessedBlock c
      then act_ok \<lparr>rr_appliedBlocks = 0, rr_finalizedThrough = cu_lastIrreversibleBlock c,
        rr_revertedTo = None, rr_sourceHead = sourceHead\<rparr>
      else
        act_bind (verifyCurrentTip P c) (\<lambda>tipRevert.
        if tipRevert \<noteq> None
        then act_ok \<lparr>rr_appliedBlocks = 0, rr_finalizedThrough = cu_lastIrreversibleBlock c,
          rr_revertedTo = tipRevert, rr_sourceHead = sourceHead\<rparr>
        else
          let target = min sourceHead (cu_lastProcessedBlock c + pj_maxBlocksPerRun P) in
          act_bind (apply_range P c target) (\<lambda>(c', applied, ancestor).
          if ancestor \<noteq> None
          then act_ok \<lparr>rr_appliedBlocks = applied, rr_finalizedThrough = cu_lastIrreversibleBlock c',
            rr_revertedTo = ancestor, rr_sourceHead = sourceHead\<rparr>
          else
            act_bind (finalize_cycle P c' irr sourceHead) (\<lambda>_.
            act_ok \<lparr>rr_appliedBlocks = applied,
              rr_finalizedThrough = max (cu_lastIrreversibleBlock c')
                (min (ib_number irr) (cu_lastProcessedBlock c')),
              rr_revertedTo = None, rr_sourceHead = sourceHead\<rparr>))))"

definition runOnce :: "('s, 'd, 't) projector \<Rightarrow> (('s, 'd, 't) projector_world, run_result) action" where
  "runOnce P =
     act_bind (on_store (getCursor (pj_store P) (sourceName (pj_source P)))) (\<lambda>c.
     act_bind (on_source (getHeadBlockNumber (pj_source P))) (\<lambda>sourceHead.
     act_bind (on_source (getLastIrreversibleBlock (pj_source P))) (\<lambda>irr.
     run_from P c sourceHead irr)))"

section \<open>Reading keeps the store\<close>

lemma on_sourceE:
  assumes "on_source m w = (r, w')"
  obtains s where "m (pw_source w) = (r, s)" and "w' = w\<lparr>pw_source := s\<rparr>"
  using assms unfolding on_source_def by (auto elim: act_onE)

lemma on_storeE:
  assumes "on_store m w = (r, w')"
  obtains d where "m (pw_store w) = (r, d)" and "w' = w\<lparr>pw_store := d\<rparr>"
  using assms unfolding on_store_def by (auto elim: act_onE)

lemma on_source_store: "on_source m w = (r, w') \<Longrightarrow> pw_store w' = pw_store w"
  by (auto elim: on_sourceE)

lemma now_isoE:
  assumes "now_iso P w = (r, w')"
  obtains stamp t where "r = Inr stamp" and "w' = w\<lparr>pw_clock := t\<rparr>"
  using assms by (auto simp: now_iso_def split: prod.splits)

lemma read_blocks_Inr:
  assumes "read_blocks src h n blocks s = (Inr out, s')"
  shows "\<exists>new. out = blocks @ new \<and> length new = n \<and> (\<forall>i < n. hb_number (new ! i) = h + i)"
  using assms
proof (induction n arbitrary: h blocks s)
  case 0
  then show ?case by (simp add: act_run)
next
  case (Suc n)
  then obtain b s1 where "hb_number b = h" and "read_blocks src (Suc h) n (blocks @ [b]) s1 = (Inr out, s')"
    by (auto simp: act_run elim!: act_bind_InrE split: if_splits)
  with Suc.IH obtain new where "out = (blocks @ [b]) @ new" and "length new = n"
    and "\<forall>i < n. hb_number (new ! i) = Suc h + i" by blast
  with \<open>hb_number b = h\<close> show ?case
    by (intro exI [of _ "b # new"]) (auto simp: nth_Cons split: nat.splits)
qed

lemma snapshot_length:
  "readBlockSnapshot src h t s = (Inr out, s') \<Longrightarrow> length out = Suc t - h"
  by (auto simp: readBlockSnapshot_def dest!: read_blocks_Inr)

lemma take_Cons_take: "m \<le> Suc j \<Longrightarrow> take m (b # take j bs) = take m (b # bs)"
  by (cases m) (simp_all add: min_absorb1)

text \<open>A source, as a function of the height, has the block a chain has there.\<close>

definition agrees :: "(nat \<Rightarrow> exn + haf_block) \<Rightarrow> haf_block list \<Rightarrow> nat \<Rightarrow> bool" where
  "agrees g bs m \<longleftrightarrow> (case g m of Inl e \<Rightarrow> False | Inr b \<Rightarrow> hb_id b = hb_id (bs ! (m - 1)))"

section \<open>A cycle over any store that keeps its contract\<close>

context store_contract begin

text \<open>The cursor a store gives out.\<close>

definition cursor_of :: "'d \<Rightarrow> string \<Rightarrow> cursor" where
  "cursor_of d src = \<lparr>cu_source = src, cu_lastProcessedBlock = length (chain d src),
     cu_lastProcessedBlockId = tip_id (chain d src), cu_lastIrreversibleBlock = irreversible d src\<rparr>"

lemma cursor_of_simps [simp]:
  "cu_lastProcessedBlock (cursor_of d src) = length (chain d src)"
  "cu_lastProcessedBlockId (cursor_of d src) = tip_id (chain d src)"
  "cu_lastIrreversibleBlock (cursor_of d src) = irreversible d src"
  by (simp_all add: cursor_of_def)

text \<open>What a revert may do: cut the chain back to an ancestor above the irreversible part.\<close>

definition cuts :: "string \<Rightarrow> 'd \<Rightarrow> 'd \<Rightarrow> exn + nat \<Rightarrow> bool" where
  "cuts src d d' r \<longleftrightarrow>
     inv d' \<and> extends d d' \<and> irreversible d' = irreversible d \<and>
     (case r of
        Inl e \<Rightarrow> True
      | Inr a \<Rightarrow> irreversible d src \<le> a \<and> a \<le> length (chain d src) \<and>
          chain d' src = take a (chain d src))"

lemma cuts_fails [simp]: "inv d \<Longrightarrow> cuts src d d (Inl e)"
  by (simp add: cuts_def)

lemma revert_to_cuts:
  assumes "pj_store P = S" and "inv (pw_store w)"
    and "n \<le> length (chain (pw_store w) (sourceName (pj_source P)))"
    and "revert_to P n w = (r, w')"
  shows "cuts (sourceName (pj_source P)) (pw_store w) (pw_store w') r \<and> (\<forall>a. r = Inr a \<longrightarrow> a = n)"
proof -
  let ?src = "sourceName (pj_source P)"
  from assms(4) obtain q d at where run: "revertAfter S ?src n at (pw_store w) = (q, d)"
    and w': "pw_store w' = d" and r: "r = (case q of Inl e \<Rightarrow> Inl e | Inr u \<Rightarrow> Inr n)"
    unfolding revert_to_def assms(1)
    by (elim act_bindE now_isoE on_storeE) (auto simp: act_run split: sum.splits)
  show ?thesis
    using revert_extends [OF assms(2,3) run] reverts [OF assms(2,3) run] assms(3)
    by (auto simp: cuts_def w' r split: sum.splits)
qed

lemma checkpoint_step:
  assumes "pj_store P = S" and "inv (pw_store w)"
    and "on_store (getCurrentCheckpoint (pj_store P) src n) w = (r, w')"
  shows "pw_store w' = pw_store w"
  using assms checkpoint_read by (fastforce elim!: on_storeE)

lemma reconcile_from_cuts:
  assumes "pj_store P = S" and "inv (pw_store w)"
    and "n \<le> length (chain (pw_store w) (sourceName (pj_source P)))"
    and "reconcile_from P c lower n w = (r, w')"
  shows "cuts (sourceName (pj_source P)) (pw_store w) (pw_store w') r \<and>
    (\<forall>a. r = Inr a \<longrightarrow> lower \<le> a \<and> a \<le> n)"
  using assms(2-4)
proof (induction n arbitrary: w)
  case 0
  then show ?case
    using revert_to_cuts [OF assms(1) 0(1,2)] by (auto simp: act_run split: if_splits)
next
  case (Suc n)
  show ?case
  proof (cases "Suc n < lower")
    case True
    with Suc.prems show ?thesis by (auto simp: act_run)
  next
    case False
    with Suc.prems(3) show ?thesis
    proof (simp only: reconcile_from.simps if_False, elim act_bindE)
      fix e
      assume "on_store (getCurrentCheckpoint (pj_store P) (sourceName (pj_source P)) (Suc n)) w =
          (Inl e, w')" and r: "r = Inl e"
      with checkpoint_step [OF assms(1) Suc.prems(1)] have "pw_store w' = pw_store w" by blast
      with Suc.prems(1) r show ?thesis by simp
    next
      fix stored w1 e
      assume "on_store (getCurrentCheckpoint (pj_store P) (sourceName (pj_source P)) (Suc n)) w =
          (Inr stored, w1)" and "on_source (getBlock (pj_source P) (Suc n)) w1 = (Inl e, w')"
        and r: "r = Inl e"
      with checkpoint_step [OF assms(1) Suc.prems(1)] have "pw_store w' = pw_store w"
        by (metis on_source_store)
      with Suc.prems(1) r show ?thesis by simp
    next
      fix stored w1 current w2
      assume "on_store (getCurrentCheckpoint (pj_store P) (sourceName (pj_source P)) (Suc n)) w =
          (Inr stored, w1)" and "on_source (getBlock (pj_source P) (Suc n)) w1 = (Inr current, w2)"
        and rest: "(if case stored of None \<Rightarrow> False | Some s \<Rightarrow> hb_id s = hb_id current
          then if Suc n < cu_lastIrreversibleBlock c
               then act_fail (HafProjectorError irreversible_fork)
               else revert_to P (Suc n)
          else if Suc n \<le> cu_lastIrreversibleBlock c
               then act_fail (HafProjectorError irreversible_fork)
               else reconcile_from P c lower n) w2 = (r, w')"
      with checkpoint_step [OF assms(1) Suc.prems(1)] have w2: "pw_store w2 = pw_store w"
        by (metis on_source_store)
      have inv2: "inv (pw_store w2)"
        and len2: "Suc n \<le> length (chain (pw_store w2) (sourceName (pj_source P)))"
        using Suc.prems w2 by simp_all
      from rest consider (stop) e where "r = Inl e" and "w' = w2"
        | (found) "revert_to P (Suc n) w2 = (r, w')"
        | (down) "reconcile_from P c lower n w2 = (r, w')"
        by (auto simp: act_run split: if_splits)
      then show ?thesis
      proof cases
        case stop
        with inv2 w2 show ?thesis by simp
      next
        case found
        from revert_to_cuts [OF assms(1) inv2 len2 this] False w2 show ?thesis by auto
      next
        case down
        from Suc.IH [OF inv2 _ down] len2 w2 show ?thesis by auto
      qed
    qed
  qed
qed

text \<open>
  The ancestor is the highest block, from the start downwards, that a steady source still has.
\<close>

lemma revert_to_Inr: "revert_to P n w = (Inr a, w') \<Longrightarrow> a = n"
  unfolding revert_to_def by (elim act_bind_InrE) (simp add: act_run)

lemma reconcile_deepest:
  assumes "pj_store P = S" and "inv (pw_store w)"
    and "\<And>m. getBlock (pj_source P) m (pw_source w) = (g m, pw_source w)"
    and "n \<le> length (chain (pw_store w) (sourceName (pj_source P)))"
    and "reconcile_from P c lower n w = (Inr a, w')"
  shows "(0 < a \<longrightarrow> agrees g (chain (pw_store w) (sourceName (pj_source P))) a) \<and>
    (\<forall>m. a < m \<and> m \<le> n \<longrightarrow> \<not> agrees g (chain (pw_store w) (sourceName (pj_source P))) m)"
  using assms(4,5)
proof (induction n)
  case 0
  then show ?case by (auto simp: act_run dest: revert_to_Inr split: if_splits)
next
  case (Suc n)
  let ?src = "sourceName (pj_source P)"
  from Suc.prems(2) obtain stored w1 current w2 where
      cp: "on_store (getCurrentCheckpoint S ?src (Suc n)) w = (Inr stored, w1)"
    and gb: "on_source (getBlock (pj_source P) (Suc n)) w1 = (Inr current, w2)"
    and rest: "(if case stored of None \<Rightarrow> False | Some s \<Rightarrow> hb_id s = hb_id current
        then if Suc n < cu_lastIrreversibleBlock c
             then act_fail (HafProjectorError irreversible_fork) else revert_to P (Suc n)
        else if Suc n \<le> cu_lastIrreversibleBlock c
             then act_fail (HafProjectorError irreversible_fork)
             else reconcile_from P c lower n) w2 = (Inr a, w')"
    by (auto simp: assms(1) act_run elim!: act_bind_InrE split: if_splits)
  from cp obtain d where d: "getCurrentCheckpoint S ?src (Suc n) (pw_store w) = (Inr stored, d)"
    and w1: "w1 = w\<lparr>pw_store := d\<rparr>" by (rule on_storeE)
  note read = checkpoint_read [OF assms(2) d]
  have w1: "w1 = w" using read w1 by simp
  from gb w1 assms(3) [of "Suc n"] have w2: "w2 = w" and g: "g (Suc n) = Inr current"
    by (auto elim!: on_sourceE)
  from read Suc.prems(1) obtain st where st: "stored = Some st"
    and id: "hb_id st = hb_id (chain (pw_store w) ?src ! n)" by (cases stored) auto
  show ?case
  proof (cases "hb_id st = hb_id current")
    case True
    with rest st have "a = Suc n" by (auto simp: act_run dest: revert_to_Inr split: if_splits)
    with True id g show ?thesis by (auto simp: agrees_def)
  next
    case False
    with rest st w2 have "reconcile_from P c lower n w = (Inr a, w')"
      by (auto simp: act_run split: if_splits)
    from Suc.IH [OF _ this] Suc.prems(1) False id g show ?thesis
      by (auto simp: agrees_def le_Suc_eq)
  qed
qed

lemma verifyCurrentTip_cuts:
  assumes "pj_store P = S" and "inv (pw_store w)"
    and "verifyCurrentTip P (cursor_of (pw_store w) (sourceName (pj_source P))) w = (r, w')"
  shows "r = Inr None \<and> pw_store w' = pw_store w \<or>
    (\<exists>q. cuts (sourceName (pj_source P)) (pw_store w) (pw_store w') q \<and> r = map_sum id Some q)"
proof -
  let ?src = "sourceName (pj_source P)"
  show ?thesis
  proof (cases "tip_id (chain (pw_store w) ?src)")
    case None
    with assms(3) show ?thesis by (simp add: verifyCurrentTip_def act_run)
  next
    case (Some tip)
    then have ne: "chain (pw_store w) ?src \<noteq> []" by (auto simp: tip_id_def)
    from assms(3) Some ne have "act_bind (on_source (getBlock (pj_source P) (length (chain (pw_store w) ?src))))
        (\<lambda>current. if hb_id current = tip then act_ok None
          else act_bind (reconcileFork P (cursor_of (pw_store w) ?src)
            (cu_lastProcessedBlock (cursor_of (pw_store w) ?src))) (\<lambda>a. act_ok (Some a))) w = (r, w')"
      by (simp add: verifyCurrentTip_def)
    then show ?thesis
    proof (cases rule: act_bindE)
      case (fails e)
      then show ?thesis
        using assms(2) by (intro disjI2 exI [of _ "Inl e"]) (simp add: on_source_store)
    next
      case (goes current w1)
      have w1: "pw_store w1 = pw_store w"
        using goes(1) by (rule on_source_store)
      show ?thesis
      proof (cases "hb_id current = tip")
        case True
        with goes(2) w1 show ?thesis by (simp add: act_run)
      next
        case False
        with goes(2) obtain q where q: "reconcileFork P (cursor_of (pw_store w) ?src)
            (length (chain (pw_store w) ?src)) w1 = (q, w')" and r: "r = map_sum id Some q"
          by (auto simp: act_run elim!: act_bindE)
        have "cuts ?src (pw_store w1) (pw_store w') q"
          using reconcile_from_cuts [OF assms(1) _ _ q [unfolded reconcileFork_def]] w1 assms(2) by simp
        with r w1 show ?thesis by auto
      qed
    qed
  qed
qed

text \<open>
  The loop over the blocks: it appends a prefix of them, and then possibly cuts back.
\<close>

definition grows :: "string \<Rightarrow> 'd \<Rightarrow> 'd \<Rightarrow> haf_block list \<Rightarrow> exn + (cursor \<times> nat \<times> nat option) \<Rightarrow> nat \<Rightarrow> bool" where
  "grows src d d' bs r k \<longleftrightarrow>
     inv d' \<and> extends d d' \<and> irreversible d' = irreversible d \<and>
     (case r of
        Inl e \<Rightarrow> True
      | Inr (c, applied, ancestor) \<Rightarrow>
          k \<le> applied \<and> applied - k \<le> length bs \<and>
          (case ancestor of
             None \<Rightarrow> applied - k = length bs \<and> chain d' src = chain d src @ bs \<and> c = cursor_of d' src
           | Some a \<Rightarrow> irreversible d src \<le> a \<and> a \<le> length (chain d src) + (applied - k) \<and>
               chain d' src = take a (chain d src @ take (applied - k) bs) \<and>
               cu_lastIrreversibleBlock c = irreversible d src))"

lemma apply_blocks_grows:
  assumes "pj_store P = S" and "inv (pw_store w)"
    and "c = cursor_of (pw_store w) (sourceName (pj_source P))"
    and "\<forall>i < length bs. hb_number (bs ! i) = length (chain (pw_store w) (sourceName (pj_source P))) + 1 + i"
    and "apply_blocks P ops c k bs w = (r, w')"
  shows "grows (sourceName (pj_source P)) (pw_store w) (pw_store w') bs r k"
  using assms(2-5)
proof (induction bs arbitrary: w c k)
  case Nil
  then show ?case by (auto simp: grows_def act_run)
next
  case (Cons b bs)
  let ?src = "sourceName (pj_source P)"
  let ?d = "pw_store w"
  have num: "hb_number b = Suc (length (chain ?d ?src))"
    using Cons.prems(3) by force
  show ?case
  proof (cases "case cu_lastProcessedBlockId c of None \<Rightarrow> False | Some tip \<Rightarrow> hb_previousId b \<noteq> tip")
    case True
    with Cons.prems(4) obtain q where q: "reconcile_from P c (hb_number b - 1 - pj_maxReorgDepth P)
        (hb_number b - 1) w = (q, w')"
      and r: "r = (case q of Inl e \<Rightarrow> Inl e | Inr a \<Rightarrow> Inr (c, k, Some a))"
      by (auto simp: act_run reconcileFork_def elim!: act_bindE)
    from reconcile_from_cuts [OF assms(1) Cons.prems(1) _ q] num
    have "cuts ?src ?d (pw_store w') q" by simp
    then show ?thesis
      by (auto simp: r cuts_def grows_def Cons.prems(2) split: sum.splits)
  next
    case False
    from Cons.prems(4) False show ?thesis
    proof (simp only: apply_blocks.simps if_False, elim act_bindE)
      fix e
      assume "act_lift (validateBlockOperations (pj_validate P) b (ops (hb_number b))) w = (Inl e, w')"
        and "r = Inl e"
      then show ?thesis using Cons.prems(1) by (simp add: grows_def act_run)
    next
      fix ds w1 e
      assume "now_iso P w1 = (Inl e, w')"
      then show ?thesis by (auto elim: now_isoE)
    next
      fix ds w1 now w2 e
      assume v: "act_lift (validateBlockOperations (pj_validate P) b (ops (hb_number b))) w = (Inr ds, w1)"
        and n: "now_iso P w1 = (Inr now, w2)" and r: "r = Inl e"
        and a: "on_store (applyBlock (pj_store P) ?src b ds now) w2 = (Inl e, w')"
      have w2: "pw_store w2 = ?d" using v n by (auto simp: act_run elim: now_isoE)
      from a have "applyBlock S ?src b ds now ?d = (Inl e, pw_store w')"
        by (auto simp: assms(1) w2 elim!: on_storeE)
      with apply_extends [OF Cons.prems(1)] applies [OF Cons.prems(1)] r
      show ?thesis by (auto simp: grows_def)
    next
      fix ds w1 now w2 u w3
      assume v: "act_lift (validateBlockOperations (pj_validate P) b (ops (hb_number b))) w = (Inr ds, w1)"
        and n: "now_iso P w1 = (Inr now, w2)"
        and a: "on_store (applyBlock (pj_store P) ?src b ds now) w2 = (Inr u, w3)"
        and rest: "apply_blocks P ops (c\<lparr>cu_lastProcessedBlock := hb_number b,
            cu_lastProcessedBlockId := Some (hb_id b)\<rparr>) (Suc k) bs w3 = (r, w')"
      have w2: "pw_store w2 = ?d" using v n by (auto simp: act_run elim: now_isoE)
      from a have run: "applyBlock S ?src b ds now ?d = (Inr (), pw_store w3)"
        by (auto simp: assms(1) w2 elim!: on_storeE)
      from applies [OF Cons.prems(1) run]
      have inv3: "inv (pw_store w3)" and ch: "chain (pw_store w3) ?src = chain ?d ?src @ [b]"
        and irr: "irreversible (pw_store w3) = irreversible ?d"
        by auto
      have cur: "c\<lparr>cu_lastProcessedBlock := hb_number b, cu_lastProcessedBlockId := Some (hb_id b)\<rparr> =
          cursor_of (pw_store w3) ?src"
        using num ch irr Cons.prems(2) by (simp add: cursor_of_def)
      have "\<forall>i < length bs. hb_number (bs ! i) = length (chain (pw_store w3) ?src) + 1 + i"
        using Cons.prems(3) ch by fastforce
      from Cons.IH [OF inv3 cur this rest]
      have g: "grows ?src (pw_store w3) (pw_store w') bs r (Suc k)" .
      from apply_extends [OF Cons.prems(1) run] have e3: "extends ?d (pw_store w3)" by blast
      show ?thesis
        using g extends_trans [OF e3, of "pw_store w'"]
        by (auto simp: grows_def ch irr Suc_diff_le take_Cons_take split: sum.splits option.splits)
    qed
  qed
qed

lemma map_sum_Inr:
  assumes "Inr y = map_sum id Some q"
  obtains x where "q = Inr x" and "y = Some x"
  using assms by (cases q) auto

text \<open>The finality check reads, and what passing it means.\<close>

lemma preserves_on_source: "preserves (\<lambda>w. pw_store w = d) (on_source m)"
  by (rule preservesI) (simp add: on_source_store)

lemma preserves_checkpoint:
  assumes "inv d"
  shows "preserves (\<lambda>w. pw_store w = d) (on_store (getCurrentCheckpoint S src n))"
  using assms by (intro preservesI) (auto elim!: on_storeE dest: checkpoint_read)

lemma assertFinality_store:
  assumes "pj_store P = S" and "inv (pw_store w)"
    and "assertFinalityAgreement P irr n head w = (r, w')"
  shows "pw_store w' = pw_store w"
proof -
  have "preserves (\<lambda>v. pw_store v = pw_store w) (assertFinalityAgreement P irr n head)"
    unfolding assertFinalityAgreement_def assms(1)
    by (intro act_rules preserves_on_source preserves_checkpoint assms(2))
  from preservesD [OF this _ assms(3)] show ?thesis by simp
qed

lemma assertFinality_agrees:
  assumes "pj_store P = S" and "inv (pw_store w)"
    and "assertFinalityAgreement P irr n head w = (Inr u, w')"
  shows "0 < ib_number irr \<and> ib_number irr \<le> head \<and> 1 \<le> n \<and>
    n \<le> length (chain (pw_store w) (sourceName (pj_source P))) \<and>
    (\<exists>hafah s1 current s2.
       getBlock (pj_source P) (ib_number irr) (pw_source w) = (Inr hafah, s1) \<and>
       ib_id irr = Some (hb_id hafah) \<and>
       (if n = ib_number irr then current = hafah else getBlock (pj_source P) n s1 = (Inr current, s2)) \<and>
       hb_number current = n \<and>
       hb_id (chain (pw_store w) (sourceName (pj_source P)) ! (n - 1)) = hb_id current \<and>
       hb_previousId (chain (pw_store w) (sourceName (pj_source P)) ! (n - 1)) = hb_previousId current)"
proof -
  let ?src = "sourceName (pj_source P)"
  from assms(3) obtain irr_id where id: "ib_id irr = Some irr_id"
    by (auto simp: assertFinalityAgreement_def act_run split: option.splits)
  with assms(3) have num: "\<not> (ib_number irr = 0 \<or> ib_number irr > head)"
    by (auto simp: assertFinalityAgreement_def act_run split: if_splits)
  from assms(3) obtain hafah w1 where
      g: "on_source (getBlock (pj_source P) (ib_number irr)) w = (Inr hafah, w1)"
    and rest: "(if hb_id hafah \<noteq> irr_id then act_fail source_divergence_error
      else act_bind (on_store (getCurrentCheckpoint (pj_store P) ?src n)) (\<lambda>stored.
        act_bind (if n = ib_number irr then act_ok hafah
          else on_source (getBlock (pj_source P) n)) (\<lambda>current.
        act_ensure (case stored of None \<Rightarrow> False
          | Some s \<Rightarrow> sameBlock (haf_block.truncate s) current) source_divergence_error))) w1 = (Inr u, w')"
    unfolding assertFinalityAgreement_def id option.case if_not_P [OF num] by (rule act_bind_InrE)
  from g obtain s1 where g1: "getBlock (pj_source P) (ib_number irr) (pw_source w) = (Inr hafah, s1)"
    and w1: "w1 = w\<lparr>pw_source := s1\<rparr>" by (rule on_sourceE)
  from rest have same: "hb_id hafah = irr_id" by (auto simp: act_run split: if_splits)
  with rest obtain stored w2 current w3 where
      cp: "on_store (getCurrentCheckpoint S ?src n) w1 = (Inr stored, w2)"
    and cur: "(if n = ib_number irr then act_ok hafah else on_source (getBlock (pj_source P) n)) w2
      = (Inr current, w3)"
    and eq: "act_ensure (case stored of None \<Rightarrow> False
        | Some s \<Rightarrow> sameBlock (haf_block.truncate s) current) source_divergence_error w3 = (Inr u, w')"
    by (auto simp: assms(1) elim!: act_bind_InrE)
  from eq obtain st where st: "stored = Some st" and sb: "sameBlock (haf_block.truncate st) current"
    by (auto simp: act_run split: option.splits if_splits)
  from cp obtain d2 where d2: "getCurrentCheckpoint S ?src n (pw_store w) = (Inr (Some st), d2)"
    and w2: "w2 = w1\<lparr>pw_store := d2\<rparr>" by (auto simp: w1 st elim!: on_storeE)
  from checkpoint_read [OF assms(2) d2] sb have c: "1 \<le> n" "n \<le> length (chain (pw_store w) ?src)"
    "hb_number current = n" "hb_id (chain (pw_store w) ?src ! (n - 1)) = hb_id current"
    "hb_previousId (chain (pw_store w) ?src ! (n - 1)) = hb_previousId current"
    by (auto simp: sameBlock_def haf_block.truncate_def)
  have "\<exists>s2. if n = ib_number irr then current = hafah
      else getBlock (pj_source P) n s1 = (Inr current, s2)"
    using cur by (cases "n = ib_number irr") (auto simp: act_run w2 w1 elim!: on_sourceE)
  with g1 id same c num show ?thesis by auto
qed

text \<open>The irreversible block moves only to one the source has confirmed in the same cycle.\<close>

lemma finalize_cycle_agrees:
  assumes "pj_store P = S" and "inv (pw_store w)"
    and "finalize_cycle P c irr head w = (r, w')"
    and "irreversible (pw_store w') (sourceName (pj_source P)) \<noteq>
      irreversible (pw_store w) (sourceName (pj_source P))"
  shows "irreversible (pw_store w') (sourceName (pj_source P)) =
      min (ib_number irr) (cu_lastProcessedBlock c) \<and>
    (\<exists>v w1. assertFinalityAgreement P irr (min (ib_number irr) (cu_lastProcessedBlock c)) head w
       = (Inr v, w1))"
proof -
  let ?src = "sourceName (pj_source P)" and ?n = "min (ib_number irr) (cu_lastProcessedBlock c)"
  have "cu_lastIrreversibleBlock c < ?n"
  proof (rule ccontr)
    assume "\<not> cu_lastIrreversibleBlock c < ?n"
    with assms(3) have "w' = w" by (auto simp: finalize_cycle_def act_run)
    with assms(4) show False by simp
  qed
  with assms(3) have "act_bind (assertFinalityAgreement P irr ?n head) (\<lambda>_.
        act_bind (now_iso P) (\<lambda>now. on_store (finalizeThrough (pj_store P) ?src ?n now))) w = (r, w')"
    by (simp add: finalize_cycle_def Let_def)
  then show ?thesis
  proof (cases rule: act_bindE)
    case (fails e)
    with assertFinality_store [OF assms(1,2)] assms(4) show ?thesis by metis
  next
    case (goes v w1)
    with assertFinality_store [OF assms(1,2)] have w1: "pw_store w1 = pw_store w" by blast
    from goes(2) obtain now where run: "finalizeThrough S ?src ?n now (pw_store w) = (r, pw_store w')"
      by (auto simp: assms(1) w1 elim!: act_bindE now_isoE on_storeE)
    from finalizes [OF assms(2) run] assms(4) goes(1) show ?thesis
      by (auto simp: max_def split: if_splits)
  qed
qed

lemma finalize_cycle_result:
  assumes "pj_store P = S" and "inv (pw_store w)"
    and "c = cursor_of (pw_store w) (sourceName (pj_source P))"
    and "finalize_cycle P c irr head w = (r, w')"
  shows "inv (pw_store w') \<and> extends (pw_store w) (pw_store w') \<and>
    chain (pw_store w') = chain (pw_store w) \<and>
    (r = Inr u \<longrightarrow> irreversible (pw_store w') (sourceName (pj_source P)) =
       max (cu_lastIrreversibleBlock c) (min (ib_number irr) (cu_lastProcessedBlock c)))"
proof -
  let ?src = "sourceName (pj_source P)" and ?d = "pw_store w"
  let ?n = "min (ib_number irr) (cu_lastProcessedBlock c)"
  show ?thesis
  proof (cases "cu_lastIrreversibleBlock c < ?n")
    case False
    with assms(4) have "w' = w" by (auto simp: finalize_cycle_def act_run)
    with False assms(2,3) show ?thesis by (auto simp: max_def min_def)
  next
    case True
    from assms(4) True have "act_bind (assertFinalityAgreement P irr ?n head) (\<lambda>_.
        act_bind (now_iso P) (\<lambda>now. on_store (finalizeThrough (pj_store P) ?src ?n now))) w = (r, w')"
      by (simp add: finalize_cycle_def Let_def)
    then show ?thesis
    proof (cases rule: act_bindE)
      case (fails e)
      with assertFinality_store [OF assms(1,2)] have "pw_store w' = ?d" by blast
      with fails(2) assms(2) show ?thesis by simp
    next
      case (goes v w1)
      with assertFinality_store [OF assms(1,2)] have w1: "pw_store w1 = ?d" by blast
      from goes(2) obtain now where run: "finalizeThrough S ?src ?n now ?d = (r, pw_store w')"
        by (auto simp: assms(1) w1 elim!: act_bindE now_isoE on_storeE)
      from finalize_extends [OF assms(2) run] finalizes [OF assms(2) run] assms(3)
      show ?thesis by auto
    qed
  qed
qed

text \<open>What a cycle does to the store, whatever the source answers.\<close>

definition cycled :: "string \<Rightarrow> 'd \<Rightarrow> 'd \<Rightarrow> run_result \<Rightarrow> nat \<Rightarrow> bool" where
  "cycled src d d' res most \<longleftrightarrow>
     (\<exists>new. length new = rr_appliedBlocks res \<and> length new \<le> most \<and>
        irreversible d' src = rr_finalizedThrough res \<and>
        (case rr_revertedTo res of
           None \<Rightarrow> chain d' src = chain d src @ new
         | Some a \<Rightarrow> irreversible d src \<le> a \<and> a \<le> length (chain d src @ new) \<and>
             chain d' src = take a (chain d src @ new) \<and> irreversible d' src = irreversible d src))"

lemma apply_range_result:
  assumes "pj_store P = S" and "inv (pw_store w)"
    and "apply_range P (cursor_of (pw_store w) (sourceName (pj_source P))) target w = (r, w')"
  shows "\<exists>bs. length bs = target - length (chain (pw_store w) (sourceName (pj_source P))) \<and>
    grows (sourceName (pj_source P)) (pw_store w) (pw_store w') bs r 0"
proof -
  let ?src = "sourceName (pj_source P)" and ?d = "pw_store w"
  let ?c = "cursor_of ?d ?src" and ?n = "length (chain ?d ?src)"
  have fails: "\<exists>bs. length bs = target - ?n \<and> grows ?src ?d ?d bs (Inl e) 0" for e
    using assms(2) by (intro exI [of _ "replicate (target - ?n) undefined"]) (simp add: grows_def)
  show ?thesis
  proof (cases "?n < target")
    case False
    with assms(2,3) show ?thesis by (auto simp: apply_range_def act_run grows_def)
  next
    case True
    from assms(3) True show ?thesis
      unfolding apply_range_def cursor_of_simps if_P [OF True] Let_def
    proof (elim act_bindE)
      fix b w1 ops w2 bs w3 u w4 grouped w5
      assume b: "on_source (readBlockSnapshot (pj_source P) (?n + 1) target) w = (Inr b, w1)"
        and o: "on_source (getOperations (pj_source P) (?n + 1) target) w1 = (Inr ops, w2)"
        and a: "on_source (readBlockSnapshot (pj_source P) (?n + 1) target) w2 = (Inr bs, w3)"
        and "act_lift (assertStableSnapshot b bs) w3 = (Inr u, w4)"
        and "act_lift (groupOperationsByBlock ops) w4 = (Inr grouped, w5)"
        and run: "apply_blocks P grouped ?c 0 bs w5 = (r, w')"
      then have w5: "pw_store w5 = ?d"
        using on_source_store [OF b] on_source_store [OF o] on_source_store [OF a]
        by (simp add: act_run)
      from a obtain s where "readBlockSnapshot (pj_source P) (?n + 1) target (pw_source w2) = (Inr bs, s)"
        by (auto elim: on_sourceE)
      then have bs: "length bs = target - ?n" "\<forall>i < length bs. hb_number (bs ! i) = ?n + 1 + i"
        by (auto simp: readBlockSnapshot_def dest!: read_blocks_Inr)
      have "grows ?src (pw_store w5) (pw_store w') bs r 0"
        using assms(2) bs(2) by (intro apply_blocks_grows [OF assms(1) _ _ _ run]) (simp_all add: w5)
      with bs(1) w5 show ?thesis by auto
    qed (use fails in \<open>auto simp: act_run dest!: on_source_store\<close>)
  qed
qed

lemma run_from_result:
  assumes "pj_store P = S" and "inv (pw_store w)"
    and "run_from P (cursor_of (pw_store w) (sourceName (pj_source P))) head irr w = (r, w')"
  shows "inv (pw_store w') \<and> extends (pw_store w) (pw_store w') \<and>
    (\<forall>res. r = Inr res \<longrightarrow>
       cycled (sourceName (pj_source P)) (pw_store w) (pw_store w') res (pj_maxBlocksPerRun P))"
proof -
  let ?src = "sourceName (pj_source P)" and ?d = "pw_store w"
  let ?c = "cursor_of ?d ?src" and ?n = "length (chain ?d ?src)"
  let ?target = "min head (cu_lastProcessedBlock ?c + pj_maxBlocksPerRun P)"
  show ?thesis
  proof (cases "head < cu_lastProcessedBlock ?c")
    case True
    with assms(2,3) show ?thesis by (auto simp: run_from_def act_run cycled_def)
  next
    case False
    from assms(3) show ?thesis
      unfolding run_from_def if_not_P [OF False]
    proof (cases rule: act_bindE)
      case (fails e)
      with verifyCurrentTip_cuts [OF assms(1,2)] show ?thesis
        by (fastforce simp: cuts_def split: sum.splits)
    next
      case (goes tipRevert w1)
      show ?thesis
      proof (cases tipRevert)
        case (Some a)
        with verifyCurrentTip_cuts [OF assms(1,2) goes(1)]
        have "cuts ?src ?d (pw_store w1) (Inr a)"
          by (auto elim!: map_sum_Inr)
        with goes(2) Some show ?thesis
          by (auto simp: cuts_def act_run cycled_def)
      next
        case None
        with verifyCurrentTip_cuts [OF assms(1,2) goes(1)] have w1: "pw_store w1 = ?d"
          by (auto elim!: map_sum_Inr)
        from goes(2) None have "act_bind (apply_range P ?c ?target) (\<lambda>(c', applied, ancestor).
            if ancestor \<noteq> None
            then act_ok \<lparr>rr_appliedBlocks = applied, rr_finalizedThrough = cu_lastIrreversibleBlock c',
              rr_revertedTo = ancestor, rr_sourceHead = head\<rparr>
            else act_bind (finalize_cycle P c' irr head) (\<lambda>_.
              act_ok \<lparr>rr_appliedBlocks = applied,
                rr_finalizedThrough = max (cu_lastIrreversibleBlock c')
                  (min (ib_number irr) (cu_lastProcessedBlock c')),
                rr_revertedTo = None, rr_sourceHead = head\<rparr>)) w1 = (r, w')"
          by (simp add: Let_def)
        then show ?thesis
        proof (cases rule: act_bindE)
          case (fails e)
          from apply_range_result [OF assms(1), of w1] assms(2) fails w1 show ?thesis
            by (auto simp: grows_def)
        next
          case (goes out w2)
          obtain c' applied ancestor where out: "out = (c', applied, ancestor)" by (cases out)
          have "\<exists>bs. length bs = ?target - ?n \<and>
              grows ?src ?d (pw_store w2) bs (Inr (c', applied, ancestor)) 0"
            using apply_range_result [OF assms(1), of w1 ?target] assms(2) goes(1) w1 out by simp
          then obtain bs where bs: "length bs = ?target - ?n"
            and g: "grows ?src ?d (pw_store w2) bs (Inr (c', applied, ancestor)) 0" by blast
          then have most: "length bs \<le> pj_maxBlocksPerRun P" by simp
          show ?thesis
          proof (cases ancestor)
            case (Some a)
            with g have "cycled ?src ?d (pw_store w2) \<lparr>rr_appliedBlocks = applied,
                rr_finalizedThrough = cu_lastIrreversibleBlock c',
                rr_revertedTo = Some a, rr_sourceHead = head\<rparr> (pj_maxBlocksPerRun P)"
              using most by (auto simp: grows_def cycled_def intro!: exI [of _ "take applied bs"])
            with goes(2) out Some g show ?thesis by (auto simp: act_run grows_def)
          next
            case None
            with g have inv2: "inv (pw_store w2)" and ext2: "extends ?d (pw_store w2)"
              and irr2: "irreversible (pw_store w2) = irreversible ?d" and ch2: "chain (pw_store w2) ?src = chain ?d ?src @ bs"
              and c': "c' = cursor_of (pw_store w2) ?src" and ap: "applied = length bs"
              by (simp_all add: grows_def)
            from goes(2) out None have "act_bind (finalize_cycle P c' irr head) (\<lambda>_.
              act_ok \<lparr>rr_appliedBlocks = applied,
                rr_finalizedThrough = max (cu_lastIrreversibleBlock c')
                  (min (ib_number irr) (cu_lastProcessedBlock c')),
                rr_revertedTo = None, rr_sourceHead = head\<rparr>) w2 = (r, w')" by simp
            then obtain q w3 where f: "finalize_cycle P c' irr head w2 = (q, w3)" and w': "w' = w3"
              and r: "r = (case q of Inl e \<Rightarrow> Inl e | Inr u \<Rightarrow> Inr \<lparr>rr_appliedBlocks = applied,
                rr_finalizedThrough = max (cu_lastIrreversibleBlock c')
                  (min (ib_number irr) (cu_lastProcessedBlock c')),
                rr_revertedTo = None, rr_sourceHead = head\<rparr>)"
              by (auto simp: act_run elim!: act_bindE)
            from finalize_cycle_result [OF assms(1) inv2 c' f] ext2 most ap ch2
            show ?thesis
              by (auto simp: w' r cycled_def intro: extends_trans split: sum.splits)
          qed
        qed
      qed
    qed
  qed
qed

lemma runOnce_result:
  assumes "pj_store P = S" and "inv (pw_store w)" and "runOnce P w = (r, w')"
  shows "inv (pw_store w') \<and> extends (pw_store w) (pw_store w') \<and>
    (\<forall>res. r = Inr res \<longrightarrow>
       cycled (sourceName (pj_source P)) (pw_store w) (pw_store w') res (pj_maxBlocksPerRun P))"
proof -
  let ?src = "sourceName (pj_source P)" and ?d = "pw_store w"
  have cur: "pw_store w1 = ?d \<and> (\<forall>c. q = Inr c \<longrightarrow> c = cursor_of ?d ?src)"
    if "on_store (getCursor (pj_store P) ?src) w = (q, w1)" for q w1
    using that cursor_read [OF assms(2)] by (fastforce simp: assms(1) cursor_of_def elim!: on_storeE)
  have stop: ?thesis if "pw_store w' = ?d" and "r = Inl e" for e
    using that assms(2) by simp
  from assms(3) show ?thesis
    unfolding runOnce_def
  proof (elim act_bindE, goal_cases)
    case (1 e)
    with cur stop show ?case by blast
  next
    case (2 c w1 e)
    with cur [OF 2(1)] on_source_store [OF 2(2)] stop show ?case by simp
  next
    case (3 c w1 head w2 e)
    with cur [OF 3(1)] on_source_store [OF 3(2)] on_source_store [OF 3(3)] stop show ?case by simp
  next
    case (4 c w1 head w2 irr w3)
    have w3: "pw_store w3 = ?d" and c: "c = cursor_of (pw_store w3) ?src"
      using cur [OF 4(1)] on_source_store [OF 4(2)] on_source_store [OF 4(3)] by simp_all
    from run_from_result [OF assms(1), of w3] assms(2) w3 c 4(4) show ?case by simp
  qed
qed

end

end
