(* ===== verification/Pg_Contract.thy ===== *)
theory Pg_Contract
  imports Pg_Finalize Haf_Projector
begin

text \<open>
  The tables keep the contract of \<open>Haf_Model\<close>: the chain of a source is its checkpoints that
  are not reverted, in the order they were inserted, and the cursor row says how long it is
  and how much of it is irreversible.
\<close>

section \<open>The chain in the tables\<close>

definition row_block :: "checkpoint_row \<Rightarrow> haf_block" where
  "row_block k = \<lparr>hb_number = kr_number k, hb_id = kr_block_id k,
     hb_previousId = (case kr_previous_block_id k of None \<Rightarrow> [] | Some p \<Rightarrow> p),
     hb_timestamp = kr_timestamp k\<rparr>"

definition current_rows :: "string \<Rightarrow> checkpoint_row list \<Rightarrow> checkpoint_row list" where
  "current_rows src ks = filter (\<lambda>k. kr_source k = src \<and> kr_state k \<noteq> Reverted) ks"

definition db_chain :: "db \<Rightarrow> string \<Rightarrow> haf_block list" where
  "db_chain db src = map row_block (current_rows src (db_checkpoints db))"

definition db_processed :: "db \<Rightarrow> string \<Rightarrow> nat" where
  "db_processed db src =
     (case cursor_row_of db src of None \<Rightarrow> 0 | Some r \<Rightarrow> cr_last_processed_block r)"

definition db_irreversible :: "db \<Rightarrow> string \<Rightarrow> nat" where
  "db_irreversible db src =
     (case cursor_row_of db src of None \<Rightarrow> 0 | Some r \<Rightarrow> cr_last_irreversible_block r)"

text \<open>
  The invariant: the chain of every source is linked and numbered, the cursor is at its end,
  and a checkpoint is irreversible exactly up to the irreversible block of the cursor.
\<close>

definition source_ok :: "db \<Rightarrow> string \<Rightarrow> bool" where
  "source_ok db src \<longleftrightarrow>
     linked (db_chain db src) \<and> numbered (db_chain db src) \<and>
     db_processed db src = length (db_chain db src) \<and>
     db_irreversible db src \<le> length (db_chain db src) \<and>
     list_all (\<lambda>k. kr_state k = Irreversible \<longleftrightarrow> kr_number k \<le> db_irreversible db src)
       (current_rows src (db_checkpoints db))"

definition db_ok :: "db \<Rightarrow> bool" where
  "db_ok db \<longleftrightarrow> (\<forall>src. source_ok db src)"

lemma db_okD: "db_ok db \<Longrightarrow> source_ok db src"
  by (simp add: db_ok_def)

lemma row_block_sel [simp]:
  "hb_number (row_block k) = kr_number k" "hb_id (row_block k) = kr_block_id k"
  by (simp_all add: row_block_def)

lemma numbered_rows:
  assumes "numbered (map row_block rs)" and "i < length rs"
  shows "kr_number (rs ! i) = Suc i"
  using assms by (simp add: numbered_def)

lemma find_filter: "List.find P xs = (case filter P xs of [] \<Rightarrow> None | x # _ \<Rightarrow> Some x)"
  by (induction xs) auto

lemma filter_number:
  assumes "numbered (map row_block rs)"
  shows "filter (\<lambda>k. kr_number k = n) rs =
    (if 1 \<le> n \<and> n \<le> length rs then [rs ! (n - 1)] else [])"
  using assms
proof (induction rs rule: rev_induct)
  case (snoc k rs)
  then have num: "numbered (map row_block rs)" and k: "kr_number k = Suc (length rs)"
    by (simp_all add: numbered_append)
  show ?case
    using snoc.IH [OF num] k by (auto simp: nth_append)
qed simp

lemma current_checkpoint_nth:
  assumes "numbered (db_chain db src)"
  shows "current_checkpoint db src n =
    (if 1 \<le> n \<and> n \<le> length (db_chain db src)
     then Some (current_rows src (db_checkpoints db) ! (n - 1)) else None)"
proof -
  have "filter (\<lambda>k. kr_source k = src \<and> kr_number k = n \<and> kr_state k \<noteq> Reverted) ks =
      filter (\<lambda>k. kr_number k = n) (current_rows src ks)" for ks
    by (auto simp: current_rows_def intro!: filter_cong)
  with filter_number [of "current_rows src (db_checkpoints db)" n] assms show ?thesis
    by (simp add: current_checkpoint_def find_filter db_chain_def)
qed

lemma tip_checkpoint:
  assumes "numbered (db_chain db src)"
  shows "map_option kr_block_id (current_checkpoint db src (length (db_chain db src)))
    = tip_id (db_chain db src)"
proof (cases "db_chain db src = []")
  case False
  then have "current_rows src (db_checkpoints db) \<noteq> []" by (simp add: db_chain_def)
  then show ?thesis
    using False assms
    by (simp add: current_checkpoint_nth tip_id_def db_chain_def last_conv_nth Suc_le_eq)
qed (use assms in \<open>simp add: current_checkpoint_nth tip_id_def\<close>)

section \<open>Transactions\<close>

lemma inTransactionE:
  assumes "inTransaction work w = (u, w')"
  obtains (rolled_back) "pg_db w' = pg_db w" and "u \<noteq> Inr ()"
    | (committed) w1 where "work (w\<lparr>pg_faults := tl (pg_faults w)\<rparr>) = (Inr (), w1)"
        and "w' = w1" and "states_agree (pg_db w')"
  using assms by (fastforce simp: inTransaction_def Let_def split: prod.splits sum.splits if_splits)

lemma sqlE:
  assumes "sql f w = (u, w')"
  obtains (fails) "w' = w" and "u = Inl database_error" and "f (pg_db w) = None"
    | (runs) db where "f (pg_db w) = Some db" and "w' = w\<lparr>pg_db := db\<rparr>" and "u = Inr ()"
  using assms by (auto simp: sql_def split: option.splits)

lemma sql_InrE:
  assumes "sql f w = (Inr x, w')"
  obtains db where "f (pg_db w) = Some db" and "w' = w\<lparr>pg_db := db\<rparr>"
  using assms by (auto simp: sql_def split: option.splits)

text \<open>What the statements of a block's operations, and of the materialization, leave alone.\<close>

definition same_chain :: "db \<Rightarrow> 'u pg \<Rightarrow> bool" where
  "same_chain db w \<longleftrightarrow>
     db_checkpoints (pg_db w) = db_checkpoints db \<and> db_cursors (pg_db w) = db_cursors db"

lemma preserves_sql:
  assumes "\<And>db' db''. f db' = Some db'' \<Longrightarrow>
    db_checkpoints db'' = db_checkpoints db' \<and> db_cursors db'' = db_cursors db'"
  shows "preserves (same_chain db) (sql f)"
  by (rule preservesI) (auto elim!: sqlE simp: same_chain_def dest: assms)

lemma preserves_sql_count:
  assumes "\<And>db' db'' n. f db' = Some (db'', n) \<Longrightarrow>
    db_checkpoints db'' = db_checkpoints db' \<and> db_cursors db'' = db_cursors db'"
  shows "preserves (same_chain db) (sql_count f)"
  by (rule preservesI)
    (auto simp: same_chain_def sql_count_def dest: assms split: option.splits prod.splits)

lemma preserves_uuid [simp]: "preserves (same_chain db) (nextUuidV7 P)"
  by (rule preservesI) (auto simp: nextUuidV7_def same_chain_def Let_def split: prod.splits)

lemma preserves_read_db [simp]: "preserves (same_chain db) (read_db f)"
  by (simp add: read_db_def)

lemma preserves_insertOperation: "preserves (same_chain db) (insertOperation P c d at)"
  unfolding insertOperation_def
  by (intro act_rules preserves_sql preserves_uuid)
    (auto simp: insert_operation_def split: if_splits)

lemma replay_event_frame:
  "replay_event H e db = Some db' \<Longrightarrow>
    db_checkpoints db' = db_checkpoints db \<and> db_cursors db' = db_cursors db"
  by (auto simp: replay_event_def Let_def split: if_splits)

lemma insert_match_event_frame:
  "insert_match_event H e db = Some db' \<Longrightarrow>
    db_checkpoints db' = db_checkpoints db \<and> db_cursors db' = db_cursors db"
  by (auto simp: insert_match_event_def split: if_splits)

lemma preserves_upsert: "preserves (same_chain db) (upsertIncludedMatchEvent P oid d)"
proof (cases "case dc_event d of None \<Rightarrow> None
    | Some ev \<Rightarrow> matchEventRow ev oid (ev_blockTimestamp (dc_evidence d))")
  case None
  then have "upsertIncludedMatchEvent P oid d = act_ok ()"
    by (simp add: upsertIncludedMatchEvent_def split: option.splits)
  then show ?thesis by simp
next
  case (Some e)
  have replay: "preserves (same_chain db) (sql (replay_event (po_host P) e))"
    by (rule preserves_sql) (rule replay_event_frame)
  have insert: "preserves (same_chain db) (sql (insert_match_event (po_host P) e))"
    by (rule preserves_sql) (rule insert_match_event_frame)
  from Some show ?thesis
    by (auto simp: upsertIncludedMatchEvent_def split: option.splits
        intro!: preserves_bind replay insert preserves_read_db)
qed

lemma preserves_decision: "preserves (same_chain db) (apply_decision P c at d)"
  unfolding apply_decision_def
  by (intro act_rules preserves_insertOperation preserves_upsert)


lemma preserves_block_decisions:
  "preserves (same_chain db) (act_each (apply_decision P c at) ds)"
  by (intro act_rules preserves_decision)

text \<open>The materialization writes tables of its own.\<close>

named_theorems frames \<open>statements that leave checkpoints and cursors alone\<close>

lemma insert_result_frame [frames]:
  "insert_result row db = Some db' \<Longrightarrow>
    db_checkpoints db' = db_checkpoints db \<and> db_cursors db' = db_cursors db"
  by (auto simp: insert_result_def split: if_splits)

lemma insert_change_frame [frames]:
  "insert_change c db = Some (db', n) \<Longrightarrow>
    db_checkpoints db' = db_checkpoints db \<and> db_cursors db' = db_cursors db"
  by (auto simp: insert_change_def split: if_splits)

lemma advance_result_frame [frames]:
  "advance_result i e f db = Some db' \<Longrightarrow>
    db_checkpoints db' = db_checkpoints db \<and> db_cursors db' = db_cursors db"
  by (auto simp: advance_result_def)

lemma insert_collectible_event_frame [frames]:
  "insert_collectible_event row db = Some (db', n) \<Longrightarrow>
    db_checkpoints db' = db_checkpoints db \<and> db_cursors db' = db_cursors db"
  by (auto simp: insert_collectible_event_def split: option.splits if_splits)

lemma insert_instance_frame [frames]:
  "insert_instance R e t n at db = Some db' \<Longrightarrow>
    db_checkpoints db' = db_checkpoints db \<and> db_cursors db' = db_cursors db"
  by (auto simp: insert_instance_def split: option.splits if_splits)

lemma revoke_instance_frame [frames]:
  "revoke_instance c db = Some db' \<Longrightarrow>
    db_checkpoints db' = db_checkpoints db \<and> db_cursors db' = db_cursors db"
  by (auto simp: revoke_instance_def)

lemma local_insert_frame [frames]:
  "(case local_result R r of None \<Rightarrow> Some db | Some l \<Rightarrow> insert_result (row l) db) = Some db' \<Longrightarrow>
    db_checkpoints db' = db_checkpoints db \<and> db_cursors db' = db_cursors db"
  by (cases "local_result R r") (auto dest: insert_result_frame)

lemma preserves_results:
  "preserves (same_chain db) (materializeInitialMatchResults P b at)"
  unfolding materializeInitialMatchResults_def materialize_one_def
  by (intro act_rules preserves_uuid preserves_sql) (erule local_insert_frame)

lemma preserves_correction: "preserves (same_chain db) (materializeMatchCorrection P c at)"
  unfolding materializeMatchCorrection_def
  by (intro act_rules preserves_read_db preserves_sql preserves_sql_count preserves_basic)
    (erule frames)+

lemma preserves_invalidation: "preserves (same_chain db) (materializeMatchInvalidation P i)"
  unfolding materializeMatchInvalidation_def
  by (intro act_rules preserves_read_db preserves_sql preserves_sql_count preserves_basic)
    (erule frames)+

lemma preserves_issue: "preserves (same_chain db) (materializeCollectibleIssue P row c at)"
  unfolding materializeCollectibleIssue_def
  by (intro act_rules preserves_read_db preserves_sql preserves_sql_count preserves_basic)
    (erule frames)+

lemma preserves_revocation: "preserves (same_chain db) (materializeCollectibleRevocation P row c)"
  unfolding materializeCollectibleRevocation_def
  by (intro act_rules preserves_read_db preserves_sql preserves_sql_count preserves_basic)
    (erule frames)+

lemma preserves_materialize_row: "preserves (same_chain db) (materialize_row P at rm)"
  unfolding materialize_row_def
proof (intro act_rules)
  fix ev
  show "preserves (same_chain db) (case ev of
      Match_Results_Batch b \<Rightarrow> if snd rm \<noteq> Some (mb_event_id b) then act_ok ()
        else materializeInitialMatchResults P b at
    | Match_Result_Corrected c \<Rightarrow> if snd rm \<noteq> Some (mc_event_id c) then act_ok ()
        else materializeMatchCorrection P c at
    | Match_Result_Invalidated i \<Rightarrow> if snd rm \<noteq> Some (mi_event_id i) then act_ok ()
        else materializeMatchInvalidation P i
    | Collectible_Issued c \<Rightarrow> materializeCollectibleIssue P (fst rm) c at
    | Collectible_Revoked c \<Rightarrow> materializeCollectibleRevocation P (fst rm) c)"
    by (cases ev) (auto intro: preserves_results preserves_correction preserves_invalidation
        preserves_issue preserves_revocation)
qed

lemma preserves_materialize:
  "preserves (same_chain db) (materializeIrreversibleEvents P source n at)"
  unfolding materializeIrreversibleEvents_def
  by (intro act_rules preserves_read_db preserves_materialize_row)


section \<open>Cursors\<close>

lemma find_update:
  assumes "\<And>c. cr_source (f c) = cr_source c"
  shows "List.find (\<lambda>c. cr_source c = s) (map (\<lambda>c. if cr_source c = src then f c else c) cs)
    = map_option (\<lambda>c. if s = src then f c else c) (List.find (\<lambda>c. cr_source c = s) cs)"
  using assms by (induction cs) auto

lemma update_cursor_row:
  assumes "update_cursor src f db = Some db'" and "\<And>c. cr_source (f c) = cr_source c"
  shows "cursor_row_of db' s = map_option (\<lambda>c. if s = src then f c else c) (cursor_row_of db s)"
    and "db_checkpoints db' = db_checkpoints db"
  using assms(1) find_update [of f s src "db_cursors db"] assms(2)
  by (auto simp: update_cursor_def cursor_row_of_def)

lemma db_chain_cong: "db_checkpoints db' = db_checkpoints db \<Longrightarrow> db_chain db' = db_chain db"
  by (simp add: db_chain_def fun_eq_iff)

lemma source_ok_cong:
  assumes "db_checkpoints db' = db_checkpoints db"
    and "db_processed db' src = db_processed db src"
    and "db_irreversible db' src = db_irreversible db src"
  shows "source_ok db' src = source_ok db src"
  using assms db_chain_cong [OF assms(1)] by (simp add: source_ok_def)

definition cursor_of_db :: "db \<Rightarrow> string \<Rightarrow> cursor" where
  "cursor_of_db db src = \<lparr>cu_source = src, cu_lastProcessedBlock = length (db_chain db src),
     cu_lastProcessedBlockId = tip_id (db_chain db src),
     cu_lastIrreversibleBlock = db_irreversible db src\<rparr>"

lemma cursorFromRow_ok:
  assumes "source_ok db src" and "cursor_row_of db src = Some r" and "cursorFromRow db r = Inr c"
  shows "c = cursor_of_db db src"
proof -
  have "cr_source r = src"
    using assms(2) by (auto simp: cursor_row_of_def find_Some_iff)
  moreover have "cr_last_processed_block r = length (db_chain db src)"
    using assms(1,2) by (simp add: source_ok_def db_processed_def)
  ultimately show ?thesis
    using assms tip_checkpoint [of db src]
    by (auto simp: cursorFromRow_def cursor_of_db_def parseDatabaseInteger_def db_irreversible_def
        source_ok_def split: if_splits)
qed

lemma lockCursorE:
  assumes "lockCursor P src w = (u, w')"
  obtains (locked) r where "cursor_row_of (pg_db w') src = Some r"
    and "db_checkpoints (pg_db w') = db_checkpoints (pg_db w)"
    and "db_processed (pg_db w') = db_processed (pg_db w)"
    and "db_irreversible (pg_db w') = db_irreversible (pg_db w)"
    and "u = cursorFromRow (pg_db w') r"
proof -
  define zero where "zero = \<lparr>cr_source = src, cr_endpoint_url = po_endpointIdentity P,
    cr_last_processed_block = 0, cr_last_irreversible_block = 0, cr_last_successful_sync_at = None\<rparr>"
  obtain db where ins: "insert_cursor (po_endpointIdentity P) src (pg_db w) = Some db"
    by (cases "cursor_row_of (pg_db w) src") (auto simp: insert_cursor_def)
  have app: "List.find Q (cs @ [zero]) = (case List.find Q cs of
      Some r \<Rightarrow> Some r | None \<Rightarrow> if Q zero then Some zero else None)" for Q cs
    by (induction cs) auto
  have same: "cursor_row_of db s = (case cursor_row_of (pg_db w) s of Some r \<Rightarrow> Some r
      | None \<Rightarrow> if s = src then Some zero else None)" for s
    using ins app [of "\<lambda>c. cr_source c = s" "db_cursors (pg_db w)"]
    by (auto simp: insert_cursor_def zero_def cursor_row_of_def split: option.splits)
  obtain r where r: "cursor_row_of db src = Some r"
    using same [of src] by (cases "cursor_row_of (pg_db w) src") simp_all
  have views: "db_processed db = db_processed (pg_db w)" "db_irreversible db = db_irreversible (pg_db w)"
    using same by (auto simp: fun_eq_iff db_processed_def db_irreversible_def zero_def split: option.split)
  have cps: "db_checkpoints db = db_checkpoints (pg_db w)"
    using ins by (auto simp: insert_cursor_def split: option.splits)
  have "(u, w') = (cursorFromRow db r, w\<lparr>pg_db := db\<rparr>)"
    using assms ins r
    by (simp add: lockCursor_def sql_def act_bind_def read_db_def act_run)
  with that [of r] r views cps show thesis by simp
qed


section \<open>The reads\<close>

lemma pg_getCursor_result:
  assumes "db_ok (pg_db w)" and "pg_getCursor P src w = (u, w')"
  shows "w' = w \<and> (\<forall>c. u = Inr c \<longrightarrow> c = cursor_of_db (pg_db w) src)"
proof (cases "cursor_row_of (pg_db w) src")
  case None
  then have "db_processed (pg_db w) src = 0" "db_irreversible (pg_db w) src = 0"
    by (simp_all add: db_processed_def db_irreversible_def)
  then have "initialCursor src = cursor_of_db (pg_db w) src"
    using db_okD [OF assms(1), of src]
    by (simp add: initialCursor_def cursor_of_db_def source_ok_def tip_id_def)
  with None assms(2) show ?thesis
    by (auto simp: pg_getCursor_def read_db_def act_bind_basic act_run)
next
  case (Some r)
  with assms(2) have "w' = w" and "u = cursorFromRow (pg_db w) r"
    by (auto simp: pg_getCursor_def read_db_def act_bind_basic act_run)
  with cursorFromRow_ok [OF db_okD [OF assms(1)] Some] show ?thesis by auto
qed

lemma checkpointFromRow_block:
  assumes "checkpointFromRow H r = Inr c"
  shows "hb_number c = kr_number r \<and> hb_id c = kr_block_id r \<and>
    hb_previousId c = hb_previousId (row_block r)"
  using assms
  by (auto simp: checkpointFromRow_def row_block_def parseDatabaseInteger_def run_simps
      split: if_splits)

lemma pg_checkpoint_result:
  assumes "db_ok (pg_db w)" and "pg_getCurrentCheckpoint P src n w = (p, w')"
  shows "w' = w \<and>
    (\<forall>c. p = Inr (Some c) \<longrightarrow> 1 \<le> n \<and> n \<le> length (db_chain (pg_db w) src) \<and> hb_number c = n \<and>
       hb_id c = hb_id (db_chain (pg_db w) src ! (n - 1)) \<and>
       hb_previousId c = hb_previousId (db_chain (pg_db w) src ! (n - 1))) \<and>
    (p = Inr None \<longrightarrow> n = 0 \<or> length (db_chain (pg_db w) src) < n)"
proof (cases "current_checkpoint (pg_db w) src n")
  case None
  with assms(2) have "w' = w" "p = Inr None"
    by (auto simp: pg_getCurrentCheckpoint_def read_db_def act_bind_basic act_run)
  moreover have "n = 0 \<or> length (db_chain (pg_db w) src) < n"
    using None current_checkpoint_nth [of "pg_db w" src n] db_okD [OF assms(1), of src]
    by (auto simp: source_ok_def split: if_splits)
  ultimately show ?thesis by simp
next
  case (Some r)
  let ?rows = "current_rows src (db_checkpoints (pg_db w))"
  have num: "numbered (db_chain (pg_db w) src)"
    using db_okD [OF assms(1), of src] by (simp add: source_ok_def)
  with Some have n: "1 \<le> n" "n \<le> length ?rows" and r: "r = ?rows ! (n - 1)"
    by (auto simp: current_checkpoint_nth db_chain_def split: if_splits)
  from n have "kr_number r = n" and "db_chain (pg_db w) src ! (n - 1) = row_block r"
    and "n \<le> length (db_chain (pg_db w) src)"
    using numbered_rows [of ?rows "n - 1"] num r by (auto simp: db_chain_def)
  moreover from Some assms(2) have "w' = w"
    and "p = ebind (checkpointFromRow (po_host P) r) (\<lambda>c. Inr (Some c))"
    by (auto simp: pg_getCurrentCheckpoint_def read_db_def act_bind_basic act_run)
  ultimately show ?thesis
    using n(1) checkpointFromRow_block [of "po_host P" r] by (auto simp: run_simps)
qed


section \<open>Applying a block\<close>

lemma insert_checkpointD:
  assumes "insert_checkpoint H k db = Some db'"
  shows "db_checkpoints db' = db_checkpoints db @ [k] \<and> db_cursors db' = db_cursors db"
  using assms by (auto simp: insert_checkpoint_def split: if_splits)

text \<open>An update of a source's cursor, read back.\<close>

lemma update_cursor_views:
  assumes "update_cursor src f db = Some db'" and "\<And>c. cr_source (f c) = cr_source c"
    and "cursor_row_of db src = Some r"
  shows "db_checkpoints db' = db_checkpoints db"
    and "db_processed db' = (db_processed db)(src := cr_last_processed_block (f r))"
    and "db_irreversible db' = (db_irreversible db)(src := cr_last_irreversible_block (f r))"
  using update_cursor_row [OF assms(1,2)] assms(3)
  by (auto simp: db_processed_def db_irreversible_def fun_eq_iff split: option.split)

lemma cursors_views:
  assumes "db_cursors db' = db_cursors db"
  shows "cursor_row_of db' = cursor_row_of db" and "db_processed db' = db_processed db"
    and "db_irreversible db' = db_irreversible db"
  using assms by (simp_all add: cursor_row_of_def db_processed_def db_irreversible_def fun_eq_iff)

text \<open>After \<open>lockCursor\<close>: the row of the cursor, its value, and nothing else changed.\<close>

lemma lockCursor_okE:
  assumes "lockCursor P src w = (Inr c, w')" and "source_ok (pg_db w) src"
  obtains r where "cursor_row_of (pg_db w') src = Some r"
    and "db_checkpoints (pg_db w') = db_checkpoints (pg_db w)"
    and "db_processed (pg_db w') = db_processed (pg_db w)"
    and "db_irreversible (pg_db w') = db_irreversible (pg_db w)"
    and "c = cursor_of_db (pg_db w) src"
proof -
  from assms(1) obtain r where r: "cursor_row_of (pg_db w') src = Some r"
    and v: "db_checkpoints (pg_db w') = db_checkpoints (pg_db w)"
      "db_processed (pg_db w') = db_processed (pg_db w)"
      "db_irreversible (pg_db w') = db_irreversible (pg_db w)"
    and c: "Inr c = cursorFromRow (pg_db w') r"
    by (elim lockCursorE)
  have "source_ok (pg_db w') src"
    using source_ok_cong [OF v(1)] v assms(2) by simp
  from cursorFromRow_ok [OF this r] c v db_chain_cong [OF v(1)] that [of r] r show thesis
    by (simp add: cursor_of_db_def)
qed

text \<open>The work of \<open>applyBlock\<close>, when it comes to its end.\<close>

lemma apply_block_work_result:
  assumes "apply_block_work P src b ds at w = (Inr (), w')" and "source_ok (pg_db w) src"
  obtains cid where
    "db_checkpoints (pg_db w') = db_checkpoints (pg_db w) @ [included_row cid src b at]"
    and "hb_number b = Suc (length (db_chain (pg_db w) src))"
    and "db_chain (pg_db w) src = [] \<or> hb_previousId b = hb_id (last (db_chain (pg_db w) src))"
    and "db_processed (pg_db w') = (db_processed (pg_db w))(src := hb_number b)"
    and "db_irreversible (pg_db w') = db_irreversible (pg_db w)"
proof -
  from assms(1) obtain c w1 cid w2 w3 w4 where lock: "lockCursor P src w = (Inr c, w1)"
    and num: "hb_number b = cu_lastProcessedBlock c + 1"
    and par: "\<not> (cu_lastProcessedBlockId c \<noteq> None \<and> cu_lastProcessedBlockId c \<noteq> Some (hb_previousId b))"
    and uuid: "nextUuidV7 P w1 = (Inr cid, w2)"
    and ins: "sql (insert_checkpoint (po_host P) (included_row cid src b at)) w2 = (Inr (), w3)"
    and each: "act_each (apply_decision P cid at) ds w3 = (Inr (), w4)"
    and upd: "sql (update_cursor src (processed_cursor P b at)) w4 = (Inr (), w')"
    unfolding apply_block_work_def by (elim act_bind_ensureE act_bind_InrE) simp
  from lock assms(2) obtain r where r: "cursor_row_of (pg_db w1) src = Some r"
    and v1: "db_checkpoints (pg_db w1) = db_checkpoints (pg_db w)"
      "db_processed (pg_db w1) = db_processed (pg_db w)"
      "db_irreversible (pg_db w1) = db_irreversible (pg_db w)"
    and cur: "c = cursor_of_db (pg_db w) src"
    by (rule lockCursor_okE)
  have v2: "pg_db w2 = pg_db w1"
    using uuid by (auto simp: nextUuidV7_def Let_def split: prod.splits)
  from ins obtain db3
    where "insert_checkpoint (po_host P) (included_row cid src b at) (pg_db w2) = Some db3"
      and w3: "w3 = w2\<lparr>pg_db := db3\<rparr>" by (rule sql_InrE)
  note ins3 = this(1) [unfolded v2]
  have "same_chain db3 w3" by (simp add: w3 same_chain_def)
  with each have "same_chain db3 w4" by (rule preservesD [OF preserves_block_decisions, rotated])
  with insert_checkpointD [OF ins3] v1(1)
  have v4: "db_checkpoints (pg_db w4) = db_checkpoints (pg_db w) @ [included_row cid src b at]"
    and cs: "db_cursors (pg_db w4) = db_cursors (pg_db w1)" by (simp_all add: same_chain_def)
  note r4 = cursors_views [OF cs]
  from upd obtain db' where "update_cursor src (processed_cursor P b at) (pg_db w4) = Some db'"
    and w': "w' = w4\<lparr>pg_db := db'\<rparr>" by (rule sql_InrE)
  note views = update_cursor_views [OF this(1), of r]
  have irr: "cr_last_irreversible_block r = db_irreversible (pg_db w) src"
    using fun_cong [OF v1(3), of src] r by (simp add: db_irreversible_def)
  have new: "db_checkpoints db' = db_checkpoints (pg_db w4)"
      "db_processed db' = (db_processed (pg_db w))(src := hb_number b)"
      "db_irreversible db' = db_irreversible (pg_db w)"
    using views r v1 r4 irr by (auto simp: processed_cursor_def fun_eq_iff)
  show thesis
    by (rule that [of cid])
      (use new v4 w' num par cur in \<open>auto simp: cursor_of_db_def tip_id_def split: if_splits\<close>)
qed


lemma row_block_included [simp]: "row_block (included_row cid src b at) = b"
    "kr_state (included_row cid src b at) = Included"
    "kr_number (included_row cid src b at) = hb_number b"
  by (simp_all add: row_block_def included_row_def)

lemma current_rows_included:
  "current_rows s (ks @ [included_row cid src b at]) =
    current_rows s ks @ (if s = src then [included_row cid src b at] else [])"
  by (auto simp: current_rows_def included_row_def)

lemma apply_views:
  assumes "db_ok db" and "db_checkpoints db' = db_checkpoints db @ [included_row cid src b at]"
    and "hb_number b = Suc (length (db_chain db src))"
    and "db_chain db src = [] \<or> hb_previousId b = hb_id (last (db_chain db src))"
    and "db_processed db' = (db_processed db)(src := hb_number b)"
    and "db_irreversible db' = db_irreversible db"
  shows "db_ok db' \<and> db_chain db' = (db_chain db)(src := db_chain db src @ [b])"
proof -
  have chain: "db_chain db' = (db_chain db)(src := db_chain db src @ [b])"
    using assms(2) by (auto simp: db_chain_def current_rows_included fun_eq_iff)
  have "source_ok db' s" for s
    using db_okD [OF assms(1), of s] assms(2-6) chain
    by (auto simp: source_ok_def current_rows_included linked_append numbered_append)
  then show ?thesis using chain by (simp add: db_ok_def)
qed

lemma pg_applyBlock_result:
  assumes "db_ok (pg_db w)" and "pg_applyBlock P src b ds at w = (u, w')"
  shows "db_ok (pg_db w') \<and> db_irreversible (pg_db w') = db_irreversible (pg_db w) \<and>
    (db_chain (pg_db w') = (db_chain (pg_db w))(src := db_chain (pg_db w) src @ [b]) \<or>
     (u \<noteq> Inr () \<and> db_chain (pg_db w') = db_chain (pg_db w)))"
  using assms(2) unfolding pg_applyBlock_def
proof (cases rule: inTransactionE)
  case rolled_back
  with assms(1) show ?thesis by simp
next
  case (committed w1)
  have "source_ok (pg_db (w\<lparr>pg_faults := tl (pg_faults w)\<rparr>)) src"
    using db_okD [OF assms(1)] by simp
  from committed(1) this obtain cid where
    "db_checkpoints (pg_db w1) = db_checkpoints (pg_db w) @ [included_row cid src b at]"
    and "hb_number b = Suc (length (db_chain (pg_db w) src))"
    and "db_chain (pg_db w) src = [] \<or> hb_previousId b = hb_id (last (db_chain (pg_db w) src))"
    and "db_processed (pg_db w1) = (db_processed (pg_db w))(src := hb_number b)"
    and irr: "db_irreversible (pg_db w1) = db_irreversible (pg_db w)"
    by (rule apply_block_work_result) simp
  from apply_views [OF assms(1) this] irr committed(2) show ?thesis by simp
qed

section \<open>Reverting\<close>

definition reverted_to :: "string \<Rightarrow> nat \<Rightarrow> string \<Rightarrow> checkpoint_row \<Rightarrow> checkpoint_row" where
  "reverted_to src n at k =
     (if kr_source k = src \<and> kr_number k > n \<and> kr_state k \<noteq> Reverted
      then k\<lparr>kr_state := Reverted, kr_reverted_at := Some at\<rparr> else k)"

lemma current_rows_reverted:
  "current_rows s (map (reverted_to src n at) ks) =
    (if s = src then filter (\<lambda>k. kr_number k \<le> n) (current_rows s ks) else current_rows s ks)"
  by (induction ks) (auto simp: current_rows_def reverted_to_def)

lemma filter_le_number:
  assumes "numbered (map row_block rs)"
  shows "filter (\<lambda>k. kr_number k \<le> n) rs = take n rs"
  using assms
proof (induction rs rule: rev_induct)
  case (snoc k rs)
  then have num: "numbered (map row_block rs)" and k: "kr_number k = Suc (length rs)"
    by (simp_all add: numbered_append)
  show ?case using snoc.IH [OF num] k by auto
qed simp

lemma revert_views:
  assumes "db_ok db" and "db_checkpoints db' = map (reverted_to src n at) (db_checkpoints db)"
    and "n \<le> length (db_chain db src)" and "db_irreversible db src \<le> n"
    and "db_processed db' = (db_processed db)(src := n)"
    and "db_irreversible db' = db_irreversible db"
  shows "db_ok db' \<and> db_chain db' = (db_chain db)(src := take n (db_chain db src))"
proof -
  have num: "numbered (map row_block (current_rows src (db_checkpoints db)))"
    using db_okD [OF assms(1), of src] by (simp add: source_ok_def db_chain_def)
  have rows: "current_rows s (db_checkpoints db') = (if s = src
      then take n (current_rows s (db_checkpoints db)) else current_rows s (db_checkpoints db))" for s
    using assms(2) filter_le_number [OF num] by (simp add: current_rows_reverted)
  have chain: "db_chain db' = (db_chain db)(src := take n (db_chain db src))"
    using rows by (auto simp: db_chain_def fun_eq_iff take_map)
  have "source_ok db' s" for s
    using db_okD [OF assms(1), of s] assms(3-6) chain rows
    by (auto simp: source_ok_def linked_take numbered_take list_all_iff dest: in_set_takeD)
  then show ?thesis using chain by (simp add: db_ok_def)
qed


lemma revert_work_result:
  assumes "revert_work P src n at w = (Inr (), w')" and "source_ok (pg_db w) src"
  shows "db_checkpoints (pg_db w') = map (reverted_to src n at) (db_checkpoints (pg_db w)) \<and>
    db_irreversible (pg_db w) src \<le> n \<and>
    db_processed (pg_db w') = (db_processed (pg_db w))(src := n) \<and>
    db_irreversible (pg_db w') = db_irreversible (pg_db w)"
proof -
  from assms(1) obtain c w1 w2 w3 w4 where lock: "lockCursor P src w = (Inr c, w1)"
    and le: "\<not> n < cu_lastIrreversibleBlock c"
    and evs: "sql (revert_events src n at) w1 = (Inr (), w2)"
    and ops: "sql (revert_operations src n at) w2 = (Inr (), w3)"
    and cps: "sql (revert_checkpoints src n at) w3 = (Inr (), w4)"
    and upd: "sql (update_cursor src (\<lambda>c. c\<lparr>cr_last_processed_block := n\<rparr>)) w4 = (Inr (), w')"
    unfolding revert_work_def by (elim act_bind_ensureE act_bind_InrE) simp
  from lock assms(2) obtain r where r: "cursor_row_of (pg_db w1) src = Some r"
    and v1: "db_checkpoints (pg_db w1) = db_checkpoints (pg_db w)"
      "db_processed (pg_db w1) = db_processed (pg_db w)"
      "db_irreversible (pg_db w1) = db_irreversible (pg_db w)"
    and cur: "c = cursor_of_db (pg_db w) src"
    by (rule lockCursor_okE)
  have v2: "same_chain (pg_db w1) w2"
    using evs by (rule sql_InrE) (auto simp: revert_events_def same_chain_def)
  have v3: "same_chain (pg_db w1) w3"
    using ops v2 by (elim sql_InrE)
      (auto simp: revert_operations_def same_chain_def Let_def split: if_splits)
  have v4: "db_checkpoints (pg_db w4) = map (reverted_to src n at) (db_checkpoints (pg_db w))"
    and cs: "db_cursors (pg_db w4) = db_cursors (pg_db w1)"
    using cps v3 v1(1) by (auto elim!: sql_InrE
        simp: revert_checkpoints_def same_chain_def Let_def reverted_to_def split: if_splits)
  note r4 = cursors_views [OF cs]
  from upd obtain db' where "update_cursor src (\<lambda>c. c\<lparr>cr_last_processed_block := n\<rparr>) (pg_db w4) = Some db'"
    and w': "w' = w4\<lparr>pg_db := db'\<rparr>" by (rule sql_InrE)
  note views = update_cursor_views [OF this(1), of r]
  have irr: "cr_last_irreversible_block r = db_irreversible (pg_db w) src"
    using fun_cong [OF v1(3), of src] r by (simp add: db_irreversible_def)
  show ?thesis
    using views r v1 r4 irr v4 w' le cur by (auto simp: cursor_of_db_def fun_eq_iff)
qed

lemma pg_revertAfter_result:
  assumes "db_ok (pg_db w)" and "n \<le> length (db_chain (pg_db w) src)"
    and "pg_revertAfter P src n at w = (u, w')"
  shows "db_ok (pg_db w') \<and> db_irreversible (pg_db w') = db_irreversible (pg_db w) \<and>
    ((db_irreversible (pg_db w) src \<le> n \<and>
      db_chain (pg_db w') = (db_chain (pg_db w))(src := take n (db_chain (pg_db w) src))) \<or>
     (u \<noteq> Inr () \<and> db_chain (pg_db w') = db_chain (pg_db w)))"
  using assms(3) unfolding pg_revertAfter_def
proof (cases rule: inTransactionE)
  case rolled_back
  with assms(1) show ?thesis by simp
next
  case (committed w1)
  have ok: "source_ok (pg_db (w\<lparr>pg_faults := tl (pg_faults w)\<rparr>)) src"
    using db_okD [OF assms(1)] by simp
  from revert_work_result [OF committed(1) this]
  have "db_checkpoints (pg_db w1) = map (reverted_to src n at) (db_checkpoints (pg_db w))"
    and irr: "db_irreversible (pg_db w) src \<le> n"
    and "db_processed (pg_db w1) = (db_processed (pg_db w))(src := n)"
    and same: "db_irreversible (pg_db w1) = db_irreversible (pg_db w)"
    by simp_all
  from revert_views [OF assms(1) this(1) assms(2) irr this(3) same] irr same committed(2)
  show ?thesis by simp
qed

section \<open>Finalizing\<close>

definition finalized_to :: "string \<Rightarrow> nat \<Rightarrow> string \<Rightarrow> checkpoint_row \<Rightarrow> checkpoint_row" where
  "finalized_to src n at k =
     (if kr_source k = src \<and> kr_number k \<le> n \<and> kr_state k = Included
      then k\<lparr>kr_state := Irreversible, kr_irreversible_at := Some at\<rparr> else k)"

lemma current_rows_finalized:
  "current_rows s (map (finalized_to src n at) ks) = map (finalized_to src n at) (current_rows s ks)"
  by (induction ks) (auto simp: current_rows_def finalized_to_def)

lemma row_block_finalized [simp]: "row_block (finalized_to src n at k) = row_block k"
  by (simp add: row_block_def finalized_to_def)

lemma finalize_views:
  assumes "db_ok db" and "db_checkpoints db' = map (finalized_to src n at) (db_checkpoints db)"
    and "n \<le> length (db_chain db src)"
    and "db_processed db' = db_processed db"
    and "db_irreversible db' = (db_irreversible db)(src := max (db_irreversible db src) n)"
  shows "db_ok db' \<and> db_chain db' = db_chain db"
proof -
  have chain: "db_chain db' = db_chain db"
    using assms(2) by (simp add: db_chain_def current_rows_finalized comp_def fun_eq_iff)
  have "source_ok db' s" for s
  proof -
    have "kr_state k \<noteq> Reverted \<and> kr_source k = s" if "k \<in> set (current_rows s (db_checkpoints db))" for k
      using that by (auto simp: current_rows_def)
    then show ?thesis
      using db_okD [OF assms(1), of s] assms(2-5) chain
      by (auto simp: source_ok_def current_rows_finalized list_all_iff finalized_to_def
          split: if_splits) (metis projection_state.exhaust)+
  qed
  then show ?thesis using chain by (simp add: db_ok_def)
qed


lemma finalize_work_result:
  assumes "finalize_work P src n at w = (Inr (), w')" and "source_ok (pg_db w) src"
  shows "db_checkpoints (pg_db w') = map (finalized_to src n at) (db_checkpoints (pg_db w)) \<and>
    n \<le> length (db_chain (pg_db w) src) \<and>
    db_processed (pg_db w') = db_processed (pg_db w) \<and>
    db_irreversible (pg_db w') =
      (db_irreversible (pg_db w))(src := max (db_irreversible (pg_db w) src) n)"
proof -
  from assms(1) obtain c w1 w2 w3 w4 w5 where lock: "lockCursor P src w = (Inr c, w1)"
    and le: "\<not> n > cu_lastProcessedBlock c"
    and evs: "sql (finalize_events src n at) w1 = (Inr (), w2)"
    and ops: "sql (finalize_operations src n at) w2 = (Inr (), w3)"
    and cps: "sql (finalize_checkpoints src n at) w3 = (Inr (), w4)"
    and upd: "sql (update_cursor src (\<lambda>c. c
       \<lparr>cr_last_irreversible_block := max (cr_last_irreversible_block c) n,
         cr_last_successful_sync_at := Some at\<rparr>)) w4 = (Inr (), w5)"
    and mat: "materializeIrreversibleEvents P src n at w5 = (Inr (), w')"
    unfolding finalize_work_def by (elim act_bind_ensureE act_bind_InrE) simp
  from lock assms(2) obtain r where r: "cursor_row_of (pg_db w1) src = Some r"
    and v1: "db_checkpoints (pg_db w1) = db_checkpoints (pg_db w)"
      "db_processed (pg_db w1) = db_processed (pg_db w)"
      "db_irreversible (pg_db w1) = db_irreversible (pg_db w)"
    and cur: "c = cursor_of_db (pg_db w) src"
    by (rule lockCursor_okE)
  have v2: "same_chain (pg_db w1) w2"
    using evs by (rule sql_InrE) (auto simp: finalize_events_def same_chain_def)
  have v3: "same_chain (pg_db w1) w3"
    using ops v2 by (elim sql_InrE) (auto simp: finalize_operations_def same_chain_def)
  have v4: "db_checkpoints (pg_db w4) = map (finalized_to src n at) (db_checkpoints (pg_db w))"
    and cs: "db_cursors (pg_db w4) = db_cursors (pg_db w1)"
    using cps v3 v1(1) by (auto elim!: sql_InrE
        simp: finalize_checkpoints_def same_chain_def finalized_to_def)
  note r4 = cursors_views [OF cs]
  from upd obtain db' where "update_cursor src (\<lambda>c. c
       \<lparr>cr_last_irreversible_block := max (cr_last_irreversible_block c) n,
         cr_last_successful_sync_at := Some at\<rparr>) (pg_db w4) = Some db'"
    and w5: "w5 = w4\<lparr>pg_db := db'\<rparr>" by (rule sql_InrE)
  note views = update_cursor_views [OF this(1), of r]
  have "same_chain db' w5" by (simp add: w5 same_chain_def)
  with mat have "same_chain db' w'" by (rule preservesD [OF preserves_materialize, rotated])
  then have v': "db_checkpoints (pg_db w') = db_checkpoints db'"
    and cs': "db_cursors (pg_db w') = db_cursors db'" by (simp_all add: same_chain_def)
  note r' = cursors_views [OF cs']
  have row: "cr_last_irreversible_block r = db_irreversible (pg_db w) src"
      "cr_last_processed_block r = db_processed (pg_db w) src"
    using fun_cong [OF v1(3), of src] fun_cong [OF v1(2), of src] r
    by (simp_all add: db_irreversible_def db_processed_def)
  show ?thesis
    using views r v1 r4 row v4 v' r' le cur by (auto simp: cursor_of_db_def fun_eq_iff)
qed

lemma pg_finalizeThrough_result:
  assumes "db_ok (pg_db w)" and "pg_finalizeThrough P src n at w = (u, w')"
  shows "db_ok (pg_db w') \<and> db_chain (pg_db w') = db_chain (pg_db w) \<and>
    ((n \<le> length (db_chain (pg_db w) src) \<and> db_irreversible (pg_db w') =
        (db_irreversible (pg_db w))(src := max (db_irreversible (pg_db w) src) n)) \<or>
     (u \<noteq> Inr () \<and> db_irreversible (pg_db w') = db_irreversible (pg_db w)))"
  using assms(2) unfolding pg_finalizeThrough_def
proof (cases rule: inTransactionE)
  case rolled_back
  with assms(1) show ?thesis by simp
next
  case (committed w1)
  have "source_ok (pg_db (w\<lparr>pg_faults := tl (pg_faults w)\<rparr>)) src"
    using db_okD [OF assms(1)] by simp
  from finalize_work_result [OF committed(1) this]
  have "db_checkpoints (pg_db w1) = map (finalized_to src n at) (db_checkpoints (pg_db w))"
    and n: "n \<le> length (db_chain (pg_db w) src)"
    and "db_processed (pg_db w1) = db_processed (pg_db w)"
    and irr: "db_irreversible (pg_db w1) =
        (db_irreversible (pg_db w))(src := max (db_irreversible (pg_db w) src) n)"
    by simp_all
  from finalize_views [OF assms(1) this(1,2,3,4)] n irr committed(2) show ?thesis by simp
qed

section \<open>The contract\<close>

definition pg_inv :: "'u pg \<Rightarrow> bool" where
  "pg_inv w \<longleftrightarrow> db_ok (pg_db w)"

definition pg_chain :: "'u pg \<Rightarrow> string \<Rightarrow> haf_block list" where
  "pg_chain w = db_chain (pg_db w)"

definition pg_irreversible :: "'u pg \<Rightarrow> string \<Rightarrow> nat" where
  "pg_irreversible w = db_irreversible (pg_db w)"

interpretation pg: store_contract "pg_store (P :: 'u pg_options)" pg_inv pg_chain pg_irreversible
proof unfold_locales
  fix w :: "'u pg" and src
  assume "pg_inv w"
  then show "linked (pg_chain w src) \<and> numbered (pg_chain w src) \<and>
      pg_irreversible w src \<le> length (pg_chain w src)"
    using db_okD [of "pg_db w" src]
    by (simp add: pg_inv_def pg_chain_def pg_irreversible_def source_ok_def)
next
  fix w :: "'u pg" and src r w'
  assume "pg_inv w" and "getCursor (pg_store P) src w = (r, w')"
  then show "w' = w \<and> (\<forall>c. r = Inr c \<longrightarrow> c = \<lparr>cu_source = src,
      cu_lastProcessedBlock = length (pg_chain w src), cu_lastProcessedBlockId = tip_id (pg_chain w src),
      cu_lastIrreversibleBlock = pg_irreversible w src\<rparr>)"
    using pg_getCursor_result [of w P src r w']
    by (simp add: pg_inv_def pg_chain_def pg_irreversible_def pg_store_def cursor_of_db_def)
next
  fix w :: "'u pg" and src n p w'
  assume "pg_inv w" and "getCurrentCheckpoint (pg_store P) src n w = (p, w')"
  then show "w' = w \<and> (\<forall>c. p = Inr (Some c) \<longrightarrow> 1 \<le> n \<and> n \<le> length (pg_chain w src) \<and>
      hb_number c = n \<and> hb_id c = hb_id (pg_chain w src ! (n - 1)) \<and>
      hb_previousId c = hb_previousId (pg_chain w src ! (n - 1))) \<and>
      (p = Inr None \<longrightarrow> n = 0 \<or> length (pg_chain w src) < n)"
    using pg_checkpoint_result [of w P src n p w']
    by (simp add: pg_inv_def pg_chain_def pg_store_def)
next
  fix w :: "'u pg" and src b ds at u w'
  assume "pg_inv w" and "applyBlock (pg_store P) src b ds at w = (u, w')"
  then show "pg_inv w' \<and> pg_irreversible w' = pg_irreversible w \<and>
      (pg_chain w' = (pg_chain w)(src := pg_chain w src @ [b]) \<or> u \<noteq> Inr () \<and> pg_chain w' = pg_chain w)"
    using pg_applyBlock_result [of w P src b ds at u w']
    by (simp add: pg_inv_def pg_chain_def pg_irreversible_def pg_store_def)
next
  fix w :: "'u pg" and src n at u w'
  assume "pg_inv w" and "n \<le> length (pg_chain w src)"
    and "revertAfter (pg_store P) src n at w = (u, w')"
  then show "pg_inv w' \<and> pg_irreversible w' = pg_irreversible w \<and>
      (pg_irreversible w src \<le> n \<and> pg_chain w' = (pg_chain w)(src := take n (pg_chain w src)) \<or>
       u \<noteq> Inr () \<and> pg_chain w' = pg_chain w)"
    using pg_revertAfter_result [of w n src P at u w']
    by (simp add: pg_inv_def pg_chain_def pg_irreversible_def pg_store_def)
next
  fix w :: "'u pg" and src n at u w'
  assume "pg_inv w" and "finalizeThrough (pg_store P) src n at w = (u, w')"
  then show "pg_inv w' \<and> pg_chain w' = pg_chain w \<and>
      (n \<le> length (pg_chain w src) \<and>
       pg_irreversible w' = (pg_irreversible w)(src := max (pg_irreversible w src) n) \<or>
       u \<noteq> Inr () \<and> pg_irreversible w' = pg_irreversible w)"
    using pg_finalizeThrough_result [of w P src n at u w']
    by (simp add: pg_inv_def pg_chain_def pg_irreversible_def pg_store_def)
qed

end
