(* ===== verification/Projection.thy ===== *)
theory Projection
  imports Haf_Fixtures Pg_Contract
begin

text \<open>
  The projector over the PostgreSQL store: what every cycle keeps, what a finished cycle has
  done, what finality rests on, and the two events the store cannot get past. The facts of
  \<open>Haf_Projector\<close>'s contract are read here at its interpretation on the tables.
\<close>

section \<open>A concrete store\<close>

text \<open>Two stored blocks of one source, the first irreversible.\<close>

definition fixture_uuid :: "nat \<Rightarrow> string" where
  "fixture_uuid n = ''00000000-0000-7000-8000-00000000000'' @ [char_of (48 + n)]"

definition fixture_pg_options :: "nat pg_options" where
  "fixture_pg_options = \<lparr>po_host = fixture_host,
     po_ref = \<lparr>rt_rounds = [], rt_revisions = [], rt_map_versions = [], rt_definitions = [],
       rt_players = [], rt_payments = []\<rparr>,
     po_endpointIdentity = ''https://haf.example/'',
     po_nextUuidV7 = (\<lambda>n. (fixture_uuid n, Suc n))\<rparr>"

definition plain_block :: "nat \<Rightarrow> string \<Rightarrow> string \<Rightarrow> haf_block" where
  "plain_block n block_id previous_id = \<lparr>hb_number = n, hb_id = block_id,
     hb_previousId = previous_id, hb_timestamp = ''2026-07-16T00:00:00.000Z''\<rparr>"

definition fixture_row :: "nat \<Rightarrow> string \<Rightarrow> string \<Rightarrow> projection_state \<Rightarrow> checkpoint_row" where
  "fixture_row n block_id previous_id st =
     (included_row (fixture_uuid n) ''haf'' (plain_block n block_id previous_id)
        ''2026-07-16T00:00:00.000Z'')\<lparr>kr_state := st\<rparr>"

definition fixture_pg :: "nat pg" where
  "fixture_pg = \<lparr>pg_db = \<lparr>db_checkpoints = [fixture_row 1 ''a1'' ''a0'' Irreversible,
        fixture_row 2 ''a2'' ''a1'' Included],
      db_operations = [], db_match_events = [],
      db_cursors = [\<lparr>cr_source = ''haf'', cr_endpoint_url = ''https://haf.example/'',
        cr_last_processed_block = 2, cr_last_irreversible_block = 1,
        cr_last_successful_sync_at = None\<rparr>],
      db_results = [], db_changes = [], db_collectible_events = [], db_instances = []\<rparr>,
     pg_ids = 3, pg_faults = []\<rparr>"

definition fixture_projector :: "(fixture_chain, nat pg, unit) projector" where
  "fixture_projector = projector_new (FixtureHafSource ''haf'') (pg_store fixture_pg_options)
     (\<lambda>op block. None) None None (\<lambda>t. (''2026-07-16T00:00:00.000Z'', t))"

definition fixture_world ::
  "haf_block list \<Rightarrow> nat \<Rightarrow> (fixture_chain, nat pg, unit) projector_world" where
  "fixture_world blocks irr = \<lparr>pw_source = \<lparr>fx_lastIrreversibleBlock = irr,
       fx_irreversibleBlockIdOverride = None, fx_blocks = blocks, fx_operations = []\<rparr>,
     pw_store = fixture_pg, pw_clock = ()\<rparr>"

definition fixture_blocks :: "haf_block list" where
  "fixture_blocks = [plain_block 1 ''a1'' ''a0'', plain_block 2 ''a2'' ''a1'',
     plain_block 3 ''a3'' ''a2'']"

lemma fixture_db_ok: "db_ok (pg_db fixture_pg)"
proof -
  have "source_ok (pg_db fixture_pg) src" for src
    by (cases "src = ''haf''")
      (simp_all add: source_ok_def fixture_pg_def db_chain_def current_rows_def fixture_row_def
        included_row_def plain_block_def row_block_def numbered_def db_processed_def
        db_irreversible_def cursor_row_of_def less_Suc_eq all_conj_distrib)
  then show ?thesis by (simp add: db_ok_def)
qed

text \<open>A cycle that applies the third block and finalizes the second.\<close>

lemma fixture_run:
  "fst (runOnce fixture_projector (fixture_world fixture_blocks 2)) =
     Inr \<lparr>rr_appliedBlocks = 1, rr_finalizedThrough = 2, rr_revertedTo = None, rr_sourceHead = 3\<rparr>"
  by code_simp

text \<open>A cycle on a source whose second block is another one.\<close>

definition fork_blocks :: "haf_block list" where
  "fork_blocks = [plain_block 1 ''a1'' ''a0'', plain_block 2 ''b2'' ''a1'']"

lemma fixture_fork:
  "fst (runOnce fixture_projector (fixture_world fork_blocks 1)) =
     Inr \<lparr>rr_appliedBlocks = 0, rr_finalizedThrough = 1, rr_revertedTo = Some 1, rr_sourceHead = 2\<rparr>"
  by code_simp

section \<open>Every cycle\<close>

text \<open>
  C1. Irreversible history is never rewritten: whatever the source answers, whatever the clock
  says and whichever transactions fail or lose their reply, a cycle of the projector leaves
  every source's checkpoints a linked chain with the cursor at its end, lowers no source's
  irreversible block, and keeps the blocks up to it as they were.
\<close>

theorem projector_keeps_history:
  assumes "pj_store P = pg_store Q" and "db_ok (pg_db (pw_store w))" and "runOnce P w = (r, w')"
  shows "db_ok (pg_db (pw_store w')) \<and>
    (\<forall>src. db_irreversible (pg_db (pw_store w)) src \<le> db_irreversible (pg_db (pw_store w')) src \<and>
       take (db_irreversible (pg_db (pw_store w)) src) (db_chain (pg_db (pw_store w')) src) =
       take (db_irreversible (pg_db (pw_store w)) src) (db_chain (pg_db (pw_store w)) src))"
  using pg.runOnce_result [OF assms(1) _ assms(3)] assms(2)
  by (simp add: pg_inv_def pg_chain_def pg_irreversible_def pg.extends_def)

text \<open>
  C7. A cycle that returns has done what its result says: it appended \<open>appliedBlocks\<close> blocks,
  at most \<open>maxBlocksPerRun\<close>, and then, when it reports an ancestor, cut the chain back to it,
  never below the irreversible block; \<open>finalizedThrough\<close> is the irreversible block now stored.
\<close>

theorem projector_cycle_accounts:
  assumes "pj_store P = pg_store Q" and "db_ok (pg_db (pw_store w))"
    and "runOnce P w = (Inr res, w')"
  shows "\<exists>new. length new = rr_appliedBlocks res \<and> length new \<le> pj_maxBlocksPerRun P \<and>
    db_irreversible (pg_db (pw_store w')) (sourceName (pj_source P)) = rr_finalizedThrough res \<and>
    (case rr_revertedTo res of
       None \<Rightarrow> db_chain (pg_db (pw_store w')) (sourceName (pj_source P)) =
         db_chain (pg_db (pw_store w)) (sourceName (pj_source P)) @ new
     | Some a \<Rightarrow> db_irreversible (pg_db (pw_store w)) (sourceName (pj_source P)) \<le> a \<and>
         a \<le> length (db_chain (pg_db (pw_store w)) (sourceName (pj_source P)) @ new) \<and>
         db_chain (pg_db (pw_store w')) (sourceName (pj_source P)) =
           take a (db_chain (pg_db (pw_store w)) (sourceName (pj_source P)) @ new) \<and>
         db_irreversible (pg_db (pw_store w')) (sourceName (pj_source P)) =
           db_irreversible (pg_db (pw_store w)) (sourceName (pj_source P)))"
  using pg.runOnce_result [OF assms(1) _ assms(3),
      unfolded pg_inv_def pg_chain_def pg_irreversible_def pg.cycled_def] assms(2) by blast


theorem projector_keeps_history_witness:
  "db_ok (pg_db fixture_pg) \<and>
   db_ok (pg_db (pw_store (snd (runOnce fixture_projector (fixture_world fixture_blocks 2)))))"
proof
  obtain r w' where run: "runOnce fixture_projector (fixture_world fixture_blocks 2) = (r, w')"
    by fastforce
  have store: "pj_store fixture_projector = pg_store fixture_pg_options"
    by (simp add: fixture_projector_def projector_new_def)
  have "db_ok (pg_db (pw_store (fixture_world fixture_blocks 2)))"
    by (simp add: fixture_world_def fixture_db_ok)
  from projector_keeps_history [OF store this run] run
  show "db_ok (pg_db (pw_store (snd (runOnce fixture_projector (fixture_world fixture_blocks 2)))))"
    by simp
qed (rule fixture_db_ok)

theorem projector_cycle_accounts_witness:
  "db_irreversible (pg_db (pw_store (snd (runOnce fixture_projector
     (fixture_world fixture_blocks 2))))) ''haf'' = 2"
proof -
  let ?w = "fixture_world fixture_blocks 2"
  obtain w' where run: "runOnce fixture_projector ?w =
      (Inr \<lparr>rr_appliedBlocks = 1, rr_finalizedThrough = 2, rr_revertedTo = None, rr_sourceHead = 3\<rparr>, w')"
    using fixture_run by (metis prod.collapse)
  have store: "pj_store fixture_projector = pg_store fixture_pg_options"
    and name: "sourceName (pj_source fixture_projector) = ''haf''"
    by (simp_all add: fixture_projector_def projector_new_def FixtureHafSource_def)
  have "db_ok (pg_db (pw_store ?w))"
    by (simp add: fixture_world_def fixture_db_ok)
  from projector_cycle_accounts [OF store this run] run name show ?thesis by auto
qed


section \<open>Forks and finality\<close>

text \<open>
  C8. When a fork is reconciled against a source that answers steadily, the chain is cut back
  to the highest block, from the starting height down, that the source still has: the ancestor
  agrees with the source (unless it is the empty chain), and no higher block does.
\<close>

theorem reconcile_finds_highest_ancestor:
  assumes "pj_store P = pg_store Q" and "db_ok (pg_db (pw_store w))"
    and "\<And>m. getBlock (pj_source P) m (pw_source w) = (g m, pw_source w)"
    and "start \<le> length (db_chain (pg_db (pw_store w)) (sourceName (pj_source P)))"
    and "reconcileFork P c start w = (Inr a, w')"
  shows "db_chain (pg_db (pw_store w')) (sourceName (pj_source P)) =
      take a (db_chain (pg_db (pw_store w)) (sourceName (pj_source P))) \<and>
    (0 < a \<longrightarrow> agrees g (db_chain (pg_db (pw_store w)) (sourceName (pj_source P))) a) \<and>
    (\<forall>m. a < m \<and> m \<le> start \<longrightarrow>
       \<not> agrees g (db_chain (pg_db (pw_store w)) (sourceName (pj_source P))) m)"
  using pg.reconcile_deepest [OF assms(1) _ assms(3) _ assms(5) [unfolded reconcileFork_def],
      unfolded pg_inv_def pg_chain_def]
    pg.reconcile_from_cuts [OF assms(1) _ _ assms(5) [unfolded reconcileFork_def],
      unfolded pg_inv_def pg_chain_def pg.cuts_def] assms(2,4)
  by simp

definition fixture_cursor :: cursor where
  "fixture_cursor = \<lparr>cu_source = ''haf'', cu_lastProcessedBlock = 2,
     cu_lastProcessedBlockId = Some ''a2'', cu_lastIrreversibleBlock = 1\<rparr>"

lemma fixture_parts:
  "pj_store fixture_projector = pg_store fixture_pg_options"
  "sourceName (pj_source fixture_projector) = ''haf''"
  "pw_store (fixture_world bs n) = fixture_pg"
  "db_chain (pg_db fixture_pg) ''haf'' = [plain_block 1 ''a1'' ''a0'', plain_block 2 ''a2'' ''a1'']"
  by (simp_all add: fixture_projector_def projector_new_def FixtureHafSource_def fixture_world_def
      fixture_pg_def db_chain_def current_rows_def fixture_row_def included_row_def plain_block_def
      row_block_def)

theorem reconcile_finds_highest_ancestor_witness:
  "db_chain (pg_db (pw_store (snd (reconcileFork fixture_projector fixture_cursor 2
     (fixture_world fork_blocks 1))))) ''haf'' = [plain_block 1 ''a1'' ''a0'']"
proof -
  let ?w = "fixture_world fork_blocks 1"
  have "fst (reconcileFork fixture_projector fixture_cursor 2 ?w) = Inr 1" by code_simp
  then obtain w' where run: "reconcileFork fixture_projector fixture_cursor 2 ?w = (Inr 1, w')"
    by (metis prod.collapse)
  have steady: "getBlock (pj_source fixture_projector) m (pw_source ?w) =
      (case fixture_block_at fork_blocks m of None \<Rightarrow> Inl (HafProjectorError invalid_source_response)
        | Some b \<Rightarrow> Inr b, pw_source ?w)" for m
    by (simp add: fixture_projector_def projector_new_def FixtureHafSource_def fixture_world_def
        split: option.split)
  have "db_ok (pg_db (pw_store ?w))" by (simp add: fixture_parts fixture_db_ok)
  from reconcile_finds_highest_ancestor [OF fixture_parts(1) this steady _ run] run
  show ?thesis by (simp add: fixture_parts)
qed

text \<open>
  C2. Finality is never taken on the node's word alone: when the finalizing step of a cycle
  moves the irreversible block, it moves it to the lower of the node's irreversible block and
  the end of the stored chain; the indexer's block at the node's height has the node's id, and
  its block at the finalized height is the stored one, by number, id and parent.
\<close>

theorem finality_needs_agreement:
  assumes "pj_store P = pg_store Q" and "db_ok (pg_db (pw_store w))"
    and "finalize_cycle P c irr head w = (r, w')"
    and "db_irreversible (pg_db (pw_store w')) (sourceName (pj_source P)) \<noteq>
      db_irreversible (pg_db (pw_store w)) (sourceName (pj_source P))"
    and "n = db_irreversible (pg_db (pw_store w')) (sourceName (pj_source P))"
  shows "n = min (ib_number irr) (cu_lastProcessedBlock c) \<and> 0 < n \<and> ib_number irr \<le> head \<and>
    (\<exists>hafah s1 current s2.
       getBlock (pj_source P) (ib_number irr) (pw_source w) = (Inr hafah, s1) \<and>
       ib_id irr = Some (hb_id hafah) \<and>
       (if n = ib_number irr then current = hafah else getBlock (pj_source P) n s1 = (Inr current, s2)) \<and>
       hb_number current = n \<and>
       hb_id (db_chain (pg_db (pw_store w)) (sourceName (pj_source P)) ! (n - 1)) = hb_id current \<and>
       hb_previousId (db_chain (pg_db (pw_store w)) (sourceName (pj_source P)) ! (n - 1)) =
         hb_previousId current)"
proof -
  have inv: "pg_inv (pw_store w)" using assms(2) by (simp add: pg_inv_def)
  from pg.finalize_cycle_agrees [OF assms(1) inv assms(3)] assms(4,5) obtain v w1 where
      n: "n = min (ib_number irr) (cu_lastProcessedBlock c)"
    and run: "assertFinalityAgreement P irr n head w = (Inr v, w1)"
    by (auto simp: pg_irreversible_def)
  from pg.assertFinality_agrees [OF assms(1) inv run] n show ?thesis
    by (auto simp: pg_chain_def)
qed

theorem finality_needs_agreement_witness:
  "ib_id (\<lparr>ib_number = 2, ib_id = Some ''a2''\<rparr>) =
     Some (hb_id (db_chain (pg_db fixture_pg) ''haf'' ! 1))"
proof -
  let ?w = "fixture_world fixture_blocks 2" and ?irr = "\<lparr>ib_number = 2, ib_id = Some ''a2''\<rparr>"
  have "db_irreversible (pg_db (pw_store (snd (finalize_cycle fixture_projector fixture_cursor ?irr 3 ?w))))
      ''haf'' = 2" by code_simp
  moreover obtain r w' where run: "finalize_cycle fixture_projector fixture_cursor ?irr 3 ?w = (r, w')"
    by fastforce
  ultimately have n: "2 = db_irreversible (pg_db (pw_store w')) (sourceName (pj_source fixture_projector))"
    by (simp add: fixture_parts)
  have old: "db_irreversible (pg_db (pw_store ?w)) (sourceName (pj_source fixture_projector)) = 1"
    by (simp add: fixture_parts fixture_pg_def db_irreversible_def cursor_row_of_def)
  have "db_ok (pg_db (pw_store ?w))" by (simp add: fixture_parts fixture_db_ok)
  from finality_needs_agreement [OF fixture_parts(1) this run _ n] n old
  show ?thesis by (auto simp: fixture_parts)
qed

end
