(* ===== verification/Pg_Invariants.thy ===== *)
theory Pg_Invariants
  imports Pg_Contract
begin

text \<open>
  Invariants of the tables. A property that every statement keeps is kept by every transaction
  of the store; the locale says so once, and is interpreted on the keys and references of the
  chain tables and on the keys of the materialized ones. With them, a revert the cursor allows
  always commits.
\<close>

section \<open>Statements and transactions\<close>

locale materialization_invariant =
  fixes Q :: "db \<Rightarrow> bool"
  assumes result_inserted: "insert_result rrow db = Some db' \<Longrightarrow> Q db \<Longrightarrow> Q db'"
    and change_inserted: "insert_change c db = Some (db', m) \<Longrightarrow> Q db \<Longrightarrow> Q db'"
    and result_corrected: "advance_result i old (\<lambda>r. r\<lparr>rs_current_event_uuid := new,
        rs_current_state := st, rs_matched_revision_id := revision, rs_reconciled_at := t\<rparr>) db = Some db' \<Longrightarrow>
        Q db \<Longrightarrow> Q db'"
    and result_invalidated: "advance_result i old (\<lambda>r. r\<lparr>rs_current_event_uuid := new,
        rs_current_state := st\<rparr>) db = Some db' \<Longrightarrow> Q db \<Longrightarrow> Q db'"
    and collectible_inserted: "insert_collectible_event ce db = Some (db', m) \<Longrightarrow> Q db \<Longrightarrow> Q db'"
    and instance_inserted: "insert_instance R i tx m at db = Some db' \<Longrightarrow> Q db \<Longrightarrow> Q db'"
    and instance_revoked: "revoke_instance cv db = Some db' \<Longrightarrow> Q db \<Longrightarrow> Q db'"
begin

abbreviation holds :: "'u pg \<Rightarrow> bool" where
  "holds w \<equiv> Q (pg_db w)"

lemma sql_holds: "(\<And>db db'. f db = Some db' \<Longrightarrow> Q db \<Longrightarrow> Q db') \<Longrightarrow> preserves holds (sql f)"
  by (rule preservesI) (auto elim!: sqlE)

lemma sql_count_holds:
  "(\<And>db db' n. f db = Some (db', n) \<Longrightarrow> Q db \<Longrightarrow> Q db') \<Longrightarrow> preserves holds (sql_count f)"
  by (rule preservesI) (auto simp: sql_count_def split: option.splits prod.splits)

lemma read_holds: "preserves holds (read_db f)"
  by (simp add: read_db_def)

lemma uuid_holds: "preserves holds (nextUuidV7 P)"
  by (rule preservesI) (auto simp: nextUuidV7_def Let_def split: prod.splits)

lemmas holds_rules = act_rules sql_holds sql_count_holds read_holds uuid_holds

lemma materialize_row_holds: "preserves holds (materialize_row P at rm)"
proof -
  have results: "preserves holds (materializeInitialMatchResults P b at)" for b
    unfolding materializeInitialMatchResults_def materialize_one_def
    by (intro holds_rules) (auto split: option.splits dest: result_inserted)
  have correction: "preserves holds (materializeMatchCorrection P c at)" for c
    unfolding materializeMatchCorrection_def
    by (intro holds_rules) (erule change_inserted result_corrected, assumption)+
  have invalidation: "preserves holds (materializeMatchInvalidation P i)" for i
    unfolding materializeMatchInvalidation_def
    by (intro holds_rules) (erule change_inserted result_invalidated, assumption)+
  have issue: "preserves holds (materializeCollectibleIssue P row c at)" for row c
    unfolding materializeCollectibleIssue_def
    by (intro holds_rules) (erule collectible_inserted instance_inserted, assumption)+
  have revocation: "preserves holds (materializeCollectibleRevocation P row c)" for row c
    unfolding materializeCollectibleRevocation_def
    by (intro holds_rules) (erule collectible_inserted instance_revoked, assumption)+
  show ?thesis
    unfolding materialize_row_def
    by (intro preserves_bind preserves_basic)
      (auto split: event.split intro: results correction invalidation issue revocation)
qed

lemma materialize_holds: "preserves holds (materializeIrreversibleEvents P src n at)"
  unfolding materializeIrreversibleEvents_def
  by (intro holds_rules materialize_row_holds)

end

text \<open>A property every statement keeps.\<close>

locale statement_invariant = materialization_invariant +
  assumes cursor_inserted: "insert_cursor url src db = Some db' \<Longrightarrow> Q db \<Longrightarrow> Q db'"
    and cursor_updated: "update_cursor src f db = Some db' \<Longrightarrow> Q db \<Longrightarrow> Q db'"
    and checkpoint_inserted: "insert_checkpoint H k db = Some db' \<Longrightarrow> Q db \<Longrightarrow> Q db'"
    and operation_inserted: "insert_operation H row db = Some db' \<Longrightarrow> Q db \<Longrightarrow> Q db'"
    and event_replayed: "replay_event H e db = Some db' \<Longrightarrow> Q db \<Longrightarrow> Q db'"
    and event_inserted: "insert_match_event H e db = Some db' \<Longrightarrow> Q db \<Longrightarrow> Q db'"
    and events_reverted: "revert_events src n at db = Some db' \<Longrightarrow> Q db \<Longrightarrow> Q db'"
    and operations_reverted: "revert_operations src n at db = Some db' \<Longrightarrow> Q db \<Longrightarrow> Q db'"
    and checkpoints_reverted: "revert_checkpoints src n at db = Some db' \<Longrightarrow> Q db \<Longrightarrow> Q db'"
    and events_finalized: "finalize_events src n at db = Some db' \<Longrightarrow> Q db \<Longrightarrow> Q db'"
    and operations_finalized: "finalize_operations src n at db = Some db' \<Longrightarrow> Q db \<Longrightarrow> Q db'"
    and checkpoints_finalized: "finalize_checkpoints src n at db = Some db' \<Longrightarrow> Q db \<Longrightarrow> Q db'"
begin

lemma lock_holds: "preserves holds (lockCursor P src)"
  unfolding lockCursor_def by (intro holds_rules) (erule cursor_inserted, assumption)

lemma upsert_holds: "preserves holds (upsertIncludedMatchEvent P oid d)"
  unfolding upsertIncludedMatchEvent_def
  by (intro holds_rules) (erule event_replayed event_inserted, assumption)+

lemma apply_holds: "preserves holds (apply_block_work P src b ds at)"
  unfolding apply_block_work_def apply_decision_def insertOperation_def
  by (intro holds_rules lock_holds upsert_holds)
    (erule checkpoint_inserted operation_inserted cursor_updated, assumption)+

lemma revert_holds: "preserves holds (revert_work P src n at)"
  unfolding revert_work_def
  by (intro holds_rules lock_holds)
    (erule events_reverted operations_reverted checkpoints_reverted cursor_updated, assumption)+

lemma finalize_holds: "preserves holds (finalize_work P src n at)"
  unfolding finalize_work_def
  by (intro holds_rules lock_holds materialize_holds)
    (erule events_finalized operations_finalized checkpoints_finalized cursor_updated, assumption)+

lemma transaction_holds:
  assumes "preserves holds work" and "Q (pg_db w)" and "inTransaction work w = (u, w')"
  shows "Q (pg_db w')"
  using assms(3)
proof (cases rule: inTransactionE)
  case (committed w1)
  with preservesD [OF assms(1) _ committed(1)] assms(2) show ?thesis by simp
qed (use assms(2) in simp)

lemma store_holds:
  assumes "Q (pg_db w)"
  shows "pg_applyBlock P src b ds at w = (u, w') \<Longrightarrow> Q (pg_db w')"
    and "pg_revertAfter P src n at w = (u, w') \<Longrightarrow> Q (pg_db w')"
    and "pg_finalizeThrough P src n at w = (u, w') \<Longrightarrow> Q (pg_db w')"
  using transaction_holds [OF apply_holds assms] transaction_holds [OF revert_holds assms]
    transaction_holds [OF finalize_holds assms]
  by (auto simp: pg_applyBlock_def pg_revertAfter_def pg_finalizeThrough_def)

end


section \<open>Keys and references of the chain tables\<close>

definition keys_agree ::
  "string list \<Rightarrow> (string \<times> string) list \<Rightarrow> (string \<times> string) list \<Rightarrow> bool" where
  "keys_agree checkpoints operations events \<longleftrightarrow>
     distinct checkpoints \<and> distinct (map fst operations) \<and>
     set (map snd operations) \<subseteq> set checkpoints \<and>
     distinct (map fst events) \<and> distinct (map snd events) \<and>
     set (map snd events) \<subseteq> set (map fst operations)"

definition operation_key :: "operation_row \<Rightarrow> string \<times> string" where
  "operation_key row = (or_id row, or_checkpoint_id row)"

definition event_key :: "match_event_row \<Rightarrow> string \<times> string" where
  "event_key e = (me_event_uuid e, me_operation_id e)"

definition chain_keys :: "db \<Rightarrow> bool" where
  "chain_keys db \<longleftrightarrow> keys_agree (map kr_id (db_checkpoints db))
     (map operation_key (db_operations db)) (map event_key (db_match_events db))"

text \<open>An update of rows leaves a key it does not write.\<close>

lemma map_keeps: "(\<And>x. key (f x) = key x) \<Longrightarrow> map key (map f xs) = map key xs"
  by simp

lemma insert_checkpoint_keys:
  assumes "insert_checkpoint H k db = Some db'" and "chain_keys db"
  shows "chain_keys db'"
proof -
  from assms(1) have "db' = db\<lparr>db_checkpoints := db_checkpoints db @ [k]\<rparr>"
    and "kr_id k \<notin> set (map kr_id (db_checkpoints db))"
    by (auto simp: insert_checkpoint_def checkpoint_insertable_def list_all_iff split: if_splits)
  then show ?thesis using assms(2) by (auto simp: chain_keys_def keys_agree_def)
qed

lemma backed_operation:
  "match_event_backed H db e \<Longrightarrow> me_operation_id e \<in> set (map or_id (db_operations db))"
  by (auto simp: match_event_backed_def list_ex_iff intro: rev_image_eqI)

lemma insert_operation_keys:
  assumes "insert_operation H row db = Some db'" and "chain_keys db"
  shows "chain_keys db'"
proof -
  from assms(1) have db': "db' = db\<lparr>db_operations := db_operations db @ [row]\<rparr>"
    and fresh: "or_id row \<notin> set (map or_id (db_operations db))"
    and ref: "or_checkpoint_id row \<in> set (map kr_id (db_checkpoints db))"
    by (auto simp: insert_operation_def operation_insertable_def Let_def list_all_iff list_ex_iff
        intro: rev_image_eqI split: if_splits)
  then show ?thesis
    using assms(2) by (auto simp: chain_keys_def keys_agree_def operation_key_def)
qed

lemma insert_match_event_keys:
  assumes "insert_match_event H e db = Some db'" and "chain_keys db"
  shows "chain_keys db'"
proof (cases "db' = db")
  case False
  with assms(1) have db': "db' = db\<lparr>db_match_events := db_match_events db @ [e]\<rparr>"
    and fresh: "me_event_uuid e \<notin> set (map me_event_uuid (db_match_events db))"
      "me_operation_id e \<notin> set (map me_operation_id (db_match_events db))"
    and ref: "me_operation_id e \<in> set (map or_id (db_operations db))"
    by (auto simp: insert_match_event_def list_ex_iff simp del: set_map
        split: if_splits dest: backed_operation) (auto simp: list_ex_iff)
  then show ?thesis
    using assms(2) by (auto simp: chain_keys_def keys_agree_def operation_key_def event_key_def)
qed (use assms(2) in simp)

text \<open>The replayed event is the only one of its id, and takes an operation no other event has.\<close>

lemma replay_keys:
  assumes "replay_event H e db = Some db'" and "chain_keys db"
  shows "chain_keys db'"
proof -
  define hit where "hit = (\<lambda>old :: match_event_row. me_event_uuid old = me_event_uuid e \<and> me_operation_state old = Reverted)"
  define f where "f = (\<lambda>old :: match_event_row. old\<lparr>me_operation_id := me_operation_id e, me_operation_state := Included,
      me_included_at := me_included_at e, me_irreversible_at := None, me_reverted_at := None\<rparr>)"
  let ?es = "db_match_events db" and ?g = "\<lambda>old. if hit old then f old else old"
  from assms(1) have db': "db' = db\<lparr>db_match_events := map ?g ?es\<rparr>"
    and free: "\<And>old j. old \<in> set ?es \<Longrightarrow> hit old \<Longrightarrow> j \<in> set ?es \<Longrightarrow> j \<noteq> old \<Longrightarrow>
      me_operation_id j \<noteq> me_operation_id e"
    and backed: "\<And>old. old \<in> set ?es \<Longrightarrow> hit old \<Longrightarrow> match_event_backed H db (f old)"
    unfolding hit_def f_def
    by (auto simp: replay_event_def Let_def list_all_iff list_ex_iff split: if_splits)
  have ref: "me_operation_id e \<in> set (map or_id (db_operations db))"
    if "old \<in> set ?es" "hit old" for old
    using backed_operation [OF backed [OF that]] by (simp add: f_def)
  have keys: "distinct (map me_event_uuid ?es)" "distinct (map me_operation_id ?es)"
    using assms(2) by (simp_all add: chain_keys_def keys_agree_def event_key_def comp_def)
  have uuids: "map me_event_uuid (map ?g ?es) = map me_event_uuid ?es"
    by (rule map_keeps) (simp add: f_def)
  have "inj_on (\<lambda>old. me_operation_id (?g old)) (set ?es)"
  proof (rule inj_onI)
    fix x y
    assume x: "x \<in> set ?es" and y: "y \<in> set ?es" and eq: "me_operation_id (?g x) = me_operation_id (?g y)"
    have one: "x = y" if "hit x" "hit y"
      using that keys(1) x y by (auto simp: hit_def distinct_map inj_on_def)
    show "x = y"
      using one eq keys(2) x y free [OF x _ y] free [OF y _ x]
      by (auto simp: f_def distinct_map inj_on_def split: if_splits)
  qed
  then have ops: "distinct (map me_operation_id (map ?g ?es))"
    using keys(1) by (auto simp: distinct_map comp_def)
  have "me_operation_id (?g old) \<in> set (map or_id (db_operations db))" if "old \<in> set ?es" for old
    using ref [OF that] assms(2) that
    by (auto simp: f_def chain_keys_def keys_agree_def event_key_def operation_key_def)
  moreover have "distinct (map me_event_uuid (map ?g ?es))"
    by (simp only: uuids keys(1))
  ultimately show ?thesis
    using ops assms(2)
    unfolding db' chain_keys_def keys_agree_def event_key_def operation_key_def
    by (auto simp: comp_def)
qed

interpretation keys: statement_invariant chain_keys
  by unfold_locales (auto simp: chain_keys_def map_keeps insert_cursor_def update_cursor_def revert_events_def
    revert_operations_def revert_checkpoints_def finalize_events_def finalize_operations_def
    finalize_checkpoints_def insert_result_def insert_change_def advance_result_def
    insert_collectible_event_def insert_instance_def revoke_instance_def Let_def
    operation_key_def event_key_def
    simp del: map_map split: if_splits option.splits
    dest: insert_checkpoint_keys insert_operation_keys insert_match_event_keys replay_keys)


section \<open>Keys of the materialized tables\<close>

text \<open>
  One result per round, one change per event and per superseded event of a round, one
  collectible event per event and operation, one instance per collectible.
\<close>

definition materialized_keys :: "db \<Rightarrow> bool" where
  "materialized_keys db \<longleftrightarrow>
     distinct (map rs_round_id (db_results db)) \<and>
     distinct (map ch_event_uuid (db_changes db)) \<and>
     distinct (map (\<lambda>c. (ch_round_id c, ch_supersedes_event_uuid c)) (db_changes db)) \<and>
     distinct (map ce_event_id (db_collectible_events db)) \<and>
     distinct (map ce_operation_id (db_collectible_events db)) \<and>
     distinct (map in_id (db_instances db))"

lemma insert_result_keys:
  "insert_result row db = Some db' \<Longrightarrow> materialized_keys db \<Longrightarrow> materialized_keys db'"
  by (auto simp: insert_result_def materialized_keys_def list_ex_iff split: if_splits) blast+

lemma insert_change_keys:
  "insert_change c db = Some (db', m) \<Longrightarrow> materialized_keys db \<Longrightarrow> materialized_keys db'"
  by (auto simp: insert_change_def materialized_keys_def list_ex_iff split: if_splits) blast+

lemma insert_collectible_keys:
  "insert_collectible_event ce db = Some (db', m) \<Longrightarrow> materialized_keys db \<Longrightarrow> materialized_keys db'"
  by (auto simp: insert_collectible_event_def materialized_keys_def list_ex_iff
      split: if_splits option.splits) blast+

lemma insert_instance_keys:
  "insert_instance R i tx m at db = Some db' \<Longrightarrow> materialized_keys db \<Longrightarrow> materialized_keys db'"
  by (auto simp: insert_instance_def materialized_keys_def list_ex_iff
      split: if_splits option.splits) blast+

interpretation materialized: statement_invariant materialized_keys
  by unfold_locales (auto simp: materialized_keys_def map_keeps insert_cursor_def update_cursor_def
    insert_checkpoint_def insert_operation_def replay_event_def insert_match_event_def
    revert_events_def revert_operations_def revert_checkpoints_def finalize_events_def
    finalize_operations_def finalize_checkpoints_def advance_result_def revoke_instance_def Let_def
    simp del: map_map split: if_splits option.splits
    dest: insert_result_keys [unfolded materialized_keys_def]
      insert_change_keys [unfolded materialized_keys_def]
      insert_collectible_keys [unfolded materialized_keys_def]
      insert_instance_keys [unfolded materialized_keys_def])

section \<open>A revert that commits\<close>

text \<open>With fresh keys, an operation has the state of its checkpoint and an event that of its operation.\<close>

lemma states_agreeD:
  assumes "states_agree db" and "row \<in> set (db_operations db)" and "k \<in> set (db_checkpoints db)"
    and "kr_id k = or_checkpoint_id row"
  shows "or_state row = kr_state k"
  using assms by (auto simp: states_agree_def list_all_iff)

lemma states_agree_eventD:
  assumes "states_agree db" and "e \<in> set (db_match_events db)" and "row \<in> set (db_operations db)"
    and "or_id row = me_operation_id e"
  shows "me_operation_state e = or_state row \<and> or_validation_state row = Accepted"
  using assms by (auto simp: states_agree_def list_all_iff)

lemma selected_checkpoint:
  assumes "chain_keys db" and "k \<in> set (db_checkpoints db)"
  shows "selected db src p (kr_id k) \<longleftrightarrow> kr_source k = src \<and> p (kr_number k)"
proof -
  have "j = k" if "j \<in> set (db_checkpoints db)" "kr_id j = kr_id k" for j
    using assms that by (auto simp: chain_keys_def keys_agree_def distinct_map inj_on_def)
  then show ?thesis
    unfolding selected_def list_ex_iff using assms(2) by metis
qed

lemma event_selected_operation:
  assumes "chain_keys db" and "row \<in> set (db_operations db)" and "or_id row = me_operation_id e"
  shows "event_selected db src p e \<longleftrightarrow> selected db src p (or_checkpoint_id row)"
proof -
  have "j = row" if "j \<in> set (db_operations db)" "or_id j = or_id row" for j
    using assms(1,2) that
    by (auto simp: chain_keys_def keys_agree_def operation_key_def distinct_map inj_on_def)
  then show ?thesis
    unfolding event_selected_def list_ex_iff using assms(2,3) by metis
qed

text \<open>Above the irreversible block, nothing stored is irreversible.\<close>

lemma above_irreversible:
  assumes "db_ok db" and "k \<in> set (db_checkpoints db)" and "db_irreversible db (kr_source k) < kr_number k"
  shows "kr_state k \<noteq> Irreversible"
proof
  assume irr: "kr_state k = Irreversible"
  with assms(2) have "k \<in> set (current_rows (kr_source k) (db_checkpoints db))"
    by (simp add: current_rows_def)
  with db_okD [OF assms(1), of "kr_source k"] irr assms(3) show False
    by (auto simp: source_ok_def list_all_iff)
qed

lemma operation_above_irreversible:
  assumes "db_ok db" and "chain_keys db" and "states_agree db" and "row \<in> set (db_operations db)"
    and "selected db src (\<lambda>h. h > n) (or_checkpoint_id row)" and "db_irreversible db src \<le> n"
  shows "or_state row \<noteq> Irreversible"
proof -
  from assms(5) obtain k where k: "k \<in> set (db_checkpoints db)" "kr_id k = or_checkpoint_id row"
    "kr_source k = src" "kr_number k > n"
    by (auto simp: selected_def list_ex_iff)
  with above_irreversible [OF assms(1) k(1)] assms(6) states_agreeD [OF assms(3,4) k(1,2)]
  show ?thesis by auto
qed


lemma states_agree_map:
  assumes "\<And>k. kr_id (fk k) = kr_id k" and "\<And>row. or_id (fo row) = or_id row"
    and "\<And>row. or_checkpoint_id (fo row) = or_checkpoint_id row"
    and "\<And>e. me_operation_id (fe e) = me_operation_id e"
    and "\<And>row k. row \<in> set (db_operations db) \<Longrightarrow> k \<in> set (db_checkpoints db) \<Longrightarrow>
      kr_id k = or_checkpoint_id row \<Longrightarrow> or_state (fo row) = kr_state (fk k)"
    and "\<And>e row. e \<in> set (db_match_events db) \<Longrightarrow> row \<in> set (db_operations db) \<Longrightarrow>
      or_id row = me_operation_id e \<Longrightarrow>
      me_operation_state (fe e) = or_state (fo row) \<and> or_validation_state (fo row) = Accepted"
    and "db_checkpoints db' = map fk (db_checkpoints db)"
    and "db_operations db' = map fo (db_operations db)"
    and "db_match_events db' = map fe (db_match_events db)"
  shows "states_agree db'"
  using assms(5,6) by (simp add: states_agree_def assms(1-4,7-9) list_all_iff)

lemma revert_statements:
  assumes "db_ok db" and "chain_keys db" and "states_agree db" and "db_irreversible db src \<le> n"
  obtains db1 db2 db3 where "revert_events src n at db = Some db1"
    and "revert_operations src n at db1 = Some db2" and "revert_checkpoints src n at db2 = Some db3"
    and "states_agree db3" and "db_cursors db3 = db_cursors db"
proof -
  define sel where "sel = selected db src (\<lambda>h. h > n)"
  define fe where "fe = (\<lambda>e :: match_event_row.
     if event_selected db src (\<lambda>h. h > n) e \<and> me_operation_state e = Included
     then e\<lparr>me_operation_state := Reverted, me_irreversible_at := None, me_reverted_at := Some at\<rparr> else e)"
  define fo where "fo = (\<lambda>row :: operation_row. if sel (or_checkpoint_id row) \<and> or_state row \<noteq> Reverted
     then row\<lparr>or_state := Reverted, or_reverted_at := Some at\<rparr> else row)"
  let ?db1 = "db\<lparr>db_match_events := map fe (db_match_events db)\<rparr>"
  let ?db2 = "?db1\<lparr>db_operations := map fo (db_operations db)\<rparr>"
  let ?db3 = "?db2\<lparr>db_checkpoints := map (reverted_to src n at) (db_checkpoints db)\<rparr>"
  have e1: "revert_events src n at db = Some ?db1"
    by (simp add: revert_events_def fe_def)
  have "\<not> list_ex (\<lambda>row. sel (or_checkpoint_id row) \<and> or_state row \<noteq> Reverted \<and>
      or_state row = Irreversible) (db_operations db)"
    using operation_above_irreversible [OF assms(1-3) _ _ assms(4)] by (auto simp: list_ex_iff sel_def)
  then have e2: "revert_operations src n at ?db1 = Some ?db2"
    by (simp add: revert_operations_def Let_def fo_def sel_def selected_def list_ex_iff conj_assoc)
  have "\<not> list_ex (\<lambda>k. kr_source k = src \<and> kr_number k > n \<and> kr_state k \<noteq> Reverted \<and>
      kr_state k = Irreversible) (db_checkpoints db)"
    using above_irreversible [OF assms(1)] assms(4) by (fastforce simp: list_ex_iff)
  then have e3: "revert_checkpoints src n at ?db2 = Some ?db3"
    by (simp add: revert_checkpoints_def Let_def reverted_to_def list_ex_iff conj_assoc)
  have ops: "or_state (fo row) = kr_state (reverted_to src n at k)"
    if "row \<in> set (db_operations db)" "k \<in> set (db_checkpoints db)" "kr_id k = or_checkpoint_id row" for row k
    using states_agreeD [OF assms(3) that] selected_checkpoint [OF assms(2) that(2), of src "\<lambda>h. h > n"] that(3)
    by (auto simp: fo_def reverted_to_def sel_def)
  have evs: "me_operation_state (fe e) = or_state (fo row) \<and> or_validation_state (fo row) = Accepted"
    if "e \<in> set (db_match_events db)" "row \<in> set (db_operations db)" "or_id row = me_operation_id e" for e row
    using states_agree_eventD [OF assms(3) that] event_selected_operation [OF assms(2) that(2,3)]
      operation_above_irreversible [OF assms(1-3) that(2) _ assms(4)]
    by (cases "or_state row") (auto simp: fe_def fo_def sel_def)
  have "states_agree ?db3"
    by (rule states_agree_map [where fk = "reverted_to src n at" and fo = fo and fe = fe, OF _ _ _ _ ops evs])
      (simp_all add: reverted_to_def fo_def fe_def)
  with that e1 e2 e3 show thesis by simp
qed

lemma finalize_statements:
  assumes "chain_keys db" and "states_agree db"
  obtains db1 db2 db3 where "finalize_events src n at db = Some db1"
    and "finalize_operations src n at db1 = Some db2" and "finalize_checkpoints src n at db2 = Some db3"
    and "states_agree db3" and "db_cursors db3 = db_cursors db"
    and "db_operations db3 = map (\<lambda>row. if selected db src (\<lambda>h. h \<le> n) (or_checkpoint_id row) \<and>
        or_state row = Included
      then row\<lparr>or_state := Irreversible, or_irreversible_at := Some at\<rparr> else row) (db_operations db)"
    and "db_checkpoints db3 = map (finalized_to src n at) (db_checkpoints db)"
proof -
  define fe where "fe = (\<lambda>e :: match_event_row.
     if event_selected db src (\<lambda>h. h \<le> n) e \<and> me_operation_state e = Included
     then e\<lparr>me_operation_state := Irreversible, me_irreversible_at := Some at, me_reverted_at := None\<rparr> else e)"
  define fo where "fo = (\<lambda>row :: operation_row.
     if selected db src (\<lambda>h. h \<le> n) (or_checkpoint_id row) \<and> or_state row = Included
     then row\<lparr>or_state := Irreversible, or_irreversible_at := Some at\<rparr> else row)"
  let ?db1 = "db\<lparr>db_match_events := map fe (db_match_events db)\<rparr>"
  let ?db2 = "?db1\<lparr>db_operations := map fo (db_operations db)\<rparr>"
  let ?db3 = "?db2\<lparr>db_checkpoints := map (finalized_to src n at) (db_checkpoints db)\<rparr>"
  have e: "finalize_events src n at db = Some ?db1" "finalize_operations src n at ?db1 = Some ?db2"
      "finalize_checkpoints src n at ?db2 = Some ?db3"
    by (simp_all add: finalize_events_def finalize_operations_def finalize_checkpoints_def fe_def fo_def
        finalized_to_def selected_def)
  have ops: "or_state (fo row) = kr_state (finalized_to src n at k)"
    if "row \<in> set (db_operations db)" "k \<in> set (db_checkpoints db)" "kr_id k = or_checkpoint_id row" for row k
    using states_agreeD [OF assms(2) that] selected_checkpoint [OF assms(1) that(2), of src "\<lambda>h. h \<le> n"] that(3)
    by (auto simp: fo_def finalized_to_def)
  have evs: "me_operation_state (fe e) = or_state (fo row) \<and> or_validation_state (fo row) = Accepted"
    if "e \<in> set (db_match_events db)" "row \<in> set (db_operations db)" "or_id row = me_operation_id e" for e row
    using states_agree_eventD [OF assms(2) that] event_selected_operation [OF assms(1) that(2,3)]
    by (auto simp: fe_def fo_def)
  have "states_agree ?db3"
    by (rule states_agree_map [where fk = "finalized_to src n at" and fo = fo and fe = fe, OF _ _ _ _ ops evs])
      (simp_all add: finalized_to_def fo_def fe_def)
  with that e show thesis by (simp add: fo_def)
qed

interpretation agreement: materialization_invariant states_agree
  by unfold_locales (auto simp: states_agree_def insert_result_def insert_change_def
    advance_result_def insert_collectible_event_def insert_instance_def revoke_instance_def
    split: if_splits option.splits)

end
