(* ===== verification/Store_Properties.thy ===== *)
theory Store_Properties
  imports Projection Pg_Invariants
begin

text \<open>
  What the PostgreSQL store promises on its own: the keys of its tables, the reverts and
  finalizations that commit, and the two transactions that never can.
\<close>

section \<open>Keys\<close>

lemma fixture_keys: "chain_keys (pg_db fixture_pg)" "materialized_keys (pg_db fixture_pg)"
    "states_agree (pg_db fixture_pg)"
  by code_simp+

section \<open>Transactions that commit\<close>

lemma lockCursor_db:
  assumes "lockCursor P src w = (u, w')"
  obtains cs where "pg_db w' = (pg_db w)\<lparr>db_cursors := cs\<rparr>"
proof -
  have "\<exists>cs. pg_db w' = (pg_db w)\<lparr>db_cursors := cs\<rparr>"
    using assms
    by (auto simp: lockCursor_def insert_cursor_def sql_def act_bind_def read_db_def act_run
        split: option.splits prod.splits sum.splits)
      (metis db.surjective db.update_convs(4))+
  with that show thesis by blast
qed

text \<open>The cursor of a chain whose length is a safe integer can be locked.\<close>

lemma lock_succeeds:
  assumes "db_ok (pg_db w)" and "is_safe_integer (int (length (db_chain (pg_db w) src)))"
  obtains w1 cs where "lockCursor P src w = (Inr (cursor_of_db (pg_db w) src), w1)"
    and "pg_db w1 = (pg_db w)\<lparr>db_cursors := cs\<rparr>" and "db_ok (pg_db w1)"
    and "db_irreversible (pg_db w1) = db_irreversible (pg_db w)"
proof -
  obtain u w1 where lock: "lockCursor P src w = (u, w1)" by fastforce
  from lock obtain cs where cs: "pg_db w1 = (pg_db w)\<lparr>db_cursors := cs\<rparr>" by (rule lockCursor_db)
  from lock obtain r where r: "cursor_row_of (pg_db w1) src = Some r"
    and v: "db_checkpoints (pg_db w1) = db_checkpoints (pg_db w)"
      "db_processed (pg_db w1) = db_processed (pg_db w)"
      "db_irreversible (pg_db w1) = db_irreversible (pg_db w)"
    and u: "u = cursorFromRow (pg_db w1) r"
    by (elim lockCursorE)
  have ok1: "db_ok (pg_db w1)"
    using assms(1) source_ok_cong [OF v(1)] v by (simp add: db_ok_def)
  have chain: "db_chain (pg_db w1) = db_chain (pg_db w)" using v(1) by (rule db_chain_cong)
  have "cr_last_processed_block r = length (db_chain (pg_db w) src)"
    and "cr_last_irreversible_block r \<le> length (db_chain (pg_db w) src)"
    using db_okD [OF ok1, of src] r chain
    by (auto simp: source_ok_def db_processed_def db_irreversible_def)
  then obtain c where c: "u = Inr c"
    using assms(2) u
    by (auto simp: cursorFromRow_def parseDatabaseInteger_def is_safe_integer_def)
  with cursorFromRow_ok [OF db_okD [OF ok1] r] u have "c = cursor_of_db (pg_db w1) src" by simp
  with c lock cs ok1 v(3) chain that show thesis by (simp add: cursor_of_db_def)
qed

lemma inTransaction_commits:
  assumes "pg_faults w = []" and "work w = (Inr (), w')" and "states_agree (pg_db w')"
  shows "inTransaction work w = (Inr (), w')"
proof -
  have "w\<lparr>pg_faults := []\<rparr> = w" using assms(1) by simp
  with assms(2) have "work (w\<lparr>pg_faults := []\<rparr>) = (Inr (), w')" by metis
  with assms(1,3) show ?thesis by (simp add: inTransaction_def)
qed

text \<open>
  A revert that the irreversible block allows commits on a sound database, unless the
  database itself fails: the three updates never touch an irreversible row, and leave every
  operation in the state of its checkpoint and every match event in that of its operation, as
  the deferred constraints demand. The chain is cut to the ancestor.
\<close>

theorem revert_commits:
  assumes "db_ok (pg_db w)" and "chain_keys (pg_db w)" and "states_agree (pg_db w)"
    and "pg_faults w = []" and "is_safe_integer (int (length (db_chain (pg_db w) src)))"
    and "db_irreversible (pg_db w) src \<le> n" and "n \<le> length (db_chain (pg_db w) src)"
  shows "\<exists>w'. pg_revertAfter P src n at w = (Inr (), w') \<and>
    db_chain (pg_db w') src = take n (db_chain (pg_db w) src)"
proof -
  from assms(1,5) obtain w1 cs where lock: "lockCursor P src w = (Inr (cursor_of_db (pg_db w) src), w1)"
    and db1: "pg_db w1 = (pg_db w)\<lparr>db_cursors := cs\<rparr>" and ok1: "db_ok (pg_db w1)"
    and irr1: "db_irreversible (pg_db w1) = db_irreversible (pg_db w)"
    by (rule lock_succeeds)
  have "chain_keys (pg_db w1)" "states_agree (pg_db w1)" "db_irreversible (pg_db w1) src \<le> n"
    using assms(2,3,6) irr1 by (simp_all add: db1 chain_keys_def states_agree_def)
  with ok1 obtain da dbb dc where st: "revert_events src n at (pg_db w1) = Some da"
      "revert_operations src n at da = Some dbb" "revert_checkpoints src n at dbb = Some dc"
    and agree: "states_agree dc"
    by (elim revert_statements)
  let ?db' = "dc\<lparr>db_cursors := map (\<lambda>c. if cr_source c = src then c\<lparr>cr_last_processed_block := n\<rparr> else c)
    (db_cursors dc)\<rparr>"
  have upd: "update_cursor src (\<lambda>c. c\<lparr>cr_last_processed_block := n\<rparr>) dc = Some ?db'"
    by (simp add: update_cursor_def)
  have run: "revert_work P src n at w = (Inr (), w1\<lparr>pg_db := ?db'\<rparr>)"
    using lock st upd assms(6)
    by (simp add: revert_work_def act_bind_def act_run sql_def cursor_of_db_def)
  have tx: "pg_revertAfter P src n at w = (Inr (), w1\<lparr>pg_db := ?db'\<rparr>)"
    unfolding pg_revertAfter_def using assms(4) run
    by (rule inTransaction_commits) (use agree in \<open>simp add: states_agree_def\<close>)
  from pg_revertAfter_result [OF assms(1,7) tx] tx show ?thesis by auto
qed

theorem revert_commits_witness:
  "\<exists>w'. pg_revertAfter fixture_pg_options ''haf'' 1 ''2026-07-16T00:00:00.000Z'' fixture_pg = (Inr (), w') \<and>
    db_chain (pg_db w') ''haf'' = [plain_block 1 ''a1'' ''a0'']"
  using revert_commits [of fixture_pg "''haf''" 1 fixture_pg_options "''2026-07-16T00:00:00.000Z''"]
    fixture_db_ok fixture_keys
  by (simp add: fixture_parts is_safe_integer_def)
    (simp add: fixture_pg_def db_irreversible_def cursor_row_of_def)


section \<open>Transactions that never commit\<close>

text \<open>
  C9. A block that was stored once is never stored again. Its row stays when the block is
  reverted, and the key on source and block id covers reverted rows too: when the chain
  switches back to a block it had left, \<open>applyBlock\<close> fails for it every time, and the tables
  stay as they are.
\<close>

theorem reverted_block_never_returns:
  assumes "k \<in> set (db_checkpoints (pg_db w))" and "kr_source k = src" and "kr_block_id k = hb_id b"
    and "pg_applyBlock P src b ds at w = (u, w')"
  shows "u \<noteq> Inr () \<and> pg_db w' = pg_db w"
  using assms(4) unfolding pg_applyBlock_def
proof (cases rule: inTransactionE)
  case (committed w1)
  let ?w = "w\<lparr>pg_faults := tl (pg_faults w)\<rparr>"
  from committed(1) obtain c w2 cid w3 w4 where lock: "lockCursor P src ?w = (Inr c, w2)"
    and uuid: "nextUuidV7 P w2 = (Inr cid, w3)"
    and ins: "sql (insert_checkpoint (po_host P) (included_row cid src b at)) w3 = (Inr (), w4)"
    unfolding apply_block_work_def by (elim act_bind_ensureE act_bind_InrE) simp
  from lock have "db_checkpoints (pg_db w2) = db_checkpoints (pg_db w)" by (elim lockCursorE) simp
  moreover have "pg_db w3 = pg_db w2"
    using uuid by (auto simp: nextUuidV7_def Let_def split: prod.splits)
  moreover from ins have "checkpoint_insertable (pg_db w3) (included_row cid src b at)"
    by (auto simp: insert_checkpoint_def elim!: sql_InrE split: if_splits)
  ultimately have "\<not> (kr_source k = src \<and> kr_block_id k = hb_id b)"
    using assms(1) by (auto simp: checkpoint_insertable_def included_row_def list_all_iff)
  with assms(2,3) show ?thesis by simp
qed simp

text \<open>The fixture after a fork, when the source is back on its first branch.\<close>

definition fixture_reverted :: "nat pg" where
  "fixture_reverted = snd (pg_revertAfter fixture_pg_options ''haf'' 1 ''2026-07-16T00:00:00.000Z'' fixture_pg)"

theorem reverted_block_never_returns_witness:
  "fst (pg_applyBlock fixture_pg_options ''haf'' (plain_block 2 ''a2'' ''a1'') []
     ''2026-07-16T00:00:00.000Z'' fixture_reverted) \<noteq> Inr () \<and>
   db_chain (pg_db fixture_reverted) ''haf'' = [plain_block 1 ''a1'' ''a0'']"
proof
  have "list_ex (\<lambda>k. kr_source k = ''haf'' \<and> kr_block_id k = ''a2'') (db_checkpoints (pg_db fixture_reverted))"
    by code_simp
  then obtain k where k: "k \<in> set (db_checkpoints (pg_db fixture_reverted))" "kr_source k = ''haf''"
      "kr_block_id k = hb_id (plain_block 2 ''a2'' ''a1'')"
    by (auto simp: list_ex_iff plain_block_def)
  show "fst (pg_applyBlock fixture_pg_options ''haf'' (plain_block 2 ''a2'' ''a1'') []
     ''2026-07-16T00:00:00.000Z'' fixture_reverted) \<noteq> Inr ()"
    using reverted_block_never_returns [OF k] by (metis prod.collapse)
  show "db_chain (pg_db fixture_reverted) ''haf'' = [plain_block 1 ''a1'' ''a0'']"
    by code_simp
qed

text \<open>A loop that ends ran every one of its turns to the end.\<close>

lemma act_each_turn:
  assumes "act_each f xs s = (Inr (), s')" and "x \<in> set xs"
  obtains t t' where "f x t = (Inr (), t')"
  using assms
proof (induction xs arbitrary: s)
  case (Cons y ys)
  from Cons.prems(2) obtain s1 where y: "f y s = (Inr (), s1)" and ys: "act_each f ys s1 = (Inr (), s')"
    by (auto elim!: act_bind_InrE)
  show ?case
  proof (cases "x = y")
    case True
    with y Cons.prems(1) show ?thesis by blast
  next
    case False
    with Cons.IH [OF Cons.prems(1) ys] Cons.prems(3) show ?thesis by simp
  qed
qed simp

lemma correction_fails: "materializeMatchCorrection P c at w = (Inl database_error, w)"
proof -
  have "\<not> parameters_typed correction_lookup_parameters" by code_simp
  then show ?thesis by (simp add: materializeMatchCorrection_def act_bind_def act_run)
qed

lemma selected_finalized:
  assumes "db_checkpoints db' = map (finalized_to src n at) (db_checkpoints db)"
  shows "selected db' s p i = selected db s p i"
proof -
  have "list_ex Q (map f ks) = list_ex (\<lambda>k. Q (f k)) ks" for Q and f :: "checkpoint_row \<Rightarrow> checkpoint_row" and ks
    by (induction ks) simp_all
  moreover have "kr_id (finalized_to src n at k) = kr_id k"
      "kr_source (finalized_to src n at k) = kr_source k"
      "kr_number (finalized_to src n at k) = kr_number k" for k
    by (simp_all add: finalized_to_def)
  ultimately show ?thesis by (simp only: selected_def assms)
qed

lemma find_map_kept:
  assumes "\<And>e. p (f e) = p e"
  shows "List.find p (map f es) = map_option f (List.find p es)"
  by (induction es) (auto simp: assms)

text \<open>
  C10. A correction never becomes final: while an accepted correction whose event is bound to
  its operation waits at or below the height to finalize, \<open>finalizeThrough\<close> fails and the
  tables stay as they are. The lookup of \<open>materializeMatchCorrection\<close> leaves two of its twelve
  parameters unused, and the server cannot type them.
\<close>

theorem correction_never_finalizes:
  assumes "row \<in> set (db_operations (pg_db w))" and "or_state row = Included"
    and "selected (pg_db w) src (\<lambda>h. h \<le> n) (or_checkpoint_id row)"
    and "or_validation_state row = Accepted"
    and "ev_applicationId (or_evidence row) = Some ''hive.chameleon''"
    and "eventFromOperationPayload (po_host P) (ev_payload (or_evidence row)) = Inr (Match_Result_Corrected c)"
    and "map_option me_event_uuid (List.find (\<lambda>e. me_operation_id e = or_id row)
      (db_match_events (pg_db w))) = Some (mc_event_id c)"
    and "date_parse (po_host P) at \<noteq> None"
    and "pg_finalizeThrough P src n at w = (u, w')"
  shows "u \<noteq> Inr () \<and> pg_db w' = pg_db w"
  using assms(9) unfolding pg_finalizeThrough_def
proof (cases rule: inTransactionE)
  case (committed w1)
  let ?w = "w\<lparr>pg_faults := tl (pg_faults w)\<rparr>" and ?H = "po_host P"
  from committed(1) obtain cu w2 w3 w4 w5 w6 where lock: "lockCursor P src ?w = (Inr cu, w2)"
    and evs: "sql (finalize_events src n at) w2 = (Inr (), w3)"
    and ops: "sql (finalize_operations src n at) w3 = (Inr (), w4)"
    and cps: "sql (finalize_checkpoints src n at) w4 = (Inr (), w5)"
    and upd: "sql (update_cursor src (\<lambda>c. c
       \<lparr>cr_last_irreversible_block := max (cr_last_irreversible_block c) n,
         cr_last_successful_sync_at := Some at\<rparr>)) w5 = (Inr (), w6)"
    and mat: "materializeIrreversibleEvents P src n at w6 = (Inr (), w1)"
    unfolding finalize_work_def by (elim act_bind_ensureE act_bind_InrE) simp
  from lock obtain cs where db2: "pg_db w2 = (pg_db w)\<lparr>db_cursors := cs\<rparr>" by (rule lockCursor_db) simp
  let ?row = "row\<lparr>or_state := Irreversible, or_irreversible_at := Some at\<rparr>"
  have ck: "db_checkpoints (pg_db w6) = map (finalized_to src n at) (db_checkpoints (pg_db w))"
    and op: "?row \<in> set (db_operations (pg_db w6))"
    using evs ops cps upd assms(1-3) db2
    by (auto elim!: sql_InrE simp: finalize_events_def finalize_operations_def finalize_checkpoints_def
        update_cursor_def finalized_to_def selected_def image_iff intro!: bexI [of _ row])
  have sel: "selected (pg_db w6) src (\<lambda>h. h \<le> n) (or_checkpoint_id ?row)"
    using assms(3) selected_finalized [OF ck] by simp
  define fe where "fe = (\<lambda>e. if event_selected (pg_db w2) src (\<lambda>h. h \<le> n) e \<and>
      me_operation_state e = Included
    then e\<lparr>me_operation_state := Irreversible, me_irreversible_at := Some at, me_reverted_at := None\<rparr>
    else e)"
  have fe: "db_match_events (pg_db w6) = map fe (db_match_events (pg_db w))"
    using evs ops cps upd db2
    by (auto elim!: sql_InrE simp: finalize_events_def finalize_operations_def finalize_checkpoints_def
        update_cursor_def fe_def)
  have kept: "me_operation_id (fe e) = me_operation_id e" "me_event_uuid (fe e) = me_event_uuid e" for e
    by (simp_all add: fe_def)
  have bound: "map_option me_event_uuid (List.find (\<lambda>e. me_operation_id e = or_id ?row)
      (db_match_events (pg_db w6))) = Some (mc_event_id c)"
    using assms(7) by (simp add: fe find_map_kept kept option.map_comp comp_def)
  have mem: "(?row, Some (mc_event_id c)) \<in> set (irreversible_operations ?H src n at (pg_db w6))"
    using op sel assms(4,5,8) bound
    by (auto simp: irreversible_operations_def same_instant_def image_iff
        intro!: bexI [of _ ?row] split: option.splits)
  from mat have turns: "act_each (materialize_row P at)
      (irreversible_operations ?H src n at (pg_db w6)) w6 = (Inr (), w1)"
    by (simp add: materializeIrreversibleEvents_def read_db_def act_bind_basic)
  obtain t t' where "materialize_row P at (?row, Some (mc_event_id c)) t = (Inr (), t')"
    using act_each_turn [OF turns mem] by blast
  then show ?thesis
    using assms(6) by (simp add: materialize_row_def act_bind_basic correction_fails)
qed simp


text \<open>A correction of the fixture batch, included in the second block of the fixture store.\<close>

definition fixture_correction :: match_correction where
  "fixture_correction = \<lparr>
     mc_event_id = ''0190f6d2-7c00-7000-8000-000000000011'',
     mc_occurred_at = ''2026-07-11T12:05:00.000Z'',
     mc_round_id = ''0190f6d2-7c00-7000-8000-000000000003'',
     mc_original_batch_id = ''0190f6d2-7c00-7000-8000-000000000002'',
     mc_original_event_id = ''0190f6d2-7c00-7000-8000-000000000001'',
     mc_supersedes_event_id = ''0190f6d2-7c00-7000-8000-000000000001'',
     mc_publisher = ''match-pub'', mc_reason_code = ''score_error'',
     mc_replacement_result = fixture_result\<rparr>"

definition correction_host :: host where
  "correction_host = fixture_host\<lparr>json_parse := (\<lambda>t. if t = ''match_result_corrected''
     then Some (event_json (Match_Result_Corrected fixture_correction)) else None)\<rparr>"

definition correction_operation :: operation_row where
  "correction_operation = \<lparr>or_id = fixture_uuid 5, or_checkpoint_id = fixture_uuid 2,
     or_evidence = \<lparr>ev_sourceOperationId = ''7'', ev_transactionId = Some ''tx'',
       ev_operationIndex = 0, ev_isVirtual = False, ev_blockNumber = 2, ev_blockId = ''a2'',
       ev_blockTimestamp = ''2026-07-16T00:00:00.000Z'', ev_operationType = ''custom_json_operation'',
       ev_primaryAccount = ''match-pub'', ev_requiredAuthority = Some Posting_Authority,
       ev_applicationId = Some ''hive.chameleon'',
       ev_payload = custom_json_json \<lparr>cj_required_auths = [], cj_required_posting_auths = [''match-pub''],
         cj_id = ''hive.chameleon'', cj_json = ''match_result_corrected''\<rparr>\<rparr>,
     or_state = Included, or_observed_at = ''2026-07-16T00:00:00.000Z'',
     or_validation_state = Accepted, or_rejection_reason = None,
     or_irreversible_at = None, or_reverted_at = None\<rparr>"

definition correction_pg :: "nat pg" where
  "correction_pg = fixture_pg\<lparr>pg_db := (pg_db fixture_pg)\<lparr>db_operations := [correction_operation],
     db_match_events := (case matchEventRow (Match_Result_Corrected fixture_correction) (fixture_uuid 5)
       ''2026-07-16T00:00:00.000Z'' of None \<Rightarrow> [] | Some e \<Rightarrow> [e])\<rparr>\<rparr>"

lemma correction_parses:
  "eventFromOperationPayload correction_host (ev_payload (or_evidence correction_operation)) =
     Inr (Match_Result_Corrected fixture_correction)"
proof -
  have "payload_text (ev_payload (or_evidence correction_operation)) = Some ''match_result_corrected''"
    by code_simp
  moreover have "valid_event correction_host (Match_Result_Corrected fixture_correction)"
    and canon: "canonicalize correction_host (event_json (Match_Result_Corrected fixture_correction)) =
      Some ''match_result_corrected''"
    and "utf8_length ''match_result_corrected'' \<le> HIVE_CHAMELEON_MAX_PAYLOAD_BYTES"
    by code_simp+
  then have "serializeHiveChameleonEvent correction_host
      (event_json (Match_Result_Corrected fixture_correction)) = Inr ''match_result_corrected''"
    unfolding serialize_event_Inr by blast
  then have "parseHiveChameleonEvent correction_host ''match_result_corrected'' =
      Inr (Match_Result_Corrected fixture_correction)"
    by (rule serialize_parse) (unfold codec_ok_def canon, simp add: correction_host_def)
  ultimately show ?thesis by (simp add: eventFromOperationPayload_def)
qed

theorem correction_never_finalizes_witness:
  "fst (pg_finalizeThrough (fixture_pg_options\<lparr>po_host := correction_host\<rparr>) ''haf'' 2
     ''2026-07-16T00:00:00.000Z'' correction_pg) \<noteq> Inr ()"
proof -
  let ?P = "fixture_pg_options\<lparr>po_host := correction_host\<rparr>"
  obtain u w' where run: "pg_finalizeThrough ?P ''haf'' 2 ''2026-07-16T00:00:00.000Z'' correction_pg = (u, w')"
    by fastforce
  have event: "eventFromOperationPayload (po_host ?P) (ev_payload (or_evidence correction_operation)) =
      Inr (Match_Result_Corrected fixture_correction)"
    by (simp add: correction_parses)
  have "u \<noteq> Inr () \<and> pg_db w' = pg_db correction_pg"
  proof (rule correction_never_finalizes [OF _ _ _ _ _ event _ _ run])
    show "correction_operation \<in> set (db_operations (pg_db correction_pg))"
      by (simp add: correction_pg_def)
    show "selected (pg_db correction_pg) ''haf'' (\<lambda>h. h \<le> 2) (or_checkpoint_id correction_operation)"
      by code_simp
    show "map_option me_event_uuid (List.find (\<lambda>e. me_operation_id e = or_id correction_operation)
        (db_match_events (pg_db correction_pg))) = Some (mc_event_id fixture_correction)"
      by code_simp
    show "date_parse (po_host ?P) ''2026-07-16T00:00:00.000Z'' \<noteq> None"
      by code_simp
  qed (simp_all add: correction_operation_def)
  with run show ?thesis by simp
qed

end
