(* ===== verification/Hafah_Source.thy ===== *)
theory Hafah_Source
  imports Haf_Model "HOL-Library.AList" "HOL-Library.Product_Lexorder"
begin

text \<open>
  The HTTP source of the projector (\<open>source/hafah-http-source.ts\<close>): the head block and the
  operations come from a HAfAH API, the irreversible block from a Hive RPC node. What the
  network answers is a parameter, an action of its own state; responses are JSON values,
  which the zod schemas of the file read.

  A request keeps its URL as the parts the code sets: a base, a relative reference and the
  query parameters in order. The timeout that aborts a request is an argument of the fetch
  port. Numbers are integers; an operation without \<open>value\<close>, which \<open>z.unknown()\<close> lets
  through as \<open>undefined\<close>, is read as \<open>null\<close>: the validator ignores both.
\<close>

section \<open>Ports and configuration\<close>

datatype http_request =
    Http_Get url string "(string \<times> string) list"
  | Http_Post url json

record http_response =
  hr_ok :: bool
  hr_status :: nat
  hr_json :: "exn + json"

type_synonym 'f fetch_port = "http_request \<Rightarrow> int \<Rightarrow> ('f, http_response) action"

record hafah_config =
  hc_sourceName :: string
  hc_hafahApiUrl :: string
  hc_hiveRpcUrl :: string
  hc_operationTypeIds :: "int list"
  hc_pageSize :: "int option"
  hc_timeoutMs :: "int option"
  hc_allowHttpForTests :: "bool option"

record hafah =
  hs_sourceName :: string
  hs_apiBase :: url
  hs_rpcUrl :: url
  hs_operationTypeIds :: "int list"
  hs_pageSize :: int
  hs_timeoutMs :: int

abbreviation invalidResponse :: exn where
  "invalidResponse \<equiv> HafProjectorError invalid_source_response"

section \<open>The constructor\<close>

text \<open>A URL without credentials, query or fragment, over HTTPS unless a test allows HTTP.\<close>

definition validateUrl :: "host \<Rightarrow> string \<Rightarrow> bool \<Rightarrow> exn + url" where
  "validateUrl H value allowHttp =
     ebind (of_option invalidResponse (parse_url H value)) (\<lambda>url.
     let protocolAllowed =
       url_protocol url = ''https:'' \<or> (allowHttp \<and> url_protocol url = ''http:'') in
     ebind (ensure (\<not> (\<not> protocolAllowed \<or> url_username url \<noteq> '''' \<or> url_password url \<noteq> '''' \<or>
       url_search url \<noteq> '''' \<or> url_hash url \<noteq> '''')) invalidResponse) (\<lambda>_.
     Inr url))"

definition ends_with_slash :: "string \<Rightarrow> bool" where
  "ends_with_slash s \<longleftrightarrow> s \<noteq> [] \<and> last s = CHR ''/''"

definition normalizeBaseUrl :: "host \<Rightarrow> string \<Rightarrow> bool \<Rightarrow> exn + url" where
  "normalizeBaseUrl H value allowHttp =
     ebind (validateUrl H value allowHttp) (\<lambda>url.
     Inr (if \<not> ends_with_slash (url_pathname url)
          then url\<lparr>url_pathname := url_pathname url @ ''/''\<rparr> else url))"

text \<open>\<open>/^[a-z0-9][a-z0-9._-]{0,63}$/\<close>\<close>

definition source_name_pattern :: "string \<Rightarrow> bool" where
  "source_name_pattern s \<longleftrightarrow>
     match_lead (\<lambda>c. is_lower c \<or> is_digit c)
       (\<lambda>c. is_lower c \<or> is_digit c \<or> is_one_of ''._-'' c) 0 63 s"

definition HafahHttpSource_new :: "host \<Rightarrow> bool \<Rightarrow> hafah_config \<Rightarrow> exn + hafah" where
  "HafahHttpSource_new H production config =
     (let allowHttp = (case hc_allowHttpForTests config of None \<Rightarrow> False | Some b \<Rightarrow> b);
          pageSize = (case hc_pageSize config of None \<Rightarrow> 1000 | Some n \<Rightarrow> n);
          timeoutMs = (case hc_timeoutMs config of None \<Rightarrow> 5000 | Some n \<Rightarrow> n) in
      ebind (ensure (\<not> (hc_allowHttpForTests config = Some True \<and> production)) invalidResponse) (\<lambda>_.
      ebind (normalizeBaseUrl H (hc_hafahApiUrl config) allowHttp) (\<lambda>apiBase.
      ebind (validateUrl H (hc_hiveRpcUrl config) allowHttp) (\<lambda>rpcUrl.
      ebind (ensure (source_name_pattern (hc_sourceName config)) invalidResponse) (\<lambda>_.
      ebind (ensure (\<not> (length (hc_operationTypeIds config) = 0 \<or>
        list_ex (\<lambda>value. value < 0) (hc_operationTypeIds config))) invalidResponse) (\<lambda>_.
      ebind (ensure (\<not> (pageSize < 1 \<or> pageSize > 10000)) invalidResponse) (\<lambda>_.
      ebind (ensure (\<not> (\<not> is_safe_integer timeoutMs \<or> timeoutMs < 100 \<or> timeoutMs > 120000))
        invalidResponse) (\<lambda>_.
      Inr \<lparr>hs_sourceName = hc_sourceName config, hs_apiBase = apiBase, hs_rpcUrl = rpcUrl,
        hs_operationTypeIds = hc_operationTypeIds config, hs_pageSize = pageSize,
        hs_timeoutMs = timeoutMs\<rparr>))))))))"

section \<open>Reading responses\<close>

text \<open>\<open>z.object({...})\<close> keeps unknown keys out, but does not refuse them.\<close>

definition loose_object :: "json \<Rightarrow> (string, json) fmap option" where
  "loose_object v = (case v of JObj m \<Rightarrow> Some m | _ \<Rightarrow> None)"

text \<open>A required key, and a key that is \<open>nullable().optional()\<close>.\<close>

definition get_nullish :: "(json \<Rightarrow> 'a option) \<Rightarrow> (string, json) fmap \<Rightarrow> string \<Rightarrow> 'a option option" where
  "get_nullish f m k =
     (case fmlookup m k of
        None \<Rightarrow> Some None
      | Some v \<Rightarrow> if v = JNull then Some None else map_option Some (f v))"

text \<open>\<open>z.number().int().nonnegative()\<close>: in zod 4 a safe integer.\<close>

definition as_nonnegative :: "json \<Rightarrow> nat option" where
  "as_nonnegative v =
     Option.bind (as_int v) (\<lambda>n. if is_safe_integer n \<and> 0 \<le> n then Some (nat n) else None)"

definition string_such :: "(string \<Rightarrow> bool) \<Rightarrow> json \<Rightarrow> string option" where
  "string_such P v = Option.bind (as_string v) (\<lambda>s. if P s then Some s else None)"

definition blockHashSchema :: "string \<Rightarrow> bool" where
  "blockHashSchema s \<longleftrightarrow> is_hex_string 40 s"

definition decimal_value :: "string \<Rightarrow> int" where
  "decimal_value s = foldl (\<lambda>a c. 10 * a + (of_char c - 48)) 0 s"

text \<open>\<open>/^(0|[1-9][0-9]{0,19})$/\<close> of at most \<open>2^64 - 1\<close>.\<close>

definition uint64DecimalSchema :: "string \<Rightarrow> bool" where
  "uint64DecimalSchema s \<longleftrightarrow>
     (s = ''0'' \<or> match_lead (\<lambda>c. is_digit c \<and> c \<noteq> CHR ''0'') is_digit 0 19 s) \<and>
     decimal_value s \<le> 18446744073709551615"

definition nonempty :: "string \<Rightarrow> bool" where
  "nonempty s \<longleftrightarrow> 1 \<le> length s"

record global_state =
  gs_block_num :: nat
  gs_hash :: string
  gs_prev :: string
  gs_created_at :: string

definition globalStateSchema :: "json \<Rightarrow> global_state option" where
  "globalStateSchema v = do {
     m \<leftarrow> loose_object v;
     block_num \<leftarrow> get_prop as_nonnegative m ''block_num'';
     hash \<leftarrow> get_prop (string_such blockHashSchema) m ''hash'';
     prev \<leftarrow> get_prop (string_such blockHashSchema) m ''prev'';
     created_at \<leftarrow> get_prop (string_such nonempty) m ''created_at'';
     Some \<lparr>gs_block_num = block_num, gs_hash = hash, gs_prev = prev,
       gs_created_at = created_at\<rparr> }"

record hafah_operation =
  hf_type :: string
  hf_value :: json
  hf_block :: nat
  hf_trx_id :: "string option"
  hf_op_pos :: nat
  hf_timestamp :: string
  hf_virtual_op :: bool
  hf_operation_id :: string

definition hafahOperationSchema :: "json \<Rightarrow> hafah_operation option" where
  "hafahOperationSchema v = do {
     m \<leftarrow> loose_object v;
     op \<leftarrow> get_prop loose_object m ''op'';
     typ \<leftarrow> get_prop (string_such nonempty) op ''type'';
     block \<leftarrow> get_prop as_nonnegative m ''block'';
     trx_id \<leftarrow> get_nullish (string_such (is_hex_string 40)) m ''trx_id'';
     op_pos \<leftarrow> get_prop as_nonnegative m ''op_pos'';
     timestamp \<leftarrow> get_prop (string_such nonempty) m ''timestamp'';
     virtual_op \<leftarrow> get_prop as_bool m ''virtual_op'';
     operation_id \<leftarrow> get_prop (string_such uint64DecimalSchema) m ''operation_id'';
     Some \<lparr>hf_type = typ,
       hf_value = (case fmlookup op ''value'' of None \<Rightarrow> JNull | Some w \<Rightarrow> w),
       hf_block = block, hf_trx_id = trx_id, hf_op_pos = op_pos, hf_timestamp = timestamp,
       hf_virtual_op = virtual_op, hf_operation_id = operation_id\<rparr> }"

record operations_page =
  page_next_block :: "nat option"
  page_next_operation :: "string option"
  page_ops :: "hafah_operation list"

definition operationsPageSchema :: "json \<Rightarrow> operations_page option" where
  "operationsPageSchema v = do {
     m \<leftarrow> loose_object v;
     next_block \<leftarrow> get_nullish as_nonnegative m ''next_block_range_begin'';
     next_operation \<leftarrow> get_nullish (string_such uint64DecimalSchema) m ''next_operation_begin'';
     ops \<leftarrow> get_prop (as_array_of hafahOperationSchema) m ''ops'';
     Some \<lparr>page_next_block = next_block, page_next_operation = next_operation,
       page_ops = ops\<rparr> }"

definition rpcPropertiesSchema :: "json \<Rightarrow> nat option" where
  "rpcPropertiesSchema v = do {
     m \<leftarrow> loose_object v;
     r \<leftarrow> get_prop loose_object m ''result'';
     get_prop as_nonnegative r ''last_irreversible_block_num'' }"

definition rpcBlockSchema :: "json \<Rightarrow> string option" where
  "rpcBlockSchema v = do {
     m \<leftarrow> loose_object v;
     r \<leftarrow> get_prop loose_object m ''result'';
     b \<leftarrow> get_prop loose_object r ''block'';
     get_prop (string_such blockHashSchema) b ''block_id'' }"

section \<open>Helpers\<close>

text \<open>\<open>blockNumber.toString(16).padStart(8, '0')\<close>\<close>

definition hex_char :: "nat \<Rightarrow> char" where
  "hex_char n = (if n < 10 then char_of (48 + n) else char_of (87 + n))"

fun hex_text :: "nat \<Rightarrow> string" where
  "hex_text n =
     (if n < 16 then [hex_char n] else hex_text (n div 16) @ [hex_char (n mod 16)])"

declare hex_text.simps [simp del]

definition padStart :: "nat \<Rightarrow> char \<Rightarrow> string \<Rightarrow> string" where
  "padStart n c s = replicate (n - length s) c @ s"

definition blockIdMatchesNumber :: "string \<Rightarrow> nat \<Rightarrow> bool" where
  "blockIdMatchesNumber blockId blockNumber \<longleftrightarrow>
     int blockNumber \<le> 0xffffffff \<and>
     js_slice 0 8 blockId = padStart 8 (CHR ''0'') (hex_text blockNumber)"

text \<open>\<open>/(?:Z|[+-][0-9]{2}:[0-9]{2})$/\<close>\<close>

definition has_zone :: "string \<Rightarrow> bool" where
  "has_zone s \<longleftrightarrow>
     (s \<noteq> [] \<and> last s = CHR ''Z'') \<or>
     (6 \<le> length s \<and>
      match_seq [is_one_of ''+-'', is_digit, is_digit, is_one_of '':'', is_digit, is_digit]
        (drop (length s - 6) s))"

definition normalizeHiveTimestamp :: "host \<Rightarrow> string \<Rightarrow> exn + string" where
  "normalizeHiveTimestamp H value =
     (let withZone = (if has_zone value then value else value @ ''Z'') in
      ebind (of_option invalidResponse (date_parse H withZone)) (\<lambda>timestamp.
      Inr (to_iso_string H timestamp)))"

definition assertBlockNumber :: "nat \<Rightarrow> exn + unit" where
  "assertBlockNumber value = ensure (is_safe_integer (int value)) invalidResponse"

definition ZERO_TRANSACTION_ID :: string where
  "ZERO_TRANSACTION_ID = replicate 40 (CHR ''0'')"

section \<open>Requests\<close>

definition requestJson :: "'f fetch_port \<Rightarrow> hafah \<Rightarrow> http_request \<Rightarrow> ('f, json) action" where
  "requestJson F h req =
     act_catch
       (act_bind (F req (hs_timeoutMs h)) (\<lambda>response.
        act_bind (act_ensure (hr_ok response) (HafProjectorError source_unavailable)) (\<lambda>_.
        act_lift (hr_json response))))
       (\<lambda>error. case error of
          HafProjectorError c \<Rightarrow> act_fail error
        | _ \<Rightarrow> act_fail (HafProjectorError source_unavailable))"

definition getJson ::
  "'f fetch_port \<Rightarrow> hafah \<Rightarrow> string \<Rightarrow> (string \<times> string) list \<Rightarrow> ('f, json) action" where
  "getJson F h path query = requestJson F h (Http_Get (hs_apiBase h) path query)"

definition rpc_body :: "string \<Rightarrow> json \<Rightarrow> int \<Rightarrow> json" where
  "rpc_body meth params n = jobj
     [(''jsonrpc'', JStr ''2.0''), (''method'', JStr meth), (''params'', params), (''id'', JNum n)]"

definition hafah_getHeadBlockNumber :: "'f fetch_port \<Rightarrow> hafah \<Rightarrow> ('f, nat) action" where
  "hafah_getHeadBlockNumber F h =
     act_bind (getJson F h ''headblock'' []) (\<lambda>value.
     act_lift (of_option invalidResponse (as_nonnegative value)))"

definition hafah_getLastIrreversibleBlock ::
  "'f fetch_port \<Rightarrow> hafah \<Rightarrow> ('f, irreversible_block) action" where
  "hafah_getLastIrreversibleBlock F h =
     act_bind (requestJson F h (Http_Post (hs_rpcUrl h)
       (rpc_body ''database_api.get_dynamic_global_properties'' (jobj []) 1))) (\<lambda>value.
     act_bind (act_lift (of_option invalidResponse (rpcPropertiesSchema value))) (\<lambda>blockNumber.
     if blockNumber = 0 then act_ok \<lparr>ib_number = 0, ib_id = None\<rparr>
     else
       act_bind (requestJson F h (Http_Post (hs_rpcUrl h)
         (rpc_body ''block_api.get_block'' (jobj [(''block_num'', JNum (int blockNumber))]) 2)))
         (\<lambda>blockValue.
       act_bind (act_lift (of_option invalidResponse (rpcBlockSchema blockValue))) (\<lambda>block_id.
       act_bind (act_ensure (blockIdMatchesNumber block_id blockNumber) invalidResponse) (\<lambda>_.
       act_ok \<lparr>ib_number = blockNumber, ib_id = Some block_id\<rparr>)))))"

definition hafah_getBlock :: "host \<Rightarrow> 'f fetch_port \<Rightarrow> hafah \<Rightarrow> nat \<Rightarrow> ('f, haf_block) action" where
  "hafah_getBlock H F h blockNumber =
     act_bind (act_lift (assertBlockNumber blockNumber)) (\<lambda>_.
     act_bind (getJson F h ''global-state'' [(''block-num'', nat_text blockNumber)]) (\<lambda>value.
     act_bind (act_lift (of_option invalidResponse (globalStateSchema value))) (\<lambda>result.
     act_bind (act_ensure (gs_block_num result = blockNumber \<and>
       blockIdMatchesNumber (gs_hash result) blockNumber) invalidResponse) (\<lambda>_.
     act_bind (act_lift (normalizeHiveTimestamp H (gs_created_at result))) (\<lambda>timestamp.
     act_ok \<lparr>hb_number = blockNumber, hb_id = gs_hash result, hb_previousId = gs_prev result,
       hb_timestamp = timestamp\<rparr>)))))"

end
