(* ===== verification/Hafah_Operations.thy ===== *)
theory Hafah_Operations
  imports Hafah_Source
begin

text \<open>
  \<open>getOperations\<close> of the HTTP source: the operations of a block range, read page by page.
  \<open>JSON.stringify\<close>, which decides whether two reports of one operation agree, is a
  parameter: the property order it depends on is not part of a JSON value here. The loop of
  the code has no bound of its own; it ends because the pages it can ask for are finitely
  many and none is asked for twice.
\<close>

section \<open>One operation\<close>

definition normalize_operation ::
  "host \<Rightarrow> nat \<Rightarrow> nat \<Rightarrow> hafah_operation \<Rightarrow> exn + haf_operation" where
  "normalize_operation H fromBlock toBlock item =
     ebind (ensure (\<not> (hf_block item < fromBlock \<or> hf_block item > toBlock)) invalidResponse) (\<lambda>_.
     let hasTransactionId =
       hf_trx_id item \<noteq> None \<and> hf_trx_id item \<noteq> Some ZERO_TRANSACTION_ID in
     ebind (ensure (\<not> (\<not> hf_virtual_op item \<and> \<not> hasTransactionId)) invalidResponse) (\<lambda>_.
     ebind (normalizeHiveTimestamp H (hf_timestamp item)) (\<lambda>timestamp.
     Inr \<lparr>ho_sourceOperationId = hf_operation_id item,
       ho_transactionId = (if hasTransactionId then hf_trx_id item else None),
       ho_operationIndex = hf_op_pos item, ho_isVirtual = hf_virtual_op item,
       ho_blockNumber = hf_block item, ho_timestamp = timestamp,
       ho_operationType = hf_type item, ho_value = hf_value item\<rparr>)))"

text \<open>
  A \<open>Map\<close> iterates in the order its keys were first set, which is how \<open>AList.update\<close> keeps
  an association list.
\<close>

type_synonym operation_map = "(string \<times> haf_operation) list"

definition take_operation ::
  "host \<Rightarrow> (haf_operation \<Rightarrow> string) \<Rightarrow> nat \<Rightarrow> nat \<Rightarrow> hafah_operation \<Rightarrow> operation_map \<Rightarrow>
     exn + operation_map" where
  "take_operation H stringify fromBlock toBlock item operations =
     ebind (normalize_operation H fromBlock toBlock item) (\<lambda>normalized.
     ebind (ensure (case map_of operations (ho_sourceOperationId normalized) of
         None \<Rightarrow> True
       | Some previous \<Rightarrow> \<not> (stringify previous \<noteq> stringify normalized)) invalidResponse) (\<lambda>_.
     Inr (AList.update (ho_sourceOperationId normalized) normalized operations)))"

fun take_operations ::
  "host \<Rightarrow> (haf_operation \<Rightarrow> string) \<Rightarrow> nat \<Rightarrow> nat \<Rightarrow> hafah_operation list \<Rightarrow> operation_map \<Rightarrow>
     exn + operation_map" where
  "take_operations H stringify fromBlock toBlock [] operations = Inr operations"
| "take_operations H stringify fromBlock toBlock (item # items) operations =
     ebind (take_operation H stringify fromBlock toBlock item operations) (\<lambda>operations'.
     take_operations H stringify fromBlock toBlock items operations')"

section \<open>One page\<close>

text \<open>\<open>`${pageFrom}:${operationBegin ?? ''}`\<close>\<close>

definition page_key :: "nat \<Rightarrow> string option \<Rightarrow> string" where
  "page_key pageFrom operationBegin =
     nat_text pageFrom @ '':'' @ (case operationBegin of None \<Rightarrow> '''' | Some b \<Rightarrow> b)"

fun join :: "string \<Rightarrow> string list \<Rightarrow> string" where
  "join sep [] = ''''"
| "join sep [s] = s"
| "join sep (s # ss) = s @ sep @ join sep ss"

definition page_query :: "hafah \<Rightarrow> nat \<Rightarrow> nat \<Rightarrow> string option \<Rightarrow> (string \<times> string) list" where
  "page_query h toBlock pageFrom operationBegin =
     [(''from-block'', nat_text pageFrom), (''to-block'', nat_text toBlock),
      (''operation-types'', join '','' (map (\<lambda>n. nat_text (nat n)) (hs_operationTypeIds h))),
      (''operation-group-type'', ''all''), (''page-size'', nat_text (nat (hs_pageSize h))),
      (''include-reversible'', ''true'')] @
     (case operationBegin of None \<Rightarrow> [] | Some b \<Rightarrow> [(''operation-begin'', b)])"

text \<open>Where the next page begins, \<open>None\<close> when the loop is left.\<close>

definition next_page :: "nat \<Rightarrow> operations_page \<Rightarrow> (nat \<times> string) option" where
  "next_page toBlock page =
     (case (page_next_block page, page_next_operation page) of
        (Some nextBlock, Some nextOperation) \<Rightarrow>
          if nextBlock = 0 \<or> nextOperation = ''0'' \<or> nextBlock > toBlock then None
          else Some (nextBlock, nextOperation)
      | _ \<Rightarrow> None)"

definition read_page ::
  "host \<Rightarrow> (haf_operation \<Rightarrow> string) \<Rightarrow> 'f fetch_port \<Rightarrow> hafah \<Rightarrow> nat \<Rightarrow> nat \<Rightarrow> nat \<Rightarrow> string option \<Rightarrow>
     operation_map \<Rightarrow> ('f, operation_map \<times> (nat \<times> string) option) action" where
  "read_page H stringify F h fromBlock toBlock pageFrom operationBegin operations =
     act_bind (getJson F h ''operations'' (page_query h toBlock pageFrom operationBegin)) (\<lambda>raw.
     act_bind (act_lift (of_option invalidResponse (operationsPageSchema raw))) (\<lambda>page.
     act_bind (act_lift (take_operations H stringify fromBlock toBlock (page_ops page) operations))
       (\<lambda>operations'.
     act_ok (operations', next_page toBlock page))))"

section \<open>The loop over pages\<close>

text \<open>The pages a response can lead to.\<close>

definition page_space :: "nat \<Rightarrow> string set" where
  "page_space toBlock =
     (\<lambda>(b, q). page_key b (Some q)) ` ({..toBlock} \<times> {q. uint64DecimalSchema q})"

lemma uint64_length: "uint64DecimalSchema q \<Longrightarrow> length q \<le> 20"
  by (cases q) (auto simp: uint64DecimalSchema_def)

lemma page_space_finite: "finite (page_space toBlock)"
proof -
  have "{q. uint64DecimalSchema q} \<subseteq> {q. set q \<subseteq> UNIV \<and> length q \<le> 20}"
    using uint64_length by auto
  then have "finite {q. uint64DecimalSchema q}"
    using finite_lists_length_le [OF finite, of UNIV 20] finite_subset by blast
  then show ?thesis
    by (simp add: page_space_def)
qed

lemma get_nullish_such:
  assumes "get_nullish (string_such P) m k = Some (Some s)"
  shows "P s"
  using assms by (auto simp: get_nullish_def string_such_def bind_eq_Some_conv split: option.splits if_splits)

lemma read_page_InrE:
  assumes "read_page H stringify F h fromBlock toBlock pageFrom operationBegin operations s =
    (Inr (operations', n), s')"
  obtains raw page where "operationsPageSchema raw = Some page"
    and "take_operations H stringify fromBlock toBlock (page_ops page) operations = Inr operations'"
    and "n = next_page toBlock page"
  using assms unfolding read_page_def by (elim act_bind_InrE) (auto simp: act_run)

lemma read_page_next:
  assumes "read_page H stringify F h fromBlock toBlock pageFrom operationBegin operations s =
    (Inr (operations', Some (b, q)), s')"
  shows "page_key b (Some q) \<in> page_space toBlock"
proof -
  from assms obtain page raw where "operationsPageSchema raw = Some page"
    and n: "next_page toBlock page = Some (b, q)"
    by (auto elim!: read_page_InrE)
  then have "case page_next_operation page of None \<Rightarrow> True | Some w \<Rightarrow> uint64DecimalSchema w"
    by (auto simp: operationsPageSchema_def bind_eq_Some_conv dest: get_nullish_such split: option.split)
  with n show ?thesis
    by (auto simp: next_page_def page_space_def split: option.splits if_splits)
qed

function getOperations_pages ::
  "host \<Rightarrow> (haf_operation \<Rightarrow> string) \<Rightarrow> 'f fetch_port \<Rightarrow> hafah \<Rightarrow> nat \<Rightarrow> nat \<Rightarrow> string list \<Rightarrow>
     nat \<Rightarrow> string option \<Rightarrow> operation_map \<Rightarrow> 'f \<Rightarrow> (exn + operation_map) \<times> 'f" where
  "getOperations_pages H stringify F h fromBlock toBlock visited pageFrom operationBegin operations s =
     (if page_key pageFrom operationBegin \<in> set visited then (Inl invalidResponse, s)
      else case read_page H stringify F h fromBlock toBlock pageFrom operationBegin operations s of
        (Inl e, s') \<Rightarrow> (Inl e, s')
      | (Inr (operations', None), s') \<Rightarrow> (Inr operations', s')
      | (Inr (operations', Some (nextBlock, nextOperation)), s') \<Rightarrow>
          getOperations_pages H stringify F h fromBlock toBlock
            (page_key pageFrom operationBegin # visited) nextBlock (Some nextOperation) operations' s')"
  by pat_completeness auto

text \<open>
  Each page but the first lies in a finite set, and becomes a visited one: what is left of
  the set shrinks.
\<close>

definition pages_left :: "nat \<Rightarrow> string list \<Rightarrow> string \<Rightarrow> nat" where
  "pages_left toBlock visited key =
     2 * card (page_space toBlock - set visited) + (if key \<in> page_space toBlock then 0 else 1)"

lemma pages_left_less:
  assumes "key \<notin> set visited" and "key' \<in> page_space toBlock"
  shows "pages_left toBlock (key # visited) key' < pages_left toBlock visited key"
proof (cases "key \<in> page_space toBlock")
  case True
  with assms(1) have "card (page_space toBlock - set (key # visited)) <
      card (page_space toBlock - set visited)"
    by (intro psubset_card_mono finite_Diff page_space_finite) auto
  with True assms(2) show ?thesis
    by (simp add: pages_left_def)
next
  case False
  then have "page_space toBlock - set (key # visited) = page_space toBlock - set visited"
    by auto
  with False assms(2) show ?thesis
    by (simp only: pages_left_def) simp
qed

termination getOperations_pages
  by (relation "measure (\<lambda>(H, stringify, F, h, fromBlock, toBlock, visited, pageFrom, operationBegin,
        operations, s). pages_left toBlock visited (page_key pageFrom operationBegin))")
    (auto intro!: pages_left_less dest: read_page_next [OF sym])

declare getOperations_pages.simps [simp del]

definition getOperations_read ::
  "host \<Rightarrow> (haf_operation \<Rightarrow> string) \<Rightarrow> 'f fetch_port \<Rightarrow> hafah \<Rightarrow> nat \<Rightarrow> nat \<Rightarrow> ('f, operation_map) action" where
  "getOperations_read H stringify F h fromBlock toBlock =
     getOperations_pages H stringify F h fromBlock toBlock [] fromBlock None []"

definition hafah_getOperations ::
  "host \<Rightarrow> (haf_operation \<Rightarrow> string) \<Rightarrow> 'f fetch_port \<Rightarrow> hafah \<Rightarrow> nat \<Rightarrow> nat \<Rightarrow>
     ('f, haf_operation list) action" where
  "hafah_getOperations H stringify F h fromBlock toBlock =
     act_bind (act_lift (assertBlockNumber fromBlock)) (\<lambda>_.
     act_bind (act_lift (assertBlockNumber toBlock)) (\<lambda>_.
     act_bind (act_ensure (\<not> toBlock < fromBlock) invalidResponse) (\<lambda>_.
     act_bind (getOperations_read H stringify F h fromBlock toBlock) (\<lambda>operations.
     act_ok (sort_key (\<lambda>op. (ho_blockNumber op, ho_operationIndex op)) (map snd operations))))))"

text \<open>The source the projector reads.\<close>

definition hafah_source ::
  "host \<Rightarrow> (haf_operation \<Rightarrow> string) \<Rightarrow> 'f fetch_port \<Rightarrow> hafah \<Rightarrow> 'f haf_source" where
  "hafah_source H stringify F h = \<lparr>
     sourceName = hs_sourceName h,
     getHeadBlockNumber = hafah_getHeadBlockNumber F h,
     getLastIrreversibleBlock = hafah_getLastIrreversibleBlock F h,
     getBlock = hafah_getBlock H F h,
     getOperations = hafah_getOperations H stringify F h\<rparr>"

end
