(* ===== verification/Hafah_Properties.thy ===== *)
theory Hafah_Properties
  imports Hafah_Operations Fixtures
begin

text \<open>
  What the HTTP source promises: the shape of a range of operations, that it is what the
  pages say and that no page is asked for twice, the identity of blocks, the checks of its
  configuration, and that every failure is one of its own errors.
\<close>

section \<open>One operation\<close>

definition well_sourced :: "nat \<Rightarrow> nat \<Rightarrow> haf_operation \<Rightarrow> bool" where
  "well_sourced fromBlock toBlock op \<longleftrightarrow>
     fromBlock \<le> ho_blockNumber op \<and> ho_blockNumber op \<le> toBlock \<and>
     (\<not> ho_isVirtual op \<longrightarrow> ho_transactionId op \<noteq> None) \<and>
     ho_transactionId op \<noteq> Some ZERO_TRANSACTION_ID"

lemma normalize_operation_sourced:
  assumes "normalize_operation H fromBlock toBlock item = Inr op"
  shows "well_sourced fromBlock toBlock op \<and> ho_sourceOperationId op = hf_operation_id item"
  using assms
  by (auto simp: normalize_operation_def well_sourced_def run_simps Let_def split: if_splits)

section \<open>The map of operations\<close>

text \<open>Every entry is filed under its own id, once, and satisfies \<open>P\<close>.\<close>

definition filed :: "(haf_operation \<Rightarrow> bool) \<Rightarrow> operation_map \<Rightarrow> bool" where
  "filed P m \<longleftrightarrow> distinct (map fst m) \<and> (\<forall>(k, op) \<in> set m. ho_sourceOperationId op = k \<and> P op)"

lemma filed_Nil [simp]: "filed P []"
  by (simp add: filed_def)

lemma set_update: "(k', v') \<in> set (AList.update k v m) \<Longrightarrow> (k', v') = (k, v) \<or> (k', v') \<in> set m"
  by (induction m) (auto split: if_splits)

lemma filed_update:
  assumes "filed P m" and "P op" and "ho_sourceOperationId op = k"
  shows "filed P (AList.update k op m)"
  using assms set_update by (fastforce simp: filed_def distinct_update)

lemma filed_snd:
  assumes "filed P m"
  shows "distinct (map ho_sourceOperationId (map snd m)) \<and> (\<forall>op \<in> set (map snd m). P op)"
proof -
  from assms have "map ho_sourceOperationId (map snd m) = map fst m"
    by (auto simp: filed_def)
  with assms have "distinct (map ho_sourceOperationId (map snd m))"
    by (simp only: filed_def)
  with assms show ?thesis
    by (auto simp: filed_def)
qed

text \<open>
  The map says what the items say: each item is in it, up to its text, and each entry is an
  item's.
\<close>

definition reports ::
  "host \<Rightarrow> (haf_operation \<Rightarrow> string) \<Rightarrow> nat \<Rightarrow> nat \<Rightarrow> operation_map \<Rightarrow> hafah_operation list \<Rightarrow> bool" where
  "reports H stringify fromBlock toBlock m items \<longleftrightarrow>
     (\<forall>item \<in> set items. \<exists>op n. map_of m (hf_operation_id item) = Some op \<and>
        normalize_operation H fromBlock toBlock item = Inr n \<and> stringify op = stringify n) \<and>
     (\<forall>(k, op) \<in> set m. \<exists>item \<in> set items. normalize_operation H fromBlock toBlock item = Inr op)"

lemma reports_Nil [simp]: "reports H stringify fromBlock toBlock [] []"
  by (simp add: reports_def)

lemma take_operation_Inr:
  assumes "take_operation H stringify fromBlock toBlock item m = Inr m'"
  obtains op where "normalize_operation H fromBlock toBlock item = Inr op"
    and "ho_sourceOperationId op = hf_operation_id item"
    and "\<And>p. map_of m (hf_operation_id item) = Some p \<Longrightarrow> stringify p = stringify op"
    and "m' = AList.update (hf_operation_id item) op m"
proof -
  from assms obtain op where op: "normalize_operation H fromBlock toBlock item = Inr op"
    and "\<And>p. map_of m (ho_sourceOperationId op) = Some p \<Longrightarrow> stringify p = stringify op"
    and "m' = AList.update (ho_sourceOperationId op) op m"
    by (auto simp: take_operation_def run_simps split: option.splits)
  with normalize_operation_sourced [OF op] show ?thesis
    by (intro that) auto
qed

lemma take_operations_filed:
  assumes "take_operations H stringify fromBlock toBlock items m = Inr m'"
    and "filed (well_sourced fromBlock toBlock) m"
  shows "filed (well_sourced fromBlock toBlock) m'"
  using assms
proof (induction items arbitrary: m)
  case Nil
  then show ?case by simp
next
  case (Cons item items)
  then obtain m1 where one: "take_operation H stringify fromBlock toBlock item m = Inr m1"
    and rest: "take_operations H stringify fromBlock toBlock items m1 = Inr m'"
    by (auto simp: run_simps)
  show ?case
    by (rule Cons.IH [OF rest], rule take_operation_Inr [OF one])
      (simp add: filed_update Cons.prems(2) normalize_operation_sourced)
qed

lemma take_operation_reports:
  assumes "take_operation H stringify fromBlock toBlock item m = Inr m'"
    and "reports H stringify fromBlock toBlock m items"
  shows "reports H stringify fromBlock toBlock m' (items @ [item])"
  unfolding reports_def
proof (rule take_operation_Inr [OF assms(1)], intro conjI ballI)
  fix op it
  assume op: "normalize_operation H fromBlock toBlock item = Inr op"
    and same: "\<And>p. map_of m (hf_operation_id item) = Some p \<Longrightarrow> stringify p = stringify op"
    and m': "m' = AList.update (hf_operation_id item) op m"
    and "it \<in> set (items @ [item])"
  then consider "it = item" | "it \<in> set items" by auto
  then show "\<exists>op n. map_of m' (hf_operation_id it) = Some op \<and>
      normalize_operation H fromBlock toBlock it = Inr n \<and> stringify op = stringify n"
  proof cases
    case 1
    with op show ?thesis by (simp add: m' update_conv')
  next
    case 2
    with assms(2) obtain p n where "map_of m (hf_operation_id it) = Some p"
      "normalize_operation H fromBlock toBlock it = Inr n" "stringify p = stringify n"
      unfolding reports_def by blast
    then show ?thesis
      using same by (cases "hf_operation_id it = hf_operation_id item") (auto simp: m' update_conv')
  qed
next
  fix op kp
  assume "normalize_operation H fromBlock toBlock item = Inr op"
    and "m' = AList.update (hf_operation_id item) op m" and "kp \<in> set m'"
  then show "case kp of (k, p) \<Rightarrow>
      \<exists>it \<in> set (items @ [item]). normalize_operation H fromBlock toBlock it = Inr p"
    using assms(2) set_update [of "fst kp" "snd kp"] unfolding reports_def by fastforce
qed

lemma take_operations_reports:
  assumes "take_operations H stringify fromBlock toBlock later m = Inr m'"
    and "reports H stringify fromBlock toBlock m items"
  shows "reports H stringify fromBlock toBlock m' (items @ later)"
  using assms
proof (induction later arbitrary: m items)
  case Nil
  then show ?case by simp
next
  case (Cons it later)
  from Cons.prems(1) obtain m1 where
    one: "take_operation H stringify fromBlock toBlock it m = Inr m1"
    and rest: "take_operations H stringify fromBlock toBlock later m1 = Inr m'"
    by (auto simp: run_simps)
  from take_operation_reports [OF one Cons.prems(2)] Cons.IH [OF rest, of "items @ [it]"]
  show ?case by simp
qed

section \<open>Observing the network\<close>

text \<open>A fetch port that keeps a log of what is asked and answered.\<close>

type_synonym fetch_log = "(http_request \<times> (exn + http_response)) list"

definition recording_fetch :: "'f fetch_port \<Rightarrow> ('f \<times> fetch_log) fetch_port" where
  "recording_fetch F = (\<lambda>req timeoutMs (f, log).
     case F req timeoutMs f of (r, f') \<Rightarrow> (r, (f', log @ [(req, r)])))"

text \<open>The operations of the pages in a log.\<close>

fun response_items :: "exn + http_response \<Rightarrow> hafah_operation list" where
  "response_items (Inl e) = []"
| "response_items (Inr r) =
     (case hr_json r of
        Inl e \<Rightarrow> []
      | Inr v \<Rightarrow> (case operationsPageSchema v of None \<Rightarrow> [] | Some page \<Rightarrow> page_ops page))"

definition log_items :: "fetch_log \<Rightarrow> hafah_operation list" where
  "log_items log = concat (map (\<lambda>(req, r). response_items r) log)"

lemma log_items_append [simp]: "log_items (log @ log') = log_items log @ log_items log'"
  by (simp add: log_items_def)

lemma log_items_Nil [simp]: "log_items [] = []"
  by (simp add: log_items_def)

lemma requestJson_recording:
  assumes "requestJson (recording_fetch F) h req (f, log) = (r, (f', log'))"
  shows "\<exists>p. log' = log @ [(req, p)] \<and> (\<forall>v. r = Inr v \<longrightarrow> (\<exists>q. p = Inr q \<and> hr_json q = Inr v))"
  using assms
  by (auto simp: requestJson_def act_catch_def act_bind_def recording_fetch_def act_run
      split: prod.splits sum.splits exn.splits if_splits)

definition page_request :: "hafah \<Rightarrow> nat \<Rightarrow> nat \<Rightarrow> string option \<Rightarrow> http_request" where
  "page_request h toBlock pageFrom operationBegin =
     Http_Get (hs_apiBase h) ''operations'' (page_query h toBlock pageFrom operationBegin)"

lemma page_request_key:
  "page_request h toBlock b q = page_request h toBlock b' q' \<Longrightarrow> page_key b q = page_key b' q'"
  by (auto simp: page_request_def page_query_def page_key_def split: option.splits)

lemma read_page_recording:
  assumes "read_page H stringify (recording_fetch F) h fromBlock toBlock pageFrom operationBegin m
      (f, log) = (r, (f', log'))"
  shows "\<exists>p. log' = log @ [(page_request h toBlock pageFrom operationBegin, p)] \<and>
    (\<forall>m' n. r = Inr (m', n) \<longrightarrow>
       take_operations H stringify fromBlock toBlock (response_items p) m = Inr m')"
proof -
  have "\<exists>p. log' = log @ [(page_request h toBlock pageFrom operationBegin, p)] \<and>
    (\<forall>m' n. r = Inr (m', n) \<longrightarrow>
      take_operations H stringify fromBlock toBlock (response_items p) m = Inr m')"
    if "getJson (recording_fetch F) h ''operations'' (page_query h toBlock pageFrom operationBegin)
      (f, log) = (v, (f', log'))"
      and "\<forall>m' n. r = Inr (m', n) \<longrightarrow> (\<exists>raw page. v = Inr raw \<and>
        operationsPageSchema raw = Some page \<and>
        take_operations H stringify fromBlock toBlock (page_ops page) m = Inr m')" for v
    using requestJson_recording [OF that(1) [unfolded getJson_def]] that(2)
    by (fastforce simp: page_request_def)
  with assms show ?thesis
    unfolding read_page_def
    by (elim act_bindE) (auto simp: act_run)
qed

lemma pages_recording:
  assumes "getOperations_pages H stringify (recording_fetch F) h fromBlock toBlock visited pageFrom
      operationBegin m (f, log) = (r, (f', log'))"
    and "reports H stringify fromBlock toBlock m (log_items log)"
  shows "\<exists>new. log' = log @ new \<and> distinct (map fst new) \<and>
    (\<forall>req \<in> set (map fst new). \<exists>b q. req = page_request h toBlock b q \<and> page_key b q \<notin> set visited) \<and>
    (\<forall>m'. r = Inr m' \<longrightarrow> reports H stringify fromBlock toBlock m' (log_items log'))"
  using assms
proof (induction H stringify "recording_fetch F" h fromBlock toBlock visited pageFrom
    operationBegin m "(f, log)" arbitrary: f log rule: getOperations_pages.induct)
  case (1 H stringify h fromBlock toBlock visited pageFrom operationBegin m f log)
  let ?key = "page_key pageFrom operationBegin"
  let ?req = "page_request h toBlock pageFrom operationBegin"
  show ?case
  proof (cases "?key \<in> set visited")
    case True
    with "1.prems"(1) show ?thesis by (auto simp: getOperations_pages.simps)
  next
    case new: False
    obtain pr f1 log1 where page: "read_page H stringify (recording_fetch F) h fromBlock toBlock
        pageFrom operationBegin m (f, log) = (pr, (f1, log1))"
      by (metis prod.collapse)
    from read_page_recording [OF page] obtain p where log1: "log1 = log @ [(?req, p)]"
      and took: "\<And>m' n. pr = Inr (m', n) \<Longrightarrow>
        take_operations H stringify fromBlock toBlock (response_items p) m = Inr m'"
      by blast
    have items: "log_items log1 = log_items log @ response_items p"
      by (simp add: log1 log_items_def)
    show ?thesis
    proof (cases pr)
      case (Inl e)
      with "1.prems"(1) new page have "r = Inl e" "log' = log1"
        by (auto simp: getOperations_pages.simps)
      with log1 new show ?thesis by auto
    next
      case (Inr mn)
      obtain m1 n where mn: "mn = (m1, n)" by (cases mn)
      from take_operations_reports [OF took "1.prems"(2)] Inr mn items
      have m1: "reports H stringify fromBlock toBlock m1 (log_items log1)"
        by auto
      show ?thesis
      proof (cases n)
        case None
        with "1.prems"(1) new page Inr mn have "r = Inr m1" "log' = log1"
          by (auto simp: getOperations_pages.simps)
        with log1 new m1 show ?thesis by auto
      next
        case (Some bq)
        obtain b q where bq: "bq = (b, q)" by (cases bq)
        from "1.prems"(1) new page Inr mn Some bq
        have run: "getOperations_pages H stringify (recording_fetch F) h fromBlock toBlock
            (?key # visited) b (Some q) m1 (f1, log1) = (r, (f', log'))"
          by (simp add: getOperations_pages.simps [of _ _ _ _ _ _ visited])
        from "1.hyps" [OF new page [symmetric] Inr mn [symmetric] Some bq [symmetric] run m1]
        obtain later where later: "log' = log1 @ later" "distinct (map fst later)"
          and away: "\<And>req. req \<in> set (map fst later) \<Longrightarrow>
            \<exists>b q. req = page_request h toBlock b q \<and> page_key b q \<notin> set (?key # visited)"
          and fin: "\<forall>m'. r = Inr m' \<longrightarrow> reports H stringify fromBlock toBlock m' (log_items log')"
          by blast
        have "?req \<notin> set (map fst later)"
          using away page_request_key by (metis list.set_intros(1))
        moreover have "\<exists>b q. req = page_request h toBlock b q \<and> page_key b q \<notin> set visited"
          if "req \<in> set (map fst later)" for req
          using away [OF that] by (metis list.set_intros(2))
        ultimately show ?thesis
          using later log1 new fin
          by (intro exI [of _ "(?req, p) # later"]) auto
      qed
    qed
  qed
qed

text \<open>What holds of the map holds whatever the network does.\<close>

lemma pages_filed:
  assumes "getOperations_pages H stringify F h fromBlock toBlock visited pageFrom operationBegin m s =
      (Inr m', s')"
    and "filed (well_sourced fromBlock toBlock) m"
  shows "filed (well_sourced fromBlock toBlock) m'"
  using assms
proof (induction H stringify F h fromBlock toBlock visited pageFrom operationBegin m s
    rule: getOperations_pages.induct)
  case (1 H stringify F h fromBlock toBlock visited pageFrom operationBegin m s)
  from "1.prems"(1) obtain m1 n s1
    where new: "page_key pageFrom operationBegin \<notin> set visited"
      and page: "read_page H stringify F h fromBlock toBlock pageFrom operationBegin m s =
        (Inr (m1, n), s1)"
      and rest: "case n of None \<Rightarrow> (Inr m1, s1) = (Inr m', s')
        | Some (b, q) \<Rightarrow> getOperations_pages H stringify F h fromBlock toBlock
            (page_key pageFrom operationBegin # visited) b (Some q) m1 s1 = (Inr m', s')"
    by (subst (asm) getOperations_pages.simps)
      (auto split: if_splits prod.splits sum.splits option.splits)
  from page have m1: "filed (well_sourced fromBlock toBlock) m1"
    by (rule read_page_InrE) (rule take_operations_filed [OF _ "1.prems"(2)])
  show ?case
  proof (cases n)
    case None
    with rest m1 show ?thesis by simp
  next
    case (Some bq)
    obtain b q where bq: "bq = (b, q)" by (cases bq)
    with rest Some have run: "getOperations_pages H stringify F h fromBlock toBlock
        (page_key pageFrom operationBegin # visited) b (Some q) m1 s1 = (Inr m', s')"
      by simp
    show ?thesis
      by (rule "1.IH" [OF new page [symmetric] refl refl Some bq [symmetric] run m1])
  qed
qed

section \<open>Block ids and heights\<close>

fun hex_number :: "string \<Rightarrow> nat" where
  "hex_number s = foldl (\<lambda>a c. 16 * a + (if is_digit c then of_char c - 48 else of_char c - 87)) 0 s"

lemma hex_char_value:
  assumes "n < 16"
  shows "(if is_digit (hex_char n) then of_char (hex_char n) - 48
    else of_char (hex_char n) - 87) = n"
proof -
  from assms have "n \<in> {0, 1, 2, 3, 4, 5, 6, 7, 8, 9, 10, 11, 12, 13, 14, 15}"
    by (simp only: insert_iff empty_iff) presburger
  then show ?thesis
    by (auto simp: hex_char_def is_digit_def less_eq_char_def)
qed

lemma hex_number_text: "hex_number (hex_text n) = n"
proof (induction n rule: hex_text.induct)
  case (1 n)
  then show ?case
    by (cases "n < 16") (simp_all add: hex_text.simps [of n] hex_char_value)
qed

lemma hex_number_zeros: "hex_number (replicate k (CHR ''0'') @ s) = hex_number s"
proof -
  have "foldl (\<lambda>a c. 16 * a + (if is_digit c then of_char c - 48 else of_char c - 87)) (0 :: nat)
      (replicate k (CHR ''0'')) = 0"
    by (induction k) (simp_all add: is_digit_def)
  then show ?thesis
    by simp
qed

lemma blockId_determines_number:
  assumes "blockIdMatchesNumber i n" and "blockIdMatchesNumber i m"
  shows "n = m"
proof -
  have "k = hex_number (js_slice 0 8 i)" if "blockIdMatchesNumber i k" for k
    using that by (simp only: blockIdMatchesNumber_def padStart_def hex_number_zeros hex_number_text)
  with assms show ?thesis by metis
qed

lemma getBlock_InrE:
  assumes "hafah_getBlock H F h n s = (Inr b, s')"
  obtains "hb_number b = n" and "blockIdMatchesNumber (hb_id b) n"
  using assms unfolding hafah_getBlock_def
  by (elim act_bind_InrE act_bind_ensureE) (auto simp: act_run)

lemma getLastIrreversibleBlock_InrE:
  assumes "hafah_getLastIrreversibleBlock F h s = (Inr b, s')"
  obtains (none) "ib_number b = 0" and "ib_id b = None"
    | (some) i where "ib_id b = Some i" and "ib_number b \<noteq> 0" and "blockIdMatchesNumber i (ib_number b)"
  using assms unfolding hafah_getLastIrreversibleBlock_def
  by (elim act_bind_InrE) (auto simp: act_run elim!: act_bind_InrE act_bind_ensureE split: if_splits)

section \<open>Errors\<close>

definition projector_error :: "exn \<Rightarrow> bool" where
  "projector_error e \<longleftrightarrow> (\<exists>c. e = HafProjectorError c)"

definition fails_as :: "(exn \<Rightarrow> bool) \<Rightarrow> ('s, 'a) action \<Rightarrow> bool" where
  "fails_as E m \<longleftrightarrow> (\<forall>s e s'. m s = (Inl e, s') \<longrightarrow> E e)"

named_theorems fails_rules \<open>rules that follow an action's errors\<close>

lemma fails_basic [fails_rules]:
  "fails_as E (act_ok x)" "E e \<Longrightarrow> fails_as E (act_fail e)" "E e \<Longrightarrow> fails_as E (act_ensure b e)"
  "(\<And>e. r = Inl e \<Longrightarrow> E e) \<Longrightarrow> fails_as E (act_lift r)"
  by (auto simp: fails_as_def act_run split: if_splits)

lemma fails_bind [fails_rules]:
  "fails_as E m \<Longrightarrow> (\<And>x. fails_as E (f x)) \<Longrightarrow> fails_as E (act_bind m f)"
  unfolding fails_as_def by (blast elim: act_bindE)

lemma fails_if [fails_rules]:
  "fails_as E m \<Longrightarrow> fails_as E m' \<Longrightarrow> fails_as E (if b then m else m')"
  by simp

lemma projector_error_simp [simp]: "projector_error (HafProjectorError c)"
  by (simp add: projector_error_def)

lemma requestJson_fails [fails_rules]: "fails_as projector_error (requestJson F h req)"
  by (auto simp: fails_as_def requestJson_def act_run projector_error_def elim!: act_catchE
      split: exn.splits)

lemma getJson_fails [fails_rules]: "fails_as projector_error (getJson F h path query)"
  by (simp add: getJson_def fails_rules)

lemma normalizeHiveTimestamp_fails:
  "normalizeHiveTimestamp H t = Inl e \<Longrightarrow> projector_error e"
  by (auto simp: normalizeHiveTimestamp_def Let_def run_simps)

lemma take_operations_fails:
  "take_operations H stringify fromBlock toBlock items m = Inl e \<Longrightarrow> projector_error e"
  by (induction items arbitrary: m)
    (auto simp: run_simps take_operation_def normalize_operation_def Let_def
      dest: normalizeHiveTimestamp_fails)

lemma read_page_fails:
  "fails_as projector_error (read_page H stringify F h fromBlock toBlock b q m)"
  unfolding read_page_def
  by (intro fails_rules) (auto dest: take_operations_fails)

lemma pages_fails:
  "getOperations_pages H stringify F h fromBlock toBlock visited b q m s = (Inl e, s') \<Longrightarrow>
    projector_error e"
proof (induction H stringify F h fromBlock toBlock visited b q m s rule: getOperations_pages.induct)
  case (1 H stringify F h fromBlock toBlock visited b q m s)
  from "1.prems" show ?case
    by (subst (asm) getOperations_pages.simps)
      (auto split: if_splits prod.splits sum.splits option.splits intro: "1.IH"
        dest: read_page_fails [unfolded fails_as_def, rule_format])
qed

section \<open>A recorded network\<close>

text \<open>
  The responses of \<open>hafah-http-source.spec.ts\<close>: two pages of operations, the second behind an
  \<open>operation-begin\<close>, a block, and the node's finality.
\<close>

definition fixture_item :: "string \<Rightarrow> nat \<Rightarrow> string \<Rightarrow> json" where
  "fixture_item operation_id block trx_id = jobj
     [(''op'', jobj [(''type'', JStr ''custom_json_operation''), (''value'', jobj [])]),
      (''block'', JNum (int block)), (''trx_id'', JStr trx_id), (''op_pos'', JNum 0),
      (''timestamp'', JStr ''2026-07-11T12:03:42.000''), (''virtual_op'', JBool False),
      (''operation_id'', JStr operation_id)]"

definition fixture_page :: "json list \<Rightarrow> json \<Rightarrow> json \<Rightarrow> json" where
  "fixture_page items next_block next_operation = jobj
     [(''ops'', JArr items), (''next_block_range_begin'', next_block),
      (''next_operation_begin'', next_operation)]"

definition fixture_answer :: "http_request \<Rightarrow> json" where
  "fixture_answer req = (case req of
     Http_Get base path query \<Rightarrow>
       if path = ''operations'' then
         (if map_of query ''operation-begin'' = None
          then fixture_page [fixture_item ''8'' 101 (replicate 40 (CHR ''b''))] (JNum 100) (JStr ''7'')
          else fixture_page [fixture_item ''7'' 100 (replicate 40 (CHR ''a''))] (JNum 0) (JStr ''0''))
       else if path = ''global-state'' then jobj
         [(''block_num'', JNum 100), (''hash'', JStr (''00000064'' @ replicate 32 (CHR ''a''))),
          (''prev'', JStr (''00000063'' @ replicate 32 (CHR ''a''))),
          (''created_at'', JStr ''2026-07-11T12:03:42.000'')]
       else JNum 101
   | Http_Post base body \<Rightarrow>
       if body = rpc_body ''database_api.get_dynamic_global_properties'' (jobj []) 1
       then jobj [(''result'', jobj [(''last_irreversible_block_num'', JNum 100)])]
       else jobj [(''result'', jobj [(''block'', jobj
         [(''block_id'', JStr (''00000064'' @ replicate 32 (CHR ''a'')))])])])"

definition fixture_fetch :: "unit fetch_port" where
  "fixture_fetch = (\<lambda>req timeoutMs.
     act_ok \<lparr>hr_ok = True, hr_status = 200, hr_json = Inr (fixture_answer req)\<rparr>)"

text \<open>All these responses carry one instant, which the host prints.\<close>

definition hafah_host :: host where
  "hafah_host = fixture_host\<lparr>to_iso_string := (\<lambda>t. ''2026-07-11T12:03:42.000Z'')\<rparr>"

definition fixture_hafah_config :: hafah_config where
  "fixture_hafah_config = \<lparr>hc_sourceName = ''test-mainnet'',
     hc_hafahApiUrl = ''https://hafah.test'', hc_hiveRpcUrl = ''https://rpc.test'',
     hc_operationTypeIds = [18], hc_pageSize = Some 1, hc_timeoutMs = None,
     hc_allowHttpForTests = None\<rparr>"

definition fixture_hafah :: hafah where
  "fixture_hafah =
     (case HafahHttpSource_new hafah_host True fixture_hafah_config of Inr h \<Rightarrow> h)"

definition fixture_text :: "haf_operation \<Rightarrow> string" where
  "fixture_text op = ho_sourceOperationId op"

lemma fixture_hafah_new:
  "HafahHttpSource_new hafah_host True fixture_hafah_config = Inr fixture_hafah"
  by code_simp

lemma fixture_operations_run:
  obtains ops f log where "hafah_getOperations hafah_host fixture_text
      (recording_fetch fixture_fetch) fixture_hafah 100 101 ((), []) = (Inr ops, (f, log))"
    and "map ho_sourceOperationId ops = [''7'', ''8'']" and "length log = 2"
    and "map hf_operation_id (log_items log) = [''8'', ''7'']"
proof -
  have "(case hafah_getOperations hafah_host fixture_text
      (recording_fetch fixture_fetch) fixture_hafah 100 101 ((), []) of
      (Inr ops, (f, log)) \<Rightarrow> map ho_sourceOperationId ops = [''7'', ''8''] \<and> length log = 2 \<and>
        map hf_operation_id (log_items log) = [''8'', ''7'']
    | _ \<Rightarrow> False)"
    by code_simp
  then show ?thesis
    by (auto split: prod.splits sum.splits intro: that)
qed

section \<open>Properties\<close>

lemma distinct_map_sort_key: "distinct (map f (sort_key k xs)) \<longleftrightarrow> distinct (map f xs)"
  by (simp add: distinct_map)

lemma getOperations_InrE:
  assumes "hafah_getOperations H stringify F h fromBlock toBlock s = (Inr ops, s')"
  obtains m where "getOperations_pages H stringify F h fromBlock toBlock [] fromBlock None [] s =
      (Inr m, s')"
    and "ops = sort_key (\<lambda>op. (ho_blockNumber op, ho_operationIndex op)) (map snd m)"
  using assms unfolding hafah_getOperations_def getOperations_read_def
  by (elim act_bind_InrE) (auto simp: act_run split: if_splits)

text \<open>
  Whatever the API answers, a range of operations that \<open>getOperations\<close> returns is sorted
  by block and position, holds each operation id once, and every operation in it lies in the
  range asked for and, unless it is virtual, names a transaction that is not the all-zero
  placeholder.
\<close>

theorem hafah_operations_shape:
  assumes "hafah_getOperations H stringify F h fromBlock toBlock s = (Inr ops, s')"
  shows "sorted (map (\<lambda>op. (ho_blockNumber op, ho_operationIndex op)) ops) \<and>
    distinct (map ho_sourceOperationId ops) \<and>
    (\<forall>op \<in> set ops. fromBlock \<le> ho_blockNumber op \<and> ho_blockNumber op \<le> toBlock \<and>
       (\<not> ho_isVirtual op \<longrightarrow> ho_transactionId op \<noteq> None) \<and>
       ho_transactionId op \<noteq> Some ZERO_TRANSACTION_ID)"
proof -
  from assms obtain m where run: "getOperations_pages H stringify F h fromBlock toBlock [] fromBlock
      None [] s = (Inr m, s')"
    and ops: "ops = sort_key (\<lambda>op. (ho_blockNumber op, ho_operationIndex op)) (map snd m)"
    by (rule getOperations_InrE)
  note f = filed_snd [OF pages_filed [OF run filed_Nil]]
  then have "distinct (map ho_sourceOperationId ops)"
    by (simp only: ops distinct_map_sort_key)
  with f show ?thesis
    by (simp add: ops well_sourced_def)
qed

lemma hafah_operations_shape_witness:
  "\<exists>ops s'. hafah_getOperations hafah_host fixture_text (recording_fetch fixture_fetch)
     fixture_hafah 100 101 ((), []) = (Inr ops, s') \<and> length ops = 2 \<and>
     sorted (map (\<lambda>op. (ho_blockNumber op, ho_operationIndex op)) ops) \<and>
     distinct (map ho_sourceOperationId ops)"
proof (rule fixture_operations_run)
  fix ops f log
  assume run: "hafah_getOperations hafah_host fixture_text (recording_fetch fixture_fetch)
      fixture_hafah 100 101 ((), []) = (Inr ops, (f, log))"
    and "map ho_sourceOperationId ops = [''7'', ''8'']"
  from this(2) have "length (map ho_sourceOperationId ops) = 2"
    by simp
  then have "length ops = 2"
    by (simp only: length_map)
  with run hafah_operations_shape [OF run] show ?thesis
    by blast
qed

text \<open>
  C14. The range is exactly what the pages say: every operation on a page that was read is in
  the result, under its id and with the same \<open>JSON.stringify\<close>, and every operation in the
  result is the normal form of one on a page.
\<close>

theorem hafah_operations_complete:
  assumes "hafah_getOperations H stringify (recording_fetch F) h fromBlock toBlock (f, []) =
    (Inr ops, (f', log))"
  shows "(\<forall>item \<in> set (log_items log). \<exists>op \<in> set ops.
      ho_sourceOperationId op = hf_operation_id item \<and>
      (\<exists>n. normalize_operation H fromBlock toBlock item = Inr n \<and> stringify op = stringify n)) \<and>
    (\<forall>op \<in> set ops. \<exists>item \<in> set (log_items log).
      normalize_operation H fromBlock toBlock item = Inr op)"
proof -
  from assms obtain m where run: "getOperations_pages H stringify (recording_fetch F) h fromBlock
      toBlock [] fromBlock None [] (f, []) = (Inr m, (f', log))"
    and ops: "ops = sort_key (\<lambda>op. (ho_blockNumber op, ho_operationIndex op)) (map snd m)"
    by (rule getOperations_InrE)
  have r: "reports H stringify fromBlock toBlock m (log_items log)"
    using pages_recording [OF run] by simp
  have f: "filed (well_sourced fromBlock toBlock) m"
    by (rule pages_filed [OF run filed_Nil])
  have "\<exists>op \<in> set ops. ho_sourceOperationId op = hf_operation_id item \<and>
      (\<exists>n. normalize_operation H fromBlock toBlock item = Inr n \<and> stringify op = stringify n)"
    if "item \<in> set (log_items log)" for item
  proof -
    from r that obtain op n where "map_of m (hf_operation_id item) = Some op"
      "normalize_operation H fromBlock toBlock item = Inr n" "stringify op = stringify n"
      unfolding reports_def by blast
    moreover from this(1) f have "op \<in> set ops" "ho_sourceOperationId op = hf_operation_id item"
      by (auto simp: ops filed_def dest!: map_of_SomeD intro: rev_image_eqI)
    ultimately show ?thesis by blast
  qed
  moreover have "\<exists>item \<in> set (log_items log). normalize_operation H fromBlock toBlock item = Inr op"
    if "op \<in> set ops" for op
  proof -
    from that obtain k where "(k, op) \<in> set m"
      by (auto simp: ops)
    with r show ?thesis
      unfolding reports_def by blast
  qed
  ultimately show ?thesis by blast
qed

lemma hafah_operations_complete_witness:
  "\<exists>(ops :: haf_operation list) log. map hf_operation_id (log_items log) = [''8'', ''7''] \<and>
     (\<forall>item \<in> set (log_items log). \<exists>op \<in> set ops. ho_sourceOperationId op = hf_operation_id item)"
proof (rule fixture_operations_run)
  fix ops f log
  assume run: "hafah_getOperations hafah_host fixture_text (recording_fetch fixture_fetch)
      fixture_hafah 100 101 ((), []) = (Inr ops, (f, log))"
    and log: "map hf_operation_id (log_items log) = [''8'', ''7'']"
  from hafah_operations_complete [OF run]
  have "\<forall>item \<in> set (log_items log). \<exists>op \<in> set ops. ho_sourceOperationId op = hf_operation_id item"
    by blast
  with log show ?thesis by (intro exI conjI)
qed

text \<open>
  C15. The loop over pages asks for no page twice, whatever the API answers: the requests of
  one call are pages of its range and all different. A response that leads back to a page
  already read ends the call with an error.
\<close>

theorem hafah_pages_once:
  assumes "hafah_getOperations H stringify (recording_fetch F) h fromBlock toBlock (f, []) =
    (r, (f', log))"
  shows "distinct (map fst log) \<and>
    (\<forall>req \<in> set (map fst log). \<exists>b q. req = page_request h toBlock b q)"
proof (cases "log = []")
  case False
  with assms obtain r' where run: "getOperations_pages H stringify (recording_fetch F) h fromBlock
      toBlock [] fromBlock None [] (f, []) = (r', (f', log))"
    unfolding hafah_getOperations_def getOperations_read_def
    by (elim act_bindE) (auto simp: act_run split: if_splits)
  show ?thesis
    using pages_recording [OF run] by fastforce
qed simp

lemma hafah_pages_once_witness:
  "\<exists>log :: fetch_log. length log = 2 \<and> distinct (map fst log)"
proof (rule fixture_operations_run)
  fix ops f log
  assume run: "hafah_getOperations hafah_host fixture_text (recording_fetch fixture_fetch)
      fixture_hafah 100 101 ((), []) = (Inr ops, (f, log))"
    and "length log = 2"
  with hafah_pages_once [OF run] show ?thesis by blast
qed

text \<open>
  A block that the source returns carries the number asked for, and its id begins with
  that number; so does the id of the irreversible block. Two blocks with one id are therefore
  at one height, whichever responses they came from.
\<close>

theorem hafah_ids_fix_heights:
  assumes "hafah_getBlock H F h n s = (Inr b, s')"
    and "hafah_getLastIrreversibleBlock F' h' t = (Inr ib, t')"
    and "ib_id ib = Some (hb_id b)"
  shows "hb_number b = n \<and> ib_number ib = n"
  using assms(3)
  by (rule_tac getBlock_InrE [OF assms(1)], rule_tac getLastIrreversibleBlock_InrE [OF assms(2)])
    (auto dest: blockId_determines_number)

lemma hafah_ids_fix_heights_witness:
  "\<exists>b ib. hafah_getBlock hafah_host fixture_fetch fixture_hafah 100 () = (Inr b, ()) \<and>
     hafah_getLastIrreversibleBlock fixture_fetch fixture_hafah () = (Inr ib, ()) \<and>
     hb_number b = 100 \<and> ib_number ib = 100"
proof -
  let ?b = "hafah_getBlock hafah_host fixture_fetch fixture_hafah 100 ()"
  let ?ib = "hafah_getLastIrreversibleBlock fixture_fetch fixture_hafah ()"
  have "(case ?b of (Inr b, _) \<Rightarrow> hb_id b = ''00000064'' @ replicate 32 (CHR ''a'') | _ \<Rightarrow> False)"
    by code_simp
  moreover have "(case ?ib of
      (Inr ib, _) \<Rightarrow> ib_id ib = Some (''00000064'' @ replicate 32 (CHR ''a'')) | _ \<Rightarrow> False)"
    by code_simp
  ultimately obtain b ib where "?b = (Inr b, ())" "?ib = (Inr ib, ())" "ib_id ib = Some (hb_id b)"
    by (cases ?b; cases ?ib) (auto split: sum.splits)
  then show ?thesis
    using hafah_ids_fix_heights by metis
qed

text \<open>
  The source fails closed: whatever a request throws or answers, an operation of the
  source that fails does so with an error of the projector's own class, so the worker always
  logs a stable code.
\<close>

theorem hafah_fails_closed:
  assumes "fst (hafah_getHeadBlockNumber F h s) = Inl e \<or>
    fst (hafah_getLastIrreversibleBlock F h s) = Inl e \<or>
    fst (hafah_getBlock H F h n s) = Inl e \<or>
    fst (hafah_getOperations H stringify F h fromBlock toBlock s) = Inl e"
  shows "\<exists>c. e = HafProjectorError c"
proof -
  have head: "fails_as projector_error (hafah_getHeadBlockNumber F h)"
    unfolding hafah_getHeadBlockNumber_def by (intro fails_rules) auto
  have lib: "fails_as projector_error (hafah_getLastIrreversibleBlock F h)"
    unfolding hafah_getLastIrreversibleBlock_def by (intro fails_rules) auto
  have block: "fails_as projector_error (hafah_getBlock H F h n)"
    unfolding hafah_getBlock_def
    by (intro fails_rules) (auto simp: assertBlockNumber_def dest: normalizeHiveTimestamp_fails)
  have ops: "fails_as projector_error (hafah_getOperations H stringify F h fromBlock toBlock)"
    unfolding hafah_getOperations_def
    by (intro fails_rules) (auto simp: assertBlockNumber_def getOperations_read_def fails_as_def
        dest: pages_fails)
  from assms head lib block ops show ?thesis
    unfolding fails_as_def projector_error_def [symmetric] by (metis prod.collapse)
qed

lemma hafah_fails_closed_witness:
  "\<exists>e c. fst (hafah_getHeadBlockNumber
      (\<lambda>req timeoutMs. act_fail (OtherError ''ECONNREFUSED'')) fixture_hafah ()) = Inl e \<and>
     e = HafProjectorError c"
proof -
  let ?F = "(\<lambda>req timeoutMs. act_fail (OtherError ''ECONNREFUSED'')) :: unit fetch_port"
  have "fst (hafah_getHeadBlockNumber ?F fixture_hafah ()) = Inl (HafProjectorError source_unavailable)"
    by code_simp
  with hafah_fails_closed [of ?F fixture_hafah "()" "HafProjectorError source_unavailable"]
  show ?thesis by blast
qed

definition plain_url :: "bool \<Rightarrow> url \<Rightarrow> bool" where
  "plain_url allowHttp u \<longleftrightarrow> url_username u = [] \<and> url_password u = [] \<and>
     url_search u = [] \<and> url_hash u = [] \<and> (\<not> allowHttp \<longrightarrow> url_protocol u = ''https:'')"

lemma validateUrl_Inr: "validateUrl H value allowHttp = Inr u \<Longrightarrow> plain_url allowHttp u"
  by (auto simp: validateUrl_def plain_url_def Let_def ebind_eq_Inr)

lemma normalizeBaseUrl_Inr:
  assumes "normalizeBaseUrl H value allowHttp = Inr u"
  shows "plain_url allowHttp u \<and> (\<exists>p. url_pathname u = p @ ''/'')"
proof -
  from assms obtain v where "validateUrl H value allowHttp = Inr v"
    and u: "u = (if \<not> ends_with_slash (url_pathname v)
      then v\<lparr>url_pathname := url_pathname v @ ''/''\<rparr> else v)"
    by (auto simp: normalizeBaseUrl_def ebind_eq_Inr)
  then have "plain_url allowHttp v"
    by (intro validateUrl_Inr)
  moreover have "ends_with_slash p \<Longrightarrow> \<exists>q. p = q @ ''/''" for p
    by (metis append_butlast_last_id ends_with_slash_def)
  ultimately show ?thesis
    by (simp add: u plain_url_def)
qed

text \<open>
  A source that the constructor builds talks to its API and its node over URLs without
  credentials, query or fragment, over HTTPS in production, under a base path that ends in
  a slash; its page size and timeout are within their bounds and it asks for at least one
  operation type.
\<close>

theorem hafah_config_checked:
  assumes "HafahHttpSource_new H production config = Inr h"
  shows "(\<forall>u \<in> {hs_apiBase h, hs_rpcUrl h}. url_username u = [] \<and> url_password u = [] \<and>
      url_search u = [] \<and> url_hash u = [] \<and> (production \<longrightarrow> url_protocol u = ''https:'')) \<and>
    (\<exists>p. url_pathname (hs_apiBase h) = p @ ''/'') \<and>
    1 \<le> hs_pageSize h \<and> hs_pageSize h \<le> 10000 \<and> 100 \<le> hs_timeoutMs h \<and> hs_timeoutMs h \<le> 120000 \<and>
    hs_operationTypeIds h \<noteq> [] \<and> (\<forall>n \<in> set (hs_operationTypeIds h). 0 \<le> n)"
proof -
  define allowHttp where
    "allowHttp = (case hc_allowHttpForTests config of None \<Rightarrow> False | Some b \<Rightarrow> b)"
  from assms have "\<not> (hc_allowHttpForTests config = Some True \<and> production)"
    and base: "normalizeBaseUrl H (hc_hafahApiUrl config) allowHttp = Inr (hs_apiBase h)"
    and rpc: "validateUrl H (hc_hiveRpcUrl config) allowHttp = Inr (hs_rpcUrl h)"
    and rest: "1 \<le> hs_pageSize h" "hs_pageSize h \<le> 10000" "100 \<le> hs_timeoutMs h"
      "hs_timeoutMs h \<le> 120000" "hs_operationTypeIds h \<noteq> []"
      "\<forall>n \<in> set (hs_operationTypeIds h). 0 \<le> n"
    unfolding HafahHttpSource_new_def Let_def allowHttp_def [symmetric]
    by (auto simp: ebind_eq_Inr list_ex_iff not_less)
  then have "\<not> (allowHttp \<and> production)"
    by (auto simp: allowHttp_def split: option.splits)
  with validateUrl_Inr [OF rpc] normalizeBaseUrl_Inr [OF base] rest show ?thesis
    by (simp add: plain_url_def) blast
qed

lemma hafah_config_checked_witness:
  "url_protocol (hs_apiBase fixture_hafah) = ''https:'' \<and> hs_pageSize fixture_hafah \<le> 10000"
  using hafah_config_checked [OF fixture_hafah_new] by blast

end
