(* ===== verification/Batch_Builder.thy ===== *)
theory Batch_Builder
  imports Fixtures Effects "HOL-Library.Product_Lexorder"
begin

text \<open>
  The match publisher's data (\<open>match-publisher/src/model.ts\<close>) and how it cuts a batch from the
  results that wait (\<open>batch-builder.ts\<close>). The provider of ids is an action of its own state.
  \<open>localeCompare\<close> compares by the sort keys of the platform's collation, a parameter. A \<open>Date\<close>
  is a number of milliseconds, \<open>None\<close> for an invalid one; policy numbers are integers.
\<close>

section \<open>Data\<close>

record candidate =
  cd_publicationRequestId :: string
  cd_resultRevisionId :: string
  cd_roundId :: string
  cd_completedAt :: string
  cd_requestedAt :: string
  cd_publicResult :: match_result

record frozen_batch =
  fz_outboxId :: string
  fz_eventId :: string
  fz_batchId :: string
  fz_event :: event
  fz_canonicalPayload :: string
  fz_payloadSha256 :: string
  fz_payloadByteCount :: nat
  fz_publicationPeriodStart :: string
  fz_publicationPeriodEnd :: string
  fz_candidates :: "candidate list"

record 'u batch_policy =
  bp_publisherAccount :: string
  bp_maximumAgeMs :: int
  bp_maximumResults :: int
  bp_maximumPayloadBytes :: int
  bp_nextUuidV7 :: "('u, string) action"

section \<open>Checks\<close>

definition validatePolicy :: "'u batch_policy \<Rightarrow> exn + unit" where
  "validatePolicy policy =
     ensure (\<not> (\<not> is_safe_integer (bp_maximumAgeMs policy) \<or> bp_maximumAgeMs policy < 1000 \<or>
       \<not> is_safe_integer (bp_maximumResults policy) \<or>
       bp_maximumResults policy < 1 \<or> bp_maximumResults policy > 20 \<or>
       \<not> is_safe_integer (bp_maximumPayloadBytes policy) \<or>
       bp_maximumPayloadBytes policy < 512 \<or> bp_maximumPayloadBytes policy > 6 * 1024))
       (MatchPublisherError configuration_invalid)"

definition checkedUuid :: "string \<Rightarrow> exn + string" where
  "checkedUuid value =
     ebind (ensure (match_seq uuid_v7_pattern value) (MatchPublisherError configuration_invalid))
       (\<lambda>_. Inr value)"

definition next_uuid :: "'u batch_policy \<Rightarrow> ('u, string) action" where
  "next_uuid policy = act_bind (bp_nextUuidV7 policy) (\<lambda>value. act_lift (checkedUuid value))"

text \<open>
  \<open>compareCandidates\<close> as a key: completion, then the collation of the round id. A candidate
  whose completion is not a date makes the comparator inconsistent, and the order of the
  array the engine's own; \<open>assertCandidates\<close> refuses it in any order.
\<close>

definition candidate_key ::
  "host \<Rightarrow> (string \<Rightarrow> string) \<Rightarrow> candidate \<Rightarrow> int \<times> string" where
  "candidate_key H collation c =
     (case date_parse H (cd_completedAt c) of None \<Rightarrow> 0 | Some t \<Rightarrow> t, collation (cd_roundId c))"

definition order_candidates ::
  "host \<Rightarrow> (string \<Rightarrow> string) \<Rightarrow> candidate list \<Rightarrow> candidate list" where
  "order_candidates H collation candidates = sort_key (candidate_key H collation) candidates"

fun assert_candidates ::
  "host \<Rightarrow> int \<Rightarrow> string list \<Rightarrow> string list \<Rightarrow> candidate list \<Rightarrow> exn + unit" where
  "assert_candidates H now roundIds requestIds [] = Inr ()"
| "assert_candidates H now roundIds requestIds (candidate # candidates) =
     ebind (ensure (\<not> (case date_parse H (cd_completedAt candidate) of
           None \<Rightarrow> True
         | Some completedAt \<Rightarrow> completedAt > now \<or>
             mr_completed_at (cd_publicResult candidate) \<noteq> cd_completedAt candidate \<or>
             mr_round_id (cd_publicResult candidate) \<noteq> cd_roundId candidate))
       (MatchPublisherError invalid_candidate)) (\<lambda>_.
     ebind (ensure (\<not> (cd_roundId candidate \<in> set roundIds \<or>
         cd_publicationRequestId candidate \<in> set requestIds))
       (MatchPublisherError invalid_candidate)) (\<lambda>_.
     assert_candidates H now (cd_roundId candidate # roundIds)
       (cd_publicationRequestId candidate # requestIds) candidates))"

definition assertCandidates :: "host \<Rightarrow> candidate list \<Rightarrow> int \<Rightarrow> exn + unit" where
  "assertCandidates H candidates now = assert_candidates H now [] [] candidates"

section \<open>Selecting\<close>

definition createEvent ::
  "candidate list \<Rightarrow> string \<Rightarrow> string \<Rightarrow> string \<Rightarrow> string \<Rightarrow> string \<Rightarrow> string \<Rightarrow> event" where
  "createEvent candidates publisher eventId batchId occurredAt periodStart periodEnd =
     Match_Results_Batch \<lparr>
       mb_event_id = eventId, mb_occurred_at = occurredAt, mb_batch_id = batchId,
       mb_period_start = periodStart, mb_period_end = periodEnd, mb_publisher = publisher,
       mb_result_count = int (length candidates), mb_results = map cd_publicResult candidates\<rparr>"

record selection =
  sl_selected :: "candidate list"
  sl_payload :: string
  sl_event :: "event option"
  sl_payloadLimitReached :: bool

text \<open>
  One turn of the loop ends with a longer selection, or with the payload limit, or throws.
\<close>

definition select_one ::
  "host \<Rightarrow> (candidate list \<Rightarrow> event) \<Rightarrow> int \<Rightarrow> candidate \<Rightarrow> selection \<Rightarrow> exn + selection" where
  "select_one H eventOf maximumPayloadBytes candidate s =
     (let tentative = sl_selected s @ [candidate]; event = eventOf tentative in
      case serializeHiveChameleonEvent H (event_json event) of
        Inl error \<Rightarrow>
          if error \<noteq> HiveGatewayError payload_too_large
          then Inl (MatchPublisherError invalid_candidate)
          else if length (sl_selected s) = 0 then Inl (MatchPublisherError publisher_payload_too_large)
          else Inr (s\<lparr>sl_payloadLimitReached := True\<rparr>)
      | Inr payload \<Rightarrow>
          if int (utf8_length payload) > maximumPayloadBytes
          then
            if length (sl_selected s) = 0
            then Inl (MatchPublisherError publisher_payload_too_large)
            else Inr (s\<lparr>sl_payloadLimitReached := True\<rparr>)
          else Inr (s\<lparr>sl_selected := tentative, sl_payload := payload, sl_event := Some event\<rparr>))"

fun select_candidates ::
  "host \<Rightarrow> (candidate list \<Rightarrow> event) \<Rightarrow> int \<Rightarrow> candidate list \<Rightarrow> selection \<Rightarrow> exn + selection" where
  "select_candidates H eventOf maximumPayloadBytes [] s = Inr s"
| "select_candidates H eventOf maximumPayloadBytes (candidate # candidates) s =
     ebind (select_one H eventOf maximumPayloadBytes candidate s) (\<lambda>s'.
     if sl_payloadLimitReached s' then Inr s'
     else select_candidates H eventOf maximumPayloadBytes candidates s')"

definition empty_selection :: selection where
  "empty_selection = \<lparr>sl_selected = [], sl_payload = '''', sl_event = None,
     sl_payloadLimitReached = False\<rparr>"

section \<open>Planning\<close>

text \<open>The end of the period: now, unless a result that may be selected completed at it.\<close>

definition period_end :: "host \<Rightarrow> candidate list \<Rightarrow> int \<Rightarrow> int \<Rightarrow> int" where
  "period_end H ordered maximumResults now =
     (let latest = ordered ! (nat (min (int (length ordered)) maximumResults) - 1);
          latestCompletion = the (date_parse H (cd_completedAt latest)) in
      if now > latestCompletion then now else latestCompletion + 1)"

definition ageLimitReached :: "host \<Rightarrow> candidate list \<Rightarrow> int \<Rightarrow> 'u batch_policy \<Rightarrow> bool" where
  "ageLimitReached H ordered now policy \<longleftrightarrow>
     nan_le (Some (bp_maximumAgeMs policy))
       (map_option (\<lambda>oldest. now - oldest) (date_parse H (cd_completedAt (hd ordered))))"

text \<open>The end of the function: wait, or freeze what was selected.\<close>

definition cut_batch ::
  "host \<Rightarrow> candidate list \<Rightarrow> int \<Rightarrow> 'u batch_policy \<Rightarrow> string \<Rightarrow> string \<Rightarrow> string \<Rightarrow> string \<Rightarrow>
     selection \<Rightarrow> exn + frozen_batch option" where
  "cut_batch H ordered now policy eventId batchId outboxId periodEnd s =
     (case sl_event s of
        None \<Rightarrow> Inl (MatchPublisherError invalid_candidate)
      | Some event \<Rightarrow>
          if sl_payload s = '''' then Inl (MatchPublisherError invalid_candidate)
          else
            let resultLimitReached = int (length (sl_selected s)) = bp_maximumResults policy in
            if \<not> ageLimitReached H ordered now policy \<and> \<not> resultLimitReached \<and>
               \<not> sl_payloadLimitReached s
            then Inr None
            else Inr (Some \<lparr>
              fz_outboxId = outboxId, fz_eventId = eventId, fz_batchId = batchId,
              fz_event = event, fz_canonicalPayload = sl_payload s,
              fz_payloadSha256 = sha256_hex H (sl_payload s),
              fz_payloadByteCount = utf8_length (sl_payload s),
              fz_publicationPeriodStart = cd_completedAt (hd ordered),
              fz_publicationPeriodEnd = periodEnd,
              fz_candidates = sl_selected s\<rparr>))"

text \<open>What follows the three ids; \<open>ordered\<close> is checked and not empty.\<close>

definition plan_selected ::
  "host \<Rightarrow> candidate list \<Rightarrow> int \<Rightarrow> 'u batch_policy \<Rightarrow> string \<Rightarrow> string \<Rightarrow> string \<Rightarrow>
     exn + frozen_batch option" where
  "plan_selected H ordered now policy eventId batchId outboxId =
     ebind (toISOString H now) (\<lambda>occurredAt.
     let periodStart = cd_completedAt (hd ordered) in
     ebind (toISOString H (period_end H ordered (bp_maximumResults policy) now)) (\<lambda>periodEnd.
     ebind (select_candidates H
       (\<lambda>cs. createEvent cs (bp_publisherAccount policy) eventId batchId occurredAt periodStart periodEnd)
       (bp_maximumPayloadBytes policy) (take (nat (bp_maximumResults policy)) ordered)
       empty_selection) (\<lambda>s.
     cut_batch H ordered now policy eventId batchId outboxId periodEnd s)))"

definition planMatchBatch ::
  "host \<Rightarrow> (string \<Rightarrow> string) \<Rightarrow> candidate list \<Rightarrow> int option \<Rightarrow> 'u batch_policy \<Rightarrow>
     ('u, frozen_batch option) action" where
  "planMatchBatch H collation candidates now policy =
     act_bind (act_lift (validatePolicy policy)) (\<lambda>_.
     act_bind (act_lift (of_option (MatchPublisherError invalid_candidate) now)) (\<lambda>t.
     if length candidates = 0 then act_ok None
     else
       let ordered = order_candidates H collation candidates in
       act_bind (act_lift (assertCandidates H ordered t)) (\<lambda>_.
       act_bind (next_uuid policy) (\<lambda>eventId.
       act_bind (next_uuid policy) (\<lambda>batchId.
       act_bind (next_uuid policy) (\<lambda>outboxId.
       act_lift (plan_selected H ordered t policy eventId batchId outboxId)))))))"

end
