(* ===== verification/Publisher_Tables.thy ===== *)
theory Publisher_Tables
  imports Batch_Builder Pg_Tables
begin

text \<open>
  The tables the match publisher writes, with the constraints and triggers its statements meet
  (\<open>infra/postgres/migrations\<close>), the game tables its candidate query joins, and that query. A
  \<open>timestamptz\<close> is its instant in milliseconds; enumerations of the game tables are the text
  they are cast to. The publisher's rights allow all its statements.
\<close>

section \<open>Rows the publisher writes\<close>

datatype request_type = Initial_Request | Correction_Request | Invalidation_Request
datatype request_state =
  Request_Queued | Request_Batched | Request_Published | Request_Retryable | Request_Cancelled

record request_row =
  pr_id :: string
  pr_round_id :: string
  pr_result_revision_id :: string
  pr_request_type :: request_type
  pr_state :: request_state
  pr_attempt_count :: nat
  pr_next_retry_at :: "int option"
  pr_last_attempt_at :: "int option"
  pr_last_failure_code :: "string option"
  pr_published_at :: "int option"
  pr_created_at :: int

datatype outbox_state =
  Outbox_Queued | Outbox_Broadcast | Outbox_Included | Outbox_Irreversible | Outbox_Reverted
  | Outbox_Retryable | Outbox_Terminal

record outbox_row =
  ob_id :: string
  ob_event_uuid :: string
  ob_batch_uuid :: "string option"
  ob_event_type :: string
  ob_period_start :: "string option"
  ob_period_end :: "string option"
  ob_publisher :: string
  ob_result_count :: nat
  ob_canonical_payload :: string
  ob_payload_sha256 :: string
  ob_payload_byte_count :: nat
  ob_state :: outbox_state
  ob_attempt_count :: nat
  ob_next_retry_at :: "int option"
  ob_last_attempt_at :: "int option"
  ob_last_failure_code :: "string option"
  ob_hive_transaction_id :: "string option"
  ob_operation_id :: "string option"
  ob_included_at :: "string option"
  ob_irreversible_at :: "string option"
  ob_reverted_at :: "string option"
  ob_created_at :: int

record item_row =
  pi_id :: string
  pi_outbox_id :: string
  pi_request_id :: string
  pi_round_id :: string
  pi_revision_id :: string
  pi_position :: nat

datatype intent_state = Awaiting_Signature | Intent_Broadcast | Intent_Failed

record intent_row =
  ti_id :: string
  ti_idempotency_key :: string
  ti_operation_kind :: string
  ti_operation_hash :: string
  ti_policy_version :: string
  ti_validated_at :: int
  ti_requested_at :: int
  ti_expires_at :: int
  ti_state :: intent_state
  ti_transaction_id :: "string option"
  ti_failure_code :: "string option"

text \<open>
  \<open>pb_events\<close> is \<open>hive_projection.match_event\<close>, which the projector writes; \<open>pb_now\<close> is the
  database's own clock.
\<close>

record publisher_db =
  pb_requests :: "request_row list"
  pb_outbox :: "outbox_row list"
  pb_items :: "item_row list"
  pb_intents :: "intent_row list"
  pb_events :: "match_event_row list"
  pb_now :: int

section \<open>Constraints and triggers\<close>

text \<open>
  Unique ids, a positive count, and the payload's length and hash. The ids are not compared with
  those of other tables; the payload is JSON whenever the builder made it.
\<close>

definition outbox_insertable :: "host \<Rightarrow> publisher_db \<Rightarrow> outbox_row \<Rightarrow> bool" where
  "outbox_insertable H db r \<longleftrightarrow>
     list_all (\<lambda>j. ob_id j \<noteq> ob_id r \<and> ob_event_uuid j \<noteq> ob_event_uuid r \<and>
       (ob_batch_uuid r \<noteq> None \<longrightarrow> ob_batch_uuid j \<noteq> ob_batch_uuid r)) (pb_outbox db) \<and>
     0 < ob_result_count r \<and> 0 < ob_payload_byte_count r \<and>
     utf8_length (ob_canonical_payload r) = ob_payload_byte_count r \<and>
     sha256_hex H (ob_canonical_payload r) = ob_payload_sha256 r"

text \<open>
  A request is in one item at most, a position of an outbox is taken once; the item agrees with
  its request, and its outbox has not been attempted (\<open>hc_validate_publication_item\<close>).
\<close>

definition item_insertable :: "publisher_db \<Rightarrow> item_row \<Rightarrow> bool" where
  "item_insertable db i \<longleftrightarrow>
     list_all (\<lambda>j. pi_id j \<noteq> pi_id i \<and> pi_request_id j \<noteq> pi_request_id i \<and>
       \<not> (pi_outbox_id j = pi_outbox_id i \<and> pi_position j = pi_position i)) (pb_items db) \<and>
     list_ex (\<lambda>q. pr_id q = pi_request_id i \<and> pr_round_id q = pi_round_id i \<and>
       pr_result_revision_id q = pi_revision_id i) (pb_requests db) \<and>
     list_ex (\<lambda>r. ob_id r = pi_outbox_id i \<and> ob_attempt_count r = 0 \<and> ob_state r = Outbox_Queued)
       (pb_outbox db)"

text \<open>The lifecycle \<open>hc_freeze_match_outbox_payload\<close> allows.\<close>

fun outbox_transition :: "outbox_state \<Rightarrow> outbox_state \<Rightarrow> bool" where
  "outbox_transition Outbox_Queued s \<longleftrightarrow> True"
| "outbox_transition Outbox_Broadcast s \<longleftrightarrow> s \<noteq> Outbox_Queued"
| "outbox_transition Outbox_Retryable s \<longleftrightarrow> s \<noteq> Outbox_Queued"
| "outbox_transition Outbox_Included s \<longleftrightarrow>
     s = Outbox_Included \<or> s = Outbox_Irreversible \<or> s = Outbox_Reverted"
| "outbox_transition Outbox_Reverted s \<longleftrightarrow> s \<noteq> Outbox_Irreversible"
| "outbox_transition Outbox_Irreversible s \<longleftrightarrow> s = Outbox_Irreversible"
| "outbox_transition Outbox_Terminal s \<longleftrightarrow> s = Outbox_Terminal"

text \<open>The checks on the columns of each state, and the trigger, for an updated row.\<close>

definition outbox_checks :: "outbox_row \<Rightarrow> bool" where
  "outbox_checks r \<longleftrightarrow>
     (ob_state r = Outbox_Included \<longrightarrow>
        ob_hive_transaction_id r \<noteq> None \<and> ob_operation_id r \<noteq> None \<and> ob_included_at r \<noteq> None) \<and>
     (ob_state r = Outbox_Irreversible \<longrightarrow> ob_operation_id r \<noteq> None \<and> ob_irreversible_at r \<noteq> None) \<and>
     (ob_state r = Outbox_Reverted \<longrightarrow> ob_operation_id r \<noteq> None \<and> ob_reverted_at r \<noteq> None)"

definition outbox_updatable :: "outbox_row \<Rightarrow> outbox_row \<Rightarrow> bool" where
  "outbox_updatable old new \<longleftrightarrow>
     ob_attempt_count old \<le> ob_attempt_count new \<and> outbox_transition (ob_state old) (ob_state new) \<and>
     outbox_checks new"

definition intent_insertable :: "publisher_db \<Rightarrow> intent_row \<Rightarrow> bool" where
  "intent_insertable db i \<longleftrightarrow>
     list_all (\<lambda>j. ti_id j \<noteq> ti_id i \<and> ti_idempotency_key j \<noteq> ti_idempotency_key i) (pb_intents db) \<and>
     ti_expires_at i > ti_requested_at i"

text \<open>
  Checked at commit (\<open>hc_check_publication_item_set\<close>): the items of every outbox are as many as
  it announces, at the positions from 0 on.
\<close>

definition items_of :: "publisher_db \<Rightarrow> string \<Rightarrow> item_row list" where
  "items_of db outbox_id = filter (\<lambda>i. pi_outbox_id i = outbox_id) (pb_items db)"

definition item_sets_complete :: "publisher_db \<Rightarrow> bool" where
  "item_sets_complete db \<longleftrightarrow>
     list_all (\<lambda>r. let positions = map pi_position (items_of db (ob_id r)) in
       length positions = ob_result_count r \<and> positions \<noteq> [] \<and>
       Min (set positions) = 0 \<and> Max (set positions) = ob_result_count r - 1) (pb_outbox db)"

section \<open>Game tables\<close>

record game_round =
  gr_id :: string
  gr_status :: string
  gr_ended_at :: int
  gr_mode :: string
  gr_map_version_id :: string
  gr_build :: string
  gr_protocol :: string
  gr_winning_side :: "string option"

record result_revision =
  gv_id :: string
  gv_result_schema :: string
  gv_scoring_rules :: string
  gv_complete_sha256 :: "string option"

record game_map_version =
  gm_id :: string
  gm_map_id :: string
  gm_version_number :: string

record map_asset =
  ga_id :: string
  ga_map_version_id :: string
  ga_kind :: string
  ga_sha256 :: string
  ga_created_at :: int

record round_participant =
  gp_round_id :: string
  gp_player_id :: string
  gp_initial_role :: string
  gp_final_role :: string
  gp_outcome :: string
  gp_final_score :: string

record round_discovery =
  gd_round_id :: string
  gd_sequence :: int
  gd_hunter_player_id :: string
  gd_hider_player_id :: string

record round_like =
  gl_round_id :: string
  gl_target_hider_player_id :: string

record game_tables =
  gt_rounds :: "game_round list"
  gt_revisions :: "result_revision list"
  gt_map_versions :: "game_map_version list"
  gt_assets :: "map_asset list"
  gt_participants :: "round_participant list"
  gt_players :: "player_row list"
  gt_discoveries :: "round_discovery list"
  gt_likes :: "round_like list"
  gt_match_game_rounds :: "(string \<times> string) list"
  gt_tournament_matches :: "(string \<times> string) list"
  gt_collation :: "string \<Rightarrow> string"

text \<open>
  \<open>gt_match_game_rounds\<close> pairs a game round with a tournament match, \<open>gt_tournament_matches\<close> a
  match with its tournament; \<open>gt_collation\<close> gives the sort keys of the database's collation.
\<close>

section \<open>The candidate query\<close>

record candidate_row =
  cw_publication_request_id :: string
  cw_result_revision_id :: string
  cw_round_id :: string
  cw_completed_at :: int
  cw_requested_at :: int
  cw_tournament_id :: "string option"
  cw_mode :: string
  cw_result_schema_version :: string
  cw_scoring_rule_version :: string
  cw_map_id :: string
  cw_map_version_id :: string
  cw_map_version :: string
  cw_map_content_sha256 :: string
  cw_game_server_build_version :: string
  cw_protocol_version :: string
  cw_winning_side :: json
  cw_winner_accounts :: json
  cw_participants :: json
  cw_discoveries :: json
  cw_survivors :: json
  cw_likes :: json
  cw_result_sha256 :: json

definition is_publishable :: "int \<Rightarrow> request_row \<Rightarrow> bool" where
  "is_publishable now q \<longleftrightarrow>
     pr_request_type q = Initial_Request \<and> pr_state q \<in> {Request_Queued, Request_Retryable} \<and>
     (case pr_next_retry_at q of None \<Rightarrow> True | Some t \<Rightarrow> t \<le> now)"

text \<open>\<open>selected_requests\<close>: the locks it takes are nobody else's here.\<close>

definition selected_requests ::
  "game_tables \<Rightarrow> publisher_db \<Rightarrow> int \<Rightarrow> nat \<Rightarrow> (request_row \<times> game_round) list" where
  "selected_requests T db now limit =
     take limit (sort_key (\<lambda>(q, r). (gr_ended_at r, gr_id r))
       [(q, r). q \<leftarrow> pb_requests db, is_publishable now q,
         r \<leftarrow> gt_rounds T, gr_id r = pr_round_id q \<and> gr_status r = ''completed''])"

definition map_package :: "game_tables \<Rightarrow> string \<Rightarrow> map_asset list" where
  "map_package T map_version_id =
     take 1 (sort_key (\<lambda>a. (ga_created_at a, ga_id a))
       (filter (\<lambda>a. ga_map_version_id a = map_version_id \<and> ga_kind a = ''package'') (gt_assets T)))"

text \<open>The players of a round, by user name.\<close>

definition round_players :: "game_tables \<Rightarrow> string \<Rightarrow> (round_participant \<times> string) list" where
  "round_players T round_id =
     sort_key (\<lambda>(p, name). gt_collation T name)
       [(p, pl_hive_username u). p \<leftarrow> gt_participants T, gp_round_id p = round_id,
         u \<leftarrow> gt_players T, pl_id u = gp_player_id p]"

definition public_outcome :: "string \<Rightarrow> string" where
  "public_outcome s =
     (if s = ''hider_survived'' then ''survived''
      else if s = ''hider_found'' then ''found''
      else if s = ''hider_converted'' then ''converted'' else s)"

text \<open>\<open>jsonb_agg\<close> of no row is \<open>null\<close>; the other two aggregates are coalesced.\<close>

definition participants_json :: "game_tables \<Rightarrow> string \<Rightarrow> json" where
  "participants_json T round_id =
     (case round_players T round_id of
        [] \<Rightarrow> JNull
      | ps \<Rightarrow> JArr (map (\<lambda>(p, name). jobj
          [(''account'', JStr name), (''initial_role'', JStr (gp_initial_role p)),
           (''final_role'', JStr (gp_final_role p)),
           (''outcome'', JStr (public_outcome (gp_outcome p))),
           (''score'', JStr (gp_final_score p))]) ps))"

definition accounts_where :: "game_tables \<Rightarrow> string \<Rightarrow> string list \<Rightarrow> json" where
  "accounts_where T round_id outcomes =
     JArr (map (\<lambda>(p, name). JStr name)
       (filter (\<lambda>(p, name). gp_outcome p \<in> set outcomes) (round_players T round_id)))"

definition discoveries_json :: "game_tables \<Rightarrow> string \<Rightarrow> json" where
  "discoveries_json T round_id =
     JArr (map (\<lambda>(d, hunter, hider). jobj [(''hunter'', JStr hunter), (''hider'', JStr hider)])
       (sort_key (\<lambda>(d, hunter, hider). gd_sequence d)
         [(d, pl_hive_username u, pl_hive_username v).
           d \<leftarrow> gt_discoveries T, gd_round_id d = round_id,
           u \<leftarrow> gt_players T, pl_id u = gd_hunter_player_id d,
           v \<leftarrow> gt_players T, pl_id v = gd_hider_player_id d]))"

definition likes_json :: "game_tables \<Rightarrow> string \<Rightarrow> json" where
  "likes_json T round_id =
     (let names = [pl_hive_username u. l \<leftarrow> gt_likes T, gl_round_id l = round_id,
        u \<leftarrow> gt_players T, pl_id u = gl_target_hider_player_id l] in
      JArr (map (\<lambda>name. jobj [(''account'', JStr name),
          (''received'', JNum (int (length (filter (\<lambda>n. n = name) names))))])
        (sort_key (gt_collation T) (remdups names))))"

text \<open>The two left joins to the tournament of a round.\<close>

definition left_join :: "'a list \<Rightarrow> 'a option list" where
  "left_join xs = (if xs = [] then [None] else map Some xs)"

definition round_tournaments :: "game_tables \<Rightarrow> string \<Rightarrow> string option list" where
  "round_tournaments T round_id =
     [tournament.
       m \<leftarrow> left_join [m. (g, m) \<leftarrow> gt_match_game_rounds T, g = round_id],
       tournament \<leftarrow> left_join [t. (m', t) \<leftarrow> gt_tournament_matches T, m = Some m']]"

definition candidate_row_of ::
  "game_tables \<Rightarrow> request_row \<Rightarrow> game_round \<Rightarrow> result_revision \<Rightarrow> game_map_version \<Rightarrow> map_asset \<Rightarrow>
     string option \<Rightarrow> candidate_row" where
  "candidate_row_of T q r v m a tournament = \<lparr>
     cw_publication_request_id = pr_id q, cw_result_revision_id = pr_result_revision_id q,
     cw_round_id = gr_id r, cw_completed_at = gr_ended_at r, cw_requested_at = pr_created_at q,
     cw_tournament_id = tournament, cw_mode = gr_mode r,
     cw_result_schema_version = gv_result_schema v, cw_scoring_rule_version = gv_scoring_rules v,
     cw_map_id = gm_map_id m, cw_map_version_id = gm_id m, cw_map_version = gm_version_number m,
     cw_map_content_sha256 = ga_sha256 a,
     cw_game_server_build_version = gr_build r, cw_protocol_version = gr_protocol r,
     cw_winning_side = (case gr_winning_side r of None \<Rightarrow> JNull | Some s \<Rightarrow> JStr s),
     cw_winner_accounts = accounts_where T (gr_id r) [''hunter_win'', ''hider_survived''],
     cw_participants = participants_json T (gr_id r),
     cw_discoveries = discoveries_json T (gr_id r),
     cw_survivors = accounts_where T (gr_id r) [''hider_survived''],
     cw_likes = likes_json T (gr_id r),
     cw_result_sha256 = (case gv_complete_sha256 v of None \<Rightarrow> JNull | Some s \<Rightarrow> JStr s)\<rparr>"

definition candidate_rows :: "game_tables \<Rightarrow> publisher_db \<Rightarrow> int \<Rightarrow> nat \<Rightarrow> candidate_row list" where
  "candidate_rows T db now limit =
     sort_key (\<lambda>c. (cw_completed_at c, cw_round_id c))
       [candidate_row_of T q r v m a tournament.
         (q, r) \<leftarrow> selected_requests T db now limit,
         v \<leftarrow> gt_revisions T, gv_id v = pr_result_revision_id q,
         m \<leftarrow> gt_map_versions T, gm_id m = gr_map_version_id r,
         a \<leftarrow> map_package T (gm_id m),
         tournament \<leftarrow> round_tournaments T (gr_id r)]"

end
