(* ===== verification/Publisher_Store.thy ===== *)
theory Publisher_Store
  imports Publisher_Tables
begin

text \<open>
  The publisher's store (\<open>store/publication-store.ts\<close>,
  \<open>store/postgres-publication-store.ts\<close>) over its tables: freezing a batch, claiming an
  outbox row, journaling a signing attempt, its two endings, and taking over what the chain
  says. The ids of a policy are drawn from the same state.
\<close>

section \<open>The port\<close>

record attempt =
  at_outboxId :: string
  at_eventId :: string
  at_batchId :: string
  at_attemptCount :: nat
  at_canonicalPayload :: string
  at_payloadSha256 :: string
  at_event :: event

record signing_record =
  sg_id :: string
  sg_idempotencyKey :: string
  sg_outboxId :: string
  sg_operationKind :: string
  sg_canonicalOperationHash :: string
  sg_policyVersion :: string
  sg_transactionId :: string
  sg_validatedAt :: int
  sg_expiresAt :: int

record 'd publication_store =
  freezeNextBatch :: "int \<Rightarrow> 'd batch_policy \<Rightarrow> ('d, frozen_batch option) action"
  claimNextOutbox :: "int \<Rightarrow> int \<Rightarrow> ('d, attempt option) action"
  recordSigningAttempt :: "signing_record \<Rightarrow> ('d, unit) action"
  markBroadcast :: "string \<Rightarrow> string \<Rightarrow> string \<Rightarrow> int \<Rightarrow> ('d, unit) action"
  markRetryableFailure ::
    "string \<Rightarrow> string option \<Rightarrow> string option \<Rightarrow> string \<Rightarrow> int \<Rightarrow> ('d, unit) action"
  reconcileProjectedFinality :: "int \<Rightarrow> ('d, nat) action"

section \<open>The state and its transactions\<close>

record 'u publisher =
  pu_db :: publisher_db
  pu_ids :: 'u
  pu_faults :: "fault list"

record publisher_options =
  px_host :: host
  px_collation :: "string \<Rightarrow> string"
  px_tables :: game_tables

definition publisher_database_error :: exn where
  "publisher_database_error = OtherError ''database''"

definition pub_sql :: "(publisher_db \<Rightarrow> publisher_db option) \<Rightarrow> ('u publisher, unit) action" where
  "pub_sql f = (\<lambda>w. case f (pu_db w) of
     None \<Rightarrow> (Inl publisher_database_error, w) | Some db \<Rightarrow> (Inr (), w\<lparr>pu_db := db\<rparr>))"

definition pub_read :: "(publisher_db \<Rightarrow> 'a) \<Rightarrow> ('u publisher, 'a) action" where
  "pub_read f = act_get (\<lambda>w. f (pu_db w))"

text \<open>
  \<open>inTransaction\<close>: as in the projector's store, but it returns the value of its work. A
  refused transaction stands for a failed connection, \<open>BEGIN\<close> or \<open>COMMIT\<close> too, whose work is
  undone.
\<close>

definition pub_transaction :: "('u publisher, 'a) action \<Rightarrow> ('u publisher, 'a) action" where
  "pub_transaction work = (\<lambda>w.
     let next_fault = (case pu_faults w of [] \<Rightarrow> No_Fault | f # fs \<Rightarrow> f);
         w0 = w\<lparr>pu_faults := tl (pu_faults w)\<rparr>
     in case work w0 of
          (Inl e, w1) \<Rightarrow> (Inl e, w1\<lparr>pu_db := pu_db w\<rparr>)
        | (Inr u, w1) \<Rightarrow>
            if next_fault = Refused \<or> \<not> item_sets_complete (pu_db w1)
            then (Inl publisher_database_error, w1\<lparr>pu_db := pu_db w\<rparr>)
            else if next_fault = Reply_Lost then (Inl publisher_database_error, w1)
            else (Inr u, w1))"

text \<open>The text of a date as a statement's parameter, which the database reads back.\<close>

definition instant :: "host \<Rightarrow> int \<Rightarrow> exn + int" where
  "instant H t = ebind (toISOString H t) (\<lambda>_. Inr t)"

definition update_requests ::
  "(request_row \<Rightarrow> bool) \<Rightarrow> (request_row \<Rightarrow> request_row) \<Rightarrow> publisher_db \<Rightarrow> publisher_db" where
  "update_requests P f db =
     db\<lparr>pb_requests := map (\<lambda>q. if P q then f q else q) (pb_requests db)\<rparr>"

definition update_outbox ::
  "(outbox_row \<Rightarrow> bool) \<Rightarrow> (outbox_row \<Rightarrow> outbox_row) \<Rightarrow> publisher_db \<Rightarrow> publisher_db option" where
  "update_outbox P f db =
     (if list_all (\<lambda>r. P r \<longrightarrow> outbox_updatable r (f r)) (pb_outbox db)
      then Some (db\<lparr>pb_outbox := map (\<lambda>r. if P r then f r else r) (pb_outbox db)\<rparr>) else None)"

definition update_intents ::
  "(intent_row \<Rightarrow> bool) \<Rightarrow> (intent_row \<Rightarrow> intent_row) \<Rightarrow> publisher_db \<Rightarrow> publisher_db option" where
  "update_intents P f db =
     Some (db\<lparr>pb_intents := map (\<lambda>i. if P i then f i else i) (pb_intents db)\<rparr>)"

section \<open>Freezing a batch\<close>

text \<open>The object \<open>candidateFromRow\<close> hands to the schema.\<close>

definition candidate_base :: "candidate_row \<Rightarrow> string \<Rightarrow> json" where
  "candidate_base row completedAt = jobj
     ([(''round_id'', JStr (cw_round_id row)), (''completed_at'', JStr completedAt),
       (''context'', JStr (if cw_tournament_id row = None then ''normal'' else ''tournament''))] @
      (case cw_tournament_id row of None \<Rightarrow> [] | Some t \<Rightarrow> [(''tournament_id'', JStr t)]) @
      [(''mode'', JStr (cw_mode row)), (''result_schema'', JStr (cw_result_schema_version row)),
       (''scoring_rules'', JStr (cw_scoring_rule_version row)),
       (''map'', jobj [(''map_id'', JStr (cw_map_id row)),
          (''version_id'', JStr (cw_map_version_id row)), (''version'', JStr (cw_map_version row)),
          (''content_sha256'', JStr (cw_map_content_sha256 row))]),
       (''server'', jobj [(''build'', JStr (cw_game_server_build_version row)),
          (''protocol'', JStr (cw_protocol_version row))]),
       (''winning_side'', cw_winning_side row), (''winner_accounts'', cw_winner_accounts row),
       (''participants'', cw_participants row), (''discoveries'', cw_discoveries row),
       (''survivors'', cw_survivors row), (''likes'', cw_likes row),
       (''result_sha256'', cw_result_sha256 row)])"

definition matchResultSchema :: "host \<Rightarrow> json \<Rightarrow> match_result option" where
  "matchResultSchema H v =
     Option.bind (read_match_result v) (\<lambda>r. if valid_match_result H r then Some r else None)"

definition candidateFromRow :: "host \<Rightarrow> candidate_row \<Rightarrow> exn + candidate" where
  "candidateFromRow H row =
     ebind (toISOString H (cw_completed_at row)) (\<lambda>completedAt.
     ebind (of_option (MatchPublisherError invalid_candidate)
       (matchResultSchema H (candidate_base row completedAt))) (\<lambda>parsed.
     ebind (toISOString H (cw_requested_at row)) (\<lambda>requestedAt.
     Inr \<lparr>cd_publicationRequestId = cw_publication_request_id row,
       cd_resultRevisionId = cw_result_revision_id row, cd_roundId = cw_round_id row,
       cd_completedAt = completedAt, cd_requestedAt = requestedAt, cd_publicResult = parsed\<rparr>)))"

definition deferInvalidRequest ::
  "host \<Rightarrow> string \<Rightarrow> int \<Rightarrow> exn \<Rightarrow> ('u publisher, unit) action" where
  "deferInvalidRequest H publicationRequestId now error =
     (let code = (if error = MatchPublisherError publisher_payload_too_large
        then ''payload_too_large'' else ''invalid_candidate'') in
      act_bind (act_lift (instant H now)) (\<lambda>at.
      act_bind (act_lift (instant H (now + 60 * 60 * 1000))) (\<lambda>retryAt.
      pub_sql (\<lambda>db. Some (update_requests (\<lambda>q. pr_id q = publicationRequestId)
        (\<lambda>q. q\<lparr>pr_state := Request_Retryable, pr_attempt_count := pr_attempt_count q + 1,
          pr_last_attempt_at := Some at, pr_next_retry_at := Some retryAt,
          pr_last_failure_code := Some code\<rparr>) db)))))"

text \<open>The rows as candidates, or the first row that is none, with its error.\<close>

fun read_candidates ::
  "host \<Rightarrow> candidate_row list \<Rightarrow> (candidate_row \<times> exn) + candidate list" where
  "read_candidates H [] = Inr []"
| "read_candidates H (row # rows) =
     (case candidateFromRow H row of
        Inl e \<Rightarrow> Inl (row, e)
      | Inr c \<Rightarrow> (case read_candidates H rows of Inl x \<Rightarrow> Inl x | Inr cs \<Rightarrow> Inr (c # cs)))"

definition outbox_row_of :: "publisher_db \<Rightarrow> string \<Rightarrow> frozen_batch \<Rightarrow> outbox_row" where
  "outbox_row_of db publisherAccount frozen = \<lparr>
     ob_id = fz_outboxId frozen, ob_event_uuid = fz_eventId frozen,
     ob_batch_uuid = Some (fz_batchId frozen), ob_event_type = ''match_results_batch'',
     ob_period_start = Some (fz_publicationPeriodStart frozen),
     ob_period_end = Some (fz_publicationPeriodEnd frozen), ob_publisher = publisherAccount,
     ob_result_count = length (fz_candidates frozen),
     ob_canonical_payload = fz_canonicalPayload frozen,
     ob_payload_sha256 = fz_payloadSha256 frozen, ob_payload_byte_count = fz_payloadByteCount frozen,
     ob_state = Outbox_Queued, ob_attempt_count = 0, ob_next_retry_at = None,
     ob_last_attempt_at = None, ob_last_failure_code = None, ob_hive_transaction_id = None,
     ob_operation_id = None, ob_included_at = None, ob_irreversible_at = None,
     ob_reverted_at = None, ob_created_at = pb_now db\<rparr>"

definition insert_outbox :: "host \<Rightarrow> string \<Rightarrow> frozen_batch \<Rightarrow> publisher_db \<Rightarrow> publisher_db option" where
  "insert_outbox H publisherAccount frozen db =
     (let row = outbox_row_of db publisherAccount frozen in
      if outbox_insertable H db row then Some (db\<lparr>pb_outbox := pb_outbox db @ [row]\<rparr>) else None)"

definition insert_item :: "item_row \<Rightarrow> publisher_db \<Rightarrow> publisher_db option" where
  "insert_item i db =
     (if item_insertable db i then Some (db\<lparr>pb_items := pb_items db @ [i]\<rparr>) else None)"

definition freeze_item ::
  "'u publisher batch_policy \<Rightarrow> string \<Rightarrow> nat \<times> candidate \<Rightarrow> ('u publisher, unit) action" where
  "freeze_item policy outboxId = (\<lambda>(position, candidate).
     act_bind (next_uuid policy) (\<lambda>id.
     pub_sql (insert_item \<lparr>pi_id = id, pi_outbox_id = outboxId,
       pi_request_id = cd_publicationRequestId candidate, pi_round_id = cd_roundId candidate,
       pi_revision_id = cd_resultRevisionId candidate, pi_position = position\<rparr>)))"

definition is_waiting :: "string list \<Rightarrow> request_row \<Rightarrow> bool" where
  "is_waiting requestIds q \<longleftrightarrow>
     pr_id q \<in> set requestIds \<and> pr_state q \<in> {Request_Queued, Request_Retryable}"

text \<open>The statements that store a frozen batch.\<close>

definition store_frozen ::
  "host \<Rightarrow> int \<Rightarrow> 'u publisher batch_policy \<Rightarrow> frozen_batch \<Rightarrow> ('u publisher, unit) action" where
  "store_frozen H now policy frozen =
     act_bind (pub_sql (insert_outbox H (bp_publisherAccount policy) frozen)) (\<lambda>_.
     act_bind (act_each (freeze_item policy (fz_outboxId frozen))
       (List.enumerate 0 (fz_candidates frozen))) (\<lambda>_.
     let requestIds = map cd_publicationRequestId (fz_candidates frozen) in
     act_bind (act_lift (instant H now)) (\<lambda>at.
     act_bind (pub_read (\<lambda>db. length (filter (is_waiting requestIds) (pb_requests db)))) (\<lambda>rowCount.
     act_bind (pub_sql (\<lambda>db. Some (update_requests (is_waiting requestIds)
       (\<lambda>q. q\<lparr>pr_state := Request_Batched, pr_last_failure_code := None,
         pr_next_retry_at := None\<rparr>) db))) (\<lambda>_.
     act_ensure (rowCount = length requestIds)
       (MatchPublisherError publisher_database_unavailable))))))"

text \<open>
  The work of \<open>freezeNextBatch\<close>: it ends with the batch it froze, or with the planning error to
  throw after the commit.
\<close>

definition freeze_work ::
  "publisher_options \<Rightarrow> int \<Rightarrow> 'u publisher batch_policy \<Rightarrow>
     ('u publisher, exn + frozen_batch option) action" where
  "freeze_work P now policy =
     (let H = px_host P in
      act_bind (act_lift (instant H now)) (\<lambda>at.
      act_bind (pub_read (\<lambda>db. candidate_rows (px_tables P) db at
        (nat (bp_maximumResults policy + 1)))) (\<lambda>rows.
      case read_candidates H rows of
        Inl (row, error) \<Rightarrow>
          act_bind (deferInvalidRequest H (cw_publication_request_id row) now error) (\<lambda>_.
          act_ok (Inl error))
      | Inr candidates \<Rightarrow>
          act_bind (\<lambda>w. case planMatchBatch H (px_collation P) candidates (Some now) policy w of
              (r, w') \<Rightarrow> (Inr r, w')) (\<lambda>planned.
          case planned of
            Inl error \<Rightarrow>
              (case candidates of
                 [] \<Rightarrow> act_ok (Inl error)
               | first # _ \<Rightarrow>
                   act_bind (deferInvalidRequest H (cd_publicationRequestId first) now error) (\<lambda>_.
                   act_ok (Inl error)))
          | Inr None \<Rightarrow> act_ok (Inr None)
          | Inr (Some frozen) \<Rightarrow>
              act_bind (store_frozen H now policy frozen) (\<lambda>_. act_ok (Inr (Some frozen)))))))"

definition pub_freezeNextBatch ::
  "publisher_options \<Rightarrow> int \<Rightarrow> 'u publisher batch_policy \<Rightarrow> ('u publisher, frozen_batch option) action" where
  "pub_freezeNextBatch P now policy =
     act_bind (pub_transaction (freeze_work P now policy)) act_lift"

section \<open>Attempts\<close>

definition is_claimable :: "int \<Rightarrow> outbox_row \<Rightarrow> bool" where
  "is_claimable now r \<longleftrightarrow>
     ob_event_type r = ''match_results_batch'' \<and>
     ob_state r \<in> {Outbox_Queued, Outbox_Retryable, Outbox_Reverted} \<and>
     (case ob_next_retry_at r of None \<Rightarrow> True | Some t \<Rightarrow> t \<le> now)"

definition claimable :: "publisher_db \<Rightarrow> int \<Rightarrow> outbox_row list" where
  "claimable db now =
     take 1 (sort_key (\<lambda>r. (ob_created_at r, ob_id r)) (filter (is_claimable now) (pb_outbox db)))"

definition claimed :: "int \<Rightarrow> int \<Rightarrow> outbox_row \<Rightarrow> outbox_row" where
  "claimed at leaseUntil r = r\<lparr>ob_attempt_count := ob_attempt_count r + 1,
     ob_last_attempt_at := Some at, ob_next_retry_at := Some leaseUntil,
     ob_last_failure_code := None\<rparr>"

definition outboxAttemptFromRow :: "host \<Rightarrow> outbox_row \<Rightarrow> exn + attempt" where
  "outboxAttemptFromRow H row =
     ebind (parseHiveChameleonEvent H (ob_canonical_payload row)) (\<lambda>event.
     ebind (ensure (case event of
         Match_Results_Batch b \<Rightarrow>
           mb_event_id b = ob_event_uuid row \<and> Some (mb_batch_id b) = ob_batch_uuid row \<and>
           serializeHiveChameleonEvent H (event_json event) = Inr (ob_canonical_payload row) \<and>
           sha256_hex H (ob_canonical_payload row) = ob_payload_sha256 row
       | _ \<Rightarrow> False) (MatchPublisherError invalid_candidate)) (\<lambda>_.
     Inr \<lparr>at_outboxId = ob_id row, at_eventId = ob_event_uuid row,
       at_batchId = (case ob_batch_uuid row of None \<Rightarrow> [] | Some b \<Rightarrow> b),
       at_attemptCount = ob_attempt_count row, at_canonicalPayload = ob_canonical_payload row,
       at_payloadSha256 = ob_payload_sha256 row, at_event = event\<rparr>))"

definition claim_work ::
  "publisher_options \<Rightarrow> int \<Rightarrow> int \<Rightarrow> ('u publisher, attempt option) action" where
  "claim_work P now leaseUntil =
     act_bind (act_lift (instant (px_host P) now)) (\<lambda>at.
     act_bind (act_lift (instant (px_host P) leaseUntil)) (\<lambda>lease.
     act_bind (pub_read (\<lambda>db. claimable db at)) (\<lambda>rows.
     case rows of
       [] \<Rightarrow> act_ok None
     | row # _ \<Rightarrow>
         act_bind (pub_sql (update_outbox (\<lambda>r. ob_id r = ob_id row) (claimed at lease))) (\<lambda>_.
         act_lift (ebind (outboxAttemptFromRow (px_host P) (claimed at lease row))
           (\<lambda>a. Inr (Some a)))))))"

definition pub_claimNextOutbox ::
  "publisher_options \<Rightarrow> int \<Rightarrow> int \<Rightarrow> ('u publisher, attempt option) action" where
  "pub_claimNextOutbox P now leaseUntil = pub_transaction (claim_work P now leaseUntil)"

definition insert_intent :: "signing_record \<Rightarrow> publisher_db \<Rightarrow> publisher_db option" where
  "insert_intent rec db =
     (let i = \<lparr>ti_id = sg_id rec, ti_idempotency_key = sg_idempotencyKey rec,
        ti_operation_kind = sg_operationKind rec, ti_operation_hash = sg_canonicalOperationHash rec,
        ti_policy_version = sg_policyVersion rec, ti_validated_at = sg_validatedAt rec,
        ti_requested_at = sg_validatedAt rec, ti_expires_at = sg_expiresAt rec,
        ti_state = Awaiting_Signature, ti_transaction_id = Some (sg_transactionId rec),
        ti_failure_code = None\<rparr> in
      if intent_insertable db i then Some (db\<lparr>pb_intents := pb_intents db @ [i]\<rparr>) else None)"

text \<open>One statement outside an explicit transaction commits on its own.\<close>

definition pub_recordSigningAttempt :: "signing_record \<Rightarrow> ('u publisher, unit) action" where
  "pub_recordSigningAttempt rec = pub_transaction (pub_sql (insert_intent rec))"

definition pub_markBroadcast ::
  "publisher_options \<Rightarrow> string \<Rightarrow> string \<Rightarrow> string \<Rightarrow> int \<Rightarrow> ('u publisher, unit) action" where
  "pub_markBroadcast P outboxId signingAttemptId transactionId broadcastAt =
     pub_transaction
       (act_bind (act_lift (instant (px_host P) broadcastAt)) (\<lambda>at.
        act_bind (pub_sql (update_outbox (\<lambda>r. ob_id r = outboxId)
          (\<lambda>r. r\<lparr>ob_state := Outbox_Broadcast, ob_hive_transaction_id := Some transactionId,
            ob_next_retry_at := None, ob_last_failure_code := None\<rparr>))) (\<lambda>_.
        pub_sql (update_intents (\<lambda>i. ti_id i = signingAttemptId)
          (\<lambda>i. i\<lparr>ti_state := Intent_Broadcast, ti_transaction_id := Some transactionId,
            ti_failure_code := None\<rparr>)))))"

text \<open>\<open>/^[a-z][a-z0-9_]{1,63}$/\<close>\<close>

definition stableFailureCode :: "string \<Rightarrow> string" where
  "stableFailureCode value =
     (if match_lead is_lower (\<lambda>c. is_lower c \<or> is_digit c \<or> c = CHR ''_'') 1 63 value
      then value else ''publication_failed'')"

definition coalesce :: "'a option \<Rightarrow> 'a option \<Rightarrow> 'a option" where
  "coalesce x y = (case x of None \<Rightarrow> y | Some v \<Rightarrow> Some v)"

definition pub_markRetryableFailure ::
  "publisher_options \<Rightarrow> string \<Rightarrow> string option \<Rightarrow> string option \<Rightarrow> string \<Rightarrow> int \<Rightarrow>
     ('u publisher, unit) action" where
  "pub_markRetryableFailure P outboxId signingAttemptId transactionId failureCode retryAt =
     (let stableCode = stableFailureCode failureCode in
      pub_transaction
       (act_bind (act_lift (instant (px_host P) retryAt)) (\<lambda>at.
        act_bind (pub_sql (update_outbox (\<lambda>r. ob_id r = outboxId)
          (\<lambda>r. r\<lparr>ob_state := Outbox_Retryable,
            ob_hive_transaction_id := coalesce transactionId (ob_hive_transaction_id r),
            ob_next_retry_at := Some at, ob_last_failure_code := Some stableCode\<rparr>))) (\<lambda>_.
        case signingAttemptId of
          None \<Rightarrow> act_ok ()
        | Some i \<Rightarrow>
            pub_sql (update_intents (\<lambda>t. ti_id t = i)
              (\<lambda>t. t\<lparr>ti_state := Intent_Failed,
                ti_transaction_id := coalesce transactionId (ti_transaction_id t),
                ti_failure_code := Some stableCode\<rparr>))))))"

section \<open>Finality\<close>

fun outbox_state_of :: "projection_state \<Rightarrow> outbox_state" where
  "outbox_state_of Included = Outbox_Included"
| "outbox_state_of Irreversible = Outbox_Irreversible"
| "outbox_state_of Reverted = Outbox_Reverted"

text \<open>The projected event an outbox row is behind of.\<close>

definition newer_event :: "publisher_db \<Rightarrow> outbox_row \<Rightarrow> match_event_row option" where
  "newer_event db r =
     (case List.find (\<lambda>e. me_event_uuid e = ob_event_uuid r) (pb_events db) of
        None \<Rightarrow> None
      | Some e \<Rightarrow>
          if outbox_state_of (me_operation_state e) \<noteq> ob_state r \<and> ob_state r \<noteq> Outbox_Irreversible
          then Some e else None)"

definition follow_event :: "int \<Rightarrow> match_event_row \<Rightarrow> outbox_row \<Rightarrow> outbox_row" where
  "follow_event now e r = r\<lparr>ob_state := outbox_state_of (me_operation_state e),
     ob_operation_id := Some (me_operation_id e), ob_included_at := Some (me_included_at e),
     ob_irreversible_at := me_irreversible_at e, ob_reverted_at := me_reverted_at e,
     ob_next_retry_at := (if me_operation_state e = Reverted then Some now else None)\<rparr>"

definition follow :: "publisher_db \<Rightarrow> int \<Rightarrow> outbox_row \<Rightarrow> outbox_row" where
  "follow db now r = (case newer_event db r of None \<Rightarrow> r | Some e \<Rightarrow> follow_event now e r)"

text \<open>The requests whose outbox becomes irreversible in this statement.\<close>

definition is_settled :: "publisher_db \<Rightarrow> int \<Rightarrow> request_row \<Rightarrow> bool" where
  "is_settled db now q \<longleftrightarrow>
     pr_state q \<noteq> Request_Published \<and>
     list_ex (\<lambda>i. pi_request_id i = pr_id q \<and>
       list_ex (\<lambda>r. ob_id r = pi_outbox_id i \<and> newer_event db r \<noteq> None \<and>
         ob_state (follow db now r) = Outbox_Irreversible) (pb_outbox db)) (pb_items db)"

definition reconcile_statement :: "int \<Rightarrow> publisher_db \<Rightarrow> publisher_db option" where
  "reconcile_statement now db =
     map_option (\<lambda>db'. update_requests (is_settled db now)
         (\<lambda>q. q\<lparr>pr_state := Request_Published, pr_published_at := Some now\<rparr>) db')
       (update_outbox (\<lambda>r. newer_event db r \<noteq> None) (follow db now) db)"

definition pub_reconcileProjectedFinality ::
  "publisher_options \<Rightarrow> int \<Rightarrow> ('u publisher, nat) action" where
  "pub_reconcileProjectedFinality P now =
     pub_transaction
       (act_bind (act_lift (instant (px_host P) now)) (\<lambda>at.
        act_bind (pub_read (\<lambda>db. length (filter (\<lambda>r. newer_event db r \<noteq> None) (pb_outbox db))))
          (\<lambda>changed_count.
        act_bind (pub_sql (reconcile_statement at)) (\<lambda>_. act_ok changed_count))))"

definition postgres_publication_store :: "publisher_options \<Rightarrow> 'u publisher publication_store" where
  "postgres_publication_store P = \<lparr>
     freezeNextBatch = pub_freezeNextBatch P,
     claimNextOutbox = pub_claimNextOutbox P,
     recordSigningAttempt = pub_recordSigningAttempt,
     markBroadcast = pub_markBroadcast P,
     markRetryableFailure = pub_markRetryableFailure P,
     reconcileProjectedFinality = pub_reconcileProjectedFinality P\<rparr>"

end
