(* ===== verification/Match_Worker.thy ===== *)
theory Match_Worker
  imports Gateway Publisher_Store
begin

text \<open>
  The loop of the match publisher (\<open>match-publisher/src/runtime/match-publisher-worker.ts\<close>):
  take over finality, freeze a batch, claim an attempt and publish it. The chain and the signer
  are the two halves of the world; the store, the ids and the clock are anywhere in it. What
  the worker logs is the list a run returns.
\<close>

record ('c, 'w) worker =
  mw_host :: host
  mw_store :: "('c \<times> 'w) publication_store"
  mw_chain :: "'c chain_port"
  mw_signer :: "'w signer_client"
  mw_authorization :: authorization
  mw_batchPolicy :: "('c \<times> 'w) batch_policy"
  mw_transactionExpirationSeconds :: int
  mw_claimLeaseMs :: int
  mw_initialRetryBackoffMs :: int
  mw_maximumRetryBackoffMs :: int
  mw_nextUuidV7 :: "('c \<times> 'w, string) action"
  mw_now :: "'c \<times> 'w \<Rightarrow> int \<times> ('c \<times> 'w)"

datatype publication = Published | Failed | Idle

record cycle_result =
  cy_batchFrozen :: bool
  cy_projectedRowsReconciled :: nat
  cy_publication :: publication
  cy_eventId :: "string option"

text \<open>The checks of the constructor.\<close>

definition MatchPublisherWorker_new :: "('c, 'w) worker \<Rightarrow> exn + ('c, 'w) worker" where
  "MatchPublisherWorker_new W =
     ebind (ensure (\<not> (au_role (mw_authorization W) \<noteq> Match_Publisher \<or>
         au_authority (mw_authorization W) \<noteq> Posting \<or>
         au_account (mw_authorization W) \<noteq> bp_publisherAccount (mw_batchPolicy W)))
       (MatchPublisherError configuration_invalid)) (\<lambda>_. Inr W)"

definition clock :: "('c, 'w) worker \<Rightarrow> ('c \<times> 'w, int) action" where
  "clock W = (\<lambda>w. let (t, w') = mw_now W w in (Inr t, w'))"

definition retryBackoff :: "int \<Rightarrow> int \<Rightarrow> int \<Rightarrow> int" where
  "retryBackoff attempt initialMs maximumMs =
     (let exponent = max 0 (min (attempt - 1) 30) in
      min maximumMs (initialMs * 2 ^ nat exponent))"

definition stableErrorCode :: "exn \<Rightarrow> string" where
  "stableErrorCode error =
     (case error of
        HiveGatewayError c \<Rightarrow> gateway_code_name c
      | MatchPublisherError c \<Rightarrow> publisher_code_name c
      | _ \<Rightarrow> ''publication_failed'')"

text \<open>A step of the \<open>try\<close> block: what follows when it returns, and the handler when it throws.\<close>

definition act_try ::
  "('s, 'a) action \<Rightarrow> (exn \<Rightarrow> ('s, 'b) action) \<Rightarrow> ('a \<Rightarrow> ('s, 'b) action) \<Rightarrow> ('s, 'b) action" where
  "act_try m h k = (\<lambda>s. case m s of (Inl e, s') \<Rightarrow> h e s' | (Inr x, s') \<Rightarrow> k x s')"

lemma act_tryE:
  assumes "act_try m h k s = (r, s'')"
  obtains (throws) e s' where "m s = (Inl e, s')" and "h e s' = (r, s'')"
    | (goes) x s' where "m s = (Inr x, s')" and "k x s' = (r, s'')"
  using assms by (auto simp: act_try_def split: prod.splits sum.splits)

text \<open>The handler, with what \<open>journaled\<close> and \<open>prepared\<close> hold when it runs.\<close>

definition publish_failed ::
  "('c, 'w) worker \<Rightarrow> attempt \<Rightarrow> string option \<Rightarrow> string option \<Rightarrow> exn \<Rightarrow> ('c \<times> 'w, publication) action" where
  "publish_failed W a journaledId transactionId error =
     act_bind (clock W) (\<lambda>t.
     act_bind (markRetryableFailure (mw_store W) (at_outboxId a) journaledId transactionId
       (stableErrorCode error)
       (t + retryBackoff (int (at_attemptCount a)) (mw_initialRetryBackoffMs W)
         (mw_maximumRetryBackoffMs W))) (\<lambda>_.
     act_ok Failed))"

definition attempt_key :: "attempt \<Rightarrow> string" where
  "attempt_key a = ''match-batch:'' @ at_batchId a @ '':attempt:'' @ nat_text (at_attemptCount a)"

definition attempt_intent :: "('c, 'w) worker \<Rightarrow> attempt \<Rightarrow> intent" where
  "attempt_intent W a = \<lparr>in_idempotencyKey = attempt_key a,
     in_policyVersion = au_policyVersion (mw_authorization W), in_event = at_event a,
     in_expirationSeconds = Some (mw_transactionExpirationSeconds W)\<rparr>"

definition signing_record_of ::
  "('c, 'w) worker \<Rightarrow> attempt \<Rightarrow> string \<Rightarrow> prepared_event \<Rightarrow> int \<Rightarrow> exn + signing_record" where
  "signing_record_of W a signingAttemptId p startedAt =
     ebind (instant (mw_host W) startedAt) (\<lambda>validatedAt.
     ebind (instant (mw_host W) (startedAt + mw_transactionExpirationSeconds W * 1000)) (\<lambda>expiresAt.
     Inr \<lparr>sg_id = signingAttemptId, sg_idempotencyKey = attempt_key a,
       sg_outboxId = at_outboxId a, sg_operationKind = ''match_results_batch'',
       sg_canonicalOperationHash = pe_canonicalOperationHash p,
       sg_policyVersion = pe_policyVersion p, sg_transactionId = tx_transactionId p,
       sg_validatedAt = validatedAt, sg_expiresAt = expiresAt\<rparr>))"

definition publishAttempt ::
  "('c, 'w) worker \<Rightarrow> attempt \<Rightarrow> int \<Rightarrow> ('c \<times> 'w, publication) action" where
  "publishAttempt W a startedAt =
     act_bind (mw_nextUuidV7 W) (\<lambda>value.
     act_bind (act_lift (checkedUuid value)) (\<lambda>signingAttemptId.
     act_try (act_fst (prepareOfficialEvent (mw_host W) (mw_chain W) (attempt_intent W a)
         (mw_authorization W)))
       (publish_failed W a None None) (\<lambda>prepared.
     let transactionId = Some (tx_transactionId prepared) in
     act_try (act_ensure (pe_canonicalPayload prepared = at_canonicalPayload a)
         (MatchPublisherError invalid_candidate))
       (publish_failed W a None transactionId) (\<lambda>_.
     act_try (act_lift (signing_record_of W a signingAttemptId prepared startedAt))
       (publish_failed W a None transactionId) (\<lambda>signingRecord.
     act_try (recordSigningAttempt (mw_store W) signingRecord)
       (publish_failed W a None transactionId) (\<lambda>_.
     act_try (broadcastOfficialEvent (mw_chain W) prepared (mw_signer W))
       (publish_failed W a (Some signingAttemptId) transactionId) (\<lambda>result.
     act_try (act_bind (clock W) (\<lambda>t.
         markBroadcast (mw_store W) (at_outboxId a) signingAttemptId (br_transactionId result) t))
       (publish_failed W a (Some signingAttemptId) transactionId) (\<lambda>_.
     act_ok Published))))))))"

definition processOnce :: "('c, 'w) worker \<Rightarrow> ('c \<times> 'w, cycle_result) action" where
  "processOnce W =
     act_bind (clock W) (\<lambda>cycleNow.
     act_bind (reconcileProjectedFinality (mw_store W) cycleNow) (\<lambda>projectedRowsReconciled.
     act_bind (freezeNextBatch (mw_store W) cycleNow (mw_batchPolicy W)) (\<lambda>frozen.
     act_bind (claimNextOutbox (mw_store W) cycleNow (cycleNow + mw_claimLeaseMs W)) (\<lambda>claim.
     case claim of
       None \<Rightarrow> act_ok \<lparr>cy_batchFrozen = frozen \<noteq> None,
         cy_projectedRowsReconciled = projectedRowsReconciled, cy_publication = Idle,
         cy_eventId = None\<rparr>
     | Some a \<Rightarrow>
         act_bind (publishAttempt W a cycleNow) (\<lambda>publication.
         act_ok \<lparr>cy_batchFrozen = frozen \<noteq> None,
           cy_projectedRowsReconciled = projectedRowsReconciled, cy_publication = publication,
           cy_eventId = Some (at_eventId a)\<rparr>)))))"

section \<open>The loop\<close>

datatype worker_log = Cycle_Completed cycle_result | Cycle_Failed string

definition worth_logging :: "cycle_result \<Rightarrow> bool" where
  "worth_logging r \<longleftrightarrow>
     cy_batchFrozen r \<or> cy_projectedRowsReconciled r > 0 \<or> cy_publication r \<noteq> Idle"

text \<open>
  \<open>run\<close>, for the number of turns before the signal is seen to be aborted: a turn that throws is
  logged, and the loop goes on after its delay.
\<close>

fun run_worker :: "('c, 'w) worker \<Rightarrow> nat \<Rightarrow> 'c \<times> 'w \<Rightarrow> worker_log list \<times> ('c \<times> 'w)" where
  "run_worker W 0 w = ([], w)"
| "run_worker W (Suc n) w =
     (case processOnce W w of
        (Inr result, w') \<Rightarrow>
          (let (log, w'') = run_worker W n w' in
           ((if worth_logging result then [Cycle_Completed result] else []) @ log, w''))
      | (Inl error, w') \<Rightarrow>
          (let (log, w'') = run_worker W n w' in (Cycle_Failed (stableErrorCode error) # log, w'')))"

end
