(* ===== verification/Batch_Properties.thy ===== *)
theory Batch_Properties
  imports Batch_Builder
begin

text \<open>
  What a planned batch is: the longest prefix of the ordered queue that fits, cut only when
  a limit asks for it; and that a sound queue is never refused except for its size.
\<close>

section \<open>Checked candidates\<close>

definition candidate_checked :: "host \<Rightarrow> int \<Rightarrow> candidate \<Rightarrow> bool" where
  "candidate_checked H now c \<longleftrightarrow>
     (\<exists>t. date_parse H (cd_completedAt c) = Some t \<and> t \<le> now) \<and>
     mr_completed_at (cd_publicResult c) = cd_completedAt c \<and>
     mr_round_id (cd_publicResult c) = cd_roundId c"

lemma assert_candidates_Inr:
  "assert_candidates H now rs qs cs = Inr u \<longleftrightarrow>
     list_all (candidate_checked H now) cs \<and>
     distinct (map cd_roundId cs) \<and> distinct (map cd_publicationRequestId cs) \<and>
     set (map cd_roundId cs) \<inter> set rs = {} \<and> set (map cd_publicationRequestId cs) \<inter> set qs = {}"
  by (induction cs arbitrary: rs qs)
    (auto simp: ebind_eq_Inr candidate_checked_def not_less split: option.splits)

lemma assertCandidates_Inr:
  "assertCandidates H cs now = Inr u \<longleftrightarrow> list_all (candidate_checked H now) cs \<and>
     distinct (map cd_roundId cs) \<and> distinct (map cd_publicationRequestId cs)"
  by (simp add: assertCandidates_def assert_candidates_Inr)

lemma set_order_candidates [simp]: "set (order_candidates H collation cs) = set cs"
  by (simp add: order_candidates_def)

lemma length_order_candidates [simp]: "length (order_candidates H collation cs) = length cs"
  by (simp add: order_candidates_def)

lemma distinct_order_candidates [simp]:
  "distinct (map f (order_candidates H collation cs)) \<longleftrightarrow> distinct (map f cs)"
  by (simp add: order_candidates_def distinct_map)

section \<open>The greedy selection\<close>

definition fits_limits :: "host \<Rightarrow> (candidate list \<Rightarrow> event) \<Rightarrow> int \<Rightarrow> candidate list \<Rightarrow> string \<Rightarrow> bool" where
  "fits_limits H eventOf limit cs payload \<longleftrightarrow>
     serializeHiveChameleonEvent H (event_json (eventOf cs)) = Inr payload \<and>
     int (utf8_length payload) \<le> limit"

text \<open>A selection of the first candidates, with the payload of exactly those.\<close>

definition selects :: "host \<Rightarrow> (candidate list \<Rightarrow> event) \<Rightarrow> int \<Rightarrow> candidate list \<Rightarrow> selection \<Rightarrow> bool" where
  "selects H eventOf limit taken s \<longleftrightarrow>
     sl_selected s = taken \<and>
     (if taken = [] then sl_event s = None
      else sl_event s = Some (eventOf taken) \<and> fits_limits H eventOf limit taken (sl_payload s))"

lemma select_one_Inr:
  assumes "select_one H eventOf limit c s = Inr s'" and "selects H eventOf limit taken s"
    and "\<not> sl_payloadLimitReached s"
  shows "if sl_payloadLimitReached s'
    then taken \<noteq> [] \<and> selects H eventOf limit taken s' \<and> (\<forall>p. \<not> fits_limits H eventOf limit (taken @ [c]) p)
    else selects H eventOf limit (taken @ [c]) s'"
  using assms
  by (auto simp: select_one_def selects_def fits_limits_def Let_def split: sum.splits if_splits)

lemma select_candidates_Inr:
  assumes "select_candidates H eventOf limit cs s = Inr s'" and "selects H eventOf limit taken s"
    and "\<not> sl_payloadLimitReached s"
  shows "\<exists>n. selects H eventOf limit (taken @ take n cs) s' \<and>
    (if sl_payloadLimitReached s'
     then n < length cs \<and> taken @ take n cs \<noteq> [] \<and>
       (\<forall>p. \<not> fits_limits H eventOf limit (taken @ take n cs @ [cs ! n]) p)
     else n = length cs)"
  using assms
proof (induction cs arbitrary: s taken)
  case Nil
  then show ?case by auto
next
  case (Cons c cs)
  from Cons.prems(1) obtain s1 where one: "select_one H eventOf limit c s = Inr s1"
    and rest: "if sl_payloadLimitReached s1 then s' = s1
      else select_candidates H eventOf limit cs s1 = Inr s'"
    by (auto simp: ebind_eq_Inr split: if_splits)
  note sel = select_one_Inr [OF one Cons.prems(2,3)]
  show ?case
  proof (cases "sl_payloadLimitReached s1")
    case True
    with sel rest show ?thesis by (intro exI [of _ 0]) simp
  next
    case False
    with sel rest Cons.IH [of s1 "taken @ [c]"] obtain n where
      n: "selects H eventOf limit ((taken @ [c]) @ take n cs) s'"
        "if sl_payloadLimitReached s'
         then n < length cs \<and> (taken @ [c]) @ take n cs \<noteq> [] \<and>
           (\<forall>p. \<not> fits_limits H eventOf limit ((taken @ [c]) @ take n cs @ [cs ! n]) p)
         else n = length cs"
      by auto
    then show ?thesis by (intro exI [of _ "Suc n"]) (simp split: if_splits)
  qed
qed

lemma empty_selects [simp]: "selects H eventOf limit [] empty_selection"
  by (simp add: selects_def empty_selection_def)

lemma empty_not_reached [simp]: "\<not> sl_payloadLimitReached empty_selection"
  by (simp add: empty_selection_def)

lemma selected_prefix:
  assumes "select_candidates H eventOf limit cs empty_selection = Inr s"
  obtains n where "selects H eventOf limit (take n cs) s" and "n \<le> length cs"
    and "sl_payloadLimitReached s \<Longrightarrow> n < length cs \<and> take n cs \<noteq> [] \<and>
      (\<forall>p. \<not> fits_limits H eventOf limit (take (Suc n) cs) p)"
    and "\<not> sl_payloadLimitReached s \<Longrightarrow> n = length cs"
  using select_candidates_Inr [OF assms empty_selects empty_not_reached]
  by (auto simp: take_Suc_conv_app_nth split: if_splits)

text \<open>A selection that throws has a serialization that failed otherwise than for its size, or a
  first candidate that does not fit alone.\<close>

lemma select_candidates_Inl:
  assumes "select_candidates H eventOf limit cs s = Inl e" and "selects H eventOf limit taken s"
    and "\<not> sl_payloadLimitReached s"
    and "\<And>n. 0 < n \<Longrightarrow> n \<le> length (taken @ cs) \<Longrightarrow>
      valid_event H (eventOf (take n (taken @ cs))) \<and>
      canonicalize H (event_json (eventOf (take n (taken @ cs)))) \<noteq> None"
  shows "e = MatchPublisherError publisher_payload_too_large \<and> taken = [] \<and>
    (\<forall>p. \<not> fits_limits H eventOf limit (take 1 cs) p)"
  using assms
proof (induction cs arbitrary: s taken)
  case Nil
  then show ?case by simp
next
  case (Cons c cs)
  have ser: "x = HiveGatewayError payload_too_large"
    if "serializeHiveChameleonEvent H (event_json (eventOf (taken @ [c]))) = Inl x" for x
    using Cons.prems(4) [of "Suc (length taken)"] that
    by (auto simp: serializeHiveChameleonEvent_def canonicalJson_def run_simps)
  show ?case
  proof (cases "select_one H eventOf limit c s")
    case (Inl x)
    with Cons.prems(1) have "x = e" by simp
    with Inl Cons.prems(2) ser show ?thesis
      by (auto simp: select_one_def selects_def fits_limits_def Let_def split: sum.splits if_splits)
  next
    case (Inr s1)
    with Cons.prems(1) have "\<not> sl_payloadLimitReached s1"
      and "select_candidates H eventOf limit cs s1 = Inl e"
      by (auto split: if_splits)
    with select_one_Inr [OF Inr Cons.prems(2,3)] Cons.prems(4) Cons.IH [of s1 "taken @ [c]"]
    show ?thesis by simp
  qed
qed

section \<open>A queue of one result\<close>

text \<open>
  The result of the fixtures, queued, and a platform whose dates are the digits after the year.
\<close>

definition plan_host :: host where
  "plan_host = fixture_host\<lparr>
     date_parse := (\<lambda>s. if length s = 24 then Some (digits_from 0 (drop 5 s)) else None),
     to_iso_string := (\<lambda>t. if t = 711120500000 then ''2026-07-11T12:05:00.000Z''
       else ''2026-07-11T12:05:00.001Z'')\<rparr>"

definition fixture_candidate :: candidate where
  "fixture_candidate = \<lparr>
     cd_publicationRequestId = ''0190f6d2-7c00-7000-8000-000000000006'',
     cd_resultRevisionId = ''0190f6d2-7c00-7000-8000-000000000007'',
     cd_roundId = ''0190f6d2-7c00-7000-8000-000000000003'',
     cd_completedAt = ''2026-07-11T12:03:42.000Z'', cd_requestedAt = ''2026-07-11T12:03:43.000Z'',
     cd_publicResult = fixture_result\<rparr>"

definition fixture_batch_policy :: "int \<Rightarrow> unit batch_policy" where
  "fixture_batch_policy maximumAgeMs = \<lparr>
     bp_publisherAccount = ''match-pub'', bp_maximumAgeMs = maximumAgeMs, bp_maximumResults = 20,
     bp_maximumPayloadBytes = 6144,
     bp_nextUuidV7 = act_ok ''0190f6d2-7c00-7000-8000-000000000001''\<rparr>"

lemma fixture_plan:
  "(case planMatchBatch plan_host (\<lambda>s. s) [fixture_candidate] (Some 711120500000)
      (fixture_batch_policy 60000) () of
      (Inr (Some fz), _) \<Rightarrow> fz_candidates fz = [fixture_candidate] | _ \<Rightarrow> False)"
  by code_simp

lemma fixture_wait:
  "(case planMatchBatch plan_host (\<lambda>s. s) [fixture_candidate] (Some 711120500000)
      (fixture_batch_policy 900000) () of
      (Inr None, _) \<Rightarrow> True | _ \<Rightarrow> False)"
  by code_simp

section \<open>Plans\<close>

lemma planMatchBatch_InrE:
  assumes "planMatchBatch H collation cs now policy u = (Inr r, u')"
  obtains (empty) "cs = []" and "r = None"
    | (planned) t eventId batchId outboxId where "cs \<noteq> []" and "now = Some t"
      and "validatePolicy policy = Inr ()"
      and "assertCandidates H (order_candidates H collation cs) t = Inr ()"
      and "plan_selected H (order_candidates H collation cs) t policy eventId batchId outboxId = Inr r"
proof (cases "cs = []")
  case True
  with assms show ?thesis
    unfolding planMatchBatch_def by (intro empty) (auto simp: act_run elim!: act_bind_InrE)
next
  case False
  with assms show ?thesis
    unfolding planMatchBatch_def Let_def
    by (elim act_bind_InrE) (simp add: act_run, elim act_bind_InrE, simp add: act_run, metis planned)
qed

text \<open>The event a prefix of the queue would be published as.\<close>

definition prefix_event ::
  "host \<Rightarrow> candidate list \<Rightarrow> int \<Rightarrow> 'u batch_policy \<Rightarrow> string \<Rightarrow> string \<Rightarrow> candidate list \<Rightarrow> event" where
  "prefix_event H ordered now policy eventId batchId cs =
     createEvent cs (bp_publisherAccount policy) eventId batchId (to_iso_string H now)
       (cd_completedAt (hd ordered))
       (to_iso_string H (period_end H ordered (bp_maximumResults policy) now))"

definition prefix_fits ::
  "host \<Rightarrow> candidate list \<Rightarrow> int \<Rightarrow> 'u batch_policy \<Rightarrow> string \<Rightarrow> string \<Rightarrow> nat \<Rightarrow> bool" where
  "prefix_fits H ordered now policy eventId batchId n \<longleftrightarrow>
     (\<exists>payload. serializeHiveChameleonEvent H
          (event_json (prefix_event H ordered now policy eventId batchId (take n ordered))) = Inr payload \<and>
        int (utf8_length payload) \<le> bp_maximumPayloadBytes policy)"

lemma toISOString_Inr [simp]:
  "toISOString H t = Inr s \<longleftrightarrow> \<bar>t\<bar> \<le> 8640000000000000 \<and> s = to_iso_string H t"
  by (auto simp: toISOString_def ebind_eq_Inr)

lemma ageLimitReached_iff:
  "ageLimitReached H ordered now policy \<longleftrightarrow>
     (\<exists>t. date_parse H (cd_completedAt (hd ordered)) = Some t \<and> bp_maximumAgeMs policy \<le> now - t)"
  by (auto simp: ageLimitReached_def)

text \<open>What a frozen batch takes from the selection, the queue and the clock.\<close>

definition frozen_from ::
  "host \<Rightarrow> candidate list \<Rightarrow> string \<Rightarrow> string \<Rightarrow> string \<Rightarrow> selection \<Rightarrow> frozen_batch \<Rightarrow> bool" where
  "frozen_from H ordered eventId batchId periodEnd s fz \<longleftrightarrow>
     fz_eventId fz = eventId \<and> fz_batchId fz = batchId \<and> sl_event s = Some (fz_event fz) \<and>
     fz_canonicalPayload fz = sl_payload s \<and> fz_payloadSha256 fz = sha256_hex H (sl_payload s) \<and>
     fz_payloadByteCount fz = utf8_length (sl_payload s) \<and>
     fz_publicationPeriodStart fz = cd_completedAt (hd ordered) \<and>
     fz_publicationPeriodEnd fz = periodEnd \<and> fz_candidates fz = sl_selected s"

lemma cut_batch_Inr:
  assumes "cut_batch H ordered now policy eventId batchId outboxId periodEnd s = Inr r"
  shows "sl_event s \<noteq> None \<and>
    (if ageLimitReached H ordered now policy \<or>
       int (length (sl_selected s)) = bp_maximumResults policy \<or> sl_payloadLimitReached s
     then \<exists>fz. r = Some fz \<and> frozen_from H ordered eventId batchId periodEnd s fz else r = None)"
  using assms
  by (auto simp: cut_batch_def frozen_from_def Let_def split: option.splits if_splits)

lemma plan_selected_InrE:
  assumes "plan_selected H ordered now policy eventId batchId outboxId = Inr r"
    and "1 \<le> bp_maximumResults policy"
  obtains s n where
    "selects H (prefix_event H ordered now policy eventId batchId)
      (bp_maximumPayloadBytes policy) (take n ordered) s"
    and "sl_event s \<noteq> None"
    and "n \<le> length ordered" and "int n \<le> bp_maximumResults policy"
    and "if sl_payloadLimitReached s
      then n < length ordered \<and> \<not> prefix_fits H ordered now policy eventId batchId (Suc n)
      else n = length ordered \<or> int n = bp_maximumResults policy"
    and "if ageLimitReached H ordered now policy \<or>
       int (length (sl_selected s)) = bp_maximumResults policy \<or> sl_payloadLimitReached s
     then \<exists>fz. r = Some fz \<and> frozen_from H ordered eventId batchId
       (to_iso_string H (period_end H ordered (bp_maximumResults policy) now)) s fz else r = None"
proof -
  let ?cs = "take (nat (bp_maximumResults policy)) ordered"
  let ?f = "prefix_event H ordered now policy eventId batchId"
  let ?till = "to_iso_string H (period_end H ordered (bp_maximumResults policy) now)"
  from assms(1) obtain s where
    sel: "select_candidates H ?f (bp_maximumPayloadBytes policy) ?cs empty_selection = Inr s"
    and cut: "cut_batch H ordered now policy eventId batchId outboxId ?till s = Inr r"
    unfolding plan_selected_def Let_def by (auto simp: ebind_eq_Inr prefix_event_def [abs_def])
  from sel obtain n where n: "selects H ?f (bp_maximumPayloadBytes policy) (take n ?cs) s"
    "n \<le> length ?cs"
    "sl_payloadLimitReached s \<Longrightarrow> n < length ?cs \<and> take n ?cs \<noteq> [] \<and>
      (\<forall>p. \<not> fits_limits H ?f (bp_maximumPayloadBytes policy) (take (Suc n) ?cs) p)"
    "\<not> sl_payloadLimitReached s \<Longrightarrow> n = length ?cs"
    by (rule selected_prefix) blast
  have tk: "take k ?cs = take k ordered" if "k \<le> length ?cs" for k
    using that by (simp add: min_absorb1)
  have lim: "n < length ordered \<and> \<not> prefix_fits H ordered now policy eventId batchId (Suc n)"
    if "sl_payloadLimitReached s"
    using n(3) [OF that] tk [of "Suc n"] by (auto simp: prefix_fits_def fits_limits_def)
  have "n \<le> length ordered" "int n \<le> bp_maximumResults policy"
    using n(2) assms(2) by auto
  moreover have "n = length ordered \<or> int n = bp_maximumResults policy"
    if "\<not> sl_payloadLimitReached s"
    using n(4) [OF that] assms(2) by (auto simp: min_def split: if_splits)
  ultimately show ?thesis
    using that [of n s] n(1) lim cut_batch_Inr [OF cut] tk [OF n(2)] by auto
qed

text \<open>A frozen prefix of the queue: its event, its payload and what is recorded of them.\<close>

lemma frozen_prefix:
  assumes sel: "selects H (prefix_event H ordered now policy eventId batchId) limit (take n ordered) s"
      "sl_event s \<noteq> None"
    and fz: "frozen_from H ordered eventId batchId till s fz" and n: "n \<le> length ordered"
    and till: "till = to_iso_string H (period_end H ordered (bp_maximumResults policy) now)"
  shows "1 \<le> n \<and> fz_eventId fz = eventId \<and> fz_batchId fz = batchId \<and>
    fz_candidates fz = take n ordered \<and> valid_event H (fz_event fz) \<and>
    (\<exists>b. fz_event fz = Match_Results_Batch b \<and> mb_event_id b = fz_eventId fz \<and>
       mb_batch_id b = fz_batchId fz \<and> mb_publisher b = bp_publisherAccount policy \<and>
       mb_occurred_at b = to_iso_string H now \<and>
       mb_period_start b = fz_publicationPeriodStart fz \<and>
       mb_period_end b = fz_publicationPeriodEnd fz \<and> mb_result_count b = int n \<and>
       mb_results b = map cd_publicResult (take n ordered)) \<and>
    fz_publicationPeriodStart fz = cd_completedAt (hd ordered) \<and>
    fz_publicationPeriodEnd fz = till \<and>
    serializeHiveChameleonEvent H (event_json (fz_event fz)) = Inr (fz_canonicalPayload fz) \<and>
    fz_payloadSha256 fz = sha256_hex H (fz_canonicalPayload fz) \<and>
    fz_payloadByteCount fz = utf8_length (fz_canonicalPayload fz) \<and>
    int (utf8_length (fz_canonicalPayload fz)) \<le> limit"
proof -
  let ?ev = "prefix_event H ordered now policy eventId batchId (take n ordered)"
  from sel have ne: "take n ordered \<noteq> []" and sl: "sl_selected s = take n ordered" "sl_event s = Some ?ev"
    and ser: "serializeHiveChameleonEvent H (event_json ?ev) = Inr (sl_payload s)"
      "int (utf8_length (sl_payload s)) \<le> limit"
    by (auto simp: selects_def fits_limits_def split: if_splits)
  from ser(1) have valid: "valid_event H ?ev"
    by (simp only: serialize_event_Inr)
  have "\<exists>b. ?ev = Match_Results_Batch b \<and> mb_event_id b = eventId \<and>
      mb_batch_id b = batchId \<and> mb_publisher b = bp_publisherAccount policy \<and>
      mb_occurred_at b = to_iso_string H now \<and> mb_period_start b = cd_completedAt (hd ordered) \<and>
      mb_period_end b = till \<and> mb_result_count b = int n \<and>
      mb_results b = map cd_publicResult (take n ordered)"
    using n till by (simp add: prefix_event_def createEvent_def)
  moreover have "1 \<le> n"
    using ne by (cases n) simp_all
  ultimately show ?thesis
    using fz sl ser valid by (simp add: frozen_from_def)
qed

text \<open>
  C37. A planned batch is a nonempty prefix of the queue, ordered by completion and round id,
  within both limits; its event is valid and carries exactly those results in that order and the
  period from the first completion to the planned end, its payload is the event's canonical text,
  frozen with that text's hash and its length in bytes. And it was cut for a reason:
  it has as many results as a batch may have, or the next result does not fit any more, or it
  is all there is and the oldest result is too old to wait.
\<close>

theorem plan_cuts_prefix:
  assumes "planMatchBatch H collation cs (Some now) policy u = (Inr (Some fz), u')"
  shows "\<exists>n. let ordered = order_candidates H collation cs in
    1 \<le> n \<and> n \<le> length ordered \<and> int n \<le> bp_maximumResults policy \<and>
    fz_candidates fz = take n ordered \<and>
    valid_event H (fz_event fz) \<and>
    (\<exists>b. fz_event fz = Match_Results_Batch b \<and> mb_event_id b = fz_eventId fz \<and>
       mb_batch_id b = fz_batchId fz \<and> mb_publisher b = bp_publisherAccount policy \<and>
       mb_occurred_at b = to_iso_string H now \<and>
       mb_period_start b = fz_publicationPeriodStart fz \<and>
       mb_period_end b = fz_publicationPeriodEnd fz \<and> mb_result_count b = int n \<and>
       mb_results b = map cd_publicResult (take n ordered)) \<and>
    fz_publicationPeriodStart fz = cd_completedAt (hd ordered) \<and>
    fz_publicationPeriodEnd fz =
      to_iso_string H (period_end H ordered (bp_maximumResults policy) now) \<and>
    serializeHiveChameleonEvent H (event_json (fz_event fz)) = Inr (fz_canonicalPayload fz) \<and>
    fz_payloadSha256 fz = sha256_hex H (fz_canonicalPayload fz) \<and>
    fz_payloadByteCount fz = utf8_length (fz_canonicalPayload fz) \<and>
    int (utf8_length (fz_canonicalPayload fz)) \<le> bp_maximumPayloadBytes policy \<and>
    (int n = bp_maximumResults policy \<or>
     \<not> prefix_fits H ordered now policy (fz_eventId fz) (fz_batchId fz) (Suc n) \<or>
     (n = length ordered \<and> ageLimitReached H ordered now policy))"
  using assms
proof (cases rule: planMatchBatch_InrE)
  case (planned t eventId batchId outboxId)
  let ?ordered = "order_candidates H collation cs"
  let ?till = "to_iso_string H (period_end H ?ordered (bp_maximumResults policy) now)"
  from planned(2,3) have t: "t = now" and m: "1 \<le> bp_maximumResults policy"
    by (auto simp: validatePolicy_def)
  from planned(5) [unfolded t] m obtain s n where
    sel: "selects H (prefix_event H ?ordered now policy eventId batchId)
      (bp_maximumPayloadBytes policy) (take n ?ordered) s" "sl_event s \<noteq> None"
    and n: "n \<le> length ?ordered" "int n \<le> bp_maximumResults policy"
    and stop: "if sl_payloadLimitReached s
      then n < length ?ordered \<and> \<not> prefix_fits H ?ordered now policy eventId batchId (Suc n)
      else n = length ?ordered \<or> int n = bp_maximumResults policy"
    and cut: "if ageLimitReached H ?ordered now policy \<or>
       int (length (sl_selected s)) = bp_maximumResults policy \<or> sl_payloadLimitReached s
     then \<exists>fz'. Some fz = Some fz' \<and> frozen_from H ?ordered eventId batchId ?till s fz' else Some fz = None"
    by (rule plan_selected_InrE)
  from cut have fz: "frozen_from H ?ordered eventId batchId ?till s fz"
    and why: "ageLimitReached H ?ordered now policy \<or>
      int (length (sl_selected s)) = bp_maximumResults policy \<or> sl_payloadLimitReached s"
    by (auto split: if_splits)
  have "sl_selected s = take n ?ordered"
    using sel by (auto simp: selects_def split: if_splits)
  then have "int n = bp_maximumResults policy \<or>
      \<not> prefix_fits H ?ordered now policy eventId batchId (Suc n) \<or>
      (n = length ?ordered \<and> ageLimitReached H ?ordered now policy)"
    using why stop n by (auto split: if_splits)
  with frozen_prefix [OF sel fz n(1) refl] n show ?thesis
    unfolding Let_def by (intro exI [of _ n]) auto
qed simp

lemma plan_cuts_prefix_witness:
  "\<exists>fz u'. planMatchBatch plan_host (\<lambda>s. s) [fixture_candidate] (Some 711120500000)
     (fixture_batch_policy 60000) () = (Inr (Some fz), u') \<and> valid_event plan_host (fz_event fz) \<and>
     fz_payloadByteCount fz = utf8_length (fz_canonicalPayload fz)"
proof -
  from fixture_plan obtain fz u' where run: "planMatchBatch plan_host (\<lambda>s. s) [fixture_candidate]
      (Some 711120500000) (fixture_batch_policy 60000) () = (Inr (Some fz), u')"
    by (auto split: prod.splits sum.splits option.splits)
  with plan_cuts_prefix [OF run] show ?thesis
    unfolding Let_def by blast
qed

section \<open>A sound queue\<close>

text \<open>
  What the publisher's store hands over: results that pass the public contract, completed by
  now, one per round and request. And what the platform documents: a printed date reads back,
  the collation orders UUIDs as their code units do, every event has a canonical text.
\<close>

definition sound_candidate :: "host \<Rightarrow> int \<Rightarrow> candidate \<Rightarrow> bool" where
  "sound_candidate H now c \<longleftrightarrow> candidate_checked H now c \<and> valid_match_result H (cd_publicResult c)"

definition sound_queue :: "host \<Rightarrow> int \<Rightarrow> candidate list \<Rightarrow> bool" where
  "sound_queue H now cs \<longleftrightarrow> list_all (sound_candidate H now) cs \<and>
     distinct (map cd_roundId cs) \<and> distinct (map cd_publicationRequestId cs)"

definition reads_back :: "host \<Rightarrow> int \<Rightarrow> bool" where
  "reads_back H t \<longleftrightarrow> \<bar>t\<bar> \<le> 8640000000000000 \<and>
     date_parse H (to_iso_string H t) = Some t \<and> zod_datetime H (to_iso_string H t)"

definition collates_uuids :: "(string \<Rightarrow> string) \<Rightarrow> bool" where
  "collates_uuids collation \<longleftrightarrow>
     (\<forall>r r'. uuidV7Schema r \<longrightarrow> uuidV7Schema r' \<longrightarrow> collation r \<le> collation r' \<longrightarrow> r \<le> r')"

definition provides_uuids :: "('u, string) action \<Rightarrow> bool" where
  "provides_uuids next_id \<longleftrightarrow> (\<forall>u. \<exists>x u'. next_id u = (Inr x, u') \<and> uuidV7Schema x)"

lemma adjacent_all_map:
  assumes "sorted_wrt P xs"
    and "\<And>x y. x \<in> set xs \<Longrightarrow> y \<in> set xs \<Longrightarrow> P x y \<Longrightarrow> Q (f x) (f y)"
  shows "adjacent_all Q (map f xs)"
  using assms
proof (induction xs)
  case (Cons x xs)
  then show ?case by (cases xs) auto
qed simp

definition completion :: "host \<Rightarrow> candidate \<Rightarrow> int" where
  "completion H c = the (date_parse H (cd_completedAt c))"

lemma sound_completion:
  assumes "sound_candidate H now c"
  shows "date_parse H (cd_completedAt c) = Some (completion H c)" and "completion H c \<le> now"
  using assms by (auto simp: sound_candidate_def candidate_checked_def completion_def)

lemma sound_key:
  assumes "sound_candidate H now c"
  shows "candidate_key H collation c = (completion H c, collation (cd_roundId c))"
  using sound_completion [OF assms] by (simp add: candidate_key_def)

lemma sorted_order_candidates:
  "sorted_wrt (\<lambda>c c'. candidate_key H collation c \<le> candidate_key H collation c')
     (order_candidates H collation cs)"
  using sorted_sort_key [of "candidate_key H collation" cs]
  by (simp only: order_candidates_def sorted_map)

lemma period_end_cases:
  assumes "sound_queue H now cs" and "cs \<noteq> []" and "1 \<le> m"
  shows "period_end H (order_candidates H collation cs) m now \<in> {now, now + 1}"
proof -
  let ?ordered = "order_candidates H collation cs"
  have "nat (min (int (length ?ordered)) m) - 1 < length ?ordered"
    using assms(2,3) by (cases cs) auto
  then have "?ordered ! (nat (min (int (length ?ordered)) m) - 1) \<in> set ?ordered"
    by (rule nth_mem)
  with assms(1) have "sound_candidate H now (?ordered ! (nat (min (int (length ?ordered)) m) - 1))"
    by (simp only: set_order_candidates sound_queue_def list_all_iff)
  from sound_completion [OF this] show ?thesis
    by (auto simp: period_end_def Let_def)
qed

text \<open>Every prefix of the ordered queue is a valid batch.\<close>

lemma prefix_event_valid:
  assumes sound: "sound_queue H now cs" and cs: "cs \<noteq> []" and coll: "collates_uuids collation"
    and policy: "validatePolicy policy = Inr ()" "hiveAccountSchema (bp_publisherAccount policy)"
    and ids: "uuidV7Schema eventId" "uuidV7Schema batchId"
    and prints: "reads_back H now" "reads_back H (now + 1)"
    and n: "0 < n" "n \<le> length cs" "int n \<le> bp_maximumResults policy"
  shows "valid_event H (prefix_event H (order_candidates H collation cs) now policy eventId batchId
    (take n (order_candidates H collation cs)))"
proof -
  let ?ordered = "order_candidates H collation cs"
  let ?taken = "take n ?ordered"
  let ?until = "period_end H ?ordered (bp_maximumResults policy) now"
  let ?last = "?ordered ! (nat (min (int (length ?ordered)) (bp_maximumResults policy)) - 1)"
  have all: "sound_candidate H now c" if "c \<in> set ?ordered" for c
    using that sound by (simp add: sound_queue_def list_all_iff)
  have ne: "?ordered \<noteq> []"
    using cs by (metis length_0_conv length_order_candidates)
  have max: "1 \<le> bp_maximumResults policy" "bp_maximumResults policy \<le> 20"
    using policy(1) by (simp_all add: validatePolicy_def)
  let ?k = "nat (min (int (length ?ordered)) (bp_maximumResults policy)) - 1"
  have k: "?k < length ?ordered" "n - 1 \<le> ?k"
    using ne max(1) n by auto
  have mono: "completion H (?ordered ! i) \<le> completion H (?ordered ! j)"
    if "i \<le> j" "j < length ?ordered" for i j
  proof -
    have "candidate_key H collation (?ordered ! i) \<le> candidate_key H collation (?ordered ! j)"
      using that sorted_order_candidates [of H collation cs]
      by (cases "i = j") (simp_all add: sorted_wrt_iff_nth_less)
    moreover have "i < length ?ordered" using that by simp
    note sound_key [OF all [OF nth_mem [OF this]]] sound_key [OF all [OF nth_mem [OF that(2)]]]
    ultimately show ?thesis by auto
  qed
  have "?last \<in> set ?ordered"
    by (rule nth_mem [OF k(1)])
  note last = sound_completion [OF all [OF this]]
  have e: "reads_back H ?until" "completion H ?last < ?until"
    using last prints by (auto simp: period_end_def Let_def completion_def [symmetric])
  have period: "completion H (hd ?ordered) \<le> completion H c" "completion H c < ?until"
    if "c \<in> set ?taken" for c
  proof -
    from that obtain i where i: "i < n" "i < length ?ordered" "c = ?ordered ! i"
      by (auto simp: in_set_conv_nth)
    show "completion H (hd ?ordered) \<le> completion H c"
      using mono [of 0 i] i ne by (simp add: hd_conv_nth)
    show "completion H c < ?until"
    proof -
      have "i \<le> ?k" using i(1) k(2) by linarith
      from mono [OF this k(1)] i(3) e(2) show ?thesis by simp
    qed
  qed
  have order: "adjacent_all (results_in_order H) (map cd_publicResult ?taken)"
  proof (rule adjacent_all_map [OF sorted_wrt_take [OF sorted_order_candidates]])
    fix c c'
    assume c: "c \<in> set ?taken" "c' \<in> set ?taken"
      and "candidate_key H collation c \<le> candidate_key H collation c'"
    then have s: "sound_candidate H now c" "sound_candidate H now c'"
      and key: "completion H c < completion H c' \<or>
        (completion H c = completion H c' \<and> collation (cd_roundId c) \<le> collation (cd_roundId c'))"
      using all [of c] all [of c'] sound_key [of H now c collation] sound_key [of H now c' collation]
      by (auto dest!: in_set_takeD)
    have "uuidV7Schema (cd_roundId c)" "uuidV7Schema (cd_roundId c')"
      using s by (auto simp: sound_candidate_def candidate_checked_def valid_match_result_def
          match_result_formats_def)
    with key coll have "completion H c < completion H c' \<or>
        (completion H c = completion H c' \<and> cd_roundId c \<le> cd_roundId c')"
      by (auto simp: collates_uuids_def)
    with s sound_completion(1) [OF s(1)] sound_completion(1) [OF s(2)]
    show "results_in_order H (cd_publicResult c) (cd_publicResult c')"
      by (auto simp: results_in_order_def sound_candidate_def candidate_checked_def not_less)
  qed
  let ?b = "\<lparr>mb_event_id = eventId, mb_occurred_at = to_iso_string H now, mb_batch_id = batchId,
    mb_period_start = cd_completedAt (hd ?ordered), mb_period_end = to_iso_string H ?until,
    mb_publisher = bp_publisherAccount policy, mb_result_count = int (length ?taken),
    mb_results = map cd_publicResult ?taken\<rparr>"
  have completed: "mr_completed_at (cd_publicResult c) = cd_completedAt c"
    "mr_round_id (cd_publicResult c) = cd_roundId c" "valid_match_result H (cd_publicResult c)"
    if "c \<in> set ?ordered" for c
    using all [OF that] by (simp_all add: sound_candidate_def candidate_checked_def)
  have hd: "hd ?ordered \<in> set ?ordered"
    by (rule hd_in_set [OF ne])
  have start: "isoTimestampSchema H (cd_completedAt (hd ?ordered))"
    "date_parse H (cd_completedAt (hd ?ordered)) = Some (completion H (hd ?ordered))"
    using completed [OF hd] sound_completion(1) [OF all [OF hd]]
    by (simp_all add: valid_match_result_def match_result_formats_def)
  have rounds: "distinct (map mr_round_id (map cd_publicResult ?taken))"
  proof -
    have "map mr_round_id (map cd_publicResult ?taken) = map cd_roundId ?taken"
      using completed(2) by (auto dest: in_set_takeD)
    also have "\<dots> = take n (map cd_roundId ?ordered)"
      by (simp add: take_map)
    finally show ?thesis
      using sound by (simp only: sound_queue_def distinct_take distinct_order_candidates)
  qed
  have within: "\<not> (nan_less (date_parse H (mr_completed_at r)) (date_parse H (mb_period_start ?b)) \<or>
      nan_le (date_parse H (mb_period_end ?b)) (date_parse H (mr_completed_at r)))"
    if "r \<in> set (mb_results ?b)" for r
  proof -
    from that obtain c where c: "c \<in> set ?taken" "r = cd_publicResult c"
      by auto
    then have "c \<in> set ?ordered"
      by (auto dest: in_set_takeD)
    with completed(1) [OF this] sound_completion(1) [OF all [OF this]] period [OF c(1)] start(2) e(1)
    show ?thesis
      by (simp add: c(2) reads_back_def)
  qed
  have "completion H (hd ?ordered) < ?until"
    using period(2) [of "hd ?ordered"] n ne by (cases ?ordered; cases n) simp_all
  then have refined: "match_batch_refined H ?b"
    using order rounds within start(2) e(1)
    unfolding match_batch_refined_def Let_def list_all_iff js_set_size_eq
    by (simp add: reads_back_def)
  have "valid_match_batch H ?b"
    unfolding valid_match_batch_def
    using refined ids prints(1) e(1) start(1) policy(2) n max completed(3)
    by (auto simp: isoTimestampSchema_def reads_back_def list_all_iff dest: in_set_takeD)
  then show ?thesis
    by (simp add: prefix_event_def createEvent_def)
qed

text \<open>
  A sound queue is never refused but for its size: on a valid policy, planning ends with a
  batch or with the decision to wait, or it reports the one result that does not fit a batch
  alone. In particular no valid result is ever reported as an invalid candidate.
\<close>

theorem plan_refuses_only_size:
  assumes "sound_queue H now cs" and "collates_uuids collation"
    and "validatePolicy policy = Inr ()" and "hiveAccountSchema (bp_publisherAccount policy)"
    and "provides_uuids (bp_nextUuidV7 policy)"
    and "reads_back H now" and "reads_back H (now + 1)"
    and text_of: "\<And>e. \<exists>c t. canonicalize H (event_json e) = Some (c # t)"
  shows "(\<exists>r. fst (planMatchBatch H collation cs (Some now) policy u) = Inr r) \<or>
    (fst (planMatchBatch H collation cs (Some now) policy u) =
        Inl (MatchPublisherError publisher_payload_too_large) \<and> cs \<noteq> [] \<and>
     (\<exists>eventId batchId. \<not> prefix_fits H (order_candidates H collation cs) now policy eventId batchId 1))"
proof (cases "cs = []")
  case True
  with assms(3) show ?thesis
    by (simp add: planMatchBatch_def act_simps)
next
  case False
  let ?ordered = "order_candidates H collation cs"
  from assms(1) have checked: "assertCandidates H ?ordered now = Inr ()"
    by (simp add: assertCandidates_Inr sound_queue_def sound_candidate_def list_all_iff)
  have next_id: "\<exists>x u'. next_uuid policy u = (Inr x, u') \<and> uuidV7Schema x" for u
  proof -
    from assms(5) obtain x u' where "bp_nextUuidV7 policy u = (Inr x, u')" "uuidV7Schema x"
      unfolding provides_uuids_def by blast
    then show ?thesis
      by (auto simp: next_uuid_def act_simps checkedUuid_def uuidV7Schema_def)
  qed
  obtain e u1 where e: "next_uuid policy u = (Inr e, u1)" "uuidV7Schema e"
    using next_id by blast
  obtain b u2 where b: "next_uuid policy u1 = (Inr b, u2)" "uuidV7Schema b"
    using next_id by blast
  obtain x u3 where x: "next_uuid policy u2 = (Inr x, u3)" "uuidV7Schema x"
    using next_id by blast
  have run: "planMatchBatch H collation cs (Some now) policy u =
      (plan_selected H ?ordered now policy e b x, u3)"
    using False checked assms(3) e(1) b(1) x(1)
    by (simp add: planMatchBatch_def act_simps Let_def)
  have max: "1 \<le> bp_maximumResults policy"
    using assms(3) by (simp add: validatePolicy_def)
  have ends: "reads_back H (period_end H ?ordered (bp_maximumResults policy) now)"
    using period_end_cases [OF assms(1) False max, of collation] assms(6,7) by auto
  let ?f = "prefix_event H ?ordered now policy e b"
  let ?cs = "take (nat (bp_maximumResults policy)) ?ordered"
  have valid: "valid_event H (?f (take n ([] @ ?cs))) \<and>
      canonicalize H (event_json (?f (take n ([] @ ?cs)))) \<noteq> None"
    if "0 < n" "n \<le> length ([] @ ?cs)" for n
  proof -
    from that max have n: "n \<le> length cs" "int n \<le> bp_maximumResults policy"
      "take n ([] @ ?cs) = take n ?ordered"
      by auto
    show ?thesis
      unfolding n(3)
      using prefix_event_valid [OF assms(1) False assms(2-4) e(2) b(2) assms(6,7) that(1) n(1,2)]
        text_of [of "?f (take n ?ordered)"] by auto
  qed
  show ?thesis
  proof (cases "plan_selected H ?ordered now policy e b x")
    case (Inl err)
    then consider (select) "select_candidates H ?f (bp_maximumPayloadBytes policy) ?cs
        empty_selection = Inl err"
      | (cut) s periodEnd where "select_candidates H ?f (bp_maximumPayloadBytes policy) ?cs
          empty_selection = Inr s"
        and "cut_batch H ?ordered now policy e b x periodEnd s = Inl err"
      using assms(6) ends unfolding plan_selected_def Let_def
      by (auto simp: ebind_eq_Inl toISOString_def ebind_eq_Inr prefix_event_def [abs_def] reads_back_def)
    then show ?thesis
    proof cases
      case select
      from select_candidates_Inl [OF this empty_selects empty_not_reached valid]
      have "err = MatchPublisherError publisher_payload_too_large"
        and "\<forall>p. \<not> fits_limits H ?f (bp_maximumPayloadBytes policy) (take 1 ?cs) p"
        by auto
      moreover have "take 1 ?cs = take 1 ?ordered"
        using max by (simp add: min_def) linarith
      ultimately show ?thesis
        using run Inl False by (auto simp: prefix_fits_def fits_limits_def)
    next
      case cut
      from cut(1) obtain n where n: "selects H ?f (bp_maximumPayloadBytes policy) (take n ?cs) s"
        "sl_payloadLimitReached s \<Longrightarrow> take n ?cs \<noteq> []" "\<not> sl_payloadLimitReached s \<Longrightarrow> n = length ?cs"
        by (rule selected_prefix) blast
      have "?cs \<noteq> []"
        using False max length_order_candidates [of H collation cs]
        by (cases ?ordered; cases "nat (bp_maximumResults policy)") auto
      then have "take (length ?cs) ?cs \<noteq> []"
        by (metis take_all order_refl)
      with n(2,3) have "take n ?cs \<noteq> []"
        by metis
      with n(1) have "sl_event s = Some (?f (take n ?cs))"
        and "fits_limits H ?f (bp_maximumPayloadBytes policy) (take n ?cs) (sl_payload s)"
        by (auto simp: selects_def)
      moreover from this(2) text_of [of "?f (take n ?cs)"] have "sl_payload s \<noteq> []"
        by (auto simp: fits_limits_def serialize_event_Inr)
      ultimately show ?thesis
        using cut(2) by (auto simp: cut_batch_def Let_def split: if_splits)
    qed
  next
    case (Inr r)
    with run show ?thesis by simp
  qed
qed

lemma fixture_queue_sound: "sound_queue plan_host 711120500000 [fixture_candidate]"
proof -
  have "valid_match_result plan_host fixture_result"
    by code_simp
  moreover have "date_parse plan_host (cd_completedAt fixture_candidate) = Some 711120342000"
    by code_simp
  ultimately show ?thesis
    by (simp add: sound_queue_def sound_candidate_def candidate_checked_def fixture_candidate_def
        fixture_result_def)
qed

lemma plan_host_reads_back: "reads_back plan_host 711120500000 \<and> reads_back plan_host 711120500001"
proof -
  have "(\<bar>711120500000 :: int\<bar> \<le> 8640000000000000 \<and>
      date_parse plan_host (to_iso_string plan_host 711120500000) = Some 711120500000 \<and>
      zod_datetime plan_host (to_iso_string plan_host 711120500000)) \<and>
    (\<bar>711120500001 :: int\<bar> \<le> 8640000000000000 \<and>
      date_parse plan_host (to_iso_string plan_host 711120500001) = Some 711120500001 \<and>
      zod_datetime plan_host (to_iso_string plan_host 711120500001))"
    by code_simp
  then show ?thesis
    by (simp only: reads_back_def)
qed

lemma plan_refuses_only_size_witness:
  "(\<exists>r. fst (planMatchBatch plan_host (\<lambda>s. s) [fixture_candidate] (Some 711120500000)
      (fixture_batch_policy 60000) ()) = Inr r) \<or>
    fst (planMatchBatch plan_host (\<lambda>s. s) [fixture_candidate] (Some 711120500000)
      (fixture_batch_policy 60000) ()) = Inl (MatchPublisherError publisher_payload_too_large)"
proof -
  have policy: "validatePolicy (fixture_batch_policy 60000) = Inr ()"
    "hiveAccountSchema (bp_publisherAccount (fixture_batch_policy 60000))"
    by code_simp+
  have uuids: "provides_uuids (bp_nextUuidV7 (fixture_batch_policy 60000))"
  proof -
    have "uuidV7Schema ''0190f6d2-7c00-7000-8000-000000000001''"
      by code_simp
    then show ?thesis
      by (simp add: provides_uuids_def fixture_batch_policy_def act_simps)
  qed
  have text_of: "\<exists>c t. canonicalize plan_host (event_json e) = Some (c # t)" for e
    by (cases e) (simp_all add: plan_host_def fixture_host_def del: event_json.simps)
  have "collates_uuids (\<lambda>s. s)"
    by (simp add: collates_uuids_def)
  from plan_refuses_only_size [OF fixture_queue_sound this policy uuids _ _ text_of, of "()"]
    plan_host_reads_back
  show ?thesis by auto
qed

text \<open>
  Planning waits only while nothing forces a batch: everything queued fits one batch with
  room for another result, and the oldest result is younger than the maximum age.
\<close>

theorem plan_waits:
  assumes "planMatchBatch H collation cs (Some now) policy u = (Inr None, u')" and "cs \<noteq> []"
  shows "int (length cs) < bp_maximumResults policy \<and>
    (\<exists>eventId batchId. prefix_fits H (order_candidates H collation cs) now policy eventId batchId (length cs)) \<and>
    (\<forall>c \<in> set cs. now - the (date_parse H (cd_completedAt c)) < bp_maximumAgeMs policy)"
  using assms(1)
proof (cases rule: planMatchBatch_InrE)
  case empty
  with assms(2) show ?thesis by simp
next
  case (planned t eventId batchId outboxId)
  let ?ordered = "order_candidates H collation cs"
  from planned(2,3) have t: "t = now" and m: "1 \<le> bp_maximumResults policy"
    by (auto simp: validatePolicy_def)
  from planned(5) [unfolded t] m obtain s n where
    sel: "selects H (prefix_event H ?ordered now policy eventId batchId)
      (bp_maximumPayloadBytes policy) (take n ?ordered) s" "sl_event s \<noteq> None"
    and n: "n \<le> length ?ordered" "int n \<le> bp_maximumResults policy"
    and stop: "if sl_payloadLimitReached s
      then n < length ?ordered \<and> \<not> prefix_fits H ?ordered now policy eventId batchId (Suc n)
      else n = length ?ordered \<or> int n = bp_maximumResults policy"
    and cut: "if ageLimitReached H ?ordered now policy \<or>
       int (length (sl_selected s)) = bp_maximumResults policy \<or> sl_payloadLimitReached s
     then \<exists>fz'. (None :: frozen_batch option) = Some fz' \<and> frozen_from H ?ordered eventId batchId
       (to_iso_string H (period_end H ?ordered (bp_maximumResults policy) now)) s fz'
     else (None :: frozen_batch option) = None"
    by (rule plan_selected_InrE)
  from cut have young: "\<not> ageLimitReached H ?ordered now policy"
    and count: "int (length (sl_selected s)) \<noteq> bp_maximumResults policy"
    and "\<not> sl_payloadLimitReached s"
    by (auto split: if_splits)
  from sel have sl: "sl_selected s = take n ?ordered" "take n ?ordered \<noteq> []"
    and fit: "fits_limits H (prefix_event H ?ordered now policy eventId batchId)
      (bp_maximumPayloadBytes policy) (take n ?ordered) (sl_payload s)"
    by (auto simp: selects_def split: if_splits)
  have "n = length ?ordered" and less: "int (length cs) < bp_maximumResults policy"
    using stop \<open>\<not> sl_payloadLimitReached s\<close> count sl(1) n by auto
  with fit have "prefix_fits H ?ordered now policy eventId batchId (length cs)"
    by (auto simp: prefix_fits_def fits_limits_def)
  moreover have "now - the (date_parse H (cd_completedAt c)) < bp_maximumAgeMs policy"
    if "c \<in> set cs" for c
  proof -
    have "?ordered \<noteq> []"
      using sl(2) by auto
    then have hd: "hd ?ordered \<in> set ?ordered"
      by (rule hd_in_set)
    have checked: "candidate_checked H now d" if "d \<in> set ?ordered" for d
      using planned(4) that unfolding t by (simp add: assertCandidates_Inr list_all_iff)
    from that have c: "c \<in> set ?ordered" by simp
    have "candidate_key H collation (hd ?ordered) \<le> candidate_key H collation c"
      using sorted_order_candidates [of H collation cs] c
      by (cases ?ordered) auto
    moreover obtain a b where "date_parse H (cd_completedAt (hd ?ordered)) = Some a"
      "date_parse H (cd_completedAt c) = Some b"
      using checked [OF hd] checked [OF c] by (auto simp: candidate_checked_def)
    ultimately show ?thesis
      using young by (auto simp: candidate_key_def ageLimitReached_iff)
  qed
  ultimately show ?thesis
    using less by blast
qed

lemma plan_waits_witness:
  "\<exists>u'. planMatchBatch plan_host (\<lambda>s. s) [fixture_candidate] (Some 711120500000)
     (fixture_batch_policy 900000) () = (Inr None, u') \<and> int (length [fixture_candidate]) < 20"
proof -
  from fixture_wait obtain u' where run: "planMatchBatch plan_host (\<lambda>s. s) [fixture_candidate]
      (Some 711120500000) (fixture_batch_policy 900000) () = (Inr None, u')"
    by (auto split: prod.splits sum.splits option.splits)
  from plan_waits [OF run] have "int (length [fixture_candidate]) < bp_maximumResults (fixture_batch_policy 900000)"
    by blast
  with run show ?thesis
    by (simp add: fixture_batch_policy_def)
qed

end
