(* ===== verification/Publisher_Invariants.thy ===== *)
theory Publisher_Invariants
  imports Publisher_Store Batch_Properties
begin

text \<open>
  What every transaction of the publisher's store keeps: a request is in one batch at most, is
  batched exactly when it is in one, and a frozen batch never changes.
\<close>

section \<open>Transactions\<close>

lemma pub_transaction_unfold:
  "pub_transaction work w =
     (case work (w\<lparr>pu_faults := tl (pu_faults w)\<rparr>) of
        (Inl e, w1) \<Rightarrow> (Inl e, w1\<lparr>pu_db := pu_db w\<rparr>)
      | (Inr u, w1) \<Rightarrow>
          if (\<exists>fs. pu_faults w = Refused # fs) \<or> \<not> item_sets_complete (pu_db w1)
          then (Inl publisher_database_error, w1\<lparr>pu_db := pu_db w\<rparr>)
          else if \<exists>fs. pu_faults w = Reply_Lost # fs then (Inl publisher_database_error, w1)
          else (Inr u, w1))"
  unfolding pub_transaction_def Let_def
  by (cases "pu_faults w") (simp_all split: prod.split sum.split)

lemma pub_transactionE:
  assumes "pub_transaction work w = (r, w')"
  obtains (rolled_back) "pu_db w' = pu_db w" and "\<exists>e. r = Inl e"
    | (committed) x where "work (w\<lparr>pu_faults := tl (pu_faults w)\<rparr>) = (Inr x, w')"
        and "item_sets_complete (pu_db w')"
  using assms unfolding pub_transaction_unfold
  by (auto split: prod.splits sum.splits if_splits)

lemma pub_transaction_InrE:
  assumes "pub_transaction work w = (Inr x, w')"
  obtains "work (w\<lparr>pu_faults := tl (pu_faults w)\<rparr>) = (Inr x, w')"
proof (cases "work (w\<lparr>pu_faults := tl (pu_faults w)\<rparr>)")
  case (Pair y w1)
  with assms have "y = Inr x \<and> w1 = w'"
    by (cases y) (simp_all add: pub_transaction_unfold split: if_splits)
  with Pair that show ?thesis by simp
qed

lemma pub_sql_InrE:
  assumes "pub_sql f w = (Inr x, w')"
  obtains db where "f (pu_db w) = Some db" and "w' = w\<lparr>pu_db := db\<rparr>"
proof (cases "f (pu_db w)")
  case None
  with assms show ?thesis by (simp add: pub_sql_def)
next
  case (Some db)
  with assms have "w' = w\<lparr>pu_db := db\<rparr>" by (simp add: pub_sql_def)
  with Some that show ?thesis by blast
qed

lemma pub_readE:
  assumes "pub_read f w = (Inr x, w')"
  obtains "x = f (pu_db w)" and "w' = w"
proof -
  have "x = f (pu_db w) \<and> w' = w"
    using assms unfolding pub_read_def act_get_def by (simp only: prod.inject sum.inject) blast
  then show ?thesis using that by blast
qed

lemma instant_Inr [simp]: "instant H t = Inr s \<longleftrightarrow> \<bar>t\<bar> \<le> 8640000000000000 \<and> s = t"
  by (auto simp: instant_def ebind_eq_Inr)

text \<open>An action whose normal endings take databases in \<open>R\<close>.\<close>

definition moves :: "(publisher_db \<Rightarrow> publisher_db \<Rightarrow> bool) \<Rightarrow> ('u publisher, 'a) action \<Rightarrow> bool" where
  "moves R m \<longleftrightarrow> (\<forall>w x w'. m w = (Inr x, w') \<longrightarrow> R (pu_db w) (pu_db w'))"

lemma movesI: "(\<And>w x w'. m w = (Inr x, w') \<Longrightarrow> R (pu_db w) (pu_db w')) \<Longrightarrow> moves R m"
  by (simp add: moves_def)

lemma movesD: "moves R m \<Longrightarrow> m w = (Inr x, w') \<Longrightarrow> R (pu_db w) (pu_db w')"
  by (simp add: moves_def)

definition draws_ids :: "'u publisher batch_policy \<Rightarrow> bool" where
  "draws_ids policy \<longleftrightarrow> (\<forall>w r w'. bp_nextUuidV7 policy w = (r, w') \<longrightarrow> pu_db w' = pu_db w)"

lemma next_uuid_db: "draws_ids policy \<Longrightarrow> next_uuid policy w = (r, w') \<Longrightarrow> pu_db w' = pu_db w"
  unfolding draws_ids_def next_uuid_def by (auto elim!: act_bindE simp: act_run)

lemma plan_db:
  assumes "draws_ids policy" and "planMatchBatch H collation cs now policy w = (r, w')"
  shows "pu_db w' = pu_db w"
proof -
  have "preserves (\<lambda>v. pu_db v = pu_db w) (next_uuid policy)"
    using next_uuid_db [OF assms(1)] by (auto intro!: preservesI)
  then have "preserves (\<lambda>v. pu_db v = pu_db w) (planMatchBatch H collation cs now policy)"
    unfolding planMatchBatch_def Let_def by (intro act_rules)
  from preservesD [OF this _ assms(2)] show ?thesis by simp
qed

section \<open>Batches\<close>

definition in_batch :: "publisher_db \<Rightarrow> request_row \<Rightarrow> bool" where
  "in_batch db q \<longleftrightarrow> (\<exists>i \<in> set (pb_items db). pi_request_id i = pr_id q)"

definition is_batched :: "request_row \<Rightarrow> bool" where
  "is_batched q \<longleftrightarrow> pr_state q = Request_Batched \<or> pr_state q = Request_Published"

definition rows_ok :: "publisher_db \<Rightarrow> bool" where
  "rows_ok db \<longleftrightarrow>
     distinct (map pr_id (pb_requests db)) \<and> distinct (map ob_id (pb_outbox db)) \<and>
     distinct (map pi_request_id (pb_items db)) \<and>
     (\<forall>i \<in> set (pb_items db). \<exists>q \<in> set (pb_requests db). pr_id q = pi_request_id i) \<and>
     (\<forall>i \<in> set (pb_items db). \<exists>r \<in> set (pb_outbox db). ob_id r = pi_outbox_id i) \<and>
     (\<forall>q \<in> set (pb_requests db). is_batched q \<longleftrightarrow> in_batch db q)"

definition batches_ok :: "publisher_db \<Rightarrow> bool" where
  "batches_ok db \<longleftrightarrow> rows_ok db \<and> item_sets_complete db"

text \<open>What of an outbox row is frozen with it.\<close>

definition frozen_part ::
  "outbox_row \<Rightarrow> string \<times> string \<times> string option \<times> string \<times> string \<times> nat" where
  "frozen_part r = (ob_id r, ob_event_uuid r, ob_batch_uuid r, ob_canonical_payload r,
     ob_payload_sha256 r, ob_result_count r)"

definition keeps_frozen :: "publisher_db \<Rightarrow> publisher_db \<Rightarrow> bool" where
  "keeps_frozen db db' \<longleftrightarrow>
     (\<exists>rows. map frozen_part (pb_outbox db') = map frozen_part (pb_outbox db) @ rows) \<and>
     (\<exists>items. pb_items db' = pb_items db @ items \<and>
        (\<forall>i \<in> set items. \<forall>r \<in> set (pb_outbox db). pi_outbox_id i \<noteq> ob_id r))"

text \<open>A transaction's work keeps the rows in order, and the batches that were there.\<close>

definition sound_move :: "publisher_db \<Rightarrow> publisher_db \<Rightarrow> bool" where
  "sound_move db db' \<longleftrightarrow> (rows_ok db \<longrightarrow> rows_ok db' \<and> keeps_frozen db db')"

lemma keeps_frozen_refl: "keeps_frozen db db"
  by (simp add: keeps_frozen_def)

lemma frozen_part_id: "map frozen_part rs' = map frozen_part rs @ xs \<Longrightarrow>
    r \<in> set rs \<Longrightarrow> \<exists>r' \<in> set rs'. ob_id r' = ob_id r"
proof -
  assume "map frozen_part rs' = map frozen_part rs @ xs" "r \<in> set rs"
  then have "frozen_part r \<in> set (map frozen_part rs')"
    by simp
  then show ?thesis
    by (auto simp: frozen_part_def)
qed

lemma keeps_frozen_trans:
  assumes "keeps_frozen a b" and "keeps_frozen b c"
  shows "keeps_frozen a c"
proof -
  from assms obtain rows rows' items items'
    where r: "map frozen_part (pb_outbox b) = map frozen_part (pb_outbox a) @ rows"
      and r': "map frozen_part (pb_outbox c) = map frozen_part (pb_outbox b) @ rows'"
      and i: "pb_items b = pb_items a @ items" "pb_items c = pb_items b @ items'"
      and away: "\<forall>i \<in> set items. \<forall>r \<in> set (pb_outbox a). pi_outbox_id i \<noteq> ob_id r"
        "\<forall>i \<in> set items'. \<forall>r \<in> set (pb_outbox b). pi_outbox_id i \<noteq> ob_id r"
    unfolding keeps_frozen_def by blast
  have "\<forall>i \<in> set items'. \<forall>r \<in> set (pb_outbox a). pi_outbox_id i \<noteq> ob_id r"
    using away(2) frozen_part_id [OF r] by metis
  with r r' i away(1) show ?thesis
    unfolding keeps_frozen_def by auto
qed

section \<open>Moves that touch no batch\<close>

text \<open>Changes of the outbox that keep what is frozen, and of the requests that keep their ids and
  whether they are batched.\<close>

definition same_batches :: "publisher_db \<Rightarrow> publisher_db \<Rightarrow> bool" where
  "same_batches db db' \<longleftrightarrow>
     map frozen_part (pb_outbox db') = map frozen_part (pb_outbox db) \<and>
     pb_items db' = pb_items db \<and>
     map (\<lambda>q. (pr_id q, is_batched q)) (pb_requests db') =
       map (\<lambda>q. (pr_id q, is_batched q)) (pb_requests db)"

lemma map_frozen_ids:
  assumes "map frozen_part rs' = map frozen_part rs"
  shows "map ob_id rs' = map ob_id rs"
proof -
  have "map ob_id rs = map fst (map frozen_part rs)" for rs
    by (simp add: frozen_part_def)
  with assms show ?thesis by metis
qed

lemma same_batches_sound:
  assumes "same_batches db db'"
  shows "sound_move db db'"
proof -
  from assms have obs: "map frozen_part (pb_outbox db') = map frozen_part (pb_outbox db)"
    and items: "pb_items db' = pb_items db"
    and reqs: "map (\<lambda>q. (pr_id q, is_batched q)) (pb_requests db') =
       map (\<lambda>q. (pr_id q, is_batched q)) (pb_requests db)"
    by (simp_all add: same_batches_def)
  have ids: "map ob_id (pb_outbox db') = map ob_id (pb_outbox db)"
    by (rule map_frozen_ids [OF obs])
  have pr: "map pr_id (pb_requests db') = map pr_id (pb_requests db)"
    using arg_cong [OF reqs, of "map fst"] by (simp add: comp_def)
  have origin: "\<exists>q \<in> set (pb_requests db). pr_id q = pr_id q' \<and> is_batched q = is_batched q'"
    if "q' \<in> set (pb_requests db')" for q'
  proof -
    from that have "(pr_id q', is_batched q') \<in>
        set (map (\<lambda>q. (pr_id q, is_batched q)) (pb_requests db'))"
      by auto
    then show ?thesis
      unfolding reqs by auto
  qed
  have sets: "ob_id ` set (pb_outbox db') = ob_id ` set (pb_outbox db)"
    "pr_id ` set (pb_requests db') = pr_id ` set (pb_requests db)"
    using ids pr by (metis list.set_map)+
  have "rows_ok db'" if ok: "rows_ok db"
    unfolding rows_ok_def
  proof (intro conjI ballI)
    show "distinct (map pr_id (pb_requests db'))" "distinct (map ob_id (pb_outbox db'))"
      "distinct (map pi_request_id (pb_items db'))"
      using ok pr ids items by (simp_all add: rows_ok_def)
    show "\<exists>q \<in> set (pb_requests db'). pr_id q = pi_request_id i" if "i \<in> set (pb_items db')" for i
    proof -
      from ok that obtain q where "q \<in> set (pb_requests db)" "pr_id q = pi_request_id i"
        unfolding rows_ok_def items by blast
      then have "pi_request_id i \<in> pr_id ` set (pb_requests db)"
        by (metis imageI)
      then show ?thesis unfolding sets(2) [symmetric] by auto
    qed
    show "\<exists>r \<in> set (pb_outbox db'). ob_id r = pi_outbox_id i" if "i \<in> set (pb_items db')" for i
    proof -
      from ok that obtain r where "r \<in> set (pb_outbox db)" "ob_id r = pi_outbox_id i"
        unfolding rows_ok_def items by blast
      then have "pi_outbox_id i \<in> ob_id ` set (pb_outbox db)"
        by (metis imageI)
      then show ?thesis unfolding sets(1) [symmetric] by auto
    qed
    show "is_batched q = in_batch db' q" if "q \<in> set (pb_requests db')" for q
      using ok origin [OF that] by (auto simp: rows_ok_def in_batch_def items)
  qed
  then show ?thesis
    by (auto simp: sound_move_def keeps_frozen_def obs items)
qed

lemma sound_refl: "sound_move db db"
  by (simp add: sound_move_def keeps_frozen_refl)

lemma sound_trans: "sound_move a b \<Longrightarrow> sound_move b c \<Longrightarrow> sound_move a c"
  unfolding sound_move_def by (meson keeps_frozen_trans)

lemma moves_bind:
  assumes "moves sound_move m" and "\<And>x. moves sound_move (f x)"
  shows "moves sound_move (act_bind m f)"
proof (rule movesI)
  fix w y w''
  assume "act_bind m f w = (Inr y, w'')"
  then obtain x w' where "m w = (Inr x, w')" "f x w' = (Inr y, w'')"
    by (rule act_bind_InrE)
  with assms show "sound_move (pu_db w) (pu_db w'')"
    by (meson movesD sound_trans)
qed

lemma moves_basic:
  "moves sound_move (act_ok x)" "moves sound_move (act_lift r)" "moves sound_move (act_ensure b e)"
  "moves sound_move (pub_read f)"
  by (auto simp: moves_def act_run pub_read_def sound_refl split: if_splits)

lemma moves_sql:
  assumes "\<And>db db'. f db = Some db' \<Longrightarrow> sound_move db db'"
  shows "moves sound_move (pub_sql f)"
proof (rule movesI)
  fix w x and w' :: "'a publisher"
  assume "pub_sql f w = (Inr x, w')"
  then obtain db where "f (pu_db w) = Some db" "w' = w\<lparr>pu_db := db\<rparr>"
    by (rule pub_sql_InrE)
  with assms show "sound_move (pu_db w) (pu_db w')" by simp
qed

lemma update_outbox_sound:
  assumes "update_outbox P f db = Some db'" and "\<And>r. frozen_part (f r) = frozen_part r"
  shows "sound_move db db'"
proof (rule same_batches_sound)
  have "db' = db\<lparr>pb_outbox := map (\<lambda>r. if P r then f r else r) (pb_outbox db)\<rparr>"
    using assms(1) by (simp add: update_outbox_def split: if_splits)
  with assms(2) show "same_batches db db'"
    by (simp add: same_batches_def)
qed

lemma update_intents_sound: "update_intents P f db = Some db' \<Longrightarrow> sound_move db db'"
  by (rule same_batches_sound) (auto simp: update_intents_def same_batches_def)

lemma insert_intent_sound: "insert_intent rec db = Some db' \<Longrightarrow> sound_move db db'"
  by (rule same_batches_sound) (auto simp: insert_intent_def same_batches_def Let_def split: if_splits)

lemma claim_sound: "moves sound_move (claim_work P now leaseUntil)"
proof -
  have "moves sound_move (case rows of [] \<Rightarrow> act_ok None
     | row # x \<Rightarrow> act_bind (pub_sql (update_outbox (\<lambda>r. ob_id r = ob_id row) (claimed at lease))) (\<lambda>_.
         act_lift (ebind (outboxAttemptFromRow (px_host P) (claimed at lease row)) (\<lambda>a. Inr (Some a)))))"
    for rows at lease
    by (cases rows) (auto intro!: moves_bind moves_basic moves_sql
        elim!: update_outbox_sound simp: frozen_part_def claimed_def)
  then show ?thesis
    unfolding claim_work_def by (intro moves_bind moves_basic)
qed

lemma broadcast_sound:
  "moves sound_move (act_bind (act_lift (instant H broadcastAt)) (\<lambda>at.
     act_bind (pub_sql (update_outbox (\<lambda>r. ob_id r = outboxId)
       (\<lambda>r. r\<lparr>ob_state := Outbox_Broadcast, ob_hive_transaction_id := Some transactionId,
         ob_next_retry_at := None, ob_last_failure_code := None\<rparr>))) (\<lambda>_.
     pub_sql (update_intents P f))))"
  by (intro moves_bind moves_basic moves_sql)
    (auto elim!: update_outbox_sound update_intents_sound simp: frozen_part_def)

lemma failure_sound:
  "moves sound_move (act_bind (act_lift (instant H retryAt)) (\<lambda>at.
     act_bind (pub_sql (update_outbox (\<lambda>r. ob_id r = outboxId)
       (\<lambda>r. r\<lparr>ob_state := Outbox_Retryable,
         ob_hive_transaction_id := coalesce transactionId (ob_hive_transaction_id r),
         ob_next_retry_at := Some at, ob_last_failure_code := Some code\<rparr>))) (\<lambda>_.
     case signingAttemptId of None \<Rightarrow> act_ok () | Some i \<Rightarrow> pub_sql (update_intents (P i) f))))"
  by (cases signingAttemptId; simp only: option.case; intro moves_bind moves_basic moves_sql)
    (auto elim!: update_outbox_sound update_intents_sound simp: frozen_part_def)

text \<open>The requests that are published are in a batch.\<close>

lemma settled_batched:
  assumes "rows_ok db" and "q \<in> set (pb_requests db)" and "is_settled db now q"
  shows "is_batched q"
  using assms unfolding rows_ok_def in_batch_def is_settled_def list_ex_iff by blast

lemma follow_frozen [simp]: "frozen_part (follow db now r) = frozen_part r"
  by (simp add: follow_def follow_event_def frozen_part_def split: option.split)

lemma reconcile_sound:
  assumes "reconcile_statement now db = Some db'"
  shows "sound_move db db'"
proof -
  from assms have db': "db' = update_requests (is_settled db now)
      (\<lambda>q. q\<lparr>pr_state := Request_Published, pr_published_at := Some now\<rparr>)
      (db\<lparr>pb_outbox := map (\<lambda>r. if newer_event db r \<noteq> None then follow db now r else r) (pb_outbox db)\<rparr>)"
    by (auto simp: reconcile_statement_def update_outbox_def split: if_splits)
  have "sound_move db db'" if "rows_ok db"
    by (rule same_batches_sound)
      (use settled_batched [OF that] in
        \<open>auto simp: db' same_batches_def update_requests_def is_batched_def\<close>)
  then show ?thesis
    by (simp add: sound_move_def)
qed

section \<open>Freezing\<close>

lemma candidate_request:
  assumes "c \<in> set (candidate_rows T db now limit)"
  obtains q where "q \<in> set (pb_requests db)" and "pr_id q = cw_publication_request_id c"
    and "\<not> is_batched q"
proof -
  from assms obtain q r v m a t where "(q, r) \<in> set (selected_requests T db now limit)"
    and "c = candidate_row_of T q r v m a t"
    by (auto simp: candidate_rows_def)
  then have "q \<in> set (pb_requests db)" "is_publishable now q"
    "pr_id q = cw_publication_request_id c"
    by (auto simp: selected_requests_def candidate_row_of_def dest!: in_set_takeD split: if_splits)
  with that show ?thesis
    by (auto simp: is_publishable_def is_batched_def)
qed

lemma read_candidates_Inl:
  "read_candidates H rows = Inl (row, e) \<Longrightarrow> row \<in> set rows"
  by (induction rows) (auto split: sum.splits)

lemma candidateFromRow_request:
  "candidateFromRow H row = Inr c \<Longrightarrow> cd_publicationRequestId c = cw_publication_request_id row"
  by (auto simp: candidateFromRow_def ebind_eq_Inr)

lemma read_candidates_Inr:
  assumes "read_candidates H rows = Inr cs" and "c \<in> set cs"
  shows "\<exists>row \<in> set rows. cd_publicationRequestId c = cw_publication_request_id row"
  using assms
proof (induction rows arbitrary: cs)
  case (Cons row rows)
  then show ?case
    by (auto split: sum.splits dest: candidateFromRow_request)
qed simp

lemma defer_sound:
  assumes "deferInvalidRequest H i now e w = (Inr u, w')" and "rows_ok (pu_db w)"
    and "q \<in> set (pb_requests (pu_db w))" and "pr_id q = i" and "\<not> is_batched q"
  shows "same_batches (pu_db w) (pu_db w')"
proof -
  from assms(1) obtain f where
    db: "pu_db w' = update_requests (\<lambda>q. pr_id q = i) f (pu_db w)"
    and f: "\<And>q. pr_id (f q) = pr_id q \<and> \<not> is_batched (f q)"
    unfolding deferInvalidRequest_def Let_def
    by (elim act_bind_InrE pub_sql_InrE) (auto simp: act_run is_batched_def)
  have "q' = q" if "q' \<in> set (pb_requests (pu_db w))" "pr_id q' = i" for q'
    using that assms(2-4) by (auto simp: rows_ok_def distinct_map dest: inj_onD)
  with assms(5) f show ?thesis
    by (auto simp: db same_batches_def update_requests_def)
qed

lemma freeze_items:
  assumes "act_each (freeze_item policy outboxId) xs w = (Inr u, w')" and "draws_ids policy"
    and "distinct (map pi_request_id (pb_items (pu_db w)))"
  shows "\<exists>new. pu_db w' = (pu_db w)\<lparr>pb_items := pb_items (pu_db w) @ new\<rparr> \<and>
    map pi_request_id new = map (\<lambda>(n, c). cd_publicationRequestId c) xs \<and>
    (\<forall>i \<in> set new. pi_outbox_id i = outboxId \<and>
       (\<exists>q \<in> set (pb_requests (pu_db w)). pr_id q = pi_request_id i)) \<and>
    distinct (map pi_request_id (pb_items (pu_db w) @ new))"
  using assms
proof (induction xs arbitrary: w)
  case Nil
  then show ?case by (intro exI [of _ "[]"]) (simp add: act_run)
next
  case (Cons x xs)
  obtain n c where x: "x = (n, c)" by (cases x)
  from Cons.prems(1) obtain w1 where one: "freeze_item policy outboxId x w = (Inr (), w1)"
    and rest: "act_each (freeze_item policy outboxId) xs w1 = (Inr u, w')"
    by (auto elim!: act_bind_InrE)
  from one obtain i w0 where id: "next_uuid policy w = (Inr i, w0)"
    and ins: "pub_sql (insert_item \<lparr>pi_id = i, pi_outbox_id = outboxId,
       pi_request_id = cd_publicationRequestId c, pi_round_id = cd_roundId c,
       pi_revision_id = cd_resultRevisionId c, pi_position = n\<rparr>) w0 = (Inr (), w1)"
    unfolding freeze_item_def x by (auto elim!: act_bind_InrE)
  let ?i = "\<lparr>pi_id = i, pi_outbox_id = outboxId, pi_request_id = cd_publicationRequestId c,
    pi_round_id = cd_roundId c, pi_revision_id = cd_resultRevisionId c, pi_position = n\<rparr>"
  have "pu_db w0 = pu_db w"
    by (rule next_uuid_db [OF Cons.prems(2) id])
  with ins have able: "item_insertable (pu_db w) ?i"
    and w1: "pu_db w1 = (pu_db w)\<lparr>pb_items := pb_items (pu_db w) @ [?i]\<rparr>"
    by (auto elim!: pub_sql_InrE simp: insert_item_def split: if_splits)
  have d: "distinct (map pi_request_id (pb_items (pu_db w1)))"
    using able Cons.prems(3) by (auto simp: w1 item_insertable_def list_all_iff)
  from Cons.IH [OF rest Cons.prems(2) d] obtain new where
    new: "pu_db w' = (pu_db w1)\<lparr>pb_items := pb_items (pu_db w1) @ new\<rparr>"
      "map pi_request_id new = map (\<lambda>(n, c). cd_publicationRequestId c) xs"
      "\<forall>i \<in> set new. pi_outbox_id i = outboxId \<and>
         (\<exists>q \<in> set (pb_requests (pu_db w1)). pr_id q = pi_request_id i)"
      "distinct (map pi_request_id (pb_items (pu_db w1) @ new))"
    by blast
  have "\<exists>q \<in> set (pb_requests (pu_db w)). pr_id q = pi_request_id ?i"
    using able by (auto simp: item_insertable_def list_ex_iff)
  with new show ?case
    by (intro exI [of _ "?i # new"]) (simp add: w1 x)
qed

text \<open>A count that matches means that every id of the batch is a waiting request.\<close>

lemma counted_ids:
  assumes "length (filter (is_waiting ids) requests) = length ids" and "distinct ids"
    and "distinct (map pr_id requests)" and "i \<in> set ids"
  obtains q where "q \<in> set requests" and "is_waiting ids q" and "pr_id q = i"
proof -
  let ?found = "pr_id ` set (filter (is_waiting ids) requests)"
  have "distinct (map pr_id (filter (is_waiting ids) requests))"
    by (simp add: assms(3) distinct_map_filter)
  then have "card ?found = card (set ids)"
    using assms(1,2) by (metis distinct_card length_map list.set_map)
  moreover have "?found \<subseteq> set ids"
    by (auto simp: is_waiting_def)
  ultimately have "?found = set ids"
    by (intro card_subset_eq) simp_all
  then obtain q where "q \<in> set (filter (is_waiting ids) requests)" "pr_id q = i"
    using assms(4) by (metis imageE)
  with that [of q] show ?thesis by simp
qed

lemma map_enumerate: "map (\<lambda>(n, x). f x) (List.enumerate k xs) = map f xs"
  by (induction xs arbitrary: k) simp_all

text \<open>A batch as it is stored: a queued row, its items, and their requests, now batched.\<close>

definition batch_request :: "request_row \<Rightarrow> request_row" where
  "batch_request q = q\<lparr>pr_state := Request_Batched, pr_last_failure_code := None,
     pr_next_retry_at := None\<rparr>"

definition stores_batch ::
  "string list \<Rightarrow> item_row list \<Rightarrow> outbox_row \<Rightarrow> publisher_db \<Rightarrow> publisher_db \<Rightarrow> bool" where
  "stores_batch ids new row db db' \<longleftrightarrow>
     pb_requests db' = map (\<lambda>q. if is_waiting ids q then batch_request q else q) (pb_requests db) \<and>
     pb_outbox db' = pb_outbox db @ [row] \<and> pb_items db' = pb_items db @ new \<and>
     pb_events db' = pb_events db \<and> ob_state row = Outbox_Queued \<and> (\<forall>r \<in> set (pb_outbox db). ob_id r \<noteq> ob_id row) \<and>
     distinct (map pi_request_id (pb_items db @ new)) \<and> map pi_request_id new = ids \<and>
     (\<forall>i \<in> set new. pi_outbox_id i = ob_id row) \<and>
     (\<forall>i \<in> set new. \<exists>q \<in> set (pb_requests db). pr_id q = pi_request_id i) \<and>
     (\<forall>q \<in> set (pb_requests db). pr_id q \<in> set ids \<longrightarrow> is_waiting ids q)"

lemma batch_request_simps [simp]:
  "pr_id (batch_request q) = pr_id q" "pr_state (batch_request q) = Request_Batched"
  by (simp_all add: batch_request_def)

lemma store_frozen_stores:
  assumes "store_frozen H now policy frozen w = (Inr u, w')" and "draws_ids policy"
    and ok: "rows_ok (pu_db w)"
  obtains new where "stores_batch (map cd_publicationRequestId (fz_candidates frozen)) new
    (outbox_row_of (pu_db w) (bp_publisherAccount policy) frozen) (pu_db w) (pu_db w')"
proof -
  let ?db = "pu_db w"
  let ?ids = "map cd_publicationRequestId (fz_candidates frozen)"
  let ?row = "outbox_row_of ?db (bp_publisherAccount policy) frozen"
  from assms(1) obtain w1 w2 where
    ins: "pub_sql (insert_outbox H (bp_publisherAccount policy) frozen) w = (Inr (), w1)"
    and items: "act_each (freeze_item policy (fz_outboxId frozen)) (List.enumerate 0 (fz_candidates frozen))
      w1 = (Inr (), w2)"
    and count: "length (filter (is_waiting ?ids) (pb_requests (pu_db w2))) = length ?ids"
    and upd: "pub_sql (\<lambda>db. Some (update_requests (is_waiting ?ids) batch_request db)) w2 = (Inr (), w')"
    unfolding store_frozen_def Let_def batch_request_def [abs_def]
    by (elim act_bind_InrE pub_readE) (auto simp: act_run split: if_splits)
  from upd have db': "pu_db w' = update_requests (is_waiting ?ids) batch_request (pu_db w2)"
    by (auto elim!: pub_sql_InrE)
  from ins have able: "outbox_insertable H ?db ?row"
    and db1: "pu_db w1 = ?db\<lparr>pb_outbox := pb_outbox ?db @ [?row]\<rparr>"
    by (auto elim!: pub_sql_InrE simp: insert_outbox_def Let_def split: if_splits)
  have "distinct (map pi_request_id (pb_items (pu_db w1)))"
    using ok by (simp add: db1 rows_ok_def)
  moreover have w1: "pb_items (pu_db w1) = pb_items ?db" "pb_requests (pu_db w1) = pb_requests ?db"
    by (simp_all add: db1)
  ultimately obtain new where
    db2: "pu_db w2 = (pu_db w1)\<lparr>pb_items := pb_items ?db @ new\<rparr>"
    and "map pi_request_id new =
      map (\<lambda>(n, c). cd_publicationRequestId c) (List.enumerate 0 (fz_candidates frozen))"
    and new: "\<forall>i \<in> set new. pi_outbox_id i = fz_outboxId frozen \<and>
      (\<exists>q \<in> set (pb_requests ?db). pr_id q = pi_request_id i)"
    and d: "distinct (map pi_request_id (pb_items ?db @ new))"
    using freeze_items [OF items assms(2)] unfolding w1 by blast
  then have ids: "map pi_request_id new = ?ids"
    by (simp add: map_enumerate)
  have "is_waiting ?ids q" if q: "q \<in> set (pb_requests ?db)" "pr_id q \<in> set ?ids" for q
  proof -
    have "distinct ?ids"
      using d unfolding ids [symmetric] by simp
    with count ok q(2) obtain p where "p \<in> set (pb_requests ?db)" "is_waiting ?ids p" "pr_id p = pr_id q"
      using counted_ids [of ?ids "pb_requests ?db" "pr_id q"] by (auto simp: db2 db1 rows_ok_def)
    moreover from this q(1) ok have "p = q"
      by (auto simp: rows_ok_def distinct_map dest: inj_onD)
    ultimately show ?thesis by simp
  qed
  then have "stores_batch ?ids new ?row ?db (pu_db w')"
    using able new d ids
    by (auto simp: stores_batch_def db' db2 db1 update_requests_def outbox_insertable_def
        list_all_iff outbox_row_of_def)
  then show thesis by (rule that)
qed

lemma stores_batch_sound:
  assumes "stores_batch ids new row db db'" and ok: "rows_ok db"
  shows "rows_ok db' \<and> keeps_frozen db db'"
proof -
  from assms(1) have db': "pb_outbox db' = pb_outbox db @ [row]" "pb_items db' = pb_items db @ new"
      "pb_requests db' = map (\<lambda>q. if is_waiting ids q then batch_request q else q) (pb_requests db)"
    and fresh: "\<And>r. r \<in> set (pb_outbox db) \<Longrightarrow> ob_id r \<noteq> ob_id row"
    and d: "distinct (map pi_request_id (pb_items db @ new))"
    and ids: "map pi_request_id new = ids"
    and new: "\<And>i. i \<in> set new \<Longrightarrow> pi_outbox_id i = ob_id row"
    and known: "\<And>i. i \<in> set new \<Longrightarrow> \<exists>q \<in> set (pb_requests db). pr_id q = pi_request_id i"
    and waiting: "\<And>q. q \<in> set (pb_requests db) \<Longrightarrow> pr_id q \<in> set ids \<Longrightarrow> is_waiting ids q"
    by (auto simp: stores_batch_def)
  have "keeps_frozen db db'"
    unfolding keeps_frozen_def db' using new fresh by fastforce
  moreover have "rows_ok db'"
    unfolding rows_ok_def
  proof (intro conjI ballI)
    have pr: "map pr_id (pb_requests db') = map pr_id (pb_requests db)"
      by (simp add: db')
    then have prs: "pr_id ` set (pb_requests db') = pr_id ` set (pb_requests db)"
      by (metis list.set_map)
    show "distinct (map pr_id (pb_requests db'))"
      using ok unfolding pr by (simp add: rows_ok_def)
    show "distinct (map ob_id (pb_outbox db'))"
      using ok by (auto simp: db' rows_ok_def dest: fresh)
    show "distinct (map pi_request_id (pb_items db'))"
      using d by (simp add: db')
    show "\<exists>r \<in> set (pb_outbox db'). ob_id r = pi_outbox_id i" if "i \<in> set (pb_items db')" for i
      using ok that new [of i] unfolding rows_ok_def db' by auto
    show "\<exists>q \<in> set (pb_requests db'). pr_id q = pi_request_id i" if "i \<in> set (pb_items db')" for i
    proof -
      from that have "i \<in> set (pb_items db) \<or> i \<in> set new" by (simp add: db')
      then have "\<exists>q \<in> set (pb_requests db). pr_id q = pi_request_id i"
        using ok known by (auto simp: rows_ok_def)
      then have "pi_request_id i \<in> pr_id ` set (pb_requests db)" by force
      then show ?thesis unfolding prs [symmetric] by force
    qed
    show "is_batched q' = in_batch db' q'" if "q' \<in> set (pb_requests db')" for q'
    proof -
      from that obtain q where q: "q \<in> set (pb_requests db)"
        and q': "q' = (if is_waiting ids q then batch_request q else q)"
        by (auto simp: db')
      have old: "is_batched q = in_batch db q"
        using ok q by (auto simp: rows_ok_def)
      have "in_batch db' q' \<longleftrightarrow> in_batch db q \<or> pr_id q \<in> set ids"
        unfolding ids [symmetric] by (auto simp: in_batch_def db' q' intro: rev_image_eqI)
      with waiting [OF q] old show ?thesis
        by (auto simp: q' is_batched_def is_waiting_def)
    qed
  qed
  ultimately show ?thesis by blast
qed

lemma store_frozen_sound:
  assumes "store_frozen H now policy frozen w = (Inr u, w')" and "draws_ids policy"
    and "rows_ok (pu_db w)"
  shows "rows_ok (pu_db w') \<and> keeps_frozen (pu_db w) (pu_db w')"
  by (rule store_frozen_stores [OF assms]) (rule stores_batch_sound [OF _ assms(3)])

text \<open>
  A freeze leaves the rows alone, or defers a request that is in no batch, or stores a batch.
\<close>

lemma freeze_workE:
  assumes "freeze_work P now policy w = (Inr y, w')" and "draws_ids policy"
  obtains (nothing) "pu_db w' = pu_db w"
    | (defers) q e x w1 where "pu_db w1 = pu_db w" and "q \<in> set (pb_requests (pu_db w))"
        and "\<not> is_batched q" and "deferInvalidRequest (px_host P) (pr_id q) now e w1 = (Inr x, w')"
    | (freezes) frozen x w1 where "pu_db w1 = pu_db w"
        and "store_frozen (px_host P) now policy frozen w1 = (Inr x, w')"
proof -
  let ?H = "px_host P"
  let ?rows = "candidate_rows (px_tables P) (pu_db w) now (nat (bp_maximumResults policy + 1))"
  have deferred: thesis
    if d: "deferInvalidRequest ?H (cw_publication_request_id row) now e u = (Inr x, w')"
      and row: "row \<in> set ?rows" and u: "pu_db u = pu_db w" for row e u x
  proof -
    obtain q where q: "q \<in> set (pb_requests (pu_db w))"
      "pr_id q = cw_publication_request_id row" "\<not> is_batched q"
      by (rule candidate_request [OF row])
    from defers [OF u q(1,3) d [folded q(2)]] show thesis .
  qed
  from assms(1) have run: "(case read_candidates ?H ?rows of
      Inl (row, error) \<Rightarrow>
        act_bind (deferInvalidRequest ?H (cw_publication_request_id row) now error) (\<lambda>_.
        act_ok (Inl error))
    | Inr candidates \<Rightarrow>
        act_bind (\<lambda>w. case planMatchBatch ?H (px_collation P) candidates (Some now) policy w of
            (r, w') \<Rightarrow> (Inr r, w')) (\<lambda>planned.
        case planned of
          Inl error \<Rightarrow>
            (case candidates of
               [] \<Rightarrow> act_ok (Inl error)
             | first # _ \<Rightarrow>
                 act_bind (deferInvalidRequest ?H (cd_publicationRequestId first) now error) (\<lambda>_.
                 act_ok (Inl error)))
        | Inr None \<Rightarrow> act_ok (Inr None)
        | Inr (Some frozen) \<Rightarrow>
            act_bind (store_frozen ?H now policy frozen) (\<lambda>_. act_ok (Inr (Some frozen))))) w =
      (Inr y, w')"
    unfolding freeze_work_def Let_def
    by (elim act_bind_InrE pub_readE) (simp add: act_run)
  show thesis
  proof (cases "read_candidates ?H ?rows")
    case (Inl re)
    obtain row e where re: "re = (row, e)" by (cases re)
    from run Inl re obtain x where "deferInvalidRequest ?H (cw_publication_request_id row) now e w =
        (Inr x, w')"
      by (auto simp: act_run elim!: act_bind_InrE)
    from deferred [OF this] read_candidates_Inl Inl re show thesis by blast
  next
    case (Inr cs)
    obtain r w1 where plan: "planMatchBatch ?H (px_collation P) cs (Some now) policy w = (r, w1)"
      by (cases "planMatchBatch ?H (px_collation P) cs (Some now) policy w")
    note w1 = plan_db [OF assms(2) plan]
    have p: "act_bind (\<lambda>w. case planMatchBatch ?H (px_collation P) cs (Some now) policy w of
        (r, w') \<Rightarrow> (Inr r, w')) f w = f r w1" for f :: "_ \<Rightarrow> ('a publisher, 'b) action"
      by (simp add: act_bind_def plan)
    have planned: "(case r of
          Inl error \<Rightarrow>
            (case cs of
               [] \<Rightarrow> act_ok (Inl error)
             | first # _ \<Rightarrow>
                 act_bind (deferInvalidRequest ?H (cd_publicationRequestId first) now error) (\<lambda>_.
                 act_ok (Inl error)))
        | Inr None \<Rightarrow> act_ok (Inr None)
        | Inr (Some frozen) \<Rightarrow>
            act_bind (store_frozen ?H now policy frozen) (\<lambda>_. act_ok (Inr (Some frozen)))) w1 =
      (Inr y, w')"
      using run unfolding Inr sum.case p .
    consider e c rest where "r = Inl e" "cs = c # rest" | e where "r = Inl e" "cs = []"
      | "r = Inr None" | frozen where "r = Inr (Some frozen)"
      by (cases r; cases cs) (auto intro: option.exhaust)
    then show thesis
    proof cases
      case (1 e c rest)
      with planned obtain x where
        d: "deferInvalidRequest ?H (cd_publicationRequestId c) now e w1 = (Inr x, w')"
        by (auto simp: act_run elim!: act_bind_InrE)
      from read_candidates_Inr [OF Inr] 1 obtain row where row: "row \<in> set ?rows"
        and id: "cd_publicationRequestId c = cw_publication_request_id row"
        by auto
      from deferred [OF d [unfolded id] row w1] show thesis .
    next
      case (4 frozen)
      with planned obtain x where "store_frozen ?H now policy frozen w1 = (Inr x, w')"
        by (auto simp: act_run elim!: act_bind_InrE)
      from freezes [OF w1 this] show thesis .
    next
      case (2 e)
      with planned have "w' = w1" by (simp add: act_run)
      from w1 [folded this] show thesis by (rule nothing)
    next
      case 3
      with planned have "w' = w1" by (simp add: act_run)
      from w1 [folded this] show thesis by (rule nothing)
    qed
  qed
qed

lemma freeze_sound:
  assumes "freeze_work P now policy w = (Inr y, w')" and "draws_ids policy"
  shows "sound_move (pu_db w) (pu_db w')"
  using assms
proof (cases rule: freeze_workE)
  case (defers q e x w1)
  have "sound_move (pu_db w) (pu_db w')" if "rows_ok (pu_db w)"
    using defer_sound [OF defers(4)] defers(1-3) that same_batches_sound by simp
  then show ?thesis by (simp add: sound_move_def)
next
  case (freezes frozen x w1)
  with store_frozen_sound [OF freezes(2) assms(2)] show ?thesis by (simp add: sound_move_def)
qed (simp add: sound_refl)

end
