(* ===== verification/Publisher_Steps.thy ===== *)
theory Publisher_Steps
  imports Publisher_Invariants
begin

text \<open>
  The publisher's database as a transition system: the operations of its store, whatever the
  worker asks and however their transactions end, and what the rest of the system does to the
  same tables between them.
\<close>

inductive publisher_step :: "publisher_options \<Rightarrow> 'u publisher \<Rightarrow> 'u publisher \<Rightarrow> bool"
  for P :: publisher_options where
  Freeze: "draws_ids policy \<Longrightarrow> pub_freezeNextBatch P now policy w = (r, w') \<Longrightarrow>
    publisher_step P w w'"
| Claim: "pub_claimNextOutbox P now lease w = (r, w') \<Longrightarrow> publisher_step P w w'"
| Record: "pub_recordSigningAttempt rec w = (r, w') \<Longrightarrow> publisher_step P w w'"
| Mark_Broadcast: "pub_markBroadcast P ob i tx now w = (r, w') \<Longrightarrow> publisher_step P w w'"
| Mark_Failure: "pub_markRetryableFailure P ob i' tx' code now w = (r, w') \<Longrightarrow>
    publisher_step P w w'"
| Reconcile: "pub_reconcileProjectedFinality P now w = (r, w') \<Longrightarrow> publisher_step P w w'"
| Project: "publisher_step P w (w\<lparr>pu_db := (pu_db w)\<lparr>pb_events := events\<rparr>\<rparr>)"
| Outside: "pu_db w' = (pu_db w)\<lparr>pb_now := now\<rparr> \<Longrightarrow> publisher_step P w w'"
| Request: "pr_id q \<notin> pr_id ` set (pb_requests (pu_db w)) \<Longrightarrow> pr_state q = Request_Queued \<Longrightarrow>
    publisher_step P w (w\<lparr>pu_db := (pu_db w)\<lparr>pb_requests := pb_requests (pu_db w) @ [q]\<rparr>\<rparr>)"

inductive_cases publisher_stepE: "publisher_step P w w'"

text \<open>
  \<open>Project\<close> is the projector, which owns the projected events; \<open>Request\<close> is a match that ended;
  \<open>Outside\<close> is the passing of time, with whatever the state holds beside the tables.
\<close>

section \<open>Every step keeps the batches\<close>

definition keeps_batches :: "publisher_db \<Rightarrow> publisher_db \<Rightarrow> bool" where
  "keeps_batches db db' \<longleftrightarrow> (batches_ok db \<longrightarrow> batches_ok db' \<and> keeps_frozen db db')"

lemma keeps_batches_same [simp]: "keeps_batches db db"
  by (simp add: keeps_batches_def keeps_frozen_refl)

lemma transaction_keeps:
  assumes "pub_transaction work w = (r, w')" and "moves sound_move work"
  shows "keeps_batches (pu_db w) (pu_db w')"
  using assms(1)
proof (cases rule: pub_transactionE)
  case (committed x)
  from movesD [OF assms(2) committed(1)] committed(2) show ?thesis
    by (auto simp: keeps_batches_def sound_move_def batches_ok_def)
qed simp

lemma freeze_keeps:
  assumes "draws_ids policy" and "pub_freezeNextBatch P now policy w = (r, w')"
  shows "keeps_batches (pu_db w) (pu_db w')"
proof -
  from assms(2) obtain r' where "pub_transaction (freeze_work P now policy) w = (r', w')"
    unfolding pub_freezeNextBatch_def by (auto elim!: act_bindE simp: act_run)
  then show ?thesis
    by (rule transaction_keeps) (blast intro: movesI freeze_sound assms(1))
qed

lemma reconcile_moves:
  "moves sound_move (act_bind (act_lift (instant H now)) (\<lambda>at.
     act_bind (pub_read f) (\<lambda>n. act_bind (pub_sql (reconcile_statement at)) (\<lambda>_. act_ok n))))"
  by (intro moves_bind moves_basic moves_sql) (rule reconcile_sound)

lemma sound_keeps:
  "sound_move db db' \<Longrightarrow> (item_sets_complete db \<Longrightarrow> item_sets_complete db') \<Longrightarrow>
   keeps_batches db db'"
  by (auto simp: sound_move_def keeps_batches_def batches_ok_def)

lemma request_keeps:
  assumes "pr_id q \<notin> pr_id ` set (pb_requests db)" and "pr_state q = Request_Queued"
  shows "keeps_batches db (db\<lparr>pb_requests := pb_requests db @ [q]\<rparr>)"
proof -
  have "\<not> in_batch db q" if "rows_ok db"
    using that assms(1) unfolding rows_ok_def in_batch_def by (metis imageI)
  then have "rows_ok (db\<lparr>pb_requests := pb_requests db @ [q]\<rparr>)" if "rows_ok db"
    using that assms by (auto simp: rows_ok_def in_batch_def is_batched_def)
  then show ?thesis
    by (auto simp: keeps_batches_def batches_ok_def keeps_frozen_def item_sets_complete_def
        items_of_def)
qed

lemma step_keeps:
  assumes "publisher_step P w w'"
  shows "keeps_batches (pu_db w) (pu_db w')"
  using assms
proof cases
  case (Freeze policy now r)
  then show ?thesis by (rule freeze_keeps)
next
  case (Claim now lease r)
  from transaction_keeps [OF this [unfolded pub_claimNextOutbox_def] claim_sound] show ?thesis .
next
  case (Record rec r)
  from transaction_keeps [OF this [unfolded pub_recordSigningAttempt_def]] show ?thesis
    by (blast intro: moves_sql insert_intent_sound)
next
  case (Mark_Broadcast ob i tx now r)
  from transaction_keeps [OF this [unfolded pub_markBroadcast_def] broadcast_sound] show ?thesis .
next
  case (Mark_Failure ob i' tx' code now r)
  from transaction_keeps [OF this [unfolded pub_markRetryableFailure_def Let_def] failure_sound]
  show ?thesis .
next
  case (Reconcile now r)
  from transaction_keeps [OF this [unfolded pub_reconcileProjectedFinality_def] reconcile_moves]
  show ?thesis .
next
  case (Project events)
  have "sound_move (pu_db w) (pu_db w')"
    by (rule same_batches_sound) (simp add: Project same_batches_def)
  then show ?thesis
    by (rule sound_keeps) (simp add: Project item_sets_complete_def items_of_def)
next
  case (Outside now)
  have "sound_move (pu_db w) (pu_db w')"
    by (rule same_batches_sound) (simp add: Outside same_batches_def)
  then show ?thesis
    by (rule sound_keeps) (simp add: Outside item_sets_complete_def items_of_def)
next
  case (Request q)
  from request_keeps [OF Request(2,3)] Request(1) show ?thesis by simp
qed

lemma steps_keep:
  assumes "(publisher_step P)\<^sup>*\<^sup>* w w'"
  shows "keeps_batches (pu_db w) (pu_db w')"
  using assms
proof (induction rule: rtranclp_induct)
  case (step v u)
  from step.IH step_keeps [OF step.hyps(2)] show ?case
    unfolding keeps_batches_def by (meson keeps_frozen_trans)
qed simp

lemma keeps_frozen_rows:
  assumes "keeps_frozen db db'" and r: "r \<in> set (pb_outbox db)"
  shows "\<exists>r' \<in> set (pb_outbox db'). frozen_part r' = frozen_part r \<and>
    items_of db' (ob_id r') = items_of db (ob_id r)"
proof -
  from assms(1) obtain rows items
    where rows: "map frozen_part (pb_outbox db') = map frozen_part (pb_outbox db) @ rows"
      and items: "pb_items db' = pb_items db @ items"
      and away: "\<forall>i \<in> set items. \<forall>r \<in> set (pb_outbox db). pi_outbox_id i \<noteq> ob_id r"
    unfolding keeps_frozen_def by blast
  from r have "frozen_part r \<in> set (map frozen_part (pb_outbox db'))"
    unfolding rows by simp
  then obtain r' where r': "r' \<in> set (pb_outbox db')" "frozen_part r' = frozen_part r"
    by auto
  then have "ob_id r' = ob_id r" by (simp add: frozen_part_def)
  with away r have "items_of db' (ob_id r') = items_of db (ob_id r)"
    by (auto simp: items_of_def items filter_empty_conv)
  with r' show ?thesis by blast
qed

section \<open>What is published\<close>

text \<open>A request is published exactly when the outbox row of its batch is irreversible.\<close>

definition settled_ok :: "publisher_db \<Rightarrow> bool" where
  "settled_ok db \<longleftrightarrow>
     (\<forall>i \<in> set (pb_items db). \<forall>q \<in> set (pb_requests db). \<forall>r \<in> set (pb_outbox db).
        pi_request_id i = pr_id q \<longrightarrow> pi_outbox_id i = ob_id r \<longrightarrow>
        (pr_state q = Request_Published \<longleftrightarrow> ob_state r = Outbox_Irreversible))"

definition settles_move :: "publisher_db \<Rightarrow> publisher_db \<Rightarrow> bool" where
  "settles_move db db' \<longleftrightarrow>
     sound_move db db' \<and> (rows_ok db \<longrightarrow> settled_ok db \<longrightarrow> settled_ok db')"

lemma settles_refl: "settles_move db db"
  by (simp add: settles_move_def sound_refl)

lemma settles_trans: "settles_move a b \<Longrightarrow> settles_move b c \<Longrightarrow> settles_move a c"
  unfolding settles_move_def by (meson sound_move_def sound_trans)

lemma settles_bind:
  assumes "moves settles_move m" and "\<And>x. moves settles_move (f x)"
  shows "moves settles_move (act_bind m f)"
proof (rule movesI)
  fix w y w''
  assume "act_bind m f w = (Inr y, w'')"
  then obtain x w' where "m w = (Inr x, w')" "f x w' = (Inr y, w'')"
    by (rule act_bind_InrE)
  with assms show "settles_move (pu_db w) (pu_db w'')"
    by (meson movesD settles_trans)
qed

lemma settles_basic:
  "moves settles_move (act_ok x)" "moves settles_move (act_lift r)"
  "moves settles_move (act_ensure b e)" "moves settles_move (pub_read f)"
  by (auto simp: moves_def act_run pub_read_def settles_refl split: if_splits)

lemma settles_sql:
  assumes "\<And>db db'. f db = Some db' \<Longrightarrow> settles_move db db'"
  shows "moves settles_move (pub_sql f)"
proof (rule movesI)
  fix w x and w' :: "'a publisher"
  assume "pub_sql f w = (Inr x, w')"
  then obtain db where "f (pu_db w) = Some db" "w' = w\<lparr>pu_db := db\<rparr>"
    by (rule pub_sql_InrE)
  with assms show "settles_move (pu_db w) (pu_db w')" by simp
qed

text \<open>The trigger refuses to leave \<open>irreversible\<close>.\<close>

lemma outbox_irreversible:
  assumes "outbox_updatable r r'" and "ob_state r = Outbox_Irreversible"
  shows "ob_state r' = Outbox_Irreversible"
  using assms by (simp add: outbox_updatable_def)

lemma update_outbox_settled:
  assumes "update_outbox P f db = Some db'" and "\<And>r. frozen_part (f r) = frozen_part r"
    and "\<And>r. ob_state (f r) = Outbox_Irreversible \<Longrightarrow> ob_state r = Outbox_Irreversible"
  shows "settles_move db db'"
proof -
  have db': "db' = db\<lparr>pb_outbox := map (\<lambda>r. if P r then f r else r) (pb_outbox db)\<rparr>"
    and ok: "\<And>r. r \<in> set (pb_outbox db) \<Longrightarrow> P r \<Longrightarrow> outbox_updatable r (f r)"
    using assms(1) by (auto simp: update_outbox_def list_all_iff split: if_splits)
  have ids: "ob_id (f r) = ob_id r" for r
    using assms(2) [of r] by (simp add: frozen_part_def)
  have "settled_ok db'" if "settled_ok db"
    using that assms(3) ok outbox_irreversible unfolding settled_ok_def db'
    by (fastforce simp: ids)
  with update_outbox_sound [OF assms(1,2)] show ?thesis
    by (simp add: settles_move_def)
qed

lemma update_intents_settled: "update_intents P f db = Some db' \<Longrightarrow> settles_move db db'"
  using update_intents_sound [of P f db db']
  by (auto simp: settles_move_def settled_ok_def update_intents_def)

lemma insert_intent_settled: "insert_intent rec db = Some db' \<Longrightarrow> settles_move db db'"
  using insert_intent_sound [of rec db db']
  by (auto simp: settles_move_def settled_ok_def insert_intent_def Let_def split: if_splits)

lemma claim_settles: "moves settles_move (claim_work P now leaseUntil)"
proof -
  have "moves settles_move (case rows of [] \<Rightarrow> act_ok None
     | row # x \<Rightarrow> act_bind (pub_sql (update_outbox (\<lambda>r. ob_id r = ob_id row) (claimed at lease))) (\<lambda>_.
         act_lift (ebind (outboxAttemptFromRow (px_host P) (claimed at lease row)) (\<lambda>a. Inr (Some a)))))"
    for rows at lease
    by (cases rows) (auto intro!: settles_bind settles_basic settles_sql
        elim!: update_outbox_settled simp: frozen_part_def claimed_def)
  then show ?thesis
    unfolding claim_work_def by (intro settles_bind settles_basic)
qed

lemma broadcast_settles:
  "moves settles_move (act_bind (act_lift (instant H broadcastAt)) (\<lambda>at.
     act_bind (pub_sql (update_outbox (\<lambda>r. ob_id r = outboxId)
       (\<lambda>r. r\<lparr>ob_state := Outbox_Broadcast, ob_hive_transaction_id := Some transactionId,
         ob_next_retry_at := None, ob_last_failure_code := None\<rparr>))) (\<lambda>_.
     pub_sql (update_intents P f))))"
  by (intro settles_bind settles_basic settles_sql)
    (auto elim!: update_outbox_settled update_intents_settled simp: frozen_part_def)

lemma failure_settles:
  "moves settles_move (act_bind (act_lift (instant H retryAt)) (\<lambda>at.
     act_bind (pub_sql (update_outbox (\<lambda>r. ob_id r = outboxId)
       (\<lambda>r. r\<lparr>ob_state := Outbox_Retryable,
         ob_hive_transaction_id := coalesce transactionId (ob_hive_transaction_id r),
         ob_next_retry_at := Some at, ob_last_failure_code := Some code\<rparr>))) (\<lambda>_.
     case signingAttemptId of None \<Rightarrow> act_ok () | Some i \<Rightarrow> pub_sql (update_intents (P i) f))))"
  by (cases signingAttemptId; simp only: option.case;
      intro settles_bind settles_basic settles_sql)
    (auto elim!: update_outbox_settled update_intents_settled simp: frozen_part_def)

lemma newer_not_irreversible: "newer_event db r = Some e \<Longrightarrow> ob_state r \<noteq> Outbox_Irreversible"
  by (auto simp: newer_event_def split: option.splits if_splits)

lemma reconcile_outbox:
  assumes "reconcile_statement now db = Some db'"
  shows "pb_outbox db' =
    map (\<lambda>r. if newer_event db r \<noteq> None then follow db now r else r) (pb_outbox db)"
  using assms
  by (auto simp: reconcile_statement_def update_outbox_def update_requests_def split: if_splits)

lemma published_iff:
  assumes "rows_ok db" and "settled_ok db" and q: "q \<in> set (pb_requests db)"
  shows "pr_state q = Request_Published \<longleftrightarrow>
    (\<exists>i \<in> set (pb_items db). \<exists>r \<in> set (pb_outbox db).
       pi_request_id i = pr_id q \<and> pi_outbox_id i = ob_id r \<and> ob_state r = Outbox_Irreversible)"
    (is "_ \<longleftrightarrow> ?row")
proof
  assume published: "pr_state q = Request_Published"
  with assms obtain i where i: "i \<in> set (pb_items db)" "pi_request_id i = pr_id q"
    unfolding rows_ok_def is_batched_def in_batch_def by blast
  with assms(1) obtain r where "r \<in> set (pb_outbox db)" "ob_id r = pi_outbox_id i"
    unfolding rows_ok_def by blast
  with i q assms(2) published show ?row
    unfolding settled_ok_def by metis
next
  assume ?row
  with assms(2) q show "pr_state q = Request_Published"
    unfolding settled_ok_def by blast
qed

lemma reconcile_settles:
  assumes "reconcile_statement now db = Some db'"
  shows "settles_move db db'"
proof -
  let ?g = "\<lambda>r. if newer_event db r \<noteq> None then follow db now r else r"
  let ?f = "\<lambda>q. if is_settled db now q
    then q\<lparr>pr_state := Request_Published, pr_published_at := Some now\<rparr> else q"
  from assms have db': "pb_requests db' = map ?f (pb_requests db)"
    "pb_outbox db' = map ?g (pb_outbox db)" "pb_items db' = pb_items db"
    by (auto simp: reconcile_statement_def update_outbox_def update_requests_def split: if_splits)
  have id: "ob_id (?g r) = ob_id r" for r
    by (simp add: follow_def follow_event_def split: option.split)
  have one_row: "pr_state (?f q) = Request_Published \<longleftrightarrow> ob_state (?g r) = Outbox_Irreversible"
    if ok: "rows_ok db" "settled_ok db" and i: "i \<in> set (pb_items db)"
      and q: "q \<in> set (pb_requests db)" and r: "r \<in> set (pb_outbox db)"
      and joined: "pi_request_id i = pr_id q" "pi_outbox_id i = ob_id r" for i q r
  proof -
    have old: "pr_state q = Request_Published \<longleftrightarrow> ob_state r = Outbox_Irreversible"
      using ok(2) i q r joined by (auto simp: settled_ok_def)
    have one: "j = i" if "j \<in> set (pb_items db)" "pi_request_id j = pr_id q" for j
      by (rule inj_onD [of pi_request_id "set (pb_items db)"])
        (use ok(1) i joined(1) that in \<open>simp_all add: rows_ok_def distinct_map\<close>)
    have row: "r' = r" if "r' \<in> set (pb_outbox db)" "ob_id r' = ob_id r" for r'
      using ok(1) r that by (auto simp: rows_ok_def distinct_map dest: inj_onD)
    have "is_settled db now q \<longleftrightarrow> pr_state q \<noteq> Request_Published \<and> newer_event db r \<noteq> None \<and>
        ob_state (follow db now r) = Outbox_Irreversible"
      unfolding is_settled_def list_ex_iff using i r joined one row by metis
    with old newer_not_irreversible [of db r] show ?thesis by auto
  qed
  have "settled_ok db'" if "rows_ok db" "settled_ok db"
    unfolding settled_ok_def db'
  proof (intro ballI impI)
    fix i q' r'
    assume "i \<in> set (pb_items db)" "q' \<in> set (map ?f (pb_requests db))"
      "r' \<in> set (map ?g (pb_outbox db))" "pi_request_id i = pr_id q'" "pi_outbox_id i = ob_id r'"
    moreover from this obtain q r where "q \<in> set (pb_requests db)" "q' = ?f q"
      "r \<in> set (pb_outbox db)" "r' = ?g r"
      unfolding set_map by blast
    moreover from calculation have "pi_request_id i = pr_id q" "pi_outbox_id i = ob_id r"
      using id [of r] by (simp_all split: if_splits)
    ultimately show "pr_state q' = Request_Published \<longleftrightarrow> ob_state r' = Outbox_Irreversible"
      using one_row [OF that] by blast
  qed
  with reconcile_sound [OF assms] show ?thesis
    by (simp add: settles_move_def)
qed

text \<open>A freeze: its new items join waiting requests to a queued row.\<close>

lemma defer_settled:
  assumes "deferInvalidRequest H (pr_id q) now e w = (Inr u, w')" and "rows_ok (pu_db w)"
    and "q \<in> set (pb_requests (pu_db w))" and "\<not> is_batched q"
    and "settled_ok (pu_db w)"
  shows "settled_ok (pu_db w')"
proof -
  from assms(1) obtain f where
    db: "pu_db w' = update_requests (\<lambda>p. pr_id p = pr_id q) f (pu_db w)"
    and f: "\<And>p. pr_id (f p) = pr_id p"
    unfolding deferInvalidRequest_def Let_def
    by (elim act_bind_InrE pub_sql_InrE) (auto simp: act_run)
  have "pi_request_id i \<noteq> pr_id q" if "i \<in> set (pb_items (pu_db w))" for i
    using assms(2-4) that by (auto simp: rows_ok_def in_batch_def)
  with assms(5) show ?thesis
    by (auto simp: db settled_ok_def update_requests_def f)
qed

lemma stores_batch_settled:
  assumes stores: "stores_batch ids new row db db'" and ok: "rows_ok db" and settled: "settled_ok db"
  shows "settled_ok db'"
proof -
  let ?f = "\<lambda>q. if is_waiting ids q then batch_request q else q"
  from stores have db': "pb_outbox db' = pb_outbox db @ [row]" "pb_items db' = pb_items db @ new"
      "pb_requests db' = map ?f (pb_requests db)"
    by (simp_all add: stores_batch_def)
  have published: "pr_state (?f q) = Request_Published \<longleftrightarrow> pr_state q = Request_Published"
    "pr_id (?f q) = pr_id q" for q
    by (auto simp: is_waiting_def)
  have new: "pi_outbox_id i = ob_id row \<and> (\<forall>q \<in> set (pb_requests db). pi_request_id i = pr_id q \<longrightarrow>
      pr_state q \<noteq> Request_Published)" if "i \<in> set new" for i
  proof -
    have "pi_request_id i \<in> set ids"
      using stores that by (auto simp: stores_batch_def)
    with stores that show ?thesis
      by (auto simp: stores_batch_def is_waiting_def)
  qed
  have old: "pi_outbox_id i \<noteq> ob_id row" if "i \<in> set (pb_items db)" for i
    using ok stores that unfolding rows_ok_def stores_batch_def by metis
  have rows: "ob_state row \<noteq> Outbox_Irreversible" "\<forall>r \<in> set (pb_outbox db). ob_id r \<noteq> ob_id row"
    using stores by (auto simp: stores_batch_def)
  show ?thesis
    unfolding settled_ok_def
  proof (intro ballI impI)
    fix i q' r
    assume i: "i \<in> set (pb_items db')" and "q' \<in> set (pb_requests db')"
      and r: "r \<in> set (pb_outbox db')"
      and joined: "pi_request_id i = pr_id q'" "pi_outbox_id i = ob_id r"
    then obtain q where q: "q \<in> set (pb_requests db)" "q' = ?f q" by (auto simp: db')
    show "pr_state q' = Request_Published \<longleftrightarrow> ob_state r = Outbox_Irreversible"
    proof (cases "i \<in> set new")
      case True
      with new [OF this] r joined q rows published show ?thesis
        by (auto simp: db')
    next
      case False
      with i have i: "i \<in> set (pb_items db)" by (simp add: db')
      with old r joined(2) have "r \<in> set (pb_outbox db)" by (auto simp: db')
      with settled i q joined published show ?thesis
        by (auto simp: settled_ok_def)
    qed
  qed
qed

lemma freeze_settles:
  assumes "freeze_work P now policy w = (Inr y, w')" and "draws_ids policy"
  shows "settles_move (pu_db w) (pu_db w')"
  using assms
proof (cases rule: freeze_workE)
  case nothing
  then show ?thesis by (simp add: settles_refl)
next
  case (defers q e x w1)
  with defer_settled [OF defers(4)] freeze_sound [OF assms] show ?thesis
    by (simp add: settles_move_def)
next
  case (freezes frozen x w1)
  have "settled_ok (pu_db w')" if "rows_ok (pu_db w)" "settled_ok (pu_db w)"
    by (rule store_frozen_stores [OF freezes(2) assms(2)])
      (use that stores_batch_settled in \<open>auto simp: freezes(1)\<close>)
  with freeze_sound [OF assms] show ?thesis by (simp add: settles_move_def)
qed

definition keeps_settled :: "publisher_db \<Rightarrow> publisher_db \<Rightarrow> bool" where
  "keeps_settled db db' \<longleftrightarrow>
     (batches_ok db \<longrightarrow> settled_ok db \<longrightarrow> settled_ok db')"

lemma transaction_settles:
  assumes "pub_transaction work w = (r, w')" and "moves settles_move work"
  shows "keeps_settled (pu_db w) (pu_db w')"
  using assms(1)
proof (cases rule: pub_transactionE)
  case (committed x)
  from movesD [OF assms(2) committed(1)] show ?thesis
    by (auto simp: keeps_settled_def settles_move_def batches_ok_def)
qed (simp add: keeps_settled_def)

lemma step_settles:
  assumes "publisher_step P w w'"
  shows "keeps_settled (pu_db w) (pu_db w')"
  using assms
proof cases
  case (Freeze policy now r)
  from Freeze(2) obtain r' where "pub_transaction (freeze_work P now policy) w = (r', w')"
    unfolding pub_freezeNextBatch_def by (auto elim!: act_bindE simp: act_run)
  then show ?thesis
    by (rule transaction_settles) (blast intro: movesI freeze_settles Freeze(1))
next
  case (Claim now lease r)
  from transaction_settles [OF this [unfolded pub_claimNextOutbox_def] claim_settles]
  show ?thesis .
next
  case (Record rec r)
  from transaction_settles [OF this [unfolded pub_recordSigningAttempt_def]] show ?thesis
    by (blast intro: settles_sql insert_intent_settled)
next
  case (Mark_Broadcast ob i tx now r)
  from transaction_settles [OF this [unfolded pub_markBroadcast_def] broadcast_settles]
  show ?thesis .
next
  case (Mark_Failure ob i' tx' code now r)
  from transaction_settles [OF this [unfolded pub_markRetryableFailure_def Let_def] failure_settles]
  show ?thesis .
next
  case (Reconcile now r)
  have "moves settles_move (act_bind (act_lift (instant (px_host P) now)) (\<lambda>at.
      act_bind (pub_read f) (\<lambda>n. act_bind (pub_sql (reconcile_statement at)) (\<lambda>_. act_ok n))))"
    for f :: "publisher_db \<Rightarrow> nat"
    by (intro settles_bind settles_basic settles_sql) (rule reconcile_settles)
  from transaction_settles [OF Reconcile [unfolded pub_reconcileProjectedFinality_def] this]
  show ?thesis .
next
  case (Request q)
  have "pi_request_id i \<noteq> pr_id q" if "i \<in> set (pb_items (pu_db w))" "rows_ok (pu_db w)" for i
    using that Request(2) unfolding rows_ok_def by (metis imageI)
  with Request(1) show ?thesis
    by (auto simp: keeps_settled_def batches_ok_def settled_ok_def)
qed (simp_all add: keeps_settled_def settled_ok_def)

lemma steps_settle:
  assumes "(publisher_step P)\<^sup>*\<^sup>* w w'"
  shows "keeps_settled (pu_db w) (pu_db w')"
  using assms
proof (induction rule: rtranclp_induct)
  case (step v u)
  from step.IH step_settles [OF step.hyps(2)] steps_keep [OF step.hyps(1)] show ?case
    by (auto simp: keeps_settled_def keeps_batches_def)
qed (simp add: keeps_settled_def)

end
