(* ===== verification/Match_Publisher.thy ===== *)
theory Match_Publisher
  imports Match_Worker Publisher_Steps
begin

text \<open>
  The match publisher put together, as \<open>main.ts\<close> does it: the worker over the store on the
  tables. Whatever a cycle does to the tables is a run of the step relation, so what the steps
  keep, the worker keeps.
\<close>

section \<open>The worker on the tables\<close>

text \<open>The store as a part of the worker's world; the worker freezes with its own policy.\<close>

definition store_of ::
  "publisher_options \<Rightarrow> 'u publisher batch_policy \<Rightarrow> ('c \<times> ('v \<times> 'u publisher)) publication_store" where
  "store_of P policy =
     (let S = postgres_publication_store P in \<lparr>
        freezeNextBatch = (\<lambda>now _. act_snd (act_snd (freezeNextBatch S now policy))),
        claimNextOutbox = (\<lambda>now lease. act_snd (act_snd (claimNextOutbox S now lease))),
        recordSigningAttempt = (\<lambda>rec. act_snd (act_snd (recordSigningAttempt S rec))),
        markBroadcast = (\<lambda>ob i tx t. act_snd (act_snd (markBroadcast S ob i tx t))),
        markRetryableFailure = (\<lambda>ob i tx code t.
          act_snd (act_snd (markRetryableFailure S ob i tx code t))),
        reconcileProjectedFinality = (\<lambda>now. act_snd (act_snd (reconcileProjectedFinality S now)))\<rparr>)"

definition tables :: "'c \<times> ('v \<times> 'u publisher) \<Rightarrow> publisher_db" where
  "tables w = pu_db (snd (snd w))"

text \<open>The signer, the ids and the clock are other services: they do not write the tables.\<close>

definition works_on ::
  "publisher_options \<Rightarrow> 'u publisher batch_policy \<Rightarrow> ('c, 'v \<times> 'u publisher) worker \<Rightarrow> bool" where
  "works_on P policy W \<longleftrightarrow>
     mw_store W = store_of P policy \<and> draws_ids policy \<and>
     (\<forall>q v r v'. mw_signer W q v = (r, v') \<longrightarrow> pu_db (snd v') = pu_db (snd v)) \<and>
     (\<forall>w r w'. mw_nextUuidV7 W w = (r, w') \<longrightarrow> tables w' = tables w) \<and>
     (\<forall>w t w'. mw_now W w = (t, w') \<longrightarrow> tables w' = tables w)"

section \<open>Runs\<close>

definition takes_steps :: "publisher_options \<Rightarrow> ('c \<times> ('v \<times> 'u publisher), 'a) action \<Rightarrow> bool" where
  "takes_steps P m \<longleftrightarrow>
     (\<forall>w r w'. m w = (r, w') \<longrightarrow> (publisher_step P)\<^sup>*\<^sup>* (snd (snd w)) (snd (snd w')))"

lemma takes_stepsI:
  "(\<And>w r w'. m w = (r, w') \<Longrightarrow> (publisher_step P)\<^sup>*\<^sup>* (snd (snd w)) (snd (snd w'))) \<Longrightarrow>
   takes_steps P m"
  unfolding takes_steps_def by blast

lemma takes_stepsD:
  "takes_steps P m \<Longrightarrow> m w = (r, w') \<Longrightarrow> (publisher_step P)\<^sup>*\<^sup>* (snd (snd w)) (snd (snd w'))"
  unfolding takes_steps_def by blast

lemma outside_steps:
  assumes "pu_db w' = pu_db w"
  shows "(publisher_step P)\<^sup>*\<^sup>* w w'"
  by (rule r_into_rtranclp, rule Outside [where now = "pb_now (pu_db w)"]) (simp add: assms)

lemma takes_steps_basic:
  "takes_steps P (act_ok x)" "takes_steps P (act_fail e)" "takes_steps P (act_lift r)"
  "takes_steps P (act_ensure b e)"
  by (auto simp: takes_steps_def act_run)

lemma takes_steps_same:
  assumes "\<And>w r w'. m w = (r, w') \<Longrightarrow> tables w' = tables w"
  shows "takes_steps P m"
  by (rule takes_stepsI, rule outside_steps) (use assms in \<open>simp add: tables_def\<close>)

lemma takes_steps_bind:
  "takes_steps P m \<Longrightarrow> (\<And>x. takes_steps P (f x)) \<Longrightarrow> takes_steps P (act_bind m f)"
  by (rule takes_stepsI, erule act_bindE) (blast dest: takes_stepsD intro: rtranclp_trans)+

lemma takes_steps_try:
  "takes_steps P m \<Longrightarrow> (\<And>e. takes_steps P (h e)) \<Longrightarrow> (\<And>x. takes_steps P (k x)) \<Longrightarrow>
   takes_steps P (act_try m h k)"
  by (rule takes_stepsI, erule act_tryE) (blast dest: takes_stepsD intro: rtranclp_trans)+

lemma takes_steps_store:
  assumes "\<And>w r w'. m w = (r, w') \<Longrightarrow> publisher_step P w w'"
  shows "takes_steps P (act_snd (act_snd m))"
  using assms by (auto simp: takes_steps_def act_snd_def act_on_def split: prod.splits)

lemma store_steps:
  assumes "works_on P policy W"
  shows "takes_steps P (freezeNextBatch (mw_store W) now p)"
    and "takes_steps P (claimNextOutbox (mw_store W) now lease)"
    and "takes_steps P (recordSigningAttempt (mw_store W) rec)"
    and "takes_steps P (markBroadcast (mw_store W) ob i tx now)"
    and "takes_steps P (markRetryableFailure (mw_store W) ob i' tx' code now)"
    and "takes_steps P (reconcileProjectedFinality (mw_store W) now)"
proof -
  have store: "mw_store W = store_of P policy" and ids: "draws_ids policy"
    using assms by (simp_all add: works_on_def)
  note stores = store store_of_def postgres_publication_store_def Let_def
    publication_store.simps
  show "takes_steps P (freezeNextBatch (mw_store W) now p)"
    unfolding stores by (rule takes_steps_store) (rule Freeze [OF ids])
  show "takes_steps P (claimNextOutbox (mw_store W) now lease)"
    unfolding stores by (rule takes_steps_store) (rule Claim)
  show "takes_steps P (recordSigningAttempt (mw_store W) rec)"
    unfolding stores by (rule takes_steps_store) (rule Record)
  show "takes_steps P (markBroadcast (mw_store W) ob i tx now)"
    unfolding stores by (rule takes_steps_store) (rule Mark_Broadcast)
  show "takes_steps P (markRetryableFailure (mw_store W) ob i' tx' code now)"
    unfolding stores by (rule takes_steps_store) (rule Mark_Failure)
  show "takes_steps P (reconcileProjectedFinality (mw_store W) now)"
    unfolding stores by (rule takes_steps_store) (rule Reconcile)
qed

lemma chain_steps: "takes_steps P (act_fst m)"
  by (intro takes_steps_same) (auto simp: tables_def act_fst_def act_on_def split: prod.splits)

lemma other_steps:
  assumes "works_on P policy W"
  shows "takes_steps P (clock W)" and "takes_steps P (mw_nextUuidV7 W)"
    and "takes_steps P (broadcastOfficialEvent C prepared (mw_signer W))"
proof -
  show "takes_steps P (clock W)"
    using assms by (intro takes_steps_same) (auto simp: clock_def works_on_def split: prod.splits)
  show "takes_steps P (mw_nextUuidV7 W)"
    using assms by (intro takes_steps_same) (auto simp: works_on_def)
  have "takes_steps P (act_snd (mw_signer W q))" for q
    using assms
    by (intro takes_steps_same)
      (auto simp: tables_def works_on_def act_snd_def act_on_def split: prod.splits)
  then show "takes_steps P (broadcastOfficialEvent C prepared (mw_signer W))"
    unfolding broadcastOfficialEvent_def Let_def
    by (intro takes_steps_bind takes_steps_basic chain_steps)
qed

lemmas worker_steps = takes_steps_bind takes_steps_try takes_steps_basic store_steps other_steps
  chain_steps

lemma failed_steps:
  "works_on P policy W \<Longrightarrow> takes_steps P (publish_failed W a i tx e)"
  unfolding publish_failed_def by (intro worker_steps)

lemma attempt_steps:
  "works_on P policy W \<Longrightarrow> takes_steps P (publishAttempt W a now)"
  unfolding publishAttempt_def Let_def by (intro worker_steps failed_steps)

lemma cycle_steps:
  assumes "works_on P policy W"
  shows "takes_steps P (processOnce W)"
proof -
  have "takes_steps P (case claim of
       None \<Rightarrow> act_ok \<lparr>cy_batchFrozen = frozen \<noteq> None,
         cy_projectedRowsReconciled = n, cy_publication = Idle, cy_eventId = None\<rparr>
     | Some a \<Rightarrow>
         act_bind (publishAttempt W a cycleNow) (\<lambda>publication.
         act_ok \<lparr>cy_batchFrozen = frozen \<noteq> None, cy_projectedRowsReconciled = n,
           cy_publication = publication, cy_eventId = Some (at_eventId a)\<rparr>))"
    for claim n cycleNow and frozen :: "frozen_batch option"
    by (cases claim) (auto intro: worker_steps attempt_steps assms)
  then show ?thesis
    unfolding processOnce_def
    by (intro takes_steps_bind store_steps [OF assms] other_steps [OF assms])
qed

end
