(* ===== verification/Publisher_Parked.thy ===== *)
theory Publisher_Parked
  imports Match_Publisher
begin

text \<open>
  Rows the worker does not touch: a broadcast row whose event the projector has not seen stays
  as it is through any number of cycles.
\<close>

definition parked :: "outbox_row \<Rightarrow> publisher_db \<Rightarrow> bool" where
  "parked r db \<longleftrightarrow>
     rows_ok db \<and> r \<in> set (pb_outbox db) \<and> ob_state r = Outbox_Broadcast \<and>
     (\<forall>e \<in> set (pb_events db). me_event_uuid e \<noteq> ob_event_uuid r)"

section \<open>Transactions\<close>

definition parks :: "outbox_row \<Rightarrow> publisher_db \<Rightarrow> publisher_db \<Rightarrow> bool" where
  "parks r db db' \<longleftrightarrow> (parked r db \<longrightarrow> parked r db')"

lemma parks_bind:
  assumes "moves (parks r) m" and "\<And>x. moves (parks r) (f x)"
  shows "moves (parks r) (act_bind m f)"
proof (rule movesI)
  fix w y w''
  assume "act_bind m f w = (Inr y, w'')"
  then obtain x w' where "m w = (Inr x, w')" "f x w' = (Inr y, w'')"
    by (rule act_bind_InrE)
  with assms show "parks r (pu_db w) (pu_db w'')"
    unfolding parks_def by (blast dest: movesD)
qed

lemma parks_basic:
  "moves (parks r) (act_ok x)" "moves (parks r) (act_lift y)" "moves (parks r) (act_ensure b e)"
  "moves (parks r) (pub_read f)"
  by (auto simp: moves_def act_run pub_read_def parks_def split: if_splits)

lemma parks_sql:
  assumes "\<And>db db'. f db = Some db' \<Longrightarrow> parks r db db'"
  shows "moves (parks r) (pub_sql f)"
  by (rule movesI) (auto elim!: pub_sql_InrE dest: assms)

lemma parks_transaction:
  assumes "moves (parks r) work" and "pub_transaction work w = (y, w')" and "parked r (pu_db w)"
  shows "parked r (pu_db w')"
  using assms(2)
proof (cases rule: pub_transactionE)
  case (committed x)
  from movesD [OF assms(1) committed(1)] assms(3) show ?thesis by (simp add: parks_def)
qed (simp add: assms(3))

lemma update_outbox_parks:
  assumes "update_outbox (\<lambda>q. ob_id q = i) f db = Some db'"
    and "\<And>q. frozen_part (f q) = frozen_part q" and "i \<noteq> ob_id r"
  shows "parks r db db'"
proof -
  have db': "pb_outbox db' = map (\<lambda>q. if ob_id q = i then f q else q) (pb_outbox db)"
    "pb_events db' = pb_events db"
    using assms(1) by (auto simp: update_outbox_def split: if_splits)
  have "r \<in> set (pb_outbox db')" if "r \<in> set (pb_outbox db)"
    unfolding db' using that assms(3) by force
  with update_outbox_sound [OF assms(1,2)] show ?thesis
    by (simp add: parks_def parked_def sound_move_def db')
qed

lemma update_intents_parks: "update_intents P f db = Some db' \<Longrightarrow> parks r db db'"
  using update_intents_sound [of P f db db']
  by (auto simp: parks_def parked_def sound_move_def update_intents_def)

lemma insert_intent_parks: "insert_intent rec db = Some db' \<Longrightarrow> parks r db db'"
  using insert_intent_sound [of rec db db']
  by (auto simp: parks_def parked_def sound_move_def insert_intent_def Let_def split: if_splits)

lemma broadcast_parks:
  assumes "outboxId \<noteq> ob_id r"
  shows "moves (parks r) (act_bind (act_lift (instant H broadcastAt)) (\<lambda>at.
     act_bind (pub_sql (update_outbox (\<lambda>r. ob_id r = outboxId)
       (\<lambda>r. r\<lparr>ob_state := Outbox_Broadcast, ob_hive_transaction_id := Some transactionId,
         ob_next_retry_at := None, ob_last_failure_code := None\<rparr>))) (\<lambda>_.
     pub_sql (update_intents P f))))"
  by (intro parks_bind parks_basic parks_sql)
    (auto elim!: update_outbox_parks update_intents_parks simp: frozen_part_def assms)

lemma failure_parks:
  assumes "outboxId \<noteq> ob_id r"
  shows "moves (parks r) (act_bind (act_lift (instant H retryAt)) (\<lambda>at.
     act_bind (pub_sql (update_outbox (\<lambda>r. ob_id r = outboxId)
       (\<lambda>r. r\<lparr>ob_state := Outbox_Retryable,
         ob_hive_transaction_id := coalesce transactionId (ob_hive_transaction_id r),
         ob_next_retry_at := Some at, ob_last_failure_code := Some code\<rparr>))) (\<lambda>_.
     case signingAttemptId of None \<Rightarrow> act_ok () | Some i \<Rightarrow> pub_sql (update_intents (P i) f))))"
  by (cases signingAttemptId; simp only: option.case; intro parks_bind parks_basic parks_sql)
    (auto elim!: update_outbox_parks update_intents_parks simp: frozen_part_def assms)

lemma reconcile_parks:
  assumes "reconcile_statement now db = Some db'"
  shows "parks r db db'"
proof -
  have events: "pb_events db' = pb_events db"
    using assms
    by (auto simp: reconcile_statement_def update_outbox_def update_requests_def split: if_splits)
  have "r \<in> set (pb_outbox db')" if "parked r db"
  proof -
    have "List.find (\<lambda>e. me_event_uuid e = ob_event_uuid r) (pb_events db) = None"
      using that by (auto simp: parked_def find_None_iff)
    then have "newer_event db r = None"
      by (simp add: newer_event_def)
    then show ?thesis
      using that unfolding reconcile_outbox [OF assms] by (force simp: parked_def)
  qed
  with reconcile_sound [OF assms] show ?thesis
    by (auto simp: parks_def parked_def sound_move_def events)
qed

lemma freeze_parks:
  assumes "freeze_work P now policy w = (Inr y, w')" and "draws_ids policy"
  shows "parks r (pu_db w) (pu_db w')"
proof -
  have "r \<in> set (pb_outbox (pu_db w')) \<and> pb_events (pu_db w') = pb_events (pu_db w)"
    if "parked r (pu_db w)"
    using assms
  proof (cases rule: freeze_workE)
    case (defers q e x w1)
    from defers(4) obtain p f where "pu_db w' = update_requests p f (pu_db w1)"
      unfolding deferInvalidRequest_def Let_def
      by (elim act_bind_InrE pub_sql_InrE) (auto simp: act_run)
    with that defers(1) show ?thesis by (simp add: update_requests_def parked_def)
  next
    case (freezes frozen x w1)
    from that have "rows_ok (pu_db w1)" by (simp add: parked_def freezes(1))
    from store_frozen_stores [OF freezes(2) assms(2) this] obtain new where
      "stores_batch (map cd_publicationRequestId (fz_candidates frozen)) new
        (outbox_row_of (pu_db w1) (bp_publisherAccount policy) frozen) (pu_db w1) (pu_db w')" .
    with that show ?thesis by (simp add: stores_batch_def parked_def freezes(1))
  qed (use that in \<open>simp add: parked_def\<close>)
  with freeze_sound [OF assms] show ?thesis
    by (auto simp: parks_def parked_def sound_move_def)
qed

text \<open>A claim takes another row, and the attempt it returns is for that row.\<close>

lemma claim_parks:
  assumes "claim_work P now lease w = (Inr claim, w')" and parked: "parked r (pu_db w)"
  shows "parked r (pu_db w') \<and> (\<forall>a. claim = Some a \<longrightarrow> at_outboxId a \<noteq> ob_id r)"
proof -
  from assms(1) have run: "(case claimable (pu_db w) now of
      [] \<Rightarrow> act_ok None
    | row # _ \<Rightarrow>
        act_bind (pub_sql (update_outbox (\<lambda>r. ob_id r = ob_id row) (claimed now lease))) (\<lambda>_.
        act_lift (ebind (outboxAttemptFromRow (px_host P) (claimed now lease row))
          (\<lambda>a. Inr (Some a))))) w = (Inr claim, w')"
    unfolding claim_work_def by (elim act_bind_InrE pub_readE) (simp add: act_run)
  show ?thesis
  proof (cases "claimable (pu_db w) now")
    case Nil
    with run parked show ?thesis by (auto simp: act_run)
  next
    case (Cons row rest)
    then have "row \<in> set (claimable (pu_db w) now)" by simp
    then have row: "row \<in> set (pb_outbox (pu_db w))" "is_claimable now row"
      by (auto simp: claimable_def dest!: in_set_takeD)
    have id: "ob_id row \<noteq> ob_id r"
    proof
      assume "ob_id row = ob_id r"
      with row(1) parked have "row = r"
        by (auto simp: parked_def rows_ok_def distinct_map dest: inj_onD)
      with row(2) parked show False by (simp add: parked_def is_claimable_def)
    qed
    from run Cons obtain db where
      upd: "update_outbox (\<lambda>q. ob_id q = ob_id row) (claimed now lease) (pu_db w) = Some db"
      and w': "w' = w\<lparr>pu_db := db\<rparr>"
      and attempt: "ebind (outboxAttemptFromRow (px_host P) (claimed now lease row))
        (\<lambda>a. Inr (Some a)) = Inr claim"
      by (auto elim!: act_bind_InrE pub_sql_InrE simp: act_run)
    from update_outbox_parks [OF upd _ id] parked have "parked r db"
      by (simp add: parks_def frozen_part_def claimed_def)
    moreover have "\<forall>a. claim = Some a \<longrightarrow> at_outboxId a = ob_id row"
      using attempt by (auto simp: ebind_eq_Inr outboxAttemptFromRow_def claimed_def)
    ultimately show ?thesis using id w' by auto
  qed
qed

section \<open>Cycles\<close>

definition idles :: "outbox_row \<Rightarrow> 'c \<times> ('v \<times> 'u publisher) \<Rightarrow> bool" where
  "idles r w \<longleftrightarrow> parked r (tables w)"

lemma preserves_try [act_rules]:
  "preserves P m \<Longrightarrow> (\<And>e. preserves P (h e)) \<Longrightarrow> (\<And>x. preserves P (k x)) \<Longrightarrow>
   preserves P (act_try m h k)"
  by (rule preservesI, erule act_tryE) (blast dest: preservesD)+

lemma idles_same:
  assumes "\<And>w r w'. m w = (r, w') \<Longrightarrow> tables w' = tables w"
  shows "preserves (idles r) m"
  by (rule preservesI) (use assms in \<open>simp add: idles_def\<close>)

lemma idles_chain: "preserves (idles r) (act_fst m)"
  by (intro idles_same) (auto simp: tables_def act_fst_def act_on_def split: prod.splits)

lemma idles_others:
  assumes "works_on P policy W"
  shows "preserves (idles r) (clock W)" and "preserves (idles r) (mw_nextUuidV7 W)"
    and "preserves (idles r) (act_snd (mw_signer W q))"
  using assms
  by (intro idles_same;
      auto simp: clock_def works_on_def tables_def act_snd_def act_on_def split: prod.splits)+

lemma idles_store:
  assumes "\<And>w y w'. m w = (y, w') \<Longrightarrow> parked r (pu_db w) \<Longrightarrow> parked r (pu_db w')"
  shows "preserves (idles r) (act_snd (act_snd m))"
  by (rule preservesI)
    (use assms in \<open>auto simp: idles_def tables_def act_snd_def act_on_def split: prod.splits\<close>)

lemma idles_broadcast:
  "works_on P policy W \<Longrightarrow> preserves (idles r) (broadcastOfficialEvent C p (mw_signer W))"
  unfolding broadcastOfficialEvent_def Let_def
  by (intro act_rules idles_chain idles_others)

text \<open>What the store does for an attempt on another row.\<close>

lemma idles_attempt_store:
  assumes "works_on P policy W" and "ob \<noteq> ob_id r"
  shows "preserves (idles r) (recordSigningAttempt (mw_store W) rec)"
    and "preserves (idles r) (markBroadcast (mw_store W) ob i tx t)"
    and "preserves (idles r) (markRetryableFailure (mw_store W) ob i' tx' code t)"
proof -
  have store: "mw_store W = store_of P policy"
    using assms by (simp add: works_on_def)
  note stores = store store_of_def postgres_publication_store_def Let_def publication_store.simps
  show "preserves (idles r) (recordSigningAttempt (mw_store W) rec)"
    unfolding stores pub_recordSigningAttempt_def
    by (rule idles_store, erule parks_transaction [rotated])
      (auto intro: parks_sql insert_intent_parks)
  show "preserves (idles r) (markBroadcast (mw_store W) ob i tx t)"
    unfolding stores pub_markBroadcast_def
    by (rule idles_store, erule parks_transaction [OF broadcast_parks [OF assms(2)]])
  show "preserves (idles r) (markRetryableFailure (mw_store W) ob i' tx' code t)"
    unfolding stores pub_markRetryableFailure_def Let_def
    by (rule idles_store, erule parks_transaction [OF failure_parks [OF assms(2)]])
qed

lemma idles_attempt:
  assumes "works_on P policy W" and "at_outboxId a \<noteq> ob_id r"
  shows "preserves (idles r) (publishAttempt W a t)"
proof -
  note store = idles_attempt_store [OF assms] idles_others [OF assms(1)] idles_chain
  have failed: "preserves (idles r) (publish_failed W a i tx e)" for i tx e
    unfolding publish_failed_def by (intro act_rules store)
  show ?thesis
    unfolding publishAttempt_def Let_def
    by (intro act_rules store failed idles_broadcast [OF assms(1)])
qed

lemma idles_freeze:
  assumes "works_on P policy W"
  shows "preserves (idles r) (freezeNextBatch (mw_store W) now p)"
proof -
  have store: "mw_store W = store_of P policy" and ids: "draws_ids policy"
    using assms by (simp_all add: works_on_def)
  have "parked r (pu_db w')" if "pub_freezeNextBatch P now policy w = (y, w')" "parked r (pu_db w)"
    for w y w'
  proof -
    from that(1) obtain y' where "pub_transaction (freeze_work P now policy) w = (y', w')"
      unfolding pub_freezeNextBatch_def by (auto elim!: act_bindE simp: act_run)
    moreover have "moves (parks r) (freeze_work P now policy)"
      by (blast intro: movesI freeze_parks ids)
    ultimately show ?thesis using parks_transaction that(2) by blast
  qed
  then show ?thesis
    unfolding store store_of_def postgres_publication_store_def Let_def publication_store.simps
    by (rule idles_store)
qed

lemma idles_reconcile:
  assumes "works_on P policy W"
  shows "preserves (idles r) (reconcileProjectedFinality (mw_store W) now)"
proof -
  have store: "mw_store W = store_of P policy"
    using assms by (simp add: works_on_def)
  have "moves (parks r) (act_bind (act_lift (instant (px_host P) now)) (\<lambda>at.
      act_bind (pub_read f) (\<lambda>n. act_bind (pub_sql (reconcile_statement at)) (\<lambda>_. act_ok n))))"
    for f :: "publisher_db \<Rightarrow> nat"
    by (intro parks_bind parks_basic parks_sql) (rule reconcile_parks)
  then show ?thesis
    unfolding store store_of_def postgres_publication_store_def Let_def publication_store.simps
      pub_reconcileProjectedFinality_def
    by (intro idles_store) (blast intro: parks_transaction)
qed

lemma idles_claim:
  assumes "works_on P policy W" and "claimNextOutbox (mw_store W) now lease w = (claim, w')"
    and "idles r w"
  shows "idles r w' \<and> (\<forall>a. claim = Inr (Some a) \<longrightarrow> at_outboxId a \<noteq> ob_id r)"
proof -
  have "mw_store W = store_of P policy"
    using assms by (simp add: works_on_def)
  with assms(2) obtain u where
    claim: "pub_claimNextOutbox P now lease (snd (snd w)) = (claim, u)"
    and w': "w' = (fst w, (fst (snd w), u))"
    by (auto simp: store_of_def postgres_publication_store_def Let_def act_snd_def act_on_def
        split: prod.splits)
  have parked: "parked r (pu_db (snd (snd w)))"
    using assms(3) by (simp add: idles_def tables_def)
  have work: "parked r (pu_db u) \<and> (\<forall>a. c = Some a \<longrightarrow> at_outboxId a \<noteq> ob_id r)"
    if "claim_work P now lease (snd (snd w)\<lparr>pu_faults := tl (pu_faults (snd (snd w)))\<rparr>) = (Inr c, u)"
    for c
    by (rule claim_parks [OF that]) (simp add: parked)
  from claim [unfolded pub_claimNextOutbox_def] have "parked r (pu_db u)"
  proof (cases rule: pub_transactionE)
    case (committed c)
    from work [OF committed(1)] show ?thesis by blast
  qed (simp add: parked)
  moreover have "at_outboxId a \<noteq> ob_id r" if "claim = Inr (Some a)" for a
    by (rule pub_transaction_InrE [OF claim [unfolded pub_claimNextOutbox_def that]])
      (use work in blast)
  ultimately show ?thesis
    by (simp add: w' idles_def tables_def)
qed

lemma idles_cycle:
  assumes "works_on P policy W"
  shows "preserves (idles r) (processOnce W)"
proof -
  have tail: "preserves (idles r) (act_bind (claimNextOutbox (mw_store W) now lease) (\<lambda>claim.
      case claim of
        None \<Rightarrow> act_ok \<lparr>cy_batchFrozen = frozen \<noteq> None, cy_projectedRowsReconciled = n,
          cy_publication = Idle, cy_eventId = None\<rparr>
      | Some a \<Rightarrow>
          act_bind (publishAttempt W a now) (\<lambda>publication.
          act_ok \<lparr>cy_batchFrozen = frozen \<noteq> None, cy_projectedRowsReconciled = n,
            cy_publication = publication, cy_eventId = Some (at_eventId a)\<rparr>)))"
    for n now lease and frozen :: "frozen_batch option"
  proof (rule preservesI, erule act_bindE)
    fix w y w' and e :: exn
    assume "idles r w" "claimNextOutbox (mw_store W) now lease w = (Inl e, w')"
    with idles_claim [OF assms] show "idles r w'" by blast
  next
    fix w y w' claim w1
    assume w: "idles r w" and claim: "claimNextOutbox (mw_store W) now lease w = (Inr claim, w1)"
      and rest: "(case claim of
        None \<Rightarrow> act_ok \<lparr>cy_batchFrozen = frozen \<noteq> None, cy_projectedRowsReconciled = n,
          cy_publication = Idle, cy_eventId = None\<rparr>
      | Some a \<Rightarrow>
          act_bind (publishAttempt W a now) (\<lambda>publication.
          act_ok \<lparr>cy_batchFrozen = frozen \<noteq> None, cy_projectedRowsReconciled = n,
            cy_publication = publication, cy_eventId = Some (at_eventId a)\<rparr>)) w1 = (y, w')"
    from idles_claim [OF assms claim w] have w1: "idles r w1"
      and other: "\<And>a. claim = Some a \<Longrightarrow> at_outboxId a \<noteq> ob_id r" by auto
    show "idles r w'"
    proof (cases claim)
      case None
      with rest w1 show ?thesis by (simp add: act_run)
    next
      case (Some a)
      have "preserves (idles r) (act_bind (publishAttempt W a now) (\<lambda>publication.
          act_ok \<lparr>cy_batchFrozen = frozen \<noteq> None, cy_projectedRowsReconciled = n,
            cy_publication = publication, cy_eventId = Some (at_eventId a)\<rparr>))"
        by (intro act_rules idles_attempt [OF assms other [OF Some]])
      from this w1 rest [unfolded Some option.case] show ?thesis
        by (rule preservesD)
    qed
  qed
  show ?thesis
    unfolding processOnce_def
    by (rule preserves_bind [OF idles_others(1) [OF assms]],
        rule preserves_bind [OF idles_reconcile [OF assms]],
        rule preserves_bind [OF idles_freeze [OF assms]], rule tail)
qed

lemma idles_run:
  assumes "works_on P policy W" and "run_worker W n w = (log, w')" and "idles r w"
  shows "idles r w'"
  using assms(2,3)
proof (induction n arbitrary: w log)
  case (Suc n)
  obtain y w1 where one: "processOnce W w = (y, w1)" by (cases "processOnce W w")
  then obtain log' where "run_worker W n w1 = (log', w')"
    using Suc.prems by (auto split: sum.splits prod.splits)
  from Suc.IH [OF this preservesD [OF idles_cycle [OF assms(1)] Suc.prems(2) one]] show ?case .
qed simp

end
