(* ===== verification/Publisher_Trace.thy ===== *)
theory Publisher_Trace
  imports Match_Worker Fixtures
begin

text \<open>
  What one attempt of the publisher does, and in which order: every call that journals, signs
  or settles the attempt is recorded in one trace.
\<close>

datatype publisher_call =
    Journaling signing_record bool
  | Signing signer_request
  | Marking_Broadcast string string string bool
  | Marking_Failure string "string option" "string option" string int bool

text \<open>The flag of a call says whether it returned.\<close>

definition returned :: "exn + 'a \<Rightarrow> bool" where
  "returned r \<longleftrightarrow> (case r of Inl e \<Rightarrow> False | Inr x \<Rightarrow> True)"

definition traced ::
  "(bool \<Rightarrow> publisher_call list) \<Rightarrow> ('c \<times> 'w, 'a) action \<Rightarrow> ('c \<times> ('w \<times> publisher_call list), 'a) action" where
  "traced f m = (\<lambda>(c, (w, tr)). case m (c, w) of (r, (c', w')) \<Rightarrow> (r, (c', (w', tr @ f (returned r)))))"

definition traced_policy ::
  "('c \<times> 'w) batch_policy \<Rightarrow> ('c \<times> ('w \<times> publisher_call list)) batch_policy" where
  "traced_policy p = \<lparr>bp_publisherAccount = bp_publisherAccount p,
     bp_maximumAgeMs = bp_maximumAgeMs p, bp_maximumResults = bp_maximumResults p,
     bp_maximumPayloadBytes = bp_maximumPayloadBytes p,
     bp_nextUuidV7 = traced (\<lambda>_. []) (bp_nextUuidV7 p)\<rparr>"

text \<open>The store of a worker, which freezes with the worker's own policy.\<close>

definition traced_store ::
  "('c \<times> 'w) batch_policy \<Rightarrow> ('c \<times> 'w) publication_store \<Rightarrow>
     ('c \<times> ('w \<times> publisher_call list)) publication_store" where
  "traced_store policy S = \<lparr>
     freezeNextBatch = (\<lambda>t _. traced (\<lambda>_. []) (freezeNextBatch S t policy)),
     claimNextOutbox = (\<lambda>t lease. traced (\<lambda>_. []) (claimNextOutbox S t lease)),
     recordSigningAttempt = (\<lambda>rec. traced (\<lambda>b. [Journaling rec b]) (recordSigningAttempt S rec)),
     markBroadcast = (\<lambda>ob i tx t. traced (\<lambda>b. [Marking_Broadcast ob i tx b]) (markBroadcast S ob i tx t)),
     markRetryableFailure = (\<lambda>ob i tx code t.
       traced (\<lambda>b. [Marking_Failure ob i tx code t b]) (markRetryableFailure S ob i tx code t)),
     reconcileProjectedFinality = (\<lambda>t. traced (\<lambda>_. []) (reconcileProjectedFinality S t))\<rparr>"

definition traced_signer :: "'w signer_client \<Rightarrow> ('w \<times> publisher_call list) signer_client" where
  "traced_signer signer q = (\<lambda>(w, tr). case signer q w of (r, w') \<Rightarrow> (r, (w', tr @ [Signing q])))"

definition traced_worker :: "('c, 'w) worker \<Rightarrow> ('c, 'w \<times> publisher_call list) worker" where
  "traced_worker W = \<lparr>mw_host = mw_host W, mw_store = traced_store (mw_batchPolicy W) (mw_store W),
     mw_chain = mw_chain W, mw_signer = traced_signer (mw_signer W),
     mw_authorization = mw_authorization W, mw_batchPolicy = traced_policy (mw_batchPolicy W),
     mw_transactionExpirationSeconds = mw_transactionExpirationSeconds W,
     mw_claimLeaseMs = mw_claimLeaseMs W, mw_initialRetryBackoffMs = mw_initialRetryBackoffMs W,
     mw_maximumRetryBackoffMs = mw_maximumRetryBackoffMs W,
     mw_nextUuidV7 = traced (\<lambda>_. []) (mw_nextUuidV7 W),
     mw_now = (\<lambda>(c, (w, tr)). case mw_now W (c, w) of (t, (c', w')) \<Rightarrow> (t, (c', (w', tr))))\<rparr>"

lemmas traced_defs = traced_worker_def traced_store_def traced_signer_def

section \<open>How each step extends the trace\<close>

lemma tracedE:
  assumes "traced f m (c, (w, tr)) = (r, (c', (w', tr')))"
  shows "tr' = tr @ f (returned r)"
  using assms by (auto simp: traced_def split: prod.splits)

lemma clock_traced:
  assumes "clock (traced_worker W) (c, (w, tr)) = (r, (c', (w', tr')))"
  shows "tr' = tr \<and> (\<exists>t. r = Inr t)"
  using assms by (auto simp: clock_def traced_worker_def Let_def split: prod.splits)

text \<open>The calls an attempt ends with when it fails.\<close>

definition gives_up ::
  "attempt \<Rightarrow> string option \<Rightarrow> string option \<Rightarrow> publisher_call list \<Rightarrow> exn + publication \<Rightarrow> bool" where
  "gives_up a journaledId transactionId calls r \<longleftrightarrow>
     (\<exists>code t b. calls = [Marking_Failure (at_outboxId a) journaledId transactionId code t b] \<and>
        (if b then r = Inr Failed else \<exists>e. r = Inl e))"

lemma publish_failed_traced:
  assumes "publish_failed (traced_worker W) a i tx e (c, (w, tr)) = (r, (c', (w', tr')))"
  shows "\<exists>calls. tr' = tr @ calls \<and> gives_up a i tx calls r"
  using assms unfolding publish_failed_def
proof (cases rule: act_bindE)
  case (fails e' )
  from clock_traced [of W c w tr] fails show ?thesis
    by (metis sum.distinct(1) prod.collapse)
next
  case (goes t s1)
  obtain c1 w1 tr1 where s1: "s1 = (c1, (w1, tr1))" by (cases s1) auto
  from clock_traced [OF goes(1) [unfolded s1]] have tr1: "tr1 = tr" by blast
  from goes(2) show ?thesis
  proof (cases rule: act_bindE)
    case (fails e')
    from tracedE [OF fails(1) [unfolded s1, simplified traced_defs, simplified]] fails(2)
    show ?thesis by (auto simp: gives_up_def returned_def tr1)
  next
    case (goes u s2)
    obtain c2 w2 tr2 where s2: "s2 = (c2, (w2, tr2))" by (cases s2) auto
    from tracedE [OF goes(1) [unfolded s1 s2, simplified traced_defs, simplified]] goes(2)
    show ?thesis by (auto simp: gives_up_def returned_def tr1 s2 act_run)
  qed
qed

lemma prepareOfficialEvent_InrE:
  assumes "prepareOfficialEvent H C i a s = (Inr p, s')"
  obtains "pe_idempotencyKey p = in_idempotencyKey i" and "pe_policyVersion p = in_policyVersion i"
    and "pe_authorization p = a"
  using assms unfolding prepareOfficialEvent_def
  by (elim act_bind_InrE)
    (auto simp: act_run prepared_tx.defs split: prod.splits elim!: act_bind_InrE)

text \<open>Broadcasting asks the signer once, for the prepared event.\<close>

lemma broadcast_traced:
  assumes "broadcastOfficialEvent C p (traced_signer S) (c, (w, tr)) = (r, (c', (w', tr')))"
  shows "tr' = tr @ [Signing (signer_request_of p)] \<and>
    (\<forall>b. r = Inr b \<longrightarrow> br_transactionId b = tx_transactionId p)"
  using assms unfolding broadcastOfficialEvent_def Let_def
  by (elim act_bindE act_fstE act_sndE act_ensureE)
    (auto simp: act_run act_fst_eq act_snd_eq Let_def traced_signer_def split: prod.splits)

lemma act_try_splitE:
  assumes "act_try m h k (c, (w, tr)) = (r, s'')"
  obtains (throws) e c1 w1 tr1 where "m (c, (w, tr)) = (Inl e, (c1, (w1, tr1)))"
      and "h e (c1, (w1, tr1)) = (r, s'')"
    | (goes) x c1 w1 tr1 where "m (c, (w, tr)) = (Inr x, (c1, (w1, tr1)))"
      and "k x (c1, (w1, tr1)) = (r, s'')"
  using assms by (cases rule: act_tryE) (metis prod.collapse)+

lemma bind_splitE:
  assumes "act_bind m f (c, (w, tr)) = (r, s'')"
  obtains (fails) e where "m (c, (w, tr)) = (Inl e, s'')" and "r = Inl e"
    | (goes) x c1 w1 tr1 where "m (c, (w, tr)) = (Inr x, (c1, (w1, tr1)))"
      and "f x (c1, (w1, tr1)) = (r, s'')"
  using assms by (cases rule: act_bindE) (metis prod.collapse)+

lemma act_fst_keeps: "act_fst m (c, v) = (r, (c', v')) \<Longrightarrow> v' = v"
  by (auto simp: act_fst_eq Let_def split: prod.splits)

lemma mark_traced:
  assumes "act_bind (clock (traced_worker W)) (\<lambda>t. markBroadcast (mw_store (traced_worker W)) ob i tx t)
    (c, (w, tr)) = (r, (c', (w', tr')))"
  shows "tr' = tr @ [Marking_Broadcast ob i tx (returned r)]"
  using assms
proof (cases rule: bind_splitE)
  case (fails e)
  with clock_traced [OF fails(1)] show ?thesis by simp
next
  case (goes t c1 w1 tr1)
  from clock_traced [OF goes(1)] tracedE [OF goes(2) [simplified traced_defs, simplified]]
  show ?thesis by simp
qed

lemma record_traced:
  assumes "recordSigningAttempt (mw_store (traced_worker W)) rec (c, (w, tr)) = (r, (c', (w', tr')))"
  shows "tr' = tr @ [Journaling rec (returned r)]"
  using tracedE [OF assms [simplified traced_defs, simplified]] .

lemma returned_simps [simp]: "returned (Inr x)" "\<not> returned (Inl e)"
  by (simp_all add: returned_def)

text \<open>The journal entry of an attempt, and the signer request it announces.\<close>

definition announces :: "attempt \<Rightarrow> string \<Rightarrow> signing_record \<Rightarrow> signer_request \<Rightarrow> bool" where
  "announces a i rec q \<longleftrightarrow>
     sg_id rec = i \<and> sg_outboxId rec = at_outboxId a \<and> sg_idempotencyKey rec = attempt_key a \<and>
     rq_idempotencyKey q = attempt_key a \<and> rq_transactionId q = sg_transactionId rec \<and>
     rq_canonicalOperationHash q = sg_canonicalOperationHash rec \<and>
     rq_policyVersion q = sg_policyVersion rec \<and>
     rq_canonicalPayload q = at_canonicalPayload a"

text \<open>The calls after the signer was asked.\<close>

definition settles ::
  "attempt \<Rightarrow> string \<Rightarrow> string \<Rightarrow> publisher_call list \<Rightarrow> exn + publication \<Rightarrow> bool" where
  "settles a i tx calls r \<longleftrightarrow>
     gives_up a (Some i) (Some tx) calls r \<or>
     (calls = [Marking_Broadcast (at_outboxId a) i tx True] \<and> r = Inr Published) \<or>
     (\<exists>rest. calls = Marking_Broadcast (at_outboxId a) i tx False # rest \<and>
        gives_up a (Some i) (Some tx) rest r)"

lemma publish_signed:
  assumes "act_try (broadcastOfficialEvent (mw_chain (traced_worker W)) p (mw_signer (traced_worker W)))
      (publish_failed (traced_worker W) a (Some i) (Some (tx_transactionId p))) (\<lambda>result.
     act_try (act_bind (clock (traced_worker W)) (\<lambda>t.
         markBroadcast (mw_store (traced_worker W)) (at_outboxId a) i (br_transactionId result) t))
       (publish_failed (traced_worker W) a (Some i) (Some (tx_transactionId p))) (\<lambda>_. act_ok Published))
     (c, (w, tr)) = (r, (c', (w', tr')))"
  shows "\<exists>calls. tr' = tr @ Signing (signer_request_of p) # calls \<and>
    settles a i (tx_transactionId p) calls r"
  using assms
proof (cases rule: act_try_splitE)
  case (throws e c1 w1 tr1)
  from broadcast_traced [OF throws(1) [simplified traced_defs, simplified]]
    publish_failed_traced [OF throws(2)]
  show ?thesis by (auto simp: settles_def)
next
  case (goes b c1 w1 tr1)
  from broadcast_traced [OF goes(1) [simplified traced_defs, simplified]]
  have b: "br_transactionId b = tx_transactionId p"
    and tr1: "tr1 = tr @ [Signing (signer_request_of p)]" by auto
  from goes(2) [unfolded b] show ?thesis
  proof (cases rule: act_try_splitE)
    case (throws e c2 w2 tr2)
    from mark_traced [OF throws(1)] publish_failed_traced [OF throws(2)] show ?thesis
      by (auto simp: settles_def tr1)
  next
    case (goes u c2 w2 tr2)
    from mark_traced [OF goes(1)] goes(2) show ?thesis
      by (auto simp: settles_def tr1 act_run)
  qed
qed

lemma publish_prepared:
  assumes "act_try (act_ensure (pe_canonicalPayload p = at_canonicalPayload a)
         (MatchPublisherError invalid_candidate))
       (publish_failed (traced_worker W) a None (Some (tx_transactionId p))) (\<lambda>_.
     act_try (act_lift (signing_record_of (traced_worker W) a i p startedAt))
       (publish_failed (traced_worker W) a None (Some (tx_transactionId p))) (\<lambda>signingRecord.
     act_try (recordSigningAttempt (mw_store (traced_worker W)) signingRecord)
       (publish_failed (traced_worker W) a None (Some (tx_transactionId p))) (\<lambda>_.
     act_try (broadcastOfficialEvent (mw_chain (traced_worker W)) p (mw_signer (traced_worker W)))
       (publish_failed (traced_worker W) a (Some i) (Some (tx_transactionId p))) (\<lambda>result.
     act_try (act_bind (clock (traced_worker W)) (\<lambda>t.
         markBroadcast (mw_store (traced_worker W)) (at_outboxId a) i (br_transactionId result) t))
       (publish_failed (traced_worker W) a (Some i) (Some (tx_transactionId p))) (\<lambda>_.
     act_ok Published))))) (c, (w, tr)) = (r, (c', (w', tr')))"
    and key: "pe_idempotencyKey p = attempt_key a"
  shows "\<exists>calls. tr' = tr @ calls \<and>
    (gives_up a None (Some (tx_transactionId p)) calls r \<or>
     (\<exists>rec rest. calls = Journaling rec False # rest \<and>
        gives_up a None (Some (sg_transactionId rec)) rest r) \<or>
     (\<exists>rec q rest. calls = Journaling rec True # Signing q # rest \<and> announces a i rec q \<and>
        settles a i (sg_transactionId rec) rest r))"
  using assms(1)
proof (cases rule: act_try_splitE)
  case (throws e c1 w1 tr1)
  from publish_failed_traced [OF throws(2)] throws(1) show ?thesis by (auto simp: act_run)
next
  case (goes u c1 w1 tr1)
  then have payload: "pe_canonicalPayload p = at_canonicalPayload a" and tr1: "tr1 = tr"
    by (auto simp: act_run split: if_splits)
  from goes(2) show ?thesis
  proof (cases rule: act_try_splitE)
    case (throws e c2 w2 tr2)
    from publish_failed_traced [OF throws(2)] throws(1) tr1 show ?thesis by (auto simp: act_run)
  next
    case (goes rec c2 w2 tr2)
    then have rec: "signing_record_of (traced_worker W) a i p startedAt = Inr rec" and tr2: "tr2 = tr"
      using tr1 by (auto simp: act_run)
    from rec have tx: "sg_transactionId rec = tx_transactionId p"
      and ann: "announces a i rec (signer_request_of p)"
      using payload key
      by (auto simp: signing_record_of_def ebind_eq_Inr announces_def signer_request_of_def)
    from goes(2) show ?thesis
    proof (cases rule: act_try_splitE)
      case (throws e c3 w3 tr3)
      from record_traced [OF throws(1)] publish_failed_traced [OF throws(2)] tr2 tx show ?thesis
        by auto
    next
      case (goes v c3 w3 tr3)
      from record_traced [OF goes(1)] publish_signed [OF goes(2)] tr2 tx ann show ?thesis
        by auto
    qed
  qed
qed

section \<open>The protocol of an attempt\<close>

text \<open>
  C16. An attempt follows one protocol, whatever the store, the chain and the signer do. The
  signer is asked at most once, only after the attempt was journaled, and for what the journal
  entry announces: its transaction, operation hash and key, with exactly the frozen payload.
  The attempt then ends by being marked broadcast, or, on any failure, by being handed back for
  a retry, with the journal entry when there is one; it is \<open>broadcast\<close> only if marking it
  succeeded, and throws only if its last statement did or its id could not be drawn.
\<close>

theorem publication_protocol:
  assumes "publishAttempt (traced_worker W) a startedAt (c, (w, [])) = (r, (c', (w', calls)))"
  shows "(calls = [] \<and> (\<exists>e. r = Inl e)) \<or>
    (\<exists>tx. gives_up a None tx calls r) \<or>
    (\<exists>rec rest. calls = Journaling rec False # rest \<and>
       gives_up a None (Some (sg_transactionId rec)) rest r) \<or>
    (\<exists>i rec q rest. uuidV7Schema i \<and> calls = Journaling rec True # Signing q # rest \<and>
       announces a i rec q \<and> settles a i (sg_transactionId rec) rest r)"
  using assms unfolding publishAttempt_def Let_def
proof (cases rule: bind_splitE)
  case (fails e)
  from tracedE [OF fails(1) [simplified traced_defs, simplified]] fails(2) show ?thesis
    by (simp add: returned_def)
next
  case (goes drawn c1 w1 tr1)
  from tracedE [OF goes(1) [simplified traced_defs, simplified]] have tr1: "tr1 = []"
    by (simp add: returned_def)
  from goes(2) [unfolded tr1] show ?thesis
  proof (cases rule: bind_splitE)
    case (fails e)
    then show ?thesis by (simp add: act_run)
  next
    case (goes i c2 w2 tr2)
    then have i: "uuidV7Schema i" and tr2: "tr2 = []"
      by (auto simp: act_run checkedUuid_def uuidV7Schema_def ebind_eq_Inr)
    from goes(2) [unfolded tr2] show ?thesis
    proof (cases rule: act_try_splitE)
      case (throws e c3 w3 tr3)
      from act_fst_keeps [OF throws(1)] publish_failed_traced [OF throws(2)] show ?thesis
        by auto
    next
      case (goes p c3 w3 tr3)
      from act_fst_keeps [OF goes(1)] have tr3: "tr3 = []" by simp
      from goes(1) obtain s where "prepareOfficialEvent (mw_host (traced_worker W))
          (mw_chain (traced_worker W)) (attempt_intent (traced_worker W) a)
          (mw_authorization (traced_worker W)) c2 = (Inr p, s)"
        by (auto simp: act_fst_eq Let_def split: prod.splits)
      then have "pe_idempotencyKey p = attempt_key a"
        by (rule prepareOfficialEvent_InrE) (simp add: attempt_intent_def)
      from publish_prepared [OF goes(2) [unfolded tr3] this] i show ?thesis
        by auto
    qed
  qed
qed

section \<open>The attempt of the fixtures\<close>

definition fixture_attempt :: attempt where
  "fixture_attempt = \<lparr>at_outboxId = ''outbox-1'',
     at_eventId = ''0190f6d2-7c00-7000-8000-000000000001'',
     at_batchId = ''0190f6d2-7c00-7000-8000-000000000002'', at_attemptCount = 1,
     at_canonicalPayload = ''match_results_batch'', at_payloadSha256 = replicate 64 (CHR ''c''),
     at_event = fixture_event\<rparr>"

text \<open>A store that takes every call, with a chain that recovers the fixture's key.\<close>

definition fixture_match_worker :: "(fixture_chain_state, unit) worker" where
  "fixture_match_worker = \<lparr>
     mw_host = fixture_host\<lparr>to_iso_string := \<lambda>t. ''t''\<rparr>,
     mw_store = \<lparr>freezeNextBatch = (\<lambda>t p. act_ok None),
       claimNextOutbox = (\<lambda>t lease. act_ok (Some fixture_attempt)),
       recordSigningAttempt = (\<lambda>rec. act_ok ()), markBroadcast = (\<lambda>ob i tx t. act_ok ()),
       markRetryableFailure = (\<lambda>ob i tx code t. act_ok ()),
       reconcileProjectedFinality = (\<lambda>t. act_ok 0)\<rparr>,
     mw_chain = fixture_chain fixture_host fixture_key fixture_digest,
     mw_signer = (\<lambda>q. act_ok \<lparr>rs_signature = fixture_signature, rs_publicKey = fixture_key\<rparr>),
     mw_authorization = fixture_authorization,
     mw_batchPolicy = \<lparr>bp_publisherAccount = ''match-pub'', bp_maximumAgeMs = 60000,
       bp_maximumResults = 20, bp_maximumPayloadBytes = 6144,
       bp_nextUuidV7 = act_ok ''0190f6d2-7c00-7000-8000-000000000009''\<rparr>,
     mw_transactionExpirationSeconds = 30, mw_claimLeaseMs = 60000,
     mw_initialRetryBackoffMs = 1000, mw_maximumRetryBackoffMs = 60000,
     mw_nextUuidV7 = act_ok ''0190f6d2-7c00-7000-8000-000000000009'',
     mw_now = (\<lambda>w. (1000, w))\<rparr>"

definition fixture_calls :: "(exn + publication) \<times> (fixture_chain_state \<times> (unit \<times> publisher_call list))" where
  "fixture_calls = publishAttempt (traced_worker fixture_match_worker) fixture_attempt 1000
     (\<lparr>fx_prepared = None, fx_broadcasts = []\<rparr>, ((), []))"

fun call_kind :: "publisher_call \<Rightarrow> nat" where
  "call_kind (Journaling _ b) = (if b then 1 else 10)"
| "call_kind (Signing _) = 2"
| "call_kind (Marking_Broadcast _ _ _ b) = (if b then 3 else 30)"
| "call_kind (Marking_Failure _ _ _ _ _ b) = (if b then 4 else 40)"

lemma fixture_calls_kinds: "map call_kind (snd (snd (snd fixture_calls))) = [1, 2, 3]"
  by code_simp

lemma publication_protocol_witness:
  "\<exists>i rec q rest. uuidV7Schema i \<and>
     snd (snd (snd fixture_calls)) = Journaling rec True # Signing q # rest \<and>
     announces fixture_attempt i rec q \<and>
     settles fixture_attempt i (sg_transactionId rec) rest (fst fixture_calls)"
proof -
  obtain r c w calls where run: "fixture_calls = (r, (c, (w, calls)))"
    by (metis prod.collapse)
  from fixture_calls_kinds have kinds: "map call_kind calls = [1, 2, 3]"
    by (simp add: run)
  from publication_protocol [OF run [unfolded fixture_calls_def]] show ?thesis
    using kinds by (auto simp: run gives_up_def)
qed

end
