(* ===== verification/Publisher_Properties.thy ===== *)
theory Publisher_Properties
  imports Publisher_Steps
begin

text \<open>
  The properties of the publisher's database, over any sequence of steps, and a fixture of one
  match in one broadcast batch on which they are evaluated.
\<close>

section \<open>A fixture: one match in one broadcast batch\<close>

definition fixture_request_row :: "request_state \<Rightarrow> request_row" where
  "fixture_request_row s = \<lparr>
     pr_id = ''request-1'', pr_round_id = ''round-1'', pr_result_revision_id = ''revision-1'',
     pr_request_type = Initial_Request, pr_state = s, pr_attempt_count = 0,
     pr_next_retry_at = None, pr_last_attempt_at = None, pr_last_failure_code = None,
     pr_published_at = None, pr_created_at = 100\<rparr>"

definition fixture_outbox_row :: "outbox_state \<Rightarrow> outbox_row" where
  "fixture_outbox_row s = \<lparr>
     ob_id = ''outbox-1'', ob_event_uuid = ''event-1'', ob_batch_uuid = Some ''batch-1'',
     ob_event_type = ''match_results_batch'', ob_period_start = None, ob_period_end = None,
     ob_publisher = ''match-pub'', ob_result_count = 1, ob_canonical_payload = ''payload'',
     ob_payload_sha256 = ''hash'', ob_payload_byte_count = 7, ob_state = s,
     ob_attempt_count = 1, ob_next_retry_at = None, ob_last_attempt_at = Some 200,
     ob_last_failure_code = None, ob_hive_transaction_id = Some ''tx-1'',
     ob_operation_id = Some ''operation-1'', ob_included_at = Some ''t1'',
     ob_irreversible_at = None, ob_reverted_at = Some ''t2'', ob_created_at = 150\<rparr>"

definition fixture_item_row :: item_row where
  "fixture_item_row = \<lparr>pi_id = ''item-1'', pi_outbox_id = ''outbox-1'',
     pi_request_id = ''request-1'', pi_round_id = ''round-1'', pi_revision_id = ''revision-1'',
     pi_position = 0\<rparr>"

definition fixture_projected :: "projection_state \<Rightarrow> match_event_row" where
  "fixture_projected s = \<lparr>
     me_event_uuid = ''event-1'', me_batch_uuid = Some ''batch-1'',
     me_operation_id = ''operation-1'', me_event_type = ''match_results_batch'',
     me_period_start = None, me_period_end = None, me_publisher = ''match-pub'',
     me_result_count = 1, me_operation_state = s, me_included_at = ''t1'',
     me_irreversible_at = (if s = Irreversible then Some ''t3'' else None),
     me_reverted_at = (if s = Reverted then Some ''t3'' else None)\<rparr>"

definition fixture_publisher ::
  "request_state \<Rightarrow> outbox_state \<Rightarrow> match_event_row list \<Rightarrow> unit publisher" where
  "fixture_publisher q s events = \<lparr>
     pu_db = \<lparr>pb_requests = [fixture_request_row q], pb_outbox = [fixture_outbox_row s],
       pb_items = [fixture_item_row], pb_intents = [], pb_events = events, pb_now = 300\<rparr>,
     pu_ids = (), pu_faults = []\<rparr>"

definition fixture_publisher_options :: publisher_options where
  "fixture_publisher_options = \<lparr>px_host = fixture_host\<lparr>to_iso_string := \<lambda>t. ''t''\<rparr>,
     px_collation = id,
     px_tables = \<lparr>gt_rounds = [], gt_revisions = [], gt_map_versions = [], gt_assets = [],
       gt_participants = [], gt_players = [], gt_discoveries = [], gt_likes = [],
       gt_match_game_rounds = [], gt_tournament_matches = [], gt_collation = id\<rparr>\<rparr>"

lemmas fixture_rows = fixture_request_row_def fixture_outbox_row_def fixture_item_row_def
  fixture_projected_def

lemma fixture_publisher_ok:
  "batches_ok (pu_db (fixture_publisher Request_Batched Outbox_Broadcast events))"
  by (simp add: fixture_publisher_def fixture_rows batches_ok_def rows_ok_def in_batch_def
      is_batched_def item_sets_complete_def items_of_def Let_def)

lemma fixture_publisher_settled:
  "settled_ok (pu_db (fixture_publisher Request_Batched Outbox_Broadcast events))"
  by (simp add: fixture_publisher_def fixture_rows settled_ok_def)

text \<open>Its event becomes irreversible, and the publisher takes that over.\<close>

lemma fixture_reconcile:
  "fst (pub_reconcileProjectedFinality fixture_publisher_options 400
     (fixture_publisher Request_Batched Outbox_Broadcast [fixture_projected Irreversible])) = Inr 1"
  "map pr_state (pb_requests (pu_db (snd (pub_reconcileProjectedFinality fixture_publisher_options 400
     (fixture_publisher Request_Batched Outbox_Broadcast [fixture_projected Irreversible]))))) =
     [Request_Published]"
  by code_simp+

lemma fixture_reconcile_step:
  "(publisher_step fixture_publisher_options)\<^sup>*\<^sup>*
     (fixture_publisher Request_Batched Outbox_Broadcast [fixture_projected Irreversible])
     (snd (pub_reconcileProjectedFinality fixture_publisher_options 400
       (fixture_publisher Request_Batched Outbox_Broadcast [fixture_projected Irreversible])))"
  by (rule r_into_rtranclp, rule Reconcile, rule prod.collapse [symmetric])

section \<open>Batches\<close>

text \<open>
  C17. Whatever the store of the publisher is asked and however its transactions end, between
  any steps of the projector and of the matches: a request is in one batch at most, it is
  batched exactly when it is in one, and every batch has all its items. What is frozen stays:
  the events, hashes and members of a batch are never changed, and none is dropped.
\<close>

theorem publisher_keeps_batches:
  assumes "(publisher_step P)\<^sup>*\<^sup>* w w'" and "batches_ok (pu_db w)"
  shows "batches_ok (pu_db w') \<and>
    (\<forall>r \<in> set (pb_outbox (pu_db w)). \<exists>r' \<in> set (pb_outbox (pu_db w')).
       frozen_part r' = frozen_part r \<and>
       items_of (pu_db w') (ob_id r') = items_of (pu_db w) (ob_id r))"
proof -
  from steps_keep [OF assms(1)] assms(2)
  have ok: "batches_ok (pu_db w')" and keeps: "keeps_frozen (pu_db w) (pu_db w')"
    by (simp_all add: keeps_batches_def)
  from keeps_frozen_rows [OF keeps] ok show ?thesis by blast
qed

lemma publisher_keeps_batches_witness:
  "batches_ok (pu_db (snd (pub_reconcileProjectedFinality fixture_publisher_options 400
     (fixture_publisher Request_Batched Outbox_Broadcast [fixture_projected Irreversible]))))"
  using publisher_keeps_batches [OF fixture_reconcile_step fixture_publisher_ok] by blast

text \<open>
  C18. A request is published exactly when the outbox row of its batch is irreversible, over any
  steps: nothing else publishes a request, and no step takes a publication back.
\<close>

theorem published_when_irreversible:
  assumes "(publisher_step P)\<^sup>*\<^sup>* w w'" and "batches_ok (pu_db w)" and "settled_ok (pu_db w)"
    and "q \<in> set (pb_requests (pu_db w'))"
  shows "pr_state q = Request_Published \<longleftrightarrow>
    (\<exists>i \<in> set (pb_items (pu_db w')). \<exists>r \<in> set (pb_outbox (pu_db w')).
       pi_request_id i = pr_id q \<and> pi_outbox_id i = ob_id r \<and> ob_state r = Outbox_Irreversible)"
proof -
  from steps_keep [OF assms(1)] steps_settle [OF assms(1)] assms(2,3)
  have ok: "rows_ok (pu_db w')" "settled_ok (pu_db w')"
    by (simp_all add: keeps_batches_def keeps_settled_def batches_ok_def)
  then show ?thesis using assms(4) by (rule published_iff)
qed

lemma published_when_irreversible_witness:
  "\<exists>(i :: item_row) (r :: outbox_row). pi_request_id i = ''request-1'' \<and> pi_outbox_id i = ob_id r \<and>
     ob_state r = Outbox_Irreversible"
proof -
  let ?w = "snd (pub_reconcileProjectedFinality fixture_publisher_options 400
    (fixture_publisher Request_Batched Outbox_Broadcast [fixture_projected Irreversible]))"
  have "map (\<lambda>q. (pr_id q, pr_state q)) (pb_requests (pu_db ?w)) =
      [(''request-1'', Request_Published)]"
    by code_simp
  then obtain q where q: "q \<in> set (pb_requests (pu_db ?w))" "pr_id q = ''request-1''"
    "pr_state q = Request_Published"
    by auto
  from published_when_irreversible [OF fixture_reconcile_step fixture_publisher_ok
    fixture_publisher_settled q(1)] q(2,3) show ?thesis by simp blast
qed

section \<open>A reverted event\<close>

text \<open>
  A batch that was broadcast again after its event was reverted is taken back on the next
  cycle, as long as the projector still holds the reverted event: the row is reverted again,
  without delay, and the worker may claim and broadcast it once more in that same cycle.
\<close>

theorem reverted_is_broadcast_again:
  assumes "pub_reconcileProjectedFinality P now w = (Inr n, w')"
    and "r \<in> set (pb_outbox (pu_db w))" and "ob_event_type r = ''match_results_batch''"
    and "ob_state r = Outbox_Broadcast"
    and "List.find (\<lambda>e. me_event_uuid e = ob_event_uuid r) (pb_events (pu_db w)) = Some e"
    and "me_operation_state e = Reverted"
  shows "\<exists>r' \<in> set (pb_outbox (pu_db w')). frozen_part r' = frozen_part r \<and>
    ob_state r' = Outbox_Reverted \<and> is_claimable now r'"
proof -
  from assms(1) obtain db where "reconcile_statement now (pu_db w) = Some db" "pu_db w' = db"
    unfolding pub_reconcileProjectedFinality_def
    by (auto elim!: pub_transaction_InrE act_bind_InrE pub_readE pub_sql_InrE simp: act_run)
  then have "pb_outbox (pu_db w') = map (\<lambda>r. if newer_event (pu_db w) r \<noteq> None
      then follow (pu_db w) now r else r) (pb_outbox (pu_db w))"
    using reconcile_outbox by blast
  moreover have "newer_event (pu_db w) r = Some e"
    using assms(4-6) by (simp add: newer_event_def)
  ultimately have "follow_event now e r \<in> set (pb_outbox (pu_db w'))"
    using assms(2) by (force simp: follow_def)
  moreover have "frozen_part (follow_event now e r) = frozen_part r \<and>
      ob_state (follow_event now e r) = Outbox_Reverted \<and> is_claimable now (follow_event now e r)"
    using assms(3,6) by (simp add: follow_event_def frozen_part_def is_claimable_def)
  ultimately show ?thesis by blast
qed

lemma reverted_is_broadcast_again_witness:
  "\<exists>r' \<in> set (pb_outbox (pu_db (snd (pub_reconcileProjectedFinality fixture_publisher_options 400
      (fixture_publisher Request_Batched Outbox_Broadcast [fixture_projected Reverted]))))).
     ob_state r' = Outbox_Reverted \<and> is_claimable 400 r'"
proof -
  let ?w = "fixture_publisher Request_Batched Outbox_Broadcast [fixture_projected Reverted]"
  have "fst (pub_reconcileProjectedFinality fixture_publisher_options 400 ?w) = Inr 1"
    by code_simp
  then have "pub_reconcileProjectedFinality fixture_publisher_options 400 ?w =
      (Inr 1, snd (pub_reconcileProjectedFinality fixture_publisher_options 400 ?w))"
    by (metis prod.collapse)
  from reverted_is_broadcast_again [OF this, of "fixture_outbox_row Outbox_Broadcast"
      "fixture_projected Reverted"]
  show ?thesis by (auto simp: fixture_publisher_def fixture_rows)
qed

end
