(* ===== verification/Publisher_Runtime.thy ===== *)
theory Publisher_Runtime
  imports Publisher_Parked Publisher_Trace Publisher_Properties
begin

text \<open>
  Properties of the publisher as it runs: what any number of cycles leaves of the tables, and
  the rows on which it waits.
\<close>

section \<open>A worker on the fixture's tables\<close>

definition fixture_ids :: "'u publisher batch_policy" where
  "fixture_ids = \<lparr>bp_publisherAccount = ''match-pub'', bp_maximumAgeMs = 60000,
     bp_maximumResults = 20, bp_maximumPayloadBytes = 6144,
     bp_nextUuidV7 = act_ok ''0190f6d2-7c00-7000-8000-000000000009''\<rparr>"

definition fixture_publisher_worker :: "(fixture_chain_state, unit \<times> unit publisher) worker" where
  "fixture_publisher_worker = \<lparr>
     mw_host = px_host fixture_publisher_options,
     mw_store = store_of fixture_publisher_options fixture_ids,
     mw_chain = fixture_chain fixture_host fixture_key fixture_digest,
     mw_signer = (\<lambda>q. act_ok \<lparr>rs_signature = fixture_signature, rs_publicKey = fixture_key\<rparr>),
     mw_authorization = fixture_authorization,
     mw_batchPolicy = \<lparr>bp_publisherAccount = ''match-pub'', bp_maximumAgeMs = 60000,
       bp_maximumResults = 20, bp_maximumPayloadBytes = 6144,
       bp_nextUuidV7 = act_ok ''0190f6d2-7c00-7000-8000-000000000009''\<rparr>,
     mw_transactionExpirationSeconds = 30, mw_claimLeaseMs = 60000,
     mw_initialRetryBackoffMs = 1000, mw_maximumRetryBackoffMs = 60000,
     mw_nextUuidV7 = act_ok ''0190f6d2-7c00-7000-8000-000000000009'',
     mw_now = (\<lambda>w. (400, w))\<rparr>"

definition fixture_start ::
  "outbox_state \<Rightarrow> match_event_row list \<Rightarrow> fixture_chain_state \<times> (unit \<times> unit publisher)" where
  "fixture_start s events =
     (\<lparr>fx_prepared = None, fx_broadcasts = []\<rparr>, ((), fixture_publisher Request_Batched s events))"

lemma fixture_works: "works_on fixture_publisher_options fixture_ids fixture_publisher_worker"
  by (auto simp: works_on_def fixture_publisher_worker_def fixture_ids_def draws_ids_def act_run)

section \<open>Cycles are steps\<close>

text \<open>
  Any number of cycles of the worker, with any chain, any signer that does not write the tables and
  any failures of the database, is a run of operations of the store: what all of them keep, the
  worker keeps.
\<close>

lemma run_worker_steps:
  assumes "works_on P policy W" and "run_worker W n w = (log, w')"
  shows "(publisher_step P)\<^sup>*\<^sup>* (snd (snd w)) (snd (snd w'))"
  using assms(2)
proof (induction n arbitrary: w log)
  case (Suc n)
  obtain r w1 where one: "processOnce W w = (r, w1)" by (cases "processOnce W w")
  then obtain log' where "run_worker W n w1 = (log', w')"
    using Suc.prems by (auto split: sum.splits prod.splits)
  from Suc.IH [OF this] takes_stepsD [OF cycle_steps [OF assms(1)] one]
  show ?case by (rule rtranclp_trans [rotated])
qed simp

section \<open>Rows that wait\<close>

text \<open>
  A row in \<open>broadcast\<close> is touched by no cycle until the projector has seen its event: the
  worker never broadcasts it again, however much time passes. If the accepted transaction
  expires before a block includes it, its batch stays unpublished.
\<close>

theorem broadcast_row_waits:
  assumes "works_on P policy W" and "run_worker W n w = (log, w')"
    and "batches_ok (tables w)" and "r \<in> set (pb_outbox (tables w))"
    and "ob_state r = Outbox_Broadcast"
    and "\<forall>e \<in> set (pb_events (tables w)). me_event_uuid e \<noteq> ob_event_uuid r"
  shows "r \<in> set (pb_outbox (tables w'))"
proof -
  have "idles r w"
    using assms(3-6) by (simp add: idles_def parked_def batches_ok_def)
  from idles_run [OF assms(1,2) this] show ?thesis
    by (simp add: idles_def parked_def)
qed

lemma broadcast_row_waits_witness:
  "fixture_outbox_row Outbox_Broadcast \<in> set (pb_outbox (tables (snd
     (run_worker fixture_publisher_worker 5 (fixture_start Outbox_Broadcast [])))))"
proof (rule broadcast_row_waits [OF fixture_works])
  show "run_worker fixture_publisher_worker 5 (fixture_start Outbox_Broadcast []) =
      (fst (run_worker fixture_publisher_worker 5 (fixture_start Outbox_Broadcast [])),
       snd (run_worker fixture_publisher_worker 5 (fixture_start Outbox_Broadcast [])))"
    by simp
  show "batches_ok (tables (fixture_start Outbox_Broadcast []))"
    using fixture_publisher_ok [of "[]"] by (simp add: tables_def fixture_start_def)
qed (simp_all add: tables_def fixture_start_def fixture_publisher_def fixture_rows)

section \<open>A row the lifecycle refuses\<close>

lemma reconcile_refused:
  assumes "r \<in> set (pb_outbox db)" and "ob_state r = Outbox_Reverted"
    and "List.find (\<lambda>e. me_event_uuid e = ob_event_uuid r) (pb_events db) = Some e"
    and "me_operation_state e = Irreversible"
  shows "reconcile_statement now db = None"
proof -
  have "newer_event db r = Some e"
    using assms(2-4) by (simp add: newer_event_def)
  moreover have "\<not> outbox_updatable r (follow db now r)"
    using assms(2,4) calculation
    by (simp add: outbox_updatable_def follow_def follow_event_def)
  ultimately have "\<not> list_all (\<lambda>r. newer_event db r \<noteq> None \<longrightarrow>
      outbox_updatable r (follow db now r)) (pb_outbox db)"
    using assms(1) by (auto simp: list_all_iff)
  then show ?thesis
    by (simp add: reconcile_statement_def update_outbox_def)
qed

lemma stuck_cycle:
  assumes "works_on P policy W"
    and "r \<in> set (pb_outbox (tables w))" and "ob_state r = Outbox_Reverted"
    and "List.find (\<lambda>e. me_event_uuid e = ob_event_uuid r) (pb_events (tables w)) = Some e"
    and "me_operation_state e = Irreversible"
  obtains err w' where "processOnce W w = (Inl err, w')"
    and "stableErrorCode err = ''publication_failed''" and "tables w' = tables w"
proof -
  have store: "mw_store W = store_of P policy"
    using assms(1) by (simp add: works_on_def)
  obtain t w1 where now: "mw_now W w = (t, w1)" by (cases "mw_now W w")
  then have clock: "clock W w = (Inr t, w1)" and w1: "tables w1 = tables w"
    using assms(1) unfolding works_on_def by (simp add: clock_def, blast)
  let ?work = "act_bind (act_lift (instant (px_host P) t)) (\<lambda>at.
      act_bind (pub_read (\<lambda>db. length (filter (\<lambda>r. newer_event db r \<noteq> None) (pb_outbox db))))
        (\<lambda>changed_count. act_bind (pub_sql (reconcile_statement at)) (\<lambda>_. act_ok changed_count)))"
  let ?u = "snd (snd w1)"
  let ?v = "?u\<lparr>pu_faults := tl (pu_faults ?u)\<rparr>"
  have refused: "reconcile_statement t (pu_db ?u) = None"
    using reconcile_refused [OF assms(2-5)] w1 by (simp add: tables_def)
  have "\<exists>err. ?work ?v = (Inl err, ?v) \<and> stableErrorCode err = ''publication_failed''"
  proof (cases "instant (px_host P) t")
    case (Inl e)
    then have "e = OtherError ''RangeError''"
      by (auto simp: instant_def toISOString_def ebind_eq_Inl ensure_def split: if_splits)
    with Inl show ?thesis by (simp add: act_bind_def act_run stableErrorCode_def)
  next
    case (Inr at)
    then have i: "instant (px_host P) t = Inr t" by simp
    from refused show ?thesis
      by (simp add: i act_bind_def act_run pub_read_def pub_sql_def publisher_database_error_def
          stableErrorCode_def)
  qed
  then obtain err where work: "?work ?v = (Inl err, ?v)"
    and code: "stableErrorCode err = ''publication_failed''" by blast
  then obtain u where "pub_reconcileProjectedFinality P t ?u = (Inl err, u)" "pu_db u = pu_db ?u"
    unfolding pub_reconcileProjectedFinality_def pub_transaction_unfold by simp
  then have "reconcileProjectedFinality (mw_store W) t w1 = (Inl err, (fst w1, (fst (snd w1), u)))"
    by (simp add: store store_of_def postgres_publication_store_def Let_def act_snd_def act_on_def)
  with clock have "processOnce W w = (Inl err, (fst w1, (fst (snd w1), u)))"
    by (simp add: processOnce_def act_bind_def)
  from that [OF this code] \<open>pu_db u = pu_db ?u\<close> w1 show thesis
    by (simp add: tables_def)
qed

text \<open>
  C39. One row stops the publisher for good: when the projector has made the event of a reverted
  row irreversible, the lifecycle trigger refuses the update of the reconciliation, which every
  cycle begins with. Every cycle then fails, whatever else waits to be frozen or published.
\<close>

theorem reverted_row_stalls:
  assumes "works_on P policy W"
    and "r \<in> set (pb_outbox (tables w))" and "ob_state r = Outbox_Reverted"
    and "List.find (\<lambda>e. me_event_uuid e = ob_event_uuid r) (pb_events (tables w)) = Some e"
    and "me_operation_state e = Irreversible"
  shows "fst (run_worker W n w) = replicate n (Cycle_Failed ''publication_failed'') \<and>
    tables (snd (run_worker W n w)) = tables w"
  using assms(2,4)
proof (induction n arbitrary: w)
  case (Suc n)
  from stuck_cycle [OF assms(1) Suc.prems(1) assms(3) Suc.prems(2) assms(5)] obtain err w'
    where one: "processOnce W w = (Inl err, w')"
      and code: "stableErrorCode err = ''publication_failed''" and same: "tables w' = tables w" .
  obtain log w2 where rest: "run_worker W n w' = (log, w2)" by (cases "run_worker W n w'")
  from Suc.IH [of w'] Suc.prems show ?case
    by (simp add: one code same rest)
qed simp

lemma reverted_row_stalls_witness:
  "fst (run_worker fixture_publisher_worker 4
     (fixture_start Outbox_Reverted [fixture_projected Irreversible])) =
   replicate 4 (Cycle_Failed ''publication_failed'')"
  using reverted_row_stalls [OF fixture_works, of "fixture_outbox_row Outbox_Reverted"
      "fixture_start Outbox_Reverted [fixture_projected Irreversible]"
      "fixture_projected Irreversible" 4]
  by (simp add: tables_def fixture_start_def fixture_publisher_def fixture_rows)

end
