(* ===== verification/Projector_Worker.thy ===== *)
theory Projector_Worker
  imports Haf_Projector
begin

text \<open>
  The loop around the projector (\<open>haf-projector/src/runtime/projector-worker.ts\<close>): cycle after
  cycle until the signal is aborted, with a pause that doubles while cycles fail. What it logs,
  and how long it sleeps after it, is the list a run returns.
\<close>

record projector_worker_options =
  wo_pollIntervalMs :: int
  wo_initialFailureBackoffMs :: int
  wo_maximumFailureBackoffMs :: int

definition assertWorkerOptions :: "projector_worker_options \<Rightarrow> exn + unit" where
  "assertWorkerOptions W =
     ebind (ensure (\<not> list_ex (\<lambda>value. \<not> is_safe_integer value \<or> value < 1)
         [wo_pollIntervalMs W, wo_initialFailureBackoffMs W, wo_maximumFailureBackoffMs W])
       (OtherError ''TypeError'')) (\<lambda>_.
     ensure (\<not> wo_maximumFailureBackoffMs W < wo_initialFailureBackoffMs W)
       (OtherError ''TypeError''))"

definition failureBackoff :: "nat \<Rightarrow> int \<Rightarrow> int \<Rightarrow> int" where
  "failureBackoff failures initial maximum =
     (let exponent = min (max (int failures - 1) 0) 30 in min maximum (initial * 2 ^ nat exponent))"

fun projector_code_name :: "projector_code \<Rightarrow> string" where
  "projector_code_name cursor_conflict = ''cursor_conflict''"
| "projector_code_name database_unavailable = ''database_unavailable''"
| "projector_code_name invalid_source_response = ''invalid_source_response''"
| "projector_code_name irreversible_fork = ''irreversible_fork''"
| "projector_code_name reorg_too_deep = ''reorg_too_deep''"
| "projector_code_name source_divergence = ''source_divergence''"
| "projector_code_name source_unavailable = ''source_unavailable''"

text \<open>The type and the code of an error, as they are logged.\<close>

definition classifyFailure :: "exn \<Rightarrow> string \<times> string" where
  "classifyFailure error =
     (case error of
        HafProjectorError c \<Rightarrow> (''HafProjectorError'', projector_code_name c)
      | _ \<Rightarrow> (''UnexpectedError'', ''unexpected_error''))"

datatype projector_log =
    Projection_Completed run_result int
  | Projection_Failed nat int "string \<times> string"

text \<open>The last argument of an entry's delay is what the loop sleeps before it goes on.\<close>

fun logged_delay :: "projector_log \<Rightarrow> int" where
  "logged_delay (Projection_Completed result delayMs) = delayMs"
| "logged_delay (Projection_Failed failures delayMs failure) = delayMs"

text \<open>
  \<open>run\<close>, for the number of turns before the signal is seen to be aborted; the first argument
  after the cycle is \<open>consecutiveFailures\<close>.
\<close>

fun run_projector ::
  "projector_worker_options \<Rightarrow> ('w, run_result) action \<Rightarrow> nat \<Rightarrow> nat \<Rightarrow> 'w \<Rightarrow> projector_log list \<times> 'w"
where
  "run_projector W cycle consecutiveFailures 0 w = ([], w)"
| "run_projector W cycle consecutiveFailures (Suc n) w =
     (case cycle w of
        (Inr result, w') \<Rightarrow>
          (let (log, w'') = run_projector W cycle 0 n w' in
           (Projection_Completed result (wo_pollIntervalMs W) # log, w''))
      | (Inl error, w') \<Rightarrow>
          (let failures = consecutiveFailures + 1;
               delayMs = failureBackoff failures (wo_initialFailureBackoffMs W)
                 (wo_maximumFailureBackoffMs W);
               (log, w'') = run_projector W cycle failures n w' in
           (Projection_Failed failures delayMs (classifyFailure error) # log, w'')))"

definition HafProjectorWorker_new :: "projector_worker_options \<Rightarrow> exn + projector_worker_options" where
  "HafProjectorWorker_new W = ebind (assertWorkerOptions W) (\<lambda>_. Inr W)"

section \<open>The pauses\<close>

lemma backoff_bounds:
  assumes "1 \<le> initial" and "initial \<le> maximum"
  shows "initial \<le> failureBackoff k initial maximum \<and> failureBackoff k initial maximum \<le> maximum"
proof -
  have "initial * 1 \<le> initial * 2 ^ n" for n :: nat
    using assms(1) by (intro mult_left_mono) auto
  with assms show ?thesis by (simp add: failureBackoff_def Let_def)
qed

lemma backoff_first: "1 \<le> initial \<Longrightarrow> initial \<le> maximum \<Longrightarrow> failureBackoff 1 initial maximum = initial"
  by (simp add: failureBackoff_def)

text \<open>Each further failure in a row doubles the pause, up to the maximum.\<close>

lemma backoff_doubles:
  assumes "1 \<le> initial" and "1 \<le> k" and "k \<le> 30"
  shows "failureBackoff (Suc k) initial maximum = min maximum (2 * failureBackoff k initial maximum) \<or>
    maximum < 0"
proof -
  obtain j where k: "k = Suc j" using assms(2) by (cases k) auto
  have "nat (min (max (int (Suc k) - 1) 0) 30) = Suc j"
    "nat (min (max (int k - 1) 0) 30) = j"
    using assms(3) by (simp_all add: k)
  then show ?thesis
    unfolding failureBackoff_def Let_def by (auto simp: min_def)
qed

text \<open>How many failures end a log, when so many came before it.\<close>

fun failures_in_a_row :: "nat \<Rightarrow> projector_log list \<Rightarrow> nat" where
  "failures_in_a_row k [] = k"
| "failures_in_a_row k (Projection_Completed _ _ # log) = failures_in_a_row 0 log"
| "failures_in_a_row k (Projection_Failed _ _ _ # log) = failures_in_a_row (Suc k) log"

definition entry_ok :: "projector_worker_options \<Rightarrow> nat \<Rightarrow> projector_log list \<Rightarrow> nat \<Rightarrow> bool" where
  "entry_ok W k log i \<longleftrightarrow>
     (case log ! i of
        Projection_Completed _ delayMs \<Rightarrow> delayMs = wo_pollIntervalMs W
      | Projection_Failed failures delayMs _ \<Rightarrow>
          failures = failures_in_a_row k (take (Suc i) log) \<and>
          delayMs = failureBackoff failures (wo_initialFailureBackoffMs W)
            (wo_maximumFailureBackoffMs W))"

lemma run_projector_entries:
  "length (fst (run_projector W cycle k n w)) = n \<and>
   (\<forall>i < n. entry_ok W k (fst (run_projector W cycle k n w)) i)"
proof (induction n arbitrary: k w)
  case (Suc n)
  obtain r w' where one: "cycle w = (r, w')" by (cases "cycle w")
  show ?case
  proof (cases r)
    case (Inl e)
    obtain log w2 where rest: "run_projector W cycle (Suc k) n w' = (log, w2)"
      by (cases "run_projector W cycle (Suc k) n w'")
    from Suc.IH [of "Suc k" w'] show ?thesis
      by (auto simp: one Inl rest entry_ok_def Let_def less_Suc_eq_0_disj split: projector_log.split)
  next
    case (Inr x)
    obtain log w2 where rest: "run_projector W cycle 0 n w' = (log, w2)"
      by (cases "run_projector W cycle 0 n w'")
    from Suc.IH [of 0 w'] show ?thesis
      by (auto simp: one Inr rest entry_ok_def Let_def less_Suc_eq_0_disj split: projector_log.split)
  qed
qed simp

text \<open>
  A worker that the constructor accepts paces its cycles: after a cycle that completes it
  sleeps the poll interval, after the k-th failure in a row it sleeps the k-th backoff, which is
  never below the initial nor above the maximum one, and it never stops because a cycle failed.
\<close>

theorem projector_worker_paces:
  assumes "HafProjectorWorker_new W = Inr W'" and "run_projector W' cycle 0 n w = (log, w')"
    and "i < n"
  shows "length log = n \<and>
    (case log ! i of
       Projection_Completed _ delayMs \<Rightarrow> delayMs = wo_pollIntervalMs W
     | Projection_Failed failures delayMs _ \<Rightarrow>
         failures = failures_in_a_row 0 (take (Suc i) log) \<and>
         delayMs = failureBackoff failures (wo_initialFailureBackoffMs W) (wo_maximumFailureBackoffMs W) \<and>
         wo_initialFailureBackoffMs W \<le> delayMs \<and> delayMs \<le> wo_maximumFailureBackoffMs W)"
proof -
  from assms(1) have W': "W' = W"
    and "1 \<le> wo_initialFailureBackoffMs W" "wo_initialFailureBackoffMs W \<le> wo_maximumFailureBackoffMs W"
    by (auto simp: HafProjectorWorker_new_def assertWorkerOptions_def ebind_eq_Inr ensure_def
        split: if_splits)
  with run_projector_entries [of W cycle 0 n w] assms(2,3) backoff_bounds show ?thesis
    by (auto simp: entry_ok_def split: projector_log.splits)
qed

text \<open>A worker whose cycles all fail, with a second, a doubling and a maximum of three.\<close>

definition fixture_worker :: projector_worker_options where
  "fixture_worker = \<lparr>wo_pollIntervalMs = 3000, wo_initialFailureBackoffMs = 1000,
     wo_maximumFailureBackoffMs = 3000\<rparr>"

definition fixture_failures :: "nat \<Rightarrow> projector_log list \<times> unit" where
  "fixture_failures n =
     run_projector fixture_worker (act_fail (HafProjectorError source_unavailable)) 0 n ()"

lemma projector_worker_paces_witness:
  "length (fst (fixture_failures 3)) = 3 \<and>
   map logged_delay (fst (fixture_failures 3)) = [1000, 2000, 3000]"
proof -
  have new: "HafProjectorWorker_new fixture_worker = Inr fixture_worker" by code_simp
  have run: "run_projector fixture_worker (act_fail (HafProjectorError source_unavailable)) 0 3 () =
      (fst (fixture_failures 3), snd (fixture_failures 3))"
    unfolding fixture_failures_def by (rule surjective_pairing)
  have "length (fst (fixture_failures 3)) = 3"
    using projector_worker_paces [OF new run, of 0] by simp
  moreover have "map logged_delay (fst (fixture_failures 3)) = [1000, 2000, 3000]" by code_simp
  ultimately show ?thesis by simp
qed

end
