(* ===== verification/Auth_Config.thy ===== *)
theory Auth_Config
  imports Fixtures Effects
begin

text \<open>
  The configuration of the API's authentication (\<open>auth/auth.config.ts\<close>), read from the
  environment, and what the authentication code takes from \<open>node:crypto\<close>, \<open>Buffer\<close> and
  \<open>JSON.stringify\<close>: the fields of a record. A buffer is the string of its bytes, a \<open>Date\<close> its
  milliseconds.
\<close>

section \<open>Functions from outside the repository\<close>

record crypto =
  hmac_sha256 :: "string \<Rightarrow> string \<Rightarrow> string"
  hmac_base64url :: "string \<Rightarrow> string \<Rightarrow> string"
  hmac_hex :: "string \<Rightarrow> string \<Rightarrow> string"
  base64url_text :: "string \<Rightarrow> string"
  text_of_base64url :: "string \<Rightarrow> string"
  bytes_of_base64url :: "string \<Rightarrow> string"
  json_stringify :: "(string \<times> json) list \<Rightarrow> string"
  zod_uuid :: "string \<Rightarrow> bool"

text \<open>
  \<open>hmac_sha256 key text\<close> is \<open>createHmac('sha256', key).update(text).digest()\<close>, and the next
  two its \<open>digest('base64url')\<close> and \<open>digest('hex')\<close>; \<open>base64url_text\<close> is
  \<open>Buffer.from(text).toString('base64url')\<close>, \<open>text_of_base64url\<close> is
  \<open>Buffer.from(text, 'base64url').toString('utf8')\<close>, \<open>bytes_of_base64url\<close> is
  \<open>Buffer.from(text, 'base64url')\<close>; \<open>json_stringify\<close> is \<open>JSON.stringify\<close> of an object
  literal, \<open>zod_uuid\<close> the format check \<open>z.string().uuid()\<close>.
\<close>

section \<open>Strings\<close>

text \<open>\<open>value.trim()\<close>: the white space and line ends below 256.\<close>

definition js_white :: "char \<Rightarrow> bool" where
  "js_white c \<longleftrightarrow> (of_char c :: nat) \<in> {9, 10, 11, 12, 13, 32, 160}"

definition js_trim :: "string \<Rightarrow> string" where
  "js_trim s = rev (dropWhile js_white (rev (dropWhile js_white s)))"

text \<open>\<open>Number.parseInt(value, 10)\<close> of digits.\<close>

fun parse_decimal_from :: "int \<Rightarrow> string \<Rightarrow> int" where
  "parse_decimal_from a [] = a"
| "parse_decimal_from a (c # cs) = parse_decimal_from (10 * a + (of_char c - 48)) cs"

section \<open>The configuration\<close>

record google_config =
  gc_clientId :: string
  gc_clientSecret :: string
  gc_redirectUris :: "string list"

record auth_config =
  ac_accessTokenTtlSeconds :: int
  ac_audience :: string
  ac_challengeTtlSeconds :: int
  ac_google :: "google_config option"
  ac_hiveChainId :: string
  ac_hiveRpcUrl :: string
  ac_identityLookupKey :: string
  ac_issuer :: string
  ac_refreshTokenTtlSeconds :: int
  ac_tokenKey :: string

type_synonym environment = "string \<Rightarrow> string option"

abbreviation configError :: exn where
  "configError \<equiv> OtherError ''Error''"

text \<open>\<open>environment.NAME?.trim()\<close>, with \<open>''\<close> for \<open>undefined\<close>, and \<open>... || fallback\<close>.\<close>

definition env_trimmed :: "environment \<Rightarrow> string \<Rightarrow> string" where
  "env_trimmed env name = (case env name of None \<Rightarrow> '''' | Some v \<Rightarrow> js_trim v)"

definition env_or :: "environment \<Rightarrow> string \<Rightarrow> string \<Rightarrow> string" where
  "env_or env name fallback = (let v = env_trimmed env name in if v = '''' then fallback else v)"

definition readInteger :: "string option \<Rightarrow> int \<Rightarrow> int \<Rightarrow> int \<Rightarrow> exn + int" where
  "readInteger value' fallback minimum maximum =
     (case value' of
        None \<Rightarrow> Inr fallback
      | Some v \<Rightarrow>
          if v = '''' then Inr fallback
          else ebind (ensure (list_all is_digit v) configError) (\<lambda>_.
            let parsed = parse_decimal_from 0 v in
            ebind (ensure (\<not> (parsed < minimum \<or> parsed > maximum)) configError) (\<lambda>_.
            Inr parsed)))"

text \<open>\<open>/^[A-Za-z0-9_-]{43,}$/\<close>, and at least 32 bytes of it.\<close>

definition secret_pattern :: "string \<Rightarrow> bool" where
  "secret_pattern v \<longleftrightarrow>
     43 \<le> length v \<and> list_all (\<lambda>c. is_upper c \<or> is_lower c \<or> is_digit c \<or> is_one_of ''_-'' c) v"

definition decodeSecret :: "crypto \<Rightarrow> string \<Rightarrow> exn + string" where
  "decodeSecret K v =
     ebind (ensure (secret_pattern v) configError) (\<lambda>_.
     let decoded = bytes_of_base64url K v in
     ebind (ensure (\<not> length decoded < 32) configError) (\<lambda>_. Inr decoded))"

definition missingSecret :: "exn + string" where
  "missingSecret = Inl configError"

text \<open>\<open>random n\<close> is \<open>randomBytes(n)\<close>.\<close>

definition readSecret ::
  "crypto \<Rightarrow> (nat \<Rightarrow> ('s, string) action) \<Rightarrow> string option \<Rightarrow> bool \<Rightarrow> ('s, string) action" where
  "readSecret K random value' required =
     (case value' of
        Some (c # cs) \<Rightarrow> act_lift (decodeSecret K (c # cs))
      | _ \<Rightarrow> if required then act_lift missingSecret else random 32)"

definition assertHttpsEndpoint :: "host \<Rightarrow> string \<Rightarrow> exn + unit" where
  "assertHttpsEndpoint H v =
     ebind (of_option configError (parse_url H v)) (\<lambda>url.
     ensure (\<not> (url_protocol url \<noteq> ''https:'' \<or> url_username url \<noteq> '''' \<or> url_password url \<noteq> '''' \<or>
       url_search url \<noteq> '''' \<or> url_hash url \<noteq> '''')) configError)"

definition canonicalRedirectUri :: "host \<Rightarrow> bool \<Rightarrow> string \<Rightarrow> exn + string" where
  "canonicalRedirectUri H production v =
     ebind (of_option configError (parse_url H v)) (\<lambda>url.
     let localDevelopment = \<not> production \<and> url_protocol url = ''http:'' \<and>
       (url_hostname url = ''127.0.0.1'' \<or> url_hostname url = ''localhost'') in
     ebind (ensure (\<not> ((\<not> localDevelopment \<and> url_protocol url \<noteq> ''https:'') \<or>
       url_username url \<noteq> '''' \<or> url_password url \<noteq> '''' \<or> url_hash url \<noteq> '''')) configError) (\<lambda>_.
     Inr (url_href url)))"

fun each_value :: "('a \<Rightarrow> exn + 'b) \<Rightarrow> 'a list \<Rightarrow> exn + 'b list" where
  "each_value f [] = Inr []"
| "each_value f (x # xs) =
     ebind (f x) (\<lambda>y. ebind (each_value f xs) (\<lambda>ys. Inr (y # ys)))"

definition readGoogleConfig :: "host \<Rightarrow> environment \<Rightarrow> bool \<Rightarrow> exn + google_config option" where
  "readGoogleConfig H env production =
     (let clientId = env_trimmed env ''GOOGLE_OIDC_CLIENT_ID'';
          clientSecret = env_trimmed env ''GOOGLE_OIDC_CLIENT_SECRET'';
          redirectValues = filter (\<lambda>v. v \<noteq> '''') (map js_trim (js_split (CHR '','')
            (case env ''GOOGLE_OIDC_REDIRECT_URIS'' of None \<Rightarrow> '''' | Some v \<Rightarrow> v)))
      in if clientId = '''' \<and> clientSecret = '''' \<and> redirectValues = [] then Inr None
         else ebind (ensure (\<not> (clientId = '''' \<or> clientSecret = '''' \<or> redirectValues = []))
             configError) (\<lambda>_.
           ebind (each_value (canonicalRedirectUri H production) redirectValues) (\<lambda>uris.
           Inr (Some \<lparr>gc_clientId = clientId, gc_clientSecret = clientSecret,
             gc_redirectUris = remdups uris\<rparr>))))"

definition loadAuthConfig ::
  "host \<Rightarrow> crypto \<Rightarrow> (nat \<Rightarrow> ('s, string) action) \<Rightarrow> environment \<Rightarrow> ('s, auth_config) action" where
  "loadAuthConfig H K random env =
     (let production = (env ''NODE_ENV'' = Some ''production'');
          hiveRpcUrl = env_or env ''HIVE_RPC_URL'' ''https://api.hive.blog/'';
          hiveChainId = env_or env ''HIVE_CHAIN_ID'' (replicate 64 (CHR ''0'')) in
      act_bind (readSecret K random (env ''AUTH_TOKEN_SECRET'') production) (\<lambda>tokenKey.
      act_bind (act_lift (case env ''AUTH_IDENTITY_LOOKUP_KEY'' of
          Some (c # cs) \<Rightarrow> decodeSecret K (c # cs)
        | _ \<Rightarrow> if production then missingSecret else Inr tokenKey)) (\<lambda>identityLookupKey.
      act_bind (act_lift (assertHttpsEndpoint H hiveRpcUrl)) (\<lambda>_.
      act_bind (act_ensure (is_hex_string 64 hiveChainId) configError) (\<lambda>_.
      act_bind (act_lift (readInteger (env ''AUTH_ACCESS_TTL_SECONDS'') 900 60 3600)) (\<lambda>access.
      act_bind (act_lift (readInteger (env ''AUTH_CHALLENGE_TTL_SECONDS'') 300 60 900)) (\<lambda>challenge.
      act_bind (act_lift (readGoogleConfig H env production)) (\<lambda>google.
      act_bind (act_lift (readInteger (env ''AUTH_REFRESH_TTL_SECONDS'') (30 * 24 * 60 * 60) 3600
        (90 * 24 * 60 * 60))) (\<lambda>refresh.
      act_ok \<lparr>ac_accessTokenTtlSeconds = access,
        ac_audience = env_or env ''AUTH_TOKEN_AUDIENCE'' ''hive-chameleon-client'',
        ac_challengeTtlSeconds = challenge, ac_google = google, ac_hiveChainId = hiveChainId,
        ac_hiveRpcUrl = hiveRpcUrl, ac_identityLookupKey = identityLookupKey,
        ac_issuer = env_or env ''AUTH_TOKEN_ISSUER'' ''hive-chameleon-api'',
        ac_refreshTokenTtlSeconds = refresh, ac_tokenKey = tokenKey\<rparr>)))))))))"

section \<open>What a loaded configuration is like\<close>

lemma readInteger_bounds:
  "readInteger v fallback minimum maximum = Inr n \<Longrightarrow> minimum \<le> fallback \<Longrightarrow> fallback \<le> maximum \<Longrightarrow>
   minimum \<le> n \<and> n \<le> maximum"
  by (auto simp: readInteger_def run_simps Let_def split: option.splits if_splits)

lemma decodeSecret_length: "decodeSecret K v = Inr k \<Longrightarrow> 32 \<le> length k"
  by (auto simp: decodeSecret_def run_simps Let_def)

lemma missingSecret_fails [simp]: "missingSecret \<noteq> Inr k"
  by (simp add: missingSecret_def)

lemma readSecret_required:
  assumes "readSecret K random v True w = (Inr k, w')"
  shows "\<exists>t. v = Some t \<and> decodeSecret K t = Inr k \<and> 32 \<le> length k"
  using assms decodeSecret_length
  by (auto simp: readSecret_def act_run split: option.splits list.splits)

lemma each_value_set:
  "each_value f xs = Inr ys \<Longrightarrow> y \<in> set ys \<Longrightarrow> \<exists>x \<in> set xs. f x = Inr y"
  by (induction xs arbitrary: ys) (auto simp: run_simps)

text \<open>A redirect of a production configuration came from an HTTPS URL without credentials.\<close>

lemma readGoogleConfig_redirects:
  assumes "readGoogleConfig H env True = Inr (Some g)" and "uri \<in> set (gc_redirectUris g)"
  shows "\<exists>v url. parse_url H v = Some url \<and> url_href url = uri \<and> url_protocol url = ''https:'' \<and>
    url_username url = '''' \<and> url_password url = '''' \<and> url_hash url = ''''"
proof -
  from assms obtain vs uris where "each_value (canonicalRedirectUri H True) vs = Inr uris"
    and "uri \<in> set uris"
    unfolding readGoogleConfig_def Let_def by (auto simp: run_simps split: if_splits)
  from each_value_set [OF this] show ?thesis
    by (auto simp: canonicalRedirectUri_def run_simps)
qed

text \<open>
  A configuration that loads in production has both keys from the environment, each of 32
  bytes or more, lifetimes within their bounds (an access token never longer than a session), a
  node that is reached over HTTPS without credentials, and only HTTPS redirects.
\<close>

theorem production_config_checked:
  assumes "loadAuthConfig H K random env w = (Inr C, w')"
    and "env ''NODE_ENV'' = Some ''production''"
  shows "(\<exists>s. env ''AUTH_TOKEN_SECRET'' = Some s \<and> bytes_of_base64url K s = ac_tokenKey C) \<and>
    (\<exists>s. env ''AUTH_IDENTITY_LOOKUP_KEY'' = Some s \<and>
      bytes_of_base64url K s = ac_identityLookupKey C) \<and>
    32 \<le> length (ac_tokenKey C) \<and> 32 \<le> length (ac_identityLookupKey C) \<and>
    60 \<le> ac_challengeTtlSeconds C \<and> ac_challengeTtlSeconds C \<le> 900 \<and>
    60 \<le> ac_accessTokenTtlSeconds C \<and> ac_accessTokenTtlSeconds C \<le> 3600 \<and>
    3600 \<le> ac_refreshTokenTtlSeconds C \<and> ac_refreshTokenTtlSeconds C \<le> 7776000 \<and>
    (\<exists>url. parse_url H (ac_hiveRpcUrl C) = Some url \<and> url_protocol url = ''https:'' \<and>
      url_username url = '''' \<and> url_password url = '''') \<and>
    (\<forall>g \<in> set_option (ac_google C). \<forall>uri \<in> set (gc_redirectUris g).
      \<exists>v url. parse_url H v = Some url \<and> url_href url = uri \<and> url_protocol url = ''https:'')"
proof -
  from assms obtain w1 where
    token: "readSecret K random (env ''AUTH_TOKEN_SECRET'') True w = (Inr (ac_tokenKey C), w1)"
    and looked_up: "\<exists>s. env ''AUTH_IDENTITY_LOOKUP_KEY'' = Some s \<and>
        decodeSecret K s = Inr (ac_identityLookupKey C)"
    and url: "assertHttpsEndpoint H (ac_hiveRpcUrl C) = Inr ()"
    and google: "readGoogleConfig H env True = Inr (ac_google C)"
    and ttl: "readInteger (env ''AUTH_ACCESS_TTL_SECONDS'') 900 60 3600 =
        Inr (ac_accessTokenTtlSeconds C)"
      "readInteger (env ''AUTH_CHALLENGE_TTL_SECONDS'') 300 60 900 = Inr (ac_challengeTtlSeconds C)"
      "readInteger (env ''AUTH_REFRESH_TTL_SECONDS'') (30 * 24 * 60 * 60) 3600 (90 * 24 * 60 * 60) =
        Inr (ac_refreshTokenTtlSeconds C)"
    unfolding loadAuthConfig_def Let_def
    by (auto simp: act_run elim!: act_bind_InrE split: option.splits list.splits if_splits)
  from looked_up obtain s2 where lookup: "env ''AUTH_IDENTITY_LOOKUP_KEY'' = Some s2"
    "decodeSecret K s2 = Inr (ac_identityLookupKey C)"
    by blast
  from readSecret_required [OF token] have
    "\<exists>s. env ''AUTH_TOKEN_SECRET'' = Some s \<and> bytes_of_base64url K s = ac_tokenKey C"
    "32 \<le> length (ac_tokenKey C)"
    by (auto simp: decodeSecret_def run_simps Let_def)
  moreover have "bytes_of_base64url K s2 = ac_identityLookupKey C"
    using lookup(2) by (auto simp: decodeSecret_def run_simps Let_def)
  moreover have "\<exists>u. parse_url H (ac_hiveRpcUrl C) = Some u \<and> url_protocol u = ''https:'' \<and>
      url_username u = '''' \<and> url_password u = ''''"
    using url by (auto simp: assertHttpsEndpoint_def run_simps)
  moreover have "\<exists>v u. parse_url H v = Some u \<and> url_href u = uri \<and> url_protocol u = ''https:''"
    if "ac_google C = Some g" "uri \<in> set (gc_redirectUris g)" for g uri
    using readGoogleConfig_redirects [OF google [unfolded that(1)] that(2)] by blast
  ultimately show ?thesis
    using readInteger_bounds [OF ttl(1)] readInteger_bounds [OF ttl(2)] readInteger_bounds [OF ttl(3)]
      lookup(1) decodeSecret_length [OF lookup(2)]
    by (auto simp: elem_set)
qed

section \<open>A concrete instance\<close>

text \<open>A codec that marks a text with a letter, and a digest that mixes the key and the message.\<close>

definition fixture_digest_of :: "string \<Rightarrow> string \<Rightarrow> string" where
  "fixture_digest_of key t = take 32 (filter (\<lambda>c. c \<noteq> CHR ''.'') (rev t @ key))"

fun fixture_member :: "string \<times> json \<Rightarrow> string" where
  "fixture_member (k, JStr v) = k @ '':'' @ v @ '',''"
| "fixture_member (k, JNum n) = k @ '':'' @ nat_text (nat n) @ '',''"
| "fixture_member (k, _) = k"

definition fixture_crypto :: crypto where
  "fixture_crypto = \<lparr>
     hmac_sha256 = fixture_digest_of,
     hmac_base64url = (\<lambda>key t. ''b'' @ fixture_digest_of key t),
     hmac_hex = (\<lambda>key t. ''h'' @ fixture_digest_of key t),
     base64url_text = (\<lambda>t. ''b'' @ t),
     text_of_base64url = tl,
     bytes_of_base64url = tl,
     json_stringify = (\<lambda>kvs. concat (map fixture_member kvs)),
     zod_uuid = (\<lambda>s. length s = 36)\<rparr>"

definition fixture_environment :: environment where
  "fixture_environment name = map_of
     [(''NODE_ENV'', ''production''),
      (''AUTH_TOKEN_SECRET'', replicate 43 (CHR ''t'')),
      (''AUTH_IDENTITY_LOOKUP_KEY'', replicate 43 (CHR ''i'')),
      (''AUTH_ACCESS_TTL_SECONDS'', ''600''),
      (''GOOGLE_OIDC_CLIENT_ID'', '' client ''),
      (''GOOGLE_OIDC_CLIENT_SECRET'', ''secret''),
      (''GOOGLE_OIDC_REDIRECT_URIS'', ''https://play.example/callback, '')] name"

definition fixture_config :: auth_config where
  "fixture_config = \<lparr>ac_accessTokenTtlSeconds = 600, ac_audience = ''hive-chameleon-client'',
     ac_challengeTtlSeconds = 300,
     ac_google = Some \<lparr>gc_clientId = ''client'', gc_clientSecret = ''secret'',
       gc_redirectUris = [''https://play.example/callback'']\<rparr>,
     ac_hiveChainId = replicate 64 (CHR ''0''), ac_hiveRpcUrl = ''https://api.hive.blog/'',
     ac_identityLookupKey = replicate 42 (CHR ''i''), ac_issuer = ''hive-chameleon-api'',
     ac_refreshTokenTtlSeconds = 2592000, ac_tokenKey = replicate 42 (CHR ''t'')\<rparr>"

lemma fixture_config_loads:
  "loadAuthConfig fixture_host fixture_crypto (\<lambda>n. act_fail configError) fixture_environment () =
     (Inr fixture_config, ())"
  by code_simp

lemma production_config_checked_witness:
  "fixture_environment ''NODE_ENV'' = Some ''production'' \<and>
   (\<exists>s. fixture_environment ''AUTH_TOKEN_SECRET'' = Some s \<and>
      bytes_of_base64url fixture_crypto s = ac_tokenKey fixture_config)"
  using production_config_checked [OF fixture_config_loads] by (simp add: fixture_environment_def)

end
