(* ===== verification/Identity_Tables.thy ===== *)
theory Identity_Tables
  imports Auth_Config Pg_Tables
begin

text \<open>
  The identity tables of the API's database (\<open>infra/postgres/migrations\<close>) with the constraints
  its statements meet: login challenges, players, sessions, external identities, disclosures and
  their acknowledgments, provisioning jobs and custody keys. A \<open>timestamptz\<close> is its instant in
  milliseconds; the only provider of external identities is Google, so that column is left out.
  Column types and widths are not modelled, and ids are the UUIDv7s the code draws.
\<close>

section \<open>Rows\<close>

datatype client_platform = Webgl | Windows | Macos | Linux

datatype signing_provider = Keychain | Hiveauth | Hivesigner | Custodial_Service | Other_External

datatype control_state =
  External_Self_Custodial | Platform_Custodial | Authority_Claimed_Recovery_Pending
  | Self_Custody_Complete

datatype authentication_method = Direct_Hive_Challenge | Google_Oidc

datatype identity_status = Identity_Provisioning | Identity_Linked | Identity_Disabled

datatype ack_source = Google_Pre_Provisioning | Direct_Hive_Pre_Participation

datatype provisioning_state =
  Username_Confirmed | Keys_Ready | Account_Creation_Pending | Account_Created
  | Rc_Delegation_Pending | Rc_Delegated | Provisioning_Ready | Retryable_Failed | Terminal_Failed

datatype key_role = Owner_Key | Active_Key | Posting_Key | Memo_Key

datatype key_state = Key_Generated | Key_Active | Key_Destruction_Requested | Key_Destroyed | Key_Abandoned

record challenge_row =
  hl_id :: string
  hl_hive_username :: string
  hl_platform :: client_platform
  hl_device_session_id :: string
  hl_challenge_text :: string
  hl_challenge_sha256 :: string
  hl_issued_at :: int
  hl_expires_at :: int
  hl_consumed_at :: "int option"

record identity_player =
  ip_id :: string
  ip_hive_username :: string
  ip_hive_control_state :: control_state

record session_row =
  as_id :: string
  as_player_id :: string
  as_external_identity_id :: "string option"
  as_refresh_token_hash :: string
  as_platform :: client_platform
  as_authentication_method :: authentication_method
  as_hive_signing_provider :: "signing_provider option"
  as_hive_control_state_at_issue :: control_state
  as_custodial_signing_eligible :: bool
  as_issued_at :: int
  as_last_used_at :: "int option"
  as_expires_at :: int
  as_revoked_at :: "int option"
  as_revocation_reason :: "string option"

record external_identity_row =
  ei_id :: string
  ei_verified_issuer :: string
  ei_subject_lookup_hash :: string
  ei_player_id :: "string option"
  ei_status :: identity_status
  ei_verified_at :: int
  ei_linked_at :: "int option"
  ei_last_authenticated_at :: int
  ei_updated_at :: int

record disclosure_row =
  dr_disclosure_version :: string
  dr_content_sha256 :: string
  dr_effective_at :: int
  dr_retired_at :: "int option"

record acknowledgment_row =
  da_id :: string
  da_disclosure_version :: string
  da_external_identity_id :: "string option"
  da_player_id :: "string option"
  da_source :: ack_source
  da_acknowledged_at :: int
  da_player_linked_at :: "int option"

record job_row =
  jb_id :: string
  jb_external_identity_id :: string
  jb_resulting_player_id :: "string option"
  jb_idempotency_key :: string
  jb_requested_hive_username :: string
  jb_state :: provisioning_state
  jb_sponsor_program :: string
  jb_sponsor_policy_version :: string
  jb_sponsor_hive_account :: string
  jb_sponsor_request_reference :: "string option"
  jb_account_creation_transaction_id :: "string option"
  jb_initial_rc_delegation_id :: "string option"
  jb_username_confirmed_at :: int
  jb_keys_ready_at :: "int option"
  jb_account_observed_at :: "int option"
  jb_account_irreversible_at :: "int option"
  jb_authorities_verified_at :: "int option"
  jb_rc_verified_at :: "int option"
  jb_attempt_count :: nat
  jb_last_attempt_at :: "int option"
  jb_next_retry_at :: "int option"
  jb_last_failure_code :: "string option"
  jb_ready_at :: "int option"
  jb_updated_at :: int
  jb_row_version :: nat

record custody_key_row =
  ck_id :: string
  ck_provisioning_id :: string
  ck_player_id :: "string option"
  ck_authority_role :: key_role
  ck_hive_public_key :: string
  ck_custody_provider_key_reference :: string
  ck_state :: key_state
  ck_activated_at :: "int option"

text \<open>\<open>db_rc_delegations\<close> are the ids of \<open>hive_projection.rc_delegation\<close>, another service's table.\<close>

record identity_db =
  db_challenges :: "challenge_row list"
  db_players :: "identity_player list"
  db_sessions :: "session_row list"
  db_identities :: "external_identity_row list"
  db_disclosures :: "disclosure_row list"
  db_acknowledgments :: "acknowledgment_row list"
  db_jobs :: "job_row list"
  db_keys :: "custody_key_row list"
  db_rc_delegations :: "string list"

section \<open>Constraints\<close>

text \<open>\<open>value = lower(value)\<close>\<close>

definition is_lower_case :: "string \<Rightarrow> bool" where
  "is_lower_case s \<longleftrightarrow> \<not> list_ex is_upper s"

definition challenge_checks :: "host \<Rightarrow> challenge_row \<Rightarrow> bool" where
  "challenge_checks H c \<longleftrightarrow>
     is_lower_case (hl_hive_username c) \<and> hl_expires_at c > hl_issued_at c \<and>
     (case hl_consumed_at c of None \<Rightarrow> True | Some t \<Rightarrow> t \<ge> hl_issued_at c) \<and>
     sha256_hex H (hl_challenge_text c) = hl_challenge_sha256 c"

definition challenge_insertable :: "host \<Rightarrow> identity_db \<Rightarrow> challenge_row \<Rightarrow> bool" where
  "challenge_insertable H db c \<longleftrightarrow>
     list_all (\<lambda>d. hl_id d \<noteq> hl_id c \<and> hl_challenge_sha256 d \<noteq> hl_challenge_sha256 c)
       (db_challenges db) \<and> challenge_checks H c"

definition session_checks :: "session_row \<Rightarrow> bool" where
  "session_checks s \<longleftrightarrow>
     as_expires_at s > as_issued_at s \<and>
     (case as_revoked_at s of None \<Rightarrow> True | Some t \<Rightarrow> t \<ge> as_issued_at s) \<and>
     (as_authentication_method s \<noteq> Google_Oidc \<or> as_external_identity_id s \<noteq> None) \<and>
     ((as_custodial_signing_eligible s \<and> as_hive_signing_provider s = Some Custodial_Service \<and>
        as_hive_control_state_at_issue s = Platform_Custodial) \<or>
      (\<not> as_custodial_signing_eligible s \<and> as_hive_signing_provider s \<noteq> Some Custodial_Service))"

text \<open>
  Unique ids and refresh hashes, one session that is not revoked for each player, and the player
  and the external identity it refers to.
\<close>

definition session_insertable :: "identity_db \<Rightarrow> session_row \<Rightarrow> bool" where
  "session_insertable db s \<longleftrightarrow>
     list_all (\<lambda>r. as_id r \<noteq> as_id s \<and> as_refresh_token_hash r \<noteq> as_refresh_token_hash s \<and>
       \<not> (as_player_id r = as_player_id s \<and> as_revoked_at r = None \<and> as_revoked_at s = None))
       (db_sessions db) \<and>
     session_checks s \<and>
     list_ex (\<lambda>p. ip_id p = as_player_id s) (db_players db) \<and>
     (case as_external_identity_id s of
        None \<Rightarrow> True | Some i \<Rightarrow> list_ex (\<lambda>e. ei_id e = i) (db_identities db))"

definition identity_checks :: "external_identity_row \<Rightarrow> bool" where
  "identity_checks e \<longleftrightarrow>
     ei_last_authenticated_at e \<ge> ei_verified_at e \<and>
     (ei_status e \<noteq> Identity_Linked \<or> ei_player_id e \<noteq> None \<and> ei_linked_at e \<noteq> None)"

definition acknowledgment_checks :: "acknowledgment_row \<Rightarrow> bool" where
  "acknowledgment_checks a \<longleftrightarrow>
     (da_external_identity_id a \<noteq> None \<or> da_player_id a \<noteq> None) \<and>
     (da_player_linked_at a = None \<or> da_player_id a \<noteq> None) \<and>
     (da_source a \<noteq> Google_Pre_Provisioning \<or> da_external_identity_id a \<noteq> None) \<and>
     (da_source a \<noteq> Direct_Hive_Pre_Participation \<or> da_player_id a \<noteq> None)"

text \<open>The primary key and the two partial unique indexes: what an insertion can conflict with.\<close>

definition acknowledgments_conflict :: "acknowledgment_row \<Rightarrow> acknowledgment_row \<Rightarrow> bool" where
  "acknowledgments_conflict a b \<longleftrightarrow>
     da_id a = da_id b \<or>
     (da_disclosure_version a = da_disclosure_version b \<and>
      (da_external_identity_id a \<noteq> None \<and> da_external_identity_id a = da_external_identity_id b \<or>
       da_player_id a \<noteq> None \<and> da_player_id a = da_player_id b))"

definition job_checks :: "job_row \<Rightarrow> bool" where
  "job_checks j \<longleftrightarrow>
     is_lower_case (jb_requested_hive_username j) \<and> is_lower_case (jb_sponsor_hive_account j) \<and>
     (jb_state j = Keys_Ready \<longrightarrow> jb_keys_ready_at j \<noteq> None) \<and>
     (jb_state j = Account_Created \<longrightarrow> jb_account_observed_at j \<noteq> None) \<and>
     (jb_state j = Rc_Delegated \<longrightarrow> jb_initial_rc_delegation_id j \<noteq> None) \<and>
     (jb_state j = Provisioning_Ready \<longrightarrow>
        jb_resulting_player_id j \<noteq> None \<and> jb_keys_ready_at j \<noteq> None \<and>
        jb_account_irreversible_at j \<noteq> None \<and> jb_authorities_verified_at j \<noteq> None \<and>
        jb_initial_rc_delegation_id j \<noteq> None \<and> jb_rc_verified_at j \<noteq> None \<and> jb_ready_at j \<noteq> None)"

text \<open>A job reserves its user name until it has failed for good without an account.\<close>

definition reserves_username :: "job_row \<Rightarrow> bool" where
  "reserves_username j \<longleftrightarrow> jb_state j \<noteq> Terminal_Failed \<or> jb_account_observed_at j \<noteq> None"

definition same_some :: "'a option \<Rightarrow> 'a option \<Rightarrow> bool" where
  "same_some x y \<longleftrightarrow> x \<noteq> None \<and> x = y"

text \<open>The unique columns of two jobs, and of two keys.\<close>

definition jobs_conflict :: "job_row \<Rightarrow> job_row \<Rightarrow> bool" where
  "jobs_conflict j k \<longleftrightarrow>
     jb_id j = jb_id k \<or> jb_external_identity_id j = jb_external_identity_id k \<or>
     same_some (jb_resulting_player_id j) (jb_resulting_player_id k) \<or>
     jb_idempotency_key j = jb_idempotency_key k \<or>
     same_some (jb_initial_rc_delegation_id j) (jb_initial_rc_delegation_id k) \<or>
     (jb_sponsor_program j = jb_sponsor_program k \<and>
        same_some (jb_sponsor_request_reference j) (jb_sponsor_request_reference k)) \<or>
     (reserves_username j \<and> reserves_username k \<and>
        jb_requested_hive_username j = jb_requested_hive_username k)"

definition key_current :: "custody_key_row \<Rightarrow> bool" where
  "key_current k \<longleftrightarrow> ck_state k \<in> {Key_Generated, Key_Active, Key_Destruction_Requested}"

definition keys_conflict :: "custody_key_row \<Rightarrow> custody_key_row \<Rightarrow> bool" where
  "keys_conflict j k \<longleftrightarrow>
     ck_id j = ck_id k \<or>
     ck_custody_provider_key_reference j = ck_custody_provider_key_reference k \<or>
     (key_current j \<and> key_current k \<and> ck_authority_role j = ck_authority_role k \<and>
        (ck_provisioning_id j = ck_provisioning_id k \<or>
         same_some (ck_player_id j) (ck_player_id k)))"

section \<open>Transactions\<close>

text \<open>
  The state of the API and of the provisioning worker: the tables, what is outside (ids, random
  bytes, the node, Google, the providers), and the faults of the transactions to come.
\<close>

record 'u identity =
  it_db :: identity_db
  it_out :: 'u
  it_faults :: "fault list"

definition identity_database_error :: exn where
  "identity_database_error = OtherError ''database''"

definition identity_sql :: "(identity_db \<Rightarrow> identity_db option) \<Rightarrow> ('u identity, unit) action" where
  "identity_sql f = (\<lambda>w. case f (it_db w) of
     None \<Rightarrow> (Inl identity_database_error, w) | Some db \<Rightarrow> (Inr (), w\<lparr>it_db := db\<rparr>))"

definition identity_read :: "(identity_db \<Rightarrow> 'a) \<Rightarrow> ('u identity, 'a) action" where
  "identity_read f = act_get (\<lambda>w. f (it_db w))"

text \<open>\<open>createUuidV7()\<close> and its kind: a value drawn from outside, which does not fail.\<close>

definition draw :: "('u \<Rightarrow> 'a \<times> 'u) \<Rightarrow> ('u identity, 'a) action" where
  "draw f = (\<lambda>w. let (x, u) = f (it_out w) in (Inr x, w\<lparr>it_out := u\<rparr>))"

text \<open>
  \<open>withTransaction\<close>, and a statement of its own: a refused one stands for a failed connection,
  \<open>BEGIN\<close> or \<open>COMMIT\<close>; the reply of a commit can be lost.
\<close>

definition identity_transaction :: "('u identity, 'a) action \<Rightarrow> ('u identity, 'a) action" where
  "identity_transaction work = (\<lambda>w.
     let next_fault = (case it_faults w of [] \<Rightarrow> No_Fault | f # fs \<Rightarrow> f);
         w0 = w\<lparr>it_faults := tl (it_faults w)\<rparr>
     in case work w0 of
          (Inl e, w1) \<Rightarrow> (Inl e, w1\<lparr>it_db := it_db w\<rparr>)
        | (Inr u, w1) \<Rightarrow>
            if next_fault = Refused then (Inl identity_database_error, w1\<lparr>it_db := it_db w\<rparr>)
            else if next_fault = Reply_Lost then (Inl identity_database_error, w1)
            else (Inr u, w1))"

lemma identity_transaction_unfold:
  "identity_transaction work w =
     (case work (w\<lparr>it_faults := tl (it_faults w)\<rparr>) of
        (Inl e, w1) \<Rightarrow> (Inl e, w1\<lparr>it_db := it_db w\<rparr>)
      | (Inr u, w1) \<Rightarrow>
          if \<exists>fs. it_faults w = Refused # fs
          then (Inl identity_database_error, w1\<lparr>it_db := it_db w\<rparr>)
          else if \<exists>fs. it_faults w = Reply_Lost # fs then (Inl identity_database_error, w1)
          else (Inr u, w1))"
  unfolding identity_transaction_def Let_def
  by (cases "it_faults w") (simp_all split: prod.split sum.split)

lemma identity_transactionE:
  assumes "identity_transaction work w = (r, w')"
  obtains (rolled_back) "it_db w' = it_db w" and "\<exists>e. r = Inl e"
    | (committed) x where "work (w\<lparr>it_faults := tl (it_faults w)\<rparr>) = (Inr x, w')"
        and "r = Inr x \<or> (\<exists>e. r = Inl e)"
  using assms unfolding identity_transaction_unfold
  by (auto split: prod.splits sum.splits if_splits)

lemma identity_transaction_InrE:
  assumes "identity_transaction work w = (Inr x, w')"
  obtains "work (w\<lparr>it_faults := tl (it_faults w)\<rparr>) = (Inr x, w')"
proof (cases "work (w\<lparr>it_faults := tl (it_faults w)\<rparr>)")
  case (Pair y w1)
  with assms have "y = Inr x \<and> w1 = w'"
    by (cases y) (simp_all add: identity_transaction_unfold split: if_splits)
  with Pair that show ?thesis by simp
qed

lemma identity_sql_InrE:
  assumes "identity_sql f w = (Inr x, w')"
  obtains db where "f (it_db w) = Some db" and "w' = w\<lparr>it_db := db\<rparr>"
proof (cases "f (it_db w)")
  case None
  with assms show ?thesis by (simp add: identity_sql_def)
next
  case (Some db)
  with assms have "w' = w\<lparr>it_db := db\<rparr>" by (simp add: identity_sql_def)
  with Some that show ?thesis by blast
qed

lemma identity_readE:
  assumes "identity_read f w = (Inr x, w')"
  obtains "x = f (it_db w)" and "w' = w"
proof -
  have "x = f (it_db w) \<and> w' = w"
    using assms unfolding identity_read_def act_get_def by (simp only: prod.inject sum.inject) blast
  then show ?thesis using that by blast
qed

lemma drawE:
  assumes "draw f w = (r, w')"
  obtains x u where "f (it_out w) = (x, u)" and "r = Inr x" and "w' = w\<lparr>it_out := u\<rparr>"
proof -
  obtain x u where "f (it_out w) = (x, u)" by (cases "f (it_out w)")
  with assms that show ?thesis by (simp add: draw_def)
qed

text \<open>An action whose normal endings take databases in \<open>R\<close>.\<close>

definition identity_moves ::
  "(identity_db \<Rightarrow> identity_db \<Rightarrow> bool) \<Rightarrow> ('u identity, 'a) action \<Rightarrow> bool" where
  "identity_moves R m \<longleftrightarrow> (\<forall>w x w'. m w = (Inr x, w') \<longrightarrow> R (it_db w) (it_db w'))"

lemma identity_movesD: "identity_moves R m \<Longrightarrow> m w = (Inr x, w') \<Longrightarrow> R (it_db w) (it_db w')"
  by (simp add: identity_moves_def)

end
