(* ===== verification/Auth_Repository.thy ===== *)
theory Auth_Repository
  imports Identity_Tables
begin

text \<open>
  The identity store of the API (\<open>auth/auth.types.ts\<close>, \<open>auth/postgres-auth.repository.ts\<close>): its
  port, and the statements of each operation over the identity tables.
\<close>

section \<open>The port\<close>

record player_identity =
  py_id :: string
  py_hiveControlState :: control_state
  py_hiveUsername :: string

record login_challenge =
  lc_challenge :: string
  lc_expiresAt :: int
  lc_hiveUsername :: string
  lc_id :: string
  lc_platform :: client_platform

record new_challenge = login_challenge +
  lc_challengeSha256 :: string
  lc_deviceSessionId :: string
  lc_issuedAt :: int

record external_identity =
  xi_disclosureAcknowledged :: bool
  xi_id :: string
  xi_player :: "player_identity option"
  xi_status :: identity_status

record active_session =
  av_authSessionId :: string
  av_disclosureAcknowledged :: bool
  av_expiresAt :: int
  av_player :: player_identity
  av_playerId :: string

record new_session =
  ns_authenticationMethod :: authentication_method
  ns_custodialSigningEligible :: bool
  ns_expiresAt :: int
  ns_externalIdentityId :: "string option"
  ns_hiveSigningProvider :: "signing_provider option"
  ns_id :: string
  ns_issuedAt :: int
  ns_platform :: client_platform
  ns_player :: player_identity
  ns_refreshTokenHash :: string

record disclosure =
  dc_contentSha256 :: string
  dc_effectiveAt :: int
  dc_version :: string

record acknowledgment =
  ak_acknowledgedAt :: int
  ak_disclosureVersion :: string
  ak_id :: string

record acknowledgment_input =
  ai_acknowledgedAt :: int
  ai_contentSha256 :: string
  ai_disclosureVersion :: string
  ai_externalIdentityId :: "string option"
  ai_playerId :: "string option"

record 's auth_repository =
  createHiveChallenge :: "new_challenge \<Rightarrow> ('s, unit) action"
  consumeHiveChallenge :: "string \<Rightarrow> string \<Rightarrow> int \<Rightarrow> ('s, login_challenge option) action"
  findOrCreateDirectHivePlayer :: "string \<Rightarrow> ('s, player_identity) action"
  createSession :: "new_session \<Rightarrow> ('s, unit) action"
  rotateSession :: "string \<Rightarrow> string \<Rightarrow> int \<Rightarrow> ('s, active_session option) action"
  findActiveSession :: "string \<Rightarrow> int \<Rightarrow> ('s, active_session option) action"
  revokeSession :: "string \<Rightarrow> int \<Rightarrow> string \<Rightarrow> ('s, bool) action"
  upsertGoogleIdentity :: "string \<Rightarrow> string \<Rightarrow> int \<Rightarrow> ('s, external_identity) action"
  getCurrentDisclosure :: "int \<Rightarrow> ('s, disclosure option) action"
  acknowledgeCurrentDisclosure :: "acknowledgment_input \<Rightarrow> ('s, acknowledgment option) action"

text \<open>What the store is built with: whether there is a pool, the host, and \<open>createUuidV7\<close>.\<close>

record 'u identity_options =
  io_configured :: bool
  io_host :: host
  io_uuid :: "'u \<Rightarrow> string \<times> 'u"

definition identityStoreUnavailable :: exn where
  "identityStoreUnavailable = ApiError 503 ''identity_store_unavailable''"

text \<open>\<open>requirePool\<close>, and one transaction on it.\<close>

definition on_pool ::
  "'u identity_options \<Rightarrow> ('u identity, 'a) action \<Rightarrow> ('u identity, 'a) action" where
  "on_pool P work =
     act_bind (act_ensure (io_configured P) identityStoreUnavailable) (\<lambda>_. identity_transaction work)"

section \<open>Challenges\<close>

definition insert_challenge :: "host \<Rightarrow> challenge_row \<Rightarrow> identity_db \<Rightarrow> identity_db option" where
  "insert_challenge H c db =
     (if challenge_insertable H db c then Some (db\<lparr>db_challenges := db_challenges db @ [c]\<rparr>) else None)"

definition challenge_of :: "new_challenge \<Rightarrow> challenge_row" where
  "challenge_of r = \<lparr>hl_id = lc_id r, hl_hive_username = lc_hiveUsername r,
     hl_platform = lc_platform r, hl_device_session_id = lc_deviceSessionId r,
     hl_challenge_text = lc_challenge r, hl_challenge_sha256 = lc_challengeSha256 r,
     hl_issued_at = lc_issuedAt r, hl_expires_at = lc_expiresAt r, hl_consumed_at = None\<rparr>"

definition pg_createHiveChallenge ::
  "'u identity_options \<Rightarrow> new_challenge \<Rightarrow> ('u identity, unit) action" where
  "pg_createHiveChallenge P r = on_pool P (identity_sql (insert_challenge (io_host P) (challenge_of r)))"

definition mapChallenge :: "challenge_row \<Rightarrow> login_challenge" where
  "mapChallenge c = \<lparr>lc_challenge = hl_challenge_text c, lc_expiresAt = hl_expires_at c,
     lc_hiveUsername = hl_hive_username c, lc_id = hl_id c, lc_platform = hl_platform c\<rparr>"

definition consumable :: "string \<Rightarrow> string \<Rightarrow> int \<Rightarrow> challenge_row \<Rightarrow> bool" where
  "consumable challengeId hiveUsername at c \<longleftrightarrow>
     hl_id c = challengeId \<and> hl_hive_username c = hiveUsername \<and> hl_consumed_at c = None \<and>
     hl_expires_at c > at"

text \<open>The update sets \<open>consumed_at\<close>, and the checks hold of what it writes.\<close>

definition consume_challenges ::
  "host \<Rightarrow> string \<Rightarrow> string \<Rightarrow> int \<Rightarrow> identity_db \<Rightarrow> identity_db option" where
  "consume_challenges H challengeId hiveUsername at db =
     (let consume = (\<lambda>c. if consumable challengeId hiveUsername at c
            then c\<lparr>hl_consumed_at := Some at\<rparr> else c) in
      if list_all (\<lambda>c. consumable challengeId hiveUsername at c \<longrightarrow> challenge_checks H (consume c))
           (db_challenges db)
      then Some (db\<lparr>db_challenges := map consume (db_challenges db)\<rparr>) else None)"

definition pg_consumeHiveChallenge ::
  "'u identity_options \<Rightarrow> string \<Rightarrow> string \<Rightarrow> int \<Rightarrow> ('u identity, login_challenge option) action" where
  "pg_consumeHiveChallenge P challengeId hiveUsername consumedAt = on_pool P (
     act_bind (identity_read (\<lambda>db. filter (consumable challengeId hiveUsername consumedAt)
       (db_challenges db))) (\<lambda>rows.
     act_bind (identity_sql (consume_challenges (io_host P) challengeId hiveUsername consumedAt)) (\<lambda>_.
     act_ok (case rows of [] \<Rightarrow> None | c # _ \<Rightarrow> Some (mapChallenge c)))))"

section \<open>Players\<close>

definition mapPlayer :: "identity_player \<Rightarrow> player_identity" where
  "mapPlayer p = \<lparr>py_id = ip_id p, py_hiveControlState = ip_hive_control_state p,
     py_hiveUsername = ip_hive_username p\<rparr>"

text \<open>
  \<open>INSERT ... ON CONFLICT (hive_username) DO UPDATE\<close> writes the name a player has already. Any
  other conflict, and a name that is not lower case, is an error.
\<close>

definition upsert_player :: "identity_player \<Rightarrow> identity_db \<Rightarrow> identity_db option" where
  "upsert_player p db =
     (if \<not> is_lower_case (ip_hive_username p) then None
      else if list_ex (\<lambda>q. ip_hive_username q = ip_hive_username p) (db_players db) then Some db
      else if list_ex (\<lambda>q. ip_id q = ip_id p) (db_players db) then None
      else Some (db\<lparr>db_players := db_players db @ [p]\<rparr>))"

definition player_named :: "string \<Rightarrow> identity_db \<Rightarrow> identity_player option" where
  "player_named hiveUsername db = find (\<lambda>p. ip_hive_username p = hiveUsername) (db_players db)"

definition missing_row :: exn where
  "missing_row = OtherError ''Error''"

definition pg_findOrCreateDirectHivePlayer ::
  "'u identity_options \<Rightarrow> string \<Rightarrow> ('u identity, player_identity) action" where
  "pg_findOrCreateDirectHivePlayer P hiveUsername = on_pool P (
     act_bind (draw (io_uuid P)) (\<lambda>i.
     act_bind (identity_sql (upsert_player \<lparr>ip_id = i, ip_hive_username = hiveUsername,
       ip_hive_control_state = External_Self_Custodial\<rparr>)) (\<lambda>_.
     act_bind (identity_read (player_named hiveUsername)) (\<lambda>row.
     act_bind (act_lift (of_option missing_row row)) (\<lambda>p. act_ok (mapPlayer p))))))"

section \<open>Sessions\<close>

definition update_sessions ::
  "(session_row \<Rightarrow> bool) \<Rightarrow> (session_row \<Rightarrow> session_row) \<Rightarrow> identity_db \<Rightarrow> identity_db option" where
  "update_sessions Q f db =
     (let rows = map (\<lambda>s. if Q s then f s else s) (db_sessions db) in
      if list_all (\<lambda>s. Q s \<longrightarrow> session_checks (f s)) (db_sessions db) \<and>
         distinct (map as_refresh_token_hash rows)
      then Some (db\<lparr>db_sessions := rows\<rparr>) else None)"

definition insert_session :: "session_row \<Rightarrow> identity_db \<Rightarrow> identity_db option" where
  "insert_session s db =
     (if session_insertable db s then Some (db\<lparr>db_sessions := db_sessions db @ [s]\<rparr>) else None)"

definition session_of :: "new_session \<Rightarrow> session_row" where
  "session_of n = \<lparr>as_id = ns_id n, as_player_id = py_id (ns_player n),
     as_external_identity_id = ns_externalIdentityId n,
     as_refresh_token_hash = ns_refreshTokenHash n, as_platform = ns_platform n,
     as_authentication_method = ns_authenticationMethod n,
     as_hive_signing_provider = ns_hiveSigningProvider n,
     as_hive_control_state_at_issue = py_hiveControlState (ns_player n),
     as_custodial_signing_eligible = ns_custodialSigningEligible n,
     as_issued_at = ns_issuedAt n, as_last_used_at = None, as_expires_at = ns_expiresAt n,
     as_revoked_at = None, as_revocation_reason = None\<rparr>"

definition is_open :: "session_row \<Rightarrow> bool" where
  "is_open s \<longleftrightarrow> as_revoked_at s = None"

definition revoke_row :: "int \<Rightarrow> string \<Rightarrow> session_row \<Rightarrow> session_row" where
  "revoke_row at reason s = s\<lparr>as_revoked_at := Some at, as_revocation_reason := Some reason\<rparr>"

definition create_session_work :: "new_session \<Rightarrow> ('u identity, unit) action" where
  "create_session_work n =
     act_bind (identity_sql (update_sessions
       (\<lambda>s. as_player_id s = py_id (ns_player n) \<and> is_open s)
       (revoke_row (ns_issuedAt n) ''superseded_login''))) (\<lambda>_.
     identity_sql (insert_session (session_of n)))"

definition pg_createSession :: "'u identity_options \<Rightarrow> new_session \<Rightarrow> ('u identity, unit) action" where
  "pg_createSession P n = on_pool P (create_session_work n)"

definition effective_at :: "int \<Rightarrow> disclosure_row \<Rightarrow> bool" where
  "effective_at at d \<longleftrightarrow>
     dr_effective_at d \<le> at \<and> (case dr_retired_at d of None \<Rightarrow> True | Some t \<Rightarrow> t > at)"

text \<open>\<open>disclosureAcknowledgedSql\<close>: some disclosure in effect has been acknowledged.\<close>

definition disclosureAcknowledged :: "identity_db \<Rightarrow> string \<Rightarrow> int \<Rightarrow> bool" where
  "disclosureAcknowledged db playerId at \<longleftrightarrow>
     list_ex (\<lambda>d. effective_at at d \<and>
       list_ex (\<lambda>a. da_player_id a = Some playerId \<and>
         da_disclosure_version a = dr_disclosure_version d) (db_acknowledgments db))
     (db_disclosures db)"

text \<open>The rows of a session with its player that is open and has not expired.\<close>

definition live_sessions ::
  "(session_row \<Rightarrow> bool) \<Rightarrow> int \<Rightarrow> identity_db \<Rightarrow> (session_row \<times> identity_player \<times> bool) list" where
  "live_sessions Q at db =
     [(s, p, disclosureAcknowledged db (ip_id p) at).
        s \<leftarrow> db_sessions db, Q s \<and> is_open s \<and> as_expires_at s > at,
        p \<leftarrow> db_players db, ip_id p = as_player_id s]"

definition mapSession :: "session_row \<times> identity_player \<times> bool \<Rightarrow> active_session" where
  "mapSession row = (case row of (s, p, acknowledged) \<Rightarrow>
     \<lparr>av_authSessionId = as_id s, av_disclosureAcknowledged = acknowledged,
       av_expiresAt = as_expires_at s, av_player = mapPlayer p, av_playerId = py_id (mapPlayer p)\<rparr>)"

definition rotate_work ::
  "string \<Rightarrow> string \<Rightarrow> int \<Rightarrow> ('u identity, active_session option) action" where
  "rotate_work currentRefreshTokenHash nextRefreshTokenHash usedAt =
     act_bind (identity_read
       (live_sessions (\<lambda>s. as_refresh_token_hash s = currentRefreshTokenHash) usedAt)) (\<lambda>rows.
     case rows of
       [] \<Rightarrow> act_ok None
     | row # _ \<Rightarrow>
         act_bind (identity_sql (update_sessions (\<lambda>s. as_id s = as_id (fst row))
           (\<lambda>s. s\<lparr>as_refresh_token_hash := nextRefreshTokenHash, as_last_used_at := Some usedAt\<rparr>))) (\<lambda>_.
         act_ok (Some (mapSession row))))"

definition pg_rotateSession ::
  "'u identity_options \<Rightarrow> string \<Rightarrow> string \<Rightarrow> int \<Rightarrow> ('u identity, active_session option) action" where
  "pg_rotateSession P currentHash nextHash usedAt = on_pool P (rotate_work currentHash nextHash usedAt)"

definition pg_findActiveSession ::
  "'u identity_options \<Rightarrow> string \<Rightarrow> int \<Rightarrow> ('u identity, active_session option) action" where
  "pg_findActiveSession P sessionId at = on_pool P (
     act_bind (identity_read (live_sessions (\<lambda>s. as_id s = sessionId) at)) (\<lambda>rows.
     act_ok (case rows of [] \<Rightarrow> None | row # _ \<Rightarrow> Some (mapSession row))))"

definition revoke_work :: "string \<Rightarrow> int \<Rightarrow> string \<Rightarrow> ('u identity, bool) action" where
  "revoke_work sessionId revokedAt reason =
     (let Q = (\<lambda>s. as_id s = sessionId \<and> is_open s) in
      act_bind (identity_read (\<lambda>db. length (filter Q (db_sessions db)))) (\<lambda>rowCount.
      act_bind (identity_sql (update_sessions Q (revoke_row revokedAt reason))) (\<lambda>_.
      act_ok (rowCount = 1))))"

definition pg_revokeSession ::
  "'u identity_options \<Rightarrow> string \<Rightarrow> int \<Rightarrow> string \<Rightarrow> ('u identity, bool) action" where
  "pg_revokeSession P sessionId revokedAt reason = on_pool P (revoke_work sessionId revokedAt reason)"

section \<open>External identities\<close>

definition same_subject :: "string \<Rightarrow> string \<Rightarrow> external_identity_row \<Rightarrow> bool" where
  "same_subject issuer hash e \<longleftrightarrow> ei_verified_issuer e = issuer \<and> ei_subject_lookup_hash e = hash"

definition upsert_identity :: "external_identity_row \<Rightarrow> identity_db \<Rightarrow> identity_db option" where
  "upsert_identity new db =
     (let mine = same_subject (ei_verified_issuer new) (ei_subject_lookup_hash new);
          at = ei_last_authenticated_at new;
          f = (\<lambda>e. if mine e then e\<lparr>ei_last_authenticated_at := at, ei_updated_at := at\<rparr> else e)
      in if \<not> identity_checks new then None
         else if list_ex mine (db_identities db)
         then if list_all (\<lambda>e. mine e \<longrightarrow> identity_checks (f e)) (db_identities db)
              then Some (db\<lparr>db_identities := map f (db_identities db)\<rparr>) else None
         else if list_ex (\<lambda>e. ei_id e = ei_id new) (db_identities db) then None
         else Some (db\<lparr>db_identities := db_identities db @ [new]\<rparr>))"

definition identityAcknowledged :: "identity_db \<Rightarrow> string \<Rightarrow> int \<Rightarrow> bool" where
  "identityAcknowledged db identityId at \<longleftrightarrow>
     list_ex (\<lambda>d. effective_at at d \<and>
       list_ex (\<lambda>a. da_disclosure_version a = dr_disclosure_version d \<and>
         da_external_identity_id a = Some identityId) (db_acknowledgments db)) (db_disclosures db)"

text \<open>The row of the subject with its player, if it has one (\<open>requireValue\<close> refuses a lost one).\<close>

definition identity_result :: "identity_db \<Rightarrow> int \<Rightarrow> external_identity_row \<Rightarrow> exn + external_identity" where
  "identity_result db at e =
     ebind (case ei_player_id e of
         None \<Rightarrow> Inr None
       | Some i \<Rightarrow> ebind (of_option missing_row (find (\<lambda>p. ip_id p = i) (db_players db)))
           (\<lambda>p. Inr (Some (mapPlayer p)))) (\<lambda>player.
     Inr \<lparr>xi_disclosureAcknowledged = identityAcknowledged db (ei_id e) at, xi_id = ei_id e,
       xi_player = player, xi_status = ei_status e\<rparr>)"

definition new_identity :: "string \<Rightarrow> string \<Rightarrow> string \<Rightarrow> int \<Rightarrow> external_identity_row" where
  "new_identity i verifiedIssuer subjectLookupHash authenticatedAt =
     \<lparr>ei_id = i, ei_verified_issuer = verifiedIssuer, ei_subject_lookup_hash = subjectLookupHash,
       ei_player_id = None, ei_status = Identity_Provisioning, ei_verified_at = authenticatedAt,
       ei_linked_at = None, ei_last_authenticated_at = authenticatedAt,
       ei_updated_at = authenticatedAt\<rparr>"

definition upsert_work ::
  "'u identity_options \<Rightarrow> string \<Rightarrow> string \<Rightarrow> int \<Rightarrow>
   ('u identity, identity_db \<times> external_identity_row option) action" where
  "upsert_work P verifiedIssuer subjectLookupHash authenticatedAt =
     act_bind (draw (io_uuid P)) (\<lambda>i.
     act_bind (identity_sql (upsert_identity
       (new_identity i verifiedIssuer subjectLookupHash authenticatedAt))) (\<lambda>_.
     identity_read (\<lambda>db. (db, find (same_subject verifiedIssuer subjectLookupHash) (db_identities db)))))"

text \<open>The statement is a transaction of its own; its row is read after it.\<close>

definition pg_upsertGoogleIdentity ::
  "'u identity_options \<Rightarrow> string \<Rightarrow> string \<Rightarrow> int \<Rightarrow> ('u identity, external_identity) action" where
  "pg_upsertGoogleIdentity P verifiedIssuer subjectLookupHash authenticatedAt =
     act_bind (on_pool P (upsert_work P verifiedIssuer subjectLookupHash authenticatedAt))
     (\<lambda>(db, row). act_lift (ebind (of_option missing_row row) (identity_result db authenticatedAt)))"

section \<open>Disclosures\<close>

definition pg_getCurrentDisclosure ::
  "'u identity_options \<Rightarrow> int \<Rightarrow> ('u identity, disclosure option) action" where
  "pg_getCurrentDisclosure P at = on_pool P (
     act_bind (identity_read (\<lambda>db. sort_key (\<lambda>d. - dr_effective_at d)
       (filter (effective_at at) (db_disclosures db)))) (\<lambda>rows.
     act_ok (case rows of [] \<Rightarrow> None | d # _ \<Rightarrow>
       Some \<lparr>dc_contentSha256 = dr_content_sha256 d, dc_effectiveAt = dr_effective_at d,
         dc_version = dr_disclosure_version d\<rparr>)))"

definition insert_acknowledgment :: "acknowledgment_row \<Rightarrow> identity_db \<Rightarrow> identity_db option" where
  "insert_acknowledgment a db =
     (if \<not> acknowledgment_checks a then None
      else if list_ex (acknowledgments_conflict a) (db_acknowledgments db) then Some db
      else if (case da_external_identity_id a of
            None \<Rightarrow> True | Some i \<Rightarrow> list_ex (\<lambda>e. ei_id e = i) (db_identities db)) \<and>
          (case da_player_id a of
            None \<Rightarrow> True | Some i \<Rightarrow> list_ex (\<lambda>p. ip_id p = i) (db_players db))
      then Some (db\<lparr>db_acknowledgments := db_acknowledgments db @ [a]\<rparr>) else None)"

definition acknowledged_by ::
  "string \<Rightarrow> string option \<Rightarrow> string option \<Rightarrow> acknowledgment_row \<Rightarrow> bool" where
  "acknowledged_by version externalIdentityId playerId a \<longleftrightarrow>
     da_disclosure_version a = version \<and>
     (same_some externalIdentityId (da_external_identity_id a) \<or> same_some playerId (da_player_id a))"

definition acknowledge_work ::
  "'u identity_options \<Rightarrow> acknowledgment_input \<Rightarrow> ('u identity, acknowledgment option) action" where
  "acknowledge_work P input =
     act_bind (identity_read (\<lambda>db. length (filter (\<lambda>d.
         dr_disclosure_version d = ai_disclosureVersion input \<and>
         dr_content_sha256 d = ai_contentSha256 input \<and> effective_at (ai_acknowledgedAt input) d)
       (db_disclosures db)))) (\<lambda>rowCount.
     if rowCount \<noteq> 1 then act_ok None
     else
       act_bind (draw (io_uuid P)) (\<lambda>i.
       act_bind (identity_sql (insert_acknowledgment \<lparr>da_id = i,
         da_disclosure_version = ai_disclosureVersion input,
         da_external_identity_id = ai_externalIdentityId input, da_player_id = ai_playerId input,
         da_source = (if ai_externalIdentityId input = None then Direct_Hive_Pre_Participation
           else Google_Pre_Provisioning),
         da_acknowledged_at = ai_acknowledgedAt input, da_player_linked_at = None\<rparr>)) (\<lambda>_.
       act_bind (identity_read (\<lambda>db. sort_key da_acknowledged_at
         (filter (acknowledged_by (ai_disclosureVersion input) (ai_externalIdentityId input)
           (ai_playerId input)) (db_acknowledgments db)))) (\<lambda>rows.
       act_ok (case rows of [] \<Rightarrow> None | a # _ \<Rightarrow>
         Some \<lparr>ak_acknowledgedAt = da_acknowledged_at a,
           ak_disclosureVersion = da_disclosure_version a, ak_id = da_id a\<rparr>)))))"

definition pg_acknowledgeCurrentDisclosure ::
  "'u identity_options \<Rightarrow> acknowledgment_input \<Rightarrow> ('u identity, acknowledgment option) action" where
  "pg_acknowledgeCurrentDisclosure P input = on_pool P (acknowledge_work P input)"

definition postgres_auth_repository :: "'u identity_options \<Rightarrow> 'u identity auth_repository" where
  "postgres_auth_repository P = \<lparr>
     createHiveChallenge = pg_createHiveChallenge P,
     consumeHiveChallenge = pg_consumeHiveChallenge P,
     findOrCreateDirectHivePlayer = pg_findOrCreateDirectHivePlayer P,
     createSession = pg_createSession P,
     rotateSession = pg_rotateSession P,
     findActiveSession = pg_findActiveSession P,
     revokeSession = pg_revokeSession P,
     upsertGoogleIdentity = pg_upsertGoogleIdentity P,
     getCurrentDisclosure = pg_getCurrentDisclosure P,
     acknowledgeCurrentDisclosure = pg_acknowledgeCurrentDisclosure P\<rparr>"

end
