(* ===== verification/Auth_Token.thy ===== *)
theory Auth_Token
  imports Auth_Config
begin

text \<open>
  The API's own credentials (\<open>auth/token.service.ts\<close>): access tokens of a session and onboarding
  tokens of a verified external identity, as HS256 tokens of three base64url parts.
\<close>

section \<open>Claims\<close>

datatype token_type = Access | Onboarding

record claims =
  cl_aud :: string
  cl_exp :: int
  cl_iat :: int
  cl_iss :: string
  cl_sid :: "string option"
  cl_sub :: string
  cl_typ :: token_type

fun token_type_text :: "token_type \<Rightarrow> string" where
  "token_type_text Access = ''access''"
| "token_type_text Onboarding = ''onboarding''"

fun as_token_type :: "json \<Rightarrow> token_type option" where
  "as_token_type (JStr s) =
     (if s = ''access'' then Some Access else if s = ''onboarding'' then Some Onboarding else None)"
| "as_token_type _ = None"

text \<open>\<open>z.number().int()\<close>, a safe integer in zod 4, and \<open>z.string().uuid()\<close>.\<close>

definition as_safe_int :: "json \<Rightarrow> int option" where
  "as_safe_int v = Option.bind (as_int v) (\<lambda>n. if is_safe_integer n then Some n else None)"

definition as_uuid :: "crypto \<Rightarrow> json \<Rightarrow> string option" where
  "as_uuid K v = Option.bind (as_string v) (\<lambda>s. if zod_uuid K s then Some s else None)"

definition tokenClaimsSchema :: "crypto \<Rightarrow> json \<Rightarrow> claims option" where
  "tokenClaimsSchema K v =
     do {
       m \<leftarrow> strict_object [''aud'', ''exp'', ''iat'', ''iss'', ''sub'', ''typ''] [''sid''] v;
       aud \<leftarrow> get_prop as_string m ''aud'';
       exp \<leftarrow> get_prop as_safe_int m ''exp'';
       iat \<leftarrow> get_prop as_safe_int m ''iat'';
       iss \<leftarrow> get_prop as_string m ''iss'';
       sid \<leftarrow> get_optional (as_uuid K) m ''sid'';
       sub \<leftarrow> get_prop (as_uuid K) m ''sub'';
       kind \<leftarrow> get_prop as_token_type m ''typ'';
       Some \<lparr>cl_aud = aud, cl_exp = exp, cl_iat = iat, cl_iss = iss, cl_sid = sid, cl_sub = sub,
         cl_typ = kind\<rparr>
     }"

section \<open>Signing and verifying\<close>

definition tokenHeader :: "crypto \<Rightarrow> string" where
  "tokenHeader K =
     base64url_text K (json_stringify K [(''alg'', JStr ''HS256''), (''typ'', JStr ''JWT'')])"

definition invalidToken :: exn where
  "invalidToken = ApiError 401 ''invalid_session''"

text \<open>\<open>Math.floor(date.getTime() / 1_000)\<close>\<close>

definition seconds :: "int \<Rightarrow> int" where
  "seconds t = t div 1000"

text \<open>The object that is signed, in the order of its literal.\<close>

definition claims_literal ::
  "auth_config \<Rightarrow> int \<Rightarrow> int \<Rightarrow> string option \<Rightarrow> string \<Rightarrow> token_type \<Rightarrow> (string \<times> json) list" where
  "claims_literal C now expiresAt sid sub kind =
     [(''aud'', JStr (ac_audience C)), (''exp'', JNum (seconds expiresAt)),
      (''iat'', JNum (seconds now)), (''iss'', JStr (ac_issuer C))] @
     (case sid of None \<Rightarrow> [] | Some s \<Rightarrow> [(''sid'', JStr s)]) @
     [(''sub'', JStr sub), (''typ'', JStr (token_type_text kind))]"

definition sign_claims ::
  "crypto \<Rightarrow> auth_config \<Rightarrow> int \<Rightarrow> int \<Rightarrow> string option \<Rightarrow> string \<Rightarrow> token_type \<Rightarrow> string" where
  "sign_claims K C now expiresAt sid sub kind =
     (let payload = base64url_text K (json_stringify K (claims_literal C now expiresAt sid sub kind));
          signingInput = tokenHeader K @ ''.'' @ payload;
          signature = hmac_base64url K (ac_tokenKey C) signingInput
      in signingInput @ ''.'' @ signature)"

definition verify_token :: "host \<Rightarrow> crypto \<Rightarrow> auth_config \<Rightarrow> string \<Rightarrow> int \<Rightarrow> exn + claims" where
  "verify_token H K C token now =
     (case js_split (CHR ''.'') token of
        [header, payload, signature] \<Rightarrow>
          ebind (ensure (\<not> (header \<noteq> tokenHeader K \<or> payload = '''' \<or> signature = '''')) invalidToken) (\<lambda>_.
          let signingInput = header @ ''.'' @ payload;
              supplied = bytes_of_base64url K signature;
              expected = hmac_sha256 K (ac_tokenKey C) signingInput in
          ebind (ensure (\<not> (length supplied \<noteq> length expected \<or> supplied \<noteq> expected)) invalidToken) (\<lambda>_.
          ebind (of_option invalidToken (json_parse H (text_of_base64url K payload))) (\<lambda>parsed.
          ebind (of_option invalidToken (tokenClaimsSchema K parsed)) (\<lambda>claims.
          let nowSeconds = seconds now in
          ebind (ensure (\<not> (cl_iss claims \<noteq> ac_issuer C \<or> cl_aud claims \<noteq> ac_audience C \<or>
            cl_iat claims > nowSeconds + 30 \<or> cl_exp claims \<le> nowSeconds)) invalidToken) (\<lambda>_.
          Inr claims)))))
      | _ \<Rightarrow> Inl invalidToken)"

section \<open>The service\<close>

definition token_expiry :: "auth_config \<Rightarrow> int \<Rightarrow> int" where
  "token_expiry C now = now + ac_accessTokenTtlSeconds C * 1000"

definition issueAccessToken :: "crypto \<Rightarrow> auth_config \<Rightarrow> string \<Rightarrow> string \<Rightarrow> int \<Rightarrow> int \<times> string" where
  "issueAccessToken K C playerId sessionId now =
     (let expiresAt = token_expiry C now in
      (expiresAt, sign_claims K C now expiresAt (Some sessionId) playerId Access))"

definition issueOnboardingToken :: "crypto \<Rightarrow> auth_config \<Rightarrow> string \<Rightarrow> int \<Rightarrow> int \<times> string" where
  "issueOnboardingToken K C externalIdentityId now =
     (let expiresAt = token_expiry C now in
      (expiresAt, sign_claims K C now expiresAt None externalIdentityId Onboarding))"

text \<open>The player and the session of an access token.\<close>

definition verifyAccessToken ::
  "host \<Rightarrow> crypto \<Rightarrow> auth_config \<Rightarrow> string \<Rightarrow> int \<Rightarrow> exn + (string \<times> string)" where
  "verifyAccessToken H K C token now =
     ebind (verify_token H K C token now) (\<lambda>claims.
     if cl_typ claims \<noteq> Access then Inl invalidToken
     else case cl_sid claims of None \<Rightarrow> Inl invalidToken | Some sid \<Rightarrow> Inr (cl_sub claims, sid))"

definition verifyOnboardingToken :: "host \<Rightarrow> crypto \<Rightarrow> auth_config \<Rightarrow> string \<Rightarrow> int \<Rightarrow> exn + string" where
  "verifyOnboardingToken H K C token now =
     ebind (verify_token H K C token now) (\<lambda>claims.
     if cl_typ claims \<noteq> Onboarding \<or> cl_sid claims \<noteq> None then Inl invalidToken
     else Inr (cl_sub claims))"

section \<open>What a verified token is\<close>

text \<open>
  A token with these claims was made with the key for this header and payload, whatever the
  claims of the time.
\<close>

definition token_says :: "host \<Rightarrow> crypto \<Rightarrow> auth_config \<Rightarrow> string \<Rightarrow> claims \<Rightarrow> bool" where
  "token_says H K C token claims \<longleftrightarrow>
     (\<exists>payload signature parsed. token = tokenHeader K @ ''.'' @ payload @ ''.'' @ signature \<and>
        bytes_of_base64url K signature =
          hmac_sha256 K (ac_tokenKey C) (tokenHeader K @ ''.'' @ payload) \<and>
        json_parse H (text_of_base64url K payload) = Some parsed \<and>
        tokenClaimsSchema K parsed = Some claims)"

lemma js_split_two:
  assumes "js_split d s = [a, b, c]"
  shows "s = a @ [d] @ b @ [d] @ c"
proof -
  have "s = a @ concat (map (\<lambda>w. d # w) ws)" if "js_split d s = a # ws" for a ws s
    using that
  proof (induction s arbitrary: a ws)
    case (Cons x xs)
    obtain v vs where split: "js_split d xs = v # vs" by (cases "js_split d xs") auto
    from Cons.IH [OF split] Cons.prems split show ?case
      by (cases "x = d") auto
  qed simp
  from this [OF assms] show ?thesis by simp
qed

lemma verify_tokenE:
  assumes "verify_token H K C token now = Inr claims"
  obtains "token_says H K C token claims" and "cl_iss claims = ac_issuer C"
    and "cl_aud claims = ac_audience C" and "cl_iat claims \<le> seconds now + 30"
    and "seconds now < cl_exp claims"
proof -
  from assms obtain payload signature parsed where
    split: "js_split (CHR ''.'') token = [tokenHeader K, payload, signature]"
    and rest: "bytes_of_base64url K signature =
        hmac_sha256 K (ac_tokenKey C) (tokenHeader K @ ''.'' @ payload)"
      "json_parse H (text_of_base64url K payload) = Some parsed"
      "tokenClaimsSchema K parsed = Some claims"
      "\<not> (cl_iss claims \<noteq> ac_issuer C \<or> cl_aud claims \<noteq> ac_audience C \<or>
        cl_iat claims > seconds now + 30 \<or> cl_exp claims \<le> seconds now)"
    unfolding verify_token_def Let_def
    by (auto simp: run_simps split: list.splits)
  from js_split_two [OF split] rest have "token_says H K C token claims"
    by (auto simp: token_says_def)
  with rest(4) that show thesis by auto
qed

text \<open>What a token says does not depend on when it is read.\<close>

lemma verify_token_same:
  "verify_token H K C token now = Inr claims \<Longrightarrow> verify_token H K C token now' = Inr claims' \<Longrightarrow>
   claims' = claims"
  unfolding verify_token_def Let_def by (auto simp: run_simps split: list.splits)

lemma verify_token_fails: "verify_token H K C token now = Inl e \<Longrightarrow> e = invalidToken"
  unfolding verify_token_def Let_def by (auto simp: run_simps split: list.splits)

lemma verifyAccessToken_fails: "verifyAccessToken H K C token now = Inl e \<Longrightarrow> e = invalidToken"
  using verify_token_fails
  by (auto simp: verifyAccessToken_def run_simps split: if_splits option.splits)

lemma verifyAccessTokenE:
  assumes "verifyAccessToken H K C token now = Inr (playerId, sessionId)"
  obtains claims where "verify_token H K C token now = Inr claims" and "cl_typ claims = Access"
    and "cl_sub claims = playerId" and "cl_sid claims = Some sessionId"
  using assms by (auto simp: verifyAccessToken_def run_simps split: if_splits option.splits)

text \<open>
  An access token is accepted only if its signature is the MAC, under the configured key, of
  exactly its first two parts, whose payload names that player and that session, this issuer and
  this audience, was issued at most thirty seconds ahead of now and has not expired; and whenever
  the same text is read, it is refused as an onboarding token.
\<close>

theorem access_token_authentic:
  assumes "verifyAccessToken H K C token now = Inr (playerId, sessionId)"
  shows "\<exists>claims. token_says H K C token claims \<and> cl_typ claims = Access \<and>
    cl_sub claims = playerId \<and> cl_sid claims = Some sessionId \<and>
    cl_iss claims = ac_issuer C \<and> cl_aud claims = ac_audience C \<and>
    cl_iat claims \<le> seconds now + 30 \<and> seconds now < cl_exp claims \<and>
    (\<forall>later. verifyOnboardingToken H K C token later = Inl invalidToken)"
proof -
  from assms obtain claims where claims: "verify_token H K C token now = Inr claims"
    "cl_typ claims = Access" "cl_sub claims = playerId" "cl_sid claims = Some sessionId"
    by (rule verifyAccessTokenE)
  have "verifyOnboardingToken H K C token later = Inl invalidToken" for later
  proof (cases "verify_token H K C token later")
    case (Inl e)
    with verify_token_fails [OF Inl] show ?thesis by (simp add: verifyOnboardingToken_def)
  next
    case (Inr claims')
    with verify_token_same [OF claims(1) Inr] claims(2) show ?thesis
      by (simp add: verifyOnboardingToken_def)
  qed
  with claims show ?thesis by (blast elim: verify_tokenE)
qed

section \<open>Round trip\<close>

text \<open>
  What \<open>Buffer\<close>, \<open>JSON\<close> and \<open>createHmac\<close> promise: a text survives its base64url form, which is
  not empty and has no full stop; a literal survives its JSON text; a base64url digest is the
  digest.
\<close>

definition base64url_ok :: "crypto \<Rightarrow> string \<Rightarrow> bool" where
  "base64url_ok K t \<longleftrightarrow>
     text_of_base64url K (base64url_text K t) = t \<and> base64url_text K t \<noteq> '''' \<and>
     CHR ''.'' \<notin> set (base64url_text K t)"

definition stringify_ok :: "host \<Rightarrow> crypto \<Rightarrow> (string \<times> json) list \<Rightarrow> bool" where
  "stringify_ok H K kvs \<longleftrightarrow> json_parse H (json_stringify K kvs) = Some (jobj kvs)"

definition hmac_ok :: "crypto \<Rightarrow> string \<Rightarrow> string \<Rightarrow> bool" where
  "hmac_ok K key t \<longleftrightarrow>
     bytes_of_base64url K (hmac_base64url K key t) = hmac_sha256 K key t \<and>
     hmac_base64url K key t \<noteq> '''' \<and> CHR ''.'' \<notin> set (hmac_base64url K key t)"

definition codecs_ok :: "host \<Rightarrow> crypto \<Rightarrow> auth_config \<Rightarrow> (string \<times> json) list \<Rightarrow> bool" where
  "codecs_ok H K C kvs \<longleftrightarrow>
     base64url_ok K (json_stringify K [(''alg'', JStr ''HS256''), (''typ'', JStr ''JWT'')]) \<and>
     base64url_ok K (json_stringify K kvs) \<and> stringify_ok H K kvs \<and>
     hmac_ok K (ac_tokenKey C) (tokenHeader K @ ''.'' @ base64url_text K (json_stringify K kvs))"

lemma js_split_plain: "d \<notin> set s \<Longrightarrow> js_split d s = [s]"
  by (induction s) auto

lemma js_split_append: "d \<notin> set a \<Longrightarrow> js_split d (a @ d # s) = a # js_split d s"
  by (induction a) auto

text \<open>Signed claims are read back, and then only the time decides.\<close>

lemma verify_signed:
  assumes ok: "codecs_ok H K C (claims_literal C now expiresAt sid sub kind)"
    and "is_safe_integer (seconds now)" and "is_safe_integer (seconds expiresAt)"
    and "zod_uuid K sub" and "\<forall>s. sid = Some s \<longrightarrow> zod_uuid K s"
  shows "verify_token H K C (sign_claims K C now expiresAt sid sub kind) t =
    (if seconds now \<le> seconds t + 30 \<and> seconds t < seconds expiresAt
     then Inr \<lparr>cl_aud = ac_audience C, cl_exp = seconds expiresAt, cl_iat = seconds now,
       cl_iss = ac_issuer C, cl_sid = sid, cl_sub = sub, cl_typ = kind\<rparr>
     else Inl invalidToken)"
proof -
  let ?kvs = "claims_literal C now expiresAt sid sub kind"
  let ?payload = "base64url_text K (json_stringify K ?kvs)"
  let ?signature = "hmac_base64url K (ac_tokenKey C) (tokenHeader K @ ''.'' @ ?payload)"
  have "js_split (CHR ''.'') (sign_claims K C now expiresAt sid sub kind) =
      [tokenHeader K, ?payload, ?signature]"
    using ok unfolding sign_claims_def Let_def codecs_ok_def base64url_ok_def hmac_ok_def
    by (simp add: js_split_append js_split_plain tokenHeader_def)
  moreover have "tokenClaimsSchema K (jobj ?kvs) =
      Some \<lparr>cl_aud = ac_audience C, cl_exp = seconds expiresAt, cl_iat = seconds now,
        cl_iss = ac_issuer C, cl_sid = sid, cl_sub = sub, cl_typ = kind\<rparr>"
    using assms(2-5) unfolding tokenClaimsSchema_def claims_literal_def
    by (cases sid; cases kind)
      (simp_all add: strict_object_jobj as_safe_int_def as_uuid_def)
  ultimately show ?thesis
    using ok unfolding verify_token_def Let_def codecs_ok_def base64url_ok_def hmac_ok_def
      stringify_ok_def
    by auto
qed

text \<open>
  C26. The access token that is issued for a player's session is accepted, and names both, exactly
  from thirty seconds before the second it was issued in until the second it expires in, and as an
  onboarding token never.
\<close>

theorem issued_access_token_accepted:
  assumes "codecs_ok H K C (claims_literal C now (token_expiry C now) (Some sessionId) playerId Access)"
    and "is_safe_integer (seconds now)" and "is_safe_integer (seconds (token_expiry C now))"
    and "zod_uuid K playerId" and "zod_uuid K sessionId"
  shows "verifyAccessToken H K C (snd (issueAccessToken K C playerId sessionId now)) t =
      (if seconds now - 30 \<le> seconds t \<and> seconds t < seconds (fst (issueAccessToken K C playerId sessionId now))
       then Inr (playerId, sessionId) else Inl invalidToken) \<and>
    verifyOnboardingToken H K C (snd (issueAccessToken K C playerId sessionId now)) t = Inl invalidToken"
  using verify_signed [OF assms(1-4)] assms(5)
  by (auto simp: verifyAccessToken_def verifyOnboardingToken_def issueAccessToken_def Let_def)

section \<open>A concrete instance\<close>

definition fixture_player :: string where
  "fixture_player = ''01980abc-def0-7abc-8def-0123456789ab''"

definition fixture_session :: string where
  "fixture_session = ''01980abc-def1-7abc-8def-0123456789ab''"

definition fixture_claims :: "(string \<times> json) list" where
  "fixture_claims = claims_literal fixture_config 5000 (token_expiry fixture_config 5000)
     (Some fixture_session) fixture_player Access"

definition fixture_token_host :: host where
  "fixture_token_host = fixture_host\<lparr>json_parse := (\<lambda>t.
     if t = json_stringify fixture_crypto fixture_claims then Some (jobj fixture_claims) else None)\<rparr>"

lemma fixture_codecs_ok: "codecs_ok fixture_token_host fixture_crypto fixture_config fixture_claims"
  by code_simp

definition fixture_token :: string where
  "fixture_token = snd (issueAccessToken fixture_crypto fixture_config fixture_player fixture_session 5000)"

lemma issued_access_token_accepted_witness:
  "verifyAccessToken fixture_token_host fixture_crypto fixture_config fixture_token 604999 =
     Inr (fixture_player, fixture_session) \<and>
   verifyAccessToken fixture_token_host fixture_crypto fixture_config fixture_token 605000 =
     Inl invalidToken"
proof -
  have "fst (issueAccessToken fixture_crypto fixture_config fixture_player fixture_session 5000) = 605000"
    by code_simp
  moreover have "is_safe_integer (seconds 5000)"
    "is_safe_integer (seconds (token_expiry fixture_config 5000))"
    "zod_uuid fixture_crypto fixture_player" "zod_uuid fixture_crypto fixture_session"
    by code_simp+
  moreover note issued_access_token_accepted [OF fixture_codecs_ok [unfolded fixture_claims_def]]
  ultimately show ?thesis
    unfolding fixture_token_def by (simp add: seconds_def)
qed

lemma access_token_authentic_witness:
  "\<exists>claims. token_says fixture_token_host fixture_crypto fixture_config fixture_token claims \<and>
     cl_sub claims = fixture_player"
proof -
  have "verifyAccessToken fixture_token_host fixture_crypto fixture_config fixture_token 6000 =
      Inr (fixture_player, fixture_session)"
    by code_simp
  from access_token_authentic [OF this] show ?thesis by blast
qed

end
