(* ===== verification/Auth_Verifier.thy ===== *)
theory Auth_Verifier
  imports Auth_Token Hafah_Source Gateway
begin

text \<open>
  Direct Hive login: who may sign for an account
  (\<open>auth/hive-posting-authority.verifier.ts\<close>). The account's posting authority is read from a
  node; a key satisfies it when its own weight reaches the threshold, or through one delegated
  account at a time, up to two delegations deep. Hive itself adds up the weights of keys and
  accounts; that definition is the reference here.
\<close>

section \<open>Accounts\<close>

record authority =
  ay_account_auths :: "(string \<times> int) list"
  ay_key_auths :: "(string \<times> int) list"
  ay_weight_threshold :: int

record hive_account =
  ha_name :: string
  ha_posting :: authority

definition as_positive :: "json \<Rightarrow> int option" where
  "as_positive v = Option.bind (as_safe_int v) (\<lambda>n. if 0 < n then Some n else None)"

fun as_weighted :: "json \<Rightarrow> (string \<times> int) option" where
  "as_weighted (JArr [a, w]) = do { s \<leftarrow> as_string a; n \<leftarrow> as_positive w; Some (s, n) }"
| "as_weighted _ = None"

definition authoritySchema :: "json \<Rightarrow> authority option" where
  "authoritySchema v =
     do {
       m \<leftarrow> strict_object [''account_auths'', ''key_auths'', ''weight_threshold''] [] v;
       accounts \<leftarrow> get_prop (as_array_of as_weighted) m ''account_auths'';
       keys \<leftarrow> get_prop (as_array_of as_weighted) m ''key_auths'';
       threshold \<leftarrow> get_prop as_positive m ''weight_threshold'';
       Some \<lparr>ay_account_auths = accounts, ay_key_auths = keys, ay_weight_threshold = threshold\<rparr>
     }"

definition rpcAccountSchema :: "json \<Rightarrow> hive_account option" where
  "rpcAccountSchema v =
     do {
       m \<leftarrow> loose_object v;
       name \<leftarrow> get_prop as_string m ''name'';
       posting \<leftarrow> get_prop authoritySchema m ''posting'';
       Some \<lparr>ha_name = name, ha_posting = posting\<rparr>
     }"

definition rpcResponseSchema :: "json \<Rightarrow> hive_account list option" where
  "rpcResponseSchema v =
     do { m \<leftarrow> loose_object v; get_prop (as_array_of rpcAccountSchema) m ''result'' }"

section \<open>The verifier\<close>

text \<open>
  Its ports: \<open>fetch\<close> of a URL with a JSON body and a timeout, which answers with \<open>response.ok\<close>
  and the body, \<open>None\<close> when that is no JSON; and key recovery.
\<close>

record 's verifier =
  vf_fetch :: "string \<Rightarrow> json \<Rightarrow> int \<Rightarrow> ('s, bool \<times> json option) action"
  vf_recover :: "string \<Rightarrow> string \<Rightarrow> ('s, string) action"
  vf_host :: host
  vf_config :: auth_config

definition hiveUnavailable :: exn where
  "hiveUnavailable = ApiError 503 ''hive_unavailable''"

definition fetchAccount :: "('s, 'x) verifier_scheme \<Rightarrow> string \<Rightarrow> ('s, hive_account option) action" where
  "fetchAccount V accountName =
     act_bind (act_catch
       (vf_fetch V (ac_hiveRpcUrl (vf_config V))
         (jobj [(''id'', JNum 1), (''jsonrpc'', JStr ''2.0''),
            (''method'', JStr ''condenser_api.get_accounts''),
            (''params'', JArr [JArr [JStr accountName]])]) 5000)
       (\<lambda>_. act_fail hiveUnavailable)) (\<lambda>(ok, body).
     act_bind (act_ensure ok hiveUnavailable) (\<lambda>_.
     act_bind (act_lift (of_option hiveUnavailable
       (rpcResponseSchema (case body of None \<Rightarrow> JNull | Some v \<Rightarrow> v)))) (\<lambda>accounts.
     act_ok (case accounts of [] \<Rightarrow> None | a # _ \<Rightarrow> Some a))))"

definition key_weight :: "string \<Rightarrow> authority \<Rightarrow> int" where
  "key_weight key a = sum_list (map snd (filter (\<lambda>(k, _). k = key) (ay_key_auths a)))"

text \<open>The loop over \<open>account_auths\<close>, which stops at the first account that will do.\<close>

fun any_delegate ::
  "(string \<Rightarrow> ('s, bool) action) \<Rightarrow> int \<Rightarrow> (string \<times> int) list \<Rightarrow> ('s, bool) action" where
  "any_delegate f threshold [] = act_ok False"
| "any_delegate f threshold ((nested, outerWeight) # rest) =
     (if outerWeight \<ge> threshold
      then act_bind (f nested) (\<lambda>yes. if yes then act_ok True else any_delegate f threshold rest)
      else any_delegate f threshold rest)"

lemma any_delegate_cong [fundef_cong]:
  assumes "threshold = threshold'" and "auths = auths'"
    and "\<And>a. a \<in> fst ` set auths' \<Longrightarrow> f a = f' a"
  shows "any_delegate f threshold auths = any_delegate f' threshold' auths'"
  using assms(3) unfolding assms(1,2)
  by (induction auths') (auto cong: if_cong)

function keyCanSatisfyPostingAuthority ::
  "('s, 'x) verifier_scheme \<Rightarrow> string \<Rightarrow> string \<Rightarrow> string list \<Rightarrow> nat \<Rightarrow> ('s, bool) action" where
  "keyCanSatisfyPostingAuthority V accountName recoveredKey visited depth =
     (if accountName \<in> set visited \<or> depth > 2 then act_ok False
      else act_bind (fetchAccount V accountName) (\<lambda>account.
        case account of
          None \<Rightarrow> act_ok False
        | Some a \<Rightarrow>
            let posting = ha_posting a in
            if key_weight recoveredKey posting \<ge> ay_weight_threshold posting then act_ok True
            else any_delegate
              (\<lambda>nested. keyCanSatisfyPostingAuthority V nested recoveredKey
                 (accountName # visited) (depth + 1))
              (ay_weight_threshold posting) (ay_account_auths posting)))"
  by pat_completeness auto
termination
  by (relation "measure (\<lambda>(V, name, key, visited, depth). 3 - depth)") auto

declare keyCanSatisfyPostingAuthority.simps [simp del]

record login_proof =
  lp_challenge :: string
  lp_hiveUsername :: string
  lp_signature :: string

text \<open>
  \<open>verify\<close>: the walk over accounts is returned without being awaited, so the \<open>catch\<close> covers only
  the signature and the recovery.
\<close>

definition verify_login :: "('s, 'x) verifier_scheme \<Rightarrow> login_proof \<Rightarrow> ('s, bool) action" where
  "verify_login V input =
     act_bind (act_catch
       (act_bind (act_lift (validateHiveCompactSignature (lp_signature input))) (\<lambda>_.
        let digest = sha256_hex (vf_host V) (lp_challenge input) in
        act_bind (vf_recover V digest (lp_signature input)) (\<lambda>key. act_ok (Some key))))
       (\<lambda>error. case error of
          ApiError status code \<Rightarrow> if status = 503 then act_fail error else act_ok None
        | _ \<Rightarrow> act_ok None)) (\<lambda>recovered.
     case recovered of
       None \<Rightarrow> act_ok False
     | Some key \<Rightarrow> keyCanSatisfyPostingAuthority V (lp_hiveUsername input) key [] 0)"

definition usernameExists :: "('s, 'x) verifier_scheme \<Rightarrow> string \<Rightarrow> ('s, bool) action" where
  "usernameExists V hiveUsername =
     act_bind (fetchAccount V hiveUsername) (\<lambda>account. act_ok (account \<noteq> None))"

section \<open>What satisfies an authority\<close>

type_synonym chain_accounts = "string \<Rightarrow> hive_account option"

definition own_key :: "chain_accounts \<Rightarrow> string \<Rightarrow> string \<Rightarrow> bool" where
  "own_key chain key name =
     (case chain name of
        None \<Rightarrow> False
      | Some a \<Rightarrow> ay_weight_threshold (ha_posting a) \<le> key_weight key (ha_posting a))"

text \<open>An account that alone reaches the threshold of another.\<close>

definition delegates :: "chain_accounts \<Rightarrow> string \<Rightarrow> string list" where
  "delegates chain name =
     (case chain name of
        None \<Rightarrow> []
      | Some a \<Rightarrow> map fst (filter (\<lambda>(_, w). ay_weight_threshold (ha_posting a) \<le> w)
          (ay_account_auths (ha_posting a))))"

text \<open>A key of the account, or of an account at most \<open>n\<close> delegations away.\<close>

fun delegated :: "chain_accounts \<Rightarrow> string \<Rightarrow> nat \<Rightarrow> string \<Rightarrow> bool" where
  "delegated chain key 0 name \<longleftrightarrow> own_key chain key name"
| "delegated chain key (Suc n) name \<longleftrightarrow>
     own_key chain key name \<or> list_ex (delegated chain key n) (delegates chain name)"

text \<open>
  Hive's rule: the weights of the key and of the accounts that it satisfies add up to the
  threshold, \<open>n\<close> delegations deep.
\<close>

fun authority_satisfied :: "chain_accounts \<Rightarrow> string \<Rightarrow> nat \<Rightarrow> string \<Rightarrow> bool" where
  "authority_satisfied chain key 0 name \<longleftrightarrow> own_key chain key name"
| "authority_satisfied chain key (Suc n) name \<longleftrightarrow>
     (case chain name of
        None \<Rightarrow> False
      | Some a \<Rightarrow> ay_weight_threshold (ha_posting a) \<le> key_weight key (ha_posting a) +
          sum_list (map snd (filter (\<lambda>(nested, _). authority_satisfied chain key n nested)
            (ay_account_auths (ha_posting a)))))"

text \<open>The weights of what a node sends are positive.\<close>

definition weights_positive :: "chain_accounts \<Rightarrow> bool" where
  "weights_positive chain \<longleftrightarrow>
     (\<forall>name a. chain name = Some a \<longrightarrow>
        (\<forall>(k, w) \<in> set (ay_key_auths (ha_posting a)). 0 < w) \<and>
        (\<forall>(k, w) \<in> set (ay_account_auths (ha_posting a)). 0 < w))"

lemma key_weight_nonneg:
  assumes "weights_positive chain" and "chain name = Some a"
  shows "0 \<le> key_weight key (ha_posting a)"
  using assms unfolding weights_positive_def key_weight_def
  by (intro sum_list_nonneg) fastforce

lemma delegated_satisfies:
  assumes "weights_positive chain"
  shows "delegated chain key n name \<Longrightarrow> authority_satisfied chain key n name"
proof (induction n arbitrary: name)
  case (Suc n)
  from Suc.prems obtain a where a: "chain name = Some a"
    by (auto simp: own_key_def delegates_def split: option.splits)
  let ?satisfied = "filter (\<lambda>(nested, _). authority_satisfied chain key n nested)
    (ay_account_auths (ha_posting a))"
  have positive: "\<forall>w \<in> set (map snd ?satisfied). 0 \<le> w"
    using assms a by (fastforce simp: weights_positive_def)
  then have sum: "0 \<le> sum_list (map snd ?satisfied)"
    by (intro sum_list_nonneg) auto
  from Suc.prems consider "ay_weight_threshold (ha_posting a) \<le> key_weight key (ha_posting a)"
    | nested w where "(nested, w) \<in> set (ay_account_auths (ha_posting a))"
      "ay_weight_threshold (ha_posting a) \<le> w" "delegated chain key n nested"
    by (auto simp: own_key_def delegates_def a list_ex_iff)
  then show ?case
  proof cases
    case 1
    with sum show ?thesis by (simp add: a)
  next
    case (2 nested w)
    then have "w \<in> set (map snd ?satisfied)"
      using Suc.IH by force
    with positive have "w \<le> sum_list (map snd ?satisfied)"
      by (intro member_le_sum_list) auto
    with 2 key_weight_nonneg [OF assms a, of key] show ?thesis by (simp add: a)
  qed
qed simp

section \<open>Paths of delegations\<close>

fun delegation_path :: "chain_accounts \<Rightarrow> string \<Rightarrow> string \<Rightarrow> string list \<Rightarrow> bool" where
  "delegation_path chain key name [] \<longleftrightarrow> own_key chain key name"
| "delegation_path chain key name (nested # p) \<longleftrightarrow>
     nested \<in> set (delegates chain name) \<and> delegation_path chain key nested p"

lemma delegated_path:
  "delegated chain key n name \<longleftrightarrow> (\<exists>p. length p \<le> n \<and> delegation_path chain key name p)"
proof (induction n arbitrary: name)
  case (Suc n)
  have "(\<exists>p. length p \<le> Suc n \<and> delegation_path chain key name p) \<longleftrightarrow>
      own_key chain key name \<or>
      (\<exists>nested \<in> set (delegates chain name). \<exists>p. length p \<le> n \<and> delegation_path chain key nested p)"
  proof (intro iffI)
    assume "\<exists>p. length p \<le> Suc n \<and> delegation_path chain key name p"
    then obtain p where "length p \<le> Suc n" "delegation_path chain key name p" by blast
    then show "own_key chain key name \<or>
        (\<exists>nested \<in> set (delegates chain name). \<exists>p. length p \<le> n \<and> delegation_path chain key nested p)"
      by (cases p) auto
  next
    assume "own_key chain key name \<or>
        (\<exists>nested \<in> set (delegates chain name). \<exists>p. length p \<le> n \<and> delegation_path chain key nested p)"
    then show "\<exists>p. length p \<le> Suc n \<and> delegation_path chain key name p"
    proof
      assume "own_key chain key name"
      then have "delegation_path chain key name []" by simp
      then show ?thesis by (metis le0 list.size(3))
    next
      assume "\<exists>nested \<in> set (delegates chain name). \<exists>p. length p \<le> n \<and> delegation_path chain key nested p"
      then obtain nested p where "length (nested # p) \<le> Suc n"
        "delegation_path chain key name (nested # p)"
        by auto
      then show ?thesis by blast
    qed
  qed
  with Suc.IH show ?case by (auto simp: list_ex_iff)
qed simp

lemma delegation_path_from:
  "delegation_path chain key name p \<Longrightarrow> v \<in> set p \<Longrightarrow>
   \<exists>q. delegation_path chain key v q \<and> length q \<le> length p \<and> set q \<subseteq> set p \<and>
     (distinct p \<longrightarrow> distinct (v # q))"
proof (induction p arbitrary: name)
  case (Cons x xs)
  show ?case
  proof (cases "v = x")
    case True
    with Cons.prems(1) show ?thesis by (intro exI [of _ xs]) auto
  next
    case False
    with Cons obtain q where "delegation_path chain key v q" "length q \<le> length xs"
      "set q \<subseteq> set xs" "distinct xs \<longrightarrow> distinct (v # q)"
      by (auto simp del: distinct.simps)
    then show ?thesis by (intro exI [of _ q]) auto
  qed
qed simp

text \<open>A path that comes back to where it was can be cut.\<close>

lemma delegation_path_distinct:
  "delegation_path chain key name p \<Longrightarrow>
   \<exists>q. delegation_path chain key name q \<and> length q \<le> length p \<and> distinct (name # q)"
proof (induction p arbitrary: name)
  case Nil
  then show ?case by (intro exI [of _ "[]"]) auto
next
  case (Cons x xs)
  then obtain q where q: "delegation_path chain key x q" "length q \<le> length xs" "distinct (x # q)"
    by auto
  have path: "delegation_path chain key name (x # q)"
    using q(1) Cons.prems by simp
  show ?case
  proof (cases "name \<in> set (x # q)")
    case True
    from delegation_path_from [OF path True] q(2,3) show ?thesis by force
  next
    case False
    with path q(2,3) show ?thesis by (intro exI [of _ "x # q"]) auto
  qed
qed

section \<open>The walk over accounts\<close>

text \<open>What the walk answers when the node answers the same throughout; \<open>n\<close> is how deep it may go.\<close>

fun walk :: "chain_accounts \<Rightarrow> string \<Rightarrow> string list \<Rightarrow> nat \<Rightarrow> string \<Rightarrow> bool" where
  "walk chain key visited 0 name \<longleftrightarrow> False"
| "walk chain key visited (Suc n) name \<longleftrightarrow>
     name \<notin> set visited \<and>
     (own_key chain key name \<or> list_ex (walk chain key (name # visited) n) (delegates chain name))"

definition node_answers :: "('s, 'x) verifier_scheme \<Rightarrow> chain_accounts \<Rightarrow> 's \<Rightarrow> bool" where
  "node_answers V chain w \<longleftrightarrow> (\<forall>name. fetchAccount V name w = (Inr (chain name), w))"

lemma any_delegate_steady:
  assumes "\<And>a. f a w = (Inr (g a), w)"
  shows "any_delegate f threshold auths w =
    (Inr (list_ex g (map fst (filter (\<lambda>(_, w). threshold \<le> w) auths))), w)"
proof (induction auths)
  case (Cons x xs)
  then show ?case
    using assms by (cases x) (auto simp: act_bind_def act_run)
qed (simp add: act_run)

lemma keyCan_steady:
  assumes "node_answers V chain w"
  shows "keyCanSatisfyPostingAuthority V name key visited depth w =
    (Inr (walk chain key visited (3 - depth) name), w)"
proof (induction "3 - depth" arbitrary: name visited depth)
  case 0
  then show ?case
    by (subst keyCanSatisfyPostingAuthority.simps) (simp add: act_run)
next
  case (Suc n)
  have n: "3 - (depth + 1) = n" and some: "3 - depth = Suc n" and "\<not> depth > 2"
    using Suc.hyps(2) by auto
  have IH: "keyCanSatisfyPostingAuthority V nested key visited' (depth + 1) w =
      (Inr (walk chain key visited' n nested), w)" for nested visited'
    using Suc.hyps(1) [of "depth + 1" nested visited'] n by simp
  have delegates_found: "any_delegate
        (\<lambda>nested. keyCanSatisfyPostingAuthority V nested key visited' (depth + 1)) threshold auths w =
      (Inr (list_ex (walk chain key visited' n) (map fst (filter (\<lambda>(_, w). threshold \<le> w) auths))), w)"
    for visited' threshold auths
    by (rule any_delegate_steady) (rule IH)
  have fetch: "fetchAccount V name w = (Inr (chain name), w)"
    using assms by (simp add: node_answers_def)
  show ?case
    unfolding some using \<open>\<not> depth > 2\<close>
    by (subst keyCanSatisfyPostingAuthority.simps)
      (auto simp del: One_nat_def simp: act_run act_bind_Inr [where m = "fetchAccount V name", OF fetch] own_key_def delegates_def Let_def
        delegates_found split: option.split)
qed

lemma walk_sound: "walk chain key visited (Suc n) name \<Longrightarrow> delegated chain key n name"
proof (induction n arbitrary: visited name)
  case (Suc n)
  from Suc.prems have "own_key chain key name \<or>
      (\<exists>nested \<in> set (delegates chain name). walk chain key (name # visited) (Suc n) nested)"
    unfolding walk.simps(2) [of chain key visited "Suc n"] by (simp only: list_ex_iff)
  with Suc.IH show ?case by (auto simp: list_ex_iff simp del: walk.simps)
qed (simp add: list_ex_iff)

lemma walk_complete:
  "delegation_path chain key name p \<Longrightarrow> distinct (name # p) \<Longrightarrow>
   set (name # p) \<inter> set visited = {} \<Longrightarrow> length p \<le> n \<Longrightarrow> walk chain key visited (Suc n) name"
proof (induction p arbitrary: name visited n)
  case (Cons nested p)
  then obtain m where "n = Suc m" by (cases n) auto
  with Cons.prems Cons.IH [of nested "name # visited" m] show ?case
    by (auto simp: list_ex_iff)
qed auto

lemma walk_iff: "walk chain key [] (Suc n) name \<longleftrightarrow> delegated chain key n name"
proof
  assume "delegated chain key n name"
  then obtain p where "delegation_path chain key name p" "length p \<le> n"
    unfolding delegated_path by blast
  with delegation_path_distinct [of chain key name p] obtain q
    where "delegation_path chain key name q" "length q \<le> n" "distinct (name # q)"
    by auto
  then show "walk chain key [] (Suc n) name"
    by (intro walk_complete) auto
qed (rule walk_sound)

text \<open>
  C25. Against a node that answers the same throughout, the walk always ends, and ends with yes
  exactly when the key reaches the threshold of the account itself, or of an account that at most
  two delegations, each reaching its threshold alone, lead to; skipping the accounts it has been to
  loses nothing. What it accepts satisfies the posting authority by Hive's own rule, where weights
  add up, if weights are positive.
\<close>

theorem posting_authority_walk:
  assumes "node_answers V chain w"
  shows "keyCanSatisfyPostingAuthority V name key [] 0 w = (Inr (delegated chain key 2 name), w) \<and>
    (weights_positive chain \<and> delegated chain key 2 name \<longrightarrow> authority_satisfied chain key 2 name)"
  using keyCan_steady [OF assms, of name key "[]" 0] walk_iff [of chain key 2 name]
    delegated_satisfies [of chain key 2 name]
  by (simp add: numeral_3_eq_3 numeral_2_eq_2)

text \<open>
  A login is verified only when the signature has Hive's compact form and the key recovered
  from it, over the SHA-256 of the challenge, satisfies the account's posting authority.
\<close>

theorem verified_login_is_signed:
  assumes "verify_login V input w = (Inr True, w')"
    and "\<And>w1 key w2. vf_recover V (sha256_hex (vf_host V) (lp_challenge input)) (lp_signature input) w1 =
      (Inr key, w2) \<Longrightarrow> node_answers V chain w2"
    and "weights_positive chain"
  shows "\<exists>s key w1. validateHiveCompactSignature (lp_signature input) = Inr s \<and>
    vf_recover V (sha256_hex (vf_host V) (lp_challenge input)) (lp_signature input) w = (Inr key, w1) \<and>
    authority_satisfied chain key 2 (lp_hiveUsername input)"
proof -
  from assms(1) obtain s key w1 where s: "validateHiveCompactSignature (lp_signature input) = Inr s"
    and key: "vf_recover V (sha256_hex (vf_host V) (lp_challenge input)) (lp_signature input) w =
      (Inr key, w1)"
    and yes: "keyCanSatisfyPostingAuthority V (lp_hiveUsername input) key [] 0 w1 = (Inr True, w')"
    unfolding verify_login_def Let_def
    by (auto simp: act_run elim!: act_bind_InrE act_catchE act_bindE split: option.splits exn.splits
        if_splits)
  from assms(2) [OF key] have node: "node_answers V chain w1" .
  from keyCan_steady [OF node, of "lp_hiveUsername input" key "[]" 0] yes
    walk_iff [of chain key 2 "lp_hiveUsername input"]
  have "delegated chain key 2 (lp_hiveUsername input)"
    by (simp add: numeral_3_eq_3 numeral_2_eq_2)
  from delegated_satisfies [OF assms(3) this] s key show ?thesis by blast
qed

section \<open>A concrete instance\<close>

text \<open>Two accounts: alice has delegated her posting authority to bobby, whose key is the fixture's.\<close>

definition fixture_authority :: "(string \<times> int) list \<Rightarrow> (string \<times> int) list \<Rightarrow> json" where
  "fixture_authority accounts keys =
     (let weighted = (\<lambda>xs. JArr (map (\<lambda>(a, w). JArr [JStr a, JNum w]) xs)) in
      jobj [(''account_auths'', weighted accounts), (''key_auths'', weighted keys),
        (''weight_threshold'', JNum 1)])"

definition fixture_posting :: "string \<Rightarrow> json list" where
  "fixture_posting name =
     (if name = ''alice'' then [jobj [(''name'', JStr name),
        (''posting'', fixture_authority [(''bobby'', 1)] [])]]
      else if name = ''bobby'' then [jobj [(''name'', JStr name),
        (''posting'', fixture_authority [] [(''STM-key'', 1)])]]
      else [])"

definition fixture_node :: "json \<Rightarrow> json" where
  "fixture_node body =
     jobj [(''result'', JArr (case body of
        JObj m \<Rightarrow> (case fmlookup m ''params'' of
            Some (JArr [JArr [JStr name]]) \<Rightarrow> fixture_posting name | _ \<Rightarrow> [])
      | _ \<Rightarrow> []))]"

definition fixture_verifier :: "host \<Rightarrow> 'u verifier" where
  "fixture_verifier h = \<lparr>vf_fetch = (\<lambda>u body t. act_ok (True, Some (fixture_node body))),
     vf_recover = (\<lambda>d g. act_ok ''STM-key''), vf_host = h, vf_config = fixture_config\<rparr>"

definition fixture_chain_accounts :: chain_accounts where
  "fixture_chain_accounts name =
     (if name = ''alice'' then Some \<lparr>ha_name = name, ha_posting = \<lparr>
        ay_account_auths = [(''bobby'', 1)], ay_key_auths = [], ay_weight_threshold = 1\<rparr>\<rparr>
      else if name = ''bobby'' then Some \<lparr>ha_name = name, ha_posting = \<lparr>
        ay_account_auths = [], ay_key_auths = [(''STM-key'', 1)], ay_weight_threshold = 1\<rparr>\<rparr>
      else None)"

lemma fixture_decoded:
  "rpcResponseSchema (jobj [(''result'', JArr (fixture_posting name))]) =
     Some (case fixture_chain_accounts name of None \<Rightarrow> [] | Some a \<Rightarrow> [a])"
proof (cases "name = ''alice'' \<or> name = ''bobby''")
  case True
  then show ?thesis by (elim disjE) (simp; code_simp)+
next
  case False
  then show ?thesis
    by (simp add: fixture_posting_def fixture_chain_accounts_def rpcResponseSchema_def
        loose_object_def as_array_of_def jobj_def props_def fmlookup_of_list get_prop_def)
qed

lemma fixture_node_answers: "node_answers (fixture_verifier h) fixture_chain_accounts w"
proof -
  have "fixture_node (jobj [(''id'', JNum 1), (''jsonrpc'', JStr ''2.0''),
      (''method'', JStr ''condenser_api.get_accounts''), (''params'', JArr [JArr [JStr name]])]) =
      jobj [(''result'', JArr (fixture_posting name))]" for name
    by (simp add: fixture_node_def jobj_def props_def fmlookup_of_list)
  then show ?thesis
    by (simp add: node_answers_def fetchAccount_def fixture_verifier_def fixture_decoded act_catch_def
        act_bind_def act_run split: option.split)
qed

lemma fixture_weights_positive: "weights_positive fixture_chain_accounts"
  by (auto simp: weights_positive_def fixture_chain_accounts_def split: if_splits)

lemma posting_authority_walk_witness:
  "keyCanSatisfyPostingAuthority (fixture_verifier fixture_host) ''alice'' ''STM-key'' [] 0 () = (Inr True, ()) \<and>
   authority_satisfied fixture_chain_accounts ''STM-key'' 2 ''alice''"
proof -
  have "delegated fixture_chain_accounts ''STM-key'' 2 ''alice''" by code_simp
  with posting_authority_walk [OF fixture_node_answers, of fixture_host "''alice''" "''STM-key''"]
    fixture_weights_positive
  show ?thesis by simp
qed

lemma fixture_verify:
  "verify_login (fixture_verifier h) \<lparr>lp_challenge = c, lp_hiveUsername = ''alice'',
    lp_signature = fixture_signature\<rparr> w = (Inr True, w)"
proof -
  have "delegated fixture_chain_accounts ''STM-key'' 2 ''alice''" by code_simp
  then have "keyCanSatisfyPostingAuthority (fixture_verifier h) ''alice'' ''STM-key'' [] 0 w =
      (Inr True, w)"
    using keyCan_steady [OF fixture_node_answers, of h "''alice''" "''STM-key''" "[]" 0]
      walk_iff [of fixture_chain_accounts "''STM-key''" 2 "''alice''"]
    by (simp add: numeral_3_eq_3 numeral_2_eq_2)
  then show ?thesis
    by (simp add: verify_login_def fixture_signature_accepted act_bind_def act_catch_def act_run
        fixture_verifier_def)
qed

lemma verified_login_is_signed_witness:
  "\<exists>s. validateHiveCompactSignature fixture_signature = Inr s \<and>
     authority_satisfied fixture_chain_accounts ''STM-key'' 2 ''alice''"
  using verified_login_is_signed [OF fixture_verify fixture_node_answers fixture_weights_positive,
      of "''challenge''" fixture_host "()"]
  by (auto simp: fixture_verifier_def act_run)

end
