(* ===== verification/Auth_Service.thy ===== *)
theory Auth_Service
  imports Auth_Repository Auth_Verifier
begin

text \<open>
  Login, refresh and logout (\<open>auth/auth.service.ts\<close>), the Google gateway
  (\<open>auth/google-oidc.gateway.ts\<close>), the guards of the controllers, the disclosure service
  (\<open>auth/disclosure.service.ts\<close>) and the custodial signer, over ports of one state. The code calls
  \<open>new Date()\<close> where it is not given a time; here the time is an argument.
\<close>

section \<open>The Google gateway\<close>

record google_input =
  gi_authorizationCode :: string
  gi_codeVerifier :: string
  gi_redirectUri :: string

record google_identity =
  gy_issuer :: string
  gy_subject :: string

text \<open>
  \<open>client.getToken\<close> and \<open>client.verifyIdToken\<close> of the Google library: an id token if the response
  has one, and the \<open>iss\<close> and \<open>sub\<close> of its payload if there is one.
\<close>

record 's google_client =
  gl_getToken :: "google_config \<Rightarrow> google_input \<Rightarrow> ('s, string option) action"
  gl_verifyIdToken :: "google_config \<Rightarrow> string \<Rightarrow> ('s, (string \<times> string) option) action"

definition invalidGoogleIdentity :: exn where
  "invalidGoogleIdentity = ApiError 401 ''invalid_google_identity''"

definition googleUnavailable :: exn where
  "googleUnavailable = ApiError 503 ''google_oidc_unavailable''"

definition google_exchange ::
  "host \<Rightarrow> 's google_client \<Rightarrow> google_config option \<Rightarrow> google_input \<Rightarrow> ('s, google_identity) action" where
  "google_exchange H G config input =
     (case config of
        None \<Rightarrow> act_fail googleUnavailable
      | Some g \<Rightarrow>
          act_bind (act_lift (of_option (OtherError ''TypeError'')
            (map_option url_href (parse_url H (gi_redirectUri input))))) (\<lambda>canonicalRedirect.
          act_bind (act_ensure (canonicalRedirect \<in> set (gc_redirectUris g)) invalidGoogleIdentity) (\<lambda>_.
          act_bind (act_catch (gl_getToken G g (input\<lparr>gi_redirectUri := canonicalRedirect\<rparr>))
            (\<lambda>_. act_fail invalidGoogleIdentity)) (\<lambda>idToken.
          case idToken of
            Some (c # cs) \<Rightarrow>
              act_bind (act_catch (gl_verifyIdToken G g (c # cs))
                (\<lambda>error. case error of
                   ApiError status code \<Rightarrow> if status = 401 then act_fail error else act_fail invalidGoogleIdentity
                 | _ \<Rightarrow> act_fail invalidGoogleIdentity)) (\<lambda>payload.
              case payload of
                Some (iss, sub) \<Rightarrow>
                  act_bind (act_ensure (\<not> (sub = '''' \<or>
                    (iss \<noteq> ''accounts.google.com'' \<and> iss \<noteq> ''https://accounts.google.com'')))
                    invalidGoogleIdentity) (\<lambda>_.
                  act_ok \<lparr>gy_issuer = iss, gy_subject = sub\<rparr>)
              | None \<Rightarrow> act_fail invalidGoogleIdentity)
          | _ \<Rightarrow> act_fail invalidGoogleIdentity))))"

section \<open>The service\<close>

record 's auth_service =
  sv_host :: host
  sv_crypto :: crypto
  sv_config :: auth_config
  sv_repository :: "'s auth_repository"
  sv_verify :: "login_proof \<Rightarrow> ('s, bool) action"
  sv_google :: "google_input \<Rightarrow> ('s, google_identity) action"
  sv_uuid :: "('s, string) action"
  sv_random_base64url :: "nat \<Rightarrow> ('s, string) action"

text \<open>
  \<open>sv_uuid\<close> is \<open>createUuidV7()\<close>, \<open>sv_random_base64url n\<close> is \<open>randomBytes(n).toString('base64url')\<close>.
\<close>

record auth_tokens =
  tk_accessToken :: string
  tk_accessTokenExpiresAt :: string
  tk_player_id :: string
  tk_player_hiveUsername :: string
  tk_refreshToken :: string
  tk_sessionId :: string

record challenge_response =
  cx_challenge :: string
  cx_expiresAt :: string
  cx_hiveUsername :: string
  cx_id :: string

datatype next_step = Acknowledge_Disclosure | Choose_Username

datatype exchange_response =
    Authenticated auth_tokens
  | Onboarding_Started string string next_step string

text \<open>Its fields: \<open>expiresAt\<close>, \<open>externalIdentityId\<close>, \<open>nextStep\<close>, \<open>onboardingToken\<close>.\<close>

record hive_session_input =
  hi_challengeId :: string
  hi_hiveUsername :: string
  hi_signature :: string
  hi_signingProvider :: signing_provider

definition invalidHiveLogin :: exn where
  "invalidHiveLogin = ApiError 401 ''invalid_hive_challenge''"

definition invalidSession :: exn where
  "invalidSession = ApiError 401 ''invalid_session''"

definition identityDisabled :: exn where
  "identityDisabled = ApiError 409 ''identity_disabled''"

definition newline :: string where
  "newline = [char_of (10 :: nat)]"

fun join_lines :: "string list \<Rightarrow> string" where
  "join_lines [] = ''''"
| "join_lines [s] = s"
| "join_lines (s # ss) = s @ newline @ join_lines ss"

definition challenge_text ::
  "string \<Rightarrow> string \<Rightarrow> string \<Rightarrow> string \<Rightarrow> string \<Rightarrow> string \<Rightarrow> string" where
  "challenge_text audience account deviceSession nonce issuedAt expiresAt =
     join_lines [''Hive Chameleon login'', ''audience:'' @ audience, ''account:'' @ account,
       ''device_session:'' @ deviceSession, ''nonce:'' @ nonce, ''issued_at:'' @ issuedAt,
       ''expires_at:'' @ expiresAt]"

definition as_createHiveChallenge ::
  "'s auth_service \<Rightarrow> string \<Rightarrow> client_platform \<Rightarrow> int \<Rightarrow> ('s, challenge_response) action" where
  "as_createHiveChallenge S hiveUsername platform now =
     (let expiresAt = now + ac_challengeTtlSeconds (sv_config S) * 1000 in
      act_bind (sv_uuid S) (\<lambda>i.
      act_bind (sv_uuid S) (\<lambda>deviceSessionId.
      act_bind (sv_random_base64url S 32) (\<lambda>nonce.
      act_bind (act_lift (toISOString (sv_host S) now)) (\<lambda>issued.
      act_bind (act_lift (toISOString (sv_host S) expiresAt)) (\<lambda>expires.
      let challenge = challenge_text (ac_audience (sv_config S)) hiveUsername deviceSessionId nonce
        issued expires in
      act_bind (createHiveChallenge (sv_repository S) \<lparr>lc_challenge = challenge,
        lc_expiresAt = expiresAt, lc_hiveUsername = hiveUsername, lc_id = i, lc_platform = platform,
        lc_challengeSha256 = sha256_hex (sv_host S) challenge,
        lc_deviceSessionId = deviceSessionId, lc_issuedAt = now\<rparr>) (\<lambda>_.
      act_ok \<lparr>cx_challenge = challenge, cx_expiresAt = expires, cx_hiveUsername = hiveUsername,
        cx_id = i\<rparr>)))))))"

definition createRefreshToken :: "'s auth_service \<Rightarrow> ('s, string) action" where
  "createRefreshToken S = sv_random_base64url S 48"

definition hashRefreshToken :: "'s auth_service \<Rightarrow> string \<Rightarrow> string" where
  "hashRefreshToken S token = hmac_hex (sv_crypto S) (ac_tokenKey (sv_config S)) token"

definition responseTokens ::
  "'s auth_service \<Rightarrow> player_identity \<Rightarrow> string \<Rightarrow> string \<Rightarrow> string \<Rightarrow> int \<Rightarrow> exn + auth_tokens" where
  "responseTokens S player sessionId refreshToken accessToken accessTokenExpiresAt =
     ebind (toISOString (sv_host S) accessTokenExpiresAt) (\<lambda>expires.
     Inr \<lparr>tk_accessToken = accessToken, tk_accessTokenExpiresAt = expires,
       tk_player_id = py_id player, tk_player_hiveUsername = py_hiveUsername player,
       tk_refreshToken = refreshToken, tk_sessionId = sessionId\<rparr>)"

definition as_createSession ::
  "'s auth_service \<Rightarrow> player_identity \<Rightarrow> client_platform \<Rightarrow> authentication_method \<Rightarrow>
   signing_provider option \<Rightarrow> string option \<Rightarrow> bool \<Rightarrow> int \<Rightarrow> ('s, auth_tokens) action" where
  "as_createSession S player platform method signingProvider externalIdentityId eligible now =
     act_bind (sv_uuid S) (\<lambda>sessionId.
     act_bind (createRefreshToken S) (\<lambda>refreshToken.
     let expiresAt = now + ac_refreshTokenTtlSeconds (sv_config S) * 1000 in
     act_bind (createSession (sv_repository S) \<lparr>ns_authenticationMethod = method,
       ns_custodialSigningEligible = eligible, ns_expiresAt = expiresAt,
       ns_externalIdentityId = externalIdentityId, ns_hiveSigningProvider = signingProvider,
       ns_id = sessionId, ns_issuedAt = now, ns_platform = platform, ns_player = player,
       ns_refreshTokenHash = hashRefreshToken S refreshToken\<rparr>) (\<lambda>_.
     let (accessExpiresAt, accessToken) =
       issueAccessToken (sv_crypto S) (sv_config S) (py_id player) sessionId now in
     act_lift (responseTokens S player sessionId refreshToken accessToken accessExpiresAt))))"

definition as_createHiveSession ::
  "'s auth_service \<Rightarrow> hive_session_input \<Rightarrow> int \<Rightarrow> ('s, auth_tokens) action" where
  "as_createHiveSession S input now =
     act_bind (consumeHiveChallenge (sv_repository S) (hi_challengeId input) (hi_hiveUsername input) now)
       (\<lambda>challenge.
     case challenge of
       None \<Rightarrow> act_fail invalidHiveLogin
     | Some c \<Rightarrow>
         act_bind (sv_verify S \<lparr>lp_challenge = lc_challenge c, lp_hiveUsername = hi_hiveUsername input,
           lp_signature = hi_signature input\<rparr>) (\<lambda>verified.
         act_bind (act_ensure verified invalidHiveLogin) (\<lambda>_.
         act_bind (findOrCreateDirectHivePlayer (sv_repository S) (hi_hiveUsername input)) (\<lambda>player.
         as_createSession S player (lc_platform c) Direct_Hive_Challenge
           (Some (hi_signingProvider input)) None False now))))"

text \<open>\<open>update(issuer).update('\0').update(subject)\<close>\<close>

definition subject_lookup_hash :: "crypto \<Rightarrow> auth_config \<Rightarrow> google_identity \<Rightarrow> string" where
  "subject_lookup_hash K C g =
     hmac_hex K (ac_identityLookupKey C) (gy_issuer g @ [char_of (0 :: nat)] @ gy_subject g)"

definition as_exchangeGoogle ::
  "'s auth_service \<Rightarrow> google_input \<Rightarrow> client_platform \<Rightarrow> int \<Rightarrow> ('s, exchange_response) action" where
  "as_exchangeGoogle S input platform now =
     act_bind (sv_google S input) (\<lambda>g.
     act_bind (upsertGoogleIdentity (sv_repository S) (gy_issuer g)
       (subject_lookup_hash (sv_crypto S) (sv_config S) g) now) (\<lambda>x.
     act_bind (act_ensure (xi_status x \<noteq> Identity_Disabled) identityDisabled) (\<lambda>_.
     case xi_player x of
       Some player \<Rightarrow>
         act_bind (as_createSession S player platform Google_Oidc (Some Custodial_Service)
           (Some (xi_id x)) (py_hiveControlState player = Platform_Custodial) now) (\<lambda>tokens.
         act_ok (Authenticated tokens))
     | None \<Rightarrow>
         let (expiresAt, token) =
           issueOnboardingToken (sv_crypto S) (sv_config S) (xi_id x) now in
         act_bind (act_lift (toISOString (sv_host S) expiresAt)) (\<lambda>expires.
         act_ok (Onboarding_Started expires (xi_id x)
           (if xi_disclosureAcknowledged x then Choose_Username else Acknowledge_Disclosure) token)))))"

definition as_refresh :: "'s auth_service \<Rightarrow> string \<Rightarrow> int \<Rightarrow> ('s, auth_tokens) action" where
  "as_refresh S refreshToken now =
     act_bind (createRefreshToken S) (\<lambda>nextRefreshToken.
     act_bind (rotateSession (sv_repository S) (hashRefreshToken S refreshToken)
       (hashRefreshToken S nextRefreshToken) now) (\<lambda>session.
     case session of
       None \<Rightarrow> act_fail invalidSession
     | Some s \<Rightarrow>
         let (accessExpiresAt, accessToken) =
           issueAccessToken (sv_crypto S) (sv_config S) (py_id (av_player s)) (av_authSessionId s) now in
         act_lift (responseTokens S (av_player s) (av_authSessionId s) nextRefreshToken accessToken
           accessExpiresAt)))"

definition as_revokeSession :: "'s auth_service \<Rightarrow> string \<Rightarrow> int \<Rightarrow> ('s, unit) action" where
  "as_revokeSession S sessionId now =
     act_bind (revokeSession (sv_repository S) sessionId now ''player_logout'') (\<lambda>_. act_ok ())"

section \<open>Guards\<close>

text \<open>The \<open>authorization\<close> header: one string, several, or none.\<close>

datatype header = No_Header | One_Header string | Many_Headers "string list"

fun bearerToken :: "header \<Rightarrow> exn + string" where
  "bearerToken (One_Header h) =
     (if \<not> starts_with ''Bearer '' h then Inl invalidSession
      else let token = drop 7 h in
        if token = '''' \<or> CHR '' '' \<in> set token then Inl invalidSession else Inr token)"
| "bearerToken _ = Inl invalidSession"

text \<open>\<open>AccessSessionGuard\<close>: the session it puts on the request.\<close>

definition access_session_guard ::
  "'s auth_service \<Rightarrow> header \<Rightarrow> int \<Rightarrow> int \<Rightarrow> ('s, active_session) action" where
  "access_session_guard S authorization now later =
     act_bind (act_lift (bearerToken authorization)) (\<lambda>token.
     act_bind (act_lift (verifyAccessToken (sv_host S) (sv_crypto S) (sv_config S) token now))
       (\<lambda>(playerId, sessionId).
     act_bind (findActiveSession (sv_repository S) sessionId later) (\<lambda>session.
     case session of
       None \<Rightarrow> act_fail invalidSession
     | Some s \<Rightarrow> if av_playerId s \<noteq> playerId then act_fail invalidSession else act_ok s)))"

definition onboarding_session_guard :: "'s auth_service \<Rightarrow> header \<Rightarrow> int \<Rightarrow> exn + string" where
  "onboarding_session_guard S authorization now =
     ebind (bearerToken authorization) (\<lambda>token.
     verifyOnboardingToken (sv_host S) (sv_crypto S) (sv_config S) token now)"

datatype principal = Session_Principal active_session | Onboarding_Principal string

text \<open>\<open>DisclosurePrincipalGuard\<close>: a session, or failing that with 401 an onboarding identity.\<close>

definition disclosure_principal_guard ::
  "'s auth_service \<Rightarrow> header \<Rightarrow> int \<Rightarrow> ('s, principal) action" where
  "disclosure_principal_guard S authorization now =
     act_bind (act_lift (bearerToken authorization)) (\<lambda>token.
     act_bind (act_catch
       (act_bind (act_lift (verifyAccessToken (sv_host S) (sv_crypto S) (sv_config S) token now))
          (\<lambda>(playerId, sessionId).
        act_bind (findActiveSession (sv_repository S) sessionId now) (\<lambda>session.
        case session of
          None \<Rightarrow> act_fail invalidSession
        | Some s \<Rightarrow> if av_playerId s \<noteq> playerId then act_fail invalidSession
            else act_ok (Some (Session_Principal s)))))
       (\<lambda>error. case error of
          ApiError status code \<Rightarrow> if status = 401 then act_ok None else act_fail error
        | _ \<Rightarrow> act_fail error)) (\<lambda>found.
     case found of
       Some p \<Rightarrow> act_ok p
     | None \<Rightarrow>
         act_bind (act_lift (verifyOnboardingToken (sv_host S) (sv_crypto S) (sv_config S) token now))
           (\<lambda>i. act_ok (Onboarding_Principal i))))"

section \<open>Disclosures\<close>

definition expectedContentSha256 :: string where
  "expectedContentSha256 = ''64ae0b7b385c6f4c1287e25979c44fce05c51583f61f20c7bb7e31171d921cc3''"

definition disclosureUnavailable :: exn where
  "disclosureUnavailable = ApiError 503 ''public_record_disclosure_unavailable''"

definition disclosureChanged :: exn where
  "disclosureChanged = ApiError 409 ''disclosure_version_changed''"

text \<open>The title, the body and the list of fields that come with it are constants.\<close>

definition ds_getCurrent :: "'s auth_service \<Rightarrow> int \<Rightarrow> ('s, disclosure) action" where
  "ds_getCurrent S now =
     act_bind (getCurrentDisclosure (sv_repository S) now) (\<lambda>disclosure.
     case disclosure of
       None \<Rightarrow> act_fail disclosureUnavailable
     | Some d \<Rightarrow>
         if dc_contentSha256 d \<noteq> expectedContentSha256 then act_fail disclosureUnavailable
         else act_bind (act_lift (toISOString (sv_host S) (dc_effectiveAt d))) (\<lambda>_. act_ok d))"

definition ds_acknowledge ::
  "'s auth_service \<Rightarrow> string \<Rightarrow> string \<Rightarrow> string option \<Rightarrow> string option \<Rightarrow> int \<Rightarrow>
   ('s, string \<times> string \<times> string) action" where
  "ds_acknowledge S contentSha256 disclosureVersion externalIdentityId playerId now =
     act_bind (act_ensure (\<not> ((externalIdentityId = None) = (playerId = None))) (OtherError ''Error'')) (\<lambda>_.
     act_bind (ds_getCurrent S now) (\<lambda>current.
     act_bind (act_ensure (\<not> (disclosureVersion \<noteq> dc_version current \<or>
       contentSha256 \<noteq> dc_contentSha256 current)) disclosureChanged) (\<lambda>_.
     act_bind (acknowledgeCurrentDisclosure (sv_repository S) \<lparr>ai_acknowledgedAt = now,
       ai_contentSha256 = contentSha256, ai_disclosureVersion = disclosureVersion,
       ai_externalIdentityId = externalIdentityId, ai_playerId = playerId\<rparr>) (\<lambda>acknowledgment.
     act_bind (act_lift (of_option disclosureUnavailable acknowledgment)) (\<lambda>a.
     act_bind (act_lift (toISOString (sv_host S) (ak_acknowledgedAt a))) (\<lambda>at.
     act_ok (at, ak_disclosureVersion a, ak_id a)))))))"

section \<open>The custodial signer\<close>

datatype custody_authority = Owner_Authority | Active_Authority | Posting_Authority

record signing_grant =
  cg_authority :: custody_authority
  cg_expectedPublicKey :: string
  cg_expiresAt :: int
  cg_hiveUsername :: string
  cg_idempotencyKey :: string
  cg_intentId :: string
  cg_playerId :: string
  cg_signerKeyReference :: string

definition custodial_signDigest ::
  "'c chain_port \<Rightarrow> 'p digest_provider \<Rightarrow> signing_grant \<Rightarrow> string \<Rightarrow> int \<Rightarrow>
   ('c \<times> 'p, string \<times> string) action" where
  "custodial_signDigest chain provider grant signatureDigest now =
     act_bind (act_ensure (\<not> cg_expiresAt grant \<le> now) (OtherError ''Error'')) (\<lambda>_.
     act_bind (act_ensure (is_hex_string 64 signatureDigest) (OtherError ''Error'')) (\<lambda>_.
     act_bind (act_ensure (\<not> (cg_signerKeyReference grant = '''' \<or>
       1024 < length (cg_signerKeyReference grant))) (OtherError ''Error'')) (\<lambda>_.
     act_bind (act_snd (provider \<lparr>dr_idempotencyKey = cg_idempotencyKey grant,
       dr_signerKeyReference = cg_signerKeyReference grant, dr_signatureDigest = signatureDigest,
       dr_expectedPublicKey = cg_expectedPublicKey grant\<rparr>)) (\<lambda>signature.
     act_bind (act_fst (assertSignatureMatchesPublicKey chain signatureDigest (signature)
       (cg_expectedPublicKey grant))) (\<lambda>_.
     act_ok (cg_expectedPublicKey grant, signature))))))"

end
