(* ===== verification/Auth_Steps.thy ===== *)
theory Auth_Steps
  imports Auth_Service
begin

text \<open>
  The identity tables as a transition system: any operation of the API's store, however its
  transaction ends, and what the rest of the system does to the other tables in between. One
  request of the API is several such steps, so a trace of steps is any interleaving of requests.
  A locale gives, for a relation that every statement keeps, that every trace keeps it.
\<close>

section \<open>Steps\<close>

text \<open>
  What a step asked of the store, with whether the caller was given what it asked for.
\<close>

datatype identity_event =
    Consume_Asked string bool
  | Opening_Asked string
  | Rotation_Asked string string bool
  | Other_Event

text \<open>
  \<open>Consume_Asked\<close> names a challenge, \<open>Opening_Asked\<close> the refresh hash of a new session,
  \<open>Rotation_Asked\<close> the hash that is given up and the one that replaces it.
\<close>

fun given :: "exn + 'a option \<Rightarrow> bool" where
  "given (Inr (Some x)) = True"
| "given _ = False"

lemma given_iff: "given r \<longleftrightarrow> (\<exists>x. r = Inr (Some x))"
  by (cases r rule: given.cases) auto

text \<open>The refresh hash a step brings into the table, and the one it was let in by.\<close>

fun issues :: "string \<Rightarrow> identity_event \<Rightarrow> bool" where
  "issues h (Opening_Asked h') \<longleftrightarrow> h' = h"
| "issues h (Rotation_Asked _ h' _) \<longleftrightarrow> h' = h"
| "issues h _ \<longleftrightarrow> False"

fun spends :: "string \<Rightarrow> identity_event \<Rightarrow> bool" where
  "spends h (Rotation_Asked h' _ ok) \<longleftrightarrow> h' = h \<and> ok"
| "spends h _ \<longleftrightarrow> False"

inductive identity_step ::
  "'u identity_options \<Rightarrow> 'u identity \<Rightarrow> identity_event \<Rightarrow> 'u identity \<Rightarrow> bool"
  for P :: "'u identity_options" where
  Challenge: "pg_createHiveChallenge P r w = (x, w') \<Longrightarrow> identity_step P w Other_Event w'"
| Consume: "pg_consumeHiveChallenge P i u t w = (y, w') \<Longrightarrow>
    identity_step P w (Consume_Asked i (given y)) w'"
| Player: "pg_findOrCreateDirectHivePlayer P u w = (p, w') \<Longrightarrow> identity_step P w Other_Event w'"
| Opening: "pg_createSession P n w = (x, w') \<Longrightarrow>
    identity_step P w (Opening_Asked (ns_refreshTokenHash n)) w'"
| Rotation: "pg_rotateSession P h h' t w = (z, w') \<Longrightarrow>
    identity_step P w (Rotation_Asked h h' (given z)) w'"
| Lookup: "pg_findActiveSession P i t w = (z, w') \<Longrightarrow> identity_step P w Other_Event w'"
| Revocation: "pg_revokeSession P i t reason w = (b, w') \<Longrightarrow> identity_step P w Other_Event w'"
| Google: "pg_upsertGoogleIdentity P issuer h t w = (e, w') \<Longrightarrow> identity_step P w Other_Event w'"
| Disclosure: "pg_getCurrentDisclosure P t w = (d, w') \<Longrightarrow> identity_step P w Other_Event w'"
| Acknowledgment: "pg_acknowledgeCurrentDisclosure P a w = (k, w') \<Longrightarrow>
    identity_step P w Other_Event w'"
| Elsewhere: "db_challenges (it_db w') = db_challenges (it_db w) \<Longrightarrow>
    db_sessions (it_db w') = db_sessions (it_db w) \<Longrightarrow> identity_step P w Other_Event w'"

inductive_cases identity_stepE: "identity_step P w e w'"

text \<open>
  \<open>Elsewhere\<close> is every other service, and the passing of time: only the API writes challenges and
  sessions (\<open>database_roles.sql\<close>).
\<close>

inductive identity_trace ::
  "'u identity_options \<Rightarrow> 'u identity \<Rightarrow> identity_event list \<Rightarrow> 'u identity \<Rightarrow> bool"
  for P :: "'u identity_options" where
  Start: "identity_trace P w [] w"
| Next: "identity_step P w e w' \<Longrightarrow> identity_trace P w' es w'' \<Longrightarrow> identity_trace P w (e # es) w''"

inductive_simps identity_trace_Nil [simp]: "identity_trace P w [] w'"
inductive_cases identity_trace_ConsE: "identity_trace P w (e # es) w'"

section \<open>What every statement keeps\<close>

text \<open>
  The laws: a relation on databases that does not look at the other tables, and that each
  statement on challenges and sessions stays in, as long as it issues only the refresh hashes that
  are allowed.
\<close>

locale identity_relation =
  fixes R :: "identity_db \<Rightarrow> identity_db \<Rightarrow> bool"
    and allowed :: "string \<Rightarrow> bool"
  assumes trans: "R db1 db2 \<Longrightarrow> R db2 db3 \<Longrightarrow> R db1 db3"
    and other_tables: "db_challenges db' = db_challenges db \<Longrightarrow> db_sessions db' = db_sessions db \<Longrightarrow> R db db'"
    and challenge: "insert_challenge H c db = Some db' \<Longrightarrow> hl_consumed_at c = None \<Longrightarrow> R db db'"
    and consume: "consume_challenges H i u t db = Some db' \<Longrightarrow> R db db'"
    and insert: "insert_session s db = Some db' \<Longrightarrow> is_open s \<Longrightarrow>
      allowed (as_refresh_token_hash s) \<Longrightarrow> R db db'"
    and revoke: "update_sessions Q (revoke_row t reason) db = Some db' \<Longrightarrow>
      (\<And>s. Q s \<Longrightarrow> is_open s) \<Longrightarrow> R db db'"
    and rotate: "update_sessions (\<lambda>s. as_id s = i)
        (\<lambda>s. s\<lparr>as_refresh_token_hash := h, as_last_used_at := Some t\<rparr>) db = Some db' \<Longrightarrow>
      s \<in> set (db_sessions db) \<Longrightarrow> as_id s = i \<Longrightarrow> is_open s \<Longrightarrow> allowed h \<Longrightarrow> R db db'"
begin

lemma refl: "R db db"
  by (rule other_tables) simp_all

lemma keeps_read: "identity_moves R (identity_read f)"
  by (auto simp: identity_moves_def refl elim!: identity_readE)

lemma keeps_draw: "identity_moves R (draw f)"
  by (auto simp: identity_moves_def refl elim!: drawE)

lemma keeps_ok: "identity_moves R (act_ok x)"
  by (simp add: identity_moves_def act_run refl)

lemma keeps_fail: "identity_moves R (act_fail e)"
  by (simp add: identity_moves_def act_run)

lemma keeps_lift: "identity_moves R (act_lift r)"
  by (simp add: identity_moves_def act_run refl)

lemma keeps_bind:
  assumes "identity_moves R m" and "\<And>x. identity_moves R (f x)"
  shows "identity_moves R (act_bind m f)"
  using assms unfolding identity_moves_def by (blast intro: trans elim!: act_bind_InrE)

lemma keeps_sql: "(\<And>db db'. f db = Some db' \<Longrightarrow> R db db') \<Longrightarrow> identity_moves R (identity_sql f)"
  by (auto simp: identity_moves_def elim!: identity_sql_InrE)

lemma keeps_other_tables:
  "(\<And>db db'. f db = Some db' \<Longrightarrow> db_challenges db' = db_challenges db \<and> db_sessions db' = db_sessions db) \<Longrightarrow>
   identity_moves R (identity_sql f)"
  by (rule keeps_sql) (simp add: other_tables)

text \<open>A transaction that fails leaves the tables, or has committed and lost its reply.\<close>

lemma on_pool_keeps:
  assumes "identity_moves R work" and "on_pool P work w = (r, w')"
  shows "R (it_db w) (it_db w')"
proof -
  from assms(2) consider "w' = w" | "identity_transaction work w = (r, w')"
    by (auto simp: on_pool_def act_run elim!: act_bindE act_ensureE)
  then show ?thesis
  proof cases
    case 2
    then show ?thesis
    proof (cases rule: identity_transactionE)
      case (committed x)
      from identity_movesD [OF assms(1) committed(1)] show ?thesis by simp
    qed (simp add: refl)
  qed (simp add: refl)
qed

lemma rotate_work_keeps:
  assumes "allowed h'"
  shows "identity_moves R (rotate_work h h' t :: ('u identity, active_session option) action)"
proof -
  have "R (it_db w) (it_db w')" if run: "rotate_work h h' t w = (Inr z, w')" for w w' :: "'u identity" and z
  proof -
    let ?rows = "live_sessions (\<lambda>s. as_refresh_token_hash s = h) t (it_db w)"
    show ?thesis
    proof (cases ?rows)
      case Nil
      with run show ?thesis
        by (auto simp: rotate_work_def act_run refl elim!: act_bind_InrE identity_readE)
    next
      case (Cons row rows)
      obtain s p b where row: "row = (s, p, b)" by (cases row) auto
      from Cons have "(s, p, b) \<in> set ?rows" by (simp add: row)
      then have "s \<in> set (db_sessions (it_db w))" "is_open s"
        by (auto simp: live_sessions_def)
      moreover from run Cons row obtain db
        where "update_sessions (\<lambda>r. as_id r = as_id s)
            (\<lambda>r. r\<lparr>as_refresh_token_hash := h', as_last_used_at := Some t\<rparr>) (it_db w) = Some db"
          and "w' = w\<lparr>it_db := db\<rparr>"
        by (auto simp: rotate_work_def act_run elim!: act_bind_InrE identity_readE identity_sql_InrE)
      ultimately show ?thesis using rotate assms by auto
    qed
  qed
  then show ?thesis by (simp add: identity_moves_def)
qed

lemma event_keeps:
  assumes "identity_step P w e w'" and "\<And>h. issues h e \<Longrightarrow> allowed h"
  shows "R (it_db w) (it_db w')"
  using assms(1)
proof cases
  case (Challenge r x)
  have "identity_moves R (identity_sql (insert_challenge (io_host P) (challenge_of r)))"
    by (rule keeps_sql) (auto intro: challenge simp: challenge_of_def)
  from on_pool_keeps [OF this Challenge(2) [unfolded pg_createHiveChallenge_def]] show ?thesis .
next
  case (Consume i u t y)
  show ?thesis
    by (rule on_pool_keeps [OF _ Consume(2) [unfolded pg_consumeHiveChallenge_def]])
      (auto intro!: keeps_bind keeps_read keeps_ok keeps_sql intro: consume)
next
  case (Player u p)
  show ?thesis
    by (rule on_pool_keeps [OF _ Player(2) [unfolded pg_findOrCreateDirectHivePlayer_def]])
      (auto intro!: keeps_bind keeps_read keeps_ok keeps_lift keeps_draw
        keeps_other_tables simp: upsert_player_def split: if_splits)
next
  case (Opening n x)
  have "identity_moves R (create_session_work n)"
    unfolding create_session_work_def
    by (intro keeps_bind keeps_sql) (auto intro: revoke insert simp: session_of_def is_open_def Opening(1) intro!: assms(2))
  from on_pool_keeps [OF this Opening(2) [unfolded pg_createSession_def]] show ?thesis .
next
  case (Rotation h h' t z)
  from on_pool_keeps [OF rotate_work_keeps [OF assms(2)] Rotation(2) [unfolded pg_rotateSession_def]] show ?thesis
    by (simp add: Rotation(1))
next
  case (Lookup i t z)
  show ?thesis
    by (rule on_pool_keeps [OF _ Lookup(2) [unfolded pg_findActiveSession_def]])
      (auto intro!: keeps_bind keeps_read keeps_ok)
next
  case (Revocation i t reason b)
  have "identity_moves R (revoke_work i t reason :: ('a identity, bool) action)"
    unfolding revoke_work_def Let_def
    by (intro keeps_bind keeps_sql keeps_read keeps_ok) (auto intro: revoke)
  from on_pool_keeps [OF this Revocation(2) [unfolded pg_revokeSession_def]] show ?thesis .
next
  case (Google issuer h t e)
  then obtain r where run: "on_pool P (upsert_work P issuer h t) w = (r, w')"
    unfolding pg_upsertGoogleIdentity_def by (auto simp: act_run elim!: act_bindE split: prod.splits)
  show ?thesis
    by (rule on_pool_keeps [OF _ run]) (auto intro!: keeps_bind keeps_read keeps_draw
        keeps_other_tables simp: upsert_work_def upsert_identity_def Let_def split: if_splits)
next
  case (Disclosure t d)
  show ?thesis
    by (rule on_pool_keeps [OF _ Disclosure(2) [unfolded pg_getCurrentDisclosure_def]])
      (auto intro!: keeps_bind keeps_read keeps_ok)
next
  case (Acknowledgment a k)
  have "identity_moves R (acknowledge_work P a)"
    unfolding acknowledge_work_def
    by (auto intro!: keeps_bind keeps_read keeps_ok keeps_draw keeps_other_tables
        simp: insert_acknowledgment_def split: if_splits)
  from on_pool_keeps [OF this Acknowledgment(2) [unfolded pg_acknowledgeCurrentDisclosure_def]]
  show ?thesis .
next
  case Elsewhere
  then show ?thesis by (simp add: other_tables)
qed

lemma trace_keeps:
  "identity_trace P w es w' \<Longrightarrow> (\<And>h e. e \<in> set es \<Longrightarrow> issues h e \<Longrightarrow> allowed h) \<Longrightarrow>
   R (it_db w) (it_db w')"
proof (induction rule: identity_trace.induct)
  case (Start w)
  show ?case by (rule refl)
next
  case (Next w e w' es w'')
  have "R (it_db w) (it_db w')"
    by (rule event_keeps [OF Next.hyps(1)]) (auto intro: Next.prems)
  moreover have "R (it_db w') (it_db w'')"
    by (rule Next.IH) (auto intro: Next.prems)
  ultimately show ?case by (rule trans)
qed

end

end
