(* ===== verification/Auth_Invariants.thy ===== *)
theory Auth_Invariants
  imports Auth_Steps
begin

text \<open>
  The two relations every statement keeps: sessions stay sound and closed ones stay as they are;
  consumed challenges stay consumed. Both are interpretations of the locale of relations.
\<close>

section \<open>Sessions\<close>

text \<open>Ids and refresh hashes are unique, a player has one open session, and every row is checked.\<close>

definition sessions_ok :: "identity_db \<Rightarrow> bool" where
  "sessions_ok db \<longleftrightarrow>
     distinct (map as_id (db_sessions db)) \<and> distinct (map as_refresh_token_hash (db_sessions db)) \<and>
     distinct (map as_player_id (filter is_open (db_sessions db))) \<and>
     list_all session_checks (db_sessions db)"

definition keeps_sessions :: "identity_db \<Rightarrow> identity_db \<Rightarrow> bool" where
  "keeps_sessions db db' \<longleftrightarrow>
     (sessions_ok db \<longrightarrow> sessions_ok db' \<and>
      (\<forall>s \<in> set (db_sessions db). \<not> is_open s \<longrightarrow> s \<in> set (db_sessions db')))"

lemma update_sessionsE:
  assumes "update_sessions Q f db = Some db'"
  obtains "db_sessions db' = map (\<lambda>s. if Q s then f s else s) (db_sessions db)"
    and "db_challenges db' = db_challenges db"
    and "distinct (map as_refresh_token_hash (db_sessions db'))"
    and "\<And>s. s \<in> set (db_sessions db) \<Longrightarrow> Q s \<Longrightarrow> session_checks (f s)"
  using assms by (auto simp: update_sessions_def Let_def list_all_iff split: if_splits)

lemma update_sessions_rows:
  "update_sessions Q f db = Some db' \<Longrightarrow>
   db_sessions db' = map (\<lambda>s. if Q s then f s else s) (db_sessions db)"
  by (auto elim: update_sessionsE)

lemma filter_open_map:
  assumes "\<And>s. s \<in> set ss \<Longrightarrow> is_open (g s) \<Longrightarrow> is_open s \<and> as_player_id (g s) = as_player_id s"
    and "distinct (map as_player_id (filter is_open ss))"
  shows "distinct (map as_player_id (filter is_open (map g ss)))"
  using assms by (induction ss) (auto split: if_splits)

text \<open>
  An update of open rows that keeps their ids and players, and opens none, keeps the sessions
  sound.
\<close>

lemma update_sound:
  assumes upd: "update_sessions Q f db = Some db'"
    and f: "\<And>s. as_id (f s) = as_id s" "\<And>s. as_player_id (f s) = as_player_id s"
      "\<And>s. is_open (f s) \<Longrightarrow> is_open s"
    and Q: "\<And>s. s \<in> set (db_sessions db) \<Longrightarrow> Q s \<Longrightarrow> is_open s"
  shows "keeps_sessions db db'"
proof -
  let ?g = "\<lambda>s. if Q s then f s else s"
  from upd have rows: "db_sessions db' = map ?g (db_sessions db)"
    and hashes: "distinct (map as_refresh_token_hash (db_sessions db'))"
    and checks: "\<And>s. s \<in> set (db_sessions db) \<Longrightarrow> Q s \<Longrightarrow> session_checks (f s)"
    by (auto elim: update_sessionsE)
  have ids: "map as_id (db_sessions db') = map as_id (db_sessions db)"
    by (simp add: rows f(1))
  have "distinct (map as_player_id (filter is_open (db_sessions db')))"
    if "distinct (map as_player_id (filter is_open (db_sessions db)))"
    unfolding rows by (rule filter_open_map [OF _ that]) (auto simp: f split: if_splits dest: f(3))
  moreover have "list_all session_checks (db_sessions db')"
    if "list_all session_checks (db_sessions db)"
    using that checks by (auto simp: rows list_all_iff)
  moreover have "s \<in> set (db_sessions db')" if "s \<in> set (db_sessions db)" "\<not> is_open s" for s
    using that Q [of s] by (force simp: rows)
  ultimately show ?thesis
    using hashes unfolding keeps_sessions_def sessions_ok_def ids by blast
qed

lemma insert_sound:
  assumes "insert_session s db = Some db'" and "is_open s"
  shows "keeps_sessions db db'"
proof -
  from assms have "session_insertable db s" and rows: "db_sessions db' = db_sessions db @ [s]"
    by (auto simp: insert_session_def split: if_splits)
  then have others: "\<forall>r \<in> set (db_sessions db). as_id r \<noteq> as_id s \<and>
      as_refresh_token_hash r \<noteq> as_refresh_token_hash s \<and>
      (is_open r \<longrightarrow> as_player_id r \<noteq> as_player_id s)" and "session_checks s"
    using assms(2) by (auto simp: session_insertable_def list_all_iff is_open_def)
  then have "as_id s \<notin> as_id ` set (db_sessions db)"
    and "as_refresh_token_hash s \<notin> as_refresh_token_hash ` set (db_sessions db)"
    and "as_player_id s \<notin> as_player_id ` {r \<in> set (db_sessions db). is_open r}"
    by auto
  with \<open>session_checks s\<close> show ?thesis
    by (simp add: keeps_sessions_def sessions_ok_def rows)
qed

interpretation sessions: identity_relation keeps_sessions "\<lambda>_. True"
proof
  show "keeps_sessions db1 db3" if "keeps_sessions db1 db2" "keeps_sessions db2 db3" for db1 db2 db3
    using that by (auto simp: keeps_sessions_def)
  show "keeps_sessions db db'" if "db_sessions db' = db_sessions db" for db db'
    using that by (simp add: keeps_sessions_def sessions_ok_def)
  show "keeps_sessions db db'" if "insert_challenge H c db = Some db'" for H c db db'
    using that by (auto simp: insert_challenge_def keeps_sessions_def sessions_ok_def split: if_splits)
  show "keeps_sessions db db'" if "consume_challenges H i u t db = Some db'" for H i u t db db'
    using that by (auto simp: consume_challenges_def Let_def keeps_sessions_def sessions_ok_def
        split: if_splits)
  show "keeps_sessions db db'" if "insert_session s db = Some db'" "is_open s" for s db db'
    using that by (rule insert_sound)
  show "keeps_sessions db db'"
    if "update_sessions Q (revoke_row t reason) db = Some db'" "\<And>s. Q s \<Longrightarrow> is_open s"
    for Q t reason db db'
    using that(1) by (rule update_sound) (auto simp: revoke_row_def is_open_def dest: that(2))
  show "keeps_sessions db db'"
    if upd: "update_sessions (\<lambda>s. as_id s = i)
        (\<lambda>s. s\<lparr>as_refresh_token_hash := h, as_last_used_at := Some t\<rparr>) db = Some db'"
      and s: "s \<in> set (db_sessions db)" "as_id s = i" "is_open s" for i h t db db' s
  proof (cases "sessions_ok db")
    case True
    then have "distinct (map as_id (db_sessions db))" by (simp add: sessions_ok_def)
    then have "r = s" if "r \<in> set (db_sessions db)" "as_id r = i" for r
      using that s(1,2) by (auto simp: distinct_map inj_on_def)
    with upd s(3) show ?thesis
      by (intro update_sound [OF upd]) (auto simp: is_open_def)
  next
    case False
    then show ?thesis by (simp add: keeps_sessions_def)
  qed
qed

lemma same_id_same_row:
  "sessions_ok db \<Longrightarrow> r \<in> set (db_sessions db) \<Longrightarrow> s \<in> set (db_sessions db) \<Longrightarrow> as_id r = as_id s \<Longrightarrow> r = s"
  by (auto simp: sessions_ok_def distinct_map inj_on_def)

section \<open>Challenges\<close>

definition challenge_ids :: "identity_db \<Rightarrow> string list" where
  "challenge_ids db = map hl_id (db_challenges db)"

definition keeps_challenges :: "identity_db \<Rightarrow> identity_db \<Rightarrow> bool" where
  "keeps_challenges db db' \<longleftrightarrow>
     (distinct (challenge_ids db) \<longrightarrow> distinct (challenge_ids db') \<and>
      (\<forall>c \<in> set (db_challenges db). hl_consumed_at c \<noteq> None \<longrightarrow> c \<in> set (db_challenges db')))"

lemma consume_challengesE:
  assumes "consume_challenges H i u t db = Some db'"
  obtains "db_challenges db' = map (\<lambda>c. if consumable i u t c then c\<lparr>hl_consumed_at := Some t\<rparr> else c)
      (db_challenges db)" and "db_sessions db' = db_sessions db"
  using assms by (auto simp: consume_challenges_def Let_def split: if_splits)

lemma consume_sound:
  assumes "consume_challenges H i u t db = Some db'"
  shows "keeps_challenges db db'"
proof -
  from assms have rows: "db_challenges db' =
      map (\<lambda>c. if consumable i u t c then c\<lparr>hl_consumed_at := Some t\<rparr> else c) (db_challenges db)"
    by (auto elim: consume_challengesE)
  have "map hl_id (db_challenges db') = map hl_id (db_challenges db)"
    by (simp add: rows)
  moreover have "c \<in> set (db_challenges db')"
    if "c \<in> set (db_challenges db)" "hl_consumed_at c \<noteq> None" for c
    using that by (force simp: rows consumable_def)
  ultimately show ?thesis
    unfolding keeps_challenges_def challenge_ids_def by simp
qed

interpretation challenges: identity_relation keeps_challenges "\<lambda>_. True"
proof
  show "keeps_challenges db1 db3" if "keeps_challenges db1 db2" "keeps_challenges db2 db3" for db1 db2 db3
    using that by (auto simp: keeps_challenges_def)
  show "keeps_challenges db db'" if "db_challenges db' = db_challenges db" for db db'
    using that by (simp add: keeps_challenges_def challenge_ids_def)
  show "keeps_challenges db db'"
    if "insert_challenge H c db = Some db'" "hl_consumed_at c = None" for H c db db'
  proof -
    from that(1) have new: "challenge_insertable H db c"
      and db': "db' = db\<lparr>db_challenges := db_challenges db @ [c]\<rparr>"
      by (simp_all add: insert_challenge_def split: if_splits)
    have rows: "db_challenges db' = db_challenges db @ [c]"
      by (simp add: db')
    from new have "\<forall>d \<in> set (db_challenges db). hl_id d \<noteq> hl_id c"
      by (simp add: challenge_insertable_def list_all_iff)
    then have "hl_id c \<notin> hl_id ` set (db_challenges db)" by auto
    then show ?thesis by (simp add: keeps_challenges_def challenge_ids_def rows)
  qed
  show "keeps_challenges db db'" if "consume_challenges H i u t db = Some db'" for H i u t db db'
    using that by (rule consume_sound)
qed (auto simp: keeps_challenges_def challenge_ids_def insert_session_def
    split: if_splits elim!: update_sessionsE)

section \<open>Refresh hashes\<close>

definition refresh_hashes :: "identity_db \<Rightarrow> string set" where
  "refresh_hashes db = as_refresh_token_hash ` set (db_sessions db)"

definition keeps_away :: "string \<Rightarrow> identity_db \<Rightarrow> identity_db \<Rightarrow> bool" where
  "keeps_away h db db' \<longleftrightarrow> (h \<notin> refresh_hashes db \<longrightarrow> h \<notin> refresh_hashes db')"

text \<open>A hash that is not in the table does not come in unless a step issues it.\<close>

interpretation hashes: identity_relation "keeps_away h" "\<lambda>h'. h' \<noteq> h" for h
proof
  show "keeps_away h db db'" if "insert_challenge H c db = Some db'" for H c db db'
    using that by (auto simp: insert_challenge_def keeps_away_def refresh_hashes_def split: if_splits)
  show "keeps_away h db db'" if "consume_challenges H i u t db = Some db'" for H i u t db db'
    using that by (auto simp: keeps_away_def refresh_hashes_def elim!: consume_challengesE)
  show "keeps_away h db db'"
    if "insert_session s db = Some db'" "as_refresh_token_hash s \<noteq> h" for s db db'
    using that by (auto simp: insert_session_def keeps_away_def refresh_hashes_def split: if_splits)
  show "keeps_away h db db'"
    if "update_sessions Q (revoke_row t reason) db = Some db'" for Q t reason db db'
  proof -
    have "map as_refresh_token_hash (db_sessions db') = map as_refresh_token_hash (db_sessions db)"
      by (simp add: update_sessions_rows [OF that] revoke_row_def)
    then have "refresh_hashes db' = refresh_hashes db"
      unfolding refresh_hashes_def by (metis set_map)
    then show ?thesis by (simp add: keeps_away_def)
  qed
  show "keeps_away h db db'"
    if "update_sessions (\<lambda>s. as_id s = i)
        (\<lambda>s. s\<lparr>as_refresh_token_hash := h', as_last_used_at := Some t\<rparr>) db = Some db'" "h' \<noteq> h"
    for i h' t db db'
    using that by (auto simp: keeps_away_def refresh_hashes_def image_iff
        elim!: update_sessionsE split: if_splits)
qed (auto simp: keeps_away_def refresh_hashes_def)

end
