(* ===== verification/Auth_Module.thy ===== *)
theory Auth_Module
  imports Auth_Invariants
begin

text \<open>
  The module that puts the API's authentication together (\<open>auth/auth.module.ts\<close>): the service over
  the PostgreSQL store, the node, Google and the process's own randomness; and what each operation
  of the store that gives something has done to the tables.
\<close>

section \<open>The module\<close>

text \<open>An action of what is outside of the database.\<close>

definition on_out :: "('u, 'a) action \<Rightarrow> ('u identity, 'a) action" where
  "on_out m = act_on it_out (\<lambda>u w. w\<lparr>it_out := u\<rparr>) m"

record 'u api =
  ap_options :: "'u identity_options"
  ap_crypto :: crypto
  ap_config :: auth_config
  ap_fetch :: "string \<Rightarrow> json \<Rightarrow> int \<Rightarrow> ('u, bool \<times> json option) action"
  ap_recover :: "string \<Rightarrow> string \<Rightarrow> ('u, string) action"
  ap_google :: "'u google_client"
  ap_random_base64url :: "nat \<Rightarrow> 'u \<Rightarrow> string \<times> 'u"

definition api_verifier :: "'u api \<Rightarrow> 'u verifier" where
  "api_verifier A = \<lparr>vf_fetch = ap_fetch A, vf_recover = ap_recover A,
     vf_host = io_host (ap_options A), vf_config = ap_config A\<rparr>"

definition api_google :: "'u api \<Rightarrow> google_input \<Rightarrow> ('u, google_identity) action" where
  "api_google A = google_exchange (io_host (ap_options A)) (ap_google A) (ac_google (ap_config A))"

definition api_service :: "'u api \<Rightarrow> 'u identity auth_service" where
  "api_service A = \<lparr>
     sv_host = io_host (ap_options A), sv_crypto = ap_crypto A, sv_config = ap_config A,
     sv_repository = postgres_auth_repository (ap_options A),
     sv_verify = (\<lambda>input. on_out (verify_login (api_verifier A) input)),
     sv_google = (\<lambda>input. on_out (api_google A input)),
     sv_uuid = draw (io_uuid (ap_options A)),
     sv_random_base64url = (\<lambda>n. draw (ap_random_base64url A n))\<rparr>"

lemma api_service_simps [simp]:
  "sv_host (api_service A) = io_host (ap_options A)"
  "sv_crypto (api_service A) = ap_crypto A"
  "sv_config (api_service A) = ap_config A"
  "sv_repository (api_service A) = postgres_auth_repository (ap_options A)"
  "sv_verify (api_service A) input = on_out (verify_login (api_verifier A) input)"
  "sv_google (api_service A) ginput = on_out (api_google A ginput)"
  "sv_uuid (api_service A) = draw (io_uuid (ap_options A))"
  "sv_random_base64url (api_service A) n = draw (ap_random_base64url A n)"
  by (simp_all add: api_service_def)

lemma repository_simps [simp]:
  "createHiveChallenge (postgres_auth_repository P) = pg_createHiveChallenge P"
  "consumeHiveChallenge (postgres_auth_repository P) = pg_consumeHiveChallenge P"
  "findOrCreateDirectHivePlayer (postgres_auth_repository P) = pg_findOrCreateDirectHivePlayer P"
  "createSession (postgres_auth_repository P) = pg_createSession P"
  "rotateSession (postgres_auth_repository P) = pg_rotateSession P"
  "findActiveSession (postgres_auth_repository P) = pg_findActiveSession P"
  "revokeSession (postgres_auth_repository P) = pg_revokeSession P"
  "upsertGoogleIdentity (postgres_auth_repository P) = pg_upsertGoogleIdentity P"
  "getCurrentDisclosure (postgres_auth_repository P) = pg_getCurrentDisclosure P"
  "acknowledgeCurrentDisclosure (postgres_auth_repository P) = pg_acknowledgeCurrentDisclosure P"
  by (simp_all add: postgres_auth_repository_def)

lemma on_outE:
  assumes "on_out m w = (r, w')"
  obtains u where "m (it_out w) = (r, u)" and "it_db w' = it_db w"
  using assms unfolding on_out_def by (auto elim!: act_onE)

lemma draw_db: "draw f w = (r, w') \<Longrightarrow> it_db w' = it_db w"
  by (auto elim!: drawE)

section \<open>Endings of the store's operations\<close>

lemma live_sessions_iff:
  "(s, p, b) \<in> set (live_sessions Q t db) \<longleftrightarrow>
     s \<in> set (db_sessions db) \<and> Q s \<and> is_open s \<and> as_expires_at s > t \<and>
     p \<in> set (db_players db) \<and> ip_id p = as_player_id s \<and>
     b = disclosureAcknowledged db (ip_id p) t"
  by (auto simp: live_sessions_def)

lemma on_pool_InrE:
  assumes "on_pool P work w = (Inr x, w')"
  obtains w0 where "it_db w0 = it_db w" and "it_out w0 = it_out w" and "work w0 = (Inr x, w')"
proof -
  from assms have "identity_transaction work w = (Inr x, w')"
    by (auto simp: on_pool_def act_run elim!: act_bind_InrE split: if_splits)
  then have "work (w\<lparr>it_faults := tl (it_faults w)\<rparr>) = (Inr x, w')"
    by (rule identity_transaction_InrE)
  then show ?thesis by (rule that [rotated 2]) simp_all
qed

text \<open>A challenge that is given was open, and is consumed now.\<close>

lemma consume_given:
  assumes "pg_consumeHiveChallenge P i u t w = (Inr (Some l), w')"
  shows "\<exists>c \<in> set (db_challenges (it_db w)). consumable i u t c \<and> l = mapChallenge c \<and>
    c\<lparr>hl_consumed_at := Some t\<rparr> \<in> set (db_challenges (it_db w')) \<and>
    db_sessions (it_db w') = db_sessions (it_db w)"
proof -
  let ?rows = "filter (consumable i u t) (db_challenges (it_db w))"
  from assms obtain db where upd: "consume_challenges (io_host P) i u t (it_db w) = Some db"
    and w': "it_db w' = db" and l: "(case ?rows of [] \<Rightarrow> None | c # _ \<Rightarrow> Some (mapChallenge c)) = Some l"
    unfolding pg_consumeHiveChallenge_def
    by (auto simp: act_run elim!: on_pool_InrE act_bind_InrE identity_readE identity_sql_InrE)
  from l obtain c cs where rows: "?rows = c # cs" and "l = mapChallenge c"
    by (auto split: list.splits)
  from rows have c: "c \<in> set (db_challenges (it_db w))" "consumable i u t c"
    by (auto dest!: arg_cong [where f = set])
  moreover from upd have "c\<lparr>hl_consumed_at := Some t\<rparr> \<in> set (db_challenges db)"
    "db_sessions db = db_sessions (it_db w)"
    using c by (auto elim!: consume_challengesE intro!: rev_image_eqI)
  ultimately show ?thesis using \<open>l = mapChallenge c\<close> w' by blast
qed

text \<open>A session that is opened is in the table, and is the only open one of its player.\<close>

lemma session_opened:
  assumes "pg_createSession P n w = (Inr (), w')"
  shows "session_of n \<in> set (db_sessions (it_db w')) \<and> session_checks (session_of n) \<and>
    (\<forall>s \<in> set (db_sessions (it_db w)). as_player_id s = py_id (ns_player n) \<longrightarrow>
       (\<exists>s' \<in> set (db_sessions (it_db w')). as_id s' = as_id s \<and> \<not> is_open s')) \<and>
    db_players (it_db w') = db_players (it_db w) \<and> as_id (session_of n) \<notin> as_id ` set (db_sessions (it_db w))"
proof -
  let ?Q = "\<lambda>s. as_player_id s = py_id (ns_player n) \<and> is_open s"
  let ?f = "revoke_row (ns_issuedAt n) ''superseded_login''"
  from assms obtain db1 db2 where close: "update_sessions ?Q ?f (it_db w) = Some db1"
    and open': "insert_session (session_of n) db1 = Some db2" and w': "it_db w' = db2"
    unfolding pg_createSession_def create_session_work_def
    by (auto elim!: on_pool_InrE act_bind_InrE identity_sql_InrE)
  from close have rows: "db_sessions db1 = map (\<lambda>s. if ?Q s then ?f s else s) (db_sessions (it_db w))"
    by (auto elim: update_sessionsE)
  have players1: "db_players db1 = db_players (it_db w)"
    using close by (auto simp: update_sessions_def Let_def split: if_splits)
  from open' have new: "session_insertable db1 (session_of n)"
    and db2: "db2 = db1\<lparr>db_sessions := db_sessions db1 @ [session_of n]\<rparr>"
    by (simp_all add: insert_session_def split: if_splits)
  have "\<exists>s' \<in> set (db_sessions db1). as_id s' = as_id s \<and> \<not> is_open s'"
    if "s \<in> set (db_sessions (it_db w))" "as_player_id s = py_id (ns_player n)" for s
  proof -
    have "(if ?Q s then ?f s else s) \<in> set (db_sessions db1)"
      using that(1) by (auto simp: rows)
    moreover have "as_id (if ?Q s then ?f s else s) = as_id s \<and> \<not> is_open (if ?Q s then ?f s else s)"
      using that(2) by (auto simp: revoke_row_def is_open_def)
    ultimately show ?thesis by blast
  qed
  moreover have "as_id (session_of n) \<notin> as_id ` set (db_sessions (it_db w))"
  proof -
    have "map as_id (db_sessions db1) = map as_id (db_sessions (it_db w))"
      by (simp add: rows revoke_row_def)
    then have "as_id ` set (db_sessions db1) = as_id ` set (db_sessions (it_db w))"
      by (metis set_map)
    moreover have "as_id (session_of n) \<notin> as_id ` set (db_sessions db1)"
      using new by (auto simp: session_insertable_def list_all_iff)
    ultimately show ?thesis by simp
  qed
  ultimately show ?thesis
    using new by (auto simp: w' db2 players1 session_insertable_def)
qed

text \<open>A rotation that gives a session found its hash, and has replaced it in that row.\<close>

lemma rotation_given:
  assumes "pg_rotateSession P h h' t w = (Inr (Some a), w')"
  shows "\<exists>s \<in> set (db_sessions (it_db w)). as_refresh_token_hash s = h \<and> is_open s \<and>
    as_expires_at s > t \<and> as_id s = av_authSessionId a \<and>
    db_sessions (it_db w') = map (\<lambda>r. if as_id r = as_id s
      then r\<lparr>as_refresh_token_hash := h', as_last_used_at := Some t\<rparr> else r) (db_sessions (it_db w))"
proof -
  let ?rows = "live_sessions (\<lambda>s. as_refresh_token_hash s = h) t (it_db w)"
  from assms obtain w0 where w0: "it_db w0 = it_db w" "rotate_work h h' t w0 = (Inr (Some a), w')"
    unfolding pg_rotateSession_def by (rule on_pool_InrE)
  then obtain s p b rows where rows: "?rows = (s, p, b) # rows"
    by (cases ?rows) (auto simp: rotate_work_def act_run elim!: act_bind_InrE identity_readE)
  from w0 rows obtain db
    where upd: "update_sessions (\<lambda>r. as_id r = as_id s)
        (\<lambda>r. r\<lparr>as_refresh_token_hash := h', as_last_used_at := Some t\<rparr>) (it_db w) = Some db"
      and w': "it_db w' = db" and a: "a = mapSession (s, p, b)"
    by (auto simp: rotate_work_def act_run elim!: act_bind_InrE identity_readE identity_sql_InrE)
  have "(s, p, b) \<in> set ?rows" by (simp add: rows)
  then have "s \<in> set (db_sessions (it_db w))" "as_refresh_token_hash s = h" "is_open s"
    "as_expires_at s > t"
    by (auto simp: live_sessions_def)
  moreover have "db_sessions db = map (\<lambda>r. if as_id r = as_id s
      then r\<lparr>as_refresh_token_hash := h', as_last_used_at := Some t\<rparr> else r) (db_sessions (it_db w))"
    using upd by (auto elim: update_sessionsE)
  ultimately show ?thesis by (auto simp: w' a mapSession_def)
qed

text \<open>A session that is found is an open one that has not expired, with its player.\<close>

lemma session_found:
  assumes "pg_findActiveSession P i t w = (Inr (Some a), w')"
  shows "\<exists>s \<in> set (db_sessions (it_db w)). \<exists>p \<in> set (db_players (it_db w)).
    as_id s = i \<and> is_open s \<and> as_expires_at s > t \<and> ip_id p = as_player_id s \<and>
    a = mapSession (s, p, disclosureAcknowledged (it_db w) (ip_id p) t) \<and> it_db w' = it_db w"
proof -
  let ?rows = "live_sessions (\<lambda>s. as_id s = i) t (it_db w)"
  from assms have w': "it_db w' = it_db w"
    and a: "(case ?rows of [] \<Rightarrow> None | row # _ \<Rightarrow> Some (mapSession row)) = Some a"
    unfolding pg_findActiveSession_def
    by (auto simp: act_run elim!: on_pool_InrE act_bind_InrE identity_readE)
  from a obtain row rows where rows: "?rows = row # rows" and row: "a = mapSession row"
    by (auto split: list.splits)
  obtain s p b where "row = (s, p, b)" by (cases row)
  with rows have "(s, p, b) \<in> set ?rows" by simp
  with row w' \<open>row = (s, p, b)\<close> show ?thesis
    unfolding live_sessions_iff by blast
qed

text \<open>A revocation that returns leaves no open session with that id, and every id.\<close>

lemma revocation_rows:
  assumes "pg_revokeSession P i t reason w = (Inr b, w')"
  shows "db_sessions (it_db w') =
    map (\<lambda>s. if as_id s = i \<and> is_open s then revoke_row t reason s else s) (db_sessions (it_db w))"
proof -
  from assms obtain w0 where w0: "it_db w0 = it_db w" "revoke_work i t reason w0 = (Inr b, w')"
    unfolding pg_revokeSession_def by (rule on_pool_InrE)
  from w0(2) obtain w1 where
    "identity_sql (update_sessions (\<lambda>s. as_id s = i \<and> is_open s) (revoke_row t reason)) w0 = (Inr (), w1)"
    and "w' = w1"
    unfolding revoke_work_def Let_def by (auto simp: act_run elim!: act_bind_InrE identity_readE)
  then obtain db where "update_sessions (\<lambda>s. as_id s = i \<and> is_open s) (revoke_row t reason)
      (it_db w) = Some db" and w': "it_db w' = db"
    using w0(1) by (auto elim!: identity_sql_InrE)
  from update_sessions_rows [OF this(1)] w' show ?thesis by simp
qed

lemma session_ids_revoked:
  "pg_revokeSession P i t reason w = (Inr b, w') \<Longrightarrow>
   map as_id (db_sessions (it_db w')) = map as_id (db_sessions (it_db w))"
  by (simp add: revocation_rows revoke_row_def)

lemma session_revoked:
  assumes "pg_revokeSession P i t reason w = (Inr b, w')"
  shows "\<forall>s \<in> set (db_sessions (it_db w')). as_id s = i \<longrightarrow> \<not> is_open s"
proof (intro ballI impI)
  fix s
  assume "s \<in> set (db_sessions (it_db w'))" and i: "as_id s = i"
  then obtain r where s: "s = (if as_id r = i \<and> is_open r then revoke_row t reason r else r)"
    unfolding revocation_rows [OF assms] set_map by (elim imageE) (rule that)
  with i show "\<not> is_open s"
    by (cases "is_open r") (auto simp: revoke_row_def is_open_def split: if_splits)
qed

lemma rows_of_player:
  assumes "pg_findOrCreateDirectHivePlayer P u w = (Inr p, w')"
  shows "py_hiveUsername p = u \<and> db_sessions (it_db w') = db_sessions (it_db w) \<and>
    (\<exists>q \<in> set (db_players (it_db w')). ip_id q = py_id p \<and> ip_hive_username q = u)"
proof -
  from assms obtain q where "player_named u (it_db w') = Some q" and p: "p = mapPlayer q"
    and "db_sessions (it_db w') = db_sessions (it_db w)"
    unfolding pg_findOrCreateDirectHivePlayer_def
    by (auto simp: act_run upsert_player_def elim!: on_pool_InrE act_bind_InrE identity_readE
        identity_sql_InrE drawE split: if_splits)
  then show ?thesis
    by (auto simp: player_named_def mapPlayer_def find_Some_iff)
qed

end
