(* ===== verification/Auth_Properties.thy ===== *)
theory Auth_Properties
  imports Auth_Module
begin

text \<open>
  What the API's login promises: a challenge lets in once, a refresh token is spent once, a
  session that was closed is never admitted again, and what stands behind a request that is
  admitted and behind a login.
\<close>

section \<open>Challenges and refresh tokens\<close>

lemma consumed_refused:
  assumes "distinct (challenge_ids (it_db w))" and "c \<in> set (db_challenges (it_db w))"
    and "hl_id c = i" and "hl_consumed_at c \<noteq> None"
  shows "\<not> identity_step P w (Consume_Asked i True) w'"
proof
  assume "identity_step P w (Consume_Asked i True) w'"
  then obtain u t l where "pg_consumeHiveChallenge P i u t w = (Inr (Some l), w')"
    by (auto elim!: identity_stepE simp: given_iff)
  from consume_given [OF this] obtain d where "d \<in> set (db_challenges (it_db w))" "consumable i u t d"
    by blast
  with assms have "d = c"
    by (auto simp: challenge_ids_def distinct_map inj_on_def consumable_def)
  with \<open>consumable i u t d\<close> assms(4) show False by (simp add: consumable_def)
qed

lemma consumed_trace:
  assumes "identity_trace P w es w'" and "distinct (challenge_ids (it_db w))"
    and "c \<in> set (db_challenges (it_db w))" and "hl_id c = i" and "hl_consumed_at c \<noteq> None"
  shows "Consume_Asked i True \<notin> set es"
  using assms
proof (induction rule: identity_trace.induct)
  case (Next w e w' es w'')
  have keeps: "keeps_challenges (it_db w) (it_db w')"
    using Next.hyps(1) by (rule challenges.event_keeps) simp
  with Next.prems have "distinct (challenge_ids (it_db w'))" "c \<in> set (db_challenges (it_db w'))"
    by (auto simp: keeps_challenges_def)
  with Next.IH Next.prems Next.hyps(1) consumed_refused [of w c i P w'] show ?case by auto
qed simp

lemma consume_consumes:
  assumes "identity_step P w (Consume_Asked i True) w'"
  shows "\<exists>c \<in> set (db_challenges (it_db w')). hl_id c = i \<and> hl_consumed_at c \<noteq> None"
proof -
  from assms obtain u t l where "pg_consumeHiveChallenge P i u t w = (Inr (Some l), w')"
    by (auto elim!: identity_stepE simp: given_iff)
  from consume_given [OF this] obtain c where c: "consumable i u t c"
    "c\<lparr>hl_consumed_at := Some t\<rparr> \<in> set (db_challenges (it_db w'))"
    by blast
  show ?thesis
    by (rule bexI [OF _ c(2)]) (use c(1) in \<open>simp add: consumable_def\<close>)
qed

text \<open>
  C19. Whatever requests interleave, and whichever transactions fail or lose their replies, a login
  challenge is given to a login at most once.
\<close>

theorem challenge_used_once:
  assumes "identity_trace P w es w'" and "distinct (challenge_ids (it_db w))"
  shows "length (filter (\<lambda>e. e = Consume_Asked i True) es) \<le> 1"
  using assms
proof (induction rule: identity_trace.induct)
  case (Next w e w' es w'')
  have keeps: "distinct (challenge_ids (it_db w'))"
    using challenges.event_keeps [OF Next.hyps(1)] Next.prems by (simp add: keeps_challenges_def)
  show ?case
  proof (cases "e = Consume_Asked i True")
    case True
    with consume_consumes [of P w i w'] Next.hyps(1) obtain c
      where "c \<in> set (db_challenges (it_db w'))" "hl_id c = i" "hl_consumed_at c \<noteq> None"
      by blast
    from consumed_trace [OF Next.hyps(2) keeps this] have "filter (\<lambda>e. e = Consume_Asked i True) es = []"
      by (auto simp: filter_empty_conv)
    with True show ?thesis by simp
  next
    case False
    with Next.IH [OF keeps] show ?thesis by simp
  qed
qed simp

definition held :: "string \<Rightarrow> identity_db \<Rightarrow> nat" where
  "held h db = (if h \<in> refresh_hashes db then 1 else 0)"

definition times :: "('e \<Rightarrow> bool) \<Rightarrow> 'e list \<Rightarrow> nat" where
  "times Q es = length (filter Q es)"

lemma times_simps [simp]: "times Q [] = 0" "times Q (e # es) = (if Q e then 1 else 0) + times Q es"
  by (simp_all add: times_def)

lemma spend_replaces:
  assumes "identity_step P w e w'" and "spends h e" and ok: "sessions_ok (it_db w)"
  shows "h \<in> refresh_hashes (it_db w) \<and> (issues h e \<or> h \<notin> refresh_hashes (it_db w'))"
proof -
  from assms(2) obtain h' where e: "e = Rotation_Asked h h' True"
    by (cases "(h, e)" rule: spends.cases) auto
  with assms(1) obtain t a where "pg_rotateSession P h h' t w = (Inr (Some a), w')"
    by (auto elim!: identity_stepE simp: given_iff)
  from rotation_given [OF this] obtain s where s: "s \<in> set (db_sessions (it_db w))"
    "as_refresh_token_hash s = h"
    and rows: "db_sessions (it_db w') = map (\<lambda>r. if as_id r = as_id s
      then r\<lparr>as_refresh_token_hash := h', as_last_used_at := Some t\<rparr> else r) (db_sessions (it_db w))"
    by blast
  have "as_refresh_token_hash r \<noteq> h" if "r \<in> set (db_sessions (it_db w))" "as_id r \<noteq> as_id s" for r
    using ok that s by (auto simp: sessions_ok_def distinct_map inj_on_def)
  then have "h \<notin> refresh_hashes (it_db w')" if "h' \<noteq> h"
    using that by (auto simp: refresh_hashes_def rows)
  with s e show ?thesis by (auto simp: refresh_hashes_def)
qed

lemma spend_step:
  assumes "identity_step P w e w'" and "sessions_ok (it_db w)"
  shows "held h (it_db w') + times (spends h) [e] \<le> held h (it_db w) + times (issues h) [e]"
proof (cases "issues h e")
  case True
  with spend_replaces [OF assms(1) _ assms(2), of h] show ?thesis
    by (auto simp: held_def)
next
  case False
  then have "keeps_away h (it_db w) (it_db w')"
    by (intro hashes.event_keeps [OF assms(1)]) auto
  with spend_replaces [OF assms(1) _ assms(2), of h] False show ?thesis
    by (auto simp: held_def keeps_away_def)
qed

text \<open>
  C20. A refresh hash lets in at most as often as it was issued: once if it is in the table, and once
  for each login or rotation that stores it. A token that was rotated away is never accepted again,
  unless the same random token is drawn a second time.
\<close>

theorem refresh_token_spent_once:
  assumes "identity_trace P w es w'" and "sessions_ok (it_db w)"
  shows "times (spends h) es \<le> held h (it_db w) + times (issues h) es"
  using assms
proof (induction rule: identity_trace.induct)
  case (Next w e w' es w'')
  have "sessions_ok (it_db w')"
    using sessions.event_keeps [OF Next.hyps(1)] Next.prems by (simp add: keeps_sessions_def)
  from Next.IH [OF this] spend_step [OF Next.hyps(1) Next.prems, of h] show ?case by simp
qed simp

section \<open>Who is admitted\<close>

lemma bearerToken_Inr:
  assumes "bearerToken authorization = Inr token"
  shows "authorization = One_Header (''Bearer '' @ token)"
proof (cases authorization)
  case (One_Header h)
  with assms have "starts_with ''Bearer '' h" and token: "token = drop 7 h"
    by (auto simp: Let_def split: if_splits)
  then have "take 7 h = ''Bearer ''"
    by (simp add: starts_with_def eval_nat_numeral)
  with token One_Header show ?thesis
    using append_take_drop_id [of 7 h] by metis
qed (use assms in simp_all)

lemma guardE:
  assumes "access_session_guard (api_service A) authorization now later w = (Inr a, w')"
  obtains token where "bearerToken authorization = Inr token"
    and "verifyAccessToken (io_host (ap_options A)) (ap_crypto A) (ap_config A) token now =
      Inr (av_playerId a, av_authSessionId a)"
    and "pg_findActiveSession (ap_options A) (av_authSessionId a) later w = (Inr (Some a), w')"
proof -
  from assms obtain token playerId sessionId
    where token: "bearerToken authorization = Inr token"
    and verified: "verifyAccessToken (io_host (ap_options A)) (ap_crypto A) (ap_config A) token now =
      Inr (playerId, sessionId)"
    and found: "pg_findActiveSession (ap_options A) sessionId later w = (Inr (Some a), w')"
    and "av_playerId a = playerId"
    unfolding access_session_guard_def
    by (auto simp: act_run elim!: act_bind_InrE split: option.splits if_splits)
  moreover have "av_authSessionId a = sessionId"
    using session_found [OF found] by (auto simp: mapSession_def)
  ultimately show ?thesis using that by blast
qed

text \<open>
  C22. A request that the guard admits carries a bearer token with a MAC of this API over the session
  and the player it is admitted as, not expired, and that session is in the table: open, not
  expired, and of that player.
\<close>

theorem admitted_session:
  assumes "access_session_guard (api_service A) authorization now later w = (Inr a, w')"
  shows "\<exists>token claims s. authorization = One_Header (''Bearer '' @ token) \<and>
    token_says (io_host (ap_options A)) (ap_crypto A) (ap_config A) token claims \<and>
    cl_sub claims = av_playerId a \<and> cl_sid claims = Some (av_authSessionId a) \<and>
    seconds now < cl_exp claims \<and>
    s \<in> set (db_sessions (it_db w)) \<and> as_id s = av_authSessionId a \<and>
    as_player_id s = av_playerId a \<and> is_open s \<and> later < as_expires_at s"
proof -
  from assms obtain token where token: "bearerToken authorization = Inr token"
    and verified: "verifyAccessToken (io_host (ap_options A)) (ap_crypto A) (ap_config A) token now =
      Inr (av_playerId a, av_authSessionId a)"
    and found: "pg_findActiveSession (ap_options A) (av_authSessionId a) later w = (Inr (Some a), w')"
    by (rule guardE)
  from token have header: "authorization = One_Header (''Bearer '' @ token)"
    by (rule bearerToken_Inr)
  from verified obtain claims where "verify_token (io_host (ap_options A)) (ap_crypto A) (ap_config A)
      token now = Inr claims" "cl_sub claims = av_playerId a" "cl_sid claims = Some (av_authSessionId a)"
    by (rule verifyAccessTokenE)
  moreover from session_found [OF found] obtain s
    where "s \<in> set (db_sessions (it_db w))" "as_id s = av_authSessionId a"
      "as_player_id s = av_playerId a" "is_open s" "later < as_expires_at s"
    by (auto simp: mapSession_def mapPlayer_def)
  ultimately show ?thesis using header by (blast elim: verify_tokenE)
qed

text \<open>A session that is closed is never admitted again.\<close>

lemma closed_not_admitted:
  assumes "sessions_ok (it_db w)" and "s \<in> set (db_sessions (it_db w))" and "\<not> is_open s"
    and "identity_trace P w es w1"
    and "access_session_guard (api_service A) authorization now later w1 = (Inr a, w2)"
  shows "av_authSessionId a \<noteq> as_id s"
proof
  assume eq: "av_authSessionId a = as_id s"
  from sessions.trace_keeps [OF assms(4)] assms(1-3) have ok: "sessions_ok (it_db w1)"
    and s: "s \<in> set (db_sessions (it_db w1))"
    by (auto simp: keeps_sessions_def)
  from assms(5) obtain token
    where "pg_findActiveSession (ap_options A) (av_authSessionId a) later w1 = (Inr (Some a), w2)"
    by (rule guardE)
  from session_found [OF this] obtain r where "r \<in> set (db_sessions (it_db w1))"
    "as_id r = as_id s" "is_open r"
    by (auto simp: eq)
  with same_id_same_row [OF ok _ s] assms(3) show False by blast
qed

text \<open>
  C23. Once a logout has returned, its session is never admitted again, whatever token is shown and
  whatever happens to the tables in between.
\<close>

theorem logout_is_final:
  assumes "sessions_ok (it_db w)" and "s \<in> set (db_sessions (it_db w))"
    and "as_revokeSession (api_service A) (as_id s) t w = (Inr (), w1)"
    and "identity_trace (ap_options A) w1 es w2"
    and "access_session_guard (api_service A) authorization now later w2 = (Inr a, w3)"
  shows "av_authSessionId a \<noteq> as_id s"
proof -
  from assms(3) obtain b where
    run: "pg_revokeSession (ap_options A) (as_id s) t ''player_logout'' w = (Inr b, w1)"
    unfolding as_revokeSession_def by (auto simp: act_run elim!: act_bind_InrE)
  from sessions.event_keeps [OF identity_step.Revocation [OF run]] assms(1)
  have ok: "sessions_ok (it_db w1)" by (simp add: keeps_sessions_def)
  have "map as_id (db_sessions (it_db w1)) = map as_id (db_sessions (it_db w))"
    using session_ids_revoked [OF run] .
  then have "as_id s \<in> as_id ` set (db_sessions (it_db w1))"
    using assms(2) by (metis image_eqI set_map)
  then obtain r where r: "r \<in> set (db_sessions (it_db w1))" "as_id r = as_id s" by auto
  with session_revoked [OF run] have "\<not> is_open r" by blast
  from closed_not_admitted [OF ok r(1) this assms(4,5)] r(2) show ?thesis by simp
qed

section \<open>Logins\<close>

text \<open>What a login writes.\<close>

lemma session_createdE:
  assumes "as_createSession (api_service A) player platform method provider identity eligible now w =
    (Inr tokens, w')"
  obtains n w1 where "pg_createSession (ap_options A) n w1 = (Inr (), w')" and "it_db w1 = it_db w"
    and "ns_id n = tk_sessionId tokens" and "ns_player n = player"
    and "ns_authenticationMethod n = method" and "ns_hiveSigningProvider n = provider"
    and "ns_externalIdentityId n = identity" and "ns_custodialSigningEligible n = eligible"
  using assms unfolding as_createSession_def createRefreshToken_def responseTokens_def Let_def
  by (fastforce simp: act_run run_simps split_beta elim!: act_bind_InrE drawE)

text \<open>
  C24. A login that the table can take, with new ids and at a clock that is not behind, goes through
  although the player has a session open, and takes over: the session is closed as superseded, the
  new one is the only one of the player that is open, and no other session changes.
\<close>

theorem login_takes_over:
  assumes "io_configured P" and "it_faults w = []" and "sessions_ok (it_db w)"
    and "session_checks (session_of n)"
    and "py_id (ns_player n) \<in> ip_id ` set (db_players (it_db w))"
    and "\<And>i. ns_externalIdentityId n = Some i \<Longrightarrow> i \<in> ei_id ` set (db_identities (it_db w))"
    and "\<And>s. s \<in> set (db_sessions (it_db w)) \<Longrightarrow>
      as_id s \<noteq> ns_id n \<and> as_refresh_token_hash s \<noteq> ns_refreshTokenHash n"
    and "\<And>s. s \<in> set (db_sessions (it_db w)) \<Longrightarrow> is_open s \<Longrightarrow>
      as_player_id s = py_id (ns_player n) \<Longrightarrow> as_issued_at s \<le> ns_issuedAt n"
  shows "\<exists>w'. pg_createSession P n w = (Inr (), w') \<and>
    filter (\<lambda>s. is_open s \<and> as_player_id s = py_id (ns_player n)) (db_sessions (it_db w')) =
      [session_of n] \<and>
    db_sessions (it_db w') = map (\<lambda>s.
      if is_open s \<and> as_player_id s = py_id (ns_player n)
      then s\<lparr>as_revoked_at := Some (ns_issuedAt n), as_revocation_reason := Some ''superseded_login''\<rparr>
      else s) (db_sessions (it_db w)) @ [session_of n]"
proof -
  let ?Q = "\<lambda>s. as_player_id s = py_id (ns_player n) \<and> is_open s"
  let ?f = "revoke_row (ns_issuedAt n) ''superseded_login''"
  let ?rows = "map (\<lambda>s. if ?Q s then ?f s else s) (db_sessions (it_db w))"
  let ?db = "(it_db w)\<lparr>db_sessions := ?rows\<rparr>"
  have "session_checks (?f s)" if "s \<in> set (db_sessions (it_db w))" "?Q s" for s
    using that assms(3) assms(8) [of s]
    by (auto simp: sessions_ok_def list_all_iff session_checks_def revoke_row_def)
  moreover have hashes: "map as_refresh_token_hash ?rows = map as_refresh_token_hash (db_sessions (it_db w))"
    by (simp add: revoke_row_def)
  have "distinct (map as_refresh_token_hash ?rows)"
    unfolding hashes using assms(3) by (simp add: sessions_ok_def)
  ultimately have close: "update_sessions ?Q ?f (it_db w) = Some ?db"
    by (simp only: update_sessions_def Let_def list_all_iff) simp
  have new: "as_id s \<noteq> ns_id n \<and> as_refresh_token_hash s \<noteq> ns_refreshTokenHash n \<and> \<not> ?Q s"
    if "s \<in> set ?rows" for s
    using that assms(7) by (auto simp: revoke_row_def is_open_def)
  have "session_insertable ((it_db w)\<lparr>db_sessions := rows\<rparr>) (session_of n)"
    if "\<forall>s \<in> set rows. as_id s \<noteq> ns_id n \<and> as_refresh_token_hash s \<noteq> ns_refreshTokenHash n \<and> \<not> ?Q s"
    for rows
    using assms(4-6) that unfolding session_insertable_def
    by (auto simp: list_all_iff list_ex_iff is_open_def session_of_def split: option.splits)
  from this [of ?rows] new have "session_insertable ?db (session_of n)" by blast
  then have open': "insert_session (session_of n) ?db = Some (?db\<lparr>db_sessions := ?rows @ [session_of n]\<rparr>)"
    by (simp add: insert_session_def)
  let ?w = "w\<lparr>it_db := ?db\<lparr>db_sessions := ?rows @ [session_of n]\<rparr>\<rparr>"
  have "create_session_work n (w\<lparr>it_faults := tl (it_faults w)\<rparr>) = (Inr (), ?w)"
    using close open' assms(2) by (simp add: create_session_work_def act_bind_def identity_sql_def)
  then have "pg_createSession P n w = (Inr (), ?w)"
    using assms(1,2)
    by (simp add: pg_createSession_def on_pool_def act_bind_basic identity_transaction_unfold)
  moreover have "filter (\<lambda>s. is_open s \<and> as_player_id s = py_id (ns_player n)) (?rows @ [session_of n]) =
      [session_of n]"
    using new by (auto simp: filter_empty_conv is_open_def session_of_def)
  moreover have "?rows = map (\<lambda>s. if is_open s \<and> as_player_id s = py_id (ns_player n)
      then s\<lparr>as_revoked_at := Some (ns_issuedAt n), as_revocation_reason := Some ''superseded_login''\<rparr>
      else s) (db_sessions (it_db w))"
    by (simp add: revoke_row_def conj_commute)
  ultimately show ?thesis by auto
qed

text \<open>
  C21. A direct Hive login succeeds only for a challenge that was issued to that account, had not been
  used and had not expired, whose text was signed with a key that satisfies the account's posting
  authority; it uses the challenge up, and opens a session of the player with that name that cannot
  sign with custody.
\<close>

theorem hive_login_signed:
  assumes "distinct (challenge_ids (it_db w))"
    and "as_createHiveSession (api_service A) input now w = (Inr tokens, w')"
  shows "\<exists>c u u' s p. c \<in> set (db_challenges (it_db w)) \<and> hl_id c = hi_challengeId input \<and>
    hl_hive_username c = hi_hiveUsername input \<and> hl_consumed_at c = None \<and> now < hl_expires_at c \<and>
    c\<lparr>hl_consumed_at := Some now\<rparr> \<in> set (db_challenges (it_db w')) \<and>
    verify_login (api_verifier A) \<lparr>lp_challenge = hl_challenge_text c,
      lp_hiveUsername = hi_hiveUsername input, lp_signature = hi_signature input\<rparr> u = (Inr True, u') \<and>
    s \<in> set (db_sessions (it_db w')) \<and> as_id s = tk_sessionId tokens \<and> is_open s \<and>
    \<not> as_custodial_signing_eligible s \<and>
    p \<in> set (db_players (it_db w')) \<and> ip_id p = as_player_id s \<and>
    ip_hive_username p = hi_hiveUsername input"
proof -
  let ?P = "ap_options A"
  let ?proof = "\<lambda>l. \<lparr>lp_challenge = lc_challenge l, lp_hiveUsername = hi_hiveUsername input,
    lp_signature = hi_signature input\<rparr>"
  from assms(2) obtain l w1 w2 w3 player where
    consume: "pg_consumeHiveChallenge ?P (hi_challengeId input) (hi_hiveUsername input) now w =
      (Inr (Some l), w1)"
    and verify: "on_out (verify_login (api_verifier A) (?proof l)) w1 = (Inr True, w2)"
    and player: "pg_findOrCreateDirectHivePlayer ?P (hi_hiveUsername input) w2 = (Inr player, w3)"
    and create: "as_createSession (api_service A) player (lc_platform l) Direct_Hive_Challenge
      (Some (hi_signingProvider input)) None False now w3 = (Inr tokens, w')"
    unfolding as_createHiveSession_def
    by (auto simp: act_run elim!: act_bind_InrE split: option.splits if_splits)
  from consume_given [OF consume] obtain c where c: "c \<in> set (db_challenges (it_db w))"
    "consumable (hi_challengeId input) (hi_hiveUsername input) now c" "l = mapChallenge c"
    and used: "c\<lparr>hl_consumed_at := Some now\<rparr> \<in> set (db_challenges (it_db w1))"
    by blast
  from verify obtain u where u: "verify_login (api_verifier A) (?proof l) (it_out w1) = (Inr True, u)"
    and w2: "it_db w2 = it_db w1"
    by (rule on_outE)
  from create obtain n w4 where run: "pg_createSession ?P n w4 = (Inr (), w')"
    and w4: "it_db w4 = it_db w3" and n: "ns_id n = tk_sessionId tokens" "ns_player n = player"
      "ns_custodialSigningEligible n = False"
    by (rule session_createdE)
  have "keeps_challenges (it_db w) (it_db w1)"
    using identity_step.Consume [OF consume] by (rule challenges.event_keeps) simp
  moreover have "keeps_challenges (it_db w1) (it_db w3)"
    using identity_step.Player [OF player] unfolding w2 [symmetric] by (rule challenges.event_keeps) simp
  moreover have "keeps_challenges (it_db w3) (it_db w')"
    using identity_step.Opening [OF run] unfolding w4 [symmetric] by (rule challenges.event_keeps) simp
  ultimately have "c\<lparr>hl_consumed_at := Some now\<rparr> \<in> set (db_challenges (it_db w'))"
    using used assms(1) by (force simp: keeps_challenges_def)
  moreover from rows_of_player [OF player] obtain p where "p \<in> set (db_players (it_db w3))"
    "ip_id p = py_id player" "ip_hive_username p = hi_hiveUsername input"
    by blast
  moreover from session_opened [OF run] have "session_of n \<in> set (db_sessions (it_db w'))"
    "db_players (it_db w') = db_players (it_db w3)"
    by (simp_all add: w4)
  moreover have "as_id (session_of n) = tk_sessionId tokens" "is_open (session_of n)"
    "\<not> as_custodial_signing_eligible (session_of n)" "as_player_id (session_of n) = py_id player"
    by (simp_all add: session_of_def is_open_def n)
  ultimately show ?thesis
    using c u by (intro exI [of _ c] exI [of _ "it_out w1"] exI [of _ u] exI [of _ "session_of n"]
        exI [of _ p]) (simp add: consumable_def mapChallenge_def)
qed

text \<open>A session that the checks of its table refuse is never opened, and closes none.\<close>

lemma unchecked_session_fails:
  assumes "\<not> session_checks (session_of n)"
  shows "\<exists>e w'. pg_createSession P n w = (Inl e, w') \<and> it_db w' = it_db w"
proof -
  obtain r w' where run: "pg_createSession P n w = (r, w')" by (cases "pg_createSession P n w")
  have never: "create_session_work n v \<noteq> (Inr u, v')" for v v' :: "'a identity" and u
    using assms by (auto simp: create_session_work_def insert_session_def session_insertable_def
        elim!: act_bind_InrE identity_sql_InrE split: if_splits)
  from run consider "w' = w" "\<exists>e. r = Inl e" | "identity_transaction (create_session_work n) w = (r, w')"
    by (auto simp: pg_createSession_def on_pool_def act_run elim!: act_bindE act_ensureE)
  then show ?thesis
  proof cases
    case 2
    then show ?thesis
      by (cases rule: identity_transactionE) (auto simp: run never)
  qed (use run in blast)
qed

lemma custody_login_fails:
  "\<exists>e w'. as_createSession (api_service A) player platform method (Some Custodial_Service) identity
     False now w = (Inl e, w') \<and> it_db w' = it_db w"
proof -
  let ?n = "\<lambda>i refresh. \<lparr>ns_authenticationMethod = method, ns_custodialSigningEligible = False,
    ns_expiresAt = now + ac_refreshTokenTtlSeconds (ap_config A) * 1000,
    ns_externalIdentityId = identity, ns_hiveSigningProvider = Some Custodial_Service,
    ns_id = i, ns_issuedAt = now, ns_platform = platform, ns_player = player,
    ns_refreshTokenHash = hashRefreshToken (api_service A) refresh\<rparr>"
  obtain i w1 where i: "draw (io_uuid (ap_options A)) w = (Inr i, w1)"
    unfolding draw_def by (auto simp: Let_def split_beta)
  obtain refresh w2 where refresh: "draw (ap_random_base64url A 48) w1 = (Inr refresh, w2)"
    unfolding draw_def by (auto simp: Let_def split_beta)
  have "\<not> session_checks (session_of (?n i refresh))"
    by (simp add: session_checks_def session_of_def)
  from unchecked_session_fails [OF this] obtain e w3
    where "pg_createSession (ap_options A) (?n i refresh) w2 = (Inl e, w3)" "it_db w3 = it_db w2"
    by blast
  then have "as_createSession (api_service A) player platform method (Some Custodial_Service) identity
      False now w = (Inl e, w3)" and "it_db w3 = it_db w"
    using draw_db [OF i] draw_db [OF refresh]
    by (simp_all add: as_createSession_def createRefreshToken_def act_bind_def i refresh)
  then show ?thesis by blast
qed

text \<open>The upsert reads back the one row of its subject.\<close>

lemma upsert_work_given:
  assumes "upsert_work P issuer h t w = (Inr (db, row), w')"
  obtains i where "upsert_identity (new_identity i issuer h t) (it_db w) = Some db"
    and "it_db w' = db" and "row = find (same_subject issuer h) (db_identities db)"
  using assms unfolding upsert_work_def
  by (auto elim!: act_bind_InrE drawE identity_sql_InrE identity_readE)

lemma upsert_identity_tables:
  "upsert_identity new db = Some db' \<Longrightarrow>
   db_sessions db' = db_sessions db \<and> db_players db' = db_players db"
  by (auto simp: upsert_identity_def Let_def split: if_splits)

lemma upsert_sessions:
  assumes "pg_upsertGoogleIdentity P issuer h t w = (r, w')"
  shows "db_sessions (it_db w') = db_sessions (it_db w)"
proof -
  from assms obtain r' where "on_pool P (upsert_work P issuer h t) w = (r', w')"
    unfolding pg_upsertGoogleIdentity_def by (auto simp: act_run elim!: act_bindE split: prod.splits)
  then consider "w' = w" | "identity_transaction (upsert_work P issuer h t) w = (r', w')"
    by (auto simp: on_pool_def act_run elim!: act_bindE act_ensureE)
  then show ?thesis
  proof cases
    case 2
    then show ?thesis
    proof (cases rule: identity_transactionE)
      case (committed x)
      obtain db row where x: "x = (db, row)" by (cases x)
      from upsert_work_given [OF committed(1) [unfolded x]] upsert_identity_tables
      show ?thesis by fastforce
    qed simp
  qed simp
qed

lemma upsert_given:
  assumes "pg_upsertGoogleIdentity P issuer h t w = (Inr x, w')"
    and "e \<in> set (db_identities (it_db w))" and "same_subject issuer h e"
    and "\<And>e'. e' \<in> set (db_identities (it_db w)) \<Longrightarrow> same_subject issuer h e' \<Longrightarrow> e' = e"
    and "ei_player_id e = Some i"
  shows "\<exists>p \<in> set (db_players (it_db w)). ip_id p = i \<and> xi_player x = Some (mapPlayer p)"
proof -
  let ?f = "\<lambda>e. if same_subject issuer h e
    then e\<lparr>ei_last_authenticated_at := t, ei_updated_at := t\<rparr> else e"
  from assms(1) obtain db row w0 where w0: "it_db w0 = it_db w"
    and work: "upsert_work P issuer h t w0 = (Inr (db, Some row), w')"
    and x: "identity_result db t row = Inr x"
    unfolding pg_upsertGoogleIdentity_def
    by (auto simp: act_run run_simps elim!: act_bind_InrE on_pool_InrE)
  from work obtain j where upd: "upsert_identity (new_identity j issuer h t) (it_db w) = Some db"
    and row: "find (same_subject issuer h) (db_identities db) = Some row"
    by (rule upsert_work_given) (simp add: w0)
  have "list_ex (same_subject issuer h) (db_identities (it_db w))"
    using assms(2,3) by (auto simp: list_ex_iff)
  with upd have rows: "db_identities db = map ?f (db_identities (it_db w))"
    and players: "db_players db = db_players (it_db w)"
    by (auto simp: upsert_identity_def new_identity_def Let_def split: if_splits)
  from row have "row \<in> set (db_identities db)" "same_subject issuer h row"
    by (auto simp: find_Some_iff)
  then obtain e' where "e' \<in> set (db_identities (it_db w))" "row = ?f e'"
    unfolding rows by auto
  moreover from this \<open>same_subject issuer h row\<close> have "same_subject issuer h e'"
    by (auto split: if_splits)
  ultimately have "ei_player_id row = Some i"
    using assms(4,5) by auto
  with x show ?thesis
    by (auto simp: identity_result_def run_simps players find_Some_iff)
qed

text \<open>
  C27. A Google login of a player whose account is no longer in custody always fails, and leaves the
  sessions as they are: it asks for a session that signs with custody without being eligible for
  it, which the checks of the table refuse.
\<close>

theorem claimed_google_login_fails:
  assumes "api_google A input (it_out w) = (Inr g, u)"
    and "e \<in> set (db_identities (it_db w))"
    and "\<And>e'. e' \<in> set (db_identities (it_db w)) \<Longrightarrow> same_subject (gy_issuer g)
      (subject_lookup_hash (ap_crypto A) (ap_config A) g) e' \<longleftrightarrow> e' = e"
    and "ei_player_id e = Some i"
    and "\<And>p. p \<in> set (db_players (it_db w)) \<Longrightarrow> ip_id p = i \<Longrightarrow> ip_hive_control_state p \<noteq> Platform_Custodial"
  shows "\<exists>error w'. as_exchangeGoogle (api_service A) input platform now w = (Inl error, w') \<and>
    db_sessions (it_db w') = db_sessions (it_db w)"
proof -
  let ?S = "api_service A" and ?h = "subject_lookup_hash (ap_crypto A) (ap_config A) g"
  obtain w1 where w1: "on_out (api_google A input) w = (Inr g, w1)" "it_db w1 = it_db w"
    using assms(1) by (auto simp: on_out_def act_on_def)
  obtain r w2 where upsert: "pg_upsertGoogleIdentity (ap_options A) (gy_issuer g) ?h now w1 = (r, w2)"
    by (cases "pg_upsertGoogleIdentity (ap_options A) (gy_issuer g) ?h now w1")
  from upsert_sessions [OF upsert] w1(2) have sessions: "db_sessions (it_db w2) = db_sessions (it_db w)"
    by simp
  show ?thesis
  proof (cases r)
    case (Inl error)
    then show ?thesis
      using sessions by (auto simp: as_exchangeGoogle_def act_bind_def w1 upsert)
  next
    case (Inr x)
    have "\<exists>p \<in> set (db_players (it_db w1)). ip_id p = i \<and> xi_player x = Some (mapPlayer p)"
      by (rule upsert_given [OF upsert [unfolded Inr] _ _ _ assms(4)]) (simp_all add: w1(2) assms(2,3))
    then obtain p where p: "p \<in> set (db_players (it_db w))" "ip_id p = i"
      "xi_player x = Some (mapPlayer p)"
      by (auto simp: w1(2))
    then have "py_hiveControlState (mapPlayer p) \<noteq> Platform_Custodial"
      using assms(5) by (simp add: mapPlayer_def)
    then have login: "\<exists>error w'. as_createSession ?S (mapPlayer p) platform Google_Oidc
        (Some Custodial_Service) (Some (xi_id x))
        (py_hiveControlState (mapPlayer p) = Platform_Custodial) now w2 = (Inl error, w') \<and>
        it_db w' = it_db w2"
      using custody_login_fails [of A "mapPlayer p" platform Google_Oidc "Some (xi_id x)" now w2] by simp
    show ?thesis
    proof (cases "xi_status x = Identity_Disabled")
      case True
      then show ?thesis
        using sessions by (auto simp: as_exchangeGoogle_def act_bind_def w1 upsert Inr act_run)
    next
      case False
      with login p(3) sessions show ?thesis
        by (auto simp: as_exchangeGoogle_def act_bind_def w1 upsert Inr act_run)
    qed
  qed
qed

section \<open>Disclosures\<close>

lemma acknowledge_given:
  assumes "pg_acknowledgeCurrentDisclosure P input w = (Inr (Some k), w')"
  shows "db_disclosures (it_db w') = db_disclosures (it_db w) \<and>
    (\<exists>a \<in> set (db_acknowledgments (it_db w')). acknowledged_by (ai_disclosureVersion input)
       (ai_externalIdentityId input) (ai_playerId input) a)"
proof -
  from assms obtain w0 where w0: "it_db w0 = it_db w" "acknowledge_work P input w0 = (Inr (Some k), w')"
    unfolding pg_acknowledgeCurrentDisclosure_def by (rule on_pool_InrE)
  from w0(2) obtain a db where upd: "insert_acknowledgment a (it_db w) = Some db"
    and w': "it_db w' = db"
    and k: "(case sort_key da_acknowledged_at (filter (acknowledged_by (ai_disclosureVersion input)
        (ai_externalIdentityId input) (ai_playerId input)) (db_acknowledgments db)) of [] \<Rightarrow> None
      | a # _ \<Rightarrow> Some \<lparr>ak_acknowledgedAt = da_acknowledged_at a,
          ak_disclosureVersion = da_disclosure_version a, ak_id = da_id a\<rparr>) = Some k"
    unfolding acknowledge_work_def
    by (auto simp: act_run w0(1) elim!: act_bind_InrE drawE identity_sql_InrE identity_readE split: if_splits)
  from upd have "db_disclosures db = db_disclosures (it_db w)"
    by (auto simp: insert_acknowledgment_def split: if_splits)
  moreover from k have "filter (acknowledged_by (ai_disclosureVersion input)
      (ai_externalIdentityId input) (ai_playerId input)) (db_acknowledgments db) \<noteq> []"
    by auto
  ultimately show ?thesis by (auto simp: w' filter_empty_conv)
qed

lemma current_given:
  assumes "ds_getCurrent (api_service A) now w = (Inr d, w')"
  shows "\<exists>r \<in> set (db_disclosures (it_db w)). effective_at now r \<and>
    dr_disclosure_version r = dc_version d \<and> dr_content_sha256 r = dc_contentSha256 d \<and>
    dc_contentSha256 d = expectedContentSha256 \<and> it_db w' = it_db w \<and>
    (\<forall>r' \<in> set (db_disclosures (it_db w)). effective_at now r' \<longrightarrow> dr_effective_at r' \<le> dr_effective_at r)"
proof -
  let ?rows = "sort_key (\<lambda>d. - dr_effective_at d) (filter (effective_at now) (db_disclosures (it_db w)))"
  from assms have w': "it_db w' = it_db w" and sha: "dc_contentSha256 d = expectedContentSha256"
    and d: "(case ?rows of [] \<Rightarrow> None | d # _ \<Rightarrow> Some \<lparr>dc_contentSha256 = dr_content_sha256 d,
      dc_effectiveAt = dr_effective_at d, dc_version = dr_disclosure_version d\<rparr>) = Some d"
    unfolding ds_getCurrent_def
    by (auto simp: pg_getCurrentDisclosure_def act_run elim!: act_bind_InrE on_pool_InrE identity_readE
        split: option.splits if_splits)
  from d obtain r rows where rows: "?rows = r # rows" and r: "dr_disclosure_version r = dc_version d"
    "dr_content_sha256 r = dc_contentSha256 d"
    by (auto split: list.splits)
  have set: "set (r # rows) = {r \<in> set (db_disclosures (it_db w)). effective_at now r}"
    unfolding rows [symmetric] by simp
  have "sorted (map (\<lambda>d. - dr_effective_at d) ?rows)"
    by (rule sorted_sort_key)
  then have "\<forall>r' \<in> set (r # rows). dr_effective_at r' \<le> dr_effective_at r"
    unfolding rows by auto
  with r set w' sha show ?thesis
    by (intro bexI [of _ r]) auto
qed

text \<open>
  An acknowledgment that is accepted is one of the disclosure in effect that took effect last, with
  the very text this build shows, and from then on its player is let into matches, or its pending
  identity goes on to choose a name, as long as that disclosure is in effect.
\<close>

theorem acknowledgment_counts:
  assumes "ds_acknowledge (api_service A) sha version identity player now w = (Inr r, w')"
  shows "sha = expectedContentSha256 \<and>
    (\<exists>d \<in> set (db_disclosures (it_db w')). effective_at now d \<and> dr_disclosure_version d = version \<and>
       dr_content_sha256 d = sha \<and>
       (\<forall>d' \<in> set (db_disclosures (it_db w')). effective_at now d' \<longrightarrow> dr_effective_at d' \<le> dr_effective_at d)) \<and>
    (\<forall>i \<in> set_option player. disclosureAcknowledged (it_db w') i now) \<and>
    (\<forall>i \<in> set_option identity. identityAcknowledged (it_db w') i now)"
proof -
  let ?input = "\<lparr>ai_acknowledgedAt = now, ai_contentSha256 = sha, ai_disclosureVersion = version,
    ai_externalIdentityId = identity, ai_playerId = player\<rparr>"
  from assms obtain current w1 k where one: "(identity = None) \<noteq> (player = None)"
    and current: "ds_getCurrent (api_service A) now w = (Inr current, w1)"
    and version: "version = dc_version current" "sha = dc_contentSha256 current"
    and given: "pg_acknowledgeCurrentDisclosure (ap_options A) ?input w1 = (Inr (Some k), w')"
    unfolding ds_acknowledge_def
    by (auto simp: act_run run_simps elim!: act_bind_InrE split: if_splits)
  from current_given [OF current] obtain d where d: "d \<in> set (db_disclosures (it_db w))"
    "effective_at now d" "dr_disclosure_version d = version" "dr_content_sha256 d = sha"
    "sha = expectedContentSha256"
    "\<forall>d' \<in> set (db_disclosures (it_db w)). effective_at now d' \<longrightarrow> dr_effective_at d' \<le> dr_effective_at d"
    and w1: "it_db w1 = it_db w"
    by (auto simp: version)
  from acknowledge_given [OF given] obtain a where a: "a \<in> set (db_acknowledgments (it_db w'))"
    "da_disclosure_version a = version"
    "same_some identity (da_external_identity_id a) \<or> same_some player (da_player_id a)"
    and same: "db_disclosures (it_db w') = db_disclosures (it_db w)"
    by (auto simp: w1 acknowledged_by_def)
  have "disclosureAcknowledged (it_db w') i now" if "player = Some i" for i
    using d(1-3) a one that by (force simp: disclosureAcknowledged_def list_ex_iff same same_some_def)
  moreover have "identityAcknowledged (it_db w') i now" if "identity = Some i" for i
    using d(1-3) a one that by (force simp: identityAcknowledged_def list_ex_iff same same_some_def)
  ultimately show ?thesis
    using d by (auto simp: same elem_set)
qed

end
