(* ===== verification/Auth_Examples.thy ===== *)
theory Auth_Examples
  imports Auth_Properties
begin

text \<open>
  A small API on which the properties of login are seen to hold: two players, one open session
  each, one of them with a Google identity whose account was claimed.
\<close>

definition fixture_id :: "nat \<Rightarrow> string" where
  "fixture_id n = ''01980abc-def0-7abc-8def-0123456789'' @ nat_text (10 + n)"

definition fixture_options :: "nat identity_options" where
  "fixture_options = \<lparr>io_configured = True, io_host = fixture_token_host,
     io_uuid = (\<lambda>n. (fixture_id n, n + 1))\<rparr>"

definition fixture_google :: "nat google_client" where
  "fixture_google = \<lparr>gl_getToken = (\<lambda>g input. act_ok (Some ''id-token'')),
     gl_verifyIdToken = (\<lambda>g token. act_ok (Some (''accounts.google.com'', ''subject'')))\<rparr>"

definition fixture_api :: "nat api" where
  "fixture_api = \<lparr>ap_options = fixture_options, ap_crypto = fixture_crypto,
     ap_config = fixture_config,
     ap_fetch = vf_fetch (fixture_verifier fixture_token_host),
     ap_recover = vf_recover (fixture_verifier fixture_token_host), ap_google = fixture_google,
     ap_random_base64url = (\<lambda>k n. (''random-'' @ nat_text n, n + 1))\<rparr>"

definition fixture_google_identity :: google_identity where
  "fixture_google_identity = \<lparr>gy_issuer = ''accounts.google.com'', gy_subject = ''subject''\<rparr>"

definition fixture_carol :: string where
  "fixture_carol = ''01980abc-def2-7abc-8def-0123456789ab''"

definition fixture_carol_session :: session_row where
  "fixture_carol_session = \<lparr>as_id = ''01980abc-def3-7abc-8def-0123456789ab'',
     as_player_id = fixture_carol, as_external_identity_id = None,
     as_refresh_token_hash = ''hash-2'', as_platform = Windows,
     as_authentication_method = Direct_Hive_Challenge, as_hive_signing_provider = Some Keychain,
     as_hive_control_state_at_issue = Self_Custody_Complete, as_custodial_signing_eligible = False,
     as_issued_at = 1000, as_last_used_at = None, as_expires_at = 9000000, as_revoked_at = None,
     as_revocation_reason = None\<rparr>"

definition fixture_alice_session :: session_row where
  "fixture_alice_session = fixture_carol_session\<lparr>as_id := fixture_session,
     as_player_id := fixture_player, as_refresh_token_hash := ''hash-1''\<rparr>"

definition fixture_identity :: external_identity_row where
  "fixture_identity = \<lparr>ei_id = ''01980abc-def4-7abc-8def-0123456789ab'',
     ei_verified_issuer = ''accounts.google.com'',
     ei_subject_lookup_hash = subject_lookup_hash fixture_crypto fixture_config fixture_google_identity,
     ei_player_id = Some fixture_carol, ei_status = Identity_Linked, ei_verified_at = 1000,
     ei_linked_at = Some 1000, ei_last_authenticated_at = 1000, ei_updated_at = 1000\<rparr>"

definition fixture_challenge :: challenge_row where
  "fixture_challenge = \<lparr>hl_id = ''challenge'', hl_hive_username = ''alice'', hl_platform = Webgl,
     hl_device_session_id = ''device'', hl_challenge_text = ''sign this'',
     hl_challenge_sha256 = replicate 64 (CHR ''c''), hl_issued_at = 1000, hl_expires_at = 301000,
     hl_consumed_at = None\<rparr>"

definition fixture_disclosure :: disclosure_row where
  "fixture_disclosure = \<lparr>dr_disclosure_version = ''2026-07-22'',
     dr_content_sha256 = expectedContentSha256, dr_effective_at = 1000, dr_retired_at = None\<rparr>"

definition fixture_identity_db :: identity_db where
  "fixture_identity_db = \<lparr>db_challenges = [fixture_challenge],
     db_players = [\<lparr>ip_id = fixture_player, ip_hive_username = ''alice'',
         ip_hive_control_state = External_Self_Custodial\<rparr>,
       \<lparr>ip_id = fixture_carol, ip_hive_username = ''carol'',
         ip_hive_control_state = Self_Custody_Complete\<rparr>],
     db_sessions = [fixture_alice_session, fixture_carol_session],
     db_identities = [fixture_identity], db_disclosures = [fixture_disclosure],
     db_acknowledgments = [], db_jobs = [], db_keys = [], db_rc_delegations = []\<rparr>"

definition fixture_world :: "nat identity" where
  "fixture_world = \<lparr>it_db = fixture_identity_db, it_out = 0, it_faults = []\<rparr>"

lemma answers_in:
  "map_prod isl id p = (False, w) \<Longrightarrow> \<exists>r. p = (Inr r, w)"
  by (cases p; cases "fst p") auto

lemma answers: "\<not> isl (fst p) \<Longrightarrow> \<exists>r w. p = (Inr r, w)"
  by (cases p; cases "fst p") auto

lemma fixture_sound: "sessions_ok (it_db fixture_world)"
  by code_simp

lemma fixture_challenges_distinct: "distinct (challenge_ids (it_db fixture_world))"
  by code_simp

section \<open>Challenges and refresh tokens\<close>

definition after_consume :: "(exn + login_challenge option) \<times> nat identity" where
  "after_consume = pg_consumeHiveChallenge fixture_options ''challenge'' ''alice'' 2000 fixture_world"

lemma after_consume_trace:
  "identity_trace fixture_options fixture_world [Consume_Asked ''challenge'' True] (snd after_consume)"
proof -
  have "given (fst after_consume)" by code_simp
  moreover have "identity_step fixture_options fixture_world
      (Consume_Asked ''challenge'' (given (fst after_consume))) (snd after_consume)"
    by (rule identity_step.Consume) (simp add: after_consume_def)
  ultimately show ?thesis by (auto intro: identity_trace.intros)
qed

lemma challenge_used_once_witness:
  "\<exists>es w. identity_trace fixture_options fixture_world es w \<and>
     length (filter (\<lambda>e. e = Consume_Asked ''challenge'' True) es) = 1"
proof -
  have "length (filter (\<lambda>e. e = Consume_Asked ''challenge'' True) [Consume_Asked ''challenge'' True]) \<le> 1"
    using challenge_used_once [OF after_consume_trace fixture_challenges_distinct] .
  then have "length (filter (\<lambda>e. e = Consume_Asked ''challenge'' True) [Consume_Asked ''challenge'' True]) = 1"
    by simp
  with after_consume_trace show ?thesis by blast
qed

definition after_rotate :: "(exn + active_session option) \<times> nat identity" where
  "after_rotate = pg_rotateSession fixture_options ''hash-1'' ''hash-3'' 2000 fixture_world"

lemma after_rotate_trace:
  "identity_trace fixture_options fixture_world [Rotation_Asked ''hash-1'' ''hash-3'' True] (snd after_rotate)"
proof -
  have "given (fst after_rotate)" by code_simp
  moreover have "identity_step fixture_options fixture_world
      (Rotation_Asked ''hash-1'' ''hash-3'' (given (fst after_rotate))) (snd after_rotate)"
    by (rule identity_step.Rotation) (simp add: after_rotate_def)
  ultimately show ?thesis by (auto intro: identity_trace.intros)
qed

lemma refresh_token_spent_once_witness:
  "\<exists>es w. identity_trace fixture_options fixture_world es w \<and>
     times (spends ''hash-1'') es = 1 \<and> times (issues ''hash-1'') es = 0 \<and>
     held ''hash-1'' (it_db fixture_world) = 1"
proof -
  have "times (spends ''hash-1'') [Rotation_Asked ''hash-1'' ''hash-3'' True] \<le>
      held ''hash-1'' (it_db fixture_world) + times (issues ''hash-1'') [Rotation_Asked ''hash-1'' ''hash-3'' True]"
    by (rule refresh_token_spent_once [OF after_rotate_trace fixture_sound])
  then have "held ''hash-1'' (it_db fixture_world) = 1"
    by (simp add: held_def split: if_splits)
  then show ?thesis
    using after_rotate_trace by (intro exI conjI) (assumption, simp_all)
qed

section \<open>Admission\<close>

definition fixture_admission :: "nat identity \<Rightarrow> (exn + active_session) \<times> nat identity" where
  "fixture_admission = access_session_guard (api_service fixture_api)
     (One_Header (''Bearer '' @ fixture_token)) 6000 6000"

definition fixture_admitted :: active_session where
  "fixture_admitted = \<lparr>av_authSessionId = fixture_session, av_disclosureAcknowledged = False,
     av_expiresAt = 9000000, av_player = \<lparr>py_id = fixture_player,
       py_hiveControlState = External_Self_Custodial, py_hiveUsername = ''alice''\<rparr>,
     av_playerId = fixture_player\<rparr>"

lemma admitted_session_witness:
  "\<exists>s \<in> set (db_sessions (it_db fixture_world)). as_id s = fixture_session \<and> is_open s"
proof -
  have "fixture_admission fixture_world = (Inr fixture_admitted, fixture_world)"
    by code_simp
  from admitted_session [OF this [unfolded fixture_admission_def]] show ?thesis
    by (auto simp: fixture_admitted_def)
qed

definition after_logout :: "(exn + unit) \<times> nat identity" where
  "after_logout = as_revokeSession (api_service fixture_api) (as_id fixture_carol_session) 2000 fixture_world"

lemma logout_is_final_witness:
  "\<exists>a w. fixture_admission (snd after_logout) = (Inr a, w) \<and>
     av_authSessionId a \<noteq> as_id fixture_carol_session"
proof -
  have logout: "as_revokeSession (api_service fixture_api) (as_id fixture_carol_session) 2000 fixture_world =
      (Inr (), snd after_logout)"
    by code_simp
  have guard: "fixture_admission (snd after_logout) = (Inr fixture_admitted, snd after_logout)"
    by code_simp
  have "fixture_carol_session \<in> set (db_sessions (it_db fixture_world))"
    by (simp add: fixture_world_def fixture_identity_db_def)
  from logout_is_final [OF fixture_sound this logout identity_trace.Start
      guard [unfolded fixture_admission_def]] guard
  show ?thesis by blast
qed

section \<open>Logins\<close>

definition fixture_carol_player :: player_identity where
  "fixture_carol_player = \<lparr>py_id = fixture_carol, py_hiveControlState = Self_Custody_Complete,
     py_hiveUsername = ''carol''\<rparr>"

definition fixture_next_session :: new_session where
  "fixture_next_session = \<lparr>ns_authenticationMethod = Direct_Hive_Challenge,
     ns_custodialSigningEligible = False, ns_expiresAt = 9000, ns_externalIdentityId = None,
     ns_hiveSigningProvider = Some Hiveauth, ns_id = ''next-session'', ns_issuedAt = 3000,
     ns_platform = Linux, ns_player = fixture_carol_player, ns_refreshTokenHash = ''hash-next''\<rparr>"

lemma login_takes_over_witness:
  "\<exists>w'. pg_createSession fixture_options fixture_next_session fixture_world = (Inr (), w') \<and>
     as_player_id fixture_carol_session = as_player_id (session_of fixture_next_session) \<and>
     is_open fixture_carol_session \<and> fixture_carol_session \<in> set (db_sessions (it_db fixture_world)) \<and>
     fixture_carol_session \<notin> set (db_sessions (it_db w')) \<and>
     session_of fixture_next_session \<in> set (db_sessions (it_db w'))"
proof -
  have rows: "db_sessions (it_db fixture_world) = [fixture_alice_session, fixture_carol_session]"
    by (simp add: fixture_world_def fixture_identity_db_def)
  have "\<exists>w'. pg_createSession fixture_options fixture_next_session fixture_world = (Inr (), w') \<and>
    filter (\<lambda>s. is_open s \<and> as_player_id s = py_id (ns_player fixture_next_session))
      (db_sessions (it_db w')) = [session_of fixture_next_session] \<and>
    db_sessions (it_db w') = map (\<lambda>s.
      if is_open s \<and> as_player_id s = py_id (ns_player fixture_next_session)
      then s\<lparr>as_revoked_at := Some (ns_issuedAt fixture_next_session),
        as_revocation_reason := Some ''superseded_login''\<rparr>
      else s) (db_sessions (it_db fixture_world)) @ [session_of fixture_next_session]"
  proof (rule login_takes_over)
    show "io_configured fixture_options" "it_faults fixture_world = []"
      "session_checks (session_of fixture_next_session)"
      "py_id (ns_player fixture_next_session) \<in> ip_id ` set (db_players (it_db fixture_world))"
      by code_simp+
    show "sessions_ok (it_db fixture_world)" by (rule fixture_sound)
    show "i \<in> ei_id ` set (db_identities (it_db fixture_world))"
      if "ns_externalIdentityId fixture_next_session = Some i" for i
      using that by (simp add: fixture_next_session_def)
    have "list_all (\<lambda>s. as_id s \<noteq> ns_id fixture_next_session \<and>
        as_refresh_token_hash s \<noteq> ns_refreshTokenHash fixture_next_session \<and>
        as_issued_at s \<le> ns_issuedAt fixture_next_session) (db_sessions (it_db fixture_world))"
      by code_simp
    then show "as_id s \<noteq> ns_id fixture_next_session \<and>
        as_refresh_token_hash s \<noteq> ns_refreshTokenHash fixture_next_session"
      and "as_issued_at s \<le> ns_issuedAt fixture_next_session"
      if "s \<in> set (db_sessions (it_db fixture_world))" for s
      using that by (simp_all add: list_all_iff)
  qed
  then obtain w' where run: "pg_createSession fixture_options fixture_next_session fixture_world = (Inr (), w')"
    and only: "filter (\<lambda>s. is_open s \<and> as_player_id s = py_id (ns_player fixture_next_session))
      (db_sessions (it_db w')) = [session_of fixture_next_session]"
    by blast
  have carol: "is_open fixture_carol_session"
    "as_player_id fixture_carol_session = py_id (ns_player fixture_next_session)"
    "as_player_id fixture_carol_session = as_player_id (session_of fixture_next_session)"
    "fixture_carol_session \<noteq> session_of fixture_next_session"
    by code_simp+
  have "{s \<in> set (db_sessions (it_db w')). is_open s \<and>
      as_player_id s = py_id (ns_player fixture_next_session)} = set [session_of fixture_next_session]"
    unfolding only [symmetric] set_filter by simp
  then have only': "s \<in> set (db_sessions (it_db w')) \<and> is_open s \<and>
      as_player_id s = py_id (ns_player fixture_next_session) \<longleftrightarrow> s = session_of fixture_next_session" for s
    by auto
  from only' [of fixture_carol_session] only' [of "session_of fixture_next_session"] run carol rows
  show ?thesis by (intro exI [of _ w']) simp
qed

definition fixture_login :: hive_session_input where
  "fixture_login = \<lparr>hi_challengeId = ''challenge'', hi_hiveUsername = ''alice'',
     hi_signature = fixture_signature, hi_signingProvider = Keychain\<rparr>"

definition fixture_consumed :: "nat identity" where
  "fixture_consumed = fixture_world\<lparr>it_db := fixture_identity_db\<lparr>db_challenges :=
     [fixture_challenge\<lparr>hl_consumed_at := Some 2000\<rparr>]\<rparr>\<rparr>"

definition fixture_alice_player :: player_identity where
  "fixture_alice_player = \<lparr>py_id = fixture_player, py_hiveControlState = External_Self_Custodial,
     py_hiveUsername = ''alice''\<rparr>"

definition after_hive_login :: "(exn + auth_tokens) \<times> nat identity" where
  "after_hive_login = as_createSession (api_service fixture_api) fixture_alice_player Webgl
     Direct_Hive_Challenge (Some Keychain) None False 2000 (fixture_consumed\<lparr>it_out := 1\<rparr>)"

lemma after_hive_login_accepted: "\<not> isl (fst after_hive_login)"
  by code_simp

lemma fixture_challenge_consumed:
  "pg_consumeHiveChallenge fixture_options ''challenge'' ''alice'' 2000 fixture_world =
     (Inr (Some \<lparr>lc_challenge = ''sign this'',
        lc_expiresAt = 301000, lc_hiveUsername = ''alice'', lc_id = ''challenge'',
        lc_platform = Webgl\<rparr>), fixture_consumed)"
  by code_simp

lemma fixture_alice_found:
  "pg_findOrCreateDirectHivePlayer fixture_options ''alice'' fixture_consumed =
     (Inr fixture_alice_player, fixture_consumed\<lparr>it_out := 1\<rparr>)"
  by code_simp

lemma fixture_login_verified:
  "verify_login (api_verifier fixture_api) \<lparr>lp_challenge = c, lp_hiveUsername = ''alice'',
     lp_signature = fixture_signature\<rparr> w = (Inr True, w)"
proof -
  have "api_verifier fixture_api = fixture_verifier fixture_token_host"
    by (simp add: api_verifier_def fixture_api_def fixture_options_def fixture_verifier_def)
  then show ?thesis by (simp add: fixture_verify)
qed

lemma fixture_api_simps:
  "ap_options fixture_api = fixture_options"
  by (simp add: fixture_api_def)

lemma fixture_login_run:
  "as_createHiveSession (api_service fixture_api) fixture_login 2000 fixture_world = after_hive_login"
  by (simp add: as_createHiveSession_def act_bind_def fixture_login_def on_out_def after_hive_login_def
      fixture_login_verified fixture_challenge_consumed fixture_alice_found fixture_api_simps act_on_def
      act_run)

lemma hive_login_signed_witness:
  "\<exists>tokens w s. as_createHiveSession (api_service fixture_api) fixture_login 2000 fixture_world =
     (Inr tokens, w) \<and> s \<in> set (db_sessions (it_db w)) \<and> as_id s = tk_sessionId tokens \<and> is_open s"
proof -
  from answers [OF after_hive_login_accepted]
  obtain tokens w where "after_hive_login = (Inr tokens, w)" by blast
  with fixture_login_run have run: "as_createHiveSession (api_service fixture_api) fixture_login 2000
      fixture_world = (Inr tokens, w)" by simp
  from hive_login_signed [OF fixture_challenges_distinct run] run show ?thesis by auto
qed

definition fixture_google_input :: google_input where
  "fixture_google_input = \<lparr>gi_authorizationCode = ''code'', gi_codeVerifier = ''verifier'',
     gi_redirectUri = ''https://play.example/callback''\<rparr>"

lemma claimed_google_login_fails_witness:
  "\<exists>error w. as_exchangeGoogle (api_service fixture_api) fixture_google_input Webgl 2000 fixture_world =
     (Inl error, w) \<and> db_sessions (it_db w) = [fixture_alice_session, fixture_carol_session]"
proof -
  have google: "api_google fixture_api fixture_google_input (it_out fixture_world) =
      (Inr fixture_google_identity, 0)"
    by code_simp
  have "same_subject (gy_issuer fixture_google_identity)
      (subject_lookup_hash (ap_crypto fixture_api) (ap_config fixture_api) fixture_google_identity)
      fixture_identity"
    by (simp add: same_subject_def fixture_identity_def fixture_google_identity_def fixture_api_def)
  then have "\<exists>error w. as_exchangeGoogle (api_service fixture_api) fixture_google_input Webgl 2000
        fixture_world = (Inl error, w) \<and>
      db_sessions (it_db w) = db_sessions (it_db fixture_world)"
    by (intro claimed_google_login_fails [OF google, of fixture_identity fixture_carol])
      (auto simp: fixture_world_def fixture_identity_db_def fixture_identity_def fixture_carol_def
        fixture_player_def)
  then show ?thesis by (simp add: fixture_world_def fixture_identity_db_def)
qed

section \<open>Disclosures\<close>

definition after_acknowledge :: "(exn + string \<times> string \<times> string) \<times> nat identity" where
  "after_acknowledge = ds_acknowledge (api_service fixture_api) expectedContentSha256 ''2026-07-22''
     None (Some fixture_player) 2000 fixture_world"

definition fixture_acknowledgment :: acknowledgment_row where
  "fixture_acknowledgment = \<lparr>da_id = ''01980abc-def0-7abc-8def-012345678910'',
     da_disclosure_version = ''2026-07-22'', da_external_identity_id = None,
     da_player_id = Some fixture_player, da_source = Direct_Hive_Pre_Participation,
     da_acknowledged_at = 2000, da_player_linked_at = None\<rparr>"

definition fixture_acknowledged :: "nat identity" where
  "fixture_acknowledged = \<lparr>it_db = fixture_identity_db\<lparr>db_acknowledgments := [fixture_acknowledgment]\<rparr>,
     it_out = 1, it_faults = []\<rparr>"

lemma after_acknowledge_world:
  "map_prod isl id after_acknowledge = (False, fixture_acknowledged)"
  by code_simp

lemma acknowledgment_counts_witness:
  "disclosureAcknowledged (it_db fixture_acknowledged) fixture_player 2000 \<and>
   \<not> disclosureAcknowledged (it_db fixture_world) fixture_player 2000"
proof -
  from answers_in [OF after_acknowledge_world]
  obtain r where "after_acknowledge = (Inr r, fixture_acknowledged)" ..
  from acknowledgment_counts [OF this [unfolded after_acknowledge_def]]
  have "disclosureAcknowledged (it_db fixture_acknowledged) fixture_player 2000" by simp
  moreover have "\<not> disclosureAcknowledged (it_db fixture_world) fixture_player 2000" by code_simp
  ultimately show ?thesis by simp
qed

text \<open>
  While two disclosures are in effect, an acknowledgment of the older one still counts, although the
  one that is shown is the newer.
\<close>

definition fixture_two_disclosures :: "nat identity" where
  "fixture_two_disclosures = fixture_acknowledged\<lparr>it_db := (it_db fixture_acknowledged)
     \<lparr>db_disclosures := [fixture_disclosure, fixture_disclosure\<lparr>dr_disclosure_version := ''2026-09-01'',
        dr_effective_at := 3000\<rparr>]\<rparr>\<rparr>"

lemma stale_acknowledgment_counts:
  "disclosureAcknowledged (it_db fixture_two_disclosures) fixture_player 4000 \<and>
   map_sum id dc_version (fst (ds_getCurrent (api_service fixture_api) 4000 fixture_two_disclosures)) =
     Inr ''2026-09-01''"
  by code_simp

text \<open>Google names itself in two ways, and one subject then is two identities.\<close>

definition after_issuers :: "nat identity" where
  "after_issuers = snd (pg_upsertGoogleIdentity fixture_options ''https://accounts.google.com''
     (subject_lookup_hash fixture_crypto fixture_config
       \<lparr>gy_issuer = ''https://accounts.google.com'', gy_subject = ''subject''\<rparr>) 2000 fixture_world)"

lemma issuer_spelling_splits_identity:
  "map ei_verified_issuer (db_identities (it_db after_issuers)) =
     [''accounts.google.com'', ''https://accounts.google.com''] \<and>
   map ei_player_id (db_identities (it_db after_issuers)) = [Some fixture_carol, None]"
  by code_simp

end
