(* ===== verification/Auth_Controller.thy ===== *)
theory Auth_Controller
  imports Auth_Properties
begin

text \<open>
  The routes of login and of the disclosure (\<open>auth/auth.controller.ts\<close>,
  \<open>auth/disclosure.controller.ts\<close>): the bodies they accept, and the guard in front of those that need
  a session. A body is the JSON value the framework has parsed.
\<close>

section \<open>Bodies\<close>

definition bodyRefused :: exn where
  "bodyRefused = ApiError 422 ''validation_failed''"

definition read_body :: "(json \<Rightarrow> 'a option) \<Rightarrow> json \<Rightarrow> exn + 'a" where
  "read_body schema body = of_option bodyRefused (schema body)"

definition clientPlatformSchema :: "json \<Rightarrow> client_platform option" where
  "clientPlatformSchema v =
     Option.bind (as_string v) (\<lambda>s.
       if s = ''webgl'' then Some Webgl else if s = ''windows'' then Some Windows
       else if s = ''macos'' then Some Macos else if s = ''linux'' then Some Linux else None)"

text \<open>A string that passes a test.\<close>

definition string_such :: "(string \<Rightarrow> bool) \<Rightarrow> json \<Rightarrow> string option" where
  "string_such P v = Option.bind (as_string v) (\<lambda>s. if P s then Some s else None)"

definition hiveChallengeSchema :: "json \<Rightarrow> (string \<times> client_platform) option" where
  "hiveChallengeSchema v = do {
     m \<leftarrow> strict_object [''hiveUsername'', ''platform''] [] v;
     name \<leftarrow> get_prop (string_such hiveAccountSchema) m ''hiveUsername'';
     platform \<leftarrow> get_prop clientPlatformSchema m ''platform'';
     Some (name, platform)
   }"

definition loginProviderSchema :: "json \<Rightarrow> signing_provider option" where
  "loginProviderSchema v =
     Option.bind (as_string v) (\<lambda>s.
       if s = ''keychain'' then Some Keychain else if s = ''hiveauth'' then Some Hiveauth
       else if s = ''hivesigner'' then Some Hivesigner else None)"

definition hiveSessionSchema :: "crypto \<Rightarrow> json \<Rightarrow> hive_session_input option" where
  "hiveSessionSchema K v = do {
     m \<leftarrow> strict_object [''challengeId'', ''hiveUsername'', ''signature'', ''signingProvider''] [] v;
     challengeId \<leftarrow> get_prop (string_such (zod_uuid K)) m ''challengeId'';
     name \<leftarrow> get_prop (string_such hiveAccountSchema) m ''hiveUsername'';
     signature \<leftarrow> get_prop (string_such (is_hex_string 130)) m ''signature'';
     provider \<leftarrow> get_prop loginProviderSchema m ''signingProvider'';
     Some \<lparr>hi_challengeId = challengeId, hi_hiveUsername = name, hi_signature = signature,
       hi_signingProvider = provider\<rparr>
   }"

definition googleExchangeSchema :: "host \<Rightarrow> json \<Rightarrow> (google_input \<times> client_platform) option" where
  "googleExchangeSchema H v = do {
     m \<leftarrow> strict_object [''authorizationCode'', ''codeVerifier'', ''platform'', ''redirectUri''] [] v;
     code \<leftarrow> get_prop (string_such (string_between 1 4096)) m ''authorizationCode'';
     verifier \<leftarrow> get_prop (string_such (string_between 43 128)) m ''codeVerifier'';
     platform \<leftarrow> get_prop clientPlatformSchema m ''platform'';
     uri \<leftarrow> get_prop (string_such (\<lambda>s. zod_url H s \<and> length s \<le> 2048)) m ''redirectUri'';
     Some (\<lparr>gi_authorizationCode = code, gi_codeVerifier = verifier, gi_redirectUri = uri\<rparr>, platform)
   }"

definition refreshSchema :: "json \<Rightarrow> string option" where
  "refreshSchema v = do {
     m \<leftarrow> strict_object [''refreshToken''] [] v;
     get_prop (string_such (string_between 32 2048)) m ''refreshToken''
   }"

section \<open>Login\<close>

definition route_createHiveChallenge ::
  "'s auth_service \<Rightarrow> json \<Rightarrow> int \<Rightarrow> ('s, challenge_response) action" where
  "route_createHiveChallenge S body now =
     act_bind (act_lift (read_body hiveChallengeSchema body)) (\<lambda>(name, platform).
     as_createHiveChallenge S name platform now)"

definition route_createHiveSession :: "'s auth_service \<Rightarrow> json \<Rightarrow> int \<Rightarrow> ('s, auth_tokens) action" where
  "route_createHiveSession S body now =
     act_bind (act_lift (read_body (hiveSessionSchema (sv_crypto S)) body)) (\<lambda>input.
     as_createHiveSession S input now)"

definition route_exchangeGoogle :: "'s auth_service \<Rightarrow> json \<Rightarrow> int \<Rightarrow> ('s, exchange_response) action" where
  "route_exchangeGoogle S body now =
     act_bind (act_lift (read_body (googleExchangeSchema (sv_host S)) body)) (\<lambda>(input, platform).
     as_exchangeGoogle S input platform now)"

definition route_refresh :: "'s auth_service \<Rightarrow> json \<Rightarrow> int \<Rightarrow> ('s, auth_tokens) action" where
  "route_refresh S body now =
     act_bind (act_lift (read_body refreshSchema body)) (\<lambda>refreshToken. as_refresh S refreshToken now)"

definition route_revokeSession ::
  "'s auth_service \<Rightarrow> header \<Rightarrow> int \<Rightarrow> int \<Rightarrow> int \<Rightarrow> ('s, unit) action" where
  "route_revokeSession S authorization verifyAt findAt now =
     act_bind (access_session_guard S authorization verifyAt findAt) (\<lambda>a.
     as_revokeSession S (av_authSessionId a) now)"

section \<open>The disclosure\<close>

definition acknowledgmentSchema :: "json \<Rightarrow> (string \<times> string) option" where
  "acknowledgmentSchema v = do {
     m \<leftarrow> strict_object [''contentSha256'', ''disclosureVersion''] [] v;
     sha \<leftarrow> get_prop (string_such (is_hex_string 64)) m ''contentSha256'';
     version \<leftarrow> get_prop (string_such (string_between 1 32)) m ''disclosureVersion'';
     Some (sha, version)
   }"

definition control_character :: "char \<Rightarrow> bool" where
  "control_character c \<longleftrightarrow> (of_char c :: nat) < 32 \<or> (of_char c :: nat) = 127"

definition assertIdempotencyKey :: "string option \<Rightarrow> exn + unit" where
  "assertIdempotencyKey header =
     ensure (\<not> (case header of None \<Rightarrow> True
       | Some v \<Rightarrow> v = '''' \<or> length v > 128 \<or> list_ex control_character v)) bodyRefused"

definition route_getCurrent :: "'s auth_service \<Rightarrow> header \<Rightarrow> int \<Rightarrow> int \<Rightarrow> ('s, disclosure) action" where
  "route_getCurrent S authorization guardAt now =
     act_bind (disclosure_principal_guard S authorization guardAt) (\<lambda>_. ds_getCurrent S now)"

definition principal_player :: "principal \<Rightarrow> string option" where
  "principal_player p =
     (case p of Session_Principal a \<Rightarrow> Some (av_playerId a) | Onboarding_Principal _ \<Rightarrow> None)"

definition principal_identity :: "principal \<Rightarrow> string option" where
  "principal_identity p =
     (case p of Session_Principal _ \<Rightarrow> None | Onboarding_Principal e \<Rightarrow> Some e)"

definition route_acknowledge ::
  "'s auth_service \<Rightarrow> header \<Rightarrow> string option \<Rightarrow> json \<Rightarrow> int \<Rightarrow> int \<Rightarrow>
   ('s, string \<times> string \<times> string) action" where
  "route_acknowledge S authorization idempotencyKey body guardAt now =
     act_bind (disclosure_principal_guard S authorization guardAt) (\<lambda>p.
     act_bind (act_lift (assertIdempotencyKey idempotencyKey)) (\<lambda>_.
     act_bind (act_lift (read_body acknowledgmentSchema body)) (\<lambda>(contentSha256, disclosureVersion).
     act_bind (act_ensure (\<not> ((principal_player p = None) = (principal_identity p = None)))
       (ApiError 401 ''Unauthorized'')) (\<lambda>_.
     ds_acknowledge S contentSha256 disclosureVersion (principal_identity p) (principal_player p) now))))"

section \<open>Logging out\<close>

text \<open>A token is for one session, whenever it is read.\<close>

lemma guard_same_session:
  assumes "access_session_guard (api_service A) authorization t u w = (Inr a, w')"
    and "access_session_guard (api_service A) authorization t' u' v = (Inr a', v')"
  shows "av_authSessionId a' = av_authSessionId a"
proof -
  let ?verify = "verifyAccessToken (io_host (ap_options A)) (ap_crypto A) (ap_config A)"
  from assms(1) obtain token where one: "bearerToken authorization = Inr token"
    "?verify token t = Inr (av_playerId a, av_authSessionId a)"
    by (rule guardE)
  from assms(2) obtain token' where "bearerToken authorization = Inr token'"
    "?verify token' t' = Inr (av_playerId a', av_authSessionId a')"
    by (rule guardE)
  with one have two: "?verify token t' = Inr (av_playerId a', av_authSessionId a')" by simp
  from one(2) two show ?thesis
    by (elim verifyAccessTokenE) (auto dest: verify_token_same)
qed

text \<open>
  Who logs out is out: once the logout route has returned, the token it was called with is refused
  by the guard, whatever happens to the tables in between and at whatever time it is shown.
\<close>

theorem logout_route_final:
  assumes "sessions_ok (it_db w)"
    and "route_revokeSession (api_service A) authorization t u v w = (Inr (), w1)"
    and "identity_trace (ap_options A) w1 es w2"
  shows "isl (fst (access_session_guard (api_service A) authorization t' u' w2))"
proof (rule ccontr)
  assume "\<not> isl (fst (access_session_guard (api_service A) authorization t' u' w2))"
  then obtain a' w3 where again:
    "access_session_guard (api_service A) authorization t' u' w2 = (Inr a', w3)"
    by (metis isl_def old.sum.exhaust prod.collapse)
  from assms(2) obtain a v0 where admitted:
      "access_session_guard (api_service A) authorization t u w = (Inr a, v0)"
    and "as_revokeSession (api_service A) (av_authSessionId a) v v0 = (Inr (), w1)"
    unfolding route_revokeSession_def by (rule act_bind_InrE)
  then obtain b where run:
    "pg_revokeSession (ap_options A) (av_authSessionId a) v ''player_logout'' v0 = (Inr b, w1)"
    unfolding as_revokeSession_def by (auto simp: act_run elim!: act_bind_InrE)
  from admitted obtain token where
    "pg_findActiveSession (ap_options A) (av_authSessionId a) u w = (Inr (Some a), v0)"
    by (rule guardE)
  from session_found [OF this] have v0: "it_db v0 = it_db w"
    and "av_authSessionId a \<in> as_id ` set (db_sessions (it_db v0))"
    by (auto simp: mapSession_def)
  then have "av_authSessionId a \<in> as_id ` set (db_sessions (it_db w1))"
    by (simp add: session_ids_revoked [OF run] flip: set_map)
  then obtain r where r: "r \<in> set (db_sessions (it_db w1))" "as_id r = av_authSessionId a" by auto
  from session_revoked [OF run] r have "\<not> is_open r" by blast
  moreover from sessions.event_keeps [OF identity_step.Revocation [OF run]] v0 assms(1)
  have "sessions_ok (it_db w1)" by (simp add: keeps_sessions_def)
  ultimately have "av_authSessionId a' \<noteq> as_id r"
    using closed_not_admitted [OF _ r(1) _ assms(3) again] by blast
  with guard_same_session [OF admitted again] r(2) show False by simp
qed

end
