(* ===== verification/Realtime.thy ===== *)
theory Realtime
  imports Auth_Module
begin

text \<open>
  The realtime part of the API (\<open>realtime/*.ts\<close>): its configuration, the assertion that tells the
  game server who a player is, the service that trades it for a Nakama session, and the controller,
  which asks for an acknowledged disclosure first. A buffer is the string of its bytes.
\<close>

section \<open>Configuration\<close>

record nakama_config =
  nk_assertionTtlSeconds :: int
  nk_bridgeHmacKey :: string
  nk_httpUrl :: string
  nk_requestTimeoutMs :: int
  nk_serverKey :: string
  nk_socketUrl :: string

record realtime_config =
  rl_nakama :: "nakama_config option"
  rl_nodeEnvironment :: string

text \<open>\<open>Number(text)\<close> where it is an integer.\<close>

type_synonym number_reader = "string \<Rightarrow> int option"

text \<open>\<open>buffer.toString('base64url')\<close>: three bytes are four digits, without padding.\<close>

definition base64url_digit :: "nat \<Rightarrow> char" where
  "base64url_digit n =
     char_of (if n < 26 then 65 + n else if n < 52 then 71 + n else if n < 62 then n - 4
       else if n = 62 then 45 else 95)"

fun base64url :: "string \<Rightarrow> string" where
  "base64url (a # b # c # cs) =
     (let x = of_char a; y = of_char b; z = of_char c in
      [base64url_digit (x div 4), base64url_digit (16 * (x mod 4) + y div 16),
       base64url_digit (4 * (y mod 16) + z div 64), base64url_digit (z mod 64)] @ base64url cs)"
| "base64url [a, b] =
     (let x = of_char a; y = of_char b in
      [base64url_digit (x div 4), base64url_digit (16 * (x mod 4) + y div 16),
       base64url_digit (4 * (y mod 16))])"
| "base64url [a] =
     (let x = of_char a in [base64url_digit (x div 4), base64url_digit (16 * (x mod 4))])"
| "base64url [] = []"

definition isCanonicalUuidV7 :: "string \<Rightarrow> bool" where
  "isCanonicalUuidV7 v \<longleftrightarrow> match_seq uuid_v7_pattern v"

text \<open>\<open>/^[A-Za-z0-9_-]+$/\<close>\<close>

definition base64url_pattern :: "string \<Rightarrow> bool" where
  "base64url_pattern v \<longleftrightarrow>
     v \<noteq> '''' \<and> list_all (\<lambda>c. is_upper c \<or> is_lower c \<or> is_digit c \<or> is_one_of ''_-'' c) v"

definition decodeBridgeKey :: "crypto \<Rightarrow> string \<Rightarrow> exn + string" where
  "decodeBridgeKey K encoded =
     ebind (ensure (base64url_pattern encoded) configError) (\<lambda>_.
     let decoded = bytes_of_base64url K encoded in
     ebind (ensure (\<not> (length decoded < 32 \<or> base64url decoded \<noteq> encoded)) configError) (\<lambda>_.
     Inr decoded))"

definition parseServiceUrl :: "host \<Rightarrow> string \<Rightarrow> string list \<Rightarrow> bool \<Rightarrow> exn + url" where
  "parseServiceUrl H v protocols allowWebSocketPath =
     ebind (of_option configError (parse_url H v)) (\<lambda>parsed.
     ebind (ensure (List.member protocols (url_protocol parsed)) configError) (\<lambda>_.
     ebind (ensure (\<not> (url_username parsed \<noteq> '''' \<or> url_password parsed \<noteq> '''' \<or>
       url_search parsed \<noteq> '''' \<or> url_hash parsed \<noteq> '''')) configError) (\<lambda>_.
     ebind (ensure (if allowWebSocketPath
         then \<not> (url_pathname parsed \<noteq> ''/'' \<and> url_pathname parsed \<noteq> ''/ws'')
         else \<not> url_pathname parsed \<noteq> ''/'') configError) (\<lambda>_.
     Inr parsed))))"

definition parseBoundedInteger ::
  "number_reader \<Rightarrow> string option \<Rightarrow> int \<Rightarrow> int \<Rightarrow> int \<Rightarrow> exn + int" where
  "parseBoundedInteger B raw fallback minimum maximum =
     (case raw of
        None \<Rightarrow> Inr fallback
      | Some v \<Rightarrow>
          if js_trim v = '''' then Inr fallback
          else
            (case B v of
               None \<Rightarrow> Inl configError
             | Some n \<Rightarrow>
                 if \<not> is_safe_integer n \<or> n < minimum \<or> n > maximum then Inl configError else Inr n))"

definition loadNakamaBridgeConfig ::
  "host \<Rightarrow> crypto \<Rightarrow> number_reader \<Rightarrow> environment \<Rightarrow> string \<Rightarrow> exn + nakama_config option" where
  "loadNakamaBridgeConfig H K B env nodeEnvironment =
     (let bridgeHmacKey = env_trimmed env ''NAKAMA_BRIDGE_HMAC_KEY'';
          httpText = env_trimmed env ''NAKAMA_HTTP_URL'';
          serverKey = env_trimmed env ''NAKAMA_SERVER_KEY'';
          socketText = env_trimmed env ''NAKAMA_SOCKET_URL'';
          values = [bridgeHmacKey, httpText, serverKey, socketText]
      in if list_all (\<lambda>v. v = '''') values then Inr None
         else
           ebind (ensure (\<not> list_ex (\<lambda>v. v = '''') values) configError) (\<lambda>_.
           ebind (parseServiceUrl H httpText [''http:'', ''https:''] False) (\<lambda>httpUrl.
           ebind (parseServiceUrl H socketText [''ws:'', ''wss:''] True) (\<lambda>socketUrl.
           ebind (ensure (nodeEnvironment = ''production'' \<longrightarrow>
               \<not> (url_protocol httpUrl \<noteq> ''https:'' \<or> url_protocol socketUrl \<noteq> ''wss:'')) configError) (\<lambda>_.
           ebind (decodeBridgeKey K bridgeHmacKey) (\<lambda>key.
           ebind (parseBoundedInteger B (env ''NAKAMA_BRIDGE_ASSERTION_TTL_SECONDS'') 30 5 60)
             (\<lambda>assertionTtlSeconds.
           ebind (parseBoundedInteger B (env ''NAKAMA_REQUEST_TIMEOUT_MS'') 5000 100 30000)
             (\<lambda>requestTimeoutMs.
           Inr (Some \<lparr>nk_assertionTtlSeconds = assertionTtlSeconds, nk_bridgeHmacKey = key,
             nk_httpUrl = url_href httpUrl, nk_requestTimeoutMs = requestTimeoutMs,
             nk_serverKey = serverKey, nk_socketUrl = url_href socketUrl\<rparr>)))))))))"

definition loadRealtimeConfig ::
  "host \<Rightarrow> crypto \<Rightarrow> number_reader \<Rightarrow> environment \<Rightarrow> exn + realtime_config" where
  "loadRealtimeConfig H K B env =
     (let nodeEnvironment = env_or env ''NODE_ENV'' ''development'' in
      ebind (loadNakamaBridgeConfig H K B env nodeEnvironment) (\<lambda>nakama.
      Inr \<lparr>rl_nakama = nakama, rl_nodeEnvironment = nodeEnvironment\<rparr>))"

section \<open>Bridge assertions\<close>

record bridge_principal =
  bg_authSessionId :: string
  bg_playerId :: string

definition hex_nibble :: "char \<Rightarrow> nat" where
  "hex_nibble c = (if is_digit c then of_char c - 48 else of_char c - 87)"

text \<open>\<open>Buffer.from(text, 'hex')\<close> of lowercase digits.\<close>

fun hex_bytes :: "string \<Rightarrow> string" where
  "hex_bytes (c # d # cs) = char_of (16 * hex_nibble c + hex_nibble d) # hex_bytes cs"
| "hex_bytes _ = []"

definition compactUuid :: "string \<Rightarrow> string" where
  "compactUuid v = base64url (hex_bytes (filter (\<lambda>c. c \<noteq> CHR ''-'') v))"

text \<open>\<open>n.toString(36)\<close>\<close>

definition radix36_digit :: "nat \<Rightarrow> char" where
  "radix36_digit n = char_of (if n < 10 then 48 + n else 87 + n)"

fun radix36 :: "nat \<Rightarrow> string" where
  "radix36 n = (if n < 36 then [radix36_digit n] else radix36 (n div 36) @ [radix36_digit (n mod 36)])"

declare radix36.simps [simp del]

definition signed36 :: "int \<Rightarrow> string" where
  "signed36 n = (if n < 0 then CHR ''-'' # radix36 (nat (- n)) else radix36 (nat n))"

definition bridge_payload :: "bridge_principal \<Rightarrow> int \<Rightarrow> string \<Rightarrow> string" where
  "bridge_payload p expiresAt nonce =
     ''v1'' @ ''.'' @ compactUuid (bg_playerId p) @ ''.'' @ compactUuid (bg_authSessionId p) @ ''.'' @
     signed36 expiresAt @ ''.'' @ base64url nonce"

definition bridgeError :: exn where
  "bridgeError = OtherError ''Error''"

text \<open>\<open>now\<close> is a valid date.\<close>

definition createBridgeAssertion ::
  "crypto \<Rightarrow> bridge_principal \<Rightarrow> nakama_config \<Rightarrow> int \<Rightarrow> string \<Rightarrow> exn + string" where
  "createBridgeAssertion K p config now nonce =
     ebind (ensure (\<not> (\<not> isCanonicalUuidV7 (bg_playerId p) \<or> \<not> isCanonicalUuidV7 (bg_authSessionId p)))
       bridgeError) (\<lambda>_.
     ebind (ensure (\<not> length nonce \<noteq> 16) bridgeError) (\<lambda>_.
     let expiresAt = now div 1000 + nk_assertionTtlSeconds config;
         payload = bridge_payload p expiresAt nonce;
         assertion = payload @ ''.'' @ hmac_base64url K (nk_bridgeHmacKey config) payload
     in ebind (ensure (\<not> length assertion > 128) bridgeError) (\<lambda>_. Inr assertion)))"

section \<open>The service and the controller\<close>

record nakama_session =
  nz_expires_at :: "int option"
  nz_token :: string

record realtime_session =
  rz_expiresAt :: string
  rz_nakamaToken :: string
  rz_socketUrl :: string

text \<open>
  \<open>rt_client\<close> is the Nakama client, its argument the assertion (it always creates the account);
  \<open>rt_nonce\<close> is \<open>randomBytes(16)\<close>.
\<close>

record 's realtime =
  rt_host :: host
  rt_crypto :: crypto
  rt_config :: realtime_config
  rt_client :: "(string \<Rightarrow> ('s, nakama_session) action) option"
  rt_nonce :: "('s, string) action"

definition realtimeUnavailable :: exn where
  "realtimeUnavailable = ApiError 503 ''realtime_unavailable''"

definition requireNakama ::
  "'s realtime \<Rightarrow> exn + nakama_config \<times> (string \<Rightarrow> ('s, nakama_session) action)" where
  "requireNakama R =
     (case (rl_nakama (rt_config R), rt_client R) of
        (Some nakama, Some client) \<Rightarrow> Inr (nakama, client)
      | _ \<Rightarrow> Inl realtimeUnavailable)"

text \<open>\<open>now\<close> is the clock when the assertion is made, \<open>later\<close> when the answer is there.\<close>

definition rt_createSession ::
  "'s realtime \<Rightarrow> bridge_principal \<Rightarrow> int \<Rightarrow> int \<Rightarrow> ('s, realtime_session) action" where
  "rt_createSession R p now later =
     act_bind (act_lift (requireNakama R)) (\<lambda>(nakama, client).
     act_bind (rt_nonce R) (\<lambda>nonce.
     act_bind (act_lift (createBridgeAssertion (rt_crypto R) p nakama now nonce)) (\<lambda>assertion.
     act_bind (act_catch (client assertion) (\<lambda>_. act_fail realtimeUnavailable)) (\<lambda>session.
     act_bind (act_lift (of_option realtimeUnavailable (nz_expires_at session))) (\<lambda>expires_at.
     act_bind (act_ensure (\<not> (nz_token session = '''' \<or> \<not> is_safe_integer expires_at \<or>
       expires_at * 1000 \<le> later)) realtimeUnavailable) (\<lambda>_.
     act_bind (act_lift (toISOString (rt_host R) (expires_at * 1000))) (\<lambda>expiresAt.
     act_ok \<lparr>rz_expiresAt = expiresAt, rz_nakamaToken = nz_token session,
       rz_socketUrl = nk_socketUrl nakama\<rparr>)))))))"

definition realtime_createSession ::
  "'s realtime \<Rightarrow> active_session option \<Rightarrow> int \<Rightarrow> int \<Rightarrow> ('s, realtime_session) action" where
  "realtime_createSession R authPrincipal now later =
     (case authPrincipal of
        None \<Rightarrow> act_fail (ApiError 401 ''playable_session_required'')
      | Some a \<Rightarrow>
          act_bind (act_ensure (av_disclosureAcknowledged a)
            (ApiError 428 ''public_record_disclosure_required'')) (\<lambda>_.
          rt_createSession R \<lparr>bg_authSessionId = av_authSessionId a, bg_playerId = av_playerId a\<rparr>
            now later))"

text \<open>The route, with the guard in front of it.\<close>

definition realtime_route ::
  "'s auth_service \<Rightarrow> 's realtime \<Rightarrow> header \<Rightarrow> int \<Rightarrow> int \<Rightarrow> int \<Rightarrow> int \<Rightarrow>
   ('s, realtime_session) action" where
  "realtime_route S R authorization verifyAt findAt now later =
     act_bind (access_session_guard S authorization verifyAt findAt) (\<lambda>a.
     realtime_createSession R (Some a) now later)"

end
