(* ===== verification/Realtime_Properties.thy ===== *)
theory Realtime_Properties
  imports Realtime Auth_Properties
begin

text \<open>
  What the assertion for the game server is worth: it always fits the limit of Nakama, it names one
  player, one session, one moment and one nonce, and the route asks for a session only behind the
  guard and an acknowledged disclosure.
\<close>

section \<open>Base 36 and base64url\<close>

lemma char_of_inj: "m < 256 \<Longrightarrow> n < 256 \<Longrightarrow> char_of m = (char_of n :: char) \<longleftrightarrow> m = (n :: nat)"
  by (metis mod_less of_char_of)

lemma radix36_digit_inj: "m < 36 \<Longrightarrow> n < 36 \<Longrightarrow> radix36_digit m = radix36_digit n \<Longrightarrow> m = n"
  by (auto simp: radix36_digit_def char_of_inj split: if_splits)

lemma radix36_digit_sign: "n < 36 \<Longrightarrow> radix36_digit n \<noteq> CHR ''-''"
proof
  assume n: "n < 36" and "radix36_digit n = CHR ''-''"
  then have "of_char (radix36_digit n) = (45 :: nat)" by simp
  with n show False by (auto simp: radix36_digit_def split: if_splits)
qed

lemma radix36_not_Nil [simp]: "radix36 n \<noteq> []"
  by (subst radix36.simps) simp

lemma radix36_inj: "radix36 m = radix36 n \<Longrightarrow> m = n"
proof (induction m arbitrary: n rule: radix36.induct)
  case (1 m)
  show ?case
  proof (cases "m < 36")
    case True
    then show ?thesis
      using 1(2) by (cases "n < 36") (auto simp: radix36.simps [of m] radix36.simps [of n]
          dest: radix36_digit_inj sym [of "[]"])
  next
    case False
    with 1(2) have "\<not> n < 36" "radix36 (m div 36) = radix36 (n div 36)" "m mod 36 = n mod 36"
      by (auto simp: radix36.simps [of m] radix36.simps [of n] split: if_splits
          dest: radix36_digit_inj [rotated 2])
    then show ?thesis using 1(1) [OF False] div_mult_mod_eq by metis
  qed
qed

lemma radix36_length: "n < 36 ^ Suc k \<Longrightarrow> length (radix36 n) \<le> Suc k"
proof (induction k arbitrary: n)
  case 0
  then show ?case by (simp add: radix36.simps [of n])
next
  case (Suc k)
  show ?case
  proof (cases "n < 36")
    case True
    then show ?thesis by (simp add: radix36.simps [of n])
  next
    case False
    from Suc.prems have "n div 36 < 36 ^ Suc k" by (simp add: div_less_iff_less_mult)
    from Suc.IH [OF this] False show ?thesis by (simp add: radix36.simps [of n])
  qed
qed

lemma radix36_unsigned: "CHR ''-'' \<notin> set (radix36 n)"
proof (induction n rule: radix36.induct)
  case (1 n)
  then show ?case
    using radix36_digit_sign [of n] radix36_digit_sign [of "n mod 36"]
    by (subst radix36.simps) (auto simp: eq_commute)
qed

lemma signed36_inj: "signed36 m = signed36 n \<Longrightarrow> m = n"
  using radix36_unsigned [of "nat m"] radix36_unsigned [of "nat n"]
  by (auto simp: signed36_def split: if_splits dest!: radix36_inj) (metis list.set_intros(1))+

lemma signed36_length:
  assumes "\<bar>n\<bar> < 36 ^ Suc k"
  shows "length (signed36 n) \<le> Suc (Suc k)"
proof -
  from assms have "nat \<bar>n\<bar> < 36 ^ Suc k" by (simp add: nat_less_iff)
  from radix36_length [OF this] show ?thesis by (auto simp: signed36_def)
qed

lemma base64url_digit_inj:
  "m < 64 \<Longrightarrow> n < 64 \<Longrightarrow> base64url_digit m = base64url_digit n \<Longrightarrow> m = n"
  by (auto simp: base64url_digit_def char_of_inj split: if_splits)

lemma base64url_length: "length (base64url s) = (4 * length s + 2) div 3"
  by (induction s rule: base64url.induct) (auto simp: Let_def)

text \<open>The bytes, from the digits: texts of one length have one encoding each.\<close>

lemma of_char_less: "of_char c < (256 :: nat)"
  by (metis char_of_char mod_less_divisor of_char_of zero_less_numeral)

lemma of_char_inj: "of_char c = (of_char d :: nat) \<Longrightarrow> c = d"
  by simp

lemma digits_apart:
  "k * p + q = k * p' + q' \<Longrightarrow> q < k \<Longrightarrow> q' < k \<Longrightarrow> p = p' \<and> q = (q' :: nat)"
  by (metis add.commute add_cancel_right_left div_less div_mult_self2 mod_less mod_mult_self2
      nat_neq_iff not_less_zero)

lemma base64url_first:
  assumes "base64url_digit (x div 4) = base64url_digit (x' div 4)"
    and "base64url_digit (16 * (x mod 4) + y div 16) = base64url_digit (16 * (x' mod 4) + y' div 16)"
    and "x < 256" "x' < 256" "y < 256" "y' < 256"
  shows "x = x' \<and> y div 16 = y' div 16"
proof -
  have "x div 4 = x' div 4" using assms by (intro base64url_digit_inj) auto
  moreover have "16 * (x mod 4) + y div 16 = 16 * (x' mod 4) + y' div 16"
    using assms by (intro base64url_digit_inj) auto
  moreover have "y div 16 < 16" "y' div 16 < 16" using assms by auto
  ultimately have "x div 4 = x' div 4" "x mod 4 = x' mod 4 \<and> y div 16 = y' div 16"
    by (blast dest: digits_apart)+
  then show ?thesis by (metis div_mult_mod_eq)
qed

lemma base64url_second:
  assumes "y div 16 = y' div 16"
    and "base64url_digit (4 * (y mod 16) + z div 64) = base64url_digit (4 * (y' mod 16) + z' div 64)"
    and "y < 256" "y' < 256" "z < 256" "z' < 256"
  shows "y = y' \<and> z div 64 = z' div 64"
proof -
  have "4 * (y mod 16) + z div 64 = 4 * (y' mod 16) + z' div 64"
    using assms by (intro base64url_digit_inj) auto
  moreover have "z div 64 < 4" "z' div 64 < 4" using assms by auto
  ultimately have "y mod 16 = y' mod 16 \<and> z div 64 = z' div 64" by (blast dest: digits_apart)
  then show ?thesis using assms(1) by (metis div_mult_mod_eq)
qed

lemma base64url_third:
  assumes "z div 64 = z' div 64" and "base64url_digit (z mod 64) = base64url_digit (z' mod 64)"
  shows "z = z'"
proof -
  have "z mod 64 = z' mod 64" using assms(2) by (intro base64url_digit_inj) auto
  then show ?thesis using assms(1) by (metis div_mult_mod_eq)
qed

lemma base64url_inj: "length s = length t \<Longrightarrow> base64url s = base64url t \<Longrightarrow> s = t"
proof (induction s arbitrary: t rule: base64url.induct)
  case (1 a b c cs)
  then obtain a' b' c' cs' where t: "t = a' # b' # c' # cs'"
    by (metis length_Suc_conv)
  note same = 1(3) [unfolded t base64url.simps Let_def append_Cons append_Nil list.inject]
  from same base64url_first [of "of_char a" "of_char a'" "of_char b" "of_char b'"]
  have ab: "of_char a = (of_char a' :: nat)" "of_char b div 16 = (of_char b' div 16 :: nat)"
    by (simp_all add: of_char_less)
  from same base64url_second [OF ab(2), of "of_char c" "of_char c'"]
  have bc: "of_char b = (of_char b' :: nat)" "of_char c div 64 = (of_char c' div 64 :: nat)"
    by (simp_all add: of_char_less)
  from same base64url_third [OF bc(2)] have "of_char c = (of_char c' :: nat)" by simp
  moreover from same 1(1) [of "of_char a" "of_char b" "of_char c" cs'] 1(2) t have "cs = cs'" by simp
  ultimately show ?case using t ab bc by simp
next
  case (2 a b)
  then obtain a' b' where t: "t = [a', b']" by (metis length_0_conv length_Suc_conv)
  note same = 2(2) [unfolded t base64url.simps Let_def list.inject]
  from same base64url_first [of "of_char a" "of_char a'" "of_char b" "of_char b'"]
  have ab: "of_char a = (of_char a' :: nat)" "of_char b div 16 = (of_char b' div 16 :: nat)"
    by (simp_all add: of_char_less)
  from same base64url_second [OF ab(2), of 0 0] have "of_char b = (of_char b' :: nat)"
    by (simp add: of_char_less)
  with t ab show ?case by simp
next
  case (3 a)
  then obtain a' where t: "t = [a']" by (metis length_0_conv length_Suc_conv)
  note same = 3(2) [unfolded t base64url.simps Let_def list.inject]
  from same base64url_first [of "of_char a" "of_char a'" 0 0] have "of_char a = (of_char a' :: nat)"
    by (simp add: of_char_less)
  with t show ?case by simp
qed simp

section \<open>Canonical ids\<close>

text \<open>
  A text of a pattern whose classes are dropped or kept as a whole, and are one character when they
  are dropped, is known from what is kept.
\<close>

lemma filter_determines:
  assumes "match_seq ps s" and "match_seq ps t" and "filter k s = filter k t"
    and "\<forall>p \<in> set ps. (\<forall>c. p c \<longrightarrow> k c) \<or> (\<exists>d. \<not> k d \<and> (\<forall>c. p c \<longrightarrow> c = d))"
  shows "s = t"
  using assms
proof (induction ps s arbitrary: t rule: match_seq.induct)
  case (1 s)
  then show ?case by (cases t) auto
next
  case (3 p ps c cs)
  from 3(3) obtain d ds where t: "t = d # ds" by (cases t) auto
  from 3(2,3) t have p: "p c" "p d" and rest: "match_seq ps cs" "match_seq ps ds" by simp_all
  from 3(5) consider "\<forall>c. p c \<longrightarrow> k c" | e where "\<not> k e" "\<forall>c. p c \<longrightarrow> c = e" by auto
  then have "c = d \<and> filter k cs = filter k ds"
  proof cases
    case 1
    with p have "k c" "k d" by blast+
    with 3(4) t show ?thesis by simp
  next
    case 2
    with p have "c = e" "d = e" "\<not> k e" by blast+
    with 3(4) t show ?thesis by simp
  qed
  with 3(1) [OF rest] 3(5) t show ?case by simp
qed simp

lemma filter_length:
  assumes "match_seq ps s" and "\<forall>p \<in> set ps. (\<forall>c. p c \<longrightarrow> k c) \<or> (\<forall>c. p c \<longrightarrow> \<not> k c)"
  shows "length (filter k s) = length (filter (\<lambda>p. \<exists>c. p c \<and> k c) ps)"
  using assms by (induction ps s rule: match_seq.induct) auto

definition kept_char :: "char \<Rightarrow> bool" where
  "kept_char c \<longleftrightarrow> c \<noteq> CHR ''-''"

lemma kept_classes:
  "is_lower_hex c \<Longrightarrow> kept_char c" "is_one_of ''7'' c \<Longrightarrow> kept_char c"
  "is_one_of ''89ab'' c \<Longrightarrow> kept_char c" "is_one_of ''-'' c \<longleftrightarrow> \<not> kept_char c"
  by (auto simp: kept_char_def is_one_of_def is_lower_hex_def is_digit_def)

lemma kept_somewhere [simp]:
  "\<exists>c. is_lower_hex c \<and> kept_char c" "\<exists>c. is_one_of ''7'' c \<and> kept_char c"
  "\<exists>c. is_one_of ''89ab'' c \<and> kept_char c" "\<not> (is_one_of ''-'' c \<and> kept_char c)"
  by (rule exI [of _ "CHR ''0''"], code_simp) (auto simp: kept_classes is_one_of_def kept_char_def)

lemma uuid_classes:
  "p \<in> set uuid_v7_pattern \<Longrightarrow> p \<in> {is_lower_hex, is_one_of ''7'', is_one_of ''89ab'', is_one_of ''-''}"
  by (auto simp: uuid_v7_pattern_def)

lemma uuid_kept_length:
  assumes "isCanonicalUuidV7 v"
  shows "length (filter kept_char v) = 32"
proof -
  have "length (filter kept_char v) = length (filter (\<lambda>p. \<exists>c. p c \<and> kept_char c) uuid_v7_pattern)"
    using assms kept_classes
    by (intro filter_length) (auto simp: isCanonicalUuidV7_def dest!: uuid_classes)
  also have "\<dots> = 32" by (simp add: uuid_v7_pattern_def filter_replicate)
  finally show ?thesis .
qed

lemma uuid_kept_hex: "isCanonicalUuidV7 v \<Longrightarrow> list_all is_lower_hex (filter kept_char v)"
  using uuidV7_chars [of v]
  by (auto simp: isCanonicalUuidV7_def uuidV7Schema_def list_all_iff kept_char_def)

lemma uuid_kept_inj:
  assumes "isCanonicalUuidV7 v" and "isCanonicalUuidV7 w"
    and "filter kept_char v = filter kept_char w"
  shows "v = w"
proof (rule filter_determines)
  have dropped: "\<exists>d. \<not> kept_char d \<and> (\<forall>c. \<not> kept_char c \<longrightarrow> c = d)"
    by (simp add: kept_char_def)
  show "\<forall>p \<in> set uuid_v7_pattern.
    (\<forall>c. p c \<longrightarrow> kept_char c) \<or> (\<exists>d. \<not> kept_char d \<and> (\<forall>c. p c \<longrightarrow> c = d))"
  proof
    fix p assume "p \<in> set uuid_v7_pattern"
    then have "p = is_lower_hex \<or> p = is_one_of ''7'' \<or> p = is_one_of ''89ab'' \<or> p = is_one_of ''-''"
      using uuid_classes by blast
    then show "(\<forall>c. p c \<longrightarrow> kept_char c) \<or> (\<exists>d. \<not> kept_char d \<and> (\<forall>c. p c \<longrightarrow> c = d))"
      by (elim disjE) (simp_all add: kept_classes dropped)
  qed
qed (use assms in \<open>simp_all add: isCanonicalUuidV7_def\<close>)

text \<open>Hexadecimal digits, two to a byte.\<close>

lemma is_lower_hex_code:
  "is_lower_hex c \<longleftrightarrow> (\<exists>n. of_char c = n \<and> (48 \<le> n \<and> n \<le> 57 \<or> 97 \<le> n \<and> n \<le> (102 :: nat)))"
  by (auto simp: is_lower_hex_def is_digit_def less_eq_char_def)

lemma hex_nibble_code:
  "is_lower_hex c \<Longrightarrow> hex_nibble c = (if (of_char c :: nat) \<le> 57 then of_char c - 48 else of_char c - 87)"
  by (auto simp: is_lower_hex_code hex_nibble_def is_digit_def less_eq_char_def)

lemma hex_nibble_less: "is_lower_hex c \<Longrightarrow> hex_nibble c < 16"
  by (auto simp: hex_nibble_code) (auto simp: is_lower_hex_code)

lemma hex_nibble_inj:
  assumes "is_lower_hex c" and "is_lower_hex d" and "hex_nibble c = hex_nibble d"
  shows "c = d"
proof -
  from assms(1) obtain m where m: "of_char c = m" "48 \<le> m \<and> m \<le> 57 \<or> 97 \<le> m \<and> m \<le> (102 :: nat)"
    by (auto simp: is_lower_hex_code)
  from assms(2) obtain n where n: "of_char d = n" "48 \<le> n \<and> n \<le> 57 \<or> 97 \<le> n \<and> n \<le> (102 :: nat)"
    by (auto simp: is_lower_hex_code)
  from assms(3) m n have "m = n"
    by (auto simp: hex_nibble_code [OF assms(1)] hex_nibble_code [OF assms(2)] split: if_splits)
  with m(1) n(1) show ?thesis by (intro of_char_inj) simp
qed

lemma hex_bytes_length: "length (hex_bytes s) = length s div 2"
  by (induction s rule: hex_bytes.induct) auto

lemma hex_bytes_inj:
  assumes "list_all is_lower_hex s" and "list_all is_lower_hex t" and "length s = length t"
    and "even (length s)" and "hex_bytes s = hex_bytes t"
  shows "s = t"
  using assms
proof (induction s arbitrary: t rule: hex_bytes.induct)
  case (1 c d cs)
  from 1(4) obtain c' d' cs' where t: "t = c' # d' # cs'" by (metis length_Suc_conv)
  from 1(2,3) t have hex: "hex_nibble c < 16" "hex_nibble d < 16" "hex_nibble c' < 16" "hex_nibble d' < 16"
    by (auto intro: hex_nibble_less)
  from 1(6) t hex have "16 * hex_nibble c + hex_nibble d = 16 * hex_nibble c' + hex_nibble d'"
    by (simp add: char_of_inj)
  with hex have "hex_nibble c = hex_nibble c' \<and> hex_nibble d = hex_nibble d'" by (blast dest: digits_apart)
  with 1 t show ?case by (auto intro: hex_nibble_inj)
qed auto

lemma compactUuid_kept: "compactUuid v = base64url (hex_bytes (filter kept_char v))"
  unfolding compactUuid_def kept_char_def [abs_def] ..

lemma compactUuid_length: "isCanonicalUuidV7 v \<Longrightarrow> length (compactUuid v) = 22"
  using uuid_kept_length [of v]
  by (simp add: compactUuid_kept base64url_length hex_bytes_length)

lemma compactUuid_inj:
  assumes "isCanonicalUuidV7 v" and "isCanonicalUuidV7 w" and "compactUuid v = compactUuid w"
  shows "v = w"
proof -
  have "hex_bytes (filter kept_char v) = hex_bytes (filter kept_char w)"
    using assms(3) base64url_inj [of "hex_bytes (filter kept_char v)" "hex_bytes (filter kept_char w)"]
    by (simp add: hex_bytes_length compactUuid_kept uuid_kept_length [OF assms(1)]
        uuid_kept_length [OF assms(2)])
  note same = this
  have "filter kept_char v = filter kept_char w"
    by (rule hex_bytes_inj [OF uuid_kept_hex [OF assms(1)] uuid_kept_hex [OF assms(2)] _ _ same])
      (simp_all only: uuid_kept_length [OF assms(1)] uuid_kept_length [OF assms(2)], simp)
  then show ?thesis by (rule uuid_kept_inj [OF assms(1,2)])
qed

section \<open>The assertion\<close>

text \<open>A SHA-256 HMAC is 32 bytes, 43 digits of base64url.\<close>

definition hmac_sized :: "crypto \<Rightarrow> bool" where
  "hmac_sized K \<longleftrightarrow> (\<forall>key t. length (hmac_base64url K key t) = 43)"

lemma createBridgeAssertion_Inr:
  "createBridgeAssertion K p config now nonce = Inr a \<longleftrightarrow>
     isCanonicalUuidV7 (bg_playerId p) \<and> isCanonicalUuidV7 (bg_authSessionId p) \<and> length nonce = 16 \<and>
     length a \<le> 128 \<and>
     (let payload = bridge_payload p (now div 1000 + nk_assertionTtlSeconds config) nonce
      in a = payload @ ''.'' @ hmac_base64url K (nk_bridgeHmacKey config) payload)"
  by (auto simp: createBridgeAssertion_def Let_def ebind_eq_Inr)

lemma realtime_config_ttl:
  assumes "loadRealtimeConfig H K B env = Inr c" and "rl_nakama c = Some nakama"
  shows "5 \<le> nk_assertionTtlSeconds nakama \<and> nk_assertionTtlSeconds nakama \<le> 60"
proof -
  have bounded: "5 \<le> n \<and> n \<le> 60" if "parseBoundedInteger B raw 30 5 60 = Inr n" for raw n
    using that by (auto simp: parseBoundedInteger_def split: option.splits if_splits)
  from assms have "loadNakamaBridgeConfig H K B env (env_or env ''NODE_ENV'' ''development'') =
      Inr (Some nakama)"
    by (auto simp: loadRealtimeConfig_def Let_def ebind_eq_Inr)
  then obtain raw where "parseBoundedInteger B raw 30 5 60 = Inr (nk_assertionTtlSeconds nakama)"
    by (auto simp: loadNakamaBridgeConfig_def Let_def ebind_eq_Inr split: if_splits)
  then show ?thesis by (rule bounded)
qed

text \<open>
  With a configuration that loads, the assertion of canonical ids is always made: over the whole
  range of a JavaScript date it has at most 126 characters, so the limit of 128 is never what
  refuses a session.
\<close>

theorem bridge_assertion_fits:
  assumes "loadRealtimeConfig H K B env = Inr c" and "rl_nakama c = Some nakama" and "hmac_sized K"
    and "isCanonicalUuidV7 (bg_playerId p)" and "isCanonicalUuidV7 (bg_authSessionId p)"
    and "\<bar>now\<bar> \<le> 8640000000000000" and "length nonce = 16"
  shows "\<exists>a. createBridgeAssertion K p nakama now nonce = Inr a \<and> length a \<le> 126"
proof -
  let ?expiry = "now div 1000 + nk_assertionTtlSeconds nakama"
  from realtime_config_ttl [OF assms(1,2)] assms(6) have "\<bar>?expiry\<bar> < 36 ^ Suc 8"
    by (auto simp: abs_less_iff abs_le_iff)
  from signed36_length [OF this] have "length (bridge_payload p ?expiry nonce) \<le> 82"
    by (simp add: bridge_payload_def compactUuid_length assms base64url_length)
  with assms show ?thesis
    by (auto simp: createBridgeAssertion_Inr Let_def hmac_sized_def)
qed

text \<open>
  C38. An assertion means one thing: two that are equal name the same player, the same session, the
  same second of expiry and the same nonce.
\<close>

theorem bridge_assertion_unambiguous:
  assumes "createBridgeAssertion K p config now nonce = Inr a"
    and "createBridgeAssertion K p' config now' nonce' = Inr a" and "hmac_sized K"
  shows "p = p' \<and> now div 1000 = now' div 1000 \<and> nonce = nonce'"
proof -
  from assms(1) have one: "isCanonicalUuidV7 (bg_playerId p)" "isCanonicalUuidV7 (bg_authSessionId p)"
    "length nonce = 16" by (simp_all add: createBridgeAssertion_Inr)
  from assms(2) have two: "isCanonicalUuidV7 (bg_playerId p')" "isCanonicalUuidV7 (bg_authSessionId p')"
    "length nonce' = 16" by (simp_all add: createBridgeAssertion_Inr)
  let ?e = "now div 1000 + nk_assertionTtlSeconds config"
  let ?e' = "now' div 1000 + nk_assertionTtlSeconds config"
  from assms have same: "bridge_payload p ?e nonce = bridge_payload p' ?e' nonce'"
    by (auto simp: createBridgeAssertion_Inr Let_def hmac_sized_def append_eq_append_conv)
  then have ids: "compactUuid (bg_playerId p) = compactUuid (bg_playerId p')"
      "compactUuid (bg_authSessionId p) = compactUuid (bg_authSessionId p')"
    and rest: "signed36 ?e @ ''.'' @ base64url nonce = signed36 ?e' @ ''.'' @ base64url nonce'"
    by (simp_all add: bridge_payload_def compactUuid_length one two)
  from rest have "signed36 ?e = signed36 ?e'" and nonces: "base64url nonce = base64url nonce'"
    using one(3) two(3) by (auto simp: base64url_length append_eq_append_conv)
  from this(1) have "?e = ?e'" by (rule signed36_inj)
  moreover from nonces have "nonce = nonce'" using one(3) two(3) base64url_inj [of nonce nonce'] by simp
  moreover from compactUuid_inj [OF one(1) two(1) ids(1)] compactUuid_inj [OF one(2) two(2) ids(2)]
  have "p = p'" by simp
  ultimately show ?thesis by simp
qed

section \<open>The route\<close>

text \<open>The API's realtime service over a Nakama client whose every request is noted.\<close>

definition noting_client ::
  "(string \<Rightarrow> ('v, nakama_session) action) \<Rightarrow> string \<Rightarrow> ('v \<times> string list, nakama_session) action" where
  "noting_client client assertion =
     (\<lambda>(v, sent). let (r, v') = client assertion v in (r, (v', sent @ [assertion])))"

definition noted_realtime ::
  "('v \<times> string list) api \<Rightarrow> realtime_config \<Rightarrow> ('v, string) action \<Rightarrow>
   (string \<Rightarrow> ('v, nakama_session) action) \<Rightarrow> ('v \<times> string list) identity realtime" where
  "noted_realtime A config nonce client = \<lparr>rt_host = io_host (ap_options A), rt_crypto = ap_crypto A,
     rt_config = config, rt_client = Some (\<lambda>assertion. on_out (noting_client client assertion)),
     rt_nonce = on_out (act_fst nonce)\<rparr>"

lemma noting_client_sent:
  "noting_client client assertion u = (r, u') \<Longrightarrow> snd u' = snd u @ [assertion]"
  by (cases u) (auto simp: noting_client_def Let_def split: prod.splits)

lemma on_out_sent:
  assumes "on_out m w = (r, w')" and "\<And>u r u'. m u = (r, u') \<Longrightarrow> snd u' = f (snd u)"
  shows "it_db w' = it_db w \<and> snd (it_out w') = f (snd (it_out w))"
proof -
  from assms(1) obtain u where u: "m (it_out w) = (r, u)" "w' = w\<lparr>it_out := u\<rparr>"
    unfolding on_out_def by (rule act_onE)
  from assms(2) [OF u(1)] u(2) show ?thesis by simp
qed

lemma transaction_out:
  "preserves (\<lambda>w. it_out w = u) work \<Longrightarrow> preserves (\<lambda>w. it_out w = u) (identity_transaction work)"
  unfolding preserves_def
  by (auto simp: identity_transaction_unfold split: prod.splits sum.splits) (metis identity.select_convs(2)
      identity.update_convs(3) snd_conv identity.surjective)+

lemma guard_out:
  assumes "access_session_guard (api_service A) authorization verifyAt findAt w = (r, w')"
  shows "it_out w' = it_out w"
proof -
  have found: "preserves (\<lambda>w. it_out w = u) (pg_findActiveSession P i t)" for u :: 'a and P i t
    unfolding pg_findActiveSession_def on_pool_def
    by (intro act_rules transaction_out) (auto simp: preserves_def identity_read_def act_get_def)
  have "preserves (\<lambda>v. it_out v = it_out w) (access_session_guard (api_service A) authorization verifyAt findAt)"
    unfolding access_session_guard_def by (auto intro!: act_rules found)
  from preservesD [OF this _ assms] show ?thesis by simp
qed

lemma rt_asks:
  fixes A :: "('v \<times> string list) api"
  assumes "rt_createSession (noted_realtime A config nonce client) p now later w = (r, w')"
  shows "it_db w' = it_db w \<and> (snd (it_out w') = snd (it_out w) \<and> isl r \<or>
    (\<exists>n nakama a. rl_nakama config = Some nakama \<and>
       createBridgeAssertion (ap_crypto A) p nakama now n = Inr a \<and>
       snd (it_out w') = snd (it_out w) @ [a]))"
proof -
  have nonce: "it_db v' = it_db v \<and> snd (it_out v') = snd (it_out v)" if "on_out (act_fst nonce) v = (z, v')"
    for v z v'
    by (rule on_out_sent [OF that]) (auto simp: act_fst_def elim!: act_onE)
  have client: "it_db v' = it_db v \<and> snd (it_out v') = snd (it_out v) @ [a]"
    if "on_out (noting_client client a) v = (z, v')" for a v z v'
    by (rule on_out_sent [OF that]) (rule noting_client_sent)
  show ?thesis
  proof (cases "rl_nakama config")
    case None
    with assms show ?thesis
      by (auto simp: rt_createSession_def noted_realtime_def requireNakama_def act_bind_basic act_run)
  next
    case (Some nakama)
    let ?ask = "\<lambda>a. act_catch (on_out (noting_client client a)) (\<lambda>_. act_fail realtimeUnavailable)"
    define answer :: "nakama_session \<Rightarrow> (('v \<times> string list) identity, realtime_session) action"
      where "answer session =
      act_bind (act_lift (of_option realtimeUnavailable (nz_expires_at session))) (\<lambda>expires_at.
      act_bind (act_ensure (\<not> (nz_token session = '''' \<or> \<not> is_safe_integer expires_at \<or>
        expires_at * 1000 \<le> later)) realtimeUnavailable) (\<lambda>_.
      act_bind (act_lift (toISOString (io_host (ap_options A)) (expires_at * 1000))) (\<lambda>expiresAt.
      act_ok \<lparr>rz_expiresAt = expiresAt, rz_nakamaToken = nz_token session,
        rz_socketUrl = nk_socketUrl nakama\<rparr>)))" for session
    have answer: "v' = v" if "answer session v = (z, v')" for session z v v'
    proof -
      have "preserves (\<lambda>u. u = v) (answer session)"
        unfolding answer_def by (intro act_rules)
      from preservesD [OF this _ that] show ?thesis by simp
    qed
    from assms Some have "act_bind (on_out (act_fst nonce)) (\<lambda>n.
        act_bind (act_lift (createBridgeAssertion (ap_crypto A) p nakama now n)) (\<lambda>a.
        act_bind (?ask a) answer)) w = (r, w')"
      by (simp add: rt_createSession_def noted_realtime_def requireNakama_def act_bind_basic
          answer_def [abs_def])
    then show ?thesis
    proof (cases rule: act_bindE)
      case (fails e)
      with nonce [OF fails(1)] show ?thesis by simp
    next
      case (goes n v)
      note drawn = nonce [OF goes(1)]
      show ?thesis
      proof (cases "createBridgeAssertion (ap_crypto A) p nakama now n")
        case (Inl e)
        with goes(2) drawn show ?thesis by (auto simp: act_bind_basic act_run)
      next
        case (Inr a)
        with goes(2) have "act_bind (?ask a) answer v = (r, w')" by (simp add: act_bind_basic)
        then obtain z where "on_out (noting_client client a) v = (z, w')"
        proof (cases rule: act_bindE)
          case (fails e)
          from fails(1) that show ?thesis by (auto elim!: act_catchE simp: act_run)
        next
          case (goes session v')
          from goes(1) answer [OF goes(2)] that show ?thesis by (auto elim!: act_catchE simp: act_run)
        qed
        from client [OF this] drawn Some Inr show ?thesis by auto
      qed
    qed
  qed
qed

text \<open>
  C11. The game server is asked for a session at most once by a request, and only when the guard has
  admitted it and its player has acknowledged a disclosure in effect: then with an assertion of the
  session of the token, which is in the table, open, unexpired and of that player. A request that
  is refused before asks nothing.
\<close>

theorem realtime_behind_disclosure:
  assumes "realtime_route (api_service A) (noted_realtime A config nonce client) authorization
    verifyAt findAt now later w = (r, w')"
  shows "snd (it_out w') = snd (it_out w) \<and> isl r \<or>
    (\<exists>s \<in> set (db_sessions (it_db w)). is_open s \<and> findAt < as_expires_at s \<and>
       disclosureAcknowledged (it_db w) (as_player_id s) findAt \<and>
       (\<exists>n nakama a. rl_nakama config = Some nakama \<and>
          createBridgeAssertion (ap_crypto A)
            \<lparr>bg_authSessionId = as_id s, bg_playerId = as_player_id s\<rparr> nakama now n = Inr a \<and>
          snd (it_out w') = snd (it_out w) @ [a]))"
  using assms unfolding realtime_route_def
proof (cases rule: act_bindE)
  case (fails e)
  then show ?thesis using guard_out [OF fails(1)] by simp
next
  case (goes a v)
  from goes(1) obtain token where
    "pg_findActiveSession (ap_options A) (av_authSessionId a) findAt w = (Inr (Some a), v)"
    by (rule guardE)
  from session_found [OF this] obtain s where s: "s \<in> set (db_sessions (it_db w))" "is_open s"
      "findAt < as_expires_at s" "as_id s = av_authSessionId a" "as_player_id s = av_playerId a"
    and ack: "av_disclosureAcknowledged a = disclosureAcknowledged (it_db w) (as_player_id s) findAt"
    by (auto simp: mapSession_def mapPlayer_def)
  have v: "it_out v = it_out w" by (rule guard_out [OF goes(1)])
  show ?thesis
  proof (cases "av_disclosureAcknowledged a")
    case True
    with goes(2) have "rt_createSession (noted_realtime A config nonce client)
        \<lparr>bg_authSessionId = as_id s, bg_playerId = as_player_id s\<rparr> now later v = (r, w')"
      by (simp add: realtime_createSession_def act_bind_basic s)
    then have "snd (it_out w') = snd (it_out w) \<and> isl r \<or>
        (\<exists>n nakama b. rl_nakama config = Some nakama \<and>
          createBridgeAssertion (ap_crypto A)
            \<lparr>bg_authSessionId = as_id s, bg_playerId = as_player_id s\<rparr> nakama now n = Inr b \<and>
          snd (it_out w') = snd (it_out w) @ [b])"
      unfolding v [symmetric] by (rule conjunct2 [OF rt_asks])
    moreover have "disclosureAcknowledged (it_db w) (as_player_id s) findAt"
      using ack True by simp
    ultimately show ?thesis using s(1-3) by blast
  next
    case False
    with goes(2) v show ?thesis by (auto simp: realtime_createSession_def act_bind_basic act_run)
  qed
qed

end
