(* ===== verification/Api_Examples.thy ===== *)
theory Api_Examples
  imports Auth_Examples Auth_Controller Realtime_Properties
begin

text \<open>
  The small API of \<open>Auth_Examples\<close> with its routes, and a game server behind it: on these the
  properties of logging out and of the realtime sessions are seen to hold.
\<close>

section \<open>Logging out\<close>

definition fixture_header :: header where
  "fixture_header = One_Header (''Bearer '' @ fixture_token)"

definition after_logout_route :: "(exn + unit) \<times> nat identity" where
  "after_logout_route = route_revokeSession (api_service fixture_api) fixture_header 6000 6000 6000 fixture_world"

lemma logout_route_final_witness:
  "\<not> isl (fst (access_session_guard (api_service fixture_api) fixture_header 6000 6000 fixture_world)) \<and>
   isl (fst (access_session_guard (api_service fixture_api) fixture_header 6000 6000 (snd after_logout_route)))"
proof -
  have "fst after_logout_route = Inr ()" by code_simp
  then have "after_logout_route = (Inr (), snd after_logout_route)" by (metis prod.collapse)
  from logout_route_final [OF fixture_sound this [unfolded after_logout_route_def] identity_trace.Start]
  have "isl (fst (access_session_guard (api_service fixture_api) fixture_header 6000 6000
      (snd after_logout_route)))" by (simp add: after_logout_route_def)
  moreover have "\<not> isl (fst (access_session_guard (api_service fixture_api) fixture_header 6000 6000
      fixture_world))"
    by code_simp
  ultimately show ?thesis by blast
qed

section \<open>Assertions\<close>

definition bridge_url :: "string \<Rightarrow> url option" where
  "bridge_url s =
     (if s = ''wss://nakama.example/ws''
      then Some \<lparr>url_protocol = ''wss:'', url_username = [], url_password = [],
        url_hostname = ''nakama.example'', url_pathname = ''/ws'', url_search = [], url_hash = [],
        url_href = s\<rparr>
      else fixture_url s)"

definition bridge_host :: host where
  "bridge_host = fixture_token_host\<lparr>parse_url := bridge_url\<rparr>"

definition bridge_crypto :: crypto where
  "bridge_crypto = fixture_crypto\<lparr>bytes_of_base64url := (\<lambda>s. replicate 33 (char_of (0 :: nat))),
     hmac_base64url := (\<lambda>key t. replicate 43 (CHR ''m''))\<rparr>"

definition bridge_environment :: environment where
  "bridge_environment name = map_of
     [(''NODE_ENV'', ''production''), (''NAKAMA_BRIDGE_HMAC_KEY'', replicate 44 (CHR ''A'')),
      (''NAKAMA_HTTP_URL'', ''https://nakama.example/''), (''NAKAMA_SERVER_KEY'', ''server''),
      (''NAKAMA_SOCKET_URL'', ''wss://nakama.example/ws'')] name"

definition bridge_nakama :: nakama_config where
  "bridge_nakama = \<lparr>nk_assertionTtlSeconds = 30, nk_bridgeHmacKey = replicate 33 (char_of (0 :: nat)),
     nk_httpUrl = ''https://nakama.example/'', nk_requestTimeoutMs = 5000, nk_serverKey = ''server'',
     nk_socketUrl = ''wss://nakama.example/ws''\<rparr>"

definition bridge_config :: realtime_config where
  "bridge_config = \<lparr>rl_nakama = Some bridge_nakama, rl_nodeEnvironment = ''production''\<rparr>"

lemma bridge_loads:
  "loadRealtimeConfig bridge_host bridge_crypto (\<lambda>s. None) bridge_environment = Inr bridge_config"
  by code_simp

lemma bridge_sized: "hmac_sized bridge_crypto"
  by (simp add: hmac_sized_def bridge_crypto_def)

definition fixture_bridge :: bridge_principal where
  "fixture_bridge = \<lparr>bg_authSessionId = fixture_session, bg_playerId = fixture_player\<rparr>"

lemma fixture_bridge_canonical:
  "isCanonicalUuidV7 (bg_playerId fixture_bridge)" "isCanonicalUuidV7 (bg_authSessionId fixture_bridge)"
  by code_simp+

definition bridge_assertion :: "string \<Rightarrow> exn + string" where
  "bridge_assertion nonce = createBridgeAssertion bridge_crypto fixture_bridge bridge_nakama 6000 nonce"

lemma bridge_assertion_fits_witness:
  "\<exists>a. bridge_assertion (replicate 16 (CHR ''n'')) = Inr a \<and> length a \<le> 126"
  unfolding bridge_assertion_def
  by (rule bridge_assertion_fits [OF bridge_loads _ bridge_sized fixture_bridge_canonical])
    (simp_all add: bridge_config_def)

lemma bridge_assertion_made:
  assumes "length nonce = 16"
  obtains a where "bridge_assertion nonce = Inr a"
proof -
  have "length a \<le> 128" if "a = bridge_payload fixture_bridge 36 nonce @ ''.'' @ replicate 43 (CHR ''m'')"
    for a :: string
    using that assms compactUuid_length [OF fixture_bridge_canonical(1)]
      compactUuid_length [OF fixture_bridge_canonical(2)] signed36_length [of 36 1]
    by (simp add: bridge_payload_def base64url_length)
  then have "bridge_assertion nonce =
      Inr (bridge_payload fixture_bridge 36 nonce @ ''.'' @ replicate 43 (CHR ''m''))"
    using assms fixture_bridge_canonical
    by (simp add: bridge_assertion_def createBridgeAssertion_Inr bridge_nakama_def bridge_crypto_def Let_def)
  then show ?thesis by (rule that)
qed

lemma bridge_assertion_unambiguous_witness:
  "bridge_assertion (replicate 16 (CHR ''n'')) \<noteq> bridge_assertion (replicate 16 (CHR ''m''))"
proof
  assume same: "bridge_assertion (replicate 16 (CHR ''n'')) = bridge_assertion (replicate 16 (CHR ''m''))"
  obtain a where a: "bridge_assertion (replicate 16 (CHR ''n'')) = Inr a"
    by (rule bridge_assertion_made [of "replicate 16 (CHR ''n'')"]) simp
  with same have "bridge_assertion (replicate 16 (CHR ''m'')) = Inr a" by simp
  from bridge_assertion_unambiguous [OF a [unfolded bridge_assertion_def]
      this [unfolded bridge_assertion_def] bridge_sized]
  show False by simp
qed

section \<open>Realtime sessions\<close>

definition noted_api :: "(nat \<times> string list) api" where
  "noted_api = \<lparr>ap_options = \<lparr>io_configured = True, io_host = fixture_token_host,
       io_uuid = (\<lambda>(n, t). (fixture_id n, (n + 1, t)))\<rparr>,
     ap_crypto = fixture_crypto, ap_config = fixture_config,
     ap_fetch = vf_fetch (fixture_verifier fixture_token_host),
     ap_recover = vf_recover (fixture_verifier fixture_token_host),
     ap_google = \<lparr>gl_getToken = (\<lambda>g input. act_ok None), gl_verifyIdToken = (\<lambda>g token. act_ok None)\<rparr>,
     ap_random_base64url = (\<lambda>k (n, t). (''random-'' @ nat_text n, (n + 1, t)))\<rparr>"

definition noted_world :: "identity_db \<Rightarrow> (nat \<times> string list) identity" where
  "noted_world db = \<lparr>it_db = db, it_out = (0, []), it_faults = []\<rparr>"

definition fixture_nakama :: "string \<Rightarrow> (nat, nakama_session) action" where
  "fixture_nakama assertion = act_ok \<lparr>nz_expires_at = Some 3600, nz_token = ''nakama''\<rparr>"

definition realtime_request ::
  "identity_db \<Rightarrow> (exn + realtime_session) \<times> (nat \<times> string list) identity" where
  "realtime_request db = realtime_route (api_service noted_api)
     (noted_realtime noted_api bridge_config (act_ok (replicate 16 (CHR ''n''))) fixture_nakama)
     fixture_header 6000 6000 6000 6000 (noted_world db)"

lemma fixture_bridge_answer:
  obtains a where "createBridgeAssertion fixture_crypto fixture_bridge bridge_nakama 6000
    (replicate 16 (CHR ''n'')) = Inr a"
proof -
  let ?payload = "bridge_payload fixture_bridge 36 (replicate 16 (CHR ''n''))"
  have digest: "length (fixture_digest_of key t) \<le> 34" for key t
    by (simp add: fixture_digest_of_def)
  have "length (?payload @ ''.'' @ hmac_base64url fixture_crypto key t) \<le> 128" for key t
    using digest [of key t] signed36_length [of 36 1] compactUuid_length [OF fixture_bridge_canonical(1)]
      compactUuid_length [OF fixture_bridge_canonical(2)]
    by (simp add: bridge_payload_def base64url_length fixture_crypto_def)
  then have "createBridgeAssertion fixture_crypto fixture_bridge bridge_nakama 6000
      (replicate 16 (CHR ''n'')) =
      Inr (?payload @ ''.'' @ hmac_base64url fixture_crypto (nk_bridgeHmacKey bridge_nakama) ?payload)"
    using fixture_bridge_canonical
    by (simp add: createBridgeAssertion_Inr Let_def) (simp add: bridge_nakama_def)
  then show ?thesis by (rule that)
qed

text \<open>The acknowledged player is served, the same player before the acknowledgment is not.\<close>

lemma realtime_behind_disclosure_witness:
  "length (snd (it_out (snd (realtime_request (it_db fixture_acknowledged))))) = 1 \<and>
   disclosureAcknowledged (it_db fixture_acknowledged) fixture_player 6000 \<and>
   snd (it_out (snd (realtime_request fixture_identity_db))) = []"
proof -
  let ?db = "it_db fixture_acknowledged"
  have run: "realtime_request db = (fst (realtime_request db), snd (realtime_request db))" for db
    by simp
  have guard: "access_session_guard (api_service noted_api) fixture_header 6000 6000 (noted_world ?db) =
      (Inr (fixture_admitted\<lparr>av_disclosureAcknowledged := True\<rparr>), noted_world ?db)"
    by code_simp
  have principal: "\<lparr>bg_authSessionId = av_authSessionId fixture_admitted,
      bg_playerId = av_playerId fixture_admitted\<rparr> = fixture_bridge"
    by (simp add: fixture_admitted_def fixture_bridge_def)
  obtain a where "createBridgeAssertion fixture_crypto fixture_bridge bridge_nakama 6000
    (replicate 16 (CHR ''n'')) = Inr a" by (rule fixture_bridge_answer)
  note answer = this
  have nonce: "on_out (act_fst (act_ok (replicate 16 (CHR ''n'')))) (noted_world ?db) =
      (Inr (replicate 16 (CHR ''n'')), noted_world ?db)"
    by (simp add: on_out_def act_fst_def act_on_def act_ok_def noted_world_def)
  have client: "on_out (noting_client fixture_nakama a) (noted_world ?db) =
      (Inr \<lparr>nz_expires_at = Some 3600, nz_token = ''nakama''\<rparr>,
       (noted_world ?db)\<lparr>it_out := (0, [a])\<rparr>)"
    by (simp add: on_out_def act_on_def noting_client_def fixture_nakama_def act_ok_def noted_world_def)
  have fields: "ap_options noted_api = \<lparr>io_configured = True, io_host = fixture_token_host,
      io_uuid = (\<lambda>(n, t). (fixture_id n, (n + 1, t)))\<rparr>" "ap_crypto noted_api = fixture_crypto"
    by (simp_all add: noted_api_def)
  have "rt_createSession (noted_realtime noted_api bridge_config (act_ok (replicate 16 (CHR ''n'')))
      fixture_nakama) fixture_bridge 6000 6000 (noted_world ?db) =
    (Inr \<lparr>rz_expiresAt = to_iso_string fixture_token_host 3600000, rz_nakamaToken = ''nakama'',
       rz_socketUrl = nk_socketUrl bridge_nakama\<rparr>, (noted_world ?db)\<lparr>it_out := (0, [a])\<rparr>)"
    using answer nonce client
    by (simp add: rt_createSession_def noted_realtime_def requireNakama_def bridge_config_def fields
        act_bind_basic act_bind_Inr act_catch_def act_ok_def toISOString_def
        ensure_def is_safe_integer_def)
  with guard principal have served: "\<not> isl (fst (realtime_request ?db))"
    by (simp add: realtime_request_def realtime_route_def act_bind_Inr realtime_createSession_def
        act_bind_basic)
  from realtime_behind_disclosure [OF run [of ?db, unfolded realtime_request_def]] served
  have "length (snd (it_out (snd (realtime_request ?db)))) = 1"
    by (auto simp: realtime_request_def noted_world_def)
  moreover have "disclosureAcknowledged ?db fixture_player 6000" by code_simp
  moreover have "\<not> disclosureAcknowledged fixture_identity_db (as_player_id s) 6000" for s
    by (simp add: disclosureAcknowledged_def fixture_identity_db_def)
  with realtime_behind_disclosure [OF run [of fixture_identity_db, unfolded realtime_request_def]]
  have "snd (it_out (snd (realtime_request fixture_identity_db))) = []"
    by (auto simp: realtime_request_def noted_world_def)
  ultimately show ?thesis by blast
qed

end
