(* ===== verification/Provisioning.thy ===== *)
theory Provisioning
  imports Auth_Repository
begin

text \<open>
  Accounts for Google players: the coordinator \<open>provisioning/provisioning.service.ts\<close> over its four
  ports (\<open>provisioning.types.ts\<close>), and its repository on the identity tables
  (\<open>postgres-provisioning.repository.ts\<close>). The coordinator asks a custody provider for keys, a
  sponsor for an account and for resource credits, and the chain whether all of it is there, and
  notes each step in the job's row, so that a job can be taken up again where it stopped.
\<close>

section \<open>Jobs and ports\<close>

record provisioning_job =
  pj_externalIdentityId :: string
  pj_id :: string
  pj_idempotencyKey :: string
  pj_requestedHiveUsername :: string
  pj_sponsorHiveAccount :: string
  pj_sponsorPolicyVersion :: string
  pj_sponsorProgram :: string
  pj_state :: provisioning_state

record key_reference =
  kr_authorityRole :: key_role
  kr_hivePublicKey :: string
  kr_providerKeyReference :: string

text \<open>\<open>Record<HiveAuthorityRole, string>\<close>, as its entries.\<close>

type_synonym role_keys = "(key_role \<times> string) list"

record 's provisioning_repository =
  getJobForUpdate :: "string \<Rightarrow> ('s, provisioning_job option) action"
  getKeys :: "string \<Rightarrow> ('s, key_reference list) action"
  saveKeys :: "string \<Rightarrow> key_reference list \<Rightarrow> int \<Rightarrow> ('s, unit) action"
  markAccountCreationPending :: "string \<Rightarrow> string \<Rightarrow> int \<Rightarrow> ('s, unit) action"
  markAccountCreated :: "string \<Rightarrow> string \<Rightarrow> int \<Rightarrow> ('s, unit) action"
  markRcDelegationPending :: "string \<Rightarrow> int \<Rightarrow> ('s, unit) action"
  markRcDelegated :: "string \<Rightarrow> string \<Rightarrow> int \<Rightarrow> ('s, unit) action"
  markReady :: "string \<Rightarrow> int \<Rightarrow> ('s, unit) action"
  markFailure :: "string \<Rightarrow> string \<Rightarrow> int \<Rightarrow> ('s, unit) action"

record keys_request =
  kq_idempotencyKey :: string
  kq_provisioningId :: string
  kq_roles :: "key_role list"

record account_request =
  aq_accountCreationMethod :: string
  aq_idempotencyKey :: string
  aq_keys :: role_keys
  aq_policyVersion :: string
  aq_sponsorHiveAccount :: string
  aq_username :: string

record account_answer =
  aa_requestReference :: string
  aa_transactionId :: string

record credits_request =
  cq_idempotencyKey :: string
  cq_policyVersion :: string
  cq_sponsorHiveAccount :: string
  cq_username :: string

record ready_request =
  yq_expectedKeys :: role_keys
  yq_sponsorHiveAccount :: string
  yq_username :: string

record ready_answer =
  ya_accountIrreversible :: bool
  ya_authoritiesMatch :: bool
  ya_initialResourceCreditsReady :: bool

text \<open>\<open>delegateInitialResourceCredits\<close> answers with the delegation reference.\<close>

record 's provisioning_ports =
  pp_generateAuthorityKeys :: "keys_request \<Rightarrow> ('s, key_reference list) action"
  pp_createClaimedAccount :: "account_request \<Rightarrow> ('s, account_answer) action"
  pp_delegateInitialResourceCredits :: "credits_request \<Rightarrow> ('s, string) action"
  pp_verifyReady :: "ready_request \<Rightarrow> ('s, ready_answer) action"

section \<open>The coordinator\<close>

definition authorityRoles :: "key_role list" where
  "authorityRoles = [Owner_Key, Active_Key, Posting_Key, Memo_Key]"

abbreviation provisioningError :: exn where
  "provisioningError \<equiv> OtherError ''Error''"

text \<open>The first loop of \<open>keyMap\<close>.\<close>

fun key_entries :: "role_keys \<Rightarrow> key_reference list \<Rightarrow> exn + role_keys" where
  "key_entries entries [] = Inr entries"
| "key_entries entries (k # ks) =
     (if map_of entries (kr_authorityRole k) \<noteq> None \<or> kr_hivePublicKey k = '''' \<or>
         kr_providerKeyReference k = ''''
      then Inl provisioningError
      else key_entries (entries @ [(kr_authorityRole k, kr_hivePublicKey k)]) ks)"

definition keyMap :: "key_reference list \<Rightarrow> exn + role_keys" where
  "keyMap keys =
     ebind (key_entries [] keys) (\<lambda>entries.
     ebind (ensure (list_all (\<lambda>role. map_of entries role \<noteq> None) authorityRoles) provisioningError)
       (\<lambda>_. Inr entries))"

definition ensureKeys ::
  "'s provisioning_repository \<Rightarrow> 's provisioning_ports \<Rightarrow> provisioning_job \<Rightarrow> int \<Rightarrow>
   ('s, key_reference list) action" where
  "ensureKeys R S job now =
     act_bind (getKeys R (pj_id job)) (\<lambda>existing.
     if length existing = length authorityRoles
     then act_bind (act_lift (keyMap existing)) (\<lambda>_. act_ok existing)
     else
       act_bind (act_ensure (length existing = 0) provisioningError) (\<lambda>_.
       act_bind (pp_generateAuthorityKeys S \<lparr>kq_idempotencyKey = pj_idempotencyKey job @ '':keys'',
         kq_provisioningId = pj_id job, kq_roles = authorityRoles\<rparr>) (\<lambda>generated.
       act_bind (act_lift (keyMap generated)) (\<lambda>_.
       act_bind (saveKeys R (pj_id job) generated now) (\<lambda>_. act_ok generated)))))"

definition account_request_of :: "provisioning_job \<Rightarrow> role_keys \<Rightarrow> account_request" where
  "account_request_of job keys = \<lparr>
     aq_accountCreationMethod = ''claim_account_create_claimed_account'',
     aq_idempotencyKey = pj_idempotencyKey job @ '':account'', aq_keys = keys,
     aq_policyVersion = pj_sponsorPolicyVersion job,
     aq_sponsorHiveAccount = pj_sponsorHiveAccount job,
     aq_username = pj_requestedHiveUsername job\<rparr>"

definition credits_request_of :: "provisioning_job \<Rightarrow> credits_request" where
  "credits_request_of job = \<lparr>cq_idempotencyKey = pj_idempotencyKey job @ '':initial-rc'',
     cq_policyVersion = pj_sponsorPolicyVersion job,
     cq_sponsorHiveAccount = pj_sponsorHiveAccount job,
     cq_username = pj_requestedHiveUsername job\<rparr>"

definition ready_request_of :: "provisioning_job \<Rightarrow> role_keys \<Rightarrow> ready_request" where
  "ready_request_of job keys = \<lparr>yq_expectedKeys = keys,
     yq_sponsorHiveAccount = pj_sponsorHiveAccount job,
     yq_username = pj_requestedHiveUsername job\<rparr>"

text \<open>
  The states are those the job had when it was read: the account is created unless the job had got
  past that, the credits are delegated unless they were.
\<close>

definition create_account ::
  "'s provisioning_repository \<Rightarrow> 's provisioning_ports \<Rightarrow> provisioning_job \<Rightarrow> role_keys \<Rightarrow> int \<Rightarrow>
   ('s, unit) action" where
  "create_account R S job keys now =
     act_bind (pp_createClaimedAccount S (account_request_of job keys)) (\<lambda>account.
     act_bind (markAccountCreationPending R (pj_id job) (aa_requestReference account) now) (\<lambda>_.
     act_bind (pp_verifyReady S (ready_request_of job keys)) (\<lambda>v.
     act_bind (act_ensure (\<not> (\<not> ya_accountIrreversible v \<or> \<not> ya_authoritiesMatch v))
       (RetryableProvisioningError ''hive_account_confirmation_pending'')) (\<lambda>_.
     markAccountCreated R (pj_id job) (aa_transactionId account) now))))"

definition delegate_credits ::
  "'s provisioning_repository \<Rightarrow> 's provisioning_ports \<Rightarrow> provisioning_job \<Rightarrow> int \<Rightarrow> ('s, unit) action" where
  "delegate_credits R S job now =
     act_bind (markRcDelegationPending R (pj_id job) now) (\<lambda>_.
     act_bind (pp_delegateInitialResourceCredits S (credits_request_of job)) (\<lambda>delegationReference.
     markRcDelegated R (pj_id job) delegationReference now))"

definition provision_with ::
  "'s provisioning_repository \<Rightarrow> 's provisioning_ports \<Rightarrow> provisioning_job \<Rightarrow> role_keys \<Rightarrow> int \<Rightarrow>
   ('s, provisioning_job) action" where
  "provision_with R S job keys now =
     act_bind (if pj_state job \<in> {Username_Confirmed, Keys_Ready, Account_Creation_Pending, Retryable_Failed}
       then create_account R S job keys now else act_ok ()) (\<lambda>_.
     act_bind (if pj_state job \<noteq> Rc_Delegated then delegate_credits R S job now else act_ok ()) (\<lambda>_.
     act_bind (pp_verifyReady S (ready_request_of job keys)) (\<lambda>v.
     act_bind (act_ensure (\<not> (\<not> ya_accountIrreversible v \<or> \<not> ya_authoritiesMatch v \<or>
         \<not> ya_initialResourceCreditsReady v))
       (RetryableProvisioningError ''hive_confirmation_pending'')) (\<lambda>_.
     act_bind (markReady R (pj_id job) now) (\<lambda>_.
     act_ok (job\<lparr>pj_state := Provisioning_Ready\<rparr>))))))"

definition provision ::
  "'s provisioning_repository \<Rightarrow> 's provisioning_ports \<Rightarrow> provisioning_job \<Rightarrow> int \<Rightarrow>
   ('s, provisioning_job) action" where
  "provision R S job now =
     act_bind (ensureKeys R S job now) (\<lambda>keyReferences.
     act_bind (act_lift (keyMap keyReferences)) (\<lambda>keys. provision_with R S job keys now))"

definition safe_code :: "exn \<Rightarrow> string" where
  "safe_code error =
     (case error of RetryableProvisioningError code \<Rightarrow> code
      | _ \<Rightarrow> ''provisioning_provider_unavailable'')"

definition process_job ::
  "'s provisioning_repository \<Rightarrow> 's provisioning_ports \<Rightarrow> string \<Rightarrow> int \<Rightarrow> ('s, provisioning_job) action"
where
  "process_job R S provisioningId now =
     act_bind (getJobForUpdate R provisioningId) (\<lambda>found.
     case found of
       None \<Rightarrow> act_fail provisioningError
     | Some job \<Rightarrow>
         if pj_state job = Provisioning_Ready \<or> pj_state job = Terminal_Failed then act_ok job
         else act_catch (provision R S job now) (\<lambda>error.
           act_bind (markFailure R (pj_id job) (safe_code error) now) (\<lambda>_. act_fail error)))"

end
