(* ===== verification/Provisioning_Store.thy ===== *)
theory Provisioning_Store
  imports Provisioning
begin

text \<open>
  The coordinator's repository on the identity tables
  (\<open>provisioning/postgres-provisioning.repository.ts\<close>). An update names the states it may leave, so
  it changes nothing when the job is in another one; how many rows it changed is not looked at.
\<close>

section \<open>Statements\<close>

text \<open>Rows of which no two conflict.\<close>

fun apart :: "('a \<Rightarrow> 'a \<Rightarrow> bool) \<Rightarrow> 'a list \<Rightarrow> bool" where
  "apart C [] \<longleftrightarrow> True"
| "apart C (x # xs) \<longleftrightarrow> list_all (\<lambda>y. \<not> C x y) xs \<and> apart C xs"

text \<open>The rows of other tables a job refers to.\<close>

definition job_references :: "identity_db \<Rightarrow> job_row \<Rightarrow> bool" where
  "job_references db j \<longleftrightarrow>
     list_ex (\<lambda>e. ei_id e = jb_external_identity_id j) (db_identities db) \<and>
     (case jb_resulting_player_id j of
        None \<Rightarrow> True | Some i \<Rightarrow> list_ex (\<lambda>p. ip_id p = i) (db_players db)) \<and>
     (case jb_initial_rc_delegation_id j of
        None \<Rightarrow> True | Some i \<Rightarrow> List.member (db_rc_delegations db) i)"

definition update_jobs :: "(job_row \<Rightarrow> bool) \<Rightarrow> (job_row \<Rightarrow> job_row) \<Rightarrow> identity_db \<Rightarrow> identity_db option" where
  "update_jobs Q f db =
     (let rows = map (\<lambda>j. if Q j then f j else j) (db_jobs db) in
      if list_all (\<lambda>j. Q j \<longrightarrow> job_checks (f j) \<and> job_references db (f j)) (db_jobs db) \<and>
         apart jobs_conflict rows
      then Some (db\<lparr>db_jobs := rows\<rparr>) else None)"

definition coalesced :: "'a option \<Rightarrow> 'a \<Rightarrow> 'a option" where
  "coalesced x y = (case x of None \<Rightarrow> Some y | Some z \<Rightarrow> Some z)"

text \<open>\<open>updated_at = at, row_version = row_version + 1\<close>, and what else the update sets.\<close>

definition touch :: "int \<Rightarrow> job_row \<Rightarrow> job_row" where
  "touch at j = j\<lparr>jb_updated_at := at, jb_row_version := jb_row_version j + 1\<rparr>"

definition in_states :: "string \<Rightarrow> provisioning_state set \<Rightarrow> job_row \<Rightarrow> bool" where
  "in_states provisioningId states j \<longleftrightarrow> jb_id j = provisioningId \<and> jb_state j \<in> states"

definition job_at :: "string \<Rightarrow> identity_db \<Rightarrow> job_row option" where
  "job_at provisioningId db = find (\<lambda>j. jb_id j = provisioningId) (db_jobs db)"

section \<open>Reads\<close>

definition mapJob :: "job_row \<Rightarrow> provisioning_job" where
  "mapJob j = \<lparr>pj_externalIdentityId = jb_external_identity_id j, pj_id = jb_id j,
     pj_idempotencyKey = jb_idempotency_key j,
     pj_requestedHiveUsername = jb_requested_hive_username j,
     pj_sponsorHiveAccount = jb_sponsor_hive_account j,
     pj_sponsorPolicyVersion = jb_sponsor_policy_version j,
     pj_sponsorProgram = jb_sponsor_program j, pj_state = jb_state j\<rparr>"

definition pg_getJobForUpdate :: "string \<Rightarrow> ('u identity, provisioning_job option) action" where
  "pg_getJobForUpdate provisioningId = identity_transaction (
     act_bind (identity_read (job_at provisioningId)) (\<lambda>row. act_ok (map_option mapJob row)))"

fun role_order :: "key_role \<Rightarrow> nat" where
  "role_order Owner_Key = 0"
| "role_order Active_Key = 1"
| "role_order Posting_Key = 2"
| "role_order Memo_Key = 3"

text \<open>\<open>state IN ('generated', 'active')\<close>\<close>

definition usable_key :: "string \<Rightarrow> custody_key_row \<Rightarrow> bool" where
  "usable_key provisioningId k \<longleftrightarrow>
     ck_provisioning_id k = provisioningId \<and> ck_state k \<in> {Key_Generated, Key_Active}"

definition key_reference_of :: "custody_key_row \<Rightarrow> key_reference" where
  "key_reference_of k = \<lparr>kr_authorityRole = ck_authority_role k,
     kr_hivePublicKey = ck_hive_public_key k,
     kr_providerKeyReference = ck_custody_provider_key_reference k\<rparr>"

definition usable_keys :: "string \<Rightarrow> identity_db \<Rightarrow> custody_key_row list" where
  "usable_keys provisioningId db =
     sort_key (\<lambda>k. role_order (ck_authority_role k)) (filter (usable_key provisioningId) (db_keys db))"

definition pg_getKeys :: "string \<Rightarrow> ('u identity, key_reference list) action" where
  "pg_getKeys provisioningId = identity_transaction (
     act_bind (identity_read (usable_keys provisioningId)) (\<lambda>rows.
     act_ok (map key_reference_of rows)))"

section \<open>Keys\<close>

text \<open>\<open>ON CONFLICT (custody_provider_key_reference) DO NOTHING\<close>; any other conflict is an error.\<close>

definition insert_key :: "custody_key_row \<Rightarrow> identity_db \<Rightarrow> identity_db option" where
  "insert_key k db =
     (if list_ex (\<lambda>r. ck_custody_provider_key_reference r = ck_custody_provider_key_reference k)
         (db_keys db) then Some db
      else if list_ex (keys_conflict k) (db_keys db) then None
      else if list_ex (\<lambda>j. jb_id j = ck_provisioning_id k) (db_jobs db)
      then Some (db\<lparr>db_keys := db_keys db @ [k]\<rparr>) else None)"

definition generated_key :: "string \<Rightarrow> string \<Rightarrow> key_reference \<Rightarrow> custody_key_row" where
  "generated_key i provisioningId k = \<lparr>ck_id = i, ck_provisioning_id = provisioningId,
     ck_player_id = None, ck_authority_role = kr_authorityRole k,
     ck_hive_public_key = kr_hivePublicKey k,
     ck_custody_provider_key_reference = kr_providerKeyReference k, ck_state = Key_Generated,
     ck_activated_at = None\<rparr>"

definition keys_ready :: "int \<Rightarrow> job_row \<Rightarrow> job_row" where
  "keys_ready at j = touch at (j\<lparr>jb_state := Keys_Ready, jb_keys_ready_at := coalesced (jb_keys_ready_at j) at\<rparr>)"

definition save_keys_work ::
  "'u identity_options \<Rightarrow> string \<Rightarrow> key_reference list \<Rightarrow> int \<Rightarrow> ('u identity, unit) action" where
  "save_keys_work P provisioningId keys at =
     act_bind (act_each (\<lambda>key. act_bind (draw (io_uuid P)) (\<lambda>i.
       identity_sql (insert_key (generated_key i provisioningId key)))) keys) (\<lambda>_.
     act_bind (identity_read (\<lambda>db. length (filter
       (\<lambda>k. ck_provisioning_id k = provisioningId \<and> ck_state k = Key_Generated) (db_keys db)))) (\<lambda>count.
     act_bind (act_ensure (count = 4) provisioningError) (\<lambda>_.
     identity_sql (update_jobs
       (in_states provisioningId {Username_Confirmed, Keys_Ready, Retryable_Failed}) (keys_ready at)))))"

definition pg_saveKeys ::
  "'u identity_options \<Rightarrow> string \<Rightarrow> key_reference list \<Rightarrow> int \<Rightarrow> ('u identity, unit) action" where
  "pg_saveKeys P provisioningId keys at = identity_transaction (save_keys_work P provisioningId keys at)"

section \<open>Steps of a job\<close>

definition account_pending :: "string \<Rightarrow> int \<Rightarrow> job_row \<Rightarrow> job_row" where
  "account_pending sponsorRequestReference at j = touch at (j\<lparr>jb_state := Account_Creation_Pending,
     jb_sponsor_request_reference := coalesced (jb_sponsor_request_reference j) sponsorRequestReference,
     jb_last_attempt_at := Some at, jb_attempt_count := jb_attempt_count j + 1\<rparr>)"

definition pg_markAccountCreationPending :: "string \<Rightarrow> string \<Rightarrow> int \<Rightarrow> ('u identity, unit) action" where
  "pg_markAccountCreationPending provisioningId sponsorRequestReference at = identity_transaction (
     identity_sql (update_jobs
       (in_states provisioningId {Keys_Ready, Account_Creation_Pending, Retryable_Failed})
       (account_pending sponsorRequestReference at)))"

definition account_created :: "string \<Rightarrow> int \<Rightarrow> job_row \<Rightarrow> job_row" where
  "account_created transactionId at j = touch at (j\<lparr>jb_state := Account_Created,
     jb_account_creation_transaction_id := coalesced (jb_account_creation_transaction_id j) transactionId,
     jb_account_observed_at := coalesced (jb_account_observed_at j) at\<rparr>)"

definition pg_markAccountCreated :: "string \<Rightarrow> string \<Rightarrow> int \<Rightarrow> ('u identity, unit) action" where
  "pg_markAccountCreated provisioningId transactionId observedAt = identity_transaction (
     identity_sql (update_jobs
       (in_states provisioningId {Account_Creation_Pending, Account_Created, Retryable_Failed})
       (account_created transactionId observedAt)))"

definition rc_pending :: "int \<Rightarrow> job_row \<Rightarrow> job_row" where
  "rc_pending at j = touch at (j\<lparr>jb_state := Rc_Delegation_Pending\<rparr>)"

definition pg_markRcDelegationPending :: "string \<Rightarrow> int \<Rightarrow> ('u identity, unit) action" where
  "pg_markRcDelegationPending provisioningId at = identity_transaction (
     identity_sql (update_jobs
       (in_states provisioningId {Account_Created, Rc_Delegation_Pending, Retryable_Failed})
       (rc_pending at)))"

definition rc_delegated :: "string \<Rightarrow> int \<Rightarrow> job_row \<Rightarrow> job_row" where
  "rc_delegated delegationReference at j = touch at (j\<lparr>jb_state := Rc_Delegated,
     jb_initial_rc_delegation_id := Some delegationReference\<rparr>)"

definition pg_markRcDelegated :: "string \<Rightarrow> string \<Rightarrow> int \<Rightarrow> ('u identity, unit) action" where
  "pg_markRcDelegated provisioningId delegationReference at = identity_transaction (
     identity_sql (update_jobs
       (in_states provisioningId {Rc_Delegation_Pending, Rc_Delegated, Retryable_Failed})
       (rc_delegated delegationReference at)))"

section \<open>The end of a job\<close>

definition activate_keys :: "string \<Rightarrow> string \<Rightarrow> int \<Rightarrow> identity_db \<Rightarrow> identity_db option" where
  "activate_keys provisioningId playerId at db =
     (let rows = map (\<lambda>k. if usable_key provisioningId k
            then k\<lparr>ck_player_id := Some playerId, ck_state := Key_Active,
              ck_activated_at := coalesced (ck_activated_at k) at\<rparr> else k) (db_keys db) in
      if apart keys_conflict rows then Some (db\<lparr>db_keys := rows\<rparr>) else None)"

definition finished_job :: "string \<Rightarrow> int \<Rightarrow> job_row \<Rightarrow> job_row" where
  "finished_job playerId at j = touch at (j\<lparr>jb_resulting_player_id := Some playerId,
     jb_state := Provisioning_Ready,
     jb_account_irreversible_at := coalesced (jb_account_irreversible_at j) at,
     jb_authorities_verified_at := coalesced (jb_authorities_verified_at j) at,
     jb_rc_verified_at := coalesced (jb_rc_verified_at j) at,
     jb_ready_at := coalesced (jb_ready_at j) at,
     jb_last_failure_code := None, jb_next_retry_at := None\<rparr>)"

text \<open>A player is linked to one identity at most.\<close>

definition identities_conflict :: "external_identity_row \<Rightarrow> external_identity_row \<Rightarrow> bool" where
  "identities_conflict e f \<longleftrightarrow>
     ei_id e = ei_id f \<or> same_some (ei_player_id e) (ei_player_id f) \<or>
     same_subject (ei_verified_issuer e) (ei_subject_lookup_hash e) f"

definition link_identity :: "string \<Rightarrow> string \<Rightarrow> int \<Rightarrow> identity_db \<Rightarrow> identity_db option" where
  "link_identity externalIdentityId playerId at db =
     (let Q = (\<lambda>e. ei_id e = externalIdentityId \<and> ei_status e = Identity_Provisioning);
          f = (\<lambda>e. e\<lparr>ei_player_id := Some playerId, ei_status := Identity_Linked,
            ei_linked_at := coalesced (ei_linked_at e) at, ei_updated_at := at\<rparr>);
          rows = map (\<lambda>e. if Q e then f e else e) (db_identities db) in
      if list_all (\<lambda>e. Q e \<longrightarrow> identity_checks (f e)) (db_identities db) \<and> apart identities_conflict rows
      then Some (db\<lparr>db_identities := rows\<rparr>) else None)"

definition link_acknowledgments :: "string \<Rightarrow> string \<Rightarrow> int \<Rightarrow> identity_db \<Rightarrow> identity_db option" where
  "link_acknowledgments externalIdentityId playerId at db =
     (let rows = map (\<lambda>a. if da_external_identity_id a = Some externalIdentityId \<and> da_player_id a = None
            then a\<lparr>da_player_id := Some playerId, da_player_linked_at := coalesced (da_player_linked_at a) at\<rparr>
            else a) (db_acknowledgments db) in
      if apart acknowledgments_conflict rows then Some (db\<lparr>db_acknowledgments := rows\<rparr>) else None)"

definition mark_ready_work ::
  "'u identity_options \<Rightarrow> string \<Rightarrow> int \<Rightarrow> ('u identity, unit) action" where
  "mark_ready_work P provisioningId at =
     act_bind (identity_read (job_at provisioningId)) (\<lambda>selected.
     case selected of
       None \<Rightarrow> act_fail provisioningError
     | Some job \<Rightarrow>
         if jb_state job = Provisioning_Ready then act_ok ()
         else
           act_bind (draw (io_uuid P)) (\<lambda>playerId.
           act_bind (identity_sql (upsert_player \<lparr>ip_id = playerId,
             ip_hive_username = jb_requested_hive_username job,
             ip_hive_control_state = Platform_Custodial\<rparr>)) (\<lambda>_.
           act_bind (identity_read (player_named (jb_requested_hive_username job))) (\<lambda>player.
           act_bind (act_lift (of_option provisioningError player)) (\<lambda>p.
           act_bind (identity_sql (activate_keys provisioningId (ip_id p) at)) (\<lambda>_.
           act_bind (identity_sql (update_jobs (in_states provisioningId {Rc_Delegated, Retryable_Failed})
             (finished_job (ip_id p) at))) (\<lambda>_.
           act_bind (identity_sql (link_identity (jb_external_identity_id job) (ip_id p) at)) (\<lambda>_.
           identity_sql (link_acknowledgments (jb_external_identity_id job) (ip_id p) at)))))))))"

definition pg_markReady :: "'u identity_options \<Rightarrow> string \<Rightarrow> int \<Rightarrow> ('u identity, unit) action" where
  "pg_markReady P provisioningId at = identity_transaction (mark_ready_work P provisioningId at)"

section \<open>Failures\<close>

text \<open>
  PostgreSQL gives an untyped parameter its type where it is first used. In
  \<open>next_retry_at = $3 + interval '30 seconds'\<close> an operand of unknown type takes the type of the other
  one, so \<open>$3\<close> is an interval and so is the sum; an interval cannot be assigned to a
  \<open>timestamptz\<close>, and the statement is refused before it runs.
\<close>

datatype sql_type = Unknown_Type | Interval_Type | Timestamptz_Type

fun operand_type :: "sql_type \<Rightarrow> sql_type \<Rightarrow> sql_type" where
  "operand_type Unknown_Type t = t"
| "operand_type s t = s"

fun plus_type :: "sql_type \<Rightarrow> sql_type \<Rightarrow> sql_type option" where
  "plus_type Interval_Type Interval_Type = Some Interval_Type"
| "plus_type Timestamptz_Type Interval_Type = Some Timestamptz_Type"
| "plus_type Interval_Type Timestamptz_Type = Some Timestamptz_Type"
| "plus_type _ _ = None"

text \<open>\<open>next_retry_at\<close> is assigned the sum of the parameter and an interval.\<close>

definition retry_assignable :: "sql_type \<Rightarrow> bool" where
  "retry_assignable parameter \<longleftrightarrow>
     plus_type (operand_type parameter Interval_Type) Interval_Type = Some Timestamptz_Type"

definition retryable_failure :: "string \<Rightarrow> int \<Rightarrow> job_row \<Rightarrow> job_row" where
  "retryable_failure safeFailureCode at j = touch at (j\<lparr>jb_state := Retryable_Failed,
     jb_last_failure_code := Some safeFailureCode, jb_next_retry_at := Some (at + 30000)\<rparr>)"

definition pg_markFailure :: "string \<Rightarrow> string \<Rightarrow> int \<Rightarrow> ('u identity, unit) action" where
  "pg_markFailure provisioningId safeFailureCode at = identity_transaction (
     if retry_assignable Unknown_Type
     then identity_sql (update_jobs
       (\<lambda>j. jb_id j = provisioningId \<and> jb_state j \<notin> {Provisioning_Ready, Terminal_Failed})
       (retryable_failure safeFailureCode at))
     else act_fail identity_database_error)"

definition postgres_provisioning_repository ::
  "'u identity_options \<Rightarrow> 'u identity provisioning_repository" where
  "postgres_provisioning_repository P = \<lparr>
     getJobForUpdate = pg_getJobForUpdate, getKeys = pg_getKeys, saveKeys = pg_saveKeys P,
     markAccountCreationPending = pg_markAccountCreationPending,
     markAccountCreated = pg_markAccountCreated,
     markRcDelegationPending = pg_markRcDelegationPending, markRcDelegated = pg_markRcDelegated,
     markReady = pg_markReady P, markFailure = pg_markFailure\<rparr>"

lemma provisioning_repository_simps [simp]:
  "getJobForUpdate (postgres_provisioning_repository P) = pg_getJobForUpdate"
  "getKeys (postgres_provisioning_repository P) = pg_getKeys"
  "saveKeys (postgres_provisioning_repository P) = pg_saveKeys P"
  "markAccountCreationPending (postgres_provisioning_repository P) = pg_markAccountCreationPending"
  "markAccountCreated (postgres_provisioning_repository P) = pg_markAccountCreated"
  "markRcDelegationPending (postgres_provisioning_repository P) = pg_markRcDelegationPending"
  "markRcDelegated (postgres_provisioning_repository P) = pg_markRcDelegated"
  "markReady (postgres_provisioning_repository P) = pg_markReady P"
  "markFailure (postgres_provisioning_repository P) = pg_markFailure"
  by (simp_all add: postgres_provisioning_repository_def)

end
