(* ===== verification/Provisioning_Steps.thy ===== *)
theory Provisioning_Steps
  imports Provisioning_Store Auth_Module
begin

text \<open>
  What the statements of the provisioning repository do to the rows of a job and to its keys, and
  the coordinator with every call to a provider recorded.
\<close>

section \<open>Rows of jobs\<close>

lemma update_jobsE:
  assumes "update_jobs Q f db = Some db'"
  obtains "db' = db\<lparr>db_jobs := map (\<lambda>j. if Q j then f j else j) (db_jobs db)\<rparr>"
    and "apart jobs_conflict (db_jobs db')"
    and "\<And>j. j \<in> set (db_jobs db) \<Longrightarrow> Q j \<Longrightarrow> job_checks (f j) \<and> job_references db (f j)"
  using assms by (auto simp: update_jobs_def Let_def list_all_iff split: if_splits)

lemma find_map_if:
  assumes "\<And>x. x \<in> set xs \<Longrightarrow> P (g x) \<longleftrightarrow> P x"
  shows "find P (map g xs) = map_option g (find P xs)"
  using assms by (induction xs) auto

text \<open>The row of one job after an update, whichever job is updated.\<close>

lemma update_jobs_at:
  assumes "update_jobs Q f db = Some db'" and "\<And>j. jb_id (f j) = jb_id j"
  shows "job_at i db' = map_option (\<lambda>j. if Q j then f j else j) (job_at i db)"
proof -
  from assms(1) have "db_jobs db' = map (\<lambda>j. if Q j then f j else j) (db_jobs db)"
    by (rule update_jobsE) simp
  then show ?thesis
    unfolding job_at_def by (simp add: find_map_if assms(2))
qed

lemma job_at_id: "job_at i db = Some j \<Longrightarrow> jb_id j = i \<and> j \<in> set (db_jobs db)"
  by (auto simp: job_at_def find_Some_iff)

text \<open>The fields of a job each step leaves alone.\<close>

lemma step_ids [simp]:
  "jb_id (touch at j) = jb_id j"
  "jb_id (keys_ready at j) = jb_id j"
  "jb_id (account_pending ref at j) = jb_id j"
  "jb_id (account_created tx at j) = jb_id j"
  "jb_id (rc_pending at j) = jb_id j"
  "jb_id (rc_delegated d at j) = jb_id j"
  "jb_id (finished_job p at j) = jb_id j"
  "jb_id (retryable_failure c at j) = jb_id j"
  by (simp_all add: touch_def keys_ready_def account_pending_def account_created_def rc_pending_def
      rc_delegated_def finished_job_def retryable_failure_def)

lemma step_states [simp]:
  "jb_state (touch at j) = jb_state j"
  "jb_state (keys_ready at j) = Keys_Ready"
  "jb_state (account_pending ref at j) = Account_Creation_Pending"
  "jb_state (account_created tx at j) = Account_Created"
  "jb_state (rc_pending at j) = Rc_Delegation_Pending"
  "jb_state (rc_delegated d at j) = Rc_Delegated"
  "jb_state (finished_job p at j) = Provisioning_Ready"
  "jb_state (retryable_failure c at j) = Retryable_Failed"
  by (simp_all add: touch_def keys_ready_def account_pending_def account_created_def rc_pending_def
      rc_delegated_def finished_job_def retryable_failure_def)

text \<open>One statement of a job, as a transaction of its own: it is made, or nothing is.\<close>

lemma identity_transaction_sqlE:
  assumes "identity_transaction (identity_sql f) w = (r, w')"
  obtains (nothing) "it_db w' = it_db w" and "\<exists>e. r = Inl e"
    | (made) "f (it_db w) = Some (it_db w')"
proof -
  from assms show ?thesis
  proof (cases rule: identity_transactionE)
    case rolled_back
    then show ?thesis by (rule nothing)
  next
    case (committed x)
    then obtain db where "f (it_db w) = Some db" "w' = (w\<lparr>it_faults := tl (it_faults w)\<rparr>)\<lparr>it_db := db\<rparr>"
      by (auto elim!: identity_sql_InrE)
    then show ?thesis by (intro made) simp
  qed
qed

section \<open>What every statement keeps\<close>

text \<open>
  A preorder on databases that each statement of a piece of work stays in holds between the
  database before and after it, however its transaction ends.
\<close>

locale kept_relation =
  fixes R :: "identity_db \<Rightarrow> identity_db \<Rightarrow> bool"
  assumes kept_refl: "R db db"
    and kept_trans: "R db1 db2 \<Longrightarrow> R db2 db3 \<Longrightarrow> R db1 db3"
begin

lemma kept_basic:
  "identity_moves R (act_ok x)" "identity_moves R (act_fail e)" "identity_moves R (act_lift q)"
  "identity_moves R (act_ensure b e)" "identity_moves R (identity_read f)" "identity_moves R (draw u)"
  by (auto simp: identity_moves_def act_run kept_refl elim!: identity_readE drawE split: if_splits)

lemma kept_bind:
  "identity_moves R m \<Longrightarrow> (\<And>x. identity_moves R (f x)) \<Longrightarrow> identity_moves R (act_bind m f)"
  unfolding identity_moves_def by (blast intro: kept_trans elim!: act_bind_InrE)

lemma kept_sql: "(\<And>db db'. f db = Some db' \<Longrightarrow> R db db') \<Longrightarrow> identity_moves R (identity_sql f)"
  by (auto simp: identity_moves_def elim!: identity_sql_InrE)

lemma kept_each: "(\<And>x. identity_moves R (f x)) \<Longrightarrow> identity_moves R (act_each f xs)"
  by (induction xs) (auto intro: kept_bind kept_basic)

lemma kept_transaction:
  assumes "identity_moves R work" and "identity_transaction work w = (r, w')"
  shows "R (it_db w) (it_db w')"
  using assms(2)
proof (cases rule: identity_transactionE)
  case (committed x)
  from identity_movesD [OF assms(1) committed(1)] show ?thesis by simp
qed (simp add: kept_refl)

lemmas kept_moves = kept_basic kept_bind kept_sql kept_each

end

section \<open>Recorded calls\<close>

datatype provider_call =
    Keys_Asked keys_request
  | Account_Asked account_request
  | Credits_Asked credits_request
  | Ready_Asked ready_request "ready_answer option"

text \<open>The providers act on what is outside of the database; each call and its answer are noted.\<close>

definition noted ::
  "(exn + 'a \<Rightarrow> provider_call) \<Rightarrow> ('u, 'a) action \<Rightarrow> ('u identity \<times> provider_call list, 'a) action" where
  "noted c m = (\<lambda>(w, calls). case on_out m w of (r, w') \<Rightarrow> (r, (w', calls @ [c r])))"

definition answered :: "exn + 'a \<Rightarrow> 'a option" where
  "answered r = (case r of Inl e \<Rightarrow> None | Inr x \<Rightarrow> Some x)"

definition noted_ports ::
  "'u provisioning_ports \<Rightarrow> ('u identity \<times> provider_call list) provisioning_ports" where
  "noted_ports S = \<lparr>
     pp_generateAuthorityKeys = (\<lambda>q. noted (\<lambda>_. Keys_Asked q) (pp_generateAuthorityKeys S q)),
     pp_createClaimedAccount = (\<lambda>q. noted (\<lambda>_. Account_Asked q) (pp_createClaimedAccount S q)),
     pp_delegateInitialResourceCredits =
       (\<lambda>q. noted (\<lambda>_. Credits_Asked q) (pp_delegateInitialResourceCredits S q)),
     pp_verifyReady = (\<lambda>q. noted (\<lambda>r. Ready_Asked q (answered r)) (pp_verifyReady S q))\<rparr>"

definition noted_repository ::
  "'u identity_options \<Rightarrow> ('u identity \<times> provider_call list) provisioning_repository" where
  "noted_repository P = \<lparr>
     getJobForUpdate = (\<lambda>i. act_fst (pg_getJobForUpdate i)),
     getKeys = (\<lambda>i. act_fst (pg_getKeys i)),
     saveKeys = (\<lambda>i ks t. act_fst (pg_saveKeys P i ks t)),
     markAccountCreationPending = (\<lambda>i r t. act_fst (pg_markAccountCreationPending i r t)),
     markAccountCreated = (\<lambda>i x t. act_fst (pg_markAccountCreated i x t)),
     markRcDelegationPending = (\<lambda>i t. act_fst (pg_markRcDelegationPending i t)),
     markRcDelegated = (\<lambda>i d t. act_fst (pg_markRcDelegated i d t)),
     markReady = (\<lambda>i t. act_fst (pg_markReady P i t)),
     markFailure = (\<lambda>i c t. act_fst (pg_markFailure i c t))\<rparr>"

lemma noted_simps [simp]:
  "pp_generateAuthorityKeys (noted_ports S) kq = noted (\<lambda>_. Keys_Asked kq) (pp_generateAuthorityKeys S kq)"
  "pp_createClaimedAccount (noted_ports S) aq = noted (\<lambda>_. Account_Asked aq) (pp_createClaimedAccount S aq)"
  "pp_delegateInitialResourceCredits (noted_ports S) cq =
     noted (\<lambda>_. Credits_Asked cq) (pp_delegateInitialResourceCredits S cq)"
  "pp_verifyReady (noted_ports S) yq = noted (\<lambda>r. Ready_Asked yq (answered r)) (pp_verifyReady S yq)"
  "getJobForUpdate (noted_repository P) i = act_fst (pg_getJobForUpdate i)"
  "getKeys (noted_repository P) i = act_fst (pg_getKeys i)"
  "saveKeys (noted_repository P) i ks t = act_fst (pg_saveKeys P i ks t)"
  "markAccountCreationPending (noted_repository P) i r t = act_fst (pg_markAccountCreationPending i r t)"
  "markAccountCreated (noted_repository P) i x t = act_fst (pg_markAccountCreated i x t)"
  "markRcDelegationPending (noted_repository P) i t = act_fst (pg_markRcDelegationPending i t)"
  "markRcDelegated (noted_repository P) i x t = act_fst (pg_markRcDelegated i x t)"
  "markReady (noted_repository P) i t = act_fst (pg_markReady P i t)"
  "markFailure (noted_repository P) i c t = act_fst (pg_markFailure i c t)"
  by (simp_all add: noted_ports_def noted_repository_def)

text \<open>Noting the calls changes nothing else: the rest of the run is the coordinator's.\<close>

lemma notedE:
  assumes "noted c m (w, calls) = (r, p)"
  obtains w' where "p = (w', calls @ [c r])" and "it_db w' = it_db w" and "it_faults w' = it_faults w"
  using assms
  by (auto simp: noted_def on_out_def act_on_def split: prod.splits)

end
