(* ===== verification/Provisioning_Lifecycle.thy ===== *)
theory Provisioning_Lifecycle
  imports Provisioning_Steps
begin

text \<open>
  How a job's row may change, over any interleaving of the repository's operations: its identity,
  its user name and its sponsor are fixed, what was noted first stays noted, and a job that is
  ready or has failed for good does not change any more.
\<close>

section \<open>One row\<close>

text \<open>The columns no statement writes after the insertion.\<close>

definition job_terms :: "job_row \<Rightarrow> string list \<times> int" where
  "job_terms j = ([jb_id j, jb_external_identity_id j, jb_idempotency_key j,
     jb_requested_hive_username j, jb_sponsor_program j, jb_sponsor_policy_version j,
     jb_sponsor_hive_account j], jb_username_confirmed_at j)"

text \<open>What is there stays as it is.\<close>

definition stays :: "'a option \<Rightarrow> 'a option \<Rightarrow> bool" where
  "stays x y \<longleftrightarrow> x = None \<or> x = y"

definition job_follows :: "job_row \<Rightarrow> job_row \<Rightarrow> bool" where
  "job_follows j j' \<longleftrightarrow>
     job_terms j' = job_terms j \<and>
     (jb_state j \<in> {Provisioning_Ready, Terminal_Failed} \<longrightarrow> j' = j) \<and>
     stays (jb_keys_ready_at j) (jb_keys_ready_at j') \<and>
     stays (jb_sponsor_request_reference j) (jb_sponsor_request_reference j') \<and>
     stays (jb_account_creation_transaction_id j) (jb_account_creation_transaction_id j') \<and>
     stays (jb_account_observed_at j) (jb_account_observed_at j') \<and>
     jb_row_version j \<le> jb_row_version j'"

lemma stays_refl [simp]: "stays x x"
  by (simp add: stays_def)

lemma stays_trans: "stays x y \<Longrightarrow> stays y z \<Longrightarrow> stays x z"
  by (auto simp: stays_def)

lemma stays_coalesced [simp]: "stays x (coalesced x y)"
  by (cases x) (simp_all add: stays_def coalesced_def)

lemma job_follows_refl [simp]: "job_follows j j"
  by (simp add: job_follows_def)

lemma job_follows_trans: "job_follows j k \<Longrightarrow> job_follows k l \<Longrightarrow> job_follows j l"
  by (auto simp: job_follows_def intro: stays_trans)

lemma job_follows_id: "job_follows j j' \<Longrightarrow> jb_id j' = jb_id j"
  by (simp add: job_follows_def job_terms_def)

text \<open>Each update follows the rows it may change.\<close>

lemma steps_follow:
  assumes "jb_state j \<notin> {Provisioning_Ready, Terminal_Failed}"
  shows "job_follows j (keys_ready at j)" and "job_follows j (account_pending ref at j)"
    and "job_follows j (account_created tx at j)" and "job_follows j (rc_pending at j)"
    and "job_follows j (rc_delegated d at j)" and "job_follows j (finished_job p at j)"
    and "job_follows j (retryable_failure c at j)"
  using assms
  by (simp_all add: job_follows_def job_terms_def touch_def keys_ready_def account_pending_def
      account_created_def rc_pending_def rc_delegated_def finished_job_def retryable_failure_def)

section \<open>The tables\<close>

definition jobs_ok :: "identity_db \<Rightarrow> bool" where
  "jobs_ok db \<longleftrightarrow> apart jobs_conflict (db_jobs db) \<and> list_all job_checks (db_jobs db)"

definition jobs_follow :: "identity_db \<Rightarrow> identity_db \<Rightarrow> bool" where
  "jobs_follow db db' \<longleftrightarrow>
     (jobs_ok db \<longrightarrow> jobs_ok db') \<and>
     (\<forall>j \<in> set (db_jobs db). \<exists>j' \<in> set (db_jobs db'). job_follows j j')"

lemma jobs_follow_same: "db_jobs db' = db_jobs db \<Longrightarrow> jobs_follow db db'"
  by (auto simp: jobs_follow_def jobs_ok_def intro: job_follows_refl)

interpretation lifecycle: kept_relation jobs_follow
proof unfold_locales
  show "jobs_follow db db" for db by (simp add: jobs_follow_same)
  show "jobs_follow db1 db3" if "jobs_follow db1 db2" "jobs_follow db2 db3" for db1 db2 db3
    using that unfolding jobs_follow_def by (metis job_follows_trans)
qed

lemma update_jobs_follow:
  assumes update: "update_jobs Q f db = Some db'" and follows: "\<And>j. Q j \<Longrightarrow> job_follows j (f j)"
  shows "jobs_follow db db'"
proof -
  from update have db': "db' = db\<lparr>db_jobs := map (\<lambda>j. if Q j then f j else j) (db_jobs db)\<rparr>"
    and apart: "apart jobs_conflict (db_jobs db')"
    and checked: "\<And>j. j \<in> set (db_jobs db) \<Longrightarrow> Q j \<Longrightarrow> job_checks (f j) \<and> job_references db (f j)"
    by (blast elim: update_jobsE)+
  have "jobs_ok db'" if "jobs_ok db"
    using that apart checked by (auto simp: jobs_ok_def db' list_all_iff)
  moreover have "\<exists>j' \<in> set (db_jobs db'). job_follows j j'" if "j \<in> set (db_jobs db)" for j
  proof (rule bexI)
    show "job_follows j (if Q j then f j else j)" using follows by simp
    show "(if Q j then f j else j) \<in> set (db_jobs db')" using that by (simp add: db')
  qed
  ultimately show ?thesis by (simp add: jobs_follow_def)
qed

lemma insert_key_jobs: "insert_key k db = Some db' \<Longrightarrow> db_jobs db' = db_jobs db"
  by (auto simp: insert_key_def split: if_splits)

lemma finish_jobs:
  "activate_keys i p at db = Some db' \<Longrightarrow> db_jobs db' = db_jobs db"
  "link_identity x p at db = Some db' \<Longrightarrow> db_jobs db' = db_jobs db"
  "link_acknowledgments x p at db = Some db' \<Longrightarrow> db_jobs db' = db_jobs db"
  "upsert_player q db = Some db' \<Longrightarrow> db_jobs db' = db_jobs db"
  by (auto simp: activate_keys_def link_identity_def link_acknowledgments_def upsert_player_def Let_def
      split: if_splits)

text \<open>Every statement of the repository, and so every transaction of it.\<close>

lemma update_moves:
  assumes "\<And>j. Q j \<Longrightarrow> job_follows j (f j)"
  shows "identity_moves jobs_follow (identity_sql (update_jobs Q f))"
  using assms by (intro lifecycle.kept_sql update_jobs_follow)

lemma step_moves:
  "identity_moves jobs_follow (identity_sql (update_jobs
     (in_states i {Username_Confirmed, Keys_Ready, Retryable_Failed}) (keys_ready at)))"
  "identity_moves jobs_follow (identity_sql (update_jobs
     (in_states i {Keys_Ready, Account_Creation_Pending, Retryable_Failed}) (account_pending ref at)))"
  "identity_moves jobs_follow (identity_sql (update_jobs
     (in_states i {Account_Creation_Pending, Account_Created, Retryable_Failed}) (account_created tx at)))"
  "identity_moves jobs_follow (identity_sql (update_jobs
     (in_states i {Account_Created, Rc_Delegation_Pending, Retryable_Failed}) (rc_pending at)))"
  "identity_moves jobs_follow (identity_sql (update_jobs
     (in_states i {Rc_Delegation_Pending, Rc_Delegated, Retryable_Failed}) (rc_delegated d at)))"
  "identity_moves jobs_follow (identity_sql (update_jobs
     (in_states i {Rc_Delegated, Retryable_Failed}) (finished_job p at)))"
  "identity_moves jobs_follow (identity_sql (update_jobs
     (\<lambda>j. jb_id j = i \<and> jb_state j \<notin> {Provisioning_Ready, Terminal_Failed}) (retryable_failure c at)))"
  by (rule update_moves; rule steps_follow; auto simp: in_states_def)+

lemma finish_moves:
  "identity_moves jobs_follow (identity_sql (activate_keys i p at))"
  "identity_moves jobs_follow (identity_sql (link_identity x p at))"
  "identity_moves jobs_follow (identity_sql (link_acknowledgments x p at))"
  "identity_moves jobs_follow (identity_sql (upsert_player q))"
  by (rule lifecycle.kept_sql, rule jobs_follow_same, erule finish_jobs)+

lemma save_keys_moves: "identity_moves jobs_follow (save_keys_work P i ks at)"
  unfolding save_keys_work_def
  by (intro lifecycle.kept_moves step_moves) (auto dest: insert_key_jobs intro: jobs_follow_same)

lemma mark_ready_moves: "identity_moves jobs_follow (mark_ready_work P i at)"
  unfolding mark_ready_work_def
  by (auto intro!: lifecycle.kept_bind lifecycle.kept_basic step_moves finish_moves
      split: option.split)

end
