(* ===== verification/Onboarding.thy ===== *)
theory Onboarding
  imports Provisioning_Lifecycle
begin

text \<open>
  How a Google player gets a Hive name: the API's onboarding configuration, repository, service and
  controller (\<open>provisioning/onboarding.*.ts\<close>). A name is checked against the chain and the jobs,
  and confirming it makes the one job of the identity, which the coordinator then works on.
\<close>

section \<open>Configuration\<close>

record onboarding_config =
  oc_sponsorHiveAccount :: string
  oc_sponsorPolicyVersion :: string
  oc_sponsorProgram :: string

text \<open>\<open>/^[a-z][a-z0-9.-]{1,14}[a-z0-9]$/\<close>\<close>

definition sponsor_pattern :: "string \<Rightarrow> bool" where
  "sponsor_pattern s \<longleftrightarrow>
     3 \<le> length s \<and> length s \<le> 16 \<and> is_lower (hd s) \<and> (is_lower (last s) \<or> is_digit (last s)) \<and>
     list_all (\<lambda>c. is_lower c \<or> is_digit c \<or> is_one_of ''.-'' c) (butlast (tl s))"

definition loadOnboardingConfig :: "environment \<Rightarrow> exn + onboarding_config option" where
  "loadOnboardingConfig env =
     (let account = env_trimmed env ''PROVISIONING_SPONSOR_HIVE_ACCOUNT'';
          version = env_trimmed env ''PROVISIONING_SPONSOR_POLICY_VERSION'';
          program = env_trimmed env ''PROVISIONING_SPONSOR_PROGRAM'';
          values = [account, version, program]
      in if list_all (\<lambda>v. v = '''') values then Inr None
         else ebind (ensure (\<not> list_ex (\<lambda>v. v = '''') values) configError) (\<lambda>_.
           ebind (ensure (sponsor_pattern account) configError) (\<lambda>_.
           Inr (Some \<lparr>oc_sponsorHiveAccount = account, oc_sponsorPolicyVersion = version,
             oc_sponsorProgram = program\<rparr>))))"

section \<open>The repository\<close>

record provisioning_status = provisioning_job +
  vs_retryAfter :: "string option"
  vs_safeFailureCode :: "string option"
  vs_updatedAt :: string

definition mapStatus :: "host \<Rightarrow> job_row \<Rightarrow> exn + provisioning_status" where
  "mapStatus H j =
     ebind (case jb_next_retry_at j of
         None \<Rightarrow> Inr None | Some t \<Rightarrow> ebind (toISOString H t) (\<lambda>s. Inr (Some s))) (\<lambda>retryAfter.
     ebind (toISOString H (jb_updated_at j)) (\<lambda>updatedAt.
     Inr \<lparr>pj_externalIdentityId = jb_external_identity_id j, pj_id = jb_id j,
       pj_idempotencyKey = jb_idempotency_key j,
       pj_requestedHiveUsername = jb_requested_hive_username j,
       pj_sponsorHiveAccount = jb_sponsor_hive_account j,
       pj_sponsorPolicyVersion = jb_sponsor_policy_version j,
       pj_sponsorProgram = jb_sponsor_program j, pj_state = jb_state j,
       vs_retryAfter = retryAfter, vs_safeFailureCode = jb_last_failure_code j,
       vs_updatedAt = updatedAt\<rparr>))"

definition pg_isUsernamePending :: "'u identity_options \<Rightarrow> string \<Rightarrow> ('u identity, bool) action" where
  "pg_isUsernamePending P hiveUsername = on_pool P (identity_read (\<lambda>db.
     list_ex (\<lambda>j. jb_requested_hive_username j = hiveUsername \<and> reserves_username j) (db_jobs db)))"

definition insert_job :: "job_row \<Rightarrow> identity_db \<Rightarrow> identity_db option" where
  "insert_job j db =
     (if job_checks j \<and> job_references db j \<and> apart jobs_conflict (db_jobs db @ [j])
      then Some (db\<lparr>db_jobs := db_jobs db @ [j]\<rparr>) else None)"

text \<open>\<open>dbNow\<close> is \<open>now()\<close>, the default of \<open>updated_at\<close>.\<close>

definition new_job :: "string \<Rightarrow> onboarding_config \<Rightarrow> string \<Rightarrow> string \<Rightarrow> string \<Rightarrow> int \<Rightarrow> int \<Rightarrow> job_row" where
  "new_job i config externalIdentityId hiveUsername idempotencyKey now dbNow = \<lparr>
     jb_id = i, jb_external_identity_id = externalIdentityId, jb_resulting_player_id = None,
     jb_idempotency_key = idempotencyKey, jb_requested_hive_username = hiveUsername,
     jb_state = Username_Confirmed, jb_sponsor_program = oc_sponsorProgram config,
     jb_sponsor_policy_version = oc_sponsorPolicyVersion config,
     jb_sponsor_hive_account = oc_sponsorHiveAccount config, jb_sponsor_request_reference = None,
     jb_account_creation_transaction_id = None, jb_initial_rc_delegation_id = None,
     jb_username_confirmed_at = now, jb_keys_ready_at = None, jb_account_observed_at = None,
     jb_account_irreversible_at = None, jb_authorities_verified_at = None, jb_rc_verified_at = None,
     jb_attempt_count = 0, jb_last_attempt_at = None, jb_next_retry_at = None,
     jb_last_failure_code = None, jb_ready_at = None, jb_updated_at = dbNow, jb_row_version = 1\<rparr>"

definition job_of_identity :: "string \<Rightarrow> identity_db \<Rightarrow> job_row option" where
  "job_of_identity externalIdentityId db =
     find (\<lambda>j. jb_external_identity_id j = externalIdentityId) (db_jobs db)"

definition confirm_work ::
  "'u identity_options \<Rightarrow> onboarding_config \<Rightarrow> string \<Rightarrow> string \<Rightarrow> string \<Rightarrow> int \<Rightarrow> int \<Rightarrow>
   ('u identity, provisioning_status) action" where
  "confirm_work P config externalIdentityId hiveUsername idempotencyKey now dbNow =
     act_bind (identity_read (\<lambda>db. find (\<lambda>e. ei_id e = externalIdentityId) (db_identities db)))
       (\<lambda>identity.
     act_bind (act_ensure (map_option ei_status identity = Some Identity_Provisioning) provisioningError)
       (\<lambda>_.
     act_bind (identity_read (job_of_identity externalIdentityId)) (\<lambda>existing.
     case existing of
       Some current \<Rightarrow>
         act_bind (act_ensure (\<not> jb_requested_hive_username current \<noteq> hiveUsername) provisioningError)
           (\<lambda>_. act_lift (mapStatus (io_host P) current))
     | None \<Rightarrow>
         act_bind (draw (io_uuid P)) (\<lambda>i.
         let row = new_job i config externalIdentityId hiveUsername idempotencyKey now dbNow in
         act_bind (identity_sql (insert_job row)) (\<lambda>_.
         act_lift (mapStatus (io_host P) row))))))"

definition pg_confirmUsername ::
  "'u identity_options \<Rightarrow> onboarding_config \<Rightarrow> string \<Rightarrow> string \<Rightarrow> string \<Rightarrow> int \<Rightarrow> int \<Rightarrow>
   ('u identity, provisioning_status) action" where
  "pg_confirmUsername P config externalIdentityId hiveUsername idempotencyKey now dbNow =
     on_pool P (confirm_work P config externalIdentityId hiveUsername idempotencyKey now dbNow)"

definition status_of :: "host \<Rightarrow> job_row option \<Rightarrow> ('s, provisioning_status option) action" where
  "status_of H row =
     (case row of None \<Rightarrow> act_ok None | Some j \<Rightarrow> act_lift (ebind (mapStatus H j) (\<lambda>s. Inr (Some s))))"

definition pg_findForIdentity ::
  "'u identity_options \<Rightarrow> string \<Rightarrow> ('u identity, provisioning_status option) action" where
  "pg_findForIdentity P externalIdentityId =
     act_bind (on_pool P (identity_read (job_of_identity externalIdentityId))) (status_of (io_host P))"

definition pg_findByIdForIdentity ::
  "'u identity_options \<Rightarrow> string \<Rightarrow> string \<Rightarrow> ('u identity, provisioning_status option) action" where
  "pg_findByIdForIdentity P provisioningId externalIdentityId =
     act_bind (on_pool P (identity_read (\<lambda>db. find (\<lambda>j. jb_id j = provisioningId \<and>
       jb_external_identity_id j = externalIdentityId) (db_jobs db)))) (status_of (io_host P))"

section \<open>The service\<close>

text \<open>\<open>ob_hive\<close> is \<open>usernameExists\<close> of the posting authority verifier.\<close>

record 'u onboarding =
  ob_options :: "'u identity_options"
  ob_hive :: "string \<Rightarrow> ('u identity, bool) action"
  ob_config :: "onboarding_config option"

datatype unavailable_reason = Exists_On_Hive | Pending_Platform_Job

record availability =
  va_available :: bool
  va_checkedAt :: string
  va_hiveUsername :: string
  va_unavailableReason :: "unavailable_reason option"

text \<open>The two questions do not depend on one another, so they are asked in turn.\<close>

definition ob_checkUsername :: "'u onboarding \<Rightarrow> string \<Rightarrow> int \<Rightarrow> ('u identity, availability) action" where
  "ob_checkUsername B hiveUsername checkedAt =
     act_bind (ob_hive B hiveUsername) (\<lambda>existsOnHive.
     act_bind (pg_isUsernamePending (ob_options B) hiveUsername) (\<lambda>pending.
     act_bind (act_lift (toISOString (io_host (ob_options B)) checkedAt)) (\<lambda>checked.
     act_ok \<lparr>va_available = (\<not> existsOnHive \<and> \<not> pending), va_checkedAt = checked,
       va_hiveUsername = hiveUsername,
       va_unavailableReason = (if existsOnHive then Some Exists_On_Hive
         else if pending then Some Pending_Platform_Job else None)\<rparr>)))"

definition provisioningUnavailable :: exn where
  "provisioningUnavailable = ApiError 503 ''provisioning_provider_unavailable''"

definition provisioningNotFound :: exn where
  "provisioningNotFound = ApiError 404 ''provisioning_not_found''"

fun unavailable_code :: "unavailable_reason option \<Rightarrow> string" where
  "unavailable_code (Some Exists_On_Hive) = ''exists_on_hive''"
| "unavailable_code (Some Pending_Platform_Job) = ''pending_platform_job''"
| "unavailable_code None = ''username_unavailable''"

definition requireConfiguration :: "'u onboarding \<Rightarrow> exn + onboarding_config" where
  "requireConfiguration B = of_option provisioningUnavailable (ob_config B)"

definition scopedIdempotencyKey :: "host \<Rightarrow> string \<Rightarrow> string \<Rightarrow> string" where
  "scopedIdempotencyKey H externalIdentityId idempotencyKey =
     sha256_hex H (externalIdentityId @ [char_of (0 :: nat)] @ idempotencyKey)"

text \<open>\<open>ConflictException\<close> and \<open>ServiceUnavailableException\<close> are passed on.\<close>

definition passed_on :: "exn \<Rightarrow> bool" where
  "passed_on error \<longleftrightarrow> (case error of ApiError status code \<Rightarrow> status = 409 \<or> status = 503 | _ \<Rightarrow> False)"

definition ob_confirmUsername ::
  "'u onboarding \<Rightarrow> string \<Rightarrow> string \<Rightarrow> string \<Rightarrow> int \<Rightarrow> int \<Rightarrow> ('u identity, provisioning_status) action" where
  "ob_confirmUsername B externalIdentityId hiveUsername idempotencyKey now dbNow =
     act_bind (act_lift (requireConfiguration B)) (\<lambda>config.
     act_bind (ob_checkUsername B hiveUsername now) (\<lambda>availability.
     act_bind (pg_findForIdentity (ob_options B) externalIdentityId) (\<lambda>existing.
     act_bind (act_ensure (\<not> (\<not> va_available availability \<and>
         map_option pj_requestedHiveUsername existing \<noteq> Some hiveUsername))
       (ApiError 409 (unavailable_code (va_unavailableReason availability)))) (\<lambda>_.
     act_catch (pg_confirmUsername (ob_options B) config externalIdentityId hiveUsername
         (scopedIdempotencyKey (io_host (ob_options B)) externalIdentityId idempotencyKey) now dbNow)
       (\<lambda>error. if passed_on error then act_fail error
         else act_fail (ApiError 409 ''onboarding_conflict''))))))"

definition ob_start :: "'u onboarding \<Rightarrow> string \<Rightarrow> ('u identity, provisioning_status) action" where
  "ob_start B externalIdentityId =
     act_bind (act_lift (requireConfiguration B)) (\<lambda>_.
     act_bind (pg_findForIdentity (ob_options B) externalIdentityId) (\<lambda>status.
     act_lift (of_option provisioningNotFound status)))"

definition ob_getStatus :: "'u onboarding \<Rightarrow> string \<Rightarrow> string \<Rightarrow> ('u identity, provisioning_status) action" where
  "ob_getStatus B externalIdentityId provisioningId =
     act_bind (pg_findByIdForIdentity (ob_options B) provisioningId externalIdentityId) (\<lambda>status.
     act_lift (of_option provisioningNotFound status))"

section \<open>The controller\<close>

definition validationFailed :: exn where
  "validationFailed = ApiError 422 ''validation_failed''"

definition usernameSchema :: "json \<Rightarrow> string option" where
  "usernameSchema v =
     do {
       m \<leftarrow> strict_object [''hiveUsername''] [] v;
       name \<leftarrow> get_prop as_string m ''hiveUsername'';
       (if hiveAccountSchema name then Some name else None)
     }"

definition isControlCharacter :: "char \<Rightarrow> bool" where
  "isControlCharacter c \<longleftrightarrow> (of_char c :: nat) < 32 \<or> (of_char c :: nat) = 127"

definition parseIdempotencyKey :: "string option \<Rightarrow> exn + string" where
  "parseIdempotencyKey header =
     (case header of
        None \<Rightarrow> Inl validationFailed
      | Some v \<Rightarrow> if v = '''' \<or> length v > 128 \<or> list_ex isControlCharacter v
          then Inl validationFailed else Inr v)"

record public_status =
  us_id :: string
  us_requestedHiveUsername :: string
  us_retryAfter :: "string option"
  us_safeFailureCode :: "string option"
  us_state :: provisioning_state
  us_updatedAt :: string

definition publicStatus :: "provisioning_status \<Rightarrow> public_status" where
  "publicStatus s = \<lparr>us_id = pj_id s, us_requestedHiveUsername = pj_requestedHiveUsername s,
     us_retryAfter = vs_retryAfter s, us_safeFailureCode = vs_safeFailureCode s,
     us_state = pj_state s, us_updatedAt = vs_updatedAt s\<rparr>"

text \<open>\<open>who\<close> is the external identity that the guard has put into the request.\<close>

definition principalId :: "string option \<Rightarrow> exn + string" where
  "principalId who = of_option (ApiError 401 ''Unauthorized'') who"

definition onboarding_check :: "'u onboarding \<Rightarrow> json \<Rightarrow> int \<Rightarrow> ('u identity, availability) action" where
  "onboarding_check B body now =
     act_bind (act_lift (of_option validationFailed (usernameSchema body))) (\<lambda>name.
     ob_checkUsername B name now)"

definition onboarding_confirm ::
  "'u onboarding \<Rightarrow> string option \<Rightarrow> string option \<Rightarrow> json \<Rightarrow> int \<Rightarrow> int \<Rightarrow> ('u identity, public_status) action"
where
  "onboarding_confirm B who idempotencyKey body now dbNow =
     act_bind (act_lift (principalId who)) (\<lambda>identity.
     act_bind (act_lift (of_option validationFailed (usernameSchema body))) (\<lambda>name.
     act_bind (act_lift (parseIdempotencyKey idempotencyKey)) (\<lambda>key.
     act_bind (ob_confirmUsername B identity name key now dbNow) (\<lambda>s. act_ok (publicStatus s)))))"

definition onboarding_start :: "'u onboarding \<Rightarrow> string option \<Rightarrow> ('u identity, public_status) action" where
  "onboarding_start B who =
     act_bind (act_lift (principalId who)) (\<lambda>identity.
     act_bind (ob_start B identity) (\<lambda>s. act_ok (publicStatus s)))"

definition onboarding_status ::
  "'u onboarding \<Rightarrow> crypto \<Rightarrow> string option \<Rightarrow> string \<Rightarrow> ('u identity, public_status) action" where
  "onboarding_status B K who provisioningId =
     act_bind (act_lift (principalId who)) (\<lambda>identity.
     act_bind (act_ensure (zod_uuid K provisioningId) validationFailed) (\<lambda>_.
     act_bind (ob_getStatus B identity provisioningId) (\<lambda>s. act_ok (publicStatus s))))"

end
