(* ===== verification/Provisioning_Keys.thy ===== *)
theory Provisioning_Keys
  imports Onboarding
begin

text \<open>
  The keys of an account: the four the coordinator hands to the sponsor are in the table before it
  does, and stay there.
\<close>

section \<open>Complete sets of keys\<close>

lemma UNIV_key_role: "(UNIV :: key_role set) = {Owner_Key, Active_Key, Posting_Key, Memo_Key}"
  using key_role.exhaust by blast

lemma set_authorityRoles: "set authorityRoles = (UNIV :: key_role set)"
  by (auto simp: authorityRoles_def UNIV_key_role)

abbreviation key_entry :: "key_reference \<Rightarrow> key_role \<times> string" where
  "key_entry k \<equiv> (kr_authorityRole k, kr_hivePublicKey k)"

lemma key_entries_Inr:
  "key_entries entries ks = Inr keys \<Longrightarrow>
   keys = entries @ map key_entry ks \<and> (distinct (map fst entries) \<longrightarrow> distinct (map fst keys))"
proof (induction entries ks rule: key_entries.induct)
  case (2 entries k ks)
  from "2.prems" have new: "map_of entries (kr_authorityRole k) = None"
    and rest: "key_entries (entries @ [key_entry k]) ks = Inr keys"
    by (auto split: if_splits)
  from new have "distinct (map fst entries) \<longrightarrow> distinct (map fst (entries @ [key_entry k]))"
    by (simp add: map_of_eq_None_iff)
  moreover from "2.IH" [OF _ rest] "2.prems" have "keys = (entries @ [key_entry k]) @ map key_entry ks"
    and "distinct (map fst (entries @ [key_entry k])) \<longrightarrow> distinct (map fst keys)"
    by (metis sum.distinct(1) key_entries.simps(2))+
  ultimately show ?case by (metis append.assoc append_Cons append_Nil list.simps(9))
qed simp

text \<open>What \<open>keyMap\<close> accepts holds every role once.\<close>

lemma keyMap_Inr:
  assumes "keyMap ks = Inr keys"
  shows "keys = map key_entry ks" and "distinct (map fst keys)" and "set (map fst keys) = UNIV"
    and "length ks = 4"
proof -
  from assms have entries: "key_entries [] ks = Inr keys"
    and all: "\<forall>role \<in> set authorityRoles. map_of keys role \<noteq> None"
    by (simp_all add: keyMap_def list_all_iff ebind_eq_Inr ensure_eq_Inr)
  note both = key_entries_Inr [OF entries, unfolded append_Nil list.map distinct.simps simp_thms]
  from both show keys: "keys = map key_entry ks" ..
  from both show distinct: "distinct (map fst keys)" ..
  from all show roles: "set (map fst keys) = UNIV"
    by (auto simp: set_authorityRoles map_of_eq_None_iff)
  have "length ks = card (set (map fst keys))"
    using distinct_card [OF distinct] keys by simp
  also have "\<dots> = 4"
    unfolding roles UNIV_key_role by simp
  finally show "length ks = 4" .
qed

section \<open>Keys in the table\<close>

definition keys_hold :: "string \<Rightarrow> role_keys \<Rightarrow> identity_db \<Rightarrow> bool" where
  "keys_hold i keys db \<longleftrightarrow>
     (\<forall>(role, key) \<in> set keys. \<exists>k \<in> set (db_keys db).
        usable_key i k \<and> ck_authority_role k = role \<and> ck_hive_public_key k = key)"

definition keeps_keys :: "string \<Rightarrow> identity_db \<Rightarrow> identity_db \<Rightarrow> bool" where
  "keeps_keys i db db' \<longleftrightarrow>
     (\<forall>k \<in> set (db_keys db). usable_key i k \<longrightarrow>
        (\<exists>k' \<in> set (db_keys db'). usable_key i k' \<and> ck_authority_role k' = ck_authority_role k \<and>
           ck_hive_public_key k' = ck_hive_public_key k))"

lemma keys_hold_kept: "keys_hold i keys db \<Longrightarrow> keeps_keys i db db' \<Longrightarrow> keys_hold i keys db'"
  unfolding keys_hold_def keeps_keys_def by fastforce

lemma keeps_keys_same: "db_keys db' = db_keys db \<Longrightarrow> keeps_keys i db db'"
  by (auto simp: keeps_keys_def)

interpretation key_rows: kept_relation "keeps_keys i" for i
proof unfold_locales
  show "keeps_keys i db db" for db by (simp add: keeps_keys_same)
  show "keeps_keys i db1 db3" if "keeps_keys i db1 db2" "keeps_keys i db2 db3" for db1 db2 db3
    using that unfolding keeps_keys_def by metis
qed

lemma update_jobs_keys: "update_jobs Q f db = Some db' \<Longrightarrow> db_keys db' = db_keys db"
  by (erule update_jobsE) simp

lemma finish_keys:
  "link_identity x p at db = Some db' \<Longrightarrow> db_keys db' = db_keys db"
  "link_acknowledgments x p at db = Some db' \<Longrightarrow> db_keys db' = db_keys db"
  "upsert_player q db = Some db' \<Longrightarrow> db_keys db' = db_keys db"
  by (auto simp: link_identity_def link_acknowledgments_def upsert_player_def Let_def split: if_splits)

lemma activate_keys_keeps:
  assumes "activate_keys i p at db = Some db'"
  shows "keeps_keys j db db'"
proof -
  let ?f = "\<lambda>k. if usable_key i k then k\<lparr>ck_player_id := Some p, ck_state := Key_Active,
    ck_activated_at := coalesced (ck_activated_at k) at\<rparr> else k"
  from assms have "db_keys db' = map ?f (db_keys db)"
    by (auto simp: activate_keys_def Let_def split: if_splits)
  moreover have "usable_key j k \<Longrightarrow> usable_key j (?f k)" for k by (simp add: usable_key_def)
  moreover have "ck_authority_role (?f k) = ck_authority_role k \<and>
      ck_hive_public_key (?f k) = ck_hive_public_key k" for k by simp
  ultimately show ?thesis
    unfolding keeps_keys_def by (metis (no_types, lifting) image_eqI list.set_map)
qed

lemma key_moves:
  "identity_moves (keeps_keys i) (identity_sql (update_jobs Q f))"
  "identity_moves (keeps_keys i) (identity_sql (activate_keys j p at))"
  "identity_moves (keeps_keys i) (identity_sql (link_identity x p at))"
  "identity_moves (keeps_keys i) (identity_sql (link_acknowledgments x p at))"
  "identity_moves (keeps_keys i) (identity_sql (upsert_player q))"
  by (rule key_rows.kept_sql,
      (erule activate_keys_keeps | rule keeps_keys_same, erule update_jobs_keys finish_keys))+

lemma mark_ready_keys: "identity_moves (keeps_keys i) (mark_ready_work P j at)"
  unfolding mark_ready_work_def
  by (auto intro!: key_rows.kept_bind key_rows.kept_basic key_moves split: option.split)

section \<open>Saving keys\<close>

definition generated_of :: "string \<Rightarrow> custody_key_row \<Rightarrow> bool" where
  "generated_of i k \<longleftrightarrow> ck_provisioning_id k = i \<and> ck_state k = Key_Generated"

text \<open>The insertions add at most one row for each key, and one for every key if they are as many.\<close>

lemma insert_keys_added:
  assumes "act_each (\<lambda>key. act_bind (draw u) (\<lambda>x. identity_sql (insert_key (generated_key x i key)))) ks w =
    (Inr (), w')"
  shows "\<exists>added. db_keys (it_db w') = db_keys (it_db w) @ added \<and> list_all (generated_of i) added \<and>
    length added \<le> length ks \<and>
    (length added = length ks \<longrightarrow> list_all2 (\<lambda>k key. \<exists>x. k = generated_key x i key) added ks)"
  using assms
proof (induction ks arbitrary: w)
  case Nil
  then show ?case by (simp add: act_run)
next
  case (Cons key ks)
  from Cons.prems obtain x v db where
    w1: "insert_key (generated_key x i key) (it_db w) = Some db"
    and rest: "act_each (\<lambda>key. act_bind (draw u) (\<lambda>x. identity_sql (insert_key (generated_key x i key)))) ks
      (w\<lparr>it_out := v, it_db := db\<rparr>) = (Inr (), w')"
    by (auto elim!: act_bind_InrE drawE identity_sql_InrE)
  from Cons.IH [OF rest] obtain added where added:
    "db_keys (it_db w') = db_keys db @ added" "list_all (generated_of i) added"
    "length added \<le> length ks"
    "length added = length ks \<longrightarrow> list_all2 (\<lambda>k key. \<exists>x. k = generated_key x i key) added ks"
    by auto
  have new: "generated_of i (generated_key x i key)"
    by (simp add: generated_of_def generated_key_def)
  from w1 consider "db = it_db w"
    | "db_keys db = db_keys (it_db w) @ [generated_key x i key]"
    by (auto simp: insert_key_def split: if_splits)
  then show ?case
  proof cases
    case 1
    with added show ?thesis by (intro exI [of _ added]) auto
  next
    case 2
    with added new show ?thesis
      by (intro exI [of _ "generated_key x i key # added"]) auto
  qed
qed

lemma list_all2_source: "list_all2 Q xs ys \<Longrightarrow> y \<in> set ys \<Longrightarrow> \<exists>x \<in> set xs. Q x y"
  by (induction rule: list_all2_induct) auto

lemma saved_keys_hold:
  assumes "pg_saveKeys P i ks at w = (Inr (), w')" and "keyMap ks = Inr keys"
    and "filter (usable_key i) (db_keys (it_db w)) = []"
  shows "keys_hold i keys (it_db w')"
proof -
  define w0 where "w0 = w\<lparr>it_faults := tl (it_faults w)\<rparr>"
  then have w0: "it_db w0 = it_db w" by simp
  from assms(1) have "save_keys_work P i ks at w0 = (Inr (), w')"
    unfolding pg_saveKeys_def w0_def by (rule identity_transaction_InrE)
  then obtain w1 db where inserted: "act_each (\<lambda>key. act_bind (draw (io_uuid P)) (\<lambda>x.
        identity_sql (insert_key (generated_key x i key)))) ks w0 = (Inr (), w1)"
    and count: "length (filter (\<lambda>k. ck_provisioning_id k = i \<and> ck_state k = Key_Generated)
        (db_keys (it_db w1))) = 4"
    and updated: "update_jobs (in_states i {Username_Confirmed, Keys_Ready, Retryable_Failed})
        (keys_ready at) (it_db w1) = Some db" and w': "w' = w1\<lparr>it_db := db\<rparr>"
    unfolding save_keys_work_def
    by (auto elim!: act_bind_InrE act_bind_ensureE identity_readE identity_sql_InrE)
  from insert_keys_added [OF inserted] obtain added where added:
    "db_keys (it_db w1) = db_keys (it_db w) @ added" "list_all (generated_of i) added"
    "length added \<le> length ks"
    "length added = length ks \<longrightarrow> list_all2 (\<lambda>k key. \<exists>x. k = generated_key x i key) added ks"
    using w0 by auto
  have none: "filter (generated_of i) (db_keys (it_db w)) = []"
    using assms(3) by (auto simp: filter_empty_conv generated_of_def usable_key_def)
  have "filter (generated_of i) added = added"
    using added(2) by (simp add: list_all_iff filter_id_conv)
  with count added(1) none have "length added = 4"
    by (simp add: generated_of_def [symmetric] generated_of_def [abs_def, symmetric])
  with added(3,4) keyMap_Inr(4) [OF assms(2)]
  have all: "list_all2 (\<lambda>k key. \<exists>x. k = generated_key x i key) added ks" by simp
  have keys: "db_keys (it_db w') = db_keys (it_db w) @ added"
    using update_jobs_keys [OF updated] added(1) by (simp add: w')
  show ?thesis
    unfolding keys_hold_def keyMap_Inr(1) [OF assms(2)] keys
  proof (safe, goal_cases)
    case (1 role key)
    then obtain r where r: "r \<in> set ks" "role = kr_authorityRole r" "key = kr_hivePublicKey r" by auto
    from list_all2_source [OF all r(1)] obtain k x
      where "k \<in> set added" "k = generated_key x i r" by blast
    with r show ?case
      by (intro bexI [of _ k]) (simp_all add: generated_key_def usable_key_def)
  qed
qed

end
