(* ===== verification/Provisioning_Properties.thy ===== *)
theory Provisioning_Properties
  imports Provisioning_Keys
begin

text \<open>
  What the coordinator promises of an account: it asks the sponsor only for keys that are stored, it
  calls a job ready only when the chain has confirmed all of it, and what becomes of a job whose
  provider fails. Any providers may answer in any way, and any transaction may fail or lose its
  reply.
\<close>

section \<open>The keys the sponsor is given\<close>

text \<open>The keys are in the table, and every request for an account so far was for them.\<close>

definition stored ::
  "provisioning_job \<Rightarrow> role_keys \<Rightarrow> 'u identity \<times> provider_call list \<Rightarrow> bool" where
  "stored job keys s \<longleftrightarrow>
     keys_hold (pj_id job) keys (it_db (fst s)) \<and>
     (\<forall>q. Account_Asked q \<in> set (snd s) \<longrightarrow> q = account_request_of job keys)"

lemma transaction_stored:
  assumes "identity_moves (keeps_keys (pj_id job)) work"
  shows "preserves (stored job keys) (act_fst (identity_transaction work))"
proof (rule preservesI)
  fix s r s'
  assume P: "stored job keys s" and run: "act_fst (identity_transaction work) s = (r, s')"
  obtain w calls where s: "s = (w, calls)" by (cases s) auto
  from run obtain w' where "identity_transaction work w = (r, w')" and s': "s' = (w', calls)"
    unfolding s by (rule act_fstE)
  from key_rows.kept_transaction [OF assms this(1)] P show "stored job keys s'"
    by (auto simp: stored_def s s' intro: keys_hold_kept)
qed

lemma marks_stored:
  "preserves (stored job keys) (act_fst (pg_markAccountCreationPending i ref at))"
  "preserves (stored job keys) (act_fst (pg_markAccountCreated i tx at))"
  "preserves (stored job keys) (act_fst (pg_markRcDelegationPending i at))"
  "preserves (stored job keys) (act_fst (pg_markRcDelegated i d at))"
  "preserves (stored job keys) (act_fst (pg_markReady P i at))"
  "preserves (stored job keys) (act_fst (pg_markFailure i c at))"
  unfolding pg_markAccountCreationPending_def pg_markAccountCreated_def pg_markRcDelegationPending_def
    pg_markRcDelegated_def pg_markReady_def pg_markFailure_def
  by (rule transaction_stored, auto intro: key_moves mark_ready_keys key_rows.kept_basic)+

lemma noted_stored:
  assumes "\<And>r q. c r = Account_Asked q \<Longrightarrow> q = account_request_of job keys"
  shows "preserves (stored job keys) (noted c m)"
proof (rule preservesI)
  fix s r s'
  assume P: "stored job keys s" and run: "noted c m s = (r, s')"
  obtain w calls where s: "s = (w, calls)" by (cases s) auto
  from run [unfolded s] show "stored job keys s'"
    by (rule notedE) (use P assms in \<open>auto simp: stored_def s\<close>)
qed

lemma create_account_stored:
  "preserves (stored job keys) (create_account (noted_repository P) (noted_ports S) job keys now)"
  unfolding create_account_def
  by (auto intro!: preserves_bind marks_stored noted_stored simp: preserves_basic)

lemma delegate_credits_stored:
  "preserves (stored job keys) (delegate_credits (noted_repository P) (noted_ports S) job now)"
  unfolding delegate_credits_def
  by (auto intro!: preserves_bind marks_stored noted_stored)

text \<open>Before the keys are known no account is asked for; afterwards they are in the table.\<close>

definition unasked :: "provider_call list \<Rightarrow> bool" where
  "unasked calls \<longleftrightarrow> (\<forall>q. Account_Asked q \<notin> set calls)"

lemma read_transactionE:
  assumes "identity_transaction (act_bind (identity_read f) (\<lambda>x. act_ok (g x))) w = (r, w')"
  obtains "it_db w' = it_db w" and "\<And>y. r = Inr y \<Longrightarrow> y = g (f (it_db w))"
    and "\<And>e. r = Inl e \<Longrightarrow> e = identity_database_error"
  using assms
  by (auto simp: identity_transaction_unfold identity_read_def act_bind_basic act_run split: if_splits)

lemma ensureKeys_stored:
  assumes "ensureKeys (noted_repository P) (noted_ports S) job now (w, calls) = (r, (w', calls'))"
    and "unasked calls"
  shows "unasked calls' \<and>
    (\<forall>ks. r = Inr ks \<longrightarrow> (\<exists>keys. keyMap ks = Inr keys \<and> keys_hold (pj_id job) keys (it_db w')))"
proof -
  let ?i = "pj_id job"
  from assms(1) consider
    (unread) e where "act_fst (pg_getKeys ?i) (w, calls) = (Inl e, (w', calls'))" "r = Inl e"
    | (read) existing s where "act_fst (pg_getKeys ?i) (w, calls) = (Inr existing, s)"
        "(if length existing = length authorityRoles
          then act_bind (act_lift (keyMap existing)) (\<lambda>_. act_ok existing)
          else act_bind (act_ensure (length existing = 0) provisioningError) (\<lambda>_.
            act_bind (noted (\<lambda>_. Keys_Asked \<lparr>kq_idempotencyKey = pj_idempotencyKey job @ '':keys'',
              kq_provisioningId = ?i, kq_roles = authorityRoles\<rparr>)
              (pp_generateAuthorityKeys S \<lparr>kq_idempotencyKey = pj_idempotencyKey job @ '':keys'',
                kq_provisioningId = ?i, kq_roles = authorityRoles\<rparr>)) (\<lambda>generated.
            act_bind (act_lift (keyMap generated)) (\<lambda>_.
            act_bind (act_fst (pg_saveKeys P ?i generated now)) (\<lambda>_. act_ok generated))))) s =
          (r, (w', calls'))"
    unfolding ensureKeys_def noted_simps by (rule act_bindE)
  then show ?thesis
  proof cases
    case unread
    then show ?thesis using assms(2) by (auto elim!: act_fstE)
  next
    case (read existing s)
    from read(1) obtain w1 where got: "pg_getKeys ?i w = (Inr existing, w1)" and s: "s = (w1, calls)"
      by (rule act_fstE)
    from got [unfolded pg_getKeys_def] have db1: "it_db w1 = it_db w"
      and existing: "existing = map key_reference_of (usable_keys ?i (it_db w))"
      by (auto elim!: read_transactionE)
    show ?thesis
    proof (cases "length existing = length authorityRoles")
      case True
      with read(2) s have w': "w' = w1" "calls' = calls"
        and r: "\<And>ks. r = Inr ks \<Longrightarrow> ks = existing \<and> (\<exists>keys. keyMap existing = Inr keys)"
        by (cases "keyMap existing"; auto simp: act_bind_basic act_run)+
      have "keys_hold ?i keys (it_db w')" if "keyMap existing = Inr keys" for keys
        unfolding keys_hold_def keyMap_Inr(1) [OF that]
        by (auto simp: existing usable_keys_def key_reference_of_def w' db1)
      with r w' assms(2) show ?thesis by blast
    next
      case False
      from read(2) False s show ?thesis
        using assms(2)
        by (auto simp: act_run existing db1 usable_keys_def unasked_def
            elim!: act_bindE act_ensureE notedE act_fstE dest!: saved_keys_hold)
    qed
  qed
qed


lemma provision_with_stored:
  "preserves (stored job keys) (provision_with (noted_repository P) (noted_ports S) job keys now)"
  unfolding provision_with_def noted_simps
  by (auto intro!: preserves_bind preserves_if preserves_basic create_account_stored
      delegate_credits_stored noted_stored marks_stored)

lemma provision_stored:
  assumes "provision (noted_repository P) (noted_ports S) job now (w, calls) = (r, s)"
    and "unasked calls"
  shows "unasked (snd s) \<or> (\<exists>ks keys. keyMap ks = Inr keys \<and> stored job keys s)"
proof -
  from assms(1) show ?thesis
    unfolding provision_def
  proof (cases rule: act_bindE)
    case (fails e)
    obtain w' calls' where s: "s = (w', calls')" by (cases s) auto
    from ensureKeys_stored [OF fails(1) [unfolded s] assms(2)] show ?thesis by (simp add: s)
  next
    case (goes ks s1)
    obtain w1 calls1 where s1: "s1 = (w1, calls1)" by (cases s1) auto
    from ensureKeys_stored [OF goes(1) [unfolded s1] assms(2)] obtain keys
      where "unasked calls1" and keys: "keyMap ks = Inr keys" "keys_hold (pj_id job) keys (it_db w1)"
      by auto
    then have before: "stored job keys s1" by (simp add: stored_def s1 unasked_def)
    from goes(2) keys(1) have "provision_with (noted_repository P) (noted_ports S) job keys now s1 = (r, s)"
      by (simp add: act_bind_basic)
    from preservesD [OF provision_with_stored before this] have "stored job keys s" .
    with keys show ?thesis by blast
  qed
qed

text \<open>The job as it is read, and what happens with it.\<close>

lemma process_jobE:
  assumes "process_job (noted_repository P) (noted_ports S) i now (w, calls) = (r, s)"
  obtains (unread) "snd s = calls" and "it_db (fst s) = it_db w" and "\<exists>e. r = Inl e"
        and "job_at i (it_db w) = None \<or> r = Inl identity_database_error"
    | (settled) j where "job_at i (it_db w) = Some j"
        and "jb_state j = Provisioning_Ready \<or> jb_state j = Terminal_Failed" and "snd s = calls"
        and "it_db (fst s) = it_db w" and "r = Inr (mapJob j)"
    | (worked) j w1 where "job_at i (it_db w) = Some j" and "it_db w1 = it_db w"
        and "\<not> (jb_state j = Provisioning_Ready \<or> jb_state j = Terminal_Failed)"
        and "act_catch (provision (noted_repository P) (noted_ports S) (mapJob j) now) (\<lambda>error.
            act_bind (act_fst (pg_markFailure i (safe_code error) now)) (\<lambda>_. act_fail error))
          (w1, calls) = (r, s)"
  using assms unfolding process_job_def noted_simps
proof (cases rule: act_bindE)
  case (fails e)
  then show thesis
    by (intro unread) (auto simp: pg_getJobForUpdate_def elim!: act_fstE read_transactionE)
next
  case (goes found s1)
  from goes(1) obtain w1 where s1: "s1 = (w1, calls)" and db: "it_db w1 = it_db w"
    and found: "found = map_option mapJob (job_at i (it_db w))"
    unfolding pg_getJobForUpdate_def by (auto elim!: act_fstE read_transactionE)
  show thesis
  proof (cases "job_at i (it_db w)")
    case None
    with goes(2) found s1 db show thesis by (intro unread) (auto simp: act_run)
  next
    case (Some j)
    then have "pj_id (mapJob j) = i" by (auto simp: mapJob_def dest: job_at_id)
    moreover have "pj_state (mapJob j) = jb_state j" by (simp add: mapJob_def)
    ultimately show thesis
      using goes(2) found s1 db Some
      by (cases "jb_state j = Provisioning_Ready \<or> jb_state j = Terminal_Failed")
        (auto simp: act_run intro: settled worked)
  qed
qed

text \<open>
  C28. Whenever the sponsor is asked for an account, it is asked for the user name and with the
  sponsor and the idempotency key of the job, for one public key of each of the four authorities,
  and those keys are in the table, generated for this job: no account is made whose keys could be
  lost.
\<close>

theorem account_keys_stored:
  assumes "process_job (noted_repository P) (noted_ports S) i now (w, []) = (r, (w', calls))"
    and "Account_Asked q \<in> set calls"
  shows "\<exists>j keys. job_at i (it_db w) = Some j \<and> q = account_request_of (mapJob j) keys \<and>
    distinct (map fst keys) \<and> set (map fst keys) = set authorityRoles \<and> keys_hold i keys (it_db w')"
  using assms(1)
proof (cases rule: process_jobE)
  case (worked j w1)
  then have i: "pj_id (mapJob j) = i" by (auto simp: mapJob_def dest: job_at_id)
  from worked(4) obtain r1 s1 where run: "provision (noted_repository P) (noted_ports S) (mapJob j) now
      (w1, []) = (r1, s1)" and rest: "s1 = (w', calls) \<or> (\<exists>e. act_bind (act_fst (pg_markFailure i
        (safe_code e) now)) (\<lambda>_. act_fail e) s1 = (r, (w', calls)))"
    by (auto elim!: act_catchE)
  have handler: "preserves (stored (mapJob j) keys) (act_bind (act_fst (pg_markFailure i c now))
      (\<lambda>_. act_fail e))" for keys c e
    by (intro preserves_bind marks_stored preserves_basic)
  have "snd s1 = calls"
    using rest by (cases s1) (auto simp: act_run elim!: act_bindE act_fstE)
  with assms(2) have "\<not> unasked (snd s1)" by (auto simp: unasked_def)
  with provision_stored [OF run] obtain ks keys
    where keys: "keyMap ks = Inr keys" "stored (mapJob j) keys s1"
    by (auto simp: unasked_def)
  from rest have "stored (mapJob j) keys (w', calls)"
  proof
    assume "\<exists>e. act_bind (act_fst (pg_markFailure i (safe_code e) now)) (\<lambda>_. act_fail e) s1 =
      (r, (w', calls))"
    then show ?thesis using preservesD [where P = "stored (mapJob j) keys", OF handler keys(2)] by blast
  qed (use keys(2) in simp)
  with assms(2) have "keys_hold i keys (it_db w')" "q = account_request_of (mapJob j) keys"
    by (simp_all add: stored_def i)
  with worked(1) keyMap_Inr(2,3) [OF keys(1)] set_authorityRoles show ?thesis by blast
qed (use assms(2) in auto)

end
