(* ===== verification/Provisioning_Ready.thy ===== *)
theory Provisioning_Ready
  imports Provisioning_Properties
begin

text \<open>
  The way of a job to its end: what the row is after each step, and what has been answered and
  written when the coordinator calls the job ready.
\<close>

section \<open>Steps of the row\<close>

lemma mark_at:
  assumes "identity_transaction (identity_sql (update_jobs (in_states i S) f)) w = (Inr u, w')"
    and "\<And>j. jb_id (f j) = jb_id j" and "job_at i (it_db w) = Some j" and "jb_state j \<in> S"
  shows "job_at i (it_db w') = Some (f j)"
proof -
  from assms(1) have "update_jobs (in_states i S) f (it_db w) = Some (it_db w')"
    by (cases rule: identity_transaction_sqlE) auto
  from update_jobs_at [OF this assms(2), of i] assms(3,4) job_at_id [OF assms(3)] show ?thesis
    by (simp add: in_states_def)
qed

lemma marks_at:
  assumes "job_at i (it_db w) = Some j"
  shows "pg_markAccountCreationPending i ref at w = (Inr u, w') \<Longrightarrow>
      jb_state j \<in> {Keys_Ready, Account_Creation_Pending, Retryable_Failed} \<Longrightarrow>
      job_at i (it_db w') = Some (account_pending ref at j)"
    and "pg_markAccountCreated i tx at w = (Inr u, w') \<Longrightarrow>
      jb_state j \<in> {Account_Creation_Pending, Account_Created, Retryable_Failed} \<Longrightarrow>
      job_at i (it_db w') = Some (account_created tx at j)"
    and "pg_markRcDelegationPending i at w = (Inr u, w') \<Longrightarrow>
      jb_state j \<in> {Account_Created, Rc_Delegation_Pending, Retryable_Failed} \<Longrightarrow>
      job_at i (it_db w') = Some (rc_pending at j)"
    and "pg_markRcDelegated i d at w = (Inr u, w') \<Longrightarrow>
      jb_state j \<in> {Rc_Delegation_Pending, Rc_Delegated, Retryable_Failed} \<Longrightarrow>
      job_at i (it_db w') = Some (rc_delegated d at j)"
  unfolding pg_markAccountCreationPending_def pg_markAccountCreated_def pg_markRcDelegationPending_def
    pg_markRcDelegated_def
  by (rule mark_at [OF _ _ assms], assumption, simp, assumption)+

text \<open>The user name of a job is fixed, so the player is the one it names.\<close>

lemma mark_ready_at:
  assumes "pg_markReady P i at w = (Inr u, w')" and j: "job_at i (it_db w) = Some j"
    and "jb_state j = Rc_Delegated"
  shows "\<exists>p d. player_named (jb_requested_hive_username j) (it_db w') = Some p \<and>
    job_at i (it_db w') = Some (finished_job (ip_id p) at j) \<and>
    jb_initial_rc_delegation_id j = Some d \<and> d \<in> set (db_rc_delegations (it_db w'))"
proof -
  define w0 where "w0 = w\<lparr>it_faults := tl (it_faults w)\<rparr>"
  from assms(1) have "mark_ready_work P i at w0 = (Inr u, w')"
    unfolding pg_markReady_def w0_def by (rule identity_transaction_InrE)
  moreover have j0: "job_at i (it_db w0) = Some j" using j by (simp add: w0_def)
  ultimately obtain x p db1 db2 db3 db4 db5 where
    player: "upsert_player \<lparr>ip_id = x, ip_hive_username = jb_requested_hive_username j,
        ip_hive_control_state = Platform_Custodial\<rparr> (it_db w0) = Some db1"
      "player_named (jb_requested_hive_username j) db1 = Some p"
    and keys: "activate_keys i (ip_id p) at db1 = Some db2"
    and job: "update_jobs (in_states i {Rc_Delegated, Retryable_Failed}) (finished_job (ip_id p) at) db2 =
        Some db3"
    and link: "link_identity (jb_external_identity_id j) (ip_id p) at db3 = Some db4"
      "link_acknowledgments (jb_external_identity_id j) (ip_id p) at db4 = Some db5"
    and w': "it_db w' = db5"
    unfolding mark_ready_work_def
    by (auto simp: assms(3) act_run elim!: act_bind_InrE identity_readE drawE identity_sql_InrE)
  have same: "db_players db2 = db_players db1" "db_players db3 = db_players db2"
    "db_players db4 = db_players db3" "db_players db5 = db_players db4"
    "db_rc_delegations db5 = db_rc_delegations db4" "db_rc_delegations db4 = db_rc_delegations db3"
    "db_rc_delegations db3 = db_rc_delegations db2"
    using keys link job
    by (auto simp: activate_keys_def link_identity_def link_acknowledgments_def Let_def
        elim!: update_jobsE split: if_splits)
  have jobs: "job_at i db2 = Some j"
    using j0 finish_jobs(4) [OF player(1)] finish_jobs(1) [OF keys] by (simp add: job_at_def)
  from update_jobs_at [OF job, of i] jobs job_at_id [OF jobs] assms(3)
  have j3: "job_at i db3 = Some (finished_job (ip_id p) at j)" by (simp add: in_states_def)
  then have j5: "job_at i db5 = Some (finished_job (ip_id p) at j)"
    using finish_jobs(2) [OF link(1)] finish_jobs(3) [OF link(2)] by (simp add: job_at_def)
  from job have "job_checks (finished_job (ip_id p) at j) \<and> job_references db2 (finished_job (ip_id p) at j)"
    by (rule update_jobsE) (use job_at_id [OF jobs] assms(3) in \<open>auto simp: in_states_def\<close>)
  then obtain d where "jb_initial_rc_delegation_id j = Some d" "d \<in> set (db_rc_delegations db2)"
    by (auto simp: job_checks_def job_references_def finished_job_def touch_def split: option.splits)
  with j5 player(2) same show ?thesis
    by (simp add: w' player_named_def)
qed

section \<open>The coordinator's steps\<close>

text \<open>The row of a job, with its terms, in one of some states.\<close>

definition at_row ::
  "string \<Rightarrow> string list \<times> int \<Rightarrow> provisioning_state set \<Rightarrow> 'u identity \<times> provider_call list \<Rightarrow> bool" where
  "at_row i t S s \<longleftrightarrow>
     (\<exists>j. job_at i (it_db (fst s)) = Some j \<and> job_terms j = t \<and> jb_state j \<in> S)"

abbreviation anyway :: "exn \<Rightarrow> 's \<Rightarrow> bool" where
  "anyway \<equiv> \<lambda>e s. True"

lemma step_terms [simp]:
  "job_terms (keys_ready at j) = job_terms j"
  "job_terms (account_pending ref at j) = job_terms j"
  "job_terms (account_created tx at j) = job_terms j"
  "job_terms (rc_pending at j) = job_terms j"
  "job_terms (rc_delegated d at j) = job_terms j"
  "job_terms (finished_job p at j) = job_terms j"
  by (simp_all add: job_terms_def touch_def keys_ready_def account_pending_def account_created_def
      rc_pending_def rc_delegated_def finished_job_def)

lemma row_step:
  assumes "\<And>w j u w'. m w = (Inr u, w') \<Longrightarrow> job_at i (it_db w) = Some j \<Longrightarrow> jb_state j \<in> S \<Longrightarrow>
    job_at i (it_db w') = Some (f j)"
    and "\<And>j. job_terms (f j) = job_terms j" and "\<And>j. jb_state (f j) \<in> T"
  shows "spec (at_row i t S) (act_fst m) (\<lambda>_. at_row i t T) anyway"
proof (rule specI)
  fix s u s'
  assume "at_row i t S s" and run: "act_fst m s = (Inr u, s')"
  obtain w calls where s: "s = (w, calls)" by (cases s) auto
  from run obtain w' where m: "m w = (Inr u, w')" and s': "s' = (w', calls)"
    unfolding s by (rule act_fstE)
  from \<open>at_row i t S s\<close> obtain j where j: "job_at i (it_db w) = Some j" "job_terms j = t" "jb_state j \<in> S"
    by (auto simp: at_row_def s)
  from assms(1) [OF m j(1,3)] assms(2,3) j(2) show "at_row i t T s'"
    by (simp add: at_row_def s')
qed simp

lemma rows_step:
  "spec (at_row i t {Keys_Ready, Account_Creation_Pending, Retryable_Failed})
     (act_fst (pg_markAccountCreationPending i ref at)) (\<lambda>_. at_row i t {Account_Creation_Pending}) anyway"
  "spec (at_row i t {Account_Creation_Pending})
     (act_fst (pg_markAccountCreated i tx at)) (\<lambda>_. at_row i t {Account_Created}) anyway"
  "spec (at_row i t {Account_Created, Rc_Delegation_Pending})
     (act_fst (pg_markRcDelegationPending i at)) (\<lambda>_. at_row i t {Rc_Delegation_Pending}) anyway"
  "spec (at_row i t {Rc_Delegation_Pending})
     (act_fst (pg_markRcDelegated i d at)) (\<lambda>_. at_row i t {Rc_Delegated}) anyway"
proof goal_cases
  case 1 show ?case by (rule row_step [where f = "account_pending ref at"]) (auto dest: marks_at)
next
  case 2 show ?case by (rule row_step [where f = "account_created tx at"]) (auto dest: marks_at)
next
  case 3 show ?case by (rule row_step [where f = "rc_pending at"]) (auto dest: marks_at)
next
  case 4 show ?case by (rule row_step [where f = "rc_delegated d at"]) (auto dest: marks_at)
qed

lemma noted_row: "spec (at_row i t S) (noted c m) (\<lambda>_. at_row i t S) anyway"
proof (rule specI)
  fix s x s'
  assume "at_row i t S s" and run: "noted c m s = (Inr x, s')"
  obtain w calls where s: "s = (w, calls)" by (cases s) auto
  from run [unfolded s] show "at_row i t S s'"
    by (rule notedE) (use \<open>at_row i t S s\<close> in \<open>simp add: at_row_def s\<close>)
qed simp

lemma row_weaken:
  "spec (at_row i t S') m Q E \<Longrightarrow> S \<subseteq> S' \<Longrightarrow> spec (at_row i t S) m Q E"
  by (erule spec_weaken) (auto simp: at_row_def)

lemma create_account_row:
  assumes "pj_id job = i"
  shows "spec (at_row i t {Keys_Ready, Account_Creation_Pending, Retryable_Failed})
    (create_account (noted_repository P) (noted_ports S) job keys now)
    (\<lambda>_. at_row i t {Account_Created}) anyway"
  unfolding create_account_def noted_simps assms
  by (rule spec_bind [OF noted_row], rule spec_bind [OF rows_step(1)], rule spec_bind [OF noted_row],
      rule spec_bind [where R = "\<lambda>_. at_row i t {Account_Creation_Pending}"], simp add: spec_basic,
      rule rows_step(2))

lemma delegate_credits_row:
  assumes "pj_id job = i"
  shows "spec (at_row i t {Account_Created, Rc_Delegation_Pending})
    (delegate_credits (noted_repository P) (noted_ports S) job now) (\<lambda>_. at_row i t {Rc_Delegated}) anyway"
  unfolding delegate_credits_def noted_simps assms
  by (rule spec_bind [OF rows_step(3)], rule spec_bind [OF noted_row], rule rows_step(4))

text \<open>The answer the coordinator relies on, and what the end of the job leaves.\<close>

definition confirmed :: "ready_request \<Rightarrow> provider_call list \<Rightarrow> bool" where
  "confirmed q calls \<longleftrightarrow>
     Ready_Asked q (Some \<lparr>ya_accountIrreversible = True, ya_authoritiesMatch = True,
       ya_initialResourceCreditsReady = True\<rparr>) \<in> set calls"

definition ready_row :: "string \<Rightarrow> string \<Rightarrow> identity_db \<Rightarrow> bool" where
  "ready_row i username db \<longleftrightarrow>
     (\<exists>j p d. job_at i db = Some j \<and> jb_state j = Provisioning_Ready \<and> jb_ready_at j \<noteq> None \<and>
        jb_requested_hive_username j = username \<and> player_named username db = Some p \<and>
        jb_resulting_player_id j = Some (ip_id p) \<and>
        jb_initial_rc_delegation_id j = Some d \<and> d \<in> set (db_rc_delegations db))"

lemma verify_confirms:
  "spec (at_row i t S) (noted (\<lambda>r. Ready_Asked q (answered r)) m)
     (\<lambda>v s. at_row i t S s \<and> Ready_Asked q (Some v) \<in> set (snd s)) anyway"
proof (rule specI)
  fix s v s'
  assume "at_row i t S s" and run: "noted (\<lambda>r. Ready_Asked q (answered r)) m s = (Inr v, s')"
  obtain w calls where s: "s = (w, calls)" by (cases s) auto
  from run [unfolded s] show "at_row i t S s' \<and> Ready_Asked q (Some v) \<in> set (snd s')"
    by (rule notedE) (use \<open>at_row i t S s\<close> in \<open>simp add: at_row_def s answered_def\<close>)
qed simp

lemma mark_ready_confirmed:
  "spec (\<lambda>s. at_row i (ids, at') {Rc_Delegated} s \<and> confirmed q (snd s)) (act_fst (pg_markReady P i at))
     (\<lambda>_ s. ready_row i (ids ! 3) (it_db (fst s)) \<and> confirmed q (snd s)) anyway"
proof (rule specI)
  fix s u s'
  assume before: "at_row i (ids, at') {Rc_Delegated} s \<and> confirmed q (snd s)"
    and run: "act_fst (pg_markReady P i at) s = (Inr u, s')"
  obtain w calls where s: "s = (w, calls)" by (cases s) auto
  from run obtain w' where m: "pg_markReady P i at w = (Inr u, w')" and s': "s' = (w', calls)"
    unfolding s by (rule act_fstE)
  from before obtain j where j: "job_at i (it_db w) = Some j" "job_terms j = (ids, at')"
    "jb_state j = Rc_Delegated"
    by (auto simp: at_row_def s)
  from mark_ready_at [OF m j(1,3)] obtain p d where end_row:
    "player_named (jb_requested_hive_username j) (it_db w') = Some p"
    "job_at i (it_db w') = Some (finished_job (ip_id p) at j)"
    "jb_initial_rc_delegation_id j = Some d" "d \<in> set (db_rc_delegations (it_db w'))"
    by blast
  moreover from j(2) have "ids ! 3 = jb_requested_hive_username j"
    by (auto simp: job_terms_def)
  ultimately show "ready_row i (ids ! 3) (it_db (fst s')) \<and> confirmed q (snd s')"
    using before
    by (simp add: ready_row_def s s' finished_job_def touch_def coalesced_def split: option.split)
qed simp

lemma provision_with_ready:
  assumes "pj_id job = i" and "pj_state job \<notin> {Provisioning_Ready, Terminal_Failed}"
    and "pj_state job \<in> {Username_Confirmed, Keys_Ready, Account_Creation_Pending, Retryable_Failed} \<Longrightarrow>
      S = {Keys_Ready, Account_Creation_Pending, Retryable_Failed}"
    and "pj_state job \<notin> {Username_Confirmed, Keys_Ready, Account_Creation_Pending, Retryable_Failed} \<Longrightarrow>
      S = {pj_state job}"
  shows "spec (at_row i (ids, at') S) (provision_with (noted_repository P) (noted_ports T) job keys now)
    (\<lambda>_ s. ready_row i (ids ! 3) (it_db (fst s)) \<and> confirmed (ready_request_of job keys) (snd s)) anyway"
proof -
  let ?ending = "\<lambda>_ s. ready_row i (ids ! 3) (it_db (fst s)) \<and> confirmed (ready_request_of job keys) (snd s)"
  let ?credited = "if pj_state job \<noteq> Rc_Delegated then {Account_Created, Rc_Delegation_Pending}
    else {Rc_Delegated}"
  have account: "spec (at_row i (ids, at') S)
      (if pj_state job \<in> {Username_Confirmed, Keys_Ready, Account_Creation_Pending, Retryable_Failed}
       then create_account (noted_repository P) (noted_ports T) job keys now else act_ok ())
      (\<lambda>_. at_row i (ids, at') ?credited) anyway"
  proof (cases "pj_state job \<in> {Username_Confirmed, Keys_Ready, Account_Creation_Pending, Retryable_Failed}")
    case True
    then have "spec (at_row i (ids, at') S) (create_account (noted_repository P) (noted_ports T) job keys now)
        (\<lambda>_. at_row i (ids, at') {Account_Created}) anyway"
      using create_account_row [OF assms(1)] assms(3) by simp
    with True show ?thesis by (auto elim!: spec_weaken simp: at_row_def)
  next
    case False
    with assms(2,4) have "S \<subseteq> ?credited" by (cases "pj_state job") auto
    with False show ?thesis by (auto simp: spec_basic at_row_def)
  qed
  have credits: "spec (at_row i (ids, at') ?credited)
      (if pj_state job \<noteq> Rc_Delegated then delegate_credits (noted_repository P) (noted_ports T) job now
       else act_ok ()) (\<lambda>_. at_row i (ids, at') {Rc_Delegated}) anyway"
    by (simp add: spec_basic delegate_credits_row [OF assms(1)])
  have ending: "spec (\<lambda>s. at_row i (ids, at') {Rc_Delegated} s \<and>
        Ready_Asked (ready_request_of job keys) (Some v) \<in> set (snd s))
      (act_bind (act_ensure (\<not> (\<not> ya_accountIrreversible v \<or> \<not> ya_authoritiesMatch v \<or>
          \<not> ya_initialResourceCreditsReady v)) e) (\<lambda>_.
        act_bind (act_fst (pg_markReady P i now)) (\<lambda>_. act_ok x))) ?ending anyway" for v e x
  proof (rule spec_bind)
    show "spec (\<lambda>s. at_row i (ids, at') {Rc_Delegated} s \<and>
        Ready_Asked (ready_request_of job keys) (Some v) \<in> set (snd s))
      (act_ensure (\<not> (\<not> ya_accountIrreversible v \<or> \<not> ya_authoritiesMatch v \<or>
          \<not> ya_initialResourceCreditsReady v)) e)
      (\<lambda>_ s. at_row i (ids, at') {Rc_Delegated} s \<and> confirmed (ready_request_of job keys) (snd s)) anyway"
      by (cases v) (auto simp: spec_basic confirmed_def)
    show "spec (\<lambda>s. at_row i (ids, at') {Rc_Delegated} s \<and> confirmed (ready_request_of job keys) (snd s))
      (act_bind (act_fst (pg_markReady P i now)) (\<lambda>_. act_ok x)) ?ending anyway" for u :: unit
      by (rule spec_bind [OF mark_ready_confirmed]) (simp add: spec_basic)
  qed
  show ?thesis
    unfolding provision_with_def noted_simps assms(1)
    by (rule spec_bind [OF account], rule spec_bind [OF credits], rule spec_bind [OF verify_confirms],
        rule ending)
qed

section \<open>The keys first\<close>

lemma insert_keys_jobs: "identity_moves (\<lambda>db db'. db_jobs db' = db_jobs db) (identity_sql (insert_key k))"
  by (auto simp: identity_moves_def dest: insert_key_jobs elim!: identity_sql_InrE)

text \<open>Saved keys take a job to \<open>keys_ready\<close>, or leave a job that is past that as it is.\<close>

lemma save_keys_at:
  assumes "pg_saveKeys P i ks at w = (Inr u, w')" and j: "job_at i (it_db w) = Some j"
  shows "\<exists>j'. job_at i (it_db w') = Some j' \<and> job_terms j' = job_terms j \<and>
    jb_state j' = (if jb_state j \<in> {Username_Confirmed, Keys_Ready, Retryable_Failed}
      then Keys_Ready else jb_state j)"
proof -
  define w0 where "w0 = w\<lparr>it_faults := tl (it_faults w)\<rparr>"
  from assms(1) have "save_keys_work P i ks at w0 = (Inr u, w')"
    unfolding pg_saveKeys_def w0_def by (rule identity_transaction_InrE)
  then obtain w1 db where inserted: "act_each (\<lambda>key. act_bind (draw (io_uuid P)) (\<lambda>x.
        identity_sql (insert_key (generated_key x i key)))) ks w0 = (Inr (), w1)"
    and updated: "update_jobs (in_states i {Username_Confirmed, Keys_Ready, Retryable_Failed})
        (keys_ready at) (it_db w1) = Some db" and w': "w' = w1\<lparr>it_db := db\<rparr>"
    unfolding save_keys_work_def
    by (auto elim!: act_bind_InrE act_bind_ensureE identity_readE identity_sql_InrE)
  have "db_jobs (it_db w1) = db_jobs (it_db w0)"
    using inserted
    by (induction ks arbitrary: w0)
      (auto simp: act_run dest: insert_key_jobs elim!: act_bind_InrE drawE identity_sql_InrE)
  then have "job_at i (it_db w1) = Some j" using j by (simp add: job_at_def w0_def)
  with update_jobs_at [OF updated, of i] job_at_id [OF j] show ?thesis
    by (auto simp: w' in_states_def)
qed

lemma ensureKeys_at:
  assumes run: "ensureKeys (noted_repository P) (noted_ports S) job now s = (Inr ks, s')"
    and job: "pj_id job = i" and j: "job_at i (it_db (fst s)) = Some j"
    and fresh: "jb_state j = Username_Confirmed \<Longrightarrow> usable_keys i (it_db (fst s)) = []"
  shows "\<exists>j'. job_at i (it_db (fst s')) = Some j' \<and> job_terms j' = job_terms j \<and>
    jb_state j' = (if jb_state j = Username_Confirmed then Keys_Ready
      else if jb_state j = Retryable_Failed then jb_state j' else jb_state j) \<and>
    (jb_state j = Retryable_Failed \<longrightarrow> jb_state j' \<in> {Keys_Ready, Retryable_Failed})"
proof -
  obtain w calls where s: "s = (w, calls)" by (cases s) auto
  from run obtain existing s1 where read: "act_fst (pg_getKeys i) s = (Inr existing, s1)"
    and rest: "(if length existing = length authorityRoles
       then act_bind (act_lift (keyMap existing)) (\<lambda>_. act_ok existing)
       else act_bind (act_ensure (length existing = 0) provisioningError) (\<lambda>_.
         act_bind (noted (\<lambda>_. Keys_Asked \<lparr>kq_idempotencyKey = pj_idempotencyKey job @ '':keys'',
           kq_provisioningId = i, kq_roles = authorityRoles\<rparr>)
           (pp_generateAuthorityKeys S \<lparr>kq_idempotencyKey = pj_idempotencyKey job @ '':keys'',
             kq_provisioningId = i, kq_roles = authorityRoles\<rparr>)) (\<lambda>generated.
         act_bind (act_lift (keyMap generated)) (\<lambda>_.
         act_bind (act_fst (pg_saveKeys P i generated now)) (\<lambda>_. act_ok generated))))) s1 = (Inr ks, s')"
    unfolding ensureKeys_def noted_simps job by (rule act_bind_InrE)
  from read obtain w1 where w1: "pg_getKeys i w = (Inr existing, w1)" and s1: "s1 = (w1, calls)"
    unfolding s by (rule act_fstE)
  from w1 [unfolded pg_getKeys_def] have db: "it_db w1 = it_db w"
    and existing: "existing = map key_reference_of (usable_keys i (it_db w))"
    by (auto elim!: read_transactionE)
  show ?thesis
  proof (cases "length existing = length authorityRoles")
    case True
    then have "jb_state j \<noteq> Username_Confirmed"
      using fresh by (auto simp: existing s authorityRoles_def)
    moreover from rest True have "s' = s1"
      by (cases "keyMap existing") (auto simp: act_bind_basic act_run)
    ultimately show ?thesis using j by (auto simp: s s1 db)
  next
    case False
    with rest obtain generated w2 calls2 w3 where "it_db w2 = it_db w1"
      "pg_saveKeys P i generated now w2 = (Inr (), w3)" "s' = (w3, calls2)"
      by (auto simp: act_run s1 elim!: act_bind_InrE act_bind_ensureE notedE act_fstE)
    with save_keys_at [of P i generated now w2 "()" w3 j] j show ?thesis
      by (auto simp: s db split: if_splits)
  qed
qed

lemma provision_ready:
  assumes run: "provision (noted_repository P) (noted_ports S) (mapJob j) now (w, []) = (Inr job, s)"
    and j: "job_at i (it_db w) = Some j" and open_job: "jb_state j \<notin> {Provisioning_Ready, Terminal_Failed}"
    and fresh: "jb_state j = Username_Confirmed \<Longrightarrow> usable_keys i (it_db w) = []"
  shows "\<exists>ks keys. keyMap ks = Inr keys \<and> keys_hold i keys (it_db (fst s)) \<and>
    confirmed (ready_request_of (mapJob j) keys) (snd s) \<and>
    ready_row i (jb_requested_hive_username j) (it_db (fst s))"
proof -
  have job: "pj_id (mapJob j) = i" "pj_state (mapJob j) = jb_state j"
    using job_at_id [OF j] by (simp_all add: mapJob_def)
  from run [unfolded provision_def] obtain ks s1
    where ensured: "ensureKeys (noted_repository P) (noted_ports S) (mapJob j) now (w, []) = (Inr ks, s1)"
      and "act_bind (act_lift (keyMap ks)) (\<lambda>keys.
        provision_with (noted_repository P) (noted_ports S) (mapJob j) keys now) s1 = (Inr job, s)"
    by (rule act_bind_InrE)
  then obtain keys where keys: "keyMap ks = Inr keys"
    and rest: "provision_with (noted_repository P) (noted_ports S) (mapJob j) keys now s1 = (Inr job, s)"
    by (cases "keyMap ks") (auto simp: act_bind_basic act_run)
  obtain w1 calls where s1: "s1 = (w1, calls)" by (cases s1) auto
  from ensureKeys_stored [OF ensured [unfolded s1]] keys
  have "unasked calls" "keys_hold i keys (it_db w1)"
    by (auto simp: unasked_def job)
  then have before: "stored (mapJob j) keys s1" by (auto simp: stored_def s1 unasked_def job)
  from preservesD [OF provision_with_stored before rest]
  have held: "keys_hold i keys (it_db (fst s))" by (simp add: stored_def job)
  from ensureKeys_at [OF ensured job(1)] j fresh obtain j' where j':
    "job_at i (it_db (fst s1)) = Some j'" "job_terms j' = job_terms j"
    "jb_state j' = (if jb_state j = Username_Confirmed then Keys_Ready
      else if jb_state j = Retryable_Failed then jb_state j' else jb_state j)"
    "jb_state j = Retryable_Failed \<longrightarrow> jb_state j' \<in> {Keys_Ready, Retryable_Failed}"
    by auto
  define A where "A = (if jb_state j \<in> {Username_Confirmed, Keys_Ready, Account_Creation_Pending,
    Retryable_Failed} then {Keys_Ready, Account_Creation_Pending, Retryable_Failed} else {jb_state j})"
  have row: "at_row i (job_terms j) A s1"
    using j' by (auto simp: at_row_def A_def split: if_splits)
  have names: "fst (job_terms j) ! 3 = jb_requested_hive_username j"
    by (simp add: job_terms_def)
  have goal: "spec (at_row i (fst (job_terms j), snd (job_terms j)) A)
      (provision_with (noted_repository P) (noted_ports S) (mapJob j) keys now)
      (\<lambda>_ s. ready_row i (fst (job_terms j) ! 3) (it_db (fst s)) \<and>
        confirmed (ready_request_of (mapJob j) keys) (snd s)) anyway"
    by (rule provision_with_ready) (use job open_job in \<open>auto simp: A_def\<close>)
  from specD_Inr [OF goal _ rest] row names keys held show ?thesis by auto
qed

text \<open>
  C29. When the coordinator takes a job that was not settled and returns it as ready, the chain has
  been asked, for exactly the stored keys of the four authorities, the player's name and the sponsor
  of the job, and it answered that the account is irreversible, that its authorities match and that
  its resource credits are there. Then the job's row is ready, it names the player with the
  requested user name and a delegation that exists, and the keys are in the table. A job whose user
  name has just been confirmed has no keys before.
\<close>

theorem ready_is_verified:
  assumes "process_job (noted_repository P) (noted_ports S) i now (w, []) = (Inr job, (w', calls))"
    and "job_at i (it_db w) = Some j" and "jb_state j \<notin> {Provisioning_Ready, Terminal_Failed}"
    and "jb_state j = Username_Confirmed \<Longrightarrow> usable_keys i (it_db w) = []"
  shows "\<exists>keys. distinct (map fst keys) \<and> set (map fst keys) = set authorityRoles \<and>
    keys_hold i keys (it_db w') \<and>
    Ready_Asked (ready_request_of (mapJob j) keys) (Some \<lparr>ya_accountIrreversible = True,
      ya_authoritiesMatch = True, ya_initialResourceCreditsReady = True\<rparr>) \<in> set calls \<and>
    (\<exists>j' p d. job_at i (it_db w') = Some j' \<and> jb_state j' = Provisioning_Ready \<and>
      jb_requested_hive_username j' = jb_requested_hive_username j \<and>
      player_named (jb_requested_hive_username j) (it_db w') = Some p \<and>
      jb_resulting_player_id j' = Some (ip_id p) \<and>
      jb_initial_rc_delegation_id j' = Some d \<and> d \<in> set (db_rc_delegations (it_db w')))"
  using assms(1)
proof (cases rule: process_jobE)
  case (worked j1 w1)
  then have j1: "j1 = j" using assms(2) by simp
  from worked(4) have run: "provision (noted_repository P) (noted_ports S) (mapJob j) now (w1, []) =
      (Inr job, (w', calls))"
    unfolding j1
  proof (cases rule: act_catchE)
    case (caught e s)
    from caught(2) show ?thesis by (auto simp: act_run elim!: act_bindE)
  qed simp
  from provision_ready [OF run _ assms(3), of i] worked(2) assms(2,4) obtain ks keys
    where "keyMap ks = Inr keys" "keys_hold i keys (it_db w')"
      "confirmed (ready_request_of (mapJob j) keys) calls"
      "ready_row i (jb_requested_hive_username j) (it_db w')"
    by auto
  with keyMap_Inr(2,3) [of ks keys] set_authorityRoles show ?thesis
    unfolding confirmed_def ready_row_def by blast
qed (use assms(2,3) in auto)

end
