(* ===== verification/Provisioning_Trace.thy ===== *)
theory Provisioning_Trace
  imports Provisioning_Ready
begin

text \<open>
  What holds of the jobs over any interleaving of coordinators, confirmations and the rest of the
  API, and what becomes of a job whose provider fails. A relation that each statement stays in is
  kept by a whole run of the coordinator: the locale proves it once, for every such relation.
\<close>

section \<open>A run of the coordinator\<close>

lemma retry_unassignable: "retry_assignable Unknown_Type = False"
  by (simp add: retry_assignable_def)

lemma failure_refused:
  "pg_markFailure i c at w = (Inl identity_database_error, w\<lparr>it_faults := tl (it_faults w)\<rparr>)"
  unfolding pg_markFailure_def retry_unassignable if_False
  by (simp add: identity_transaction_unfold act_run)

locale provisioning_relation = kept_relation +
  assumes insert_key_kept: "insert_key k db = Some db' \<Longrightarrow> R db db'"
    and keys_ready_kept: "update_jobs (in_states i {Username_Confirmed, Keys_Ready, Retryable_Failed})
      (keys_ready at) db = Some db' \<Longrightarrow> R db db'"
    and account_pending_kept: "update_jobs (in_states i {Keys_Ready, Account_Creation_Pending,
      Retryable_Failed}) (account_pending ref at) db = Some db' \<Longrightarrow> R db db'"
    and account_created_kept: "update_jobs (in_states i {Account_Creation_Pending, Account_Created,
      Retryable_Failed}) (account_created tx at) db = Some db' \<Longrightarrow> R db db'"
    and rc_pending_kept: "update_jobs (in_states i {Account_Created, Rc_Delegation_Pending,
      Retryable_Failed}) (rc_pending at) db = Some db' \<Longrightarrow> R db db'"
    and rc_delegated_kept: "update_jobs (in_states i {Rc_Delegation_Pending, Rc_Delegated,
      Retryable_Failed}) (rc_delegated d at) db = Some db' \<Longrightarrow> R db db'"
    and finished_kept: "update_jobs (in_states i {Rc_Delegated, Retryable_Failed})
      (finished_job p at) db = Some db' \<Longrightarrow> R db db'"
    and finish_kept: "upsert_player q db = Some db' \<Longrightarrow> R db db'"
      "activate_keys i p at db = Some db' \<Longrightarrow> R db db'"
      "link_identity x p at db = Some db' \<Longrightarrow> R db db'"
      "link_acknowledgments x p at db = Some db' \<Longrightarrow> R db db'"
begin

lemma statements_kept:
  "identity_moves R (identity_sql (insert_key k))"
  "identity_moves R (identity_sql (update_jobs (in_states i {Username_Confirmed, Keys_Ready,
     Retryable_Failed}) (keys_ready at)))"
  "identity_moves R (identity_sql (update_jobs (in_states i {Keys_Ready, Account_Creation_Pending,
     Retryable_Failed}) (account_pending ref at)))"
  "identity_moves R (identity_sql (update_jobs (in_states i {Account_Creation_Pending, Account_Created,
     Retryable_Failed}) (account_created tx at)))"
  "identity_moves R (identity_sql (update_jobs (in_states i {Account_Created, Rc_Delegation_Pending,
     Retryable_Failed}) (rc_pending at)))"
  "identity_moves R (identity_sql (update_jobs (in_states i {Rc_Delegation_Pending, Rc_Delegated,
     Retryable_Failed}) (rc_delegated d at)))"
  "identity_moves R (identity_sql (update_jobs (in_states i {Rc_Delegated, Retryable_Failed})
     (finished_job p at)))"
  "identity_moves R (identity_sql (upsert_player q))"
  "identity_moves R (identity_sql (activate_keys i p at))"
  "identity_moves R (identity_sql (link_identity x p at))"
  "identity_moves R (identity_sql (link_acknowledgments x p at))"
  by (rule kept_sql, erule insert_key_kept keys_ready_kept account_pending_kept account_created_kept
      rc_pending_kept rc_delegated_kept finished_kept finish_kept)+

lemma save_keys_kept: "identity_moves R (save_keys_work P i ks at)"
  unfolding save_keys_work_def by (intro kept_moves statements_kept)

lemma mark_ready_kept: "identity_moves R (mark_ready_work P i at)"
  unfolding mark_ready_work_def
  by (auto intro!: kept_bind kept_basic statements_kept split: option.split)

text \<open>\<open>db0\<close> is where the run began.\<close>

definition since :: "identity_db \<Rightarrow> 'u identity \<times> provider_call list \<Rightarrow> bool" where
  "since db0 s \<longleftrightarrow> R db0 (it_db (fst s))"

lemma transaction_since:
  assumes "identity_moves R work"
  shows "preserves (since db0) (act_fst (identity_transaction work))"
proof (rule preservesI)
  fix s r s'
  assume P: "since db0 s" and run: "act_fst (identity_transaction work) s = (r, s')"
  obtain w calls where s: "s = (w, calls)" by (cases s) auto
  from run obtain w' where "identity_transaction work w = (r, w')" and s': "s' = (w', calls)"
    unfolding s by (rule act_fstE)
  from kept_transaction [OF assms this(1)] P kept_trans show "since db0 s'"
    by (auto simp: since_def s s')
qed

lemma repository_since:
  "preserves (since db0) (act_fst (pg_getJobForUpdate i))"
  "preserves (since db0) (act_fst (pg_getKeys i))"
  "preserves (since db0) (act_fst (pg_saveKeys P i ks at))"
  "preserves (since db0) (act_fst (pg_markAccountCreationPending i ref at))"
  "preserves (since db0) (act_fst (pg_markAccountCreated i tx at))"
  "preserves (since db0) (act_fst (pg_markRcDelegationPending i at))"
  "preserves (since db0) (act_fst (pg_markRcDelegated i d at))"
  "preserves (since db0) (act_fst (pg_markReady P i at))"
  unfolding pg_getJobForUpdate_def pg_getKeys_def pg_saveKeys_def pg_markAccountCreationPending_def
    pg_markAccountCreated_def pg_markRcDelegationPending_def pg_markRcDelegated_def pg_markReady_def
  by (rule transaction_since, intro kept_bind kept_basic statements_kept save_keys_kept mark_ready_kept)+

lemma noted_since: "preserves (since db0) (noted c m)"
proof (rule preservesI)
  fix s r s'
  assume P: "since db0 s" and run: "noted c m s = (r, s')"
  obtain w calls where s: "s = (w, calls)" by (cases s) auto
  from run [unfolded s] show "since db0 s'"
    by (rule notedE) (use P in \<open>simp add: since_def s\<close>)
qed

lemma provision_since:
  "preserves (since db0) (provision (noted_repository P) (noted_ports S) job now)"
  unfolding provision_def ensureKeys_def provision_with_def create_account_def delegate_credits_def
    noted_simps
  by (intro preserves_bind preserves_if preserves_basic repository_since noted_since)

text \<open>The statement that records a failure is refused, so it keeps whatever is there.\<close>

lemma failure_since: "preserves (since db0) (act_fst (pg_markFailure i c at))"
  unfolding pg_markFailure_def retry_unassignable if_False
  by (rule transaction_since, rule kept_basic)

lemma process_kept:
  assumes "process_job (noted_repository P) (noted_ports S) i now (w, calls) = (r, (w', calls'))"
  shows "R (it_db w) (it_db w')"
proof -
  have "preserves (since (it_db w)) (process_job (noted_repository P) (noted_ports S) i now)"
    unfolding process_job_def noted_simps
    by (intro preserves_bind preserves_option preserves_if preserves_catch preserves_basic
        provision_since repository_since failure_since)
  from preservesD [OF this _ assms] show ?thesis by (simp add: since_def kept_refl)
qed

end

section \<open>Relations of the jobs\<close>

lemma insert_key_job_at: "insert_key k db = Some db' \<Longrightarrow> job_at i db' = job_at i db"
  by (simp add: job_at_def insert_key_jobs)

lemma finish_job_at:
  "activate_keys i p at db = Some db' \<Longrightarrow> job_at j db' = job_at j db"
  "link_identity x p at db = Some db' \<Longrightarrow> job_at j db' = job_at j db"
  "link_acknowledgments x p at db = Some db' \<Longrightarrow> job_at j db' = job_at j db"
  "upsert_player q db = Some db' \<Longrightarrow> job_at j db' = job_at j db"
  by (simp_all add: job_at_def finish_jobs)

interpretation lifecycle: provisioning_relation jobs_follow
proof unfold_locales
  fix k db db' i at assume "insert_key k db = Some db'"
  then show "jobs_follow db db'" by (intro jobs_follow_same insert_key_jobs)
next
  fix q db db' assume "upsert_player q db = Some db'"
  then show "jobs_follow db db'" by (intro jobs_follow_same finish_jobs)
next
  fix i p at db db' assume "activate_keys i p at db = Some db'"
  then show "jobs_follow db db'" by (intro jobs_follow_same finish_jobs(1))
next
  fix x p at db db' assume "link_identity x p at db = Some db'"
  then show "jobs_follow db db'" by (intro jobs_follow_same finish_jobs(2))
next
  fix x p at db db' assume "link_acknowledgments x p at db = Some db'"
  then show "jobs_follow db db'" by (intro jobs_follow_same finish_jobs(3))
qed (erule update_jobs_follow, rule steps_follow, force simp: in_states_def)+

text \<open>What a failure would write is not written: unless the job becomes ready.\<close>

definition not_failed :: "job_row \<Rightarrow> job_row \<Rightarrow> bool" where
  "not_failed j j' \<longleftrightarrow>
     (jb_state j = Provisioning_Ready \<longrightarrow> j' = j) \<and>
     (jb_state j' = Retryable_Failed \<longrightarrow> jb_state j = Retryable_Failed) \<and>
     (jb_state j' = Provisioning_Ready \<or>
        jb_last_failure_code j' = jb_last_failure_code j \<and> jb_next_retry_at j' = jb_next_retry_at j)"

definition unrecorded :: "string \<Rightarrow> identity_db \<Rightarrow> identity_db \<Rightarrow> bool" where
  "unrecorded i db db' \<longleftrightarrow>
     (\<forall>j. job_at i db = Some j \<longrightarrow> (\<exists>j'. job_at i db' = Some j' \<and> not_failed j j'))"

lemma not_failed_refl [simp]: "not_failed j j"
  by (simp add: not_failed_def)

lemma unrecorded_same: "job_at i db' = job_at i db \<Longrightarrow> unrecorded i db db'"
  by (simp add: unrecorded_def)

lemma unrecorded_update:
  assumes "update_jobs Q f db = Some db'" and "\<And>j. jb_id (f j) = jb_id j"
    and "\<And>j. Q j \<Longrightarrow> not_failed j (f j)"
  shows "unrecorded i db db'"
  using update_jobs_at [OF assms(1,2), of i] assms(3) by (auto simp: unrecorded_def)

lemma steps_not_failed:
  assumes "jb_state j \<noteq> Provisioning_Ready"
  shows "not_failed j (keys_ready at j)" and "not_failed j (account_pending ref at j)"
    and "not_failed j (account_created tx at j)" and "not_failed j (rc_pending at j)"
    and "not_failed j (rc_delegated d at j)" and "not_failed j (finished_job p at j)"
  using assms
  by (simp_all add: not_failed_def touch_def keys_ready_def account_pending_def account_created_def
      rc_pending_def rc_delegated_def finished_job_def)

lemma not_failed_trans: "not_failed j k \<Longrightarrow> not_failed k l \<Longrightarrow> not_failed j l"
  unfolding not_failed_def by (cases "jb_state k = Provisioning_Ready") auto

lemma unrecorded_trans: "unrecorded i db1 db2 \<Longrightarrow> unrecorded i db2 db3 \<Longrightarrow> unrecorded i db1 db3"
  unfolding unrecorded_def by (blast intro: not_failed_trans)

interpretation failures: provisioning_relation "unrecorded i" for i
proof unfold_locales
  show "unrecorded i db db" for db by (simp add: unrecorded_def)
  show "unrecorded i db1 db3" if "unrecorded i db1 db2" "unrecorded i db2 db3" for db1 db2 db3
    using that by (rule unrecorded_trans)
next
  fix k db db' assume "insert_key k db = Some db'"
  then show "unrecorded i db db'" by (intro unrecorded_same insert_key_job_at)
next
  fix q db db' assume "upsert_player q db = Some db'"
  then show "unrecorded i db db'" by (intro unrecorded_same finish_job_at)
next
  fix j p at db db' assume "activate_keys j p at db = Some db'"
  then show "unrecorded i db db'" by (intro unrecorded_same finish_job_at(1))
next
  fix x p at db db' assume "link_identity x p at db = Some db'"
  then show "unrecorded i db db'" by (intro unrecorded_same finish_job_at(2))
next
  fix x p at db db' assume "link_acknowledgments x p at db = Some db'"
  then show "unrecorded i db db'" by (intro unrecorded_same finish_job_at(3))
qed (erule unrecorded_update, simp, rule steps_not_failed, force simp: in_states_def)+

section \<open>Failures\<close>

lemma provision_handler:
  "act_bind (act_fst (pg_markFailure i c now)) (\<lambda>_. act_fail e) (w, calls) =
     (Inl identity_database_error, (w\<lparr>it_faults := tl (it_faults w)\<rparr>, calls))"
  by (simp add: act_bind_def act_fst_eq failure_refused)

text \<open>
  C30. When the work on an open job fails, for whatever reason, what is thrown is a database error:
  the statement that should note the failure and the time of the next attempt is refused, because
  PostgreSQL reads its \<open>$3 + interval '30 seconds'\<close> as an interval. The job keeps its failure code
  and its retry time, and is not moved to \<open>retryable_failed\<close>, unless it has become ready. This is not
  what \<open>provisioning.service.spec.ts\<close> (whose repository is a stub) and the documentation expect: a
  retryable job with the time of its next attempt.
\<close>

theorem failure_is_never_recorded:
  assumes "process_job (noted_repository P) (noted_ports S) i now (w, calls) = (Inl e, (w', calls'))"
    and "job_at i (it_db w) = Some j" and "jb_state j \<notin> {Provisioning_Ready, Terminal_Failed}"
  shows "e = identity_database_error \<and> (\<exists>j'. job_at i (it_db w') = Some j' \<and>
    (jb_state j' = Retryable_Failed \<longrightarrow> jb_state j = Retryable_Failed) \<and>
    (jb_state j' = Provisioning_Ready \<or>
       jb_last_failure_code j' = jb_last_failure_code j \<and> jb_next_retry_at j' = jb_next_retry_at j))"
proof (rule conjI)
  from failures.process_kept [OF assms(1), of i] assms(2)
  show "\<exists>j'. job_at i (it_db w') = Some j' \<and>
    (jb_state j' = Retryable_Failed \<longrightarrow> jb_state j = Retryable_Failed) \<and>
    (jb_state j' = Provisioning_Ready \<or>
       jb_last_failure_code j' = jb_last_failure_code j \<and> jb_next_retry_at j' = jb_next_retry_at j)"
    unfolding unrecorded_def not_failed_def by blast
  show "e = identity_database_error"
    using assms(1)
  proof (cases rule: process_jobE)
    case unread
    then show ?thesis using assms(2) by simp
  next
    case (settled j1)
    with assms(2,3) show ?thesis by auto
  next
    case (worked j1 w1)
    from worked(4) show ?thesis
    proof (cases rule: act_catchE)
      case (caught e1 s)
      then show ?thesis by (cases s) (simp add: provision_handler)
    qed simp
  qed
qed

section \<open>Traces\<close>

text \<open>
  A coordinator with any providers takes any job at any time and ends in any way; a name is
  confirmed for an identity; other parts of the API change other tables.
\<close>

inductive provisioning_trace ::
  "'u identity_options \<Rightarrow> 'u identity \<Rightarrow> 'u identity \<Rightarrow> bool" for P where
  Start: "provisioning_trace P w w"
| Worked: "provisioning_trace P w0 w \<Longrightarrow>
    process_job (noted_repository P) (noted_ports S) i now (w, []) = (r, (w', calls)) \<Longrightarrow>
    provisioning_trace P w0 w'"
| Confirmed: "provisioning_trace P w0 w \<Longrightarrow>
    pg_confirmUsername P config x username key now dbNow w = (r', w') \<Longrightarrow>
    provisioning_trace P w0 w'"
| Elsewhere: "provisioning_trace P w0 w \<Longrightarrow> db_jobs (it_db w') = db_jobs (it_db w) \<Longrightarrow>
    provisioning_trace P w0 w'"

lemma apart_append:
  "apart C (xs @ [x]) \<longleftrightarrow> apart C xs \<and> list_all (\<lambda>y. \<not> C y x) xs"
  by (induction xs) auto

lemma insert_job_follows: "insert_job j db = Some db' \<Longrightarrow> jobs_follow db db'"
  by (auto simp: insert_job_def jobs_follow_def jobs_ok_def apart_append split: if_splits
      intro: job_follows_refl)

lemma confirm_moves: "identity_moves jobs_follow (confirm_work P config x username key now dbNow)"
  unfolding confirm_work_def Let_def
  by (auto intro!: lifecycle.kept_bind lifecycle.kept_basic lifecycle.kept_sql insert_job_follows
      split: option.split)

lemma confirm_follows:
  assumes "pg_confirmUsername P config x username key now dbNow w = (r, w')"
  shows "jobs_follow (it_db w) (it_db w')"
  using assms unfolding pg_confirmUsername_def on_pool_def
  by (cases "io_configured P")
    (auto simp: act_bind_basic act_run intro: lifecycle.kept_transaction [OF confirm_moves] jobs_follow_same)

lemma trace_follows: "provisioning_trace P w w' \<Longrightarrow> jobs_follow (it_db w) (it_db w')"
proof (induction rule: provisioning_trace.induct)
  case (Worked w0 w S i now r w' calls)
  from lifecycle.process_kept [OF Worked.hyps(2)] Worked.IH show ?case
    by (blast intro: lifecycle.kept_trans)
next
  case (Confirmed w0 w config x username key now dbNow r w')
  from confirm_follows [OF Confirmed.hyps(2)] Confirmed.IH show ?case
    by (blast intro: lifecycle.kept_trans)
next
  case (Elsewhere w0 w w')
  then show ?case by (blast intro: lifecycle.kept_trans jobs_follow_same)
qed (simp add: jobs_follow_same)

lemma apart_unique:
  assumes "apart C xs" and "x \<in> set xs" and "y \<in> set xs" and "C x y" and "C y x"
  shows "x = y"
  using assms by (induction xs) (auto simp: list_all_iff)

lemma same_some_sym: "same_some x y = same_some y x"
  by (auto simp: same_some_def)

lemma jobs_conflict_sym: "jobs_conflict j k \<Longrightarrow> jobs_conflict k j"
  unfolding jobs_conflict_def by (metis same_some_sym)

lemma jobs_unique:
  "jobs_ok db \<Longrightarrow> j \<in> set (db_jobs db) \<Longrightarrow> k \<in> set (db_jobs db) \<Longrightarrow> jobs_conflict j k \<Longrightarrow> j = k"
  unfolding jobs_ok_def by (blast intro: apart_unique jobs_conflict_sym)


section \<open>Confirmations\<close>

lemma find_snoc: "find Q xs = None \<Longrightarrow> find Q (xs @ [x]) = (if Q x then Some x else None)"
  by (induction xs) (auto split: if_splits)

lemma mapStatus_fields:
  "mapStatus H j = Inr v \<Longrightarrow> pj_id v = jb_id j \<and> pj_externalIdentityId v = jb_external_identity_id j \<and>
     pj_requestedHiveUsername v = jb_requested_hive_username j \<and>
     pj_idempotencyKey v = jb_idempotency_key j \<and> pj_sponsorHiveAccount v = jb_sponsor_hive_account j"
  by (auto simp: mapStatus_def ebind_eq_Inr)

text \<open>A confirmation that returns has found the job of the identity with this name, or made it.\<close>

lemma confirmed_job:
  assumes "pg_confirmUsername P config x username key now dbNow w = (Inr v, w')"
  shows "\<exists>j. job_of_identity x (it_db w') = Some j \<and> jb_requested_hive_username j = username \<and>
    mapStatus (io_host P) j = Inr v \<and>
    (case job_of_identity x (it_db w) of None \<Rightarrow> True | Some k \<Rightarrow> j = k)"
proof -
  from assms obtain w0 where w0: "it_db w0 = it_db w"
    and work: "confirm_work P config x username key now dbNow w0 = (Inr v, w')"
    unfolding pg_confirmUsername_def by (rule on_pool_InrE)
  show ?thesis
  proof (cases "job_of_identity x (it_db w)")
    case (Some k)
    with work w0 show ?thesis
      by (auto simp: confirm_work_def act_run elim!: act_bind_InrE act_bind_ensureE identity_readE)
  next
    case None
    then have none: "find (\<lambda>j. jb_external_identity_id j = x) (db_jobs (it_db w)) = None"
      by (simp add: job_of_identity_def)
    from work None w0 obtain i db
      where ins: "insert_job (new_job i config x username key now dbNow) (it_db w) = Some db"
        and db: "it_db w' = db" and v: "mapStatus (io_host P) (new_job i config x username key now dbNow) = Inr v"
      by (auto simp: confirm_work_def Let_def act_run
          elim!: act_bind_InrE act_bind_ensureE identity_readE drawE identity_sql_InrE)
    from ins have "db_jobs db = db_jobs (it_db w) @ [new_job i config x username key now dbNow]"
      by (auto simp: insert_job_def split: if_splits)
    then have "job_of_identity x db = Some (new_job i config x username key now dbNow)"
      using find_snoc [OF none] by (simp add: job_of_identity_def new_job_def)
    with v db None show ?thesis by (simp add: new_job_def)
  qed
qed

lemma job_of_identityD:
  "job_of_identity x db = Some j \<Longrightarrow> j \<in> set (db_jobs db) \<and> jb_external_identity_id j = x"
  by (auto simp: job_of_identity_def find_Some_iff)

text \<open>
  C32. An identity confirms one Hive name: when a confirmation has returned a job, then whatever the
  coordinators and the providers do, any later confirmation of the identity that returns is of the
  same name and returns the same job, with the sponsor and the idempotency key of the first one,
  whichever are configured and sent by then.
\<close>

theorem name_confirmed_once:
  assumes "pg_confirmUsername P config x username key now dbNow w = (Inr first, w1)"
    and "provisioning_trace P w1 w2" and "jobs_ok (it_db w)"
    and "pg_confirmUsername P config' x username' key' now' dbNow' w2 = (Inr second, w3)"
  shows "username' = username \<and> pj_id second = pj_id first \<and>
    pj_idempotencyKey second = pj_idempotencyKey first \<and>
    pj_sponsorHiveAccount second = pj_sponsorHiveAccount first \<and>
    job_of_identity x (it_db w3) = job_of_identity x (it_db w2)"
proof -
  from confirmed_job [OF assms(1)] obtain j where j: "job_of_identity x (it_db w1) = Some j"
    "jb_requested_hive_username j = username" "mapStatus (io_host P) j = Inr first"
    by blast
  from confirm_follows [OF assms(1)] assms(3) have ok1: "jobs_ok (it_db w1)"
    by (simp add: jobs_follow_def)
  with trace_follows [OF assms(2)] job_of_identityD [OF j(1)] obtain j'
    where j': "j' \<in> set (db_jobs (it_db w2))" "job_follows j j'" and ok2: "jobs_ok (it_db w2)"
    unfolding jobs_follow_def by blast
  have x: "jb_external_identity_id j' = x"
    using j'(2) job_of_identityD [OF j(1)] by (simp add: job_follows_def job_terms_def)
  with j'(1) obtain k where k: "job_of_identity x (it_db w2) = Some k"
    by (cases "job_of_identity x (it_db w2)") (auto simp: job_of_identity_def find_None_iff)
  have "k = j'"
    using jobs_unique [OF ok2] job_of_identityD [OF k] j'(1) x by (auto simp: jobs_conflict_def)
  with confirmed_job [OF assms(4)] k have second: "job_of_identity x (it_db w3) = Some j'"
    "jb_requested_hive_username j' = username'" "mapStatus (io_host P) j' = Inr second"
    by auto
  with mapStatus_fields [OF second(3)] mapStatus_fields [OF j(3)] j(2) j'(2) k \<open>k = j'\<close> show ?thesis
    by (simp add: job_follows_def job_terms_def)
qed

end
