(* ===== verification/Provisioning_Examples.thy ===== *)
theory Provisioning_Examples
  imports Provisioning_Trace
begin

text \<open>
  One Google player's way to an account, on which the properties of provisioning are seen to hold:
  the name is confirmed, and the coordinator takes the job to its end, or loses its sponsor.
\<close>

definition fixture_sponsor :: onboarding_config where
  "fixture_sponsor = \<lparr>oc_sponsorHiveAccount = ''sponsor'', oc_sponsorPolicyVersion = ''v1'',
     oc_sponsorProgram = ''program''\<rparr>"

definition fixture_newcomer :: external_identity_row where
  "fixture_newcomer = \<lparr>ei_id = ''g'', ei_verified_issuer = ''google'', ei_subject_lookup_hash = ''h'',
     ei_player_id = None, ei_status = Identity_Provisioning, ei_verified_at = 1000,
     ei_linked_at = None, ei_last_authenticated_at = 1000, ei_updated_at = 1000\<rparr>"

definition provisioning_options :: "nat identity_options" where
  "provisioning_options = \<lparr>io_configured = True, io_host = fixture_token_host,
     io_uuid = (\<lambda>n. ([char_of (97 + n)], n + 1))\<rparr>"

definition onboarding_world :: "nat identity" where
  "onboarding_world = \<lparr>it_db = \<lparr>db_challenges = [], db_players = [], db_sessions = [],
     db_identities = [fixture_newcomer], db_disclosures = [], db_acknowledgments = [],
     db_jobs = [], db_keys = [], db_rc_delegations = [''d'']\<rparr>, it_out = 0, it_faults = []\<rparr>"

definition newcomer_keys :: "key_reference list" where
  "newcomer_keys = map (\<lambda>(role, name). \<lparr>kr_authorityRole = role, kr_hivePublicKey = ''STM-'' @ name,
     kr_providerKeyReference = ''kms-'' @ name\<rparr>)
     [(Owner_Key, ''owner''), (Active_Key, ''active''), (Posting_Key, ''posting''), (Memo_Key, ''memo'')]"

definition fixture_provider :: "ready_answer \<Rightarrow> nat provisioning_ports" where
  "fixture_provider v = \<lparr>
     pp_generateAuthorityKeys = (\<lambda>_. act_ok newcomer_keys),
     pp_createClaimedAccount = (\<lambda>_. act_ok \<lparr>aa_requestReference = ''request'', aa_transactionId = ''tx''\<rparr>),
     pp_delegateInitialResourceCredits = (\<lambda>_. act_ok ''d''),
     pp_verifyReady = (\<lambda>_. act_ok v)\<rparr>"

definition all_ready :: ready_answer where
  "all_ready = \<lparr>ya_accountIrreversible = True, ya_authoritiesMatch = True,
     ya_initialResourceCreditsReady = True\<rparr>"

definition confirmation :: "(exn + provisioning_status) \<times> nat identity" where
  "confirmation = pg_confirmUsername provisioning_options fixture_sponsor (ei_id fixture_newcomer) ''dave''
     ''first'' 1000 1000 onboarding_world"

definition fixture_job :: job_row where
  "fixture_job = new_job ''a'' fixture_sponsor (ei_id fixture_newcomer) ''dave'' ''first'' 1000 1000"

definition newcomer_run :: "ready_answer \<Rightarrow>
    (exn + provisioning_job) \<times> nat identity \<times> provider_call list" where
  "newcomer_run v = process_job (noted_repository provisioning_options) (noted_ports (fixture_provider v))
     ''a'' 2000 (snd confirmation, [])"

lemma ended_well: "\<not> isl (fst p) \<Longrightarrow> \<exists>r. p = (Inr r, snd p)"
  by (cases p; cases "fst p") auto

lemma confirmation_answers: "\<exists>v. confirmation = (Inr v, snd confirmation)"
  by (rule ended_well) code_simp

lemma confirmed_row: "job_at ''a'' (it_db (snd confirmation)) = Some fixture_job"
  by code_simp

lemma newcomer_runs: "newcomer_run all_ready =
    (Inr ((mapJob fixture_job)\<lparr>pj_state := Provisioning_Ready\<rparr>), snd (newcomer_run all_ready))"
proof -
  have "fst (newcomer_run all_ready) = Inr ((mapJob fixture_job)\<lparr>pj_state := Provisioning_Ready\<rparr>)"
    by code_simp
  then show ?thesis by (metis prod.collapse)
qed

definition nothing_ready :: ready_answer where
  "nothing_ready = all_ready\<lparr>ya_accountIrreversible := False\<rparr>"

lemma fixture_fails: "newcomer_run nothing_ready = (Inl identity_database_error, snd (newcomer_run nothing_ready))"
proof -
  have "isl (fst (newcomer_run nothing_ready)) \<and> projl (fst (newcomer_run nothing_ready)) = identity_database_error"
    by code_simp
  then show ?thesis by (cases "newcomer_run nothing_ready"; cases "fst (newcomer_run nothing_ready)") auto
qed

fun is_account_call :: "provider_call \<Rightarrow> bool" where
  "is_account_call (Account_Asked q) = True"
| "is_account_call _ = False"

lemma account_keys_stored_witness:
  "\<exists>q keys. Account_Asked q \<in> set (snd (snd (newcomer_run all_ready))) \<and>
     q = account_request_of (mapJob fixture_job) keys \<and>
     keys_hold ''a'' keys (it_db (fst (snd (newcomer_run all_ready))))"
proof -
  have "list_ex is_account_call (snd (snd (newcomer_run all_ready)))" by code_simp
  then obtain q where q: "Account_Asked q \<in> set (snd (snd (newcomer_run all_ready)))"
    by (auto simp: list_ex_iff elim: is_account_call.elims)
  have run: "process_job (noted_repository provisioning_options) (noted_ports (fixture_provider all_ready))
      ''a'' 2000 (snd confirmation, []) = (fst (newcomer_run all_ready),
        (fst (snd (newcomer_run all_ready)), snd (snd (newcomer_run all_ready))))"
    by (simp add: newcomer_run_def)
  from account_keys_stored [OF run q] confirmed_row q show ?thesis by auto
qed

lemma fresh_job: "usable_keys ''a'' (it_db (snd confirmation)) = []"
  by code_simp

lemma ready_is_verified_witness:
  "\<exists>j p. job_at ''a'' (it_db (fst (snd (newcomer_run all_ready)))) = Some j \<and>
     jb_state j = Provisioning_Ready \<and> jb_resulting_player_id j = Some (ip_id p) \<and>
     player_named ''dave'' (it_db (fst (snd (newcomer_run all_ready)))) = Some p"
proof -
  have run: "process_job (noted_repository provisioning_options) (noted_ports (fixture_provider all_ready))
      ''a'' 2000 (snd confirmation, []) = (Inr ((mapJob fixture_job)\<lparr>pj_state := Provisioning_Ready\<rparr>),
        (fst (snd (newcomer_run all_ready)), snd (snd (newcomer_run all_ready))))"
    using newcomer_runs by (simp add: newcomer_run_def)
  have new: "jb_state fixture_job \<notin> {Provisioning_Ready, Terminal_Failed}"
    "jb_requested_hive_username fixture_job = ''dave''"
    by (simp_all add: fixture_job_def new_job_def)
  from ready_is_verified [OF run confirmed_row new(1)] fresh_job new(2) show ?thesis by auto
qed

lemma failure_is_never_recorded_witness:
  "\<exists>j. job_at ''a'' (it_db (fst (snd (newcomer_run nothing_ready)))) = Some j \<and>
     jb_state j \<noteq> Retryable_Failed"
proof -
  have run: "process_job (noted_repository provisioning_options) (noted_ports (fixture_provider nothing_ready))
      ''a'' 2000 (snd confirmation, []) = (Inl identity_database_error,
        (fst (snd (newcomer_run nothing_ready)), snd (snd (newcomer_run nothing_ready))))"
    using fixture_fails by (simp add: newcomer_run_def)
  have new: "jb_state fixture_job \<notin> {Provisioning_Ready, Terminal_Failed}"
    "jb_state fixture_job \<noteq> Retryable_Failed"
    by (simp_all add: fixture_job_def new_job_def)
  from failure_is_never_recorded [OF run confirmed_row new(1)] new(2) show ?thesis by auto
qed


lemma confirmed_ok: "jobs_ok (it_db onboarding_world)" "jobs_ok (it_db (snd confirmation))"
  by code_simp+


text \<open>The name is confirmed again, with another sponsor and another key.\<close>

definition confirmed_again :: "(exn + provisioning_status) \<times> nat identity" where
  "confirmed_again = pg_confirmUsername provisioning_options (fixture_sponsor\<lparr>oc_sponsorHiveAccount := ''other''\<rparr>)
     (ei_id fixture_newcomer) ''dave'' ''second'' 3000 3000 (snd confirmation)"

lemma name_confirmed_once_witness:
  "\<exists>v v'. fst confirmation = Inr v \<and> fst confirmed_again = Inr v' \<and> pj_id v' = pj_id v \<and>
     pj_idempotencyKey v' = pj_idempotencyKey v"
proof -
  from confirmation_answers obtain v where v: "confirmation = (Inr v, snd confirmation)" ..
  have "\<not> isl (fst confirmed_again)" by code_simp
  from ended_well [OF this] obtain v' w where v': "confirmed_again = (Inr v', w)" by blast
  have first: "pg_confirmUsername provisioning_options fixture_sponsor (ei_id fixture_newcomer) ''dave''
      ''first'' 1000 1000 onboarding_world = (Inr v, snd confirmation)"
    using v by (simp add: confirmation_def)
  from name_confirmed_once [OF first provisioning_trace.Start confirmed_ok(1)
      v' [unfolded confirmed_again_def]] v v'
  show ?thesis by (metis fst_conv)
qed

end
