(* ===== verification/Collectible_Issuer.thy ===== *)
theory Collectible_Issuer
  imports Gateway Publisher_Store
begin

text \<open>
  The issuer of collectibles (\<open>collectible-issuer/src\<close>): a command becomes an event, the event a
  prepared transaction, which is journaled before it is signed and broadcast; the journal then notes
  how it ended. The journal is a table (\<open>postgres-journal.ts\<close>), shared with the other services of
  the same kind; each method is one statement of its own.
\<close>

section \<open>Commands and records\<close>

record issue_command =
  ic_eventId :: string
  ic_occurredAt :: string
  ic_attemptNumber :: int
  ic_collectibleId :: string
  ic_definitionId :: string
  ic_kind :: collectible_kind
  ic_owner :: string
  ic_reason :: string
  ic_metadataUri :: string
  ic_metadataSha256 :: string
  ic_paymentTransactionId :: "string option"

record revoke_command =
  rc_eventId :: string
  rc_occurredAt :: string
  rc_attemptNumber :: int
  rc_collectibleId :: string
  rc_issuedEventId :: string
  rc_reasonCode :: string

record collectible_record =
  ct_id :: string
  ct_idempotencyKey :: string
  ct_operationKind :: string
  ct_canonicalOperationHash :: string
  ct_policyVersion :: string
  ct_transactionId :: string
  ct_validatedAt :: int
  ct_expiresAt :: int

record collectible_result =
  cl_eventId :: string
  cl_transactionId :: string
  cl_eventType :: string

record 's collectible_journal =
  cj_recordPrepared :: "collectible_record \<Rightarrow> ('s, unit) action"
  cj_markBroadcast :: "string \<Rightarrow> string \<Rightarrow> int \<Rightarrow> ('s, unit) action"
  cj_markFailed :: "string \<Rightarrow> string \<Rightarrow> string \<Rightarrow> int \<Rightarrow> ('s, unit) action"

section \<open>The service\<close>

record ('c, 'w) issuer =
  iu_host :: host
  iu_chain :: "'c chain_port"
  iu_signer :: "'w signer_client"
  iu_journal :: "('c \<times> 'w) collectible_journal"
  iu_authorization :: authorization
  iu_expirationSeconds :: int
  iu_nextUuidV7 :: "('c \<times> 'w, string) action"
  iu_now :: "'c \<times> 'w \<Rightarrow> int \<times> ('c \<times> 'w)"

text \<open>The checks of the constructor; \<open>expiration\<close> is \<open>options.transactionExpirationSeconds\<close>.\<close>

definition CollectibleIssuerService_new :: "('c, 'w) issuer \<Rightarrow> int option \<Rightarrow> exn + ('c, 'w) issuer" where
  "CollectibleIssuerService_new I expiration =
     ebind (ensure (\<not> (au_role (iu_authorization I) \<noteq> Collectible_Issuer \<or>
         au_authority (iu_authorization I) \<noteq> Posting))
       (HiveGatewayError invalid_authorization)) (\<lambda>_.
     let seconds = (case expiration of None \<Rightarrow> 300 | Some n \<Rightarrow> n) in
     ebind (ensure (\<not> (\<not> is_safe_integer seconds \<or> seconds < 10 \<or> seconds > 3600))
       (HiveGatewayError invalid_authorization)) (\<lambda>_.
     Inr (I\<lparr>iu_expirationSeconds := seconds\<rparr>)))"

definition issuer_uuid :: "string \<Rightarrow> exn + string" where
  "issuer_uuid v =
     ebind (ensure (match_seq uuid_v7_pattern v) (HiveGatewayError invalid_authorization)) (\<lambda>_. Inr v)"

definition issuer_failure_code :: "exn \<Rightarrow> string" where
  "issuer_failure_code error =
     (case error of HiveGatewayError c \<Rightarrow> gateway_code_name c | _ \<Rightarrow> ''publication_failed'')"

fun event_uuid :: "event \<Rightarrow> string" where
  "event_uuid (Match_Results_Batch b) = mb_event_id b"
| "event_uuid (Match_Result_Corrected c) = mc_event_id c"
| "event_uuid (Match_Result_Invalidated v) = mi_event_id v"
| "event_uuid (Collectible_Issued c) = ci_event_id c"
| "event_uuid (Collectible_Revoked c) = cr_event_id c"

definition collectible_key :: "event \<Rightarrow> int \<Rightarrow> string" where
  "collectible_key event attemptNumber =
     ''collectible:'' @ event_uuid event @ '':attempt:'' @ nat_text (nat attemptNumber)"

definition issuer_clock :: "('c, 'w) issuer \<Rightarrow> ('c \<times> 'w, int) action" where
  "issuer_clock I = (\<lambda>w. let (t, w') = iu_now I w in (Inr t, w'))"

definition collectible_intent :: "('c, 'w) issuer \<Rightarrow> event \<Rightarrow> int \<Rightarrow> intent" where
  "collectible_intent I event attemptNumber = \<lparr>
     in_idempotencyKey = collectible_key event attemptNumber,
     in_policyVersion = au_policyVersion (iu_authorization I), in_event = event,
     in_expirationSeconds = Some (iu_expirationSeconds I)\<rparr>"

definition collectible_record_of ::
  "('c, 'w) issuer \<Rightarrow> event \<Rightarrow> int \<Rightarrow> string \<Rightarrow> prepared_event \<Rightarrow> int \<Rightarrow> exn + collectible_record" where
  "collectible_record_of I event attemptNumber recordId prepared preparedAt =
     ebind (instant (iu_host I) preparedAt) (\<lambda>validatedAt.
     ebind (instant (iu_host I) (preparedAt + iu_expirationSeconds I * 1000)) (\<lambda>expiresAt.
     Inr \<lparr>ct_id = recordId, ct_idempotencyKey = collectible_key event attemptNumber,
       ct_operationKind = event_type event,
       ct_canonicalOperationHash = pe_canonicalOperationHash prepared,
       ct_policyVersion = pe_policyVersion prepared, ct_transactionId = tx_transactionId prepared,
       ct_validatedAt = validatedAt, ct_expiresAt = expiresAt\<rparr>))"

text \<open>The \<open>try\<close> block of \<open>publish\<close>, and its handler, which throws the error again.\<close>

definition publish_prepared ::
  "('c, 'w) issuer \<Rightarrow> event \<Rightarrow> string \<Rightarrow> prepared_event \<Rightarrow> ('c \<times> 'w, collectible_result) action" where
  "publish_prepared I event recordId prepared =
     act_catch
       (act_bind (broadcastOfficialEvent (iu_chain I) prepared (iu_signer I)) (\<lambda>result.
        act_bind (issuer_clock I) (\<lambda>now.
        act_bind (act_lift (instant (iu_host I) now)) (\<lambda>broadcastAt.
        act_bind (cj_markBroadcast (iu_journal I) recordId (br_transactionId result) broadcastAt) (\<lambda>_.
        act_ok \<lparr>cl_eventId = event_uuid event, cl_transactionId = br_transactionId result,
          cl_eventType = event_type event\<rparr>)))))
       (\<lambda>error.
        act_bind (issuer_clock I) (\<lambda>now.
        act_bind (act_lift (instant (iu_host I) now)) (\<lambda>failedAt.
        act_bind (cj_markFailed (iu_journal I) recordId (tx_transactionId prepared)
          (issuer_failure_code error) failedAt) (\<lambda>_.
        act_fail error))))"

definition publish_collectible ::
  "('c, 'w) issuer \<Rightarrow> event \<Rightarrow> int \<Rightarrow> ('c \<times> 'w, collectible_result) action" where
  "publish_collectible I event attemptNumber =
     act_bind (act_ensure (\<not> (\<not> is_safe_integer attemptNumber \<or> attemptNumber < 1 \<or>
       attemptNumber > 1000000)) (HiveGatewayError invalid_event)) (\<lambda>_.
     act_bind (act_fst (prepareOfficialEvent (iu_host I) (iu_chain I)
       (collectible_intent I event attemptNumber) (iu_authorization I))) (\<lambda>prepared.
     act_bind (iu_nextUuidV7 I) (\<lambda>value.
     act_bind (act_lift (issuer_uuid value)) (\<lambda>recordId.
     act_bind (issuer_clock I) (\<lambda>preparedAt.
     act_bind (act_lift (collectible_record_of I event attemptNumber recordId prepared preparedAt)) (\<lambda>rec.
     act_bind (cj_recordPrepared (iu_journal I) rec) (\<lambda>_.
     publish_prepared I event recordId prepared)))))))"

definition issued_event :: "('c, 'w) issuer \<Rightarrow> issue_command \<Rightarrow> event" where
  "issued_event I command = Collectible_Issued \<lparr>
     ci_event_id = ic_eventId command, ci_occurred_at = ic_occurredAt command,
     ci_collectible_id = ic_collectibleId command, ci_definition_id = ic_definitionId command,
     ci_kind = ic_kind command, ci_owner = ic_owner command,
     ci_issuer = au_account (iu_authorization I), ci_reason = ic_reason command,
     ci_metadata_uri = ic_metadataUri command, ci_metadata_sha256 = ic_metadataSha256 command,
     ci_payment_tx_id = ic_paymentTransactionId command\<rparr>"

definition issue :: "('c, 'w) issuer \<Rightarrow> issue_command \<Rightarrow> ('c \<times> 'w, collectible_result) action" where
  "issue I command = publish_collectible I (issued_event I command) (ic_attemptNumber command)"

definition revoked_event :: "revoke_command \<Rightarrow> event" where
  "revoked_event command = Collectible_Revoked \<lparr>
     cr_event_id = rc_eventId command, cr_occurred_at = rc_occurredAt command,
     cr_collectible_id = rc_collectibleId command, cr_issued_event_id = rc_issuedEventId command,
     cr_reason_code = rc_reasonCode command\<rparr>"

definition revoke :: "('c, 'w) issuer \<Rightarrow> revoke_command \<Rightarrow> ('c \<times> 'w, collectible_result) action" where
  "revoke I command = publish_collectible I (revoked_event command) (rc_attemptNumber command)"

section \<open>The journal on its table\<close>

text \<open>
  \<open>jn_intents\<close> is \<open>hive_projection.transaction_intent\<close>, the rows of other services included;
  \<open>jn_roles\<close> says of the connections to come whether they can take the workload's role.
\<close>

record intent_journal =
  jn_intents :: "intent_row list"
  jn_roles :: "bool list"
  jn_faults :: "fault list"

definition role_unavailable :: exn where
  "role_unavailable = OtherError ''role''"

text \<open>\<open>connect\<close>: the role of the workload, or no client.\<close>

definition with_role :: "(intent_journal, 'a) action \<Rightarrow> (intent_journal, 'a) action" where
  "with_role m = (\<lambda>j.
     let granted = (case jn_roles j of [] \<Rightarrow> True | b # bs \<Rightarrow> b);
         j0 = j\<lparr>jn_roles := tl (jn_roles j)\<rparr>
     in if granted then m j0 else (Inl role_unavailable, j0))"

text \<open>One statement, which commits on its own.\<close>

definition journal_statement ::
  "(intent_row list \<Rightarrow> intent_row list option) \<Rightarrow> (intent_journal, unit) action" where
  "journal_statement f = (\<lambda>j.
     let next_fault = (case jn_faults j of [] \<Rightarrow> No_Fault | x # xs \<Rightarrow> x);
         j0 = j\<lparr>jn_faults := tl (jn_faults j)\<rparr>
     in case f (jn_intents j) of
          None \<Rightarrow> (Inl publisher_database_error, j0)
        | Some rows \<Rightarrow>
            if next_fault = Refused then (Inl publisher_database_error, j0)
            else if next_fault = Reply_Lost
            then (Inl publisher_database_error, j0\<lparr>jn_intents := rows\<rparr>)
            else (Inr (), j0\<lparr>jn_intents := rows\<rparr>))"

definition prepared_row :: "collectible_record \<Rightarrow> intent_row" where
  "prepared_row rec = \<lparr>ti_id = ct_id rec, ti_idempotency_key = ct_idempotencyKey rec,
     ti_operation_kind = ct_operationKind rec, ti_operation_hash = ct_canonicalOperationHash rec,
     ti_policy_version = ct_policyVersion rec, ti_validated_at = ct_validatedAt rec,
     ti_requested_at = ct_validatedAt rec, ti_expires_at = ct_expiresAt rec,
     ti_state = Awaiting_Signature, ti_transaction_id = Some (ct_transactionId rec),
     ti_failure_code = None\<rparr>"

definition insert_prepared :: "intent_row \<Rightarrow> intent_row list \<Rightarrow> intent_row list option" where
  "insert_prepared i rows =
     (if list_all (\<lambda>j. ti_id j \<noteq> ti_id i \<and> ti_idempotency_key j \<noteq> ti_idempotency_key i) rows \<and>
         ti_expires_at i > ti_requested_at i
      then Some (rows @ [i]) else None)"

definition update_intent ::
  "string \<Rightarrow> string \<Rightarrow> intent_state \<Rightarrow> string option \<Rightarrow> intent_row list \<Rightarrow> intent_row list option" where
  "update_intent recordId transactionId state failureCode rows =
     Some (map (\<lambda>i. if ti_id i = recordId
       then i\<lparr>ti_state := state, ti_transaction_id := Some transactionId, ti_failure_code := failureCode\<rparr>
       else i) rows)"

text \<open>\<open>/^[a-z][a-z0-9_]{1,63}$/\<close>\<close>

definition journal_failure_code :: "string \<Rightarrow> string" where
  "journal_failure_code v =
     (if match_lead is_lower (\<lambda>c. is_lower c \<or> is_digit c \<or> c = CHR ''_'') 1 63 v
      then v else ''publication_failed'')"

definition pg_recordPrepared :: "collectible_record \<Rightarrow> (intent_journal, unit) action" where
  "pg_recordPrepared rec = with_role (journal_statement (insert_prepared (prepared_row rec)))"

definition pg_journal_update ::
  "string \<Rightarrow> string \<Rightarrow> intent_state \<Rightarrow> string option \<Rightarrow> (intent_journal, unit) action" where
  "pg_journal_update recordId transactionId state failureCode =
     with_role (journal_statement (update_intent recordId transactionId state failureCode))"

definition pg_markBroadcastIntent :: "string \<Rightarrow> string \<Rightarrow> int \<Rightarrow> (intent_journal, unit) action" where
  "pg_markBroadcastIntent recordId transactionId broadcastAt =
     pg_journal_update recordId transactionId Intent_Broadcast None"

definition pg_markFailedIntent :: "string \<Rightarrow> string \<Rightarrow> string \<Rightarrow> int \<Rightarrow> (intent_journal, unit) action" where
  "pg_markFailedIntent recordId transactionId failureCode failedAt =
     pg_journal_update recordId transactionId Intent_Failed (Some (journal_failure_code failureCode))"

text \<open>\<open>updated_at\<close>, which only the statements write, is left out of the rows.\<close>

definition postgres_collectible_journal ::
  "('c \<times> (intent_journal \<times> 'v)) collectible_journal" where
  "postgres_collectible_journal = \<lparr>
     cj_recordPrepared = (\<lambda>rec. act_snd (act_fst (pg_recordPrepared rec))),
     cj_markBroadcast = (\<lambda>i tx t. act_snd (act_fst (pg_markBroadcastIntent i tx t))),
     cj_markFailed = (\<lambda>i tx code t. act_snd (act_fst (pg_markFailedIntent i tx code t)))\<rparr>"

end
