(* ===== verification/Collectible_Properties.thy ===== *)
theory Collectible_Properties
  imports Collectible_Issuer
begin

text \<open>
  The issuer over its journal, whatever commands it is given, however its connections fail and
  whatever the chain and the signer answer: no key is asked of the signer twice, and nothing is
  asked that is not in the journal.
\<close>

section \<open>The world of the issuer\<close>

text \<open>The chain, the journal, what is outside, and what the signer has been asked.\<close>

type_synonym ('c, 'v) issuer_world = "'c \<times> (intent_journal \<times> ('v \<times> signer_request list))"

definition asking_signer ::
  "'v signer_client \<Rightarrow> (intent_journal \<times> ('v \<times> signer_request list)) signer_client" where
  "asking_signer S q = (\<lambda>(j, (v, asked)). case S q v of (r, v') \<Rightarrow> (r, (j, (v', asked @ [q]))))"

definition intents :: "('c, 'v) issuer_world \<Rightarrow> intent_row list" where
  "intents w = jn_intents (fst (snd w))"

definition asked :: "('c, 'v) issuer_world \<Rightarrow> signer_request list" where
  "asked w = snd (snd (snd w))"

text \<open>The ids and the clock are other services.\<close>

definition quiet :: "(('c, 'v) issuer_world, 'a) action \<Rightarrow> bool" where
  "quiet m \<longleftrightarrow> (\<forall>rows asks. preserves (\<lambda>w. intents w = rows \<and> asked w = asks) m)"

definition journaled ::
  "'v signer_client \<Rightarrow> ('c, intent_journal \<times> ('v \<times> signer_request list)) issuer \<Rightarrow> bool" where
  "journaled S I \<longleftrightarrow>
     iu_journal I = postgres_collectible_journal \<and> iu_signer I = asking_signer S \<and>
     quiet (iu_nextUuidV7 I) \<and> quiet (issuer_clock I)"

text \<open>What another service may do to the table: rows stay, with what they were inserted with.\<close>

definition same_intent :: "intent_row \<Rightarrow> intent_row \<Rightarrow> bool" where
  "same_intent i j \<longleftrightarrow>
     ti_idempotency_key j = ti_idempotency_key i \<and> ti_operation_hash j = ti_operation_hash i \<and>
     ti_transaction_id j = ti_transaction_id i"

definition keeps_intents :: "intent_row list \<Rightarrow> intent_row list \<Rightarrow> bool" where
  "keeps_intents rows rows' \<longleftrightarrow> (\<forall>i \<in> set rows. \<exists>j \<in> set rows'. same_intent i j)"

inductive issuer_trace ::
  "('c, 'v) issuer_world \<Rightarrow> ('c, 'v) issuer_world \<Rightarrow> bool" where
  Start: "issuer_trace w w"
| Published: "issuer_trace w0 w \<Longrightarrow> journaled S I \<Longrightarrow>
    publish_collectible I event attemptNumber w = (r, w') \<Longrightarrow> issuer_trace w0 w'"
| Elsewhere: "issuer_trace w0 w \<Longrightarrow> keeps_intents (intents w) (intents w') \<Longrightarrow>
    asked w' = asked w \<Longrightarrow> issuer_trace w0 w'"

lemma keeps_intents_refl [simp]: "keeps_intents rows rows"
  by (auto simp: keeps_intents_def same_intent_def)

lemma keeps_intents_trans:
  "keeps_intents rows rows' \<Longrightarrow> keeps_intents rows' rows'' \<Longrightarrow> keeps_intents rows rows''"
  unfolding keeps_intents_def same_intent_def by metis

section \<open>Steps\<close>

lemma quietP: "quiet m \<Longrightarrow> preserves (\<lambda>w. intents w = rows \<and> asked w = asks) m"
  unfolding quiet_def by (elim allE)

lemma quietD: "quiet m \<Longrightarrow> m w = (r, w') \<Longrightarrow> intents w' = intents w \<and> asked w' = asked w"
  unfolding quiet_def by (blast dest: preservesD)

lemma quiet_basic: "quiet (act_ok x)" "quiet (act_fail e)" "quiet (act_lift q)" "quiet (act_ensure b e)"
  by (simp_all add: quiet_def)

lemma quiet_fst: "quiet (act_fst m :: (('c, 'v) issuer_world, 'a) action)"
  unfolding quiet_def
proof (intro allI preservesI)
  fix rows asks and w w' :: "('c, 'v) issuer_world" and r :: "exn + 'a"
  assume "intents w = rows \<and> asked w = asks" and "act_fst m w = (r, w')"
  then show "intents w' = rows \<and> asked w' = asks"
    by (cases w) (auto simp: intents_def asked_def elim!: act_fstE)
qed

lemma statementE:
  assumes "with_role (journal_statement f) j = (r, j')"
  obtains (nothing) "jn_intents j' = jn_intents j" and "\<exists>e. r = Inl e"
    | (made) "f (jn_intents j) = Some (jn_intents j')"
  using assms
  by (auto simp: with_role_def journal_statement_def Let_def split: option.splits list.splits if_splits)

lemma on_journalE:
  assumes "act_snd (act_fst m) (w :: ('c, 'v) issuer_world) = (r, w')"
  obtains j where "m (fst (snd w)) = (r, j)" and "intents w' = jn_intents j" and "asked w' = asked w"
proof -
  obtain c j v where w: "w = (c, (j, v))" by (cases w) auto
  from assms obtain t where "act_fst m (j, v) = (r, t)" "w' = (c, t)"
    unfolding w by (rule act_sndE)
  moreover from this(1) obtain j' where "m j = (r, j')" "t = (j', v)" by (rule act_fstE)
  ultimately show thesis using that by (simp add: w intents_def asked_def)
qed

text \<open>A record that is made is of a key and an id that no row has.\<close>

lemma recorded:
  assumes "cj_recordPrepared (postgres_collectible_journal) rec (w :: ('c, 'v) issuer_world) = (r, w')"
  shows "asked w' = asked w \<and> keeps_intents (intents w) (intents w') \<and>
    (r = Inr () \<longrightarrow> intents w' = intents w @ [prepared_row rec] \<and>
      (\<forall>i \<in> set (intents w). ti_id i \<noteq> ct_id rec \<and> ti_idempotency_key i \<noteq> ct_idempotencyKey rec))"
proof -
  from assms obtain j where run: "with_role (journal_statement (insert_prepared (prepared_row rec)))
      (fst (snd w)) = (r, j)" and w': "intents w' = jn_intents j" "asked w' = asked w"
    by (auto simp: postgres_collectible_journal_def pg_recordPrepared_def elim!: on_journalE)
  from run show ?thesis
  proof (cases rule: statementE)
    case nothing
    with w' show ?thesis by (auto simp: intents_def)
  next
    case made
    with w'(1) have "insert_prepared (prepared_row rec) (intents w) = Some (intents w')"
      unfolding intents_def by simp
    then have rows: "intents w' = intents w @ [prepared_row rec]"
      and new: "\<forall>i \<in> set (intents w). ti_id i \<noteq> ct_id rec \<and> ti_idempotency_key i \<noteq> ct_idempotencyKey rec"
      by (auto simp: insert_prepared_def prepared_row_def list_all_iff split: if_splits)
    moreover have "keeps_intents (intents w) (intents w')"
      unfolding rows keeps_intents_def by (auto simp: same_intent_def)
    ultimately show ?thesis using w' by simp
  qed
qed

text \<open>The endings write the transaction the record already names.\<close>

lemma updated:
  assumes "act_snd (act_fst (pg_journal_update recordId tx s code)) (w :: ('c, 'v) issuer_world) = (r, w')"
    and "\<forall>i \<in> set (intents w). ti_id i = recordId \<longrightarrow> ti_transaction_id i = Some tx"
  shows "asked w' = asked w \<and> keeps_intents (intents w) (intents w') \<and>
    (\<forall>i \<in> set (intents w'). ti_id i = recordId \<longrightarrow> ti_transaction_id i = Some tx)"
proof -
  from assms(1) obtain j where run: "with_role (journal_statement (update_intent recordId tx s code))
      (fst (snd w)) = (r, j)" and w': "intents w' = jn_intents j" "asked w' = asked w"
    by (auto simp: pg_journal_update_def elim!: on_journalE)
  from run show ?thesis
  proof (cases rule: statementE)
    case nothing
    with w' assms(2) show ?thesis by (auto simp: intents_def)
  next
    case made
    with w'(1) have "update_intent recordId tx s code (intents w) = Some (intents w')"
      unfolding intents_def by simp
    then have rows: "intents w' = map (\<lambda>i. if ti_id i = recordId
        then i\<lparr>ti_state := s, ti_transaction_id := Some tx, ti_failure_code := code\<rparr> else i) (intents w)"
      (is "_ = map ?f _")
      by (simp add: update_intent_def)
    have "same_intent i (?f i)" if "i \<in> set (intents w)" for i
      using that assms(2) by (simp add: same_intent_def)
    then have "keeps_intents (intents w) (intents w')"
      unfolding rows keeps_intents_def set_map by blast
    moreover have "\<forall>i \<in> set (intents w'). ti_id i = recordId \<longrightarrow> ti_transaction_id i = Some tx"
      unfolding rows set_map Set.ball_simps(9) by simp
    ultimately show ?thesis using w'(2) by simp
  qed
qed

lemma quiet_bind:
  assumes "quiet m" and "\<And>x. quiet (f x)"
  shows "quiet (act_bind m f)"
  unfolding quiet_def
proof (intro allI)
  fix rows asks
  show "preserves (\<lambda>w. intents w = rows \<and> asked w = asks) (act_bind m f)"
    by (rule preserves_bind) (rule quietP, rule assms)+
qed

text \<open>A broadcast asks the signer first, once, and touches the journal not at all.\<close>

lemma broadcast_asks:
  assumes "broadcastOfficialEvent C p (asking_signer S) (w :: ('c, 'v) issuer_world) = (r, w')"
  shows "asked w' = asked w @ [signer_request_of p] \<and> intents w' = intents w \<and>
    (\<forall>x. r = Inr x \<longrightarrow> br_transactionId x = tx_transactionId p)"
proof -
  obtain c j v asks where w: "w = (c, (j, (v, asks)))" by (cases w) auto
  have asks: "asked w1 = asks @ [signer_request_of p] \<and> intents w1 = jn_intents j"
    if "act_snd (asking_signer S (signer_request_of p)) w = (r1, w1)" for r1 and w1 :: "('c, 'v) issuer_world"
    using that unfolding w
    by (auto simp: asking_signer_def asked_def intents_def elim!: act_sndE split: prod.splits)
  from assms consider
    (silent) e where "act_snd (asking_signer S (signer_request_of p)) w = (Inl e, w')" "r = Inl e"
    | (answered) response w1 where "act_snd (asking_signer S (signer_request_of p)) w = (Inr response, w1)"
        "(act_bind (act_ensure (rs_publicKey response = au_expectedPublicKey (pe_authorization p))
           (HiveGatewayError signer_mismatch)) (\<lambda>_.
         act_bind (act_fst (assertSignatureMatchesPublicKey C (tx_signatureDigest p)
           (rs_signature response) (au_expectedPublicKey (pe_authorization p)))) (\<lambda>_.
         act_bind (act_fst (attachSignature C (tx_unsignedTransactionJson p) (rs_signature response)))
           (\<lambda>signed.
         act_bind (act_fst (broadcast C signed)) (\<lambda>_.
         act_ok \<lparr>br_transactionId = tx_transactionId p, br_eventType = pe_eventType p\<rparr>))))) w1 = (r, w')"
    unfolding broadcastOfficialEvent_def Let_def by (rule act_bindE)
  then show ?thesis
  proof cases
    case silent
    from asks [OF silent(1)] silent(2) show ?thesis by (simp add: w asked_def intents_def)
  next
    case answered
    have "quiet (act_bind (act_ensure (rs_publicKey response = au_expectedPublicKey (pe_authorization p))
           (HiveGatewayError signer_mismatch)) (\<lambda>_.
         act_bind (act_fst (assertSignatureMatchesPublicKey C (tx_signatureDigest p)
           (rs_signature response) (au_expectedPublicKey (pe_authorization p)))) (\<lambda>_.
         act_bind (act_fst (attachSignature C (tx_unsignedTransactionJson p) (rs_signature response)))
           (\<lambda>signed.
         act_bind (act_fst (broadcast C signed)) (\<lambda>_.
         act_ok \<lparr>br_transactionId = tx_transactionId p, br_eventType = pe_eventType p\<rparr>)))))"
      by (intro quiet_bind quiet_basic quiet_fst)
    from quietD [OF this answered(2)] asks [OF answered(1)]
    have "asked w' = asked w @ [signer_request_of p] \<and> intents w' = intents w"
      by (simp add: w asked_def intents_def)
    moreover from answered(2) have "br_transactionId x = tx_transactionId p" if "r = Inr x" for x
      using that by (auto simp: act_run elim!: act_bindE act_ensureE)
    ultimately show ?thesis by blast
  qed
qed

text \<open>The \<open>try\<close> block with its handler: one request, and the record stays.\<close>

lemma publish_prepared_asks:
  assumes run: "publish_prepared I event recordId p (w :: ('c, 'v) issuer_world) = (r, w')"
    and I: "journaled S I"
    and row: "\<forall>i \<in> set (intents w). ti_id i = recordId \<longrightarrow> ti_transaction_id i = Some (tx_transactionId p)"
  shows "asked w' = asked w @ [signer_request_of p] \<and> keeps_intents (intents w) (intents w')"
proof -
  define Q where "Q v \<longleftrightarrow> asked v = asked w @ [signer_request_of p] \<and>
    keeps_intents (intents w) (intents v) \<and>
    (\<forall>i \<in> set (intents v). ti_id i = recordId \<longrightarrow> ti_transaction_id i = Some (tx_transactionId p))"
    for v :: "('c, 'v) issuer_world"
  have clock: "preserves Q (issuer_clock I)"
    using I by (intro preservesI) (auto simp: journaled_def Q_def dest: quietD)
  have mark: "preserves Q (act_snd (act_fst (pg_journal_update recordId (tx_transactionId p) s code)))" for s code
  proof (rule preservesI)
    fix v x v'
    assume P: "Q v" and m: "act_snd (act_fst (pg_journal_update recordId (tx_transactionId p) s code)) v =
      (x, v')"
    from P updated [OF m] show "Q v'" unfolding Q_def by (metis keeps_intents_trans)
  qed
  have failed: "preserves Q (act_bind (issuer_clock I) (\<lambda>now.
      act_bind (act_lift (instant (iu_host I) now)) (\<lambda>failedAt.
      act_bind (cj_markFailed (iu_journal I) recordId (tx_transactionId p) (issuer_failure_code e) failedAt)
        (\<lambda>_. act_fail e))))" for e
    using I by (intro preserves_bind clock preserves_basic)
      (simp add: journaled_def postgres_collectible_journal_def pg_markFailedIntent_def mark)
  have ended: "preserves Q (act_bind (issuer_clock I) (\<lambda>now.
      act_bind (act_lift (instant (iu_host I) now)) (\<lambda>broadcastAt.
      act_bind (cj_markBroadcast (iu_journal I) recordId (tx_transactionId p) broadcastAt) (\<lambda>_.
      act_ok x))))" for x
    using I by (intro preserves_bind clock preserves_basic)
      (simp add: journaled_def postgres_collectible_journal_def pg_markBroadcastIntent_def mark)
  have "Q w'"
    using run unfolding publish_prepared_def
  proof (cases rule: act_catchE)
    case (ok x)
    then obtain result w1 where b: "broadcastOfficialEvent (iu_chain I) p (iu_signer I) w = (Inr result, w1)"
      and rest: "act_bind (issuer_clock I) (\<lambda>now.
        act_bind (act_lift (instant (iu_host I) now)) (\<lambda>broadcastAt.
        act_bind (cj_markBroadcast (iu_journal I) recordId (br_transactionId result) broadcastAt) (\<lambda>_.
        act_ok \<lparr>cl_eventId = event_uuid event, cl_transactionId = br_transactionId result,
          cl_eventType = event_type event\<rparr>))) w1 = (Inr x, w')"
      by (auto elim: act_bind_InrE)
    from b I have "Q w1" "br_transactionId result = tx_transactionId p"
      using broadcast_asks [of "iu_chain I" p S w "Inr result" w1] row by (auto simp: journaled_def Q_def)
    with rest preservesD [OF ended] show ?thesis by metis
  next
    case (caught e w1)
    from caught(1) have "Q w1"
    proof (cases rule: act_bindE)
      case fails
      with I row broadcast_asks [of "iu_chain I" p S w "Inl e" w1] show ?thesis by (auto simp: journaled_def Q_def)
    next
      case (goes result w2)
      from goes(1) I have "Q w2" "br_transactionId result = tx_transactionId p"
        using broadcast_asks [of "iu_chain I" p S w "Inr result" w2] row by (auto simp: journaled_def Q_def)
      with goes(2) preservesD [OF ended] show ?thesis by metis
    qed
    from preservesD [OF failed this caught(2)] show ?thesis .
  qed
  then show ?thesis by (simp add: Q_def)
qed

section \<open>Whole publications\<close>

definition journal_entry :: "intent_row \<Rightarrow> signer_request \<Rightarrow> bool" where
  "journal_entry i q \<longleftrightarrow>
     ti_idempotency_key i = rq_idempotencyKey q \<and> ti_operation_hash i = rq_canonicalOperationHash q \<and>
     ti_transaction_id i = Some (rq_transactionId q)"

lemma journal_entry_same: "journal_entry i q \<Longrightarrow> same_intent i j \<Longrightarrow> journal_entry j q"
  by (simp add: journal_entry_def same_intent_def)

lemma prepared_key:
  "prepareOfficialEvent H C i a c = (Inr p, c') \<Longrightarrow> pe_idempotencyKey p = in_idempotencyKey i"
  unfolding prepareOfficialEvent_def
  by (elim act_bind_InrE) (auto simp: act_run prepared_tx.defs split: prod.splits elim!: act_bind_InrE)

definition one_request :: "('c, 'v) issuer_world \<Rightarrow> ('c, 'v) issuer_world \<Rightarrow> bool" where
  "one_request w w' \<longleftrightarrow>
     keeps_intents (intents w) (intents w') \<and> (asked w' = asked w \<or>
     (\<exists>q. asked w' = asked w @ [q] \<and> (\<exists>i \<in> set (intents w'). journal_entry i q) \<and>
        (\<forall>i \<in> set (intents w). ti_idempotency_key i \<noteq> rq_idempotencyKey q)))"

definition asks_once :: "(('c, 'v) issuer_world, 'a) action \<Rightarrow> bool" where
  "asks_once m \<longleftrightarrow> (\<forall>w r w'. m w = (r, w') \<longrightarrow> one_request w w')"

lemma asks_onceD: "asks_once m \<Longrightarrow> m w = (r, w') \<Longrightarrow> one_request w w'"
  unfolding asks_once_def by blast

lemma asks_once_bind:
  assumes "quiet m" and "\<And>w x w'. m w = (Inr x, w') \<Longrightarrow> asks_once (f x)"
  shows "asks_once (act_bind m f)"
  unfolding asks_once_def
proof (intro allI impI)
  fix w r w'
  assume "act_bind m f w = (r, w')"
  then show "one_request w w'"
  proof (cases rule: act_bindE)
    case (fails e)
    from quietD [OF assms(1) fails(1)] show ?thesis by (simp add: one_request_def)
  next
    case (goes x w1)
    from asks_onceD [OF assms(2) [OF goes(1)] goes(2)] have "one_request w1 w'" .
    with quietD [OF assms(1) goes(1)] show ?thesis by (simp add: one_request_def)
  qed
qed

lemma recorded_asks_once:
  assumes I: "journaled S I" and rec: "ct_id rec = recordId" "ct_idempotencyKey rec = pe_idempotencyKey p"
    "ct_canonicalOperationHash rec = pe_canonicalOperationHash p" "ct_transactionId rec = tx_transactionId p"
  shows "asks_once (act_bind (cj_recordPrepared (iu_journal I) rec) (\<lambda>_. publish_prepared I event recordId p))"
  unfolding asks_once_def
proof (intro allI impI)
  fix w r w'
  have J: "iu_journal I = postgres_collectible_journal" using I by (simp add: journaled_def)
  assume "act_bind (cj_recordPrepared (iu_journal I) rec) (\<lambda>_. publish_prepared I event recordId p) w = (r, w')"
  then show "one_request w w'"
  proof (cases rule: act_bindE)
    case (fails e)
    from recorded [OF fails(1) [unfolded J]] show ?thesis by (simp add: one_request_def)
  next
    case (goes u w1)
    from recorded [OF goes(1) [unfolded J]] have made: "asked w1 = asked w"
      "keeps_intents (intents w) (intents w1)" "intents w1 = intents w @ [prepared_row rec]"
      "\<forall>i \<in> set (intents w). ti_id i \<noteq> ct_id rec \<and> ti_idempotency_key i \<noteq> ct_idempotencyKey rec"
      by auto
    then have "\<forall>i \<in> set (intents w1). ti_id i = recordId \<longrightarrow> ti_transaction_id i = Some (tx_transactionId p)"
      by (auto simp: rec prepared_row_def)
    from publish_prepared_asks [OF goes(2) I this] made(1)
    have asked: "asked w' = asked w @ [signer_request_of p]"
      and kept: "keeps_intents (intents w1) (intents w')" by simp_all
    have "journal_entry (prepared_row rec) (signer_request_of p)"
      by (simp add: journal_entry_def prepared_row_def signer_request_of_def rec)
    moreover have "prepared_row rec \<in> set (intents w1)" by (simp add: made(3))
    ultimately have "\<exists>i \<in> set (intents w'). journal_entry i (signer_request_of p)"
      using kept journal_entry_same unfolding keeps_intents_def by blast
    moreover have "rq_idempotencyKey (signer_request_of p) = ct_idempotencyKey rec"
      by (simp add: signer_request_of_def rec)
    ultimately show ?thesis
      unfolding one_request_def using asked kept made(2,4) keeps_intents_trans by metis
  qed
qed

lemma publish_collectible_asks:
  assumes I: "journaled S I"
  shows "asks_once (publish_collectible I event attemptNumber)"
  unfolding publish_collectible_def
proof (rule asks_once_bind [OF quiet_basic(4)], rule asks_once_bind [OF quiet_fst], goal_cases)
  case (1 w u w' w1 p w2)
  then have key: "pe_idempotencyKey p = collectible_key event attemptNumber"
    by (cases w1) (auto simp: collectible_intent_def elim!: act_fstE dest!: prepared_key)
  show ?case
  proof (rule asks_once_bind, goal_cases)
    case 1 show ?case using I by (simp add: journaled_def)
  next
    case 2 show ?case
    proof (rule asks_once_bind [OF quiet_basic(3)], rule asks_once_bind, goal_cases)
      case 1 show ?case using I by (simp add: journaled_def)
    next
      case 2 show ?case
        by (rule asks_once_bind [OF quiet_basic(3)], rule recorded_asks_once [OF I])
          (auto simp: act_run collectible_record_of_def ebind_eq_Inr key)
    qed
  qed
qed

text \<open>
  C33. Over any commands, configurations, connections and failures, and next to any other service
  that keeps the rows of the table, the issuer asks the signer for an idempotency key at most once,
  so a command is signed once for each attempt number; and whatever it asked for is in the journal,
  under that key, with the hash of the operation and the id of the transaction.
\<close>

theorem collectible_signed_once:
  assumes "issuer_trace w0 w" and "asked w0 = []"
  shows "distinct (map rq_idempotencyKey (asked w)) \<and>
    (\<forall>q \<in> set (asked w). \<exists>i \<in> set (intents w). ti_idempotency_key i = rq_idempotencyKey q \<and>
       ti_operation_hash i = rq_canonicalOperationHash q \<and> ti_transaction_id i = Some (rq_transactionId q))"
proof -
  have entries: "(\<forall>q \<in> set asks. \<exists>i \<in> set rows'. journal_entry i q)"
    if "\<forall>q \<in> set asks. \<exists>i \<in> set rows. journal_entry i q" "keeps_intents rows rows'" for asks rows rows'
    using that journal_entry_same unfolding keeps_intents_def by meson
  from assms(1) have "asked w0 = [] \<longrightarrow> distinct (map rq_idempotencyKey (asked w)) \<and>
    (\<forall>q \<in> set (asked w). \<exists>i \<in> set (intents w). journal_entry i q)"
  proof (induction rule: issuer_trace.induct)
    case (Published w0 w S I event attemptNumber r w')
    from asks_onceD [OF publish_collectible_asks [OF Published.hyps(2)] Published.hyps(3)]
    have "one_request w w'" .
    with Published.IH entries show ?case
      unfolding one_request_def by (fastforce simp: journal_entry_def)
  next
    case (Elsewhere w0 w w')
    with entries [of "asked w" "intents w" "intents w'"] show ?case by simp
  qed simp
  with assms(2) show ?thesis by (simp add: journal_entry_def)
qed

section \<open>A collectible on which it is seen to hold\<close>

definition fixture_badge :: issue_command where
  "fixture_badge = \<lparr>ic_eventId = ''01910000-0000-7000-8000-000000000002'',
     ic_occurredAt = ''2026-07-23T12:00:00.000Z'', ic_attemptNumber = 1,
     ic_collectibleId = ''01910000-0000-7000-8000-000000000001'', ic_definitionId = ''founder.badge'',
     ic_kind = Badge, ic_owner = ''alice'', ic_reason = ''founder_reward'',
     ic_metadataUri = ''https://assets.example/founder.json'',
     ic_metadataSha256 = replicate 64 (CHR ''a''), ic_paymentTransactionId = None\<rparr>"

definition fixture_issuer ::
  "(fixture_chain_state, intent_journal \<times> (unit \<times> signer_request list)) issuer" where
  "fixture_issuer = \<lparr>iu_host = fixture_host,
     iu_chain = fixture_chain fixture_host fixture_key fixture_digest,
     iu_signer = asking_signer (\<lambda>q. act_ok \<lparr>rs_signature = fixture_signature, rs_publicKey = fixture_key\<rparr>),
     iu_journal = postgres_collectible_journal,
     iu_authorization = fixture_authorization\<lparr>au_role := Collectible_Issuer, au_account := ''item-issuer''\<rparr>,
     iu_expirationSeconds = 300,
     iu_nextUuidV7 = act_ok ''01910000-0000-7000-8000-000000000020'', iu_now = Pair 1000\<rparr>"

definition fixture_issuing ::
  "(exn + collectible_result) \<times> (fixture_chain_state, unit) issuer_world" where
  "fixture_issuing = issue fixture_issuer fixture_badge
     (\<lparr>fx_prepared = None, fx_broadcasts = []\<rparr>,
      (\<lparr>jn_intents = [], jn_roles = [], jn_faults = []\<rparr>, ((), [])))"

lemma fixture_issuer_journaled:
  "journaled (\<lambda>q. act_ok \<lparr>rs_signature = fixture_signature, rs_publicKey = fixture_key\<rparr>) fixture_issuer"
  by (simp add: journaled_def fixture_issuer_def quiet_basic)
    (simp add: quiet_def issuer_clock_def preserves_def fixture_issuer_def)

lemma fixture_issued: "length (asked (snd fixture_issuing)) = 1"
  by code_simp

lemma collectible_signed_once_witness:
  "\<exists>q i. asked (snd fixture_issuing) = [q] \<and> i \<in> set (intents (snd fixture_issuing)) \<and>
     ti_idempotency_key i = rq_idempotencyKey q"
proof -
  obtain r w where run: "fixture_issuing = (r, w)" by (cases fixture_issuing)
  from fixture_issued obtain q where q: "asked w = [q]"
    unfolding run by (cases "asked w") auto
  have "issuer_trace (\<lparr>fx_prepared = None, fx_broadcasts = []\<rparr>,
      (\<lparr>jn_intents = [], jn_roles = [], jn_faults = []\<rparr>, ((), []))) w"
    by (rule issuer_trace.Published [OF issuer_trace.Start fixture_issuer_journaled])
      (rule run [unfolded fixture_issuing_def issue_def])
  from collectible_signed_once [OF this] q show ?thesis
    by (auto simp: run asked_def)
qed

end
