(* ===== verification/Worker_Config.thy ===== *)
theory Worker_Config
  imports Auth_Config
begin

text \<open>
  The configurations of the two workers (\<open>haf-projector/src/config.ts\<close> and
  \<open>match-publisher/src/config.ts\<close>), read from the environment. The files repeat each other's
  helpers, which differ in the class of the error they throw; a helper takes that class here, and
  each file's own is an instance of it. \<open>query text name\<close> is \<open>url.searchParams.get(name)\<close> of a URL
  whose \<open>search\<close> is \<open>text\<close>.
\<close>

section \<open>Helpers\<close>

datatype node_environment = Development_Env | Production_Env | Test_Env

type_synonym query_reader = "string \<Rightarrow> string \<Rightarrow> string option"

definition parse_environment :: "string \<Rightarrow> string option \<Rightarrow> exn + node_environment" where
  "parse_environment cls v =
     (let normalized = (case v of None \<Rightarrow> ''development'' | Some s \<Rightarrow> s) in
      if normalized = ''development'' then Inr Development_Env
      else if normalized = ''production'' then Inr Production_Env
      else if normalized = ''test'' then Inr Test_Env
      else Inl (ConfigurationError cls ''NODE_ENV''))"

definition absolute_url :: "string \<Rightarrow> host \<Rightarrow> string \<Rightarrow> string \<Rightarrow> exn + url" where
  "absolute_url cls H v field = of_option (ConfigurationError cls field) (parse_url H v)"

text \<open>HTTPS, without credentials, query or fragment.\<close>

definition bare_https :: "url \<Rightarrow> bool" where
  "bare_https url \<longleftrightarrow>
     \<not> (url_protocol url \<noteq> ''https:'' \<or> url_username url \<noteq> '''' \<or> url_password url \<noteq> '''' \<or>
       url_search url \<noteq> '''' \<or> url_hash url \<noteq> '''')"

definition https_url :: "string \<Rightarrow> host \<Rightarrow> string \<Rightarrow> string \<Rightarrow> exn + string" where
  "https_url cls H v field =
     ebind (absolute_url cls H v field) (\<lambda>url.
     ebind (ensure (bare_https url) (ConfigurationError cls field)) (\<lambda>_. Inr (url_href url)))"

definition database_url ::
  "string \<Rightarrow> host \<Rightarrow> query_reader \<Rightarrow> string \<Rightarrow> node_environment \<Rightarrow> exn + string" where
  "database_url cls H query v env =
     ebind (absolute_url cls H v ''DATABASE_URL'') (\<lambda>url.
     ebind (ensure (\<not> ((url_protocol url \<noteq> ''postgres:'' \<and> url_protocol url \<noteq> ''postgresql:'') \<or>
       url_hostname url = '''' \<or> url_pathname url = '''' \<or> url_pathname url = ''/'' \<or>
       url_hash url \<noteq> '''')) (ConfigurationError cls ''DATABASE_URL'')) (\<lambda>_.
     ebind (ensure (env = Production_Env \<longrightarrow>
         query (url_search url) ''sslmode'' \<in> {Some ''require'', Some ''verify-ca'', Some ''verify-full''})
       (ConfigurationError cls ''DATABASE_URL'')) (\<lambda>_.
     Inr v)))"

text \<open>\<open>/^(0|[1-9][0-9]*)$/\<close>\<close>

definition decimal_pattern :: "string \<Rightarrow> bool" where
  "decimal_pattern s \<longleftrightarrow>
     s = ''0'' \<or> (s \<noteq> '''' \<and> hd s \<noteq> CHR ''0'' \<and> list_all is_digit s)"

text \<open>
  \<open>Number\<close> of more than 53 bits is rounded, but to a number that is not safe either, so the exact
  value is tested.
\<close>

definition bounded_integer ::
  "string \<Rightarrow> string option \<Rightarrow> string \<Rightarrow> nat \<Rightarrow> int \<Rightarrow> int \<Rightarrow> exn + int" where
  "bounded_integer cls v field fallback minimum maximum =
     (let normalized = (case v of None \<Rightarrow> nat_text fallback | Some s \<Rightarrow> s) in
      ebind (ensure (decimal_pattern normalized) (ConfigurationError cls field)) (\<lambda>_.
      let parsed = parse_decimal_from 0 normalized in
      ebind (ensure (\<not> (\<not> is_safe_integer parsed \<or> parsed < minimum \<or> parsed > maximum))
        (ConfigurationError cls field)) (\<lambda>_. Inr parsed)))"

lemma bounded_integer_Inr:
  "bounded_integer cls v field fallback lo hi = Inr n \<Longrightarrow> is_safe_integer n \<and> lo \<le> n \<and> n \<le> hi"
  by (auto simp: bounded_integer_def Let_def ebind_eq_Inr)

lemma https_url_Inr:
  "https_url cls H v field = Inr t \<Longrightarrow> \<exists>url. parse_url H v = Some url \<and> bare_https url \<and> t = url_href url"
  by (auto simp: https_url_def absolute_url_def ebind_eq_Inr)

section \<open>The projector\<close>

definition ProjectorConfigurationError :: "string \<Rightarrow> exn" where
  "ProjectorConfigurationError field = ConfigurationError ''ProjectorConfigurationError'' field"

record haf_projector_config =
  hp_nodeEnvironment :: node_environment
  hp_databaseUrl :: string
  hp_databasePoolMax :: int
  hp_databaseConnectionTimeoutMs :: int
  hp_sourceName :: string
  hp_hafahApiUrl :: string
  hp_hiveRpcUrl :: string
  hp_operationTypeIds :: "int list"
  hp_matchPublishers :: "string list"
  hp_collectibleIssuers :: "string list"
  hp_pageSize :: int
  hp_requestTimeoutMs :: int
  hp_maxBlocksPerRun :: int
  hp_maxReorgDepth :: int
  hp_maximumFutureClockSkewMs :: int
  hp_pollIntervalMs :: int
  hp_initialFailureBackoffMs :: int
  hp_maximumFailureBackoffMs :: int

definition hp_required :: "environment \<Rightarrow> string \<Rightarrow> bool \<Rightarrow> exn + string" where
  "hp_required env field allowEmpty =
     (case env field of
        None \<Rightarrow> Inl (ProjectorConfigurationError field)
      | Some v \<Rightarrow>
          if \<not> allowEmpty \<and> js_trim v = '''' then Inl (ProjectorConfigurationError field)
          else Inr (js_trim v))"

definition hp_parseNodeEnvironment :: "string option \<Rightarrow> exn + node_environment" where
  "hp_parseNodeEnvironment = parse_environment ''ProjectorConfigurationError''"

definition hp_parseHttpsUrl :: "host \<Rightarrow> string \<Rightarrow> string \<Rightarrow> exn + string" where
  "hp_parseHttpsUrl = https_url ''ProjectorConfigurationError''"

definition hp_parseDatabaseUrl ::
  "host \<Rightarrow> query_reader \<Rightarrow> string \<Rightarrow> node_environment \<Rightarrow> exn + string" where
  "hp_parseDatabaseUrl = database_url ''ProjectorConfigurationError''"

definition hp_parseInteger :: "string option \<Rightarrow> string \<Rightarrow> nat \<Rightarrow> int \<Rightarrow> int \<Rightarrow> exn + int" where
  "hp_parseInteger = bounded_integer ''ProjectorConfigurationError''"

definition hp_parseIntegerList :: "string \<Rightarrow> string \<Rightarrow> exn + int list" where
  "hp_parseIntegerList v field =
     (let entries = map js_trim (js_split (CHR '','') v) in
      ebind (ensure (\<not> (length entries = 0 \<or> list_ex (\<lambda>entry. entry = '''') entries))
        (ProjectorConfigurationError field)) (\<lambda>_.
      ebind (each_value (\<lambda>entry. hp_parseInteger (Some entry) field 0 0 2147483647) entries) (\<lambda>parsed.
      ebind (ensure (\<not> js_set_size parsed \<noteq> length parsed) (ProjectorConfigurationError field)) (\<lambda>_.
      Inr parsed))))"

definition hp_parseAccountList :: "string \<Rightarrow> string \<Rightarrow> exn + string list" where
  "hp_parseAccountList v field =
     (if v = '''' then Inr []
      else
        let entries = map js_trim (js_split (CHR '','') v) in
        ebind (ensure (\<not> list_ex (\<lambda>entry. \<not> hiveAccountSchema entry) entries)
          (ProjectorConfigurationError field)) (\<lambda>_.
        ebind (ensure (\<not> js_set_size entries \<noteq> length entries) (ProjectorConfigurationError field)) (\<lambda>_.
        Inr entries)))"

definition hp_integer :: "environment \<Rightarrow> string \<Rightarrow> nat \<Rightarrow> int \<Rightarrow> int \<Rightarrow> exn + int" where
  "hp_integer env field = hp_parseInteger (env field) field"

text \<open>\<open>/^[a-z0-9][a-z0-9._-]{0,63}$/\<close>\<close>

definition hp_source_pattern :: "string \<Rightarrow> bool" where
  "hp_source_pattern s \<longleftrightarrow>
     match_lead (\<lambda>c. is_lower c \<or> is_digit c)
       (\<lambda>c. is_lower c \<or> is_digit c \<or> is_one_of ''._-'' c) 0 63 s"

definition loadHafProjectorConfig ::
  "host \<Rightarrow> query_reader \<Rightarrow> environment \<Rightarrow> exn + haf_projector_config" where
  "loadHafProjectorConfig H query env =
     ebind (hp_parseNodeEnvironment (env ''NODE_ENV'')) (\<lambda>nodeEnvironment.
     ebind (hp_required env ''DATABASE_URL'' False) (\<lambda>databaseText.
     ebind (hp_parseDatabaseUrl H query databaseText nodeEnvironment) (\<lambda>databaseUrl.
     ebind (hp_required env ''HAF_PROJECTOR_HAFAH_API_URL'' False) (\<lambda>hafahText.
     ebind (hp_parseHttpsUrl H hafahText ''HAF_PROJECTOR_HAFAH_API_URL'') (\<lambda>hafahApiUrl.
     ebind (hp_required env ''HAF_PROJECTOR_HIVE_RPC_URL'' False) (\<lambda>rpcText.
     ebind (hp_parseHttpsUrl H rpcText ''HAF_PROJECTOR_HIVE_RPC_URL'') (\<lambda>hiveRpcUrl.
     ebind (hp_required env ''HAF_PROJECTOR_SOURCE_NAME'' False) (\<lambda>sourceName.
     ebind (ensure (hp_source_pattern sourceName)
       (ProjectorConfigurationError ''HAF_PROJECTOR_SOURCE_NAME'')) (\<lambda>_.
     ebind (hp_integer env ''HAF_PROJECTOR_INITIAL_FAILURE_BACKOFF_MS'' 1000 100 300000) (\<lambda>initialBackoff.
     ebind (hp_integer env ''HAF_PROJECTOR_MAXIMUM_FAILURE_BACKOFF_MS'' 30000 100 900000) (\<lambda>maximumBackoff.
     ebind (ensure (\<not> maximumBackoff < initialBackoff)
       (ProjectorConfigurationError ''HAF_PROJECTOR_MAXIMUM_FAILURE_BACKOFF_MS'')) (\<lambda>_.
     ebind (hp_integer env ''HAF_PROJECTOR_DATABASE_POOL_MAX'' 10 1 100) (\<lambda>poolMax.
     ebind (hp_integer env ''HAF_PROJECTOR_DATABASE_CONNECTION_TIMEOUT_MS'' 5000 100 120000) (\<lambda>connectionTimeout.
     ebind (hp_required env ''HAF_PROJECTOR_OPERATION_TYPE_IDS'' False) (\<lambda>typesText.
     ebind (hp_parseIntegerList typesText ''HAF_PROJECTOR_OPERATION_TYPE_IDS'') (\<lambda>operationTypeIds.
     ebind (hp_required env ''HAF_PROJECTOR_MATCH_PUBLISHERS'' True) (\<lambda>publishersText.
     ebind (hp_parseAccountList publishersText ''HAF_PROJECTOR_MATCH_PUBLISHERS'') (\<lambda>matchPublishers.
     ebind (hp_required env ''HAF_PROJECTOR_COLLECTIBLE_ISSUERS'' True) (\<lambda>issuersText.
     ebind (hp_parseAccountList issuersText ''HAF_PROJECTOR_COLLECTIBLE_ISSUERS'') (\<lambda>collectibleIssuers.
     ebind (hp_integer env ''HAF_PROJECTOR_PAGE_SIZE'' 1000 1 10000) (\<lambda>pageSize.
     ebind (hp_integer env ''HAF_PROJECTOR_REQUEST_TIMEOUT_MS'' 5000 100 120000) (\<lambda>requestTimeout.
     ebind (hp_integer env ''HAF_PROJECTOR_MAX_BLOCKS_PER_RUN'' 50 1 10000) (\<lambda>maxBlocks.
     ebind (hp_integer env ''HAF_PROJECTOR_MAX_REORG_DEPTH'' 200 1 10000) (\<lambda>maxReorg.
     ebind (hp_integer env ''HAF_PROJECTOR_MAXIMUM_FUTURE_CLOCK_SKEW_MS'' 300000 0 3600000) (\<lambda>clockSkew.
     ebind (hp_integer env ''HAF_PROJECTOR_POLL_INTERVAL_MS'' 1000 100 300000) (\<lambda>pollInterval.
     Inr \<lparr>hp_nodeEnvironment = nodeEnvironment, hp_databaseUrl = databaseUrl,
       hp_databasePoolMax = poolMax, hp_databaseConnectionTimeoutMs = connectionTimeout,
       hp_sourceName = sourceName, hp_hafahApiUrl = hafahApiUrl, hp_hiveRpcUrl = hiveRpcUrl,
       hp_operationTypeIds = operationTypeIds, hp_matchPublishers = matchPublishers,
       hp_collectibleIssuers = collectibleIssuers, hp_pageSize = pageSize,
       hp_requestTimeoutMs = requestTimeout, hp_maxBlocksPerRun = maxBlocks,
       hp_maxReorgDepth = maxReorg, hp_maximumFutureClockSkewMs = clockSkew,
       hp_pollIntervalMs = pollInterval, hp_initialFailureBackoffMs = initialBackoff,
       hp_maximumFailureBackoffMs = maximumBackoff\<rparr>))))))))))))))))))))))))))"

section \<open>The match publisher\<close>

definition MatchPublisherConfigurationError :: "string \<Rightarrow> exn" where
  "MatchPublisherConfigurationError field = ConfigurationError ''MatchPublisherConfigurationError'' field"

record match_publisher_config =
  mp_nodeEnvironment :: node_environment
  mp_databaseUrl :: string
  mp_databasePoolMax :: int
  mp_databaseConnectionTimeoutMs :: int
  mp_hiveRpcUrl :: string
  mp_hiveRestApiUrl :: "string option"
  mp_hiveChainId :: string
  mp_hiveApiTimeoutMs :: int
  mp_publisherAccount :: string
  mp_publisherPublicKey :: string
  mp_signerKeyReference :: string
  mp_signerPolicyVersion :: string
  mp_signerUrl :: string
  mp_signerBearerToken :: string
  mp_signerTimeoutMs :: int
  mp_batchMaximumAgeMs :: int
  mp_batchMaximumResults :: int
  mp_batchMaximumPayloadBytes :: int
  mp_transactionExpirationSeconds :: int
  mp_claimLeaseMs :: int
  mp_pollIntervalMs :: int
  mp_initialRetryBackoffMs :: int
  mp_maximumRetryBackoffMs :: int

definition mp_required :: "environment \<Rightarrow> string \<Rightarrow> exn + string" where
  "mp_required env field =
     (case map_option js_trim (env field) of
        None \<Rightarrow> Inl (MatchPublisherConfigurationError field)
      | Some v \<Rightarrow> if v = '''' then Inl (MatchPublisherConfigurationError field) else Inr v)"

definition mp_parseNodeEnvironment :: "string option \<Rightarrow> exn + node_environment" where
  "mp_parseNodeEnvironment = parse_environment ''MatchPublisherConfigurationError''"

definition mp_databaseUrl_of ::
  "host \<Rightarrow> query_reader \<Rightarrow> string \<Rightarrow> node_environment \<Rightarrow> exn + string" where
  "mp_databaseUrl_of = database_url ''MatchPublisherConfigurationError''"

definition mp_httpsUrl :: "host \<Rightarrow> string \<Rightarrow> string \<Rightarrow> exn + string" where
  "mp_httpsUrl = https_url ''MatchPublisherConfigurationError''"

definition mp_integer_of :: "string option \<Rightarrow> string \<Rightarrow> nat \<Rightarrow> int \<Rightarrow> int \<Rightarrow> exn + int" where
  "mp_integer_of = bounded_integer ''MatchPublisherConfigurationError''"

definition mp_chainId :: "string \<Rightarrow> exn + string" where
  "mp_chainId v =
     ebind (ensure (is_hex_string 64 v)
       (MatchPublisherConfigurationError ''MATCH_PUBLISHER_HIVE_CHAIN_ID'')) (\<lambda>_. Inr v)"

definition mp_bounded :: "string \<Rightarrow> string \<Rightarrow> nat \<Rightarrow> nat \<Rightarrow> exn + string" where
  "mp_bounded v field minimum maximum =
     ebind (ensure (\<not> (length v < minimum \<or> length v > maximum))
       (MatchPublisherConfigurationError field)) (\<lambda>_. Inr v)"

text \<open>\<open>/^[a-z0-9][a-z0-9._-]{0,31}$/\<close>\<close>

definition mp_policyVersion :: "string \<Rightarrow> string \<Rightarrow> exn + string" where
  "mp_policyVersion v field =
     ebind (ensure (match_lead (\<lambda>c. is_lower c \<or> is_digit c)
         (\<lambda>c. is_lower c \<or> is_digit c \<or> is_one_of ''._-'' c) 0 31 v)
       (MatchPublisherConfigurationError field)) (\<lambda>_. Inr v)"

definition mp_integer :: "environment \<Rightarrow> string \<Rightarrow> nat \<Rightarrow> int \<Rightarrow> int \<Rightarrow> exn + int" where
  "mp_integer env field = mp_integer_of (env field) field"

text \<open>A required string, and what is asked of it.\<close>

definition mp_text :: "environment \<Rightarrow> string \<Rightarrow> (string \<Rightarrow> exn + 'a) \<Rightarrow> exn + 'a" where
  "mp_text env field f = ebind (mp_required env field) f"

definition loadMatchPublisherConfig ::
  "host \<Rightarrow> query_reader \<Rightarrow> environment \<Rightarrow> exn + match_publisher_config" where
  "loadMatchPublisherConfig H query env =
     ebind (mp_parseNodeEnvironment (env ''NODE_ENV'')) (\<lambda>nodeEnvironment.
     ebind (mp_required env ''MATCH_PUBLISHER_HIVE_ACCOUNT'') (\<lambda>publisherAccount.
     ebind (ensure (hiveAccountSchema publisherAccount)
       (MatchPublisherConfigurationError ''MATCH_PUBLISHER_HIVE_ACCOUNT'')) (\<lambda>_.
     ebind (mp_integer env ''MATCH_PUBLISHER_INITIAL_RETRY_BACKOFF_MS'' 1000 100 300000) (\<lambda>initialBackoff.
     ebind (mp_integer env ''MATCH_PUBLISHER_MAXIMUM_RETRY_BACKOFF_MS'' 60000 100 3600000) (\<lambda>maximumBackoff.
     ebind (ensure (\<not> maximumBackoff < initialBackoff)
       (MatchPublisherConfigurationError ''MATCH_PUBLISHER_MAXIMUM_RETRY_BACKOFF_MS'')) (\<lambda>_.
     ebind (mp_required env ''MATCH_PUBLISHER_SIGNER_BEARER_TOKEN'') (\<lambda>signerBearerToken.
     ebind (ensure (\<not> (length signerBearerToken < 32 \<or> length signerBearerToken > 4096))
       (MatchPublisherConfigurationError ''MATCH_PUBLISHER_SIGNER_BEARER_TOKEN'')) (\<lambda>_.
     ebind (mp_text env ''DATABASE_URL'' (\<lambda>v. mp_databaseUrl_of H query v nodeEnvironment)) (\<lambda>databaseUrl.
     ebind (mp_integer env ''MATCH_PUBLISHER_DATABASE_POOL_MAX'' 10 1 100) (\<lambda>poolMax.
     ebind (mp_integer env ''MATCH_PUBLISHER_DATABASE_CONNECTION_TIMEOUT_MS'' 5000 100 120000) (\<lambda>connectionTimeout.
     ebind (mp_text env ''MATCH_PUBLISHER_HIVE_RPC_URL''
       (\<lambda>v. mp_httpsUrl H v ''MATCH_PUBLISHER_HIVE_RPC_URL'')) (\<lambda>hiveRpcUrl.
     ebind (case env ''MATCH_PUBLISHER_HIVE_REST_API_URL'' of
         None \<Rightarrow> Inr None
       | Some _ \<Rightarrow> mp_text env ''MATCH_PUBLISHER_HIVE_REST_API_URL''
           (\<lambda>v. ebind (mp_httpsUrl H v ''MATCH_PUBLISHER_HIVE_REST_API_URL'') (\<lambda>u. Inr (Some u))))
       (\<lambda>hiveRestApiUrl.
     ebind (mp_text env ''MATCH_PUBLISHER_HIVE_CHAIN_ID'' mp_chainId) (\<lambda>hiveChainId.
     ebind (mp_integer env ''MATCH_PUBLISHER_HIVE_API_TIMEOUT_MS'' 5000 100 120000) (\<lambda>apiTimeout.
     ebind (mp_text env ''MATCH_PUBLISHER_PUBLIC_KEY''
       (\<lambda>v. mp_bounded v ''MATCH_PUBLISHER_PUBLIC_KEY'' 16 128)) (\<lambda>publisherPublicKey.
     ebind (mp_text env ''MATCH_PUBLISHER_SIGNER_KEY_REFERENCE''
       (\<lambda>v. mp_bounded v ''MATCH_PUBLISHER_SIGNER_KEY_REFERENCE'' 1 256)) (\<lambda>signerKeyReference.
     ebind (mp_text env ''MATCH_PUBLISHER_SIGNER_POLICY_VERSION''
       (\<lambda>v. mp_policyVersion v ''MATCH_PUBLISHER_SIGNER_POLICY_VERSION'')) (\<lambda>signerPolicyVersion.
     ebind (mp_text env ''MATCH_PUBLISHER_SIGNER_URL''
       (\<lambda>v. mp_httpsUrl H v ''MATCH_PUBLISHER_SIGNER_URL'')) (\<lambda>signerUrl.
     ebind (mp_integer env ''MATCH_PUBLISHER_SIGNER_TIMEOUT_MS'' 5000 100 120000) (\<lambda>signerTimeout.
     ebind (mp_integer env ''MATCH_PUBLISHER_BATCH_MAXIMUM_AGE_MS'' 300000 1000 3600000) (\<lambda>maximumAge.
     ebind (mp_integer env ''MATCH_PUBLISHER_BATCH_MAXIMUM_RESULTS'' 20 1 20) (\<lambda>maximumResults.
     ebind (mp_integer env ''MATCH_PUBLISHER_BATCH_MAXIMUM_PAYLOAD_BYTES'' (6 * 1024) 512 (6 * 1024))
       (\<lambda>maximumPayload.
     ebind (mp_integer env ''MATCH_PUBLISHER_TRANSACTION_EXPIRATION_SECONDS'' 300 10 3600) (\<lambda>expiration.
     ebind (mp_integer env ''MATCH_PUBLISHER_CLAIM_LEASE_MS'' 120000 1000 3600000) (\<lambda>claimLease.
     ebind (mp_integer env ''MATCH_PUBLISHER_POLL_INTERVAL_MS'' 1000 100 300000) (\<lambda>pollInterval.
     Inr \<lparr>mp_nodeEnvironment = nodeEnvironment, mp_databaseUrl = databaseUrl,
       mp_databasePoolMax = poolMax, mp_databaseConnectionTimeoutMs = connectionTimeout,
       mp_hiveRpcUrl = hiveRpcUrl, mp_hiveRestApiUrl = hiveRestApiUrl, mp_hiveChainId = hiveChainId,
       mp_hiveApiTimeoutMs = apiTimeout, mp_publisherAccount = publisherAccount,
       mp_publisherPublicKey = publisherPublicKey, mp_signerKeyReference = signerKeyReference,
       mp_signerPolicyVersion = signerPolicyVersion, mp_signerUrl = signerUrl,
       mp_signerBearerToken = signerBearerToken, mp_signerTimeoutMs = signerTimeout,
       mp_batchMaximumAgeMs = maximumAge, mp_batchMaximumResults = maximumResults,
       mp_batchMaximumPayloadBytes = maximumPayload, mp_transactionExpirationSeconds = expiration,
       mp_claimLeaseMs = claimLease, mp_pollIntervalMs = pollInterval,
       mp_initialRetryBackoffMs = initialBackoff, mp_maximumRetryBackoffMs = maximumBackoff\<rparr>))))))))))))))))))))))))))"

end
