(* ===== verification/Wax_Chain.thy ===== *)
theory Wax_Chain
  imports Signer_Boundary Worker_Config
begin

text \<open>
  The chain adapter of the gateway package (\<open>wax-chain.ts\<close>): the chain port over the WAX library.
  The library is a parameter, a record of its functions on a transaction type of its own; the
  adapter trusts nothing of it but what it reads back from the JSON of a transaction.
\<close>

section \<open>The library\<close>

text \<open>
  \<open>wx_createTransaction n\<close> is \<open>chain.createTransaction(`+${n}s`)\<close>, \<open>wx_fromJson\<close> is
  \<open>chain.createTransactionFromJson\<close>, \<open>wx_publicKey\<close> is \<open>chain.getPublicKeyFromSignature\<close>; the
  others are the methods and getters of a transaction.
\<close>

record ('c, 't) wax =
  wx_createTransaction :: "int \<Rightarrow> ('c, 't) action"
  wx_pushOperation :: "'t \<Rightarrow> custom_json \<Rightarrow> exn + 't"
  wx_validate :: "'t \<Rightarrow> exn + unit"
  wx_toApi :: "'t \<Rightarrow> string"
  wx_fromJson :: "string \<Rightarrow> exn + 't"
  wx_sigDigest :: "'t \<Rightarrow> string"
  wx_id :: "'t \<Rightarrow> string"
  wx_isSigned :: "'t \<Rightarrow> bool"
  wx_addSignature :: "'t \<Rightarrow> string \<Rightarrow> exn + 't"
  wx_publicKey :: "string \<Rightarrow> string \<Rightarrow> exn + string"
  wx_broadcast :: "'t \<Rightarrow> ('c, unit) action"

section \<open>Reading a transaction\<close>

text \<open>\<open>customJsonValueSchema\<close>\<close>

definition read_custom_json :: "json \<Rightarrow> custom_json option" where
  "read_custom_json v =
     Option.bind (strict_object [''required_auths'', ''required_posting_auths'', ''id'', ''json''] [] v)
       (\<lambda>m. Option.bind (get_prop (as_array_of as_string) m ''required_auths'') (\<lambda>auths.
       Option.bind (get_prop (as_array_of as_string) m ''required_posting_auths'') (\<lambda>posting.
       Option.bind (get_prop as_string m ''id'') (\<lambda>i.
       map_option (\<lambda>j. \<lparr>cj_required_auths = auths, cj_required_posting_auths = posting, cj_id = i,
         cj_json = j\<rparr>) (get_prop as_string m ''json'')))))"

text \<open>
  \<open>apiOperationSchema\<close>: the first of the two shapes that parses, and the operation in it. No value
  has both shapes, as both are strict.
\<close>

definition read_api_operation :: "json \<Rightarrow> custom_json option" where
  "read_api_operation v =
     (case Option.bind (strict_object [''type'', ''value''] [] v) (\<lambda>m.
         if fmlookup m ''type'' = Some (JStr ''custom_json_operation'')
         then get_prop read_custom_json m ''value'' else None) of
        Some cj \<Rightarrow> Some cj
      | None \<Rightarrow> Option.bind (strict_object [''custom_json''] [] v)
          (\<lambda>m. get_prop read_custom_json m ''custom_json''))"

text \<open>\<open>transactionEnvelopeSchema\<close>: the operations and the signatures; other keys pass.\<close>

definition read_envelope :: "json \<Rightarrow> (json list \<times> string list) option" where
  "read_envelope v =
     (case v of
        JObj m \<Rightarrow>
          Option.bind (get_prop as_array m ''operations'') (\<lambda>operations.
          map_option (\<lambda>signatures. (operations, signatures))
            (get_prop (as_array_of as_string) m ''signatures''))
      | _ \<Rightarrow> None)"

abbreviation invalidOperation :: exn where
  "invalidOperation \<equiv> HiveGatewayError invalid_operation"

text \<open>\<open>try { ... } catch { throw e }\<close> around calls that do not change the state.\<close>

definition or_throw :: "exn \<Rightarrow> exn + 'a \<Rightarrow> exn + 'a" where
  "or_throw e r = (case r of Inl _ \<Rightarrow> Inl e | Inr x \<Rightarrow> Inr x)"

definition inspected_transaction ::
  "host \<Rightarrow> ('c, 't) wax \<Rightarrow> string \<Rightarrow> exn + inspected_tx" where
  "inspected_transaction H X transactionJson =
     ebind (or_throw invalidOperation (ebind (wx_fromJson X transactionJson) (\<lambda>t.
       ebind (wx_validate X t) (\<lambda>_. Inr t)))) (\<lambda>transaction.
     ebind (of_option invalidOperation (json_parse H (wx_toApi X transaction))) (\<lambda>raw.
     ebind (of_option invalidOperation (read_envelope raw)) (\<lambda>(operations, signatures).
     ebind (ensure (\<not> length operations \<noteq> 1) invalidOperation) (\<lambda>_.
     ebind (of_option invalidOperation (read_api_operation (hd operations))) (\<lambda>operation.
     ebind (canonicalCustomJsonOperation H operation) (\<lambda>canonicalOperationJson.
     Inr \<lparr>tx_unsignedTransactionJson = wx_toApi X transaction,
       tx_signatureDigest = wx_sigDigest X transaction, tx_transactionId = wx_id X transaction,
       tx_canonicalOperationJson = canonicalOperationJson, tx_operation = operation,
       tx_isSigned = length signatures > 0\<rparr>))))))"

definition wax_inspectTransaction ::
  "host \<Rightarrow> ('c, 't) wax \<Rightarrow> string \<Rightarrow> ('c, inspected_tx) action" where
  "wax_inspectTransaction H X transactionJson = act_lift (inspected_transaction H X transactionJson)"

section \<open>The adapter\<close>

text \<open>A prepared transaction is what the inspection of its own JSON gives.\<close>

definition wax_prepareCustomJson ::
  "host \<Rightarrow> ('c, 't) wax \<Rightarrow> custom_json \<Rightarrow> int \<Rightarrow> ('c, prepared_tx) action" where
  "wax_prepareCustomJson H X operation expirationSeconds =
     act_bind (act_ensure (\<not> (expirationSeconds < 10 \<or> expirationSeconds > 3600)) invalidOperation) (\<lambda>_.
     act_bind (wx_createTransaction X expirationSeconds) (\<lambda>empty_transaction.
     act_bind (act_lift (wx_pushOperation X empty_transaction operation)) (\<lambda>transaction.
     act_bind (act_lift (wx_validate X transaction)) (\<lambda>_.
     act_bind (wax_inspectTransaction H X (wx_toApi X transaction)) (\<lambda>inspected.
     act_ok (prepared_tx.truncate inspected))))))"

definition wax_recoverPublicKey :: "('c, 't) wax \<Rightarrow> string \<Rightarrow> string \<Rightarrow> ('c, string) action" where
  "wax_recoverPublicKey X signatureDigest signature =
     act_lift (or_throw (HiveGatewayError invalid_signature) (wx_publicKey X signatureDigest signature))"

definition wax_attachSignature :: "('c, 't) wax \<Rightarrow> string \<Rightarrow> string \<Rightarrow> ('c, string) action" where
  "wax_attachSignature X unsignedTransactionJson signature =
     act_bind (act_lift (wx_fromJson X unsignedTransactionJson)) (\<lambda>transaction.
     act_bind (act_ensure (\<not> wx_isSigned X transaction) (HiveGatewayError transaction_mismatch)) (\<lambda>_.
     act_bind (act_lift (wx_addSignature X transaction signature)) (\<lambda>signed.
     act_ok (wx_toApi X signed))))"

definition wax_broadcast :: "('c, 't) wax \<Rightarrow> string \<Rightarrow> ('c, unit) action" where
  "wax_broadcast X signedTransactionJson =
     act_bind (act_lift (wx_fromJson X signedTransactionJson)) (\<lambda>transaction.
     act_bind (act_lift (wx_validate X transaction)) (\<lambda>_.
     act_bind (act_ensure (wx_isSigned X transaction) (HiveGatewayError invalid_signature)) (\<lambda>_.
     wx_broadcast X transaction)))"

definition wax_adapter :: "host \<Rightarrow> ('c, 't) wax \<Rightarrow> 'c chain_port" where
  "wax_adapter H X = \<lparr>
     prepareCustomJson = wax_prepareCustomJson H X,
     inspectTransaction = wax_inspectTransaction H X,
     recoverPublicKey = wax_recoverPublicKey X,
     attachSignature = wax_attachSignature X,
     broadcast = wax_broadcast X\<rparr>"

record wax_config =
  wc_apiEndpoint :: string
  wc_chainId :: string
  wc_apiTimeoutMs :: "int option"
  wc_restApiEndpoint :: "string option"
  wc_waxApiCaller :: "string option"

definition assertEndpoint :: "host \<Rightarrow> string \<Rightarrow> exn + unit" where
  "assertEndpoint H v =
     ebind (of_option invalidOperation (parse_url H v)) (\<lambda>url.
     ensure (\<not> (url_protocol url \<noteq> ''https:'' \<or> url_username url \<noteq> '''' \<or> url_password url \<noteq> '''' \<or>
       url_search url \<noteq> '''' \<or> url_hash url \<noteq> '''')) invalidOperation)"

text \<open>The constructor: \<open>create config timeout\<close> is \<open>createHiveChain(options)\<close>.\<close>

definition WaxHiveChainAdapter_new ::
  "host \<Rightarrow> (wax_config \<Rightarrow> int \<Rightarrow> ('c, 't) wax) \<Rightarrow> wax_config \<Rightarrow> exn + 'c chain_port" where
  "WaxHiveChainAdapter_new H create config =
     ebind (assertEndpoint H (wc_apiEndpoint config)) (\<lambda>_.
     ebind (case wc_restApiEndpoint config of None \<Rightarrow> Inr () | Some v \<Rightarrow> assertEndpoint H v) (\<lambda>_.
     ebind (ensure (is_hex_string 64 (wc_chainId config)) invalidOperation) (\<lambda>_.
     let apiTimeout = (case wc_apiTimeoutMs config of None \<Rightarrow> 5000 | Some n \<Rightarrow> n) in
     ebind (ensure (\<not> (\<not> is_safe_integer apiTimeout \<or> apiTimeout < 100 \<or> apiTimeout > 120000))
       invalidOperation) (\<lambda>_.
     Inr (wax_adapter H (create config apiTimeout))))))"

section \<open>What an inspection tells\<close>

lemma wax_adapter_simps [simp]:
  "prepareCustomJson (wax_adapter H X) = wax_prepareCustomJson H X"
  "inspectTransaction (wax_adapter H X) = wax_inspectTransaction H X"
  "recoverPublicKey (wax_adapter H X) = wax_recoverPublicKey X"
  "attachSignature (wax_adapter H X) = wax_attachSignature X"
  "broadcast (wax_adapter H X) = wax_broadcast X"
  by (simp_all add: wax_adapter_def)

text \<open>The JSON of a transaction holds one operation, this \<open>custom_json\<close>, and these signatures.\<close>

definition carries :: "host \<Rightarrow> ('c, 't) wax \<Rightarrow> 't \<Rightarrow> custom_json \<Rightarrow> string list \<Rightarrow> bool" where
  "carries H X transaction cj signatures \<longleftrightarrow>
     (\<exists>raw operation. json_parse H (wx_toApi X transaction) = Some raw \<and>
        read_envelope raw = Some ([operation], signatures) \<and> read_api_operation operation = Some cj)"

lemma inspected_carries:
  assumes "inspected_transaction H X t = Inr tx"
  shows "\<exists>transaction signatures. wx_fromJson X t = Inr transaction \<and>
    wx_validate X transaction = Inr () \<and> carries H X transaction (tx_operation tx) signatures \<and>
    tx_isSigned tx = (signatures \<noteq> []) \<and> tx_signatureDigest tx = wx_sigDigest X transaction \<and>
    tx_transactionId tx = wx_id X transaction \<and>
    canonicalCustomJsonOperation H (tx_operation tx) = Inr (tx_canonicalOperationJson tx)"
proof -
  from assms obtain transaction raw operations signatures where
    t: "or_throw invalidOperation (ebind (wx_fromJson X t) (\<lambda>t. ebind (wx_validate X t) (\<lambda>_. Inr t))) =
      Inr transaction"
    and raw: "json_parse H (wx_toApi X transaction) = Some raw"
      "read_envelope raw = Some (operations, signatures)"
    and one: "length operations = 1"
    and operation: "read_api_operation (hd operations) = Some (tx_operation tx)"
    and rest: "canonicalCustomJsonOperation H (tx_operation tx) = Inr (tx_canonicalOperationJson tx)"
      "tx_signatureDigest tx = wx_sigDigest X transaction" "tx_transactionId tx = wx_id X transaction"
      "tx_isSigned tx = (length signatures > 0)"
    unfolding inspected_transaction_def by (auto simp: ebind_eq_Inr split: prod.splits)
  from t have "wx_fromJson X t = Inr transaction" "wx_validate X transaction = Inr ()"
    by (auto simp: or_throw_def ebind_eq_Inr split: sum.splits)
  moreover from one operation raw have "carries H X transaction (tx_operation tx) signatures"
    unfolding carries_def by (cases operations) auto
  ultimately show ?thesis using rest by auto
qed

section \<open>Signed transactions\<close>

lemma jstrings_inj: "jstrings xs = jstrings ys \<Longrightarrow> xs = ys"
  by (simp add: inj_map_eq_map inj_def)

lemma jobj_lookup: "jobj kvs = jobj kvs' \<Longrightarrow> map_of kvs k = map_of kvs' k"
  by (metis fmlookup_of_list jobj_def json.inject(6) props_def)

lemma operation_json_inj:
  assumes "operation_json cj = operation_json cj'"
  shows "cj = cj'"
proof -
  from jobj_lookup [OF assms [unfolded operation_json_def], of "''value''"]
  have "custom_json_json cj = custom_json_json cj'" by simp
  note same = jobj_lookup [OF this [unfolded custom_json_json_def]]
  from same [of "''required_auths''"] same [of "''required_posting_auths''"] same [of "''id''"]
    same [of "''json''"]
  have "jstrings (cj_required_auths cj) = jstrings (cj_required_auths cj')"
    "jstrings (cj_required_posting_auths cj) = jstrings (cj_required_posting_auths cj')"
    "cj_id cj = cj_id cj'" "cj_json cj = cj_json cj'"
    by simp_all
  from this(3,4) jstrings_inj [OF this(1)] jstrings_inj [OF this(2)] show ?thesis by simp
qed

text \<open>A canonical text that can be read back belongs to one operation.\<close>

lemma canonical_operation_inj:
  assumes "codec_ok H (operation_json cj)" and "codec_ok H (operation_json cj')"
    and "canonicalCustomJsonOperation H cj = canonicalCustomJsonOperation H cj'"
  shows "cj = cj'"
  using assms
  by (intro operation_json_inj)
    (auto simp: canonicalCustomJsonOperation_def canonicalJson_def elim!: codec_okE)

definition posted_operation :: "authorization \<Rightarrow> string \<Rightarrow> custom_json" where
  "posted_operation a payload = \<lparr>cj_required_auths = [], cj_required_posting_auths = [au_account a],
     cj_id = HIVE_CHAMELEON_APPLICATION_ID, cj_json = payload\<rparr>"

text \<open>
  C34. With the WAX adapter below it, and a canonicalizer whose text of an operation can be read
  back, the signer boundary lets a request pass only for a transaction that WAX validated and whose
  own JSON holds no signature and exactly one operation: the \<open>custom_json\<close> this application posts,
  with the posting authority of the account of a policy entry and nothing else, for a valid event of
  that account. What the request says of the transaction is not relied on.
\<close>

theorem checked_transaction_is_the_event:
  assumes "check_request H (wax_adapter H X) policy q c = (Inr (), c')"
    and codec: "\<And>cj. codec_ok H (operation_json cj)"
  shows "\<exists>a event transaction.
    policy (rq_policyVersion q) (rq_role q) = Some a \<and>
    wx_fromJson X (rq_unsignedTransactionJson q) = Inr transaction \<and>
    wx_validate X transaction = Inr () \<and> wx_sigDigest X transaction = rq_signatureDigest q \<and>
    carries H X transaction (posted_operation a (rq_canonicalPayload q)) [] \<and>
    parseHiveChameleonEvent H (rq_canonicalPayload q) = Inr event \<and>
    payload_account event \<in> {None, Some (au_account a)} \<and>
    canonicalCustomJsonOperation H (posted_operation a (rq_canonicalPayload q)) =
      Inr (rq_canonicalOperationJson q)"
proof -
  from assms(1) obtain tx event a operation where
    seen: "inspectTransaction (wax_adapter H X) (rq_unsignedTransactionJson q) c = (Inr tx, c')"
      "\<not> tx_isSigned tx" "tx_signatureDigest tx = rq_signatureDigest q"
      "tx_canonicalOperationJson tx = rq_canonicalOperationJson q"
    and event: "parseHiveChameleonEvent H (rq_canonicalPayload q) = Inr event"
    and a: "policy (rq_policyVersion q) (rq_role q) = Some a"
    and authorized: "authorizeOfficialEvent H \<lparr>in_idempotencyKey = rq_idempotencyKey q,
        in_policyVersion = rq_policyVersion q, in_event = event, in_expirationSeconds = None\<rparr> a =
      Inr (operation, rq_canonicalPayload q)"
    and canonical: "canonicalCustomJsonOperation H operation = Inr (rq_canonicalOperationJson q)"
    unfolding check_request_Inr by blast
  from authorized have operation: "operation = posted_operation a (rq_canonicalPayload q)"
    and account: "payload_account event \<in> {None, Some (au_account a)}"
    by (simp_all add: authorize_Inr posted_operation_def)
  from seen(1) have "inspected_transaction H X (rq_unsignedTransactionJson q) = Inr tx"
    by (simp add: wax_inspectTransaction_def act_run)
  from inspected_carries [OF this] obtain transaction signatures where t:
    "wx_fromJson X (rq_unsignedTransactionJson q) = Inr transaction" "wx_validate X transaction = Inr ()"
    "carries H X transaction (tx_operation tx) signatures" "tx_isSigned tx = (signatures \<noteq> [])"
    "tx_signatureDigest tx = wx_sigDigest X transaction"
    "canonicalCustomJsonOperation H (tx_operation tx) = Inr (tx_canonicalOperationJson tx)"
    by blast
  have same: "tx_operation tx = posted_operation a (rq_canonicalPayload q)"
    using canonical_operation_inj [OF codec codec] t(6) seen(4) canonical operation by simp
  with t(3,4) seen(2) have "carries H X transaction (posted_operation a (rq_canonicalPayload q)) []"
    by simp
  with t(1,2,5) seen(3) event a account canonical operation show ?thesis by auto
qed

section \<open>A transaction on which it is seen to hold\<close>

text \<open>
  A host whose canonical text of an operation spells out its fields, and reads it back: each field
  is its characters, each after a dot, and a semicolon; the posting accounts follow the others.
\<close>

definition write_field :: "string \<Rightarrow> string" where
  "write_field s = concat (map (\<lambda>c. [CHR ''.'', c]) s) @ [CHR '';'']"

fun read_fields :: "string \<Rightarrow> string list" where
  "read_fields [] = []"
| "read_fields [m] = [[]]"
| "read_fields (m # c # r) =
     (if m = CHR ''.''
      then (case read_fields r of [] \<Rightarrow> [[c]] | s # ss \<Rightarrow> (c # s) # ss)
      else [] # read_fields (c # r))"

lemma read_field: "read_fields (write_field s @ r) = s # read_fields r"
proof (induction s)
  case Nil
  then show ?case by (cases r) (simp_all add: write_field_def)
qed (simp add: write_field_def)

lemma read_write_fields [simp]: "read_fields (concat (map write_field ss)) = ss"
  by (induction ss) (simp_all add: read_field)

definition write_operation :: "custom_json \<Rightarrow> string" where
  "write_operation cj = ''op:'' @ concat (map write_field
     (cj_id cj # cj_json cj # replicate (length (cj_required_auths cj)) (CHR ''x'') #
      cj_required_auths cj @ cj_required_posting_auths cj))"

definition read_operation :: "string \<Rightarrow> custom_json option" where
  "read_operation t =
     (if take 3 t = ''op:''
      then (case read_fields (drop 3 t) of
          i # j # n # ss \<Rightarrow> Some \<lparr>cj_required_auths = take (length n) ss,
            cj_required_posting_auths = drop (length n) ss, cj_id = i, cj_json = j\<rparr>
        | _ \<Rightarrow> None)
      else None)"

lemma read_write_operation: "read_operation (write_operation cj) = Some cj"
  using read_write_fields [of "cj_id cj # cj_json cj #
      replicate (length (cj_required_auths cj)) (CHR ''x'') #
      cj_required_auths cj @ cj_required_posting_auths cj"]
  by (simp add: read_operation_def write_operation_def del: read_write_fields)

definition fixture_operation :: custom_json where
  "fixture_operation = posted_operation fixture_authorization ''match_results_batch''"

definition fixture_wax :: "(unit, unit) wax" where
  "fixture_wax = \<lparr>
     wx_createTransaction = (\<lambda>n. act_ok ()), wx_pushOperation = (\<lambda>t cj. Inr t),
     wx_validate = (\<lambda>t. Inr ()), wx_toApi = (\<lambda>t. ''tx:custom_json_operation''),
     wx_fromJson = (\<lambda>s. if s = ''tx:custom_json_operation'' then Inr () else Inl (OtherError ''wax'')),
     wx_sigDigest = (\<lambda>t. fixture_digest), wx_id = (\<lambda>t. replicate 40 (CHR ''c'')),
     wx_isSigned = (\<lambda>t. False), wx_addSignature = (\<lambda>t g. Inr t),
     wx_publicKey = (\<lambda>d g. Inr fixture_key), wx_broadcast = (\<lambda>t. act_ok ())\<rparr>"

definition fixture_wax_host :: host where
  "fixture_wax_host = fixture_host\<lparr>
     canonicalize := (\<lambda>v. case read_api_operation v of
         Some cj \<Rightarrow> Some (write_operation cj) | None \<Rightarrow> canonicalize fixture_host v),
     json_parse := (\<lambda>t.
       if t = ''tx:custom_json_operation''
       then Some (jobj [(''operations'', JArr [operation_json fixture_operation]), (''signatures'', JArr [])])
       else case read_operation t of
         Some cj \<Rightarrow> Some (operation_json cj) | None \<Rightarrow> json_parse fixture_host t)\<rparr>"

lemma read_custom_json [simp]: "read_custom_json (custom_json_json cj) = Some cj"
  by (simp add: read_custom_json_def custom_json_json_def strict_object_jobj del: jstrings.simps)

lemma read_api_operation [simp]: "read_api_operation (operation_json cj) = Some cj"
  by (simp add: read_api_operation_def operation_json_def strict_object_jobj props_def
      fmlookup_of_list get_prop_def)

lemma fixture_wax_codec: "codec_ok fixture_wax_host (operation_json cj)"
proof -
  have "write_operation cj \<noteq> ''tx:custom_json_operation''"
    by (simp add: write_operation_def)
  then show ?thesis
    by (simp add: codec_ok_def fixture_wax_host_def read_write_operation)
qed

definition fixture_wax_request :: signer_request where
  "fixture_wax_request =
     fixture_request\<lparr>rq_canonicalOperationJson := write_operation fixture_operation\<rparr>"

lemma fixture_wax_checked:
  "check_request fixture_wax_host (wax_adapter fixture_wax_host fixture_wax) fixture_policy
     fixture_wax_request () = (Inr (), ())"
  by code_simp

lemma checked_transaction_is_the_event_witness:
  "\<exists>a. fixture_policy (rq_policyVersion fixture_wax_request) (rq_role fixture_wax_request) = Some a \<and>
     carries fixture_wax_host fixture_wax ()
       (posted_operation a (rq_canonicalPayload fixture_wax_request)) [] \<and>
     write_operation (posted_operation a (rq_canonicalPayload fixture_wax_request)) =
       rq_canonicalOperationJson fixture_wax_request"
proof -
  have spelled: "canonicalCustomJsonOperation fixture_wax_host cj = Inr (write_operation cj)" for cj
    by (simp add: canonicalCustomJsonOperation_def canonicalJson_def fixture_wax_host_def)
  from checked_transaction_is_the_event [OF fixture_wax_checked fixture_wax_codec] show ?thesis
    unfolding spelled by auto
qed

end
