(* ===== verification/Http_Signer.thy ===== *)
theory Http_Signer
  imports Gateway Worker_Config
begin

text \<open>
  The HTTP client of the isolated signer (\<open>http-signer-client.ts\<close>): one request for each signature,
  never repeated, and every way it can go wrong as one of two errors. What the network answers is a
  parameter, an action of its own state.
\<close>

section \<open>The client\<close>

record http_signer =
  hq_endpoint :: string
  hq_bearerToken :: string
  hq_timeoutMs :: int

record signer_http_request =
  sh_url :: string
  sh_authorization :: string
  sh_body :: string
  sh_timeoutMs :: int

record signer_http_response =
  sv_ok :: bool
  sv_text :: "exn + string"

type_synonym 'v signer_fetch = "signer_http_request \<Rightarrow> ('v, signer_http_response) action"

definition validateSignerEndpoint :: "host \<Rightarrow> string \<Rightarrow> exn + string" where
  "validateSignerEndpoint H v =
     ebind (of_option (HiveGatewayError invalid_authorization) (parse_url H v)) (\<lambda>url.
     ebind (ensure (\<not> (url_protocol url \<noteq> ''https:'' \<or> url_username url \<noteq> '''' \<or>
         url_password url \<noteq> '''' \<or> url_search url \<noteq> '''' \<or> url_hash url \<noteq> ''''))
       (HiveGatewayError invalid_authorization)) (\<lambda>_. Inr (url_href url)))"

definition HttpIsolatedSignerClient_new ::
  "host \<Rightarrow> string \<Rightarrow> string \<Rightarrow> int option \<Rightarrow> exn + http_signer" where
  "HttpIsolatedSignerClient_new H endpoint bearerToken timeout =
     ebind (validateSignerEndpoint H endpoint) (\<lambda>validEndpoint.
     ebind (ensure (\<not> (length bearerToken < 32 \<or> length bearerToken > 4096))
       (HiveGatewayError invalid_authorization)) (\<lambda>_.
     let timeoutMs = (case timeout of None \<Rightarrow> 5000 | Some n \<Rightarrow> n) in
     ebind (ensure (\<not> (\<not> is_safe_integer timeoutMs \<or> timeoutMs < 100 \<or> timeoutMs > 120000))
       (HiveGatewayError invalid_authorization)) (\<lambda>_.
     Inr \<lparr>hq_endpoint = validEndpoint, hq_bearerToken = bearerToken, hq_timeoutMs = timeoutMs\<rparr>)))"

fun authority_name :: "authority \<Rightarrow> string" where
  "authority_name Active = ''active''"
| "authority_name Owner = ''owner''"
| "authority_name Posting = ''posting''"

fun event_family_name :: "event_family \<Rightarrow> string" where
  "event_family_name Match_Family = ''match''"
| "event_family_name Collectible_Family = ''collectible''"

text \<open>The request, with its properties in the order the gateway makes them.\<close>

definition signer_request_members :: "signer_request \<Rightarrow> (string \<times> json) list" where
  "signer_request_members q =
     [(''idempotencyKey'', JStr (rq_idempotencyKey q)), (''policyVersion'', JStr (rq_policyVersion q)),
      (''role'', JStr (service_role_name (rq_role q))), (''account'', JStr (rq_account q)),
      (''authority'', JStr (authority_name (rq_authority q))),
      (''expectedPublicKey'', JStr (rq_expectedPublicKey q)),
      (''signerKeyReference'', JStr (rq_signerKeyReference q)),
      (''eventFamily'', JStr (event_family_name (rq_eventFamily q))),
      (''eventType'', JStr (rq_eventType q)), (''canonicalPayload'', JStr (rq_canonicalPayload q)),
      (''canonicalOperationJson'', JStr (rq_canonicalOperationJson q)),
      (''canonicalOperationHash'', JStr (rq_canonicalOperationHash q)),
      (''unsignedTransactionJson'', JStr (rq_unsignedTransactionJson q)),
      (''signatureDigest'', JStr (rq_signatureDigest q)), (''transactionId'', JStr (rq_transactionId q))]"

text \<open>\<open>signerResponseSchema\<close>\<close>

definition read_signer_response :: "json \<Rightarrow> signer_response option" where
  "read_signer_response v =
     Option.bind (strict_object [''signature'', ''publicKey''] [] v) (\<lambda>m.
     Option.bind (get_prop as_string m ''signature'') (\<lambda>signature.
     Option.bind (get_prop as_string m ''publicKey'') (\<lambda>publicKey.
     if string_between 16 256 signature \<and> string_between 16 128 publicKey
     then Some \<lparr>rs_signature = signature, rs_publicKey = publicKey\<rparr> else None)))"

definition read_signer_text :: "host \<Rightarrow> string \<Rightarrow> exn + signer_response" where
  "read_signer_text H responseText =
     ebind (ensure (\<not> utf8_length responseText > 16 * 1024) (HiveGatewayError signer_mismatch)) (\<lambda>_.
     ebind (of_option (HiveGatewayError signer_mismatch) (json_parse H responseText)) (\<lambda>responseBody.
     of_option (HiveGatewayError signer_mismatch) (read_signer_response responseBody)))"

definition http_sign ::
  "host \<Rightarrow> crypto \<Rightarrow> 'v signer_fetch \<Rightarrow> http_signer \<Rightarrow> 'v signer_client" where
  "http_sign H K fetch client q =
     act_bind (act_catch (fetch \<lparr>sh_url = hq_endpoint client,
         sh_authorization = ''Bearer '' @ hq_bearerToken client,
         sh_body = json_stringify K (signer_request_members q), sh_timeoutMs = hq_timeoutMs client\<rparr>)
       (\<lambda>_. act_fail (HiveGatewayError signer_unavailable))) (\<lambda>response.
     act_bind (act_ensure (sv_ok response) (HiveGatewayError signer_unavailable)) (\<lambda>_.
     act_bind (act_lift (case sv_text response of
         Inl _ \<Rightarrow> Inl (HiveGatewayError signer_unavailable) | Inr t \<Rightarrow> Inr t)) (\<lambda>responseText.
     act_lift (read_signer_text H responseText))))"

section \<open>One request, one answer\<close>

text \<open>A network that notes what is sent.\<close>

definition noting_fetch ::
  "'v signer_fetch \<Rightarrow> ('v \<times> signer_http_request list) signer_fetch" where
  "noting_fetch fetch q = (\<lambda>(v, sent). case fetch q v of (r, v') \<Rightarrow> (r, (v', sent @ [q])))"

lemma noted_request: "noting_fetch fetch q (v, sent) = (r, s) \<Longrightarrow> snd s = sent @ [q]"
  by (auto simp: noting_fetch_def split: prod.splits)

definition signer_exception :: "exn \<Rightarrow> bool" where
  "signer_exception e \<longleftrightarrow>
     e = HiveGatewayError signer_unavailable \<or> e = HiveGatewayError signer_mismatch"

lemma read_signer_text_Inr:
  "read_signer_text H t = Inr r \<Longrightarrow>
   utf8_length t \<le> 16384 \<and> string_between 16 256 (rs_signature r) \<and> string_between 16 128 (rs_publicKey r)"
  by (auto simp: read_signer_text_def read_signer_response_def ebind_eq_Inr bind_eq_Some_conv
      split: if_splits)

lemma read_signer_text_Inl: "read_signer_text H t = Inl e \<Longrightarrow> signer_exception e"
  by (auto simp: read_signer_text_def signer_exception_def ebind_eq_Inl)

text \<open>
  C35. A call of the signer client sends one request and never a second one, to the configured
  endpoint with the bearer token; whatever comes back, it returns a signature and a key within their
  bounds, read from at most 16 KiB, or throws \<open>signer_unavailable\<close> or \<open>signer_mismatch\<close>.
\<close>

theorem signer_asked_once:
  assumes "http_sign H K (noting_fetch fetch) client q (v, sent) = (r, (v', sent'))"
  shows "(\<exists>request. sent' = sent @ [request] \<and> sh_url request = hq_endpoint client \<and>
      sh_authorization request = ''Bearer '' @ hq_bearerToken client \<and>
      sh_body request = json_stringify K (signer_request_members q)) \<and>
    (case r of Inl e \<Rightarrow> signer_exception e
      | Inr s \<Rightarrow> string_between 16 256 (rs_signature s) \<and> string_between 16 128 (rs_publicKey s))"
  using assms unfolding http_sign_def
proof (cases rule: act_bindE)
  case (fails e)
  then show ?thesis
    by (auto simp: act_run signer_exception_def elim!: act_catchE dest!: noted_request)
next
  case (goes response s)
  from goes(1) have "snd s = sent @ [\<lparr>sh_url = hq_endpoint client,
      sh_authorization = ''Bearer '' @ hq_bearerToken client,
      sh_body = json_stringify K (signer_request_members q), sh_timeoutMs = hq_timeoutMs client\<rparr>]"
    by (auto simp: act_run elim!: act_catchE dest!: noted_request)
  moreover from goes(2) have "sent' = snd s"
    by (auto simp: act_run elim!: act_bindE act_ensureE)
  moreover from goes(2) have "case r of Inl e \<Rightarrow> signer_exception e
      | Inr s \<Rightarrow> string_between 16 256 (rs_signature s) \<and> string_between 16 128 (rs_publicKey s)"
    by (auto simp: act_run signer_exception_def [of "HiveGatewayError signer_unavailable"]
        dest: read_signer_text_Inr read_signer_text_Inl elim!: act_bindE act_ensureE split: sum.splits)
  ultimately show ?thesis by auto
qed

definition fixture_signer_host :: host where
  "fixture_signer_host = fixture_host\<lparr>json_parse := (\<lambda>t. Some (jobj
     [(''signature'', JStr (replicate 20 (CHR ''s''))), (''publicKey'', JStr (replicate 20 (CHR ''k'')))]))\<rparr>"

definition fixture_http_signer :: http_signer where
  "fixture_http_signer = \<lparr>hq_endpoint = ''https://signer.example/'',
     hq_bearerToken = replicate 32 (CHR ''t''), hq_timeoutMs = 5000\<rparr>"

definition fixture_fetch :: "unit signer_fetch" where
  "fixture_fetch q v = (Inr \<lparr>sv_ok = True, sv_text = Inr ''{}''\<rparr>, v)"

definition fixture_signer_request :: signer_request where
  "fixture_signer_request = signer_request_of fixture_prepared"

definition fixture_signing ::
  "(exn + signer_response) \<times> unit \<times> signer_http_request list" where
  "fixture_signing = http_sign fixture_signer_host fixture_crypto (noting_fetch fixture_fetch)
     fixture_http_signer fixture_signer_request ((), [])"

lemma signer_asked_once_witness:
  "length (snd (snd fixture_signing)) = 1 \<and>
   (\<exists>s. fst fixture_signing = Inr s \<and> string_between 16 256 (rs_signature s))"
proof -
  have ok: "\<not> isl (fst fixture_signing)" by code_simp
  obtain r v sent where run: "fixture_signing = (r, (v, sent))" by (cases fixture_signing) auto
  from signer_asked_once [OF run [unfolded fixture_signing_def]] ok show ?thesis
    by (cases r) (auto simp: run)
qed

end
