(* ===== verification/Worker_Startup.thy ===== *)
theory Worker_Startup
  imports Wax_Chain Http_Signer Projector_Worker Hafah_Source Match_Worker
begin

text \<open>
  What the two workers build from their configuration (\<open>haf-projector/src/main.ts\<close> and
  \<open>match-publisher/src/main.ts\<close>): the checks a configuration passes are those the constructors and
  the gateway make again, so a configuration that loads never stops a worker later on.
\<close>

section \<open>The projector's parts\<close>

definition hafah_config_of :: "haf_projector_config \<Rightarrow> hafah_config" where
  "hafah_config_of c = \<lparr>hc_sourceName = hp_sourceName c, hc_hafahApiUrl = hp_hafahApiUrl c,
     hc_hiveRpcUrl = hp_hiveRpcUrl c, hc_operationTypeIds = hp_operationTypeIds c,
     hc_pageSize = Some (hp_pageSize c), hc_timeoutMs = Some (hp_requestTimeoutMs c),
     hc_allowHttpForTests = None\<rparr>"

definition projector_options_of :: "haf_projector_config \<Rightarrow> projector_worker_options" where
  "projector_options_of c = \<lparr>wo_pollIntervalMs = hp_pollIntervalMs c,
     wo_initialFailureBackoffMs = hp_initialFailureBackoffMs c,
     wo_maximumFailureBackoffMs = hp_maximumFailureBackoffMs c\<rparr>"

section \<open>The publisher's parts\<close>

definition authorization_of :: "match_publisher_config \<Rightarrow> authorization" where
  "authorization_of c = \<lparr>au_mode = Official_Service, au_role = Match_Publisher,
     au_account = mp_publisherAccount c, au_authority = Posting,
     au_expectedPublicKey = mp_publisherPublicKey c, au_signerKeyReference = mp_signerKeyReference c,
     au_policyVersion = mp_signerPolicyVersion c\<rparr>"

definition batch_policy_of :: "match_publisher_config \<Rightarrow> ('u, string) action \<Rightarrow> 'u batch_policy" where
  "batch_policy_of c nextUuid = \<lparr>bp_publisherAccount = mp_publisherAccount c,
     bp_maximumAgeMs = mp_batchMaximumAgeMs c, bp_maximumResults = mp_batchMaximumResults c,
     bp_maximumPayloadBytes = mp_batchMaximumPayloadBytes c, bp_nextUuidV7 = nextUuid\<rparr>"

definition wax_config_of :: "match_publisher_config \<Rightarrow> wax_config" where
  "wax_config_of c = \<lparr>wc_apiEndpoint = mp_hiveRpcUrl c, wc_chainId = mp_hiveChainId c,
     wc_apiTimeoutMs = Some (mp_hiveApiTimeoutMs c), wc_restApiEndpoint = mp_hiveRestApiUrl c,
     wc_waxApiCaller = Some ''hive-chameleon-match-publisher''\<rparr>"

definition worker_of ::
  "host \<Rightarrow> match_publisher_config \<Rightarrow> ('c \<times> 'w) publication_store \<Rightarrow> 'c chain_port \<Rightarrow> 'w signer_client \<Rightarrow>
   ('c \<times> 'w, string) action \<Rightarrow> ('c \<times> 'w \<Rightarrow> int \<times> ('c \<times> 'w)) \<Rightarrow> ('c, 'w) worker" where
  "worker_of H c store chain signer nextUuid now = \<lparr>mw_host = H, mw_store = store, mw_chain = chain,
     mw_signer = signer, mw_authorization = authorization_of c,
     mw_batchPolicy = batch_policy_of c nextUuid,
     mw_transactionExpirationSeconds = mp_transactionExpirationSeconds c,
     mw_claimLeaseMs = mp_claimLeaseMs c, mw_initialRetryBackoffMs = mp_initialRetryBackoffMs c,
     mw_maximumRetryBackoffMs = mp_maximumRetryBackoffMs c, mw_nextUuidV7 = nextUuid, mw_now = now\<rparr>"

section \<open>What a loaded configuration holds\<close>

text \<open>The text of a URL parses to that URL again.\<close>

definition urls_stable :: "host \<Rightarrow> bool" where
  "urls_stable H \<longleftrightarrow> (\<forall>v url. parse_url H v = Some url \<longrightarrow> parse_url H (url_href url) = Some url)"

lemma https_url_stable:
  assumes "https_url cls H v field = Inr t" and "urls_stable H"
  shows "\<exists>url. parse_url H t = Some url \<and> bare_https url"
  using https_url_Inr [OF assms(1)] assms(2) by (auto simp: urls_stable_def)

lemma each_value_Inr:
  "each_value f xs = Inr ys \<Longrightarrow> list_all2 (\<lambda>x y. f x = Inr y) xs ys"
  by (induction xs arbitrary: ys) (auto simp: ebind_eq_Inr)

lemma parseIntegerList_Inr:
  assumes "hp_parseIntegerList v field = Inr ns"
  shows "ns \<noteq> [] \<and> distinct ns \<and> (\<forall>n \<in> set ns. 0 \<le> n)"
proof -
  from assms have parsed: "each_value (\<lambda>entry. hp_parseInteger (Some entry) field 0 0 2147483647)
      (map js_trim (js_split (CHR '','') v)) = Inr ns" and "distinct ns"
    by (auto simp: hp_parseIntegerList_def Let_def ebind_eq_Inr)
  note all = each_value_Inr [OF parsed]
  from list_all2_lengthD [OF all] have "ns \<noteq> []" by auto
  moreover have "0 \<le> n" if n: "n \<in> set ns" for n
  proof -
    from n obtain i where i: "i < length ns" "ns ! i = n" by (auto simp: in_set_conv_nth)
    from list_all2_nthD2 [OF all i(1)] i(2) obtain entry
      where "hp_parseInteger (Some entry) field 0 0 2147483647 = Inr n" by auto
    then show ?thesis unfolding hp_parseInteger_def by (blast dest: bounded_integer_Inr)
  qed
  ultimately show ?thesis using \<open>distinct ns\<close> by blast
qed

text \<open>The settings of the projector that its parts look at, as the readers gave them.\<close>

lemma projector_config_reads:
  assumes "loadHafProjectorConfig H query env = Inr c"
  obtains hafah rpc types where
    "hp_source_pattern (hp_sourceName c)"
    "hp_parseHttpsUrl H hafah ''HAF_PROJECTOR_HAFAH_API_URL'' = Inr (hp_hafahApiUrl c)"
    "hp_parseHttpsUrl H rpc ''HAF_PROJECTOR_HIVE_RPC_URL'' = Inr (hp_hiveRpcUrl c)"
    "hp_parseIntegerList types ''HAF_PROJECTOR_OPERATION_TYPE_IDS'' = Inr (hp_operationTypeIds c)"
    "hp_integer env ''HAF_PROJECTOR_PAGE_SIZE'' 1000 1 10000 = Inr (hp_pageSize c)"
    "hp_integer env ''HAF_PROJECTOR_REQUEST_TIMEOUT_MS'' 5000 100 120000 = Inr (hp_requestTimeoutMs c)"
    "hp_integer env ''HAF_PROJECTOR_POLL_INTERVAL_MS'' 1000 100 300000 = Inr (hp_pollIntervalMs c)"
    "hp_integer env ''HAF_PROJECTOR_INITIAL_FAILURE_BACKOFF_MS'' 1000 100 300000 =
       Inr (hp_initialFailureBackoffMs c)"
    "hp_integer env ''HAF_PROJECTOR_MAXIMUM_FAILURE_BACKOFF_MS'' 30000 100 900000 =
       Inr (hp_maximumFailureBackoffMs c)"
    "hp_initialFailureBackoffMs c \<le> hp_maximumFailureBackoffMs c"
  using assms unfolding loadHafProjectorConfig_def ebind_eq_Inr ensure_eq_Inr
  apply (elim exE conjE)
  apply (drule sum.inject(2) [THEN iffD1])
  apply hypsubst
  apply (rule that)
  apply (simp_all only: haf_projector_config.simps not_less)
  done

lemma hp_integer_Inr:
  "hp_integer env field fallback lo hi = Inr n \<Longrightarrow> is_safe_integer n \<and> lo \<le> n \<and> n \<le> hi"
  unfolding hp_integer_def hp_parseInteger_def by (rule bounded_integer_Inr)

lemma mp_integer_Inr:
  "mp_integer env field fallback lo hi = Inr n \<Longrightarrow> is_safe_integer n \<and> lo \<le> n \<and> n \<le> hi"
  unfolding mp_integer_def mp_integer_of_def by (rule bounded_integer_Inr)

lemma hp_url_accepted:
  assumes "hp_parseHttpsUrl H v field = Inr t" and "urls_stable H"
  shows "\<exists>url. validateUrl H t False = Inr url \<and> parse_url H t = Some url"
  using https_url_stable [OF assms(1) [unfolded hp_parseHttpsUrl_def] assms(2)]
  by (auto simp: validateUrl_def bare_https_def Let_def)

text \<open>
  C36. A projector configuration that loads is one its parts accept: in every environment the source and
  the worker are built, with the addresses, the operation types, the page size, the timeout and the
  pauses of the configuration.
\<close>

theorem projector_starts:
  assumes "loadHafProjectorConfig H query env = Inr c" and "urls_stable H"
  shows "\<exists>apiBase rpcUrl.
    parse_url H (hp_hiveRpcUrl c) = Some rpcUrl \<and>
    normalizeBaseUrl H (hp_hafahApiUrl c) False = Inr apiBase \<and>
    HafahHttpSource_new H production (hafah_config_of c) = Inr \<lparr>hs_sourceName = hp_sourceName c,
      hs_apiBase = apiBase, hs_rpcUrl = rpcUrl, hs_operationTypeIds = hp_operationTypeIds c,
      hs_pageSize = hp_pageSize c, hs_timeoutMs = hp_requestTimeoutMs c\<rparr> \<and>
    HafProjectorWorker_new (projector_options_of c) = Inr (projector_options_of c)"
proof -
  from projector_config_reads [OF assms(1)] obtain hafah rpc types where
    name: "hp_source_pattern (hp_sourceName c)" and
    urls: "hp_parseHttpsUrl H hafah ''HAF_PROJECTOR_HAFAH_API_URL'' = Inr (hp_hafahApiUrl c)"
      "hp_parseHttpsUrl H rpc ''HAF_PROJECTOR_HIVE_RPC_URL'' = Inr (hp_hiveRpcUrl c)" and
    types: "hp_parseIntegerList types ''HAF_PROJECTOR_OPERATION_TYPE_IDS'' =
      Inr (hp_operationTypeIds c)" and
    page: "hp_integer env ''HAF_PROJECTOR_PAGE_SIZE'' 1000 1 10000 = Inr (hp_pageSize c)" and
    timeout: "hp_integer env ''HAF_PROJECTOR_REQUEST_TIMEOUT_MS'' 5000 100 120000 =
      Inr (hp_requestTimeoutMs c)" and
    pauses: "hp_integer env ''HAF_PROJECTOR_POLL_INTERVAL_MS'' 1000 100 300000 = Inr (hp_pollIntervalMs c)"
      "hp_integer env ''HAF_PROJECTOR_INITIAL_FAILURE_BACKOFF_MS'' 1000 100 300000 =
        Inr (hp_initialFailureBackoffMs c)"
      "hp_integer env ''HAF_PROJECTOR_MAXIMUM_FAILURE_BACKOFF_MS'' 30000 100 900000 =
        Inr (hp_maximumFailureBackoffMs c)"
      "hp_initialFailureBackoffMs c \<le> hp_maximumFailureBackoffMs c" .
  from hp_url_accepted [OF urls(1) assms(2)] obtain api
    where api: "validateUrl H (hp_hafahApiUrl c) False = Inr api" by blast
  from hp_url_accepted [OF urls(2) assms(2)] obtain rpcUrl
    where rpcUrl: "validateUrl H (hp_hiveRpcUrl c) False = Inr rpcUrl"
      "parse_url H (hp_hiveRpcUrl c) = Some rpcUrl" by blast
  obtain apiBase where base: "normalizeBaseUrl H (hp_hafahApiUrl c) False = Inr apiBase"
    by (simp add: normalizeBaseUrl_def api)
  have "source_name_pattern (hp_sourceName c)"
    using name by (simp add: hp_source_pattern_def source_name_pattern_def)
  with rpcUrl base parseIntegerList_Inr [OF types] hp_integer_Inr [OF page] hp_integer_Inr [OF timeout]
  have "HafahHttpSource_new H production (hafah_config_of c) = Inr \<lparr>hs_sourceName = hp_sourceName c,
      hs_apiBase = apiBase, hs_rpcUrl = rpcUrl, hs_operationTypeIds = hp_operationTypeIds c,
      hs_pageSize = hp_pageSize c, hs_timeoutMs = hp_requestTimeoutMs c\<rparr>"
    by (simp add: HafahHttpSource_new_def hafah_config_of_def list_ex_iff linorder_not_less)
  moreover from hp_integer_Inr [OF pauses(1)] hp_integer_Inr [OF pauses(2)] hp_integer_Inr [OF pauses(3)]
    pauses(4)
  have "HafProjectorWorker_new (projector_options_of c) = Inr (projector_options_of c)"
    by (simp add: HafProjectorWorker_new_def assertWorkerOptions_def projector_options_of_def)
  ultimately show ?thesis using rpcUrl base by blast
qed

text \<open>A configuration as the deployment sets it, and the URLs it names.\<close>

definition startup_url :: "string \<Rightarrow> url option" where
  "startup_url s =
     (if s = ''postgres://db/hc?sslmode=require''
      then Some \<lparr>url_protocol = ''postgres:'', url_username = [], url_password = [],
        url_hostname = ''db'', url_pathname = ''/hc'', url_search = ''?sslmode=require'', url_hash = [],
        url_href = s\<rparr>
      else fixture_url s)"

definition startup_host :: host where
  "startup_host = fixture_host\<lparr>parse_url := startup_url\<rparr>"

definition startup_query :: query_reader where
  "startup_query search name =
     (if search = ''?sslmode=require'' \<and> name = ''sslmode'' then Some ''require'' else None)"

lemma startup_urls_stable: "urls_stable startup_host"
  by (auto simp: urls_stable_def startup_host_def startup_url_def fixture_url_def split: if_splits)

definition startup_environment :: "(string \<times> string) list" where
  "startup_environment =
     [(''NODE_ENV'', ''production''), (''DATABASE_URL'', ''postgres://db/hc?sslmode=require''),
      (''HAF_PROJECTOR_HAFAH_API_URL'', ''https://hafah.example/''),
      (''HAF_PROJECTOR_HIVE_RPC_URL'', ''https://rpc.example/''),
      (''HAF_PROJECTOR_SOURCE_NAME'', ''hive-mainnet''),
      (''HAF_PROJECTOR_OPERATION_TYPE_IDS'', ''18, 10''),
      (''HAF_PROJECTOR_MATCH_PUBLISHERS'', ''match-pub''),
      (''HAF_PROJECTOR_COLLECTIBLE_ISSUERS'', '' ''),
      (''HAF_PROJECTOR_INITIAL_FAILURE_BACKOFF_MS'', ''1000''),
      (''HAF_PROJECTOR_MAXIMUM_FAILURE_BACKOFF_MS'', ''30000''),
      (''HAF_PROJECTOR_DATABASE_POOL_MAX'', ''10''),
      (''HAF_PROJECTOR_DATABASE_CONNECTION_TIMEOUT_MS'', ''5000''),
      (''HAF_PROJECTOR_PAGE_SIZE'', ''500''), (''HAF_PROJECTOR_REQUEST_TIMEOUT_MS'', ''5000''),
      (''HAF_PROJECTOR_MAX_BLOCKS_PER_RUN'', ''50''), (''HAF_PROJECTOR_MAX_REORG_DEPTH'', ''200''),
      (''HAF_PROJECTOR_MAXIMUM_FUTURE_CLOCK_SKEW_MS'', ''0''),
      (''HAF_PROJECTOR_POLL_INTERVAL_MS'', ''1000'')]"

definition started_projector :: "exn + haf_projector_config" where
  "started_projector =
     loadHafProjectorConfig startup_host startup_query (map_of startup_environment)"

text \<open>An explicit setting is read without its default.\<close>

lemma hp_integer_eq:
  assumes "case env field of None \<Rightarrow> False | Some t \<Rightarrow> decimal_pattern t \<and>
    parse_decimal_from 0 t = n \<and> is_safe_integer n \<and> lo \<le> n \<and> n \<le> hi"
  shows "hp_integer env field fallback lo hi = Inr n"
  using assms
  by (auto simp: hp_integer_def hp_parseInteger_def bounded_integer_def Let_def split: option.splits)

lemma startup_texts:
  "hp_parseNodeEnvironment (map_of startup_environment ''NODE_ENV'') = Inr Production_Env"
  "hp_required (map_of startup_environment) ''DATABASE_URL'' False =
     Inr ''postgres://db/hc?sslmode=require''"
  "hp_parseDatabaseUrl startup_host startup_query ''postgres://db/hc?sslmode=require'' Production_Env =
     Inr ''postgres://db/hc?sslmode=require''"
  "hp_required (map_of startup_environment) ''HAF_PROJECTOR_HAFAH_API_URL'' False =
     Inr ''https://hafah.example/''"
  "hp_parseHttpsUrl startup_host ''https://hafah.example/'' ''HAF_PROJECTOR_HAFAH_API_URL'' =
     Inr ''https://hafah.example/''"
  "hp_required (map_of startup_environment) ''HAF_PROJECTOR_HIVE_RPC_URL'' False =
     Inr ''https://rpc.example/''"
  "hp_parseHttpsUrl startup_host ''https://rpc.example/'' ''HAF_PROJECTOR_HIVE_RPC_URL'' =
     Inr ''https://rpc.example/''"
  "hp_required (map_of startup_environment) ''HAF_PROJECTOR_SOURCE_NAME'' False = Inr ''hive-mainnet''"
  "hp_source_pattern ''hive-mainnet''"
  "hp_required (map_of startup_environment) ''HAF_PROJECTOR_OPERATION_TYPE_IDS'' False = Inr ''18, 10''"
  "hp_parseIntegerList ''18, 10'' ''HAF_PROJECTOR_OPERATION_TYPE_IDS'' = Inr [18, 10]"
  "hp_required (map_of startup_environment) ''HAF_PROJECTOR_MATCH_PUBLISHERS'' True = Inr ''match-pub''"
  "hp_parseAccountList ''match-pub'' ''HAF_PROJECTOR_MATCH_PUBLISHERS'' = Inr [''match-pub'']"
  "hp_required (map_of startup_environment) ''HAF_PROJECTOR_COLLECTIBLE_ISSUERS'' True = Inr ''''"
  "hp_parseAccountList '''' ''HAF_PROJECTOR_COLLECTIBLE_ISSUERS'' = Inr []"
  by code_simp+

lemma startup_numbers:
  "hp_integer (map_of startup_environment) ''HAF_PROJECTOR_INITIAL_FAILURE_BACKOFF_MS'' k 100 300000 =
     Inr 1000"
  "hp_integer (map_of startup_environment) ''HAF_PROJECTOR_MAXIMUM_FAILURE_BACKOFF_MS'' k 100 900000 =
     Inr 30000"
  "hp_integer (map_of startup_environment) ''HAF_PROJECTOR_DATABASE_POOL_MAX'' k 1 100 = Inr 10"
  "hp_integer (map_of startup_environment) ''HAF_PROJECTOR_DATABASE_CONNECTION_TIMEOUT_MS'' k 100 120000 =
     Inr 5000"
  "hp_integer (map_of startup_environment) ''HAF_PROJECTOR_PAGE_SIZE'' k 1 10000 = Inr 500"
  "hp_integer (map_of startup_environment) ''HAF_PROJECTOR_REQUEST_TIMEOUT_MS'' k 100 120000 = Inr 5000"
  "hp_integer (map_of startup_environment) ''HAF_PROJECTOR_MAX_BLOCKS_PER_RUN'' k 1 10000 = Inr 50"
  "hp_integer (map_of startup_environment) ''HAF_PROJECTOR_MAX_REORG_DEPTH'' k 1 10000 = Inr 200"
  "hp_integer (map_of startup_environment) ''HAF_PROJECTOR_MAXIMUM_FUTURE_CLOCK_SKEW_MS'' k 0 3600000 =
     Inr 0"
  "hp_integer (map_of startup_environment) ''HAF_PROJECTOR_POLL_INTERVAL_MS'' k 100 300000 = Inr 1000"
  by (rule hp_integer_eq; code_simp)+

lemma started_projector_reads:
  "\<exists>c. started_projector = Inr c \<and> hp_pageSize c = 500 \<and> hp_operationTypeIds c = [18, 10]"
  by (simp add: started_projector_def loadHafProjectorConfig_def startup_texts startup_numbers)

lemma projector_starts_witness:
  "\<exists>c s. started_projector = Inr c \<and>
     HafahHttpSource_new startup_host True (hafah_config_of c) = Inr s \<and> hs_pageSize s = 500 \<and>
     hs_operationTypeIds s = [18, 10] \<and>
     HafProjectorWorker_new (projector_options_of c) = Inr (projector_options_of c)"
proof -
  from started_projector_reads obtain c where c: "started_projector = Inr c" "hp_pageSize c = 500"
    "hp_operationTypeIds c = [18, 10]" by blast
  from projector_starts [OF c(1) [unfolded started_projector_def] startup_urls_stable, of True] c
  show ?thesis by auto
qed

section \<open>The publisher starts\<close>

text \<open>The settings of the publisher that its parts look at, as the readers gave them.\<close>

lemma publisher_config_reads:
  assumes "loadMatchPublisherConfig H query env = Inr c"
  obtains rpc signer chain key reference version where
    "hiveAccountSchema (mp_publisherAccount c)"
    "mp_httpsUrl H rpc ''MATCH_PUBLISHER_HIVE_RPC_URL'' = Inr (mp_hiveRpcUrl c)"
    "\<And>u. mp_hiveRestApiUrl c = Some u \<Longrightarrow>
       \<exists>rest. mp_httpsUrl H rest ''MATCH_PUBLISHER_HIVE_REST_API_URL'' = Inr u"
    "mp_chainId chain = Inr (mp_hiveChainId c)"
    "mp_integer env ''MATCH_PUBLISHER_HIVE_API_TIMEOUT_MS'' 5000 100 120000 = Inr (mp_hiveApiTimeoutMs c)"
    "mp_bounded key ''MATCH_PUBLISHER_PUBLIC_KEY'' 16 128 = Inr (mp_publisherPublicKey c)"
    "mp_bounded reference ''MATCH_PUBLISHER_SIGNER_KEY_REFERENCE'' 1 256 = Inr (mp_signerKeyReference c)"
    "mp_policyVersion version ''MATCH_PUBLISHER_SIGNER_POLICY_VERSION'' = Inr (mp_signerPolicyVersion c)"
    "mp_httpsUrl H signer ''MATCH_PUBLISHER_SIGNER_URL'' = Inr (mp_signerUrl c)"
    "\<not> (length (mp_signerBearerToken c) < 32 \<or> length (mp_signerBearerToken c) > 4096)"
    "mp_integer env ''MATCH_PUBLISHER_SIGNER_TIMEOUT_MS'' 5000 100 120000 = Inr (mp_signerTimeoutMs c)"
    "mp_integer env ''MATCH_PUBLISHER_BATCH_MAXIMUM_AGE_MS'' 300000 1000 3600000 =
       Inr (mp_batchMaximumAgeMs c)"
    "mp_integer env ''MATCH_PUBLISHER_BATCH_MAXIMUM_RESULTS'' 20 1 20 = Inr (mp_batchMaximumResults c)"
    "mp_integer env ''MATCH_PUBLISHER_BATCH_MAXIMUM_PAYLOAD_BYTES'' (6 * 1024) 512 (6 * 1024) =
       Inr (mp_batchMaximumPayloadBytes c)"
    "mp_integer env ''MATCH_PUBLISHER_TRANSACTION_EXPIRATION_SECONDS'' 300 10 3600 =
       Inr (mp_transactionExpirationSeconds c)"
  using assms unfolding loadMatchPublisherConfig_def mp_text_def ebind_eq_Inr ensure_eq_Inr
  apply (elim exE conjE)
  apply (drule sum.inject(2) [THEN iffD1])
  apply hypsubst
  apply (rule that)
  apply (simp_all only: match_publisher_config.simps)
  apply (auto simp: ebind_eq_Inr split: option.splits)
  done

lemma mp_url_stable:
  assumes "mp_httpsUrl H v field = Inr t" and "urls_stable H"
  obtains url where "parse_url H t = Some url" "bare_https url" "url_href url = t"
  using https_url_Inr [OF assms(1) [unfolded mp_httpsUrl_def]] assms(2) that
  by (auto simp: urls_stable_def)

lemma endpoint_accepted:
  assumes "mp_httpsUrl H v field = Inr t" and "urls_stable H"
  shows "assertEndpoint H t = Inr ()"
  using mp_url_stable [OF assms] by (auto simp: assertEndpoint_def bare_https_def ebind_eq_Inr)

text \<open>
  A match publisher configuration that loads is one its parts accept: the worker, the chain adapter
  and the signer client are built with its settings, its batch policy is valid, and the gateway
  finds its authorization well-formed for every intent under its policy version.
\<close>

theorem publisher_starts:
  assumes "loadMatchPublisherConfig H query env = Inr c" and "urls_stable H"
  shows "MatchPublisherWorker_new (worker_of H c store chain signer nextUuid now) =
      Inr (worker_of H c store chain signer nextUuid now) \<and>
    validatePolicy (batch_policy_of c nextUuid) = Inr () \<and>
    WaxHiveChainAdapter_new H create (wax_config_of c) =
      Inr (wax_adapter H (create (wax_config_of c) (mp_hiveApiTimeoutMs c))) \<and>
    HttpIsolatedSignerClient_new H (mp_signerUrl c) (mp_signerBearerToken c)
      (Some (mp_signerTimeoutMs c)) = Inr \<lparr>hq_endpoint = mp_signerUrl c,
        hq_bearerToken = mp_signerBearerToken c, hq_timeoutMs = mp_signerTimeoutMs c\<rparr> \<and>
    10 \<le> mp_transactionExpirationSeconds c \<and> mp_transactionExpirationSeconds c \<le> 3600 \<and>
    (\<forall>i. idempotencyKeySchema (in_idempotencyKey i) \<and> in_policyVersion i = mp_signerPolicyVersion c \<longrightarrow>
       assertAuthorizationShape i (authorization_of c) = Inr ())"
proof -
  from assms(1) obtain rpc signer' chain' key reference version where
    account: "hiveAccountSchema (mp_publisherAccount c)" and
    rpc: "mp_httpsUrl H rpc ''MATCH_PUBLISHER_HIVE_RPC_URL'' = Inr (mp_hiveRpcUrl c)" and
    rest: "\<And>u. mp_hiveRestApiUrl c = Some u \<Longrightarrow>
      \<exists>v. mp_httpsUrl H v ''MATCH_PUBLISHER_HIVE_REST_API_URL'' = Inr u" and
    chain': "mp_chainId chain' = Inr (mp_hiveChainId c)" and
    timeout: "mp_integer env ''MATCH_PUBLISHER_HIVE_API_TIMEOUT_MS'' 5000 100 120000 =
      Inr (mp_hiveApiTimeoutMs c)" and
    key: "mp_bounded key ''MATCH_PUBLISHER_PUBLIC_KEY'' 16 128 = Inr (mp_publisherPublicKey c)" and
    reference: "mp_bounded reference ''MATCH_PUBLISHER_SIGNER_KEY_REFERENCE'' 1 256 =
      Inr (mp_signerKeyReference c)" and
    version: "mp_policyVersion version ''MATCH_PUBLISHER_SIGNER_POLICY_VERSION'' =
      Inr (mp_signerPolicyVersion c)" and
    signer: "mp_httpsUrl H signer' ''MATCH_PUBLISHER_SIGNER_URL'' = Inr (mp_signerUrl c)"
      "\<not> (length (mp_signerBearerToken c) < 32 \<or> length (mp_signerBearerToken c) > 4096)"
      "mp_integer env ''MATCH_PUBLISHER_SIGNER_TIMEOUT_MS'' 5000 100 120000 =
        Inr (mp_signerTimeoutMs c)" and
    batch: "mp_integer env ''MATCH_PUBLISHER_BATCH_MAXIMUM_AGE_MS'' 300000 1000 3600000 =
        Inr (mp_batchMaximumAgeMs c)"
      "mp_integer env ''MATCH_PUBLISHER_BATCH_MAXIMUM_RESULTS'' 20 1 20 = Inr (mp_batchMaximumResults c)"
      "mp_integer env ''MATCH_PUBLISHER_BATCH_MAXIMUM_PAYLOAD_BYTES'' (6 * 1024) 512 (6 * 1024) =
        Inr (mp_batchMaximumPayloadBytes c)" and
    expiry: "mp_integer env ''MATCH_PUBLISHER_TRANSACTION_EXPIRATION_SECONDS'' 300 10 3600 =
      Inr (mp_transactionExpirationSeconds c)"
    by (rule publisher_config_reads) blast
  have "MatchPublisherWorker_new (worker_of H c store chain signer nextUuid now) =
      Inr (worker_of H c store chain signer nextUuid now)"
    by (simp add: MatchPublisherWorker_new_def worker_of_def authorization_of_def batch_policy_of_def)
  moreover have "validatePolicy (batch_policy_of c nextUuid) = Inr ()"
    using mp_integer_Inr [OF batch(1)] mp_integer_Inr [OF batch(2)] mp_integer_Inr [OF batch(3)]
    by (simp add: validatePolicy_def batch_policy_of_def)
  moreover have "WaxHiveChainAdapter_new H create (wax_config_of c) =
      Inr (wax_adapter H (create (wax_config_of c) (mp_hiveApiTimeoutMs c)))"
    using endpoint_accepted [OF rpc assms(2)] rest endpoint_accepted [OF _ assms(2)] chain'
      mp_integer_Inr [OF timeout]
    by (auto simp: WaxHiveChainAdapter_new_def wax_config_of_def mp_chainId_def ebind_eq_Inr Let_def
        split: option.splits)
  moreover have "HttpIsolatedSignerClient_new H (mp_signerUrl c) (mp_signerBearerToken c)
      (Some (mp_signerTimeoutMs c)) = Inr \<lparr>hq_endpoint = mp_signerUrl c,
        hq_bearerToken = mp_signerBearerToken c, hq_timeoutMs = mp_signerTimeoutMs c\<rparr>"
    using mp_url_stable [OF signer(1) assms(2)] signer(2) mp_integer_Inr [OF signer(3)]
    by (auto simp: HttpIsolatedSignerClient_new_def validateSignerEndpoint_def bare_https_def
        ebind_eq_Inr)
  moreover have "assertAuthorizationShape i (authorization_of c) = Inr ()"
    if "idempotencyKeySchema (in_idempotencyKey i)" "in_policyVersion i = mp_signerPolicyVersion c" for i
    using that account key reference version
    by (auto simp: assertAuthorizationShape_def authorization_of_def mp_bounded_def mp_policyVersion_def
        policyVersionSchema_def publicKeySchema_def keyReferenceSchema_def string_between_def
        ebind_eq_Inr Suc_le_eq)
  ultimately show ?thesis using mp_integer_Inr [OF expiry] by blast
qed

definition publisher_environment :: "(string \<times> string) list" where
  "publisher_environment =
     [(''NODE_ENV'', ''production''), (''DATABASE_URL'', ''postgres://db/hc?sslmode=require''),
      (''MATCH_PUBLISHER_HIVE_ACCOUNT'', ''match-pub''),
      (''MATCH_PUBLISHER_SIGNER_BEARER_TOKEN'', replicate 32 (CHR ''t'')),
      (''MATCH_PUBLISHER_HIVE_RPC_URL'', ''https://rpc.example/''),
      (''MATCH_PUBLISHER_HIVE_CHAIN_ID'', replicate 64 (CHR ''b'')),
      (''MATCH_PUBLISHER_PUBLIC_KEY'', replicate 53 (CHR ''K'')),
      (''MATCH_PUBLISHER_SIGNER_KEY_REFERENCE'', ''posting''),
      (''MATCH_PUBLISHER_SIGNER_POLICY_VERSION'', ''match-policy-1''),
      (''MATCH_PUBLISHER_SIGNER_URL'', ''https://signer.example/''),
      (''MATCH_PUBLISHER_INITIAL_RETRY_BACKOFF_MS'', ''1000''),
      (''MATCH_PUBLISHER_MAXIMUM_RETRY_BACKOFF_MS'', ''60000''),
      (''MATCH_PUBLISHER_DATABASE_POOL_MAX'', ''10''),
      (''MATCH_PUBLISHER_DATABASE_CONNECTION_TIMEOUT_MS'', ''5000''),
      (''MATCH_PUBLISHER_HIVE_API_TIMEOUT_MS'', ''5000''), (''MATCH_PUBLISHER_SIGNER_TIMEOUT_MS'', ''5000''),
      (''MATCH_PUBLISHER_BATCH_MAXIMUM_AGE_MS'', ''300000''),
      (''MATCH_PUBLISHER_BATCH_MAXIMUM_RESULTS'', ''20''),
      (''MATCH_PUBLISHER_BATCH_MAXIMUM_PAYLOAD_BYTES'', ''6144''),
      (''MATCH_PUBLISHER_TRANSACTION_EXPIRATION_SECONDS'', ''300''),
      (''MATCH_PUBLISHER_CLAIM_LEASE_MS'', ''120000''), (''MATCH_PUBLISHER_POLL_INTERVAL_MS'', ''1000'')]"

definition started_publisher :: "exn + match_publisher_config" where
  "started_publisher =
     loadMatchPublisherConfig startup_host startup_query (map_of publisher_environment)"

lemma mp_integer_eq:
  assumes "case env field of None \<Rightarrow> False | Some t \<Rightarrow> decimal_pattern t \<and>
    parse_decimal_from 0 t = n \<and> is_safe_integer n \<and> lo \<le> n \<and> n \<le> hi"
  shows "mp_integer env field fallback lo hi = Inr n"
  using assms
  by (auto simp: mp_integer_def mp_integer_of_def bounded_integer_def Let_def split: option.splits)

lemma publisher_texts:
  "mp_parseNodeEnvironment (map_of publisher_environment ''NODE_ENV'') = Inr Production_Env"
  "mp_required (map_of publisher_environment) ''MATCH_PUBLISHER_HIVE_ACCOUNT'' = Inr ''match-pub''"
  "hiveAccountSchema ''match-pub''"
  "mp_required (map_of publisher_environment) ''MATCH_PUBLISHER_SIGNER_BEARER_TOKEN'' =
     Inr (replicate 32 (CHR ''t''))"
  "mp_text (map_of publisher_environment) ''DATABASE_URL''
     (\<lambda>v. mp_databaseUrl_of startup_host startup_query v Production_Env) =
     Inr ''postgres://db/hc?sslmode=require''"
  "mp_text (map_of publisher_environment) ''MATCH_PUBLISHER_HIVE_RPC_URL''
     (\<lambda>v. mp_httpsUrl startup_host v ''MATCH_PUBLISHER_HIVE_RPC_URL'') = Inr ''https://rpc.example/''"
  "map_of publisher_environment ''MATCH_PUBLISHER_HIVE_REST_API_URL'' = None"
  "mp_text (map_of publisher_environment) ''MATCH_PUBLISHER_HIVE_CHAIN_ID'' mp_chainId =
     Inr (replicate 64 (CHR ''b''))"
  "mp_text (map_of publisher_environment) ''MATCH_PUBLISHER_PUBLIC_KEY''
     (\<lambda>v. mp_bounded v ''MATCH_PUBLISHER_PUBLIC_KEY'' 16 128) = Inr (replicate 53 (CHR ''K''))"
  "mp_text (map_of publisher_environment) ''MATCH_PUBLISHER_SIGNER_KEY_REFERENCE''
     (\<lambda>v. mp_bounded v ''MATCH_PUBLISHER_SIGNER_KEY_REFERENCE'' 1 256) = Inr ''posting''"
  "mp_text (map_of publisher_environment) ''MATCH_PUBLISHER_SIGNER_POLICY_VERSION''
     (\<lambda>v. mp_policyVersion v ''MATCH_PUBLISHER_SIGNER_POLICY_VERSION'') = Inr ''match-policy-1''"
  "mp_text (map_of publisher_environment) ''MATCH_PUBLISHER_SIGNER_URL''
     (\<lambda>v. mp_httpsUrl startup_host v ''MATCH_PUBLISHER_SIGNER_URL'') = Inr ''https://signer.example/''"
  by code_simp+

lemma publisher_numbers:
  "mp_integer (map_of publisher_environment) ''MATCH_PUBLISHER_INITIAL_RETRY_BACKOFF_MS'' k 100 300000 =
     Inr 1000"
  "mp_integer (map_of publisher_environment) ''MATCH_PUBLISHER_MAXIMUM_RETRY_BACKOFF_MS'' k 100 3600000 =
     Inr 60000"
  "mp_integer (map_of publisher_environment) ''MATCH_PUBLISHER_DATABASE_POOL_MAX'' k 1 100 = Inr 10"
  "mp_integer (map_of publisher_environment) ''MATCH_PUBLISHER_DATABASE_CONNECTION_TIMEOUT_MS'' k 100
     120000 = Inr 5000"
  "mp_integer (map_of publisher_environment) ''MATCH_PUBLISHER_HIVE_API_TIMEOUT_MS'' k 100 120000 =
     Inr 5000"
  "mp_integer (map_of publisher_environment) ''MATCH_PUBLISHER_SIGNER_TIMEOUT_MS'' k 100 120000 =
     Inr 5000"
  "mp_integer (map_of publisher_environment) ''MATCH_PUBLISHER_BATCH_MAXIMUM_AGE_MS'' k 1000 3600000 =
     Inr 300000"
  "mp_integer (map_of publisher_environment) ''MATCH_PUBLISHER_BATCH_MAXIMUM_RESULTS'' k 1 20 = Inr 20"
  "mp_integer (map_of publisher_environment) ''MATCH_PUBLISHER_BATCH_MAXIMUM_PAYLOAD_BYTES'' k 512
     6144 = Inr 6144"
  "mp_integer (map_of publisher_environment) ''MATCH_PUBLISHER_TRANSACTION_EXPIRATION_SECONDS'' k 10
     3600 = Inr 300"
  "mp_integer (map_of publisher_environment) ''MATCH_PUBLISHER_CLAIM_LEASE_MS'' k 1000 3600000 =
     Inr 120000"
  "mp_integer (map_of publisher_environment) ''MATCH_PUBLISHER_POLL_INTERVAL_MS'' k 100 300000 = Inr 1000"
  by (rule mp_integer_eq; code_simp)+

lemma started_publisher_reads:
  "\<exists>c. started_publisher = Inr c \<and> mp_publisherAccount c = ''match-pub'' \<and>
     mp_signerUrl c = ''https://signer.example/''"
  by (simp add: started_publisher_def loadMatchPublisherConfig_def publisher_texts publisher_numbers
      del: One_nat_def)

lemma publisher_starts_witness:
  "\<exists>c client. started_publisher = Inr c \<and> mp_publisherAccount c = ''match-pub'' \<and>
     HttpIsolatedSignerClient_new startup_host (mp_signerUrl c) (mp_signerBearerToken c)
       (Some (mp_signerTimeoutMs c)) = Inr client \<and> hq_endpoint client = ''https://signer.example/''"
proof -
  from started_publisher_reads obtain c where c: "started_publisher = Inr c"
    "mp_publisherAccount c = ''match-pub''" "mp_signerUrl c = ''https://signer.example/''" by blast
  note starts = publisher_starts [OF c(1) [unfolded started_publisher_def] startup_urls_stable]
  note client = starts [THEN conjunct2, THEN conjunct2, THEN conjunct2, THEN conjunct1]
  show ?thesis by (intro exI conjI, rule c(1), rule c(2), rule client) (simp add: c(3))
qed

end
