(* ===== verification/Spec2Isabelle.thy ===== *)
theory Spec2Isabelle
  imports Protocol_Properties Signer_Boundary Store_Properties Hafah_Properties Publisher_Runtime
    Projector_Worker Auth_Examples Api_Examples Provisioning_Examples Collectible_Properties Wax_Chain
    Http_Signer Worker_Startup
begin

text \<open>
  \<^bold>\<open>Hive Chameleon's services.\<close> The program is a game with a public record on the Hive blockchain. Its
  TypeScript services are an API (\<open>src/apps/api\<close>), the gateway package that everything signed goes
  through (\<open>src/packages/hive-gateway\<close>), and three workers (\<open>src/workers\<close>): the match publisher writes
  results to the chain, the collectible issuer writes collectibles, and the projector reads the chain
  back into PostgreSQL. The services share no memory. They meet in the tables of one database, in
  the events of the chain, and in the isolated signer, which alone has access to the keys.

  \<^bold>\<open>Conventions.\<close> A function that may throw gives a sum, \<open>Inl\<close> the exception (\<open>Base\<close>, \<open>Errors\<close>). Code with
  effects is an action: a function from a state to a result and a state, which keeps what was done
  before an exception (\<open>Effects\<close>). A port of the code (a repository, a chain, a signer, a clock, a
  provider of ids, a network) is a record of actions on a state of its own, so it may answer the same
  question differently every time. What the code takes from other packages and from the parts of
  the host it does not define is an argument: the record \<open>host\<close> of \<open>Host\<close> (canonicalize, JSON, dates, URLs,
  SHA-256 and zod's formats), the record \<open>crypto\<close> (HMAC, base64url decoding, \<open>JSON.stringify\<close>), and
  \<open>wax\<close> (the WAX library). What a theorem needs of them is one of its hypotheses: the laws of
  canonical JSON (\<open>codec_ok\<close>), of the token codec (\<open>codecs_ok\<close>) and of the length of an HMAC (\<open>hmac_sized\<close>) are each given a host on which they are proved. Tables are lists
  of rows in a record, a statement is a partial function on it that is undefined where a constraint or
  a trigger of \<open>src/infra/postgres/migrations\<close> refuses it, and a schedule of faults says which
  transactions are refused or lose their reply. Each operation has the name of the function it models,
  with a prefix where several files use one name: \<open>pg_\<close> and \<open>pub_\<close> for the PostgreSQL stores, \<open>hafah_\<close>
  for the HTTP source, \<open>as_\<close>, \<open>ds_\<close> and \<open>ob_\<close> for the services of the API, \<open>route_\<close>, \<open>onboarding_\<close> and
  \<open>realtime_\<close> for its controllers, \<open>hp_\<close> and \<open>mp_\<close> for the two configuration files of the workers.

  \<^bold>\<open>Gateway package.\<close> \<open>Protocol_Common\<close>, \<open>Protocol_Events\<close>, \<open>Protocol_Codec\<close> (\<open>protocol/*.ts\<close>,
  \<open>canonical/json.ts\<close>): the events, their schemas and canonical payloads; \<open>Protocol_Properties\<close> shows
  that payloads round-trip and that an accepted batch is ordered. \<open>Gateway_Contracts\<close>,
  \<open>Gateway_Policy\<close>, \<open>Signature\<close>, \<open>Gateway\<close> (\<open>contracts.ts\<close>, \<open>policy.ts\<close>, \<open>official-signer-policy.ts\<close>,
  \<open>signature.ts\<close>, \<open>gateway.ts\<close>): authorization, transactions and the broadcast, which comes only after
  the signature recovered the expected key. \<open>Signer_Boundary\<close> (\<open>signer-boundary.ts\<close>): the process next
  to the keys, as one action and as interleaved calls that may be lost; the locale \<open>signer_ledger\<close> is
  the contract of its ledger. \<open>Wax_Chain\<close> (\<open>wax-chain.ts\<close>) and \<open>Http_Signer\<close> (\<open>http-signer-client.ts\<close>)
  are the chain and the signer as they are run.

  \<^bold>\<open>Projector.\<close> \<open>Haf_Model\<close> has its data and ports and, as the locale \<open>store_contract\<close>, what it relies on
  in a store; \<open>Operation_Validator\<close> and \<open>Haf_Projector\<close> are the validator and one cycle, proved
  against that contract. \<open>Pg_Tables\<close>, \<open>Pg_Store\<close>, \<open>Pg_Finalize\<close> are the PostgreSQL store;
  \<open>Pg_Contract\<close> interprets the contract on it, \<open>Projection\<close> reads the cycle's facts there, \<open>Pg_Invariants\<close>
  and \<open>Store_Properties\<close> show what its transactions keep and which never commit. \<open>Hafah_Source\<close>,
  \<open>Hafah_Operations\<close>, \<open>Hafah_Properties\<close> are the HTTP source, \<open>Projector_Worker\<close> the loop with its
  pauses, \<open>Haf_Fixtures\<close> a source for the witnesses.

  \<^bold>\<open>Match publisher.\<close> \<open>Batch_Builder\<close> and \<open>Batch_Properties\<close> (\<open>batch-builder.ts\<close>): how a batch is cut.
  \<open>Publisher_Tables\<close>, \<open>Publisher_Store\<close> (\<open>postgres-publication-store.ts\<close>): its statements.
  \<open>Match_Worker\<close>, \<open>Match_Publisher\<close> (\<open>match-publisher-worker.ts\<close>): the loop, and that every cycle
  is a run of the store's operations in \<open>Publisher_Steps\<close>. \<open>Publisher_Invariants\<close>, \<open>Publisher_Properties\<close>,
  \<open>Publisher_Parked\<close>, \<open>Publisher_Trace\<close>, \<open>Publisher_Runtime\<close>: what any steps keep, in which order an
  attempt journals, signs and settles, and the rows on which the publisher waits or stalls.

  \<^bold>\<open>Collectible issuer.\<close> \<open>Collectible_Issuer\<close>, \<open>Collectible_Properties\<close> (\<open>workers/collectible-issuer/src\<close>):
  the commands, the journal, and that nothing is signed twice or unjournaled.

  \<^bold>\<open>Starting a worker.\<close> \<open>Worker_Config\<close>, \<open>Worker_Startup\<close> (\<open>config.ts\<close> and \<open>main.ts\<close> of the projector and
  of the publisher): a configuration that loads is one every constructor accepts.

  \<^bold>\<open>The API.\<close> \<open>Auth_Config\<close>, \<open>Auth_Token\<close>, \<open>Auth_Verifier\<close>, \<open>Auth_Repository\<close>, \<open>Auth_Service\<close>,
  \<open>Auth_Controller\<close>, \<open>Auth_Module\<close> (\<open>auth/*.ts\<close>) over \<open>Identity_Tables\<close>; \<open>Auth_Steps\<close> makes the
  tables a transition system whose traces are any interleaving of requests, \<open>Auth_Invariants\<close> has what
  every step keeps (the locale \<open>identity_relation\<close>, interpreted twice), \<open>Auth_Properties\<close> what follows for
  challenges, refresh tokens, sessions and logins. \<open>Onboarding\<close>, \<open>Provisioning\<close> and
  \<open>Provisioning_Store\<close> (\<open>provisioning/*.ts\<close>) are how a Google player gets a Hive account;
  \<open>Provisioning_Steps\<close> and \<open>Provisioning_Trace\<close> have the locales \<open>kept_relation\<close> and
  \<open>provisioning_relation\<close>, by which a relation every statement keeps is kept by runs and traces,
  \<open>Provisioning_Lifecycle\<close>, \<open>Provisioning_Keys\<close>, \<open>Provisioning_Properties\<close> and \<open>Provisioning_Ready\<close> what
  a job goes through. \<open>Realtime\<close>, \<open>Realtime_Properties\<close> (\<open>realtime/*.ts\<close>) are the sessions of the game
  server. \<open>Auth_Examples\<close>, \<open>Api_Examples\<close>, \<open>Provisioning_Examples\<close> and \<open>Fixtures\<close> hold the small worlds
  on which the properties are evaluated.

  \<^bold>\<open>Ends and bounds.\<close> The loop over operation pages of the HTTP source has no bound in the code; its
  recursion ends because every turn adds a page to those seen and the keys of pages are finitely
  many (\<open>page_space\<close>), whatever the network answers. The walk over delegated accounts recurs on the
  depth that is left, two at first. The workers' endless loops are run for a number of turns, the
  turns before the signal is aborted, and the theorems hold for every number. The digits of a
  number are printed by recursion on its quotient. All other recursion is on a smaller value of a
  datatype. Times are \<open>int\<close> milliseconds; the bit tests of \<open>signature.ts\<close> are on 32-bit words; safe
  integers are tested with \<open>is_safe_integer\<close>, where JavaScript rounds what is not safe to a number that
  is not safe.

  \<^bold>\<open>What is left out.\<close> Strings are code units below 256. Numbers are integers: a response or a setting
  with another number is refused like a text. Column types and widths (but for the two statements
  that fail whenever they run because of a type), grants and row-level rights,
  and triggers whose refusal the modelled statements cannot meet are not in the tables; a row lock
  is one that nobody else holds. Reads of the database do not fail on their own (a transaction may).
  \<open>withTransaction\<close> is the fault schedule; unique violations between two concurrent transactions are
  among its refusals. A deferred trigger checks all rows at the commit, not only those the
  transaction touched. The order of properties inside a JSON value is not kept, so
  \<open>JSON.stringify\<close> of one is a parameter. Timers that abort a request are an argument of the
  request; redirect and cache options of a request, a \<open>createHiveChain\<close> promise that is rejected and
  getters of WAX that throw are not modelled.
  Not modelled at all: the pool adapters, the modules that wire the API, its health check and CORS,
  signal handlers and console output, which are input and output; the in-memory store, a test double; the
  rest of the schema, which no TypeScript code uses; the Nakama modules in Go and the Unity client.
\<close>

end
